(* ===== verification/Prelude.thy ===== *)
theory Prelude
  imports Main "HOL-Library.Sublist"
begin

text \<open>
  What every component shares: the names of the basic types, the Python string operations the
  sources call, the result type of operations that can raise, and the table operations that stand
  for the ORM's querysets, with the collections of lemmas the component proofs use.

  A table is the list of its rows in the order they were created. A row is found by its primary key,
  a queryset filter is \<open>filter\<close>, \<open>exists()\<close> is \<open>list_ex\<close>, \<open>update()\<close> is \<^term>\<open>map\<close> with a guard.
  A text is a list of characters below U+0100, which holds every literal of the modelled sources
  but the arrow of one error message; an instant is a number of microseconds since 1970-01-01T00:00Z.
\<close>

section \<open>Names of the basic types\<close>

type_synonym id = nat
type_synonym str = string
type_synonym instant = int
type_synonym wall = int
type_synonym day = int

named_theorems row_simps \<open>how table updates act on lookups, filters and keys\<close>
named_theorems res_simps \<open>the outcome of operations that can raise\<close>
named_theorems frame_simps \<open>what an operation leaves unchanged\<close>

section \<open>Operations that can raise\<close>

definition bindE :: "'e + 'a \<Rightarrow> ('a \<Rightarrow> 'e + 'b) \<Rightarrow> 'e + 'b" where
  "bindE r k = (case r of Inl e \<Rightarrow> Inl e | Inr x \<Rightarrow> k x)"

lemma bindE_simps [simp]:
  "bindE (Inl e) k = Inl e"
  "bindE (Inr x) k = k x"
  by (simp_all add: bindE_def)

lemma bindE_eq_Inr [res_simps]: "bindE r k = Inr y \<longleftrightarrow> (\<exists>x. r = Inr x \<and> k x = Inr y)"
  by (cases r) simp_all

lemma bindE_eq_Inl [res_simps]:
  "bindE r k = Inl e \<longleftrightarrow> r = Inl e \<or> (\<exists>x. r = Inr x \<and> k x = Inl e)"
  by (cases r) simp_all

lemma bindE_cong [fundef_cong]:
  "r = r' \<Longrightarrow> (\<And>x. r' = Inr x \<Longrightarrow> k x = k' x) \<Longrightarrow> bindE r k = bindE r' k'"
  by (cases r') simp_all

definition of_option :: "'e \<Rightarrow> 'a option \<Rightarrow> 'e + 'a" where
  "of_option e r = (case r of None \<Rightarrow> Inl e | Some x \<Rightarrow> Inr x)"

lemma of_option_simps [simp]:
  "of_option e None = Inl e"
  "of_option e (Some x) = Inr x"
  by (simp_all add: of_option_def)

lemma of_option_eq_Inr [res_simps]: "of_option e r = Inr x \<longleftrightarrow> r = Some x"
  by (cases r) simp_all

lemma of_option_eq_Inl [res_simps]: "of_option e r = Inl e' \<longleftrightarrow> r = None \<and> e' = e"
  by (cases r) auto

text \<open>A loop whose body can raise stops at the first exception, as the Python \<open>for\<close> does.\<close>

fun foldE :: "('x \<Rightarrow> 's \<Rightarrow> 'e + 's) \<Rightarrow> 'x list \<Rightarrow> 's \<Rightarrow> 'e + 's" where
  "foldE f [] s = Inr s"
| "foldE f (x # xs) s = bindE (f x s) (foldE f xs)"

lemma foldE_invariant:
  assumes "foldE f xs s = Inr s'" "I s"
    and "\<And>x s s'. x \<in> set xs \<Longrightarrow> f x s = Inr s' \<Longrightarrow> I s \<Longrightarrow> I s'"
  shows "I s'"
  using assms by (induction xs arbitrary: s) (auto simp: res_simps)

section \<open>Python strings\<close>

definition py_isspace :: "char \<Rightarrow> bool" where
  "py_isspace c \<longleftrightarrow> of_char c \<in> {9::nat, 10, 11, 12, 13, 28, 29, 30, 31, 32, 133, 160}"

definition py_strip :: "str \<Rightarrow> str" where
  "py_strip s = rev (dropWhile py_isspace (rev (dropWhile py_isspace s)))"

definition py_rstrip_dot :: "str \<Rightarrow> str" where
  "py_rstrip_dot s = rev (dropWhile (\<lambda>c. c = CHR ''.'') (rev s))"

text \<open>\<open>str.casefold\<close> on the characters below U+0100 (the micro sign folds outside them and is kept).\<close>

definition fold_char :: "char \<Rightarrow> str" where
  "fold_char c =
     (let n = (of_char c :: nat)
      in if 65 \<le> n \<and> n \<le> 90 then [char_of (n + 32)]
         else if 192 \<le> n \<and> n \<le> 222 \<and> n \<noteq> 215 then [char_of (n + 32)]
         else if n = 223 then ''ss''
         else [c])"

definition py_casefold :: "str \<Rightarrow> str" where
  "py_casefold s = concat (map fold_char s)"

text \<open>\<open>str.split()\<close> and \<open>" ".join\<close>.\<close>

fun split_words :: "str \<Rightarrow> str \<Rightarrow> str list" where
  "split_words acc [] = (if acc = [] then [] else [rev acc])"
| "split_words acc (c # cs) =
     (if py_isspace c then (if acc = [] then split_words [] cs else rev acc # split_words [] cs)
      else split_words (c # acc) cs)"

definition py_split :: "str \<Rightarrow> str list" where
  "py_split s = split_words [] s"

fun py_join :: "str \<Rightarrow> str list \<Rightarrow> str" where
  "py_join sep [] = []"
| "py_join sep [x] = x"
| "py_join sep (x # xs) = x @ sep @ py_join sep xs"

definition collapse_spaces :: "str \<Rightarrow> str" where
  "collapse_spaces s = py_join '' '' (py_split s)"

text \<open>\<open>sep in value\<close> for texts, and \<open>value.rsplit("@", 1)\<close>.\<close>

definition contains_text :: "str \<Rightarrow> str \<Rightarrow> bool" where
  "contains_text needle s \<longleftrightarrow> sublist needle s"

definition rsplit_at :: "str \<Rightarrow> (str \<times> str) option" where
  "rsplit_at s =
     (if CHR ''@'' \<in> set s
      then Some (rev (tl (dropWhile (\<lambda>c. c \<noteq> CHR ''@'') (rev s))),
                 rev (takeWhile (\<lambda>c. c \<noteq> CHR ''@'') (rev s)))
      else None)"

lemma dropWhile_idem: "dropWhile P (dropWhile P xs) = dropWhile P xs"
  by (induction xs) auto

lemma dropWhile_snoc: "\<not> P c \<Longrightarrow> dropWhile P (xs @ [c]) = dropWhile P xs @ [c]"
  by (induction xs) auto

lemma py_strip_Nil [simp]: "py_strip [] = []"
  by (simp add: py_strip_def)

lemma py_strip_idem [simp]: "py_strip (py_strip s) = py_strip s"
proof (cases "dropWhile py_isspace s")
  case (Cons c cs)
  then have "\<not> py_isspace c" by (simp add: dropWhile_eq_Cons_conv)
  with Cons show ?thesis unfolding py_strip_def by (simp add: dropWhile_snoc dropWhile_idem)
next
  case Nil
  have "py_strip s = []" unfolding py_strip_def Nil by simp
  then show ?thesis by simp
qed

text \<open>A primary key rendered into a text (\<open>str(pk)\<close>), in decimal.\<close>

fun digits_of :: "nat \<Rightarrow> str" where
  "digits_of n =
     (if n < 10 then [char_of (48 + n)] else digits_of (n div 10) @ [char_of (48 + n mod 10)])"

declare digits_of.simps [simp del]

definition str_of_pk :: "id \<Rightarrow> str" where
  "str_of_pk n = digits_of n"

fun undigits :: "str \<Rightarrow> nat \<Rightarrow> nat" where
  "undigits [] n = n"
| "undigits (c # cs) n = undigits cs (10 * n + (of_char c - 48))"

lemma undigits_append: "undigits (xs @ ys) n = undigits ys (undigits xs n)"
  by (induction xs arbitrary: n) simp_all

lemma undigits_digits_of: "undigits (digits_of n) 0 = n"
proof (induction n rule: digits_of.induct)
  case (1 n)
  have "(of_char (char_of (48 + n mod 10) :: char) :: nat) = 48 + n mod 10"
    by (simp add: of_char_of)
  moreover have "n < 10 \<Longrightarrow> (of_char (char_of (48 + n) :: char) :: nat) = 48 + n"
    by (simp add: of_char_of)
  ultimately show ?case
    using 1 by (subst digits_of.simps) (auto simp: undigits_append)
qed

lemma str_of_pk_inject [simp]: "str_of_pk a = str_of_pk b \<longleftrightarrow> a = b"
  unfolding str_of_pk_def by (metis undigits_digits_of)

section \<open>Tables\<close>

definition t_get :: "('r \<Rightarrow> id) \<Rightarrow> id \<Rightarrow> 'r list \<Rightarrow> 'r option" where
  "t_get key k t = find (\<lambda>r. key r = k) t"

definition t_update :: "('r \<Rightarrow> bool) \<Rightarrow> ('r \<Rightarrow> 'r) \<Rightarrow> 'r list \<Rightarrow> 'r list" where
  "t_update P f t = map (\<lambda>r. if P r then f r else r) t"

definition t_save :: "('r \<Rightarrow> id) \<Rightarrow> id \<Rightarrow> ('r \<Rightarrow> 'r) \<Rightarrow> 'r list \<Rightarrow> 'r list" where
  "t_save key k f t = t_update (\<lambda>r. key r = k) f t"

text \<open>No two rows with \<open>P\<close> agree under \<open>f\<close>: a (partial) unique constraint.\<close>

definition unique_on :: "('r \<Rightarrow> bool) \<Rightarrow> ('r \<Rightarrow> 'k) \<Rightarrow> 'r list \<Rightarrow> bool" where
  "unique_on P f t \<longleftrightarrow> distinct (map f (filter P t))"

lemma find_Some_mem: "find P xs = Some x \<Longrightarrow> x \<in> set xs \<and> P x"
  by (induction xs) (auto split: if_splits)

lemma find_None_iff_all: "find P xs = None \<longleftrightarrow> (\<forall>x \<in> set xs. \<not> P x)"
  by (induction xs) auto

lemma find_update_same:
  assumes "\<And>r. key (f r) = key r"
  shows "find (\<lambda>r. key r = k) (t_update P f t)
       = map_option (\<lambda>r. if P r then f r else r) (find (\<lambda>r. key r = k) t)"
  unfolding t_update_def by (induction t) (auto simp: assms)

lemma t_get_update [row_simps]:
  "(\<And>r. key (f r) = key r) \<Longrightarrow>
   t_get key k (t_update P f t) = map_option (\<lambda>r. if P r then f r else r) (t_get key k t)"
  unfolding t_get_def by (rule find_update_same)

lemma t_get_key: "t_get key k t = Some r \<Longrightarrow> key r = k"
  unfolding t_get_def by (auto dest: find_Some_mem)

lemma t_get_save_same [row_simps]:
  assumes "\<And>r. key (f r) = key r"
  shows "t_get key k (t_save key k f t) = map_option f (t_get key k t)"
  unfolding t_save_def
  using assms by (cases "t_get key k t") (auto simp: t_get_update dest: t_get_key)

lemma t_get_save_other [row_simps]:
  assumes "\<And>r. key (f r) = key r" "k \<noteq> k'"
  shows "t_get key k (t_save key k' f t) = t_get key k t"
  unfolding t_save_def
  using assms by (cases "t_get key k t") (auto simp: t_get_update dest: t_get_key)

lemma t_get_mem: "t_get key k t = Some r \<Longrightarrow> r \<in> set t"
  unfolding t_get_def by (auto dest: find_Some_mem)

lemma t_get_append [row_simps]:
  "t_get key k (t @ [r]) = (case t_get key k t of Some x \<Rightarrow> Some x
                            | None \<Rightarrow> if key r = k then Some r else None)"
  unfolding t_get_def by (induction t) auto

lemma map_key_update [row_simps]:
  "(\<And>r. key (f r) = key r) \<Longrightarrow> map key (t_update P f t) = map key t"
  unfolding t_update_def by (induction t) auto

lemma map_key_save [row_simps]:
  "(\<And>r. key (f r) = key r) \<Longrightarrow> map key (t_save key k f t) = map key t"
  unfolding t_save_def by (rule map_key_update)

lemma length_t_update [simp]: "length (t_update P f t) = length t"
  by (simp add: t_update_def)

lemma length_t_save [simp]: "length (t_save key k f t) = length t"
  by (simp add: t_save_def)

lemma set_t_update [row_simps]: "set (t_update P f t) = (\<lambda>r. if P r then f r else r) ` set t"
  by (simp add: t_update_def)

lemma mem_t_update: "r \<in> set t \<Longrightarrow> (if P r then f r else r) \<in> set (t_update P f t)"
  by (simp add: t_update_def)

lemma mem_t_save: "r \<in> set t \<Longrightarrow> (if key r = k then f r else r) \<in> set (t_save key k f t)"
  unfolding t_save_def by (rule mem_t_update)

lemma t_updateE:
  assumes "r \<in> set (t_update P f t)"
  obtains (kept) "r \<in> set t" "\<not> P r" | (changed) x where "x \<in> set t" "P x" "r = f x"
  using assms unfolding t_update_def set_map image_iff by (metis (full_types))

lemma t_saveE:
  assumes "r \<in> set (t_save key k f t)"
  obtains (kept) "r \<in> set t" "key r \<noteq> k" | (changed) x where "x \<in> set t" "key x = k" "r = f x"
  using assms unfolding t_save_def by (rule t_updateE)

lemma ball_t_update [row_simps]:
  "(\<forall>r \<in> set (t_update P f t). Q r) \<longleftrightarrow> (\<forall>r \<in> set t. Q (if P r then f r else r))"
  by (auto simp: t_update_def)

lemma distinct_key_t_get:
  "distinct (map key t) \<Longrightarrow> r \<in> set t \<Longrightarrow> t_get key (key r) t = Some r"
  unfolding t_get_def by (induction t) (auto simp: image_iff)

lemma unique_onD:
  "unique_on P f t \<Longrightarrow> r \<in> set t \<Longrightarrow> r' \<in> set t \<Longrightarrow> P r \<Longrightarrow> P r' \<Longrightarrow> f r = f r' \<Longrightarrow> r = r'"
  unfolding unique_on_def distinct_map by (auto simp: inj_on_def)

lemma unique_on_subset:
  "unique_on P f t \<Longrightarrow> (\<And>r. r \<in> set t \<Longrightarrow> Q r \<Longrightarrow> P r) \<Longrightarrow> unique_on Q f t"
  unfolding unique_on_def by (induction t) (auto split: if_splits)

lemma unique_on_t_update:
  "(\<And>r. r \<in> set t \<Longrightarrow> C r \<Longrightarrow> P (g r) \<longleftrightarrow> P r) \<Longrightarrow>
   (\<And>r. r \<in> set t \<Longrightarrow> C r \<Longrightarrow> P r \<Longrightarrow> f (g r) = f r) \<Longrightarrow>
   unique_on P f (t_update C g t) = unique_on P f t"
proof -
  assume a: "\<And>r. r \<in> set t \<Longrightarrow> C r \<Longrightarrow> P (g r) \<longleftrightarrow> P r"
    and b: "\<And>r. r \<in> set t \<Longrightarrow> C r \<Longrightarrow> P r \<Longrightarrow> f (g r) = f r"
  have "map f (filter P (t_update C g t)) = map f (filter P t)"
    using a b unfolding t_update_def by (induction t) auto
  then show ?thesis by (simp add: unique_on_def)
qed

end
