(* ===== verification/Json.thy ===== *)
theory Json
  imports Prelude "HOL-Library.List_Lexorder" "HOL-Library.Char_ord"
begin

text \<open>
  The values of the JSON columns and \<open>json.dumps(value, sort_keys=True, separators=(",", ":"))\<close>, which
  the campaign code hashes. A number that is not an integer is kept as the token Python prints for it.
\<close>

datatype json =
  JNull | JBool bool | JInt int | JFloat str | JStr str | JList "json list" | JObj "(str \<times> json) list"

definition hex_digit :: "nat \<Rightarrow> char" where
  "hex_digit n = char_of (if n < 10 then 48 + n else 87 + n)"

definition unicode_escape :: "char \<Rightarrow> str" where
  "unicode_escape c =
     (let n = of_char c in [CHR 0x5C] @ ''u00'' @ [hex_digit (n div 16), hex_digit (n mod 16)])"

definition json_char :: "bool \<Rightarrow> char \<Rightarrow> str" where
  "json_char ascii c =
     (let n = (of_char c :: nat)
      in if n = 0x22 then [CHR 0x5C, c]
         else if n = 0x5C then [CHR 0x5C, c]
         else if n = 10 then [CHR 0x5C] @ ''n''
         else if n = 13 then [CHR 0x5C] @ ''r''
         else if n = 9 then [CHR 0x5C] @ ''t''
         else if n = 12 then [CHR 0x5C] @ ''f''
         else if n = 8 then [CHR 0x5C] @ ''b''
         else if n < 32 \<or> (ascii \<and> 126 < n) then unicode_escape c
         else [c])"

definition json_string :: "bool \<Rightarrow> str \<Rightarrow> str" where
  "json_string ascii s = [CHR 0x22] @ concat (map (json_char ascii) s) @ [CHR 0x22]"

definition json_int :: "int \<Rightarrow> str" where
  "json_int n = (if n < 0 then ''-'' @ digits_of (nat (- n)) else digits_of (nat n))"

fun json_dumps :: "bool \<Rightarrow> json \<Rightarrow> str" where
  "json_dumps a JNull = ''null''"
| "json_dumps a (JBool b) = (if b then ''true'' else ''false'')"
| "json_dumps a (JInt n) = json_int n"
| "json_dumps a (JFloat t) = t"
| "json_dumps a (JStr s) = json_string a s"
| "json_dumps a (JList xs) = ''['' @ py_join '','' (map (json_dumps a) xs) @ '']''"
| "json_dumps a (JObj kvs) =
     ''{'' @ py_join '','' (map (\<lambda>(k, t). json_string a k @ '':'' @ t)
               (sort_key fst (map (map_prod id (json_dumps a)) kvs))) @ ''}''"

definition json_pk :: "id option \<Rightarrow> json" where
  "json_pk k = (case k of None \<Rightarrow> JNull | Some n \<Rightarrow> JStr (str_of_pk n))"

end
