(* ===== verification/Db.thy ===== *)
theory Db
  imports Json
begin

text \<open>
  The data of the modelled applications: one \<^theory_text>\<open>datatype\<close> per \<open>TextChoices\<close> class, one
  \<^theory_text>\<open>record\<close> per Django model (the columns that some modelled operation reads or writes), and
  the record \<open>db\<close> of all tables. Foreign keys are the primary keys of the rows they point to, a
  nullable column is an option. The record \<open>env\<close> holds what is not under the repository's sources or
  is fixed by the deployment: settings, the clock, the time zone data, digests and the address validator.
\<close>

section \<open>Choices\<close>

datatype campaign_state =
  C_DRAFT | C_DISCOVERING | C_AWAITING_APPROVAL | C_RUNNING | C_PAUSED | C_CANCELLED | C_COMPLETED
| C_STOPPED_ERROR

datatype discovery_state =
  D_PENDING | D_RUNNING | D_TARGET_REACHED | D_EXHAUSTED_QUERIES | D_EXHAUSTED_RAW_LIMIT
| D_EXHAUSTED_COST | D_FAILED_PROVIDER

datatype delivery_mode = DRY_RUN | REVIEW_ONLY | LIVE

datatype approval_mode = BY_CAMPAIGN | PER_MESSAGE

datatype message_kind =
  FIRST_CONTACT | INITIAL | CAMPAIGN_REMINDER | MANUAL_REPLY | AUTOMATIC_REPLY | REFERRED_PROPOSAL
| REDIRECT_ACK | SCHEDULED_CONTACT

datatype message_state =
  PREPARED | REVIEW_READY | QUEUED | SENDING | RECONCILING | SENT | DRY_RUN_COMPLETED | INELIGIBLE
| SEND_FAILED | CANCELLED

datatype reservation_status = RESERVED | CONSUMED | RELEASED

datatype enrollment_state =
  E_DISCOVERED | E_ELIGIBLE | E_PREPARED | E_INITIAL_SENT | E_RESPONDED | E_REMINDER_DUE
| E_REMINDER_SENT | E_INELIGIBLE | E_CANCELLED

datatype validity = VALID | INVALID | TRANSIENT | UNKNOWN

datatype identity_kind = GERS_ID | PROVIDER_ID | BUSINESS_DOMAIN | NAME_ADDRESS | EMAIL_IDENTITY

datatype org_source = FROM_DISCOVERY | FROM_INBOUND | FROM_MANUAL | FROM_SUPPRESSION | FROM_MIGRATION

datatype contact_status = ACTIVE | DO_NOT_CONTACT | UNSUBSCRIBED

datatype created_reason = HUMAN_REPLY | MANUAL_ENTRY | MANUAL_RESTRICTION | BY_UNSUBSCRIBE

datatype restriction_scope = SCOPE_CONTACT | SCOPE_EMAIL

datatype restriction_kind = R_UNSUBSCRIBE | R_BOUNCE | R_MANUAL

datatype suppression_reason = S_UNSUBSCRIBE | S_BOUNCE | S_MANUAL

datatype job_state = J_PENDING | J_RUNNING | J_SUCCEEDED | J_RETRY_WAIT | J_FAILED | J_CANCELLED

datatype connection_status = CONNECTED | CONN_ERROR | DISCONNECTED

datatype run_state = RUN_PENDING | RUN_RUNNING | RUN_SUCCEEDED | RUN_RETRY_WAIT | RUN_FAILED_PERMANENT
| RUN_CANCELLED

datatype pipeline_state =
  P_DISCOVERED | P_EMAIL_FOUND | P_ENRICHED | P_ANALYZED | P_SKIPPED_NO_EMAIL | P_SKIPPED_DUPLICATE
| P_SKIPPED_IRRELEVANT | P_QUEUED | P_ERROR

datatype analysis_status = A_VALID | A_RETRY_WAIT | A_ERROR

datatype role = ADMIN | VENDEDOR

datatype filter_mode = FILTER_OFF | FILTER_OBSERVE | FILTER_LENIENT | FILTER_STRICT

datatype template_kind = T_INITIAL | T_REMINDER | T_REFERRED_PROPOSAL

datatype dataset_status = IMPORTING | READY | SUPERSEDED | IMPORT_FAILED

datatype classification =
  INTERESTED | NOT_INTERESTED | UNSUBSCRIBE_REPLY | AUTO_REPLY | BOUNCE_NOTICE | OTHER_REPLY

datatype automation_mode = MODE_OFF | MODE_SHADOW | MODE_LIVE

datatype task_status = TASK_OPEN | TASK_RESOLVED | TASK_DISMISSED

datatype topic_mode = REVIEW_BEFORE_SEND | AUTOMATIC

datatype plan_state = PLAN_DISABLED | PLAN_ACTIVE | PLAN_PAUSED

datatype attempt_state =
  AT_DUE | AT_DRAFT_REVIEW | AT_AUTHORIZED | AT_SENT | AT_HUMAN_REQUIRED | AT_CANCELLED | AT_INELIGIBLE

datatype decision_state =
  RD_PENDING | RD_SHADOW_RECORDED | RD_NO_ACTION | RD_AUTO_ELIGIBLE | RD_AUTHORIZED | RD_EXECUTING
| RD_COMPLETED | RD_MANUAL_REPLY_RECORDED | RD_HUMAN_REQUIRED | RD_REJECTED_POLICY | RD_FAILED

datatype candidate_region = NEW_CONTENT | SIGNATURE | QUOTED

datatype candidate_source = FROM_TEXT | FROM_MAILTO

datatype check_state = CK_PENDING | CK_VALID | CK_INVALID | CK_TRANSIENT | CK_RESTRICTED | CK_CONFLICT

section \<open>Rows\<close>

text \<open>\<open>accounts.Membership\<close> with the user it belongs to (a user has at most one membership).\<close>

record membership =
  u_id :: id
  u_active :: bool
  u_workspace :: id
  u_role :: role

text \<open>
  \<open>campaigns.Campaign\<close>. The search and snapshot columns, which no delivery code reads, are grouped in
  \<open>plan\<close>; a decimal column is kept as its text.
\<close>

record plan =
  pl_name :: str
  pl_location_text :: str
  pl_objective :: nat
  pl_max_raw_records :: nat
  pl_cost_limit :: str
  pl_cost_currency :: str
  pl_relevance_threshold :: nat
  pl_extractor :: str
  pl_overture_snapshot :: "id option"
  pl_overture_release :: "id option"
  pl_min_confidence :: str
  pl_website_fetcher :: str
  pl_llm_provider :: str
  pl_llm_base_url :: str
  pl_llm_model :: str
  pl_referred_subject :: str
  pl_referred_body :: str
  pl_settings_snapshot :: json
  pl_profile_snapshot :: json
  pl_prompt_snapshot :: json
  pl_template_revisions :: json

record campaign =
  c_id :: id
  c_workspace :: id
  c_created_by :: id
  c_state :: campaign_state
  c_discovery :: discovery_state
  c_discovery_stop_reason :: str
  c_delivery_mode :: delivery_mode
  c_approval_mode :: approval_mode
  c_reminder_enabled :: bool
  c_reminder_delay_days :: nat
  c_status_reason :: str
  c_daily_limit :: nat
  c_interval_minutes :: nat
  c_weekdays :: "int list"
  c_window_start :: int
  c_window_end :: int
  c_timezone :: str
  c_initial_subject :: str
  c_initial_body :: str
  c_reminder_body :: str
  c_signature :: str
  c_content_hash :: str
  c_audience_hash :: str
  c_attachment_hash :: str
  c_schedule_hash :: str
  c_plan :: plan
  c_catalog :: id
  c_approved_at :: "instant option"
  c_approved_by :: "id option"
  c_started_at :: "instant option"
  c_finished_at :: "instant option"

text \<open>\<open>campaigns.OutboundMessage\<close>\<close>

record message =
  m_id :: id
  m_kind :: message_kind
  m_campaign :: "id option"
  m_organization :: "id option"
  m_enrollment :: "id option"
  m_contact :: "id option"
  m_conversation :: "id option"
  m_prospect :: "id option"
  m_prospect_email :: "id option"
  m_email_address :: "id option"
  m_parent_inbound :: "id option"
  m_sent_by :: "id option"
  m_recipient :: str
  m_recipient_normalized :: str
  m_subject :: str
  m_body_text :: str
  m_signature :: str
  m_content_hash :: str
  m_content_revision :: nat
  m_last_edited_at :: "instant option"
  m_last_edited_by :: "id option"
  m_catalog :: "id option"
  m_catalog_version :: "nat option"
  m_state :: message_state
  m_delivery_mode :: delivery_mode
  m_approved_at :: "instant option"
  m_approved_by :: "id option"
  m_idempotency_key :: str
  m_semantic_key :: str
  m_reminder_for :: "id option"
  m_contact_sequence :: "nat option"
  m_message_id :: str
  m_in_reply_to :: str
  m_references :: "str list"
  m_mime_sha256 :: str
  m_mime_size :: "nat option"
  m_gmail_message_id :: str
  m_gmail_thread_id :: str
  m_attempts :: nat
  m_next_attempt_at :: "instant option"
  m_scheduled_for :: "instant option"
  m_delivery_reserved_at :: "instant option"
  m_sending_started_at :: "instant option"
  m_last_attempt_at :: "instant option"
  m_sent_at :: "instant option"
  m_simulated_at :: "instant option"
  m_error :: str
  m_created_at :: instant
  m_updated_at :: instant

text \<open>\<open>campaigns.OutboundAttachment\<close>, \<open>campaigns.CampaignDeliveryReservation\<close>\<close>

record attachment =
  a_message :: id
  a_catalog :: id
  a_position :: nat
  a_catalog_version :: nat
  a_storage_key :: str
  a_filename :: str
  a_byte_size :: nat
  a_sha256 :: str

record reservation =
  v_id :: id
  v_workspace :: id
  v_campaign :: id
  v_message :: id
  v_email_address :: "id option"
  v_normalized_email :: str
  v_local_date :: day
  v_status :: reservation_status
  v_consumed_at :: "instant option"
  v_released_at :: "instant option"

text \<open>\<open>catalogs.Catalog\<close>: \<open>file.name\<close> is the storage key; the storage itself is a table of the db.\<close>

record catalog =
  k_id :: id
  k_workspace :: id
  k_version :: nat
  k_file_name :: str
  k_name :: str
  k_original_filename :: str
  k_byte_size :: nat
  k_sha256 :: str
  k_active :: bool
  k_missing :: bool

text \<open>\<open>compliance.ContactLedger\<close>, \<open>compliance.SuppressionEntry\<close>\<close>

record ledger =
  l_id :: id
  l_email :: str
  l_reserved_message :: "id option"
  l_reserved_at :: "instant option"
  l_last_sent_message :: "id option"
  l_last_sent_at :: "instant option"
  l_next_sequence :: nat

record suppression =
  s_id :: id
  s_original_email :: str
  s_email :: str
  s_reason :: suppression_reason
  s_source :: str
  s_evidence :: str
  s_created_by :: "id option"

text \<open>The models of \<open>contacts\<close>\<close>

record organization =
  o_id :: id
  o_workspace :: id
  o_name :: str
  o_normalized_name :: str
  o_address :: str
  o_normalized_address :: str
  o_website :: str
  o_business_domain :: str
  o_phone :: str
  o_source :: org_source
  o_provenance :: "(str \<times> str) list"

record org_identity =
  i_id :: id
  i_workspace :: id
  i_organization :: id
  i_kind :: identity_kind
  i_value :: str
  i_value_hash :: str
  i_provider :: str
  i_provenance :: "(str \<times> str) list"

record email_address =
  ea_id :: id
  ea_workspace :: id
  ea_organization :: id
  ea_original :: str
  ea_normalized :: str
  ea_domain :: str
  ea_label :: str
  ea_preferred :: bool
  ea_provenance :: str
  ea_source_url :: str
  ea_source_content_hash :: str
  ea_provider_order :: nat
  ea_validity :: validity
  ea_validated_at :: "instant option"
  ea_invalid_reason :: str
  ea_invalidated_at :: "instant option"
  ea_legacy :: "id option"

record contact =
  t_id :: id
  t_workspace :: id
  t_organization :: id
  t_preferred_email :: "id option"
  t_name :: str
  t_status :: contact_status
  t_created_reason :: created_reason
  t_source_inbound :: "id option"
  t_created_by :: "id option"
  t_automation_suspended :: bool
  t_last_interaction_at :: "instant option"

record restriction =
  r_id :: id
  r_workspace :: id
  r_scope :: restriction_scope
  r_kind :: restriction_kind
  r_contact :: "id option"
  r_email_address :: "id option"
  r_source :: str
  r_evidence :: str
  r_source_inbound :: "id option"
  r_created_by :: "id option"
  r_revoked_at :: "instant option"
  r_revoked_by :: "id option"
  r_revocation_reason :: str

record enrollment =
  e_id :: id
  e_workspace :: id
  e_campaign :: id
  e_organization :: id
  e_selected_email :: "id option"
  e_state :: enrollment_state
  e_source :: str
  e_exclusion_reason :: str
  e_initial_sent_at :: "instant option"
  e_replied_at :: "instant option"

text \<open>\<open>prospects\<close>: the legacy rows the contact model is projected from, and \<open>AIAnalysis\<close>\<close>

record prospect =
  p_id :: id
  p_campaign :: id
  p_organization :: "id option"
  p_enrollment :: "id option"
  p_source_run :: id
  p_name :: str
  p_normalized_name :: str
  p_address :: str
  p_normalized_address :: str
  p_website :: str
  p_business_domain :: str
  p_phone :: str
  p_pipeline_state :: pipeline_state
  p_reservation_key :: str
  p_analysis_generation :: nat

record prospect_identity =
  pi_prospect :: id
  pi_kind :: identity_kind
  pi_value_hash :: str

record prospect_email =
  pe_id :: id
  pe_prospect :: id
  pe_original :: str
  pe_normalized :: str
  pe_source :: str
  pe_source_url :: str
  pe_source_content_hash :: str
  pe_provider_order :: nat
  pe_mx_status :: validity
  pe_mx_checked_at :: instant
  pe_primary :: bool
  pe_invalid :: bool
  pe_invalid_reason :: str
  pe_invalidated_at :: "instant option"

record analysis =
  an_prospect :: id
  an_status :: analysis_status
  an_generation :: nat

text \<open>\<open>audit.BackgroundJob\<close>, \<open>audit.AuditEvent\<close> (the event's before/after payload is not kept)\<close>

record job =
  j_key :: str
  j_task_name :: str
  j_entity_type :: str
  j_entity_id :: str
  j_state :: job_state
  j_attempts :: nat
  j_heartbeat_at :: "instant option"
  j_started_at :: "instant option"
  j_finished_at :: "instant option"
  j_next_retry_at :: "instant option"
  j_error :: str

record audit_event =
  au_action :: str
  au_entity :: id
  au_actor :: "id option"

text \<open>\<open>mailbox.GmailConnection\<close>, \<open>configuration.SendModeSetting\<close>, \<open>campaigns.SearchRun\<close>, \<open>campaigns.SearchQuery\<close>\<close>

record gmail_connection =
  g_id :: id
  g_workspace :: id
  g_owner :: id
  g_email :: str
  g_scopes :: "str list"
  g_refresh_token :: str
  g_history_id :: str
  g_status :: connection_status
  g_last_tested_at :: "instant option"
  g_last_sync_at :: "instant option"
  g_error :: str

record send_mode_setting =
  sm_id :: id
  sm_workspace :: id
  sm_live_enabled :: bool
  sm_live_enabled_at :: "instant option"
  sm_live_enabled_by :: "id option"

record search_run =
  sr_id :: id
  sr_campaign :: id
  sr_provider :: str
  sr_state :: run_state
  sr_finished_at :: "instant option"
  sr_next_poll_at :: "instant option"

record search_query =
  sq_campaign :: id
  sq_coverage :: "id option"
  sq_category_snapshot :: str
  sq_zone_snapshot :: str
  sq_location_snapshot :: str
  sq_query_text :: str
  sq_normalized_query :: str
  sq_criteria :: json
  sq_zone_boundary_hash :: str
  sq_sort_order :: nat
  sq_state :: run_state

text \<open>\<open>contacts.Conversation\<close>, \<open>mailbox.InboundMessage\<close>\<close>

record conversation =
  cv_id :: id
  cv_workspace :: id
  cv_contact :: id
  cv_connection :: id
  cv_gmail_thread_id :: str
  cv_subject :: str
  cv_automation_suspended :: bool
  cv_last_message_at :: "instant option"

record inbound =
  in_id :: id
  in_connection :: id
  in_organization :: "id option"
  in_enrollment :: "id option"
  in_contact :: "id option"
  in_conversation :: "id option"
  in_related_outbound :: "id option"
  in_gmail_message_id :: str
  in_gmail_thread_id :: str
  in_message_id :: str
  in_in_reply_to :: str
  in_references :: "str list"
  in_sender :: str
  in_recipients :: "str list"
  in_subject :: str
  in_external_at :: instant
  in_received_at :: instant
  in_body_text :: str
  in_body_html :: str
  in_headers :: "(str \<times> str) list"
  in_classification :: classification
  in_confidence :: str
  in_classification_error :: str
  in_is_human :: bool
  in_is_read :: bool
  in_created_at :: instant

section \<open>Configuration and search data\<close>

text \<open>\<open>configuration.BusinessProfile\<close>, \<open>PromptConfiguration\<close>, the columns of \<open>IntegrationConfiguration\<close>
  that choose the language model, \<open>WorkspaceMessageTemplateRevision\<close>\<close>

record business_profile =
  bp_workspace :: id
  bp_company_name :: str
  bp_salesperson_name :: str
  bp_phone :: str
  bp_whatsapp :: str
  bp_description :: str
  bp_products :: str
  bp_differentiators :: str
  bp_address :: str
  bp_website :: str
  bp_signature :: str
  bp_instructions :: str
  bp_threshold :: nat
  bp_version :: nat

record prompt_configuration =
  pc_workspace :: id
  pc_reply_prompt :: str
  pc_mode :: filter_mode
  pc_criteria :: str
  pc_revision :: nat

record llm_choice =
  ll_provider :: str
  ll_model :: str
  ll_relevance_model :: str
  ll_relevance_provider :: str
  ll_relevance_base_url :: str
  ll_ollama_base_url :: str
  ll_openai_base_url :: str

record template =
  tp_id :: id
  tp_workspace :: id
  tp_kind :: template_kind
  tp_subject :: str
  tp_body :: str
  tp_revision :: nat
  tp_content_hash :: str
  tp_approved_at :: instant
  tp_approved_by :: "id option"
  tp_active :: bool

text \<open>\<open>configuration.SearchCategory\<close>, \<open>SearchCategoryRule\<close>, \<open>SearchZone\<close>\<close>

record category =
  sc_id :: id
  sc_workspace :: id
  sc_name :: str
  sc_normalized_name :: str
  sc_active :: bool
  sc_rules_revision :: nat
  sc_archived_at :: "instant option"

record category_rule =
  rl_category :: id
  rl_taxonomy_code :: str
  rl_name_terms :: "str list"
  rl_active :: bool
  rl_sort_order :: nat

record zone =
  z_id :: id
  z_workspace :: id
  z_official_code :: str
  z_name :: str
  z_level :: str
  z_parent :: "id option"
  z_province_code :: str
  z_province_name :: str
  z_selectable :: bool
  z_label_plural :: str
  z_location_text :: str
  z_geojson :: json
  z_bbox :: json
  z_hash :: str
  z_revision :: nat
  z_source :: str
  z_attribution :: str
  z_active :: bool
  z_archived_at :: "instant option"

text \<open>The four \<open>DraftCampaignSelection\<close> tables\<close>

record category_selection =
  cs_id :: id
  cs_campaign :: id
  cs_category :: id
  cs_name :: str
  cs_normalized_name :: str
  cs_rules :: "(str \<times> str list) list"
  cs_revision :: nat
  cs_sort_order :: nat

record zone_selection =
  zs_id :: id
  zs_campaign :: id
  zs_zone :: id
  zs_name :: str
  zs_location :: str
  zs_geojson :: json
  zs_bbox :: json
  zs_hash :: str
  zs_revision :: nat
  zs_sort_order :: nat

record coverage_selection =
  vs_id :: id
  vs_campaign :: id
  vs_release :: id
  vs_partition :: id
  vs_province :: "id option"
  vs_district :: "id option"
  vs_province_code :: str
  vs_province_name :: str
  vs_district_code :: str
  vs_district_name :: str
  vs_district_level :: str
  vs_district_label :: str
  vs_geojson :: json
  vs_bbox :: json
  vs_hash :: str
  vs_revision :: nat
  vs_source :: str
  vs_attribution :: str
  vs_sort_order :: nat

record campaign_attachment =
  ca_id :: id
  ca_campaign :: id
  ca_catalog :: id
  ca_position :: nat

text \<open>\<open>overture.OvertureRelease\<close>, \<open>OvertureDatasetSnapshot\<close>, \<open>OvertureCoveragePartition\<close> and its zones\<close>

record overture_release =
  or_id :: id
  or_release_id :: str

record overture_snapshot =
  os_id :: id
  os_release_id :: str
  os_status :: dataset_status

record partition =
  pt_id :: id
  pt_release :: id
  pt_province_code :: str
  pt_snapshot :: id
  pt_status :: dataset_status
  pt_active :: bool

record partition_zone =
  pz_partition :: id
  pz_boundary_hash :: str
  pz_search_zone :: "id option"

record configuration_tables =
  profiles :: "business_profile list"
  prompt_configurations :: "prompt_configuration list"
  llm_choices :: "(id \<times> llm_choice) list"
  templates :: "template list"
  categories :: "category list"
  category_rules :: "category_rule list"
  zones :: "zone list"
  releases :: "overture_release list"
  snapshots :: "overture_snapshot list"
  partitions :: "partition list"
  partition_zones :: "partition_zone list"

record selection_tables =
  category_selections :: "category_selection list"
  zone_selections :: "zone_selection list"
  coverage_selections :: "coverage_selection list"
  campaign_attachments :: "campaign_attachment list"

section \<open>Automation\<close>

text \<open>The models of \<open>automation\<close>; a confidence is kept in thousandths, a many-to-many relation as the list of its keys.\<close>

record reply_configuration =
  am_id :: id
  am_workspace :: id
  am_mode :: automation_mode
  am_policy_version :: str
  am_live_enabled_at :: "instant option"
  am_live_enabled_by :: "id option"

record knowledge_fact =
  kf_id :: id
  kf_workspace :: id
  kf_title :: str
  kf_category :: str
  kf_active :: bool
  kf_created_by :: id

record fact_revision =
  kr_id :: id
  kr_fact :: id
  kr_version :: nat
  kr_text :: str
  kr_source_notes :: str
  kr_content_hash :: str
  kr_approved_at :: "instant option"
  kr_approved_by :: "id option"
  kr_superseded_at :: "instant option"

record context_revision =
  kc_id :: id
  kc_workspace :: id
  kc_version :: nat
  kc_text :: str
  kc_source_notes :: str
  kc_content_hash :: str
  kc_approved_at :: "instant option"
  kc_approved_by :: "id option"
  kc_superseded_at :: "instant option"

record email_candidate =
  ec_id :: id
  ec_inbound :: id
  ec_literal :: str
  ec_normalized :: str
  ec_region :: candidate_region
  ec_source :: candidate_source
  ec_start :: "nat option"
  ec_end :: "nat option"
  ec_syntax :: check_state
  ec_mx :: check_state
  ec_restriction :: check_state
  ec_ownership :: check_state
  ec_resolved :: "id option"
  ec_evidence_hash :: str

record reply_decision =
  rd_id :: id
  rd_workspace :: id
  rd_inbound :: id
  rd_contact :: id
  rd_conversation :: id
  rd_mode :: automation_mode
  rd_provider :: str
  rd_model :: str
  rd_policy_version :: str
  rd_classification :: str
  rd_intent :: str
  rd_action :: str
  rd_confidence :: nat
  rd_candidate :: "id option"
  rd_proposed_body :: str
  rd_human_reason :: str
  rd_context_manifest :: json
  rd_context_hash :: str
  rd_selected_facts :: "id list"
  rd_state :: decision_state
  rd_error :: str
  rd_created_at :: instant

record human_task =
  ht_id :: id
  ht_workspace :: id
  ht_contact :: id
  ht_conversation :: "id option"
  ht_inbound :: "id option"
  ht_decision :: "id option"
  ht_kind :: str
  ht_reason :: str
  ht_status :: task_status
  ht_summary :: str
  ht_opened_at :: instant
  ht_resolved_at :: "instant option"
  ht_resolved_by :: "id option"
  ht_note :: str

record action_reservation =
  ar_id :: id
  ar_workspace :: id
  ar_conversation :: "id option"
  ar_decision :: "id option"
  ar_attempt :: "id option"
  ar_reserved_at :: instant
  ar_local_date :: day
  ar_slots :: nat

record follow_up_topic =
  ft_id :: id
  ft_workspace :: id
  ft_name :: str
  ft_objective :: str
  ft_instructions :: str
  ft_cadence_days :: nat
  ft_mode :: topic_mode
  ft_next_due_at :: "instant option"
  ft_active :: bool
  ft_created_by :: id
  ft_updated_by :: id

record communication_plan =
  cp_id :: id
  cp_contact :: id
  cp_topic :: id
  cp_preferred_email :: id
  cp_state :: plan_state
  cp_snoozed_until :: "instant option"
  cp_next_due_at :: "instant option"
  cp_last_interaction_at :: "instant option"
  cp_last_sent_at :: "instant option"
  cp_created_by :: id
  cp_updated_by :: id

record scheduled_attempt =
  sa_id :: id
  sa_plan :: id
  sa_due_at :: instant
  sa_outbound :: "id option"
  sa_state :: attempt_state
  sa_idempotency_key :: str
  sa_reason :: str
  sa_provider :: str
  sa_model :: str
  sa_context_manifest :: json
  sa_context_hash :: str
  sa_fact_revision_ids :: "str list"
  sa_authorized_at :: "instant option"
  sa_sent_at :: "instant option"

record conversation_memory =
  cm_id :: id
  cm_contact :: id
  cm_version :: nat
  cm_summary :: json
  cm_source_ids :: "str list"
  cm_source_hash :: str
  cm_superseded_at :: "instant option"
  cm_created_at :: instant

record automation_tables =
  reply_configurations :: "reply_configuration list"
  fact_rows :: "knowledge_fact list"
  fact_revisions :: "fact_revision list"
  context_revisions :: "context_revision list"
  candidate_rows :: "email_candidate list"
  decision_rows :: "reply_decision list"
  task_rows :: "human_task list"
  action_reservations :: "action_reservation list"
  topic_rows :: "follow_up_topic list"
  plan_rows :: "communication_plan list"
  attempt_rows :: "scheduled_attempt list"
  memory_rows :: "conversation_memory list"

section \<open>The database and the environment\<close>

record db =
  next_id :: id
  workspace_pk :: id
  memberships :: "membership list"
  campaigns :: "campaign list"
  messages :: "message list"
  attachments :: "attachment list"
  reservations :: "reservation list"
  catalogs :: "catalog list"
  storage :: "(str \<times> str) list"
  ledgers :: "ledger list"
  suppressions :: "suppression list"
  organizations :: "organization list"
  identities :: "org_identity list"
  emails :: "email_address list"
  contacts :: "contact list"
  restrictions :: "restriction list"
  enrollments :: "enrollment list"
  prospects :: "prospect list"
  prospect_identities :: "prospect_identity list"
  prospect_emails :: "prospect_email list"
  analyses :: "analysis list"
  jobs :: "job list"
  audit_log :: "audit_event list"
  connections :: "gmail_connection list"
  send_mode_settings :: "send_mode_setting list"
  search_runs :: "search_run list"
  search_queries :: "search_query list"
  conversations :: "conversation list"
  inbounds :: "inbound list"
  config :: configuration_tables
  selections :: selection_tables
  automation :: automation_tables
  dispatched :: "(str \<times> id) list"

text \<open>
  \<open>dispatched\<close> lists, with the row it is about, each background task the committed operations have asked for.

  \<open>clock\<close> is the reading of \<open>timezone.now()\<close> during one operation; \<open>utc_offset z t\<close> is the offset of zone
  \<open>z\<close> at the instant \<open>t\<close> and \<open>wall_offset z l\<close> the one \<open>datetime.astimezone\<close> applies to a wall-clock time
  \<open>l\<close> (\<open>fold=0\<close>); \<open>redact\<close> is the text of a provider error after \<open>redact_provider_error\<close>, \<open>valid_email\<close>
  Django's \<open>validate_email\<close> and \<open>invalid_email_text\<close> the message it raises, \<open>idna\<close> the codec;
  \<open>header_ok\<close> says which header values the \<open>email\<close> package accepts and \<open>mime_bytes\<close> is the message it
  serialises from the headers, the date, the text body and the attachments. \<open>send_mode_text\<close> and
  \<open>llm_settings\<close> are settings, \<open>known_zone\<close> says which names \<open>ZoneInfo\<close> finds, \<open>field_error\<close> is the first
  message of Django's own field and constraint validation of a campaign (\<open>full_clean\<close> without
  \<open>clean\<close>), and \<open>validated_geojson\<close> the answer of \<open>overture/geometry.py\<close>.
\<close>

record env =
  send_mode_live :: bool
  send_kill_switch :: bool
  send_requires_app_enable :: bool
  clock :: instant
  utc_offset :: "str \<Rightarrow> instant \<Rightarrow> int"
  wall_offset :: "str \<Rightarrow> wall \<Rightarrow> int"
  sha256_hex :: "str \<Rightarrow> str"
  valid_email :: "str \<Rightarrow> bool"
  invalid_email_text :: str
  idna :: "str \<Rightarrow> str option"
  redact :: "str \<Rightarrow> str"
  header_ok :: "str \<Rightarrow> bool"
  mime_bytes :: "(str \<times> str) list \<Rightarrow> instant \<Rightarrow> str \<Rightarrow> (str \<times> str) list \<Rightarrow> str"
  send_mode_text :: str
  llm_settings :: llm_choice
  known_zone :: "str \<Rightarrow> bool"
  field_error :: "campaign \<Rightarrow> str option"
  validated_geojson :: "json \<Rightarrow> str + (json \<times> json \<times> str)"
  relationship_kill_switch :: bool
  auto_reply_kill_switch :: bool
  auto_conversation_limit :: nat
  auto_workspace_limit :: nat

section \<open>Exceptions\<close>

text \<open>
  \<open>InvalidCampaignTransition\<close>, \<open>NoRecipientsError\<close> and \<open>OrganizationResolutionConflict\<close> are subclasses
  of \<open>ValidationError\<close>. \<open>ForbiddenTransition\<close> is the \<open>InvalidCampaignTransition\<close> whose message names
  the two states, kept unrendered. \<open>TransactionManagementError\<close> is what Django raises for a query after a
  database error that was caught inside the same atomic block.
\<close>

datatype exn =
  ValidationError str
| InvalidCampaignTransition str
| ForbiddenTransition campaign_state campaign_state
| NoRecipientsError str
| OrganizationResolutionConflict str
| PermissionDenied
| DoesNotExist
| IntegrityError
| ValueError str
| AssertionFailed
| RuntimeFailure str
| MultipleObjectsReturned
| TransactionManagementError
| ImproperlyConfigured str

fun is_validation_error :: "exn \<Rightarrow> bool" where
  "is_validation_error (ValidationError t) = True"
| "is_validation_error (InvalidCampaignTransition t) = True"
| "is_validation_error (ForbiddenTransition a b) = True"
| "is_validation_error (NoRecipientsError t) = True"
| "is_validation_error (OrganizationResolutionConflict t) = True"
| "is_validation_error _ = False"

text \<open>\<open>exc.messages[0]\<close>.\<close>

fun exn_text :: "exn \<Rightarrow> str" where
  "exn_text (ValidationError t) = t"
| "exn_text (InvalidCampaignTransition t) = t"
| "exn_text (NoRecipientsError t) = t"
| "exn_text (OrganizationResolutionConflict t) = t"
| "exn_text (RuntimeFailure t) = t"
| "exn_text (ImproperlyConfigured t) = t"
| "exn_text _ = ''''"

text \<open>\<open>str(exc)\<close> of a \<open>ValidationError\<close>, which is \<open>repr\<close> of the list of its messages.\<close>

definition repr_char :: "char \<Rightarrow> char \<Rightarrow> str" where
  "repr_char quote c =
     (let n = (of_char c :: nat)
      in if c = quote \<or> n = 0x5C then [CHR 0x5C, c]
         else if n = 10 then [CHR 0x5C] @ ''n''
         else if n = 13 then [CHR 0x5C] @ ''r''
         else if n = 9 then [CHR 0x5C] @ ''t''
         else if n < 32 \<or> (126 < n \<and> n < 161) \<or> n = 173
         then [CHR 0x5C] @ ''x'' @ [hex_digit (n div 16), hex_digit (n mod 16)]
         else [c])"

definition py_repr :: "str \<Rightarrow> str" where
  "py_repr s =
     (let quote = (if CHR 0x27 \<in> set s \<and> CHR 0x22 \<notin> set s then CHR 0x22 else CHR 0x27)
      in [quote] @ concat (map (repr_char quote) s) @ [quote])"

definition exn_str :: "exn \<Rightarrow> str" where
  "exn_str e = (if is_validation_error e then ''['' @ py_repr (exn_text e) @ '']'' else exn_text e)"

end
