(* ===== verification/Texts.thy ===== *)
theory Texts
  imports Prelude
begin

text \<open>
  The literal texts of the modelled code: the messages of its exceptions and the reasons it stores in
  its rows, character by character (accented letters by their code point).
\<close>

definition txt_no_weekdays :: str where
  "txt_no_weekdays =
     ''La campa'' @ [CHR 0xF1] @ ''a no tiene d'' @ [CHR 0xED] @ ''as de env'' @ [CHR 0xED] @ ''o configurados.''"

definition txt_no_next_day :: str where
  "txt_no_next_day =
     ''La campa'' @ [CHR 0xF1] @ ''a no tiene un pr'' @ [CHR 0xF3] @ ''ximo d'' @ [CHR 0xED] @ ''a de env'' @ [CHR 0xED] @ ''o disponible.''"

definition txt_ledger_taken :: str where
  "txt_ledger_taken =
     ''El correo ya tiene otro primer contacto reservado.''"

definition txt_no_campaign :: str where
  "txt_no_campaign =
     ''El mensaje no pertenece a una campa'' @ [CHR 0xF1] @ ''a.''"

definition txt_same_day :: str where
  "txt_same_day =
     ''Se pas'' @ [CHR 0xF3] @ '' al pr'' @ [CHR 0xF3] @ ''ximo d'' @ [CHR 0xED] @ ''a permitido para evitar correos duplicados.''"

definition txt_reminder_attachments :: str where
  "txt_reminder_attachments =
     ''El recordatorio no debe incluir archivos adjuntos.''"

definition txt_lost_pdfs :: str where
  "txt_lost_pdfs =
     ''La propuesta inicial perdi'' @ [CHR 0xF3] @ '' sus PDFs aprobados.''"

definition txt_catalog_version :: str where
  "txt_catalog_version =
     ''La versi'' @ [CHR 0xF3] @ ''n de cat'' @ [CHR 0xE1] @ ''logo del mensaje es inconsistente.''"

definition txt_pdfs_changed :: str where
  "txt_pdfs_changed =
     ''Los PDFs aprobados cambiaron y no se puede enviar el correo.''"

definition txt_pdf_integrity :: str where
  "txt_pdf_integrity =
     ''Uno de los PDFs aprobados perdi'' @ [CHR 0xF3] @ '' integridad.''"

definition txt_pdfs_total :: str where
  "txt_pdfs_total =
     ''Los PDFs superan el l'' @ [CHR 0xED] @ ''mite combinado de 17 MiB.''"

definition txt_lost_thread :: str where
  "txt_lost_thread =
     ''El recordatorio perdi'' @ [CHR 0xF3] @ '' el hilo original de Gmail.''"

definition txt_not_dry_run :: str where
  "txt_not_dry_run =
     ''El mensaje no pertenece a una campa'' @ [CHR 0xF1] @ ''a en simulaci'' @ [CHR 0xF3] @ ''n.''"

definition txt_not_review :: str where
  "txt_not_review =
     ''El mensaje no pertenece a una campa'' @ [CHR 0xF1] @ ''a de solo revisi'' @ [CHR 0xF3] @ ''n.''"

definition txt_review_state :: str where
  "txt_review_state =
     ''El mensaje de revisi'' @ [CHR 0xF3] @ ''n no est'' @ [CHR 0xE1] @ '' en un estado preparable.''"

definition txt_five_failures :: str where
  "txt_five_failures =
     ''Pausa de seguridad: cinco fallos de entrega consecutivos.''"

definition txt_failure_rate :: str where
  "txt_failure_rate =
     ''Pausa de seguridad: la tasa de fallos alcanz'' @ [CHR 0xF3] @ '' 30% en 20 entregas.''"

definition txt_not_live :: str where
  "txt_not_live =
     ''El mensaje no pertenece a una campa'' @ [CHR 0xF1] @ ''a con env'' @ [CHR 0xED] @ ''o en vivo.''"

definition txt_needs_approval :: str where
  "txt_needs_approval =
     ''El mensaje requiere aprobaci'' @ [CHR 0xF3] @ ''n expl'' @ [CHR 0xED] @ ''cita antes de Gmail.''"

definition txt_sending_blocked :: str where
  "txt_sending_blocked =
     ''La configuraci'' @ [CHR 0xF3] @ ''n global de env'' @ [CHR 0xED] @ ''o o el bloqueo general impidieron la entrega en vivo.''"

definition txt_gmail_not_ready :: str where
  "txt_gmail_not_ready =
     ''Gmail no est'' @ [CHR 0xE1] @ '' conectado y probado.''"

definition txt_reminder_window :: str where
  "txt_reminder_window =
     ''No se pudo calcular una ventana v'' @ [CHR 0xE1] @ ''lida para el recordatorio.''"

definition txt_reminder_content :: str where
  "txt_reminder_content =
     ''El contenido aprobado del recordatorio ya no es v'' @ [CHR 0xE1] @ ''lido.''"

definition txt_reminder_thread :: str where
  "txt_reminder_thread =
     ''El env'' @ [CHR 0xED] @ ''o inicial no conserv'' @ [CHR 0xF3] @ '' los datos necesarios para responder en el mismo hilo.''"

definition txt_reminder_cancelled :: str where
  "txt_reminder_cancelled =
     ''La campa'' @ [CHR 0xF1] @ ''a fue cancelada antes de programar el recordatorio.''"

definition txt_not_reconcilable :: str where
  "txt_not_reconcilable =
     ''El mensaje no estaba en una entrega reconciliable.''"

definition txt_recipient_unconfirmed :: str where
  "txt_recipient_unconfirmed =
     ''No se pudo confirmar el destinatario.''"

definition txt_lost_campaign :: str where
  "txt_lost_campaign =
     ''El mensaje perdi'' @ [CHR 0xF3] @ '' su campa'' @ [CHR 0xF1] @ ''a de origen.''"

definition txt_content_changed :: str where
  "txt_content_changed =
     ''El contenido aprobado cambi'' @ [CHR 0xF3] @ '' antes del env'' @ [CHR 0xED] @ ''o y se detuvo la campa'' @ [CHR 0xF1] @ ''a.''"

definition txt_cancelled_before_effect :: str where
  "txt_cancelled_before_effect =
     ''La campa'' @ [CHR 0xF1] @ ''a fue cancelada antes del efecto Gmail.''"

definition txt_stopped_before_effect :: str where
  "txt_stopped_before_effect =
     ''La entrega se detuvo antes del efecto Gmail.''"

definition txt_manual_reply_kind :: str where
  "txt_manual_reply_kind =
     ''Las respuestas manuales requieren confirmaci'' @ [CHR 0xF3] @ ''n expl'' @ [CHR 0xED] @ ''cita desde la conversaci'' @ [CHR 0xF3] @ ''n.''"

definition txt_other_kind :: str where
  "txt_other_kind =
     ''Este tipo de correo se env'' @ [CHR 0xED] @ ''a mediante su flujo de autorizaci'' @ [CHR 0xF3] @ ''n espec'' @ [CHR 0xED] @ ''fico.''"

definition txt_no_result :: str where
  "txt_no_result =
     ''La autorizaci'' @ [CHR 0xF3] @ ''n final Gmail no produjo un resultado.''"

definition txt_only_live :: str where
  "txt_only_live =
     ''S'' @ [CHR 0xF3] @ ''lo los mensajes con env'' @ [CHR 0xED] @ ''o en vivo pueden verificarse con Gmail.''"

definition txt_lost_campaign_reconciling :: str where
  "txt_lost_campaign_reconciling =
     ''El mensaje perdi'' @ [CHR 0xF3] @ '' su campa'' @ [CHR 0xF1] @ ''a durante la reconciliaci'' @ [CHR 0xF3] @ ''n.''"

definition txt_cancelled_absent :: str where
  "txt_cancelled_absent =
     ''La campa'' @ [CHR 0xF1] @ ''a fue cancelada; Gmail confirm'' @ [CHR 0xF3] @ '' ausencia del Message-ID.''"

definition txt_absent_exhausted :: str where
  "txt_absent_exhausted =
     ''Gmail confirm'' @ [CHR 0xF3] @ '' que el Message-ID no existe; reintentos agotados.''"

definition txt_absent_retry :: str where
  "txt_absent_retry =
     ''Gmail confirm'' @ [CHR 0xF3] @ '' ausencia; el mismo intento queda reprogramado.''"

definition txt_retry_state :: str where
  "txt_retry_state =
     ''S'' @ [CHR 0xF3] @ ''lo se pueden reintentar mensajes con fallo final.''"

definition txt_retry_confirmed :: str where
  "txt_retry_confirmed =
     ''El mensaje ya tiene confirmaci'' @ [CHR 0xF3] @ ''n Gmail y no se puede reencolar.''"

definition txt_retry_closed :: str where
  "txt_retry_closed =
     ''La campa'' @ [CHR 0xF1] @ ''a cerrada no admite reintentos.''"

definition txt_retry_reason :: str where
  "txt_retry_reason =
     ''Document'' @ [CHR 0xE1] @ '' qu'' @ [CHR 0xE9] @ '' causa fue corregida antes de reintentar.''"

definition txt_retry_approval :: str where
  "txt_retry_approval =
     ''El mensaje requiere aprobaci'' @ [CHR 0xF3] @ ''n antes de reintentar.''"

definition txt_catalog_unavailable :: str where
  "txt_catalog_unavailable =
     ''El cat'' @ [CHR 0xE1] @ ''logo seleccionado no est'' @ [CHR 0xE1] @ '' disponible.''"

definition txt_catalog_integrity :: str where
  "txt_catalog_integrity =
     ''El cat'' @ [CHR 0xE1] @ ''logo seleccionado perdi'' @ [CHR 0xF3] @ '' integridad.''"

definition txt_one_collection :: str where
  "txt_one_collection =
     ''Indic'' @ [CHR 0xE1] @ '' una sola colecci'' @ [CHR 0xF3] @ ''n de PDFs para el correo.''"

definition txt_pdf_empty :: str where
  "txt_pdf_empty =
     ''Uno de los PDFs est'' @ [CHR 0xE1] @ '' vac'' @ [CHR 0xED] @ ''o.''"

definition txt_pdf_too_big :: str where
  "txt_pdf_too_big =
     ''Uno de los PDFs supera el m'' @ [CHR 0xE1] @ ''ximo de 15 MiB.''"

definition txt_not_pdf :: str where
  "txt_not_pdf =
     ''Uno de los adjuntos no es un PDF v'' @ [CHR 0xE1] @ ''lido.''"

definition txt_mime_too_big :: str where
  "txt_mime_too_big =
     ''El correo completo supera el m'' @ [CHR 0xE1] @ ''ximo de 24 MiB.''"

definition txt_bad_address :: str where
  "txt_bad_address =
     ''El remitente o destinatario del correo no es v'' @ [CHR 0xE1] @ ''lido.''"

definition txt_no_parent :: str where
  "txt_no_parent =
     ''La respuesta necesita el identificador del mensaje anterior.''"

definition txt_empty_content :: str where
  "txt_empty_content =
     ''El asunto y el mensaje no pueden quedar vac'' @ [CHR 0xED] @ ''os.''"

definition txt_placeholders :: str where
  "txt_placeholders =
     ''Los mensajes de campa'' @ [CHR 0xF1] @ ''a no admiten datos variables por destinatario.''"

definition txt_bad_domain :: str where
  "txt_bad_domain =
     ''El dominio del email no es v'' @ [CHR 0xE1] @ ''lido.''"

definition txt_bad_suppression :: str where
  "txt_bad_suppression =
     ''El motivo de supresi'' @ [CHR 0xF3] @ ''n no es v'' @ [CHR 0xE1] @ ''lido.''"

definition txt_server_no_live :: str where
  "txt_server_no_live =
     ''El servidor no permite env'' @ [CHR 0xED] @ ''os reales. Pedile a quien lo administra que los habilite.''"

definition txt_bad_identity_kind :: str where
  "txt_bad_identity_kind =
     ''El tipo de identidad de la organizaci'' @ [CHR 0xF3] @ ''n no es v'' @ [CHR 0xE1] @ ''lido.''"

definition txt_bad_identity_hash :: str where
  "txt_bad_identity_hash =
     ''La identidad de la organizaci'' @ [CHR 0xF3] @ ''n no tiene un hash v'' @ [CHR 0xE1] @ ''lido.''"

definition txt_identity_taken :: str where
  "txt_identity_taken =
     ''Una identidad ya pertenece a otra organizaci'' @ [CHR 0xF3] @ ''n. Revis'' @ [CHR 0xE1] @ '' los datos antes de seguir.''"

definition txt_email_taken :: str where
  "txt_email_taken =
     ''Ese email ya pertenece a otra organizaci'' @ [CHR 0xF3] @ ''n. Revis'' @ [CHR 0xE1] @ '' el contacto antes de seguir.''"

definition txt_bad_source :: str where
  "txt_bad_source =
     ''El origen de la organizaci'' @ [CHR 0xF3] @ ''n no es v'' @ [CHR 0xE1] @ ''lido.''"

definition txt_bad_validity :: str where
  "txt_bad_validity =
     ''El estado del email no es v'' @ [CHR 0xE1] @ ''lido.''"

definition txt_no_identity :: str where
  "txt_no_identity =
     ''Se necesita al menos una identidad o un email para la organizaci'' @ [CHR 0xF3] @ ''n.''"

definition txt_several_organizations :: str where
  "txt_several_organizations =
     ''Los datos coinciden con organizaciones distintas. Hace falta una revisi'' @ [CHR 0xF3] @ ''n manual.''"

definition txt_other_workspace :: str where
  "txt_other_workspace =
     ''La organizaci'' @ [CHR 0xF3] @ ''n pertenece a otro espacio de trabajo.''"

definition txt_no_workspace :: str where
  "txt_no_workspace =
     ''La campa'' @ [CHR 0xF1] @ ''a no tiene un espacio de trabajo v'' @ [CHR 0xE1] @ ''lido.''"

definition txt_prospect_emails_split :: str where
  "txt_prospect_emails_split =
     ''Los emails del prospecto pertenecen a organizaciones distintas.''"

definition txt_prospect_linked :: str where
  "txt_prospect_linked =
     ''El prospecto ya estaba vinculado a otra organizaci'' @ [CHR 0xF3] @ ''n. Hace falta una revisi'' @ [CHR 0xF3] @ ''n manual.''"

definition txt_enrollment_incompatible :: str where
  "txt_enrollment_incompatible =
     ''La organizaci'' @ [CHR 0xF3] @ ''n ya tiene una participaci'' @ [CHR 0xF3] @ ''n incompatible en esta campa'' @ [CHR 0xF1] @ ''a.''"

definition txt_no_email :: str where
  "txt_no_email =
     ''Eleg'' @ [CHR 0xED] @ '' un email v'' @ [CHR 0xE1] @ ''lido antes de continuar.''"

definition txt_email_ownership :: str where
  "txt_email_ownership =
     ''El email elegido no pertenece a esta organizaci'' @ [CHR 0xF3] @ ''n.''"

definition txt_invalid_email :: str where
  "txt_invalid_email =
     ''El email elegido no est'' @ [CHR 0xE1] @ '' validado para enviar.''"

definition txt_existing_contact :: str where
  "txt_existing_contact =
     ''Esta organizaci'' @ [CHR 0xF3] @ ''n ya es un contacto y no recibir'' @ [CHR 0xE1] @ '' campa'' @ [CHR 0xF1] @ ''as nuevas.''"

definition txt_audience_filter :: str where
  "txt_audience_filter =
     ''Este negocio fue descartado por el filtro de audiencia.''"

definition txt_restricted :: str where
  "txt_restricted =
     ''Este contacto o email tiene una restricci'' @ [CHR 0xF3] @ ''n activa.''"

definition txt_legacy_restriction :: str where
  "txt_legacy_restriction =
     ''Este email tiene una restricci'' @ [CHR 0xF3] @ ''n registrada.''"

definition txt_no_prospect :: str where
  "txt_no_prospect =
     ''El mensaje no tiene una campa'' @ [CHR 0xF1] @ ''a y un prospecto heredado para resolver.''"

definition txt_recipient_invalid :: str where
  "txt_recipient_invalid =
     ''El destinatario del mensaje no es un email v'' @ [CHR 0xE1] @ ''lido.''"

definition txt_recipient_changed :: str where
  "txt_recipient_changed =
     ''El destinatario ya no coincide con el email elegido para la campa'' @ [CHR 0xF1] @ ''a.''"

definition txt_restriction_reason :: str where
  "txt_restriction_reason =
     ''Explic'' @ [CHR 0xE1] @ '' por qu'' @ [CHR 0xE9] @ '' no se debe contactar.''"

definition txt_choose_contact :: str where
  "txt_choose_contact =
     ''Eleg'' @ [CHR 0xED] @ '' un contacto completo para esta restricci'' @ [CHR 0xF3] @ ''n.''"

definition txt_choose_email :: str where
  "txt_choose_email =
     ''Eleg'' @ [CHR 0xED] @ '' un '' @ [CHR 0xFA] @ ''nico email para esta restricci'' @ [CHR 0xF3] @ ''n.''"

definition txt_bad_scope :: str where
  "txt_bad_scope =
     ''El alcance de la restricci'' @ [CHR 0xF3] @ ''n no es v'' @ [CHR 0xE1] @ ''lido.''"

definition txt_manual_restriction :: str where
  "txt_manual_restriction =
     ''La organizaci'' @ [CHR 0xF3] @ ''n tiene una restricci'' @ [CHR 0xF3] @ ''n manual en Contactos.''"

definition txt_revoke_reason :: str where
  "txt_revoke_reason =
     ''Explic'' @ [CHR 0xE1] @ '' por qu'' @ [CHR 0xE9] @ '' se quita la restricci'' @ [CHR 0xF3] @ ''n.''"

definition txt_only_manual :: str where
  "txt_only_manual =
     ''S'' @ [CHR 0xF3] @ ''lo las restricciones manuales se pueden quitar.''"

definition txt_unsubscribe_permanent :: str where
  "txt_unsubscribe_permanent =
     ''Una baja no se puede modificar ni quitar.''"

definition txt_marked_from_list :: str where
  "txt_marked_from_list =
     ''Marcado desde la lista de Contactos.''"

definition txt_enabled_from_list :: str where
  "txt_enabled_from_list =
     ''Rehabilitado desde la lista de Contactos.''"

definition txt_permanent_restriction :: str where
  "txt_permanent_restriction =
     ''Esta restricci'' @ [CHR 0xF3] @ ''n no se puede quitar desde Contactos.''"

definition txt_state_unknown :: str where "txt_state_unknown = ''El estado solicitado no existe.''"

definition txt_approve_first :: str where
  "txt_approve_first =
     ''Aprob'' @ [CHR 0xE1] @ '' la audiencia y el contenido antes de iniciar los env'' @ [CHR 0xED] @ ''os.''"

definition txt_paused_by_user :: str where "txt_paused_by_user = ''Pausada por el usuario.''"

definition txt_cancelled_by_user :: str where
  "txt_cancelled_by_user =
     ''Cancelada por el usuario.''"

definition txt_discovery_active :: str where
  "txt_discovery_active =
     ''No se puede completar con descubrimiento activo.''"

definition txt_error_reason :: str where
  "txt_error_reason =
     ''El error terminal requiere un motivo.''"

definition txt_only_paused :: str where
  "txt_only_paused =
     ''S'' @ [CHR 0xF3] @ ''lo se puede reanudar una campa'' @ [CHR 0xF1] @ ''a pausada.''"

definition txt_discovery_campaign :: str where
  "txt_discovery_campaign =
     ''El descubrimiento s'' @ [CHR 0xF3] @ ''lo cambia en una campa'' @ [CHR 0xF1] @ ''a activa.''"

definition txt_discovery_over :: str where
  "txt_discovery_over =
     ''El descubrimiento ya no est'' @ [CHR 0xE1] @ '' activo.''"

definition txt_discovery_target :: str where
  "txt_discovery_target =
     ''El estado final de descubrimiento no es v'' @ [CHR 0xE1] @ ''lido.''"

definition txt_discovery_reason :: str where
  "txt_discovery_reason =
     ''El cierre de descubrimiento requiere un motivo exacto.''"

definition txt_no_categories :: str where
  "txt_no_categories =
     ''La campa'' @ [CHR 0xF1] @ ''a necesita rubros.''"

definition txt_category_inactive :: str where
  "txt_category_inactive =
     ''Un rubro seleccionado ya no est'' @ [CHR 0xE1] @ '' activo.''"

definition txt_category_rules :: str where
  "txt_category_rules =
     ''Todos los rubros seleccionados necesitan reglas Overture activas.''"

definition txt_no_zones :: str where
  "txt_no_zones =
     ''La campa'' @ [CHR 0xF1] @ ''a necesita zonas.''"

definition txt_legacy_zone :: str where
  "txt_legacy_zone =
     ''Una zona legacy no est'' @ [CHR 0xE1] @ '' activa; recre'' @ [CHR 0xE1] @ '' la campa'' @ [CHR 0xF1] @ ''a con una zona vigente.''"

definition txt_upload_boundary :: str where
  "txt_upload_boundary =
     ''Sub'' @ [CHR 0xED] @ '' un l'' @ [CHR 0xED] @ ''mite GeoJSON para ''"

definition txt_before_legacy :: str where
  "txt_before_legacy =
     '' antes de iniciar la campa'' @ [CHR 0xF1] @ ''a legacy.''"

definition txt_boundary_of :: str where "txt_boundary_of = ''La frontera configurada para ''"

definition txt_lost_integrity :: str where
  "txt_lost_integrity =
     '' perdi'' @ [CHR 0xF3] @ '' integridad.''"

definition txt_the_zone :: str where "txt_the_zone = ''La zona ''"

definition txt_no_province :: str where
  "txt_no_province =
     '' no est'' @ [CHR 0xE1] @ '' asociada a una provincia. Editala antes de usar datos Overture.''"

definition txt_the_data_of :: str where "txt_the_data_of = ''los datos de''"

definition txt_data_of :: str where "txt_data_of = ''datos de''"

definition txt_missing :: str where "txt_missing = ''Faltan ''"

definition txt_update_from :: str where
  "txt_update_from =
     '' Actualizalos desde Datos de b'' @ [CHR 0xFA] @ ''squeda.''"

definition txt_province_versions :: str where
  "txt_province_versions =
     ''Las provincias seleccionadas usan versiones distintas. Actualizalas desde Datos de b'' @ [CHR 0xFA] @ ''squeda antes de iniciar.''"

definition txt_the_data_of_cap :: str where "txt_the_data_of_cap = ''Los datos de ''"

definition txt_not_include :: str where
  "txt_not_include =
     '' no incluyen la revisi'' @ [CHR 0xF3] @ ''n actual de ''"

definition txt_no_coverage :: str where
  "txt_no_coverage =
     ''La campa'' @ [CHR 0xF1] @ ''a no fij'' @ [CHR 0xF3] @ '' su cobertura provincial.''"

definition txt_incompatible_versions :: str where
  "txt_incompatible_versions =
     ''La campa'' @ [CHR 0xF1] @ ''a conserva versiones de datos incompatibles.''"

definition txt_pinned_coverage :: str where "txt_pinned_coverage = ''La cobertura fijada de ''"

definition txt_not_available :: str where
  "txt_not_available =
     '' ya no est'' @ [CHR 0xE1] @ '' disponible.''"

definition txt_fill_profile :: str where
  "txt_fill_profile =
     ''Complet'' @ [CHR 0xE1] @ '' el perfil comercial antes de iniciar.''"

definition txt_profile_incomplete :: str where
  "txt_profile_incomplete =
     ''El perfil comercial no tiene identidad, domicilio y firma completos.''"

definition txt_categories_and_zones :: str where
  "txt_categories_and_zones =
     ''La campa'' @ [CHR 0xF1] @ ''a necesita rubros y zonas.''"

definition txt_pdf_other_workspace :: str where
  "txt_pdf_other_workspace =
     ''Uno de los PDFs pertenece a otro espacio de trabajo.''"

definition txt_sync_overture :: str where
  "txt_sync_overture =
     ''Sincroniz'' @ [CHR 0xE1] @ '' y activ'' @ [CHR 0xE1] @ '' una copia local de datos de Overture antes de iniciar.''"

definition txt_overture_gone :: str where
  "txt_overture_gone =
     ''La copia local de datos de Overture fijada ya no est'' @ [CHR 0xE1] @ '' disponible.''"

definition txt_live_blocked :: str where
  "txt_live_blocked =
     ''El env'' @ [CHR 0xED] @ ''o en vivo est'' @ [CHR 0xE1] @ '' bloqueado por los controles generales de seguridad.''"

definition txt_gmail_needed :: str where
  "txt_gmail_needed =
     ''La conexi'' @ [CHR 0xF3] @ ''n Gmail debe estar conectada y probada.''"

definition txt_mixed_versions :: str where
  "txt_mixed_versions =
     ''Una campa'' @ [CHR 0xF1] @ ''a no puede mezclar versiones de datos.''"

definition txt_raw_limit :: str where
  "txt_raw_limit =
     ''El l'' @ [CHR 0xED] @ ''mite crudo no puede ser menor que el objetivo.''"

definition txt_window_order :: str where
  "txt_window_order =
     ''El fin del horario debe ser posterior al inicio.''"

definition txt_some_weekday :: str where
  "txt_some_weekday =
     ''Seleccion'' @ [CHR 0xE1] @ '' al menos un d'' @ [CHR 0xED] @ ''a v'' @ [CHR 0xE1] @ ''lido.''"

definition txt_bad_zone :: str where
  "txt_bad_zone =
     ''La zona horaria no es v'' @ [CHR 0xE1] @ ''lida.''"

definition txt_bad_extractor :: str where
  "txt_bad_extractor =
     ''El proveedor de extracci'' @ [CHR 0xF3] @ ''n no es v'' @ [CHR 0xE1] @ ''lido.''"

definition txt_pin_snapshot :: str where
  "txt_pin_snapshot =
     ''La campa'' @ [CHR 0xF1] @ ''a iniciada debe fijar un snapshot Overture.''"

definition txt_bad_fetcher :: str where
  "txt_bad_fetcher =
     ''El lector de sitios web no es v'' @ [CHR 0xE1] @ ''lido.''"

definition txt_bad_llm :: str where
  "txt_bad_llm =
     ''El proveedor IA no es v'' @ [CHR 0xE1] @ ''lido.''"

definition txt_llm_url :: str where
  "txt_llm_url =
     ''El proveedor IA seleccionado requiere una URL base.''"

definition txt_immutable :: str where
  "txt_immutable =
     ''La configuraci'' @ [CHR 0xF3] @ ''n iniciada de una campa'' @ [CHR 0xF1] @ ''a es inmutable.''"

definition txt_selection_immutable :: str where
  "txt_selection_immutable =
     ''Las selecciones de una campa'' @ [CHR 0xF1] @ ''a iniciada son inmutables.''"

definition txt_prompt_char :: str where
  "txt_prompt_char =
     '' contiene un car'' @ [CHR 0xE1] @ ''cter no permitido.''"

definition txt_prompt_long :: str where "txt_prompt_long = '' no puede superar ''"

definition txt_characters :: str where "txt_characters = '' caracteres.''"

definition txt_audience_criteria :: str where "txt_audience_criteria = ''El criterio de audiencia''"

definition txt_reply_instructions :: str where
  "txt_reply_instructions =
     ''Las instrucciones de respuesta autom'' @ [CHR 0xE1] @ ''tica''"

definition INITIAL_SUBJECT :: str where "INITIAL_SUBJECT = ''Propuesta comercial''"

definition INITIAL_BODY :: str where
  "INITIAL_BODY =
     ''Buen d'' @ [CHR 0xED] @ ''a:'' @ [CHR 0x0A] @ [CHR 0x0A] @ ''Nos ponemos en contacto para acercarle nuestra propuesta de componentes industriales y compartir nuestros cat'' @ [CHR 0xE1] @ ''logos. Trabajamos con distintas medidas y aplicaciones para equipos y herramientas el'' @ [CHR 0xE9] @ ''ctricas. Si le resulta de inter'' @ [CHR 0xE9] @ ''s, puede responder este correo y con gusto ampliaremos la informaci'' @ [CHR 0xF3] @ ''n.'' @ [CHR 0x0A] @ [CHR 0x0A] @ ''Saludos.''"

definition REMINDER_BODY :: str where
  "REMINDER_BODY =
     ''Buen d'' @ [CHR 0xED] @ ''a:'' @ [CHR 0x0A] @ [CHR 0x0A] @ ''Retomamos nuestro correo anterior para saber si pudo revisar la propuesta y los cat'' @ [CHR 0xE1] @ ''logos. Si necesita informaci'' @ [CHR 0xF3] @ ''n sobre alguna medida o aplicaci'' @ [CHR 0xF3] @ ''n, puede responder este mensaje.'' @ [CHR 0x0A] @ [CHR 0x0A] @ ''Saludos.''"

definition REFERRED_PROPOSAL_SUBJECT :: str where
  "REFERRED_PROPOSAL_SUBJECT =
     ''Propuesta comercial''"

definition REFERRED_PROPOSAL_BODY :: str where
  "REFERRED_PROPOSAL_BODY =
     ''Buen d'' @ [CHR 0xED] @ ''a:'' @ [CHR 0x0A] @ [CHR 0x0A] @ ''Nos indicaron que esta es la direcci'' @ [CHR 0xF3] @ ''n adecuada para enviar nuestra propuesta comercial. Adjuntamos la informaci'' @ [CHR 0xF3] @ ''n y los cat'' @ [CHR 0xE1] @ ''logos correspondientes. Quedamos a disposici'' @ [CHR 0xF3] @ ''n ante cualquier consulta.'' @ [CHR 0x0A] @ [CHR 0x0A] @ ''Saludos.''"

definition DEFAULT_AUTOMATIC_REPLY_PROMPT :: str where
  "DEFAULT_AUTOMATIC_REPLY_PROMPT =
     ''Tono: cordial, claro y profesional, como un mail real escrito por una persona ocupada pero atenta. Evit'' @ [CHR 0xE1] @ '' exagerar el entusiasmo, las frases de marketing vac'' @ [CHR 0xED] @ ''as y la presi'' @ [CHR 0xF3] @ ''n comercial.'' @ [CHR 0x0A] @ [CHR 0x0A] @ ''Extensi'' @ [CHR 0xF3] @ ''n y estructura: contest'' @ [CHR 0xE1] @ '' la pregunta concreta en la primera frase y us'' @ [CHR 0xE1] @ '' uno a tres p'' @ [CHR 0xE1] @ ''rrafos cortos. Integr'' @ [CHR 0xE1] @ '' la informaci'' @ [CHR 0xF3] @ ''n relevante con tus propias palabras y evit'' @ [CHR 0xE1] @ '' listas salvo que realmente aclaren la respuesta.'' @ [CHR 0x0A] @ [CHR 0x0A] @ ''Idioma: respond'' @ [CHR 0xE9] @ '' en el idioma del contacto y conserv'' @ [CHR 0xE1] @ '' un registro natural para ese idioma. No hables sobre el sistema, la automatizaci'' @ [CHR 0xF3] @ ''n ni procesos internos.'' @ [CHR 0x0A] @ [CHR 0x0A] @ ''Iniciativa: manten'' @ [CHR 0xE9] @ '' una actitud consultiva y poco invasiva. No agregues llamados a la acci'' @ [CHR 0xF3] @ ''n comerciales que no sean relevantes para la consulta. Cuando ayude a avanzar, cerr'' @ [CHR 0xE1] @ '' con una pr'' @ [CHR 0xF3] @ ''xima acci'' @ [CHR 0xF3] @ ''n simple y concreta.''"

definition DEFAULT_RELEVANCE_CRITERIA :: str where
  "DEFAULT_RELEVANCE_CRITERIA =
     ''Nos sirven los negocios que reparan, mantienen o rebobinan equipos con motor el'' @ [CHR 0xE9] @ ''ctrico: talleres electromec'' @ [CHR 0xE1] @ ''nicos, bobinados de motores, service de herramientas el'' @ [CHR 0xE9] @ ''ctricas, reparaci'' @ [CHR 0xF3] @ ''n de bombas, autoelectricidad, alternadores y arranques, mantenimiento industrial, reparaci'' @ [CHR 0xF3] @ ''n de electrodom'' @ [CHR 0xE9] @ ''sticos y de m'' @ [CHR 0xE1] @ ''quinas industriales.'' @ [CHR 0x0A] @ ''No nos sirven los negocios que s'' @ [CHR 0xF3] @ ''lo venden equipos nuevos sin taller propio, ni los rubros sin relaci'' @ [CHR 0xF3] @ ''n con motores el'' @ [CHR 0xE9] @ ''ctricos.''"

definition txt_choose_pdf :: str where
  "txt_choose_pdf =
     ''Eleg'' @ [CHR 0xED] @ '' al menos un PDF para la propuesta inicial.''"

definition txt_exceeds_15 :: str where
  "txt_exceeds_15 =
     '' supera el l'' @ [CHR 0xED] @ ''mite de 15 MiB.''"

definition txt_selected_17 :: str where
  "txt_selected_17 =
     ''Los PDFs seleccionados superan el l'' @ [CHR 0xED] @ ''mite combinado de 17 MiB.''"

definition txt_pdfs_locked :: str where
  "txt_pdfs_locked =
     ''Los PDFs no se pueden cambiar despu'' @ [CHR 0xE9] @ ''s de iniciar la b'' @ [CHR 0xFA] @ ''squeda.''"

definition txt_pdf_gone :: str where
  "txt_pdf_gone =
     ''Uno de los PDFs ya no est'' @ [CHR 0xE1] @ '' disponible.''"

definition txt_each_15 :: str where
  "txt_each_15 =
     ''Cada PDF debe pesar como m'' @ [CHR 0xE1] @ ''ximo 15 MiB.''"

definition txt_no_source_campaign :: str where
  "txt_no_source_campaign =
     ''El mensaje no tiene una campa'' @ [CHR 0xF1] @ ''a de origen para sus PDFs.''"

definition txt_not_finishing :: str where
  "txt_not_finishing =
     ''La campa'' @ [CHR 0xF1] @ ''a no est'' @ [CHR 0xE1] @ '' terminando una b'' @ [CHR 0xFA] @ ''squeda.''"

definition txt_search_unfinished :: str where
  "txt_search_unfinished =
     ''La b'' @ [CHR 0xFA] @ ''squeda todav'' @ [CHR 0xED] @ ''a no termin'' @ [CHR 0xF3] @ '' correctamente.''"

definition txt_no_recipients :: str where
  "txt_no_recipients =
     ''No encontramos destinatarios v'' @ [CHR 0xE1] @ ''lidos para aprobar.''"

definition txt_search_stopped :: str where
  "txt_search_stopped =
     ''La b'' @ [CHR 0xFA] @ ''squeda se detuvo por un problema con los datos. Revis'' @ [CHR 0xE1] @ '' la campa'' @ [CHR 0xF1] @ ''a.''"

definition txt_nobody_left :: str where
  "txt_nobody_left =
     ''Ning'' @ [CHR 0xFA] @ ''n negocio qued'' @ [CHR 0xF3] @ '' para aprobar. Revis'' @ [CHR 0xE1] @ '' el filtro de audiencia o ampli'' @ [CHR 0xE1] @ '' la b'' @ [CHR 0xFA] @ ''squeda.''"

definition txt_not_in_audience :: str where
  "txt_not_in_audience =
     ''El destinatario no pertenece a la audiencia aprobada.''"

definition txt_email_changed :: str where
  "txt_email_changed =
     ''El email elegido cambi'' @ [CHR 0xF3] @ '' despu'' @ [CHR 0xE9] @ ''s de preparar el mensaje.''"

definition txt_lost_approving :: str where
  "txt_lost_approving =
     ''El mensaje perdi'' @ [CHR 0xF3] @ '' la campa'' @ [CHR 0xF1] @ ''a que aprob'' @ [CHR 0xF3] @ '' sus PDFs.''"

definition txt_pdfs_differ :: str where
  "txt_pdfs_differ =
     ''Los PDFs preparados ya no coinciden con la selecci'' @ [CHR 0xF3] @ ''n aprobada. Volv'' @ [CHR 0xE9] @ '' a revisar la campa'' @ [CHR 0xF1] @ ''a.''"

definition txt_audience_changed :: str where
  "txt_audience_changed =
     ''La audiencia cambi'' @ [CHR 0xF3] @ ''. Volv'' @ [CHR 0xE9] @ '' a revisar la campa'' @ [CHR 0xF1] @ ''a.''"

definition txt_attachments_changed :: str where
  "txt_attachments_changed =
     ''Los PDFs cambiaron. Volv'' @ [CHR 0xE9] @ '' a revisar la campa'' @ [CHR 0xF1] @ ''a.''"

definition txt_schedule_changed :: str where
  "txt_schedule_changed =
     ''El horario o el recordatorio cambiaron. Volv'' @ [CHR 0xE9] @ '' a revisar la campa'' @ [CHR 0xF1] @ ''a.''"

definition txt_message_changed :: str where
  "txt_message_changed =
     ''El mensaje o la firma cambiaron. Volv'' @ [CHR 0xE9] @ '' a revisar la campa'' @ [CHR 0xF1] @ ''a.''"

definition txt_not_approvable :: str where
  "txt_not_approvable =
     ''La campa'' @ [CHR 0xF1] @ ''a todav'' @ [CHR 0xED] @ ''a no est'' @ [CHR 0xE1] @ '' lista para aprobar.''"

definition txt_per_message :: str where
  "txt_per_message =
     ''Esta campa'' @ [CHR 0xF1] @ ''a se aprueba mensaje por mensaje.''"

definition txt_nobody_eligible :: str where
  "txt_nobody_eligible =
     ''Ning'' @ [CHR 0xFA] @ ''n destinatario sigue habilitado para recibir la propuesta.''"

definition txt_not_startable :: str where
  "txt_not_startable =
     ''La campa'' @ [CHR 0xF1] @ ''a todav'' @ [CHR 0xED] @ ''a no est'' @ [CHR 0xE1] @ '' lista para iniciar los env'' @ [CHR 0xED] @ ''os.''"

definition txt_whole_campaign :: str where
  "txt_whole_campaign =
     ''Esta campa'' @ [CHR 0xF1] @ ''a se aprueba completa con una sola confirmaci'' @ [CHR 0xF3] @ ''n.''"

definition txt_not_included :: str where
  "txt_not_included =
     ''No se incluy'' @ [CHR 0xF3] @ '' al iniciar la campa'' @ [CHR 0xF1] @ ''a.''"

definition txt_not_approved_single :: str where
  "txt_not_approved_single =
     ''No se aprob'' @ [CHR 0xF3] @ '' el mensaje individual.''"

definition txt_approve_one :: str where
  "txt_approve_one =
     ''Aprob'' @ [CHR 0xE1] @ '' al menos un mensaje antes de iniciar la entrega.''"

definition txt_template_body :: str where
  "txt_template_body =
     ''El mensaje no puede quedar vac'' @ [CHR 0xED] @ ''o.''"

definition txt_template_subject :: str where
  "txt_template_subject =
     ''El asunto no puede quedar vac'' @ [CHR 0xED] @ ''o.''"

definition txt_template_markers :: str where
  "txt_template_markers =
     ''Los mensajes de campa'' @ [CHR 0xF1] @ ''a no admiten datos variables.''"

definition txt_no_related :: str where
  "txt_no_related =
     ''El mensaje no tiene un env'' @ [CHR 0xED] @ ''o vinculado.''"

definition txt_no_contact_link :: str where
  "txt_no_contact_link =
     ''El mensaje sin campa'' @ [CHR 0xF1] @ ''a no tiene un contacto y una organizaci'' @ [CHR 0xF3] @ ''n vinculados.''"

definition txt_bounce_reason :: str where "txt_bounce_reason = ''Rebote informado por Gmail''"

definition txt_reply_label :: str where
  "txt_reply_label =
     ''Email desde el que respondi'' @ [CHR 0xF3]"

definition txt_interacted :: str where
  "txt_interacted =
     ''La organizaci'' @ [CHR 0xF3] @ ''n interactu'' @ [CHR 0xF3] @ '' y figura en Contactos.''"

definition txt_no_sender :: str where
  "txt_no_sender =
     ''El remitente no contiene un email reconocible.''"

definition txt_bounced :: str where
  "txt_bounced =
     ''El email rebot'' @ [CHR 0xF3] @ ''; se cancel'' @ [CHR 0xF3] @ '' el recordatorio pendiente.''"

definition txt_replied :: str where
  "txt_replied =
     ''La organizaci'' @ [CHR 0xF3] @ ''n ya respondi'' @ [CHR 0xF3] @ '' y ahora figura en Contactos.''"

definition txt_added_manually :: str where
  "txt_added_manually =
     ''La organizaci'' @ [CHR 0xF3] @ ''n se agreg'' @ [CHR 0xF3] @ '' manualmente a Contactos.''"

definition txt_main_email :: str where "txt_main_email = ''Email principal''"

definition txt_manual_email :: str where "txt_manual_email = ''Email agregado manualmente''"

definition txt_other_organization :: str where
  "txt_other_organization =
     ''Ese email pertenece a otra organizaci'' @ [CHR 0xF3] @ ''n. Revisalo antes de continuar.''"

definition txt_invalid_preferred :: str where
  "txt_invalid_preferred =
     ''Un email inv'' @ [CHR 0xE1] @ ''lido no puede ser el email preferido.''"

definition txt_already_validated :: str where
  "txt_already_validated =
     ''Este email ya tiene un resultado de validaci'' @ [CHR 0xF3] @ ''n.''"

definition txt_no_mail_domain :: str where "txt_no_mail_domain = ''El dominio no recibe correo.''"

definition txt_same_space_contact :: str where
  "txt_same_space_contact =
     ''El contacto debe pertenecer al mismo espacio.''"

definition txt_same_space_email :: str where
  "txt_same_space_email =
     ''El email debe pertenecer al mismo espacio.''"

lemmas txt_defs =
  txt_no_weekdays_def txt_no_next_day_def txt_ledger_taken_def txt_no_campaign_def
  txt_same_day_def txt_reminder_attachments_def txt_lost_pdfs_def txt_catalog_version_def
  txt_pdfs_changed_def txt_pdf_integrity_def txt_pdfs_total_def txt_lost_thread_def
  txt_not_dry_run_def txt_not_review_def txt_review_state_def txt_five_failures_def
  txt_failure_rate_def txt_not_live_def txt_needs_approval_def txt_sending_blocked_def
  txt_gmail_not_ready_def txt_reminder_window_def txt_reminder_content_def txt_reminder_thread_def
  txt_reminder_cancelled_def txt_not_reconcilable_def txt_recipient_unconfirmed_def
  txt_lost_campaign_def txt_content_changed_def txt_cancelled_before_effect_def
  txt_stopped_before_effect_def txt_manual_reply_kind_def txt_other_kind_def txt_no_result_def
  txt_only_live_def txt_lost_campaign_reconciling_def txt_cancelled_absent_def
  txt_absent_exhausted_def txt_absent_retry_def txt_retry_state_def txt_retry_confirmed_def
  txt_retry_closed_def txt_retry_reason_def txt_retry_approval_def txt_catalog_unavailable_def
  txt_catalog_integrity_def txt_one_collection_def txt_pdf_empty_def txt_pdf_too_big_def
  txt_not_pdf_def txt_mime_too_big_def txt_bad_address_def txt_no_parent_def txt_empty_content_def
  txt_placeholders_def txt_bad_domain_def txt_bad_suppression_def txt_server_no_live_def
  txt_bad_identity_kind_def txt_bad_identity_hash_def txt_identity_taken_def txt_email_taken_def
  txt_bad_source_def txt_bad_validity_def txt_no_identity_def txt_several_organizations_def
  txt_other_workspace_def txt_no_workspace_def txt_prospect_emails_split_def
  txt_prospect_linked_def txt_enrollment_incompatible_def txt_no_email_def txt_email_ownership_def
  txt_invalid_email_def txt_existing_contact_def txt_audience_filter_def txt_restricted_def
  txt_legacy_restriction_def txt_no_prospect_def txt_recipient_invalid_def
  txt_recipient_changed_def txt_restriction_reason_def txt_choose_contact_def txt_choose_email_def
  txt_bad_scope_def txt_manual_restriction_def txt_revoke_reason_def txt_only_manual_def
  txt_unsubscribe_permanent_def txt_marked_from_list_def txt_enabled_from_list_def
  txt_permanent_restriction_def txt_state_unknown_def txt_approve_first_def txt_paused_by_user_def
  txt_cancelled_by_user_def txt_discovery_active_def txt_error_reason_def txt_only_paused_def
  txt_discovery_campaign_def txt_discovery_over_def txt_discovery_target_def
  txt_discovery_reason_def txt_no_categories_def txt_category_inactive_def txt_category_rules_def
  txt_no_zones_def txt_legacy_zone_def txt_upload_boundary_def txt_before_legacy_def
  txt_boundary_of_def txt_lost_integrity_def txt_the_zone_def txt_no_province_def
  txt_the_data_of_def txt_data_of_def txt_missing_def txt_update_from_def
  txt_province_versions_def txt_the_data_of_cap_def txt_not_include_def txt_no_coverage_def
  txt_incompatible_versions_def txt_pinned_coverage_def txt_not_available_def txt_fill_profile_def
  txt_profile_incomplete_def txt_categories_and_zones_def txt_pdf_other_workspace_def
  txt_sync_overture_def txt_overture_gone_def txt_live_blocked_def txt_gmail_needed_def
  txt_mixed_versions_def txt_raw_limit_def txt_window_order_def txt_some_weekday_def
  txt_bad_zone_def txt_bad_extractor_def txt_pin_snapshot_def txt_bad_fetcher_def txt_bad_llm_def
  txt_llm_url_def txt_immutable_def txt_selection_immutable_def txt_prompt_char_def
  txt_prompt_long_def txt_characters_def txt_audience_criteria_def txt_reply_instructions_def
  INITIAL_SUBJECT_def INITIAL_BODY_def REMINDER_BODY_def REFERRED_PROPOSAL_SUBJECT_def
  REFERRED_PROPOSAL_BODY_def DEFAULT_AUTOMATIC_REPLY_PROMPT_def DEFAULT_RELEVANCE_CRITERIA_def
  txt_choose_pdf_def txt_exceeds_15_def txt_selected_17_def txt_pdfs_locked_def txt_pdf_gone_def
  txt_each_15_def txt_no_source_campaign_def txt_not_finishing_def txt_search_unfinished_def
  txt_no_recipients_def txt_search_stopped_def txt_nobody_left_def txt_not_in_audience_def
  txt_email_changed_def txt_lost_approving_def txt_pdfs_differ_def txt_audience_changed_def
  txt_attachments_changed_def txt_schedule_changed_def txt_message_changed_def
  txt_not_approvable_def txt_per_message_def txt_nobody_eligible_def txt_not_startable_def
  txt_whole_campaign_def txt_not_included_def txt_not_approved_single_def txt_approve_one_def
  txt_template_body_def txt_template_subject_def txt_template_markers_def txt_no_related_def
  txt_no_contact_link_def txt_bounce_reason_def txt_reply_label_def txt_interacted_def
  txt_no_sender_def txt_bounced_def txt_replied_def txt_added_manually_def txt_main_email_def
  txt_manual_email_def txt_other_organization_def txt_invalid_preferred_def
  txt_already_validated_def txt_no_mail_domain_def txt_same_space_contact_def
  txt_same_space_email_def

end
