(* ===== verification/Access.thy ===== *)
theory Access
  imports Db Texts
begin

text \<open>
  Who may act and whether real email may leave: \<open>accounts/permissions.py\<close> and
  \<open>configuration/send_mode.py\<close>, with the audit trail (\<open>audit/services.py\<close>) and the choice of fresh keys
  every other component uses.
\<close>

section \<open>Audit trail and fresh keys\<close>

definition record_event :: "str \<Rightarrow> id \<Rightarrow> id option \<Rightarrow> db \<Rightarrow> db" where
  "record_event action entity actor d =
     d\<lparr>audit_log := audit_log d @ [\<lparr>au_action = action, au_entity = entity, au_actor = actor\<rparr>]\<rparr>"

definition fresh :: "db \<Rightarrow> id \<times> db" where
  "fresh d = (next_id d, d\<lparr>next_id := Suc (next_id d)\<rparr>)"

section \<open>Capabilities\<close>

datatype capability =
  VIEW_SUMMARY | VIEW_CAMPAIGNS | VIEW_SENT_MESSAGES | VIEW_CONTACTS | MANAGE_USERS | MANAGE_CAMPAIGNS
| APPROVE_CAMPAIGNS | SEND_REPLIES | MANAGE_CONTACTS | MANAGE_KNOWLEDGE | MANAGE_AUTOMATION
| MANAGE_CONFIGURATION | MANAGE_INTEGRATIONS | DOWNLOAD_PDFS | EXPORT_DATA | VIEW_JOBS | RETRY_JOBS
| VIEW_AUDIT

definition VENDEDOR_CAPABILITIES :: "capability list" where
  "VENDEDOR_CAPABILITIES = [VIEW_SUMMARY, VIEW_CAMPAIGNS, VIEW_SENT_MESSAGES, VIEW_CONTACTS]"

definition membership_for :: "db \<Rightarrow> id \<Rightarrow> membership option" where
  "membership_for d user =
     (case t_get u_id user (memberships d) of
        None \<Rightarrow> None
      | Some u \<Rightarrow> if \<not> u_active u then None else Some u)"

definition has_capability :: "db \<Rightarrow> id \<Rightarrow> capability \<Rightarrow> bool" where
  "has_capability d user cap =
     (case membership_for d user of
        None \<Rightarrow> False
      | Some m \<Rightarrow> if u_role m = ADMIN then True else cap \<in> set VENDEDOR_CAPABILITIES)"

definition require_user_capability ::
    "db \<Rightarrow> id \<Rightarrow> capability \<Rightarrow> id option \<Rightarrow> exn + membership" where
  "require_user_capability d user cap ws =
     (case membership_for d user of
        None \<Rightarrow> Inl PermissionDenied
      | Some m \<Rightarrow>
          if \<not> has_capability d user cap then Inl PermissionDenied
          else if ws \<noteq> None \<and> ws \<noteq> Some (u_workspace m) then Inl PermissionDenied
          else Inr m)"

text \<open>\<open>if actor is not None: require_user_capability(...)\<close>\<close>

definition require_if_actor :: "db \<Rightarrow> id option \<Rightarrow> capability \<Rightarrow> id option \<Rightarrow> exn + unit" where
  "require_if_actor d actor cap ws =
     (case actor of
        None \<Rightarrow> Inr ()
      | Some u \<Rightarrow> bindE (require_user_capability d u cap ws) (\<lambda>_. Inr ()))"

section \<open>Whether real email may leave\<close>

definition server_allows_live :: "env \<Rightarrow> bool" where
  "server_allows_live env \<longleftrightarrow> send_mode_live env \<and> \<not> send_kill_switch env"

definition send_setting :: "db \<Rightarrow> send_mode_setting option" where
  "send_setting d = find (\<lambda>s. sm_workspace s = workspace_pk d) (send_mode_settings d)"

definition app_enabled_live :: "db \<Rightarrow> bool" where
  "app_enabled_live d = (case send_setting d of None \<Rightarrow> False | Some s \<Rightarrow> sm_live_enabled s)"

definition live_sending_allowed :: "env \<Rightarrow> db \<Rightarrow> bool" where
  "live_sending_allowed env d =
     (if \<not> server_allows_live env then False
      else app_enabled_live d \<or> \<not> send_requires_app_enable env)"

text \<open>\<open>SendModeSetting.objects.get_or_create(workspace=...)\<close>\<close>

definition get_or_create_send_setting :: "id \<Rightarrow> db \<Rightarrow> send_mode_setting \<times> db" where
  "get_or_create_send_setting ws d =
     (case find (\<lambda>s. sm_workspace s = ws) (send_mode_settings d) of
        Some s \<Rightarrow> (s, d)
      | None \<Rightarrow>
          (let (k, d1) = fresh d;
               s = \<lparr>sm_id = k, sm_workspace = ws, sm_live_enabled = False, sm_live_enabled_at = None,
                    sm_live_enabled_by = None\<rparr>
           in (s, d1\<lparr>send_mode_settings := send_mode_settings d1 @ [s]\<rparr>)))"

definition enable_live_sending :: "env \<Rightarrow> id \<Rightarrow> bool \<Rightarrow> db \<Rightarrow> exn + send_mode_setting \<times> db" where
  "enable_live_sending env actor reauthenticated d =
     bindE (require_user_capability d actor MANAGE_INTEGRATIONS None) (\<lambda>m.
       if \<not> reauthenticated then Inl PermissionDenied
       else if \<not> server_allows_live env then Inl (ValidationError txt_server_no_live)
       else
         let (s, d1) = get_or_create_send_setting (u_workspace m) d;
             s' = s\<lparr>sm_live_enabled := True, sm_live_enabled_at := Some (clock env),
                    sm_live_enabled_by := Some actor\<rparr>;
             d2 = d1\<lparr>send_mode_settings := t_save sm_id (sm_id s) (\<lambda>_. s') (send_mode_settings d1)\<rparr>
         in Inr (s', record_event ''send_mode.live_enabled'' (sm_id s) (Some actor) d2))"

definition disable_live_sending :: "id \<Rightarrow> db \<Rightarrow> exn + send_mode_setting \<times> db" where
  "disable_live_sending actor d =
     bindE (require_user_capability d actor MANAGE_INTEGRATIONS None) (\<lambda>m.
       let (s, d1) = get_or_create_send_setting (u_workspace m) d;
           s' = s\<lparr>sm_live_enabled := False, sm_live_enabled_at := None, sm_live_enabled_by := None\<rparr>;
           d2 = d1\<lparr>send_mode_settings := t_save sm_id (sm_id s) (\<lambda>_. s') (send_mode_settings d1)\<rparr>
       in Inr (s', record_event ''send_mode.simulation_enabled'' (sm_id s) (Some actor) d2))"

section \<open>Lemmas\<close>

lemma record_event_frame [simp]:
  "messages (record_event a e u d) = messages d"
  "campaigns (record_event a e u d) = campaigns d"
  "reservations (record_event a e u d) = reservations d"
  "ledgers (record_event a e u d) = ledgers d"
  "suppressions (record_event a e u d) = suppressions d"
  "restrictions (record_event a e u d) = restrictions d"
  "contacts (record_event a e u d) = contacts d"
  "emails (record_event a e u d) = emails d"
  "organizations (record_event a e u d) = organizations d"
  "identities (record_event a e u d) = identities d"
  "enrollments (record_event a e u d) = enrollments d"
  "prospects (record_event a e u d) = prospects d"
  "prospect_emails (record_event a e u d) = prospect_emails d"
  "prospect_identities (record_event a e u d) = prospect_identities d"
  "analyses (record_event a e u d) = analyses d"
  "jobs (record_event a e u d) = jobs d"
  "connections (record_event a e u d) = connections d"
  "memberships (record_event a e u d) = memberships d"
  "attachments (record_event a e u d) = attachments d"
  "catalogs (record_event a e u d) = catalogs d"
  "storage (record_event a e u d) = storage d"
  "send_mode_settings (record_event a e u d) = send_mode_settings d"
  "search_runs (record_event a e u d) = search_runs d"
  "search_queries (record_event a e u d) = search_queries d"
  "workspace_pk (record_event a e u d) = workspace_pk d"
  "next_id (record_event a e u d) = next_id d"
  by (simp_all add: record_event_def)

lemma live_sending_allowed_iff:
  "live_sending_allowed env d \<longleftrightarrow>
     send_mode_live env \<and> \<not> send_kill_switch env \<and> (app_enabled_live d \<or> \<not> send_requires_app_enable env)"
  by (auto simp: live_sending_allowed_def server_allows_live_def)

lemma require_user_capability_Inr [res_simps]:
  "require_user_capability d user cap ws = Inr m \<longleftrightarrow>
     membership_for d user = Some m \<and> (u_role m = ADMIN \<or> cap \<in> set VENDEDOR_CAPABILITIES)
     \<and> (ws = None \<or> ws = Some (u_workspace m))"
  by (auto simp: require_user_capability_def has_capability_def split: option.splits if_splits)

lemma require_if_actor_Inr [res_simps]:
  "require_if_actor d actor cap ws = Inr u \<longleftrightarrow>
     (\<forall>a. actor = Some a \<longrightarrow> (\<exists>m. require_user_capability d a cap ws = Inr m))"
  by (auto simp: require_if_actor_def res_simps split: option.splits)

end
