(* ===== verification/Compliance.thy ===== *)
theory Compliance
  imports Access
begin

text \<open>
  \<open>compliance/services.py\<close>: the normal form of an address and the suppression list. The advisory lock
  \<open>lock_email_eligibility\<close> orders transactions and changes no row, so it has no counterpart here: one
  operation of the model is one transaction.
\<close>

definition normalize_email :: "env \<Rightarrow> str \<Rightarrow> exn + str" where
  "normalize_email env value =
     (let email = py_strip value
      in if \<not> valid_email env email then Inl (ValidationError (invalid_email_text env))
         else bindE (of_option (RuntimeFailure ''not enough values to unpack'') (rsplit_at email))
           (\<lambda>(local_part, domain).
              bindE (of_option (ValidationError txt_bad_domain) (idna env domain)) (\<lambda>ascii_domain.
                let normalized = py_casefold local_part @ ''@'' @ py_casefold ascii_domain
                in if \<not> valid_email env normalized
                   then Inl (ValidationError (invalid_email_text env))
                   else Inr normalized)))"

definition suppression_value :: "suppression_reason \<Rightarrow> str" where
  "suppression_value r =
     (case r of S_UNSUBSCRIBE \<Rightarrow> ''UNSUBSCRIBE'' | S_BOUNCE \<Rightarrow> ''BOUNCE'' | S_MANUAL \<Rightarrow> ''MANUAL'')"

definition suppression_of_value :: "str \<Rightarrow> suppression_reason option" where
  "suppression_of_value t =
     (if t = ''UNSUBSCRIBE'' then Some S_UNSUBSCRIBE
      else if t = ''BOUNCE'' then Some S_BOUNCE
      else if t = ''MANUAL'' then Some S_MANUAL else None)"

definition find_suppression :: "str \<Rightarrow> db \<Rightarrow> suppression option" where
  "find_suppression normalized d = find (\<lambda>s. s_email s = normalized) (suppressions d)"

definition suppressed :: "str \<Rightarrow> db \<Rightarrow> bool" where
  "suppressed normalized d = list_ex (\<lambda>s. s_email s = normalized) (suppressions d)"

definition merge_existing_suppression ::
    "suppression \<Rightarrow> suppression_reason \<Rightarrow> id option \<Rightarrow> str \<Rightarrow> str \<Rightarrow> db \<Rightarrow> suppression \<times> db" where
  "merge_existing_suppression entry reason actor source evidence d =
     (if s_reason entry = S_UNSUBSCRIBE then (entry, d)
      else if reason = S_UNSUBSCRIBE then
        let entry' = entry\<lparr>s_reason := reason, s_source := source, s_evidence := evidence\<rparr>;
            d1 = d\<lparr>suppressions := t_save s_id (s_id entry)
                   (\<lambda>s. s\<lparr>s_reason := reason, s_source := source, s_evidence := evidence\<rparr>)
                   (suppressions d)\<rparr>
        in (entry', record_event ''suppression.upgraded'' (s_id entry) actor d1)
      else (entry, d))"

text \<open>A bounce also marks the discovered address as invalid.\<close>

definition invalidate_prospect_emails :: "env \<Rightarrow> str \<Rightarrow> db \<Rightarrow> db" where
  "invalidate_prospect_emails env normalized d =
     d\<lparr>prospect_emails := t_update (\<lambda>p. pe_normalized p = normalized)
        (\<lambda>p. p\<lparr>pe_invalid := True, pe_invalid_reason := ''BOUNCE'', pe_invalidated_at := Some (clock env)\<rparr>)
        (prospect_emails d)\<rparr>"

definition suppress_email ::
    "env \<Rightarrow> str \<Rightarrow> str \<Rightarrow> id option \<Rightarrow> str \<Rightarrow> str \<Rightarrow> db \<Rightarrow> exn + suppression \<times> db" where
  "suppress_email env email reason actor source evidence d =
     bindE (require_if_actor d actor MANAGE_CONTACTS None) (\<lambda>_.
     bindE (normalize_email env email) (\<lambda>normalized.
     bindE (of_option (ValidationError txt_bad_suppression) (suppression_of_value reason)) (\<lambda>r.
       let d1 = (if r = S_BOUNCE then invalidate_prospect_emails env normalized d else d)
       in case find_suppression normalized d1 of
            Some entry \<Rightarrow> Inr (merge_existing_suppression entry r actor source evidence d1)
          | None \<Rightarrow>
              let (k, d2) = fresh d1;
                  entry = \<lparr>s_id = k, s_original_email = py_strip email, s_email = normalized,
                           s_reason = r, s_source = source, s_evidence = evidence, s_created_by = actor\<rparr>;
                  d3 = d2\<lparr>suppressions := suppressions d2 @ [entry]\<rparr>
              in Inr (entry, record_event ''suppression.created'' k actor d3))))"

definition is_email_suppressed :: "env \<Rightarrow> str \<Rightarrow> db \<Rightarrow> bool" where
  "is_email_suppressed env email d =
     (case normalize_email env email of
        Inl e \<Rightarrow> True
      | Inr normalized \<Rightarrow> suppressed normalized d)"

section \<open>Lemmas\<close>

lemma suppression_value_roundtrip [simp]: "suppression_of_value (suppression_value r) = Some r"
  by (cases r) (simp_all add: suppression_of_value_def suppression_value_def)

lemma suppressed_iff_find: "suppressed n d \<longleftrightarrow> find_suppression n d \<noteq> None"
  unfolding suppressed_def find_suppression_def by (auto simp: find_None_iff_all list_ex_iff)

lemma find_suppression_email: "find_suppression n d = Some s \<Longrightarrow> s_email s = n \<and> s \<in> set (suppressions d)"
  unfolding find_suppression_def by (auto dest: find_Some_mem)

lemma find_suppression_frame [simp]:
  "suppressions (snd (fresh d)) = suppressions d"
  "suppressions (invalidate_prospect_emails env n d) = suppressions d"
  "find_suppression n (invalidate_prospect_emails env n' d) = find_suppression n d"
  by (simp_all add: fresh_def invalidate_prospect_emails_def find_suppression_def)

lemma suppressions_merge:
  "suppressions (snd (merge_existing_suppression e r actor source evidence d)) =
     (if s_reason e = S_UNSUBSCRIBE \<or> r \<noteq> S_UNSUBSCRIBE then suppressions d
      else t_save s_id (s_id e)
             (\<lambda>s. s\<lparr>s_reason := S_UNSUBSCRIBE, s_source := source, s_evidence := evidence\<rparr>) (suppressions d))"
  by (simp add: merge_existing_suppression_def Let_def)

lemma entry_merge:
  "fst (merge_existing_suppression e r actor source evidence d) =
     (if s_reason e = S_UNSUBSCRIBE \<or> r \<noteq> S_UNSUBSCRIBE then e
      else e\<lparr>s_reason := S_UNSUBSCRIBE, s_source := source, s_evidence := evidence\<rparr>)"
  by (simp add: merge_existing_suppression_def Let_def)

lemma suppress_email_Inr:
  assumes "suppress_email env email reason actor source evidence d = Inr (entry, d')"
  shows "\<exists>n r. normalize_email env email = Inr n \<and> suppression_of_value reason = Some r
     \<and> (case find_suppression n d of
          Some e \<Rightarrow> \<exists>d1. suppressions d1 = suppressions d
                    \<and> (entry, d') = merge_existing_suppression e r actor source evidence d1
        | None \<Rightarrow> s_email entry = n \<and> s_reason entry = r \<and> suppressions d' = suppressions d @ [entry])"
proof -
  obtain n r where n: "normalize_email env email = Inr n" and r: "suppression_of_value reason = Some r"
    using assms by (auto simp: suppress_email_def res_simps)
  show ?thesis
  proof (cases "find_suppression n d")
    case None
    with assms n r show ?thesis
      by (auto simp: suppress_email_def res_simps fresh_def Let_def split: if_splits)
  next
    case (Some e)
    with assms n r show ?thesis
      by (auto simp: suppress_email_def res_simps Let_def split: if_splits
          intro: exI [of _ d] exI [of _ "invalidate_prospect_emails env n d"])
  qed
qed

text \<open>No operation of the list drops an address or takes back an \<open>UNSUBSCRIBE\<close>.\<close>

definition suppressions_grow :: "db \<Rightarrow> db \<Rightarrow> bool" where
  "suppressions_grow d d' \<longleftrightarrow>
     (\<forall>s \<in> set (suppressions d). \<exists>s' \<in> set (suppressions d'). s_email s' = s_email s
        \<and> (s_reason s = S_UNSUBSCRIBE \<longrightarrow> s_reason s' = S_UNSUBSCRIBE))"

lemma suppressions_grow_suppressed: "suppressions_grow d d' \<Longrightarrow> suppressed n d \<Longrightarrow> suppressed n d'"
  by (force simp: suppressions_grow_def suppressed_def list_ex_iff)

lemma suppressions_grow_merge:
  "suppressions d1 = suppressions d \<Longrightarrow>
   suppressions_grow d (snd (merge_existing_suppression e r actor source evidence d1))"
  by (auto simp: suppressions_grow_def suppressions_merge intro!: bexI [OF _ mem_t_save])

lemma suppress_email_grow:
  assumes "suppress_email env email reason actor source evidence d = Inr (entry, d')"
  shows "suppressions_grow d d'"
  using suppress_email_Inr [OF assms] suppressions_grow_merge [of _ d]
  by (auto simp: suppressions_grow_def split: option.splits) (metis snd_conv)+

lemma merge_keeps_found:
  assumes "find_suppression n d = Some e" "suppressions d1 = suppressions d"
  shows "suppressed n (snd (merge_existing_suppression e r actor source evidence d1))"
  using suppressions_grow_suppressed [OF suppressions_grow_merge [OF assms(2)]] assms(1)
  by (auto simp: suppressed_iff_find)

lemma suppress_email_suppressed:
  assumes "suppress_email env email reason actor source evidence d = Inr (entry, d')"
    and n: "normalize_email env email = Inr n"
  shows "suppressed n d'"
proof (cases "find_suppression n d")
  case None
  with suppress_email_Inr [OF assms(1)] n show ?thesis by (auto simp: suppressed_def)
next
  case (Some e)
  with suppress_email_Inr [OF assms(1)] n obtain r d1 where
    "suppressions d1 = suppressions d" "(entry, d') = merge_existing_suppression e r actor source evidence d1"
    by auto
  with merge_keeps_found [OF Some] show ?thesis by (metis snd_conv)
qed

end
