(* ===== verification/Organizations.thy ===== *)
theory Organizations
  imports Compliance "HOL-Library.List_Lexorder" "HOL-Library.Char_ord" "HOL-Library.Product_Lexorder"
begin

text \<open>
  The first half of \<open>contacts/services.py\<close>: an organization is found by its identity claims and its
  address, created when nothing matches, and never merged with another. The advisory locks of
  \<open>_lock_resolution_keys\<close> change no row. The kinds, sources and validities are datatypes, so the
  membership tests on \<open>Kind.values\<close>, \<open>Source.values\<close> and \<open>Validity.values\<close> hold by typing, and the
  \<open>except IntegrityError\<close> branches that only another transaction can cause do not occur.
\<close>

section \<open>Identity claims\<close>

record identity_claim =
  cl_kind :: identity_kind
  cl_value :: str
  cl_value_hash :: str
  cl_provider :: str
  cl_provenance :: "(str \<times> str) list"

definition normalized_identity_value :: "env \<Rightarrow> identity_kind \<Rightarrow> str \<Rightarrow> exn + str" where
  "normalized_identity_value env kind value =
     (let candidate = py_strip value
      in case kind of
           EMAIL_IDENTITY \<Rightarrow> normalize_email env candidate
         | BUSINESS_DOMAIN \<Rightarrow> Inr (py_casefold (py_rstrip_dot candidate))
         | GERS_ID \<Rightarrow> Inr (py_casefold (py_rstrip_dot candidate))
         | PROVIDER_ID \<Rightarrow> Inr (py_casefold (py_rstrip_dot candidate))
         | NAME_ADDRESS \<Rightarrow> Inr (py_casefold (collapse_spaces candidate)))"

definition valid_hash :: "str \<Rightarrow> bool" where
  "valid_hash h \<longleftrightarrow> length h = 64 \<and> list_all (\<lambda>c. c \<in> set ''0123456789abcdef'') h"

text \<open>The alphabetical rank of the kind's stored value.\<close>

fun kind_rank :: "identity_kind \<Rightarrow> nat" where
  "kind_rank BUSINESS_DOMAIN = 0"
| "kind_rank EMAIL_IDENTITY = 1"
| "kind_rank GERS_ID = 2"
| "kind_rank NAME_ADDRESS = 3"
| "kind_rank PROVIDER_ID = 4"

definition sort_claims :: "identity_claim list \<Rightarrow> identity_claim list" where
  "sort_claims cs = sort_key (\<lambda>c. (kind_rank (cl_kind c), cl_value_hash c)) cs"

definition prepare_claim :: "env \<Rightarrow> identity_claim \<Rightarrow> exn + identity_claim" where
  "prepare_claim env c =
     bindE (if cl_value c \<noteq> [] then normalized_identity_value env (cl_kind c) (cl_value c) else Inr [])
       (\<lambda>value.
         let given = py_strip (py_casefold (cl_value_hash c));
             value_hash = (if given \<noteq> [] then given
                           else if value \<noteq> [] then sha256_hex env value else [])
         in if \<not> valid_hash value_hash then Inl (ValidationError txt_bad_identity_hash)
            else Inr \<lparr>cl_kind = cl_kind c, cl_value = value, cl_value_hash = value_hash,
                     cl_provider = take 50 (py_strip (cl_provider c)),
                     cl_provenance = cl_provenance c\<rparr>)"

definition same_claim :: "identity_claim \<Rightarrow> identity_claim \<Rightarrow> bool" where
  "same_claim a b \<longleftrightarrow> cl_kind a = cl_kind b \<and> cl_value_hash a = cl_value_hash b"

text \<open>\<open>prepared.setdefault(key, claim)\<close> keeps the first claim of a key.\<close>

definition add_claim :: "env \<Rightarrow> identity_claim \<Rightarrow> identity_claim list \<Rightarrow> exn + identity_claim list" where
  "add_claim env c prepared =
     bindE (prepare_claim env c) (\<lambda>c'.
       Inr (if list_ex (same_claim c') prepared then prepared else prepared @ [c']))"

definition prepared_claims :: "env \<Rightarrow> identity_claim list \<Rightarrow> exn + identity_claim list" where
  "prepared_claims env claims =
     bindE (foldE (add_claim env) claims []) (\<lambda>prepared. Inr (sort_claims prepared))"

section \<open>Organizations, identities and addresses\<close>

definition keep_or :: "str \<Rightarrow> str \<Rightarrow> str" where
  "keep_or value current = (if value \<noteq> [] \<and> current = [] then value else current)"

text \<open>The keyword arguments of \<open>resolve_organization\<close>.\<close>

record resolve_args =
  ra_identities :: "identity_claim list"
  ra_email :: str
  ra_name :: str
  ra_address :: str
  ra_website :: str
  ra_business_domain :: str
  ra_phone :: str
  ra_source :: org_source
  ra_provenance :: "(str \<times> str) list"
  ra_validity :: validity
  ra_label :: str
  ra_email_provenance :: str
  ra_source_url :: str
  ra_source_content_hash :: str
  ra_provider_order :: int
  ra_validated_at :: "instant option"
  ra_invalid_reason :: str
  ra_invalidated_at :: "instant option"
  ra_legacy :: "id option"
  ra_prefer :: bool

definition resolve_defaults :: resolve_args where
  "resolve_defaults =
     \<lparr>ra_identities = [], ra_email = [], ra_name = [], ra_address = [], ra_website = [],
      ra_business_domain = [], ra_phone = [], ra_source = FROM_DISCOVERY, ra_provenance = [],
      ra_validity = UNKNOWN, ra_label = [], ra_email_provenance = [], ra_source_url = [],
      ra_source_content_hash = [], ra_provider_order = 0, ra_validated_at = None,
      ra_invalid_reason = [], ra_invalidated_at = None, ra_legacy = None, ra_prefer = False\<rparr>"

definition new_organization :: "id \<Rightarrow> id \<Rightarrow> resolve_args \<Rightarrow> organization" where
  "new_organization k ws a =
     \<lparr>o_id = k, o_workspace = ws, o_name = take 300 (py_strip (ra_name a)),
      o_normalized_name = take 300 (py_casefold (collapse_spaces (ra_name a))),
      o_address = take 500 (py_strip (ra_address a)),
      o_normalized_address = take 500 (py_casefold (collapse_spaces (ra_address a))),
      o_website = take 1000 (py_strip (ra_website a)),
      o_business_domain = take 253 (py_casefold (py_rstrip_dot (py_strip (ra_business_domain a)))),
      o_phone = take 80 (py_strip (ra_phone a)), o_source = ra_source a,
      o_provenance = ra_provenance a\<rparr>"

definition fill_organization_fields :: "id \<Rightarrow> resolve_args \<Rightarrow> db \<Rightarrow> db" where
  "fill_organization_fields org a d =
     d\<lparr>organizations := t_save o_id org
        (\<lambda>r. r\<lparr>o_name := keep_or (take 300 (py_strip (ra_name a))) (o_name r),
               o_normalized_name :=
                 keep_or (take 300 (py_casefold (collapse_spaces (ra_name a)))) (o_normalized_name r),
               o_address := keep_or (take 500 (py_strip (ra_address a))) (o_address r),
               o_normalized_address :=
                 keep_or (take 500 (py_casefold (collapse_spaces (ra_address a)))) (o_normalized_address r),
               o_website := keep_or (take 1000 (py_strip (ra_website a))) (o_website r),
               o_business_domain :=
                 keep_or (take 253 (py_casefold (py_rstrip_dot (py_strip (ra_business_domain a)))))
                   (o_business_domain r),
               o_phone := keep_or (take 80 (py_strip (ra_phone a))) (o_phone r)\<rparr>)
        (organizations d)\<rparr>"

definition find_identity :: "id \<Rightarrow> identity_kind \<Rightarrow> str \<Rightarrow> db \<Rightarrow> org_identity option" where
  "find_identity ws kind h d =
     find (\<lambda>i. i_workspace i = ws \<and> i_kind i = kind \<and> i_value_hash i = h) (identities d)"

definition get_or_create_identity :: "id \<Rightarrow> id \<Rightarrow> identity_claim \<Rightarrow> db \<Rightarrow> exn + db" where
  "get_or_create_identity ws org c d =
     (case find_identity ws (cl_kind c) (cl_value_hash c) d of
        Some i \<Rightarrow>
          if i_organization i \<noteq> org then Inl (OrganizationResolutionConflict txt_identity_taken)
          else Inr d
      | None \<Rightarrow>
          let (k, d1) = fresh d
          in Inr (d1\<lparr>identities := identities d1 @
                  [\<lparr>i_id = k, i_workspace = ws, i_organization = org, i_kind = cl_kind c,
                    i_value = take 1000 (cl_value c), i_value_hash = cl_value_hash c,
                    i_provider = cl_provider c, i_provenance = cl_provenance c\<rparr>]\<rparr>))"

definition find_email :: "id \<Rightarrow> str \<Rightarrow> db \<Rightarrow> email_address option" where
  "find_email ws normalized d =
     find (\<lambda>e. ea_workspace e = ws \<and> ea_normalized e = normalized) (emails d)"

definition has_preferred :: "id \<Rightarrow> db \<Rightarrow> bool" where
  "has_preferred org d = list_ex (\<lambda>e. ea_organization e = org \<and> ea_preferred e) (emails d)"

definition new_email :: "id \<Rightarrow> id \<Rightarrow> id \<Rightarrow> str \<Rightarrow> resolve_args \<Rightarrow> bool \<Rightarrow> email_address" where
  "new_email k ws org normalized a can_prefer =
     \<lparr>ea_id = k, ea_workspace = ws, ea_organization = org,
      ea_original = (let o1 = take 320 (py_strip (ra_email a)) in if o1 \<noteq> [] then o1 else normalized),
      ea_normalized = normalized,
      ea_domain = (case rsplit_at normalized of Some (l, dm) \<Rightarrow> dm | None \<Rightarrow> []),
      ea_label = take 120 (py_strip (ra_label a)), ea_preferred = can_prefer,
      ea_provenance = take 120 (py_strip (ra_email_provenance a)),
      ea_source_url = take 1000 (py_strip (ra_source_url a)),
      ea_source_content_hash = take 64 (py_strip (ra_source_content_hash a)),
      ea_provider_order = nat (max 0 (ra_provider_order a)), ea_validity = ra_validity a,
      ea_validated_at = ra_validated_at a,
      ea_invalid_reason = take 200 (py_strip (ra_invalid_reason a)),
      ea_invalidated_at = ra_invalidated_at a, ea_legacy = ra_legacy a\<rparr>"

definition legacy_taken :: "id option \<Rightarrow> id \<Rightarrow> db \<Rightarrow> bool" where
  "legacy_taken legacy k d =
     (legacy \<noteq> None \<and> list_ex (\<lambda>e. ea_legacy e = legacy \<and> ea_id e \<noteq> k) (emails d))"

text \<open>The changes an existing (or just created) address receives before its final \<open>save\<close>.\<close>

definition or_now :: "env \<Rightarrow> instant option \<Rightarrow> instant option" where
  "or_now env t = (case t of None \<Rightarrow> Some (clock env) | Some x \<Rightarrow> Some x)"

definition email_changes :: "env \<Rightarrow> id \<Rightarrow> resolve_args \<Rightarrow> email_address \<Rightarrow> db \<Rightarrow> email_address" where
  "email_changes env org a e d =
     (let e1 = (if ra_legacy a \<noteq> None \<and> ea_legacy e = None then e\<lparr>ea_legacy := ra_legacy a\<rparr> else e);
          e2 = (if ra_validity a = INVALID \<and> ea_validity e1 \<noteq> INVALID
                then e1\<lparr>ea_validity := INVALID,
                        ea_invalid_reason := take 200 (py_strip (ra_invalid_reason a)),
                        ea_invalidated_at := or_now env (ra_invalidated_at a)\<rparr>
                else if ra_validity a = VALID \<and> ea_validity e1 \<in> {UNKNOWN, TRANSIENT}
                then e1\<lparr>ea_validity := VALID, ea_validated_at := or_now env (ra_validated_at a),
                        ea_invalid_reason := [], ea_invalidated_at := None\<rparr>
                else e1)
      in if ra_prefer a \<and> \<not> ea_preferred e2
            \<and> \<not> list_ex (\<lambda>x. ea_organization x = org \<and> ea_preferred x \<and> ea_id x \<noteq> ea_id e) (emails d)
         then e2\<lparr>ea_preferred := True\<rparr> else e2)"

definition get_or_create_email_address ::
    "env \<Rightarrow> id \<Rightarrow> id \<Rightarrow> str \<Rightarrow> resolve_args \<Rightarrow> db \<Rightarrow> exn + id \<times> db" where
  "get_or_create_email_address env ws org normalized a d =
     bindE
       (case find_email ws normalized d of
          Some e \<Rightarrow>
            if ea_organization e \<noteq> org then Inl (OrganizationResolutionConflict txt_email_taken)
            else Inr (e, d)
        | None \<Rightarrow>
            let can_prefer = (ra_prefer a \<and> \<not> has_preferred org d);
                (k, d1) = fresh d;
                e = new_email k ws org normalized a can_prefer
            in if legacy_taken (ra_legacy a) k d1 then Inl DoesNotExist
               else Inr (e, d1\<lparr>emails := emails d1 @ [e]\<rparr>))
       (\<lambda>(e, d1).
         let e' = email_changes env org a e d1
         in if legacy_taken (ea_legacy e') (ea_id e) d1 then Inl IntegrityError
            else Inr (ea_id e, d1\<lparr>emails := t_save ea_id (ea_id e) (\<lambda>_. e') (emails d1)\<rparr>))"

section \<open>\<open>resolve_organization\<close>\<close>

definition with_email_claim :: "env \<Rightarrow> str \<Rightarrow> (str \<times> str) list \<Rightarrow> identity_claim list \<Rightarrow> identity_claim list"
  where
  "with_email_claim env normalized provenance prepared =
     (if normalized = [] then prepared
      else
        let email_hash = sha256_hex env normalized
        in if list_ex (\<lambda>c. cl_kind c = EMAIL_IDENTITY \<and> cl_value_hash c = email_hash) prepared
           then prepared
           else sort_claims (prepared @
             [\<lparr>cl_kind = EMAIL_IDENTITY, cl_value = normalized, cl_value_hash = email_hash,
               cl_provider = [], cl_provenance = provenance\<rparr>]))"

definition candidate_organizations :: "id \<Rightarrow> identity_claim list \<Rightarrow> str \<Rightarrow> db \<Rightarrow> id list" where
  "candidate_organizations ws prepared normalized d =
     remdups
       (map i_organization
          (filter (\<lambda>i. i_workspace i = ws
                     \<and> list_ex (\<lambda>c. i_kind i = cl_kind c \<and> i_value_hash i = cl_value_hash c) prepared)
             (identities d))
        @ (if normalized = [] then []
           else case find_email ws normalized d of None \<Rightarrow> [] | Some e \<Rightarrow> [ea_organization e]))"

definition find_or_create_organization ::
    "id \<Rightarrow> id list \<Rightarrow> resolve_args \<Rightarrow> db \<Rightarrow> exn + organization \<times> db" where
  "find_or_create_organization ws candidate_ids a d =
     (case candidate_ids of
        [] \<Rightarrow>
          let (k, d1) = fresh d; org = new_organization k ws a
          in Inr (org, d1\<lparr>organizations := organizations d1 @ [org]\<rparr>)
      | [k] \<Rightarrow> bindE (of_option DoesNotExist (t_get o_id k (organizations d))) (\<lambda>org. Inr (org, d))
      | _ \<Rightarrow> Inl (OrganizationResolutionConflict txt_several_organizations))"

definition resolve_organization ::
    "env \<Rightarrow> id \<Rightarrow> resolve_args \<Rightarrow> db \<Rightarrow> exn + (id \<times> id option) \<times> db" where
  "resolve_organization env ws a d =
     bindE (if ra_email a \<noteq> [] then normalize_email env (ra_email a) else Inr []) (\<lambda>normalized.
     bindE (prepared_claims env (ra_identities a)) (\<lambda>given.
       let prepared = with_email_claim env normalized (ra_provenance a) given
       in if prepared = [] \<and> normalized = [] then Inl (ValidationError txt_no_identity)
          else
            bindE (find_or_create_organization ws (candidate_organizations ws prepared normalized d) a d)
              (\<lambda>(org, d1).
                if o_workspace org \<noteq> ws then Inl (OrganizationResolutionConflict txt_other_workspace)
                else
                  bindE (foldE (get_or_create_identity ws (o_id org)) prepared
                          (fill_organization_fields (o_id org) a d1)) (\<lambda>d2.
                    if normalized = [] then Inr ((o_id org, None), d2)
                    else bindE (get_or_create_email_address env ws (o_id org) normalized a d2)
                      (\<lambda>(e, d3). Inr ((o_id org, Some e), d3))))))"

section \<open>Lemmas: one owner per identity and address\<close>

definition identity_key :: "org_identity \<Rightarrow> id \<times> identity_kind \<times> str" where
  "identity_key i = (i_workspace i, i_kind i, i_value_hash i)"

definition email_key :: "email_address \<Rightarrow> id \<times> str" where
  "email_key e = (ea_workspace e, ea_normalized e)"

text \<open>The unique constraints of \<open>contacts/models.py\<close> that the resolution keeps.\<close>

definition directory_ok :: "db \<Rightarrow> bool" where
  "directory_ok d \<longleftrightarrow>
     distinct (map identity_key (identities d))
     \<and> distinct (map email_key (emails d))
     \<and> distinct (map ea_id (emails d)) \<and> (\<forall>e \<in> set (emails d). ea_id e < next_id d)
     \<and> unique_on ea_preferred ea_organization (emails d)"

lemma find_identity_mem:
  "find_identity ws kind h d = Some i \<Longrightarrow>
   i \<in> set (identities d) \<and> i_workspace i = ws \<and> i_kind i = kind \<and> i_value_hash i = h"
  unfolding find_identity_def by (auto dest: find_Some_mem)

lemma find_email_mem:
  "find_email ws n d = Some e \<Longrightarrow> e \<in> set (emails d) \<and> ea_workspace e = ws \<and> ea_normalized e = n"
  unfolding find_email_def by (auto dest: find_Some_mem)

lemma find_append_Some: "find P xs = Some x \<Longrightarrow> find P (xs @ ys) = Some x"
  by (induction xs) (auto split: if_splits)

lemma find_append_None: "find P xs = None \<Longrightarrow> find P (xs @ ys) = find P ys"
  by (induction xs) (auto split: if_splits)

lemma fresh_frame [simp]:
  "emails (snd (fresh d)) = emails d"
  "identities (snd (fresh d)) = identities d"
  "organizations (snd (fresh d)) = organizations d"
  "next_id (snd (fresh d)) = Suc (next_id d)"
  "fst (fresh d) = next_id d"
  by (simp_all add: fresh_def)

lemma fill_organization_fields_frame [simp]:
  "emails (fill_organization_fields k a d) = emails d"
  "identities (fill_organization_fields k a d) = identities d"
  "next_id (fill_organization_fields k a d) = next_id d"
  by (simp_all add: fill_organization_fields_def)

text \<open>The identity step: it appends at most one row, and afterwards the claim belongs to the organization.\<close>

lemma get_or_create_identity_Inr:
  assumes "get_or_create_identity ws org c d = Inr d'"
  shows "\<exists>is. identities d' = identities d @ is \<and> emails d' = emails d \<and> next_id d \<le> next_id d'
      \<and> organizations d' = organizations d
      \<and> (\<exists>i. find_identity ws (cl_kind c) (cl_value_hash c) d' = Some i \<and> i_organization i = org)
      \<and> (distinct (map identity_key (identities d)) \<longrightarrow> distinct (map identity_key (identities d')))"
proof (cases "find_identity ws (cl_kind c) (cl_value_hash c) d")
  case (Some i)
  then show ?thesis using assms by (auto simp: get_or_create_identity_def split: if_splits)
next
  case None
  have new: "identity_key j \<noteq> (ws, cl_kind c, cl_value_hash c)" if "j \<in> set (identities d)" for j
    using None that by (auto simp: find_identity_def find_None_iff_all identity_key_def)
  show ?thesis
    using assms None new
    by (force simp: get_or_create_identity_def fresh_def find_identity_def find_append_None identity_key_def)
qed

text \<open>What a run of identity steps keeps, and what it establishes.\<close>

lemma foldE_identities:
  assumes "foldE (get_or_create_identity ws org) cs d = Inr d'"
  shows "(\<exists>is. identities d' = identities d @ is) \<and> emails d' = emails d \<and> next_id d \<le> next_id d'
      \<and> organizations d' = organizations d
      \<and> (\<forall>c \<in> set cs. \<exists>i. find_identity ws (cl_kind c) (cl_value_hash c) d' = Some i
                         \<and> i_organization i = org)
      \<and> (distinct (map identity_key (identities d)) \<longrightarrow> distinct (map identity_key (identities d')))"
  using assms
proof (induction cs arbitrary: d)
  case Nil
  then show ?case by auto
next
  case (Cons c cs)
  from Cons.prems obtain d1 where d1: "get_or_create_identity ws org c d = Inr d1"
    and rest: "foldE (get_or_create_identity ws org) cs d1 = Inr d'" by (auto simp: res_simps)
  note A = get_or_create_identity_Inr [OF d1] and B = Cons.IH [OF rest]
  from A obtain i where "find_identity ws (cl_kind c) (cl_value_hash c) d1 = Some i" "i_organization i = org"
    by auto
  then have "find_identity ws (cl_kind c) (cl_value_hash c) d' = Some i"
    using B by (auto simp: find_identity_def find_append_Some)
  then show ?case using A B \<open>i_organization i = org\<close> by auto
qed

text \<open>The address step: the row keeps its key, its owner and its workspace; the constraints survive.\<close>

lemma email_changes_key [simp]:
  "ea_id (email_changes env org a e d) = ea_id e"
  "ea_workspace (email_changes env org a e d) = ea_workspace e"
  "ea_organization (email_changes env org a e d) = ea_organization e"
  "ea_normalized (email_changes env org a e d) = ea_normalized e"
  by (simp_all add: email_changes_def Let_def)

lemma email_changes_preferred:
  "ea_preferred (email_changes env org a e d) \<Longrightarrow> \<not> ea_preferred e \<Longrightarrow> x \<in> set (emails d) \<Longrightarrow>
   ea_organization x = org \<Longrightarrow> ea_preferred x \<Longrightarrow> ea_id x = ea_id e"
  by (auto simp: email_changes_def Let_def list_ex_iff split: if_splits)

lemma email_changes_keeps_preferred: "ea_preferred e \<Longrightarrow> ea_preferred (email_changes env org a e d)"
  by (simp add: email_changes_def Let_def)

lemma map_save_row:
  assumes "distinct (map key t)" "e \<in> set t" "key e' = key e" "f e' = f e"
  shows "map f (t_save key (key e) (\<lambda>_. e') t) = map f t"
  unfolding t_save_def t_update_def map_map
proof (rule map_cong [OF refl])
  fix r assume r: "r \<in> set t"
  show "(f \<circ> (\<lambda>r. if key r = key e then e' else r)) r = f r"
    using assms r by (auto simp: distinct_map inj_on_def)
qed

lemma set_save_row:
  assumes "e \<in> set t" shows "set (t_save key (key e) (\<lambda>_. e') t) = insert e' {r \<in> set t. key r \<noteq> key e}"
  using assms by (auto simp: t_save_def t_update_def)

lemma unique_on_iff:
  assumes "distinct (map key t)"
  shows "unique_on P f t \<longleftrightarrow>
    (\<forall>x \<in> set t. \<forall>y \<in> set t. P x \<longrightarrow> P y \<longrightarrow> f x = f y \<longrightarrow> key x = key y)"
proof -
  have d: "distinct t" using assms by (simp add: distinct_map)
  then show ?thesis
    using assms unfolding unique_on_def distinct_map inj_on_def by (auto simp: distinct_filter)
qed

lemma new_email_simps [simp]:
  "ea_id (new_email k ws org n a p) = k"
  "ea_workspace (new_email k ws org n a p) = ws"
  "ea_organization (new_email k ws org n a p) = org"
  "ea_normalized (new_email k ws org n a p) = n"
  "ea_preferred (new_email k ws org n a p) = p"
  by (simp_all add: new_email_def)

text \<open>Adding the new row, and the final \<open>save\<close>, each keep the constraints of the directory.\<close>

lemma directory_ok_add_email:
  assumes ok: "directory_ok d" and none: "find_email ws n d = None"
  shows "directory_ok (d\<lparr>next_id := Suc (next_id d),
           emails := emails d @ [new_email (next_id d) ws org n a (p \<and> \<not> has_preferred org d)]\<rparr>)"
proof -
  have "(ws, n) \<notin> email_key ` set (emails d)"
    using none by (auto simp: find_email_def find_None_iff_all email_key_def)
  moreover have "next_id d \<notin> ea_id ` set (emails d)" using ok by (auto simp: directory_ok_def)
  moreover have "org \<notin> ea_organization ` {e \<in> set (emails d). ea_preferred e}"
    if "\<not> has_preferred org d" using that by (auto simp: has_preferred_def list_ex_iff)
  ultimately show ?thesis
    using ok by (auto simp: directory_ok_def unique_on_def email_key_def less_Suc_eq)
qed

lemma directory_ok_save_email:
  assumes ok: "directory_ok d" and e: "e \<in> set (emails d)" "ea_organization e = org"
  shows "directory_ok (d\<lparr>emails := t_save ea_id (ea_id e) (\<lambda>_. email_changes env org a e d) (emails d)\<rparr>)"
proof -
  let ?e = "email_changes env org a e d" and ?t = "emails d"
  let ?t' = "t_save ea_id (ea_id e) (\<lambda>_. ?e) ?t"
  have dist: "distinct (map ea_id ?t)" using ok by (simp add: directory_ok_def)
  have ids: "map ea_id ?t' = map ea_id ?t"
    using dist e by (intro map_save_row) simp_all
  have keys: "map email_key ?t' = map email_key ?t"
    using dist e by (intro map_save_row) (simp_all add: email_key_def)
  have dist': "distinct (map ea_id ?t')" using dist by (simp only: ids)
  have u: "unique_on ea_preferred ea_organization ?t" using ok by (simp add: directory_ok_def)
  have old: "ea_id x = ea_id y"
    if "x \<in> set ?t" "y \<in> set ?t" "ea_preferred x" "ea_preferred y" "ea_organization x = ea_organization y"
    for x y using u that unfolding unique_on_iff [OF dist] by blast
  have new: "ea_id x = ea_id e"
    if p: "ea_preferred ?e" and x: "x \<in> set ?t" "ea_preferred x" "ea_organization x = org" for x
  proof (cases "ea_preferred e")
    case True
    then show ?thesis using old [of x e] x e by simp
  next
    case False
    then show ?thesis using email_changes_preferred [OF p False x(1,3,2)] by simp
  qed
  have "unique_on ea_preferred ea_organization ?t'"
    unfolding unique_on_iff [OF dist'] set_save_row [OF e(1)]
  proof (intro ballI impI)
    fix x y
    assume x: "x \<in> insert ?e {r \<in> set ?t. ea_id r \<noteq> ea_id e}"
      and y: "y \<in> insert ?e {r \<in> set ?t. ea_id r \<noteq> ea_id e}"
      and pref: "ea_preferred x" "ea_preferred y" and same: "ea_organization x = ea_organization y"
    have c: "ea_id ?e = ea_id e" "ea_organization ?e = org" using e(2) by simp_all
    from x y show "ea_id x = ea_id y"
    proof (elim insertE CollectE conjE)
      assume "x = ?e" "y = ?e"
      then show ?thesis by metis
    next
      assume "x = ?e" "y \<in> set ?t"
      then show ?thesis using new [of y] pref same c by metis
    next
      assume "y = ?e" "x \<in> set ?t"
      then show ?thesis using new [of x] pref same c by metis
    next
      assume "x \<in> set ?t" "y \<in> set ?t"
      then show ?thesis by (rule old [OF _ _ pref same])
    qed
  qed
  moreover have "\<forall>x \<in> set ?t'. ea_id x < next_id d"
    using ok e unfolding set_save_row [OF e(1)] directory_ok_def by auto
  ultimately show ?thesis using ok dist ids keys by (simp add: directory_ok_def)
qed

text \<open>Every address of the first directory is in the second under the same owner.\<close>

definition keeps_owners :: "db \<Rightarrow> db \<Rightarrow> bool" where
  "keeps_owners d d' \<longleftrightarrow>
     set (identities d) \<subseteq> set (identities d')
     \<and> (\<forall>e \<in> set (emails d). \<exists>e' \<in> set (emails d'). ea_id e' = ea_id e
          \<and> email_key e' = email_key e \<and> ea_organization e' = ea_organization e)"

lemma keeps_owners_refl [simp]: "keeps_owners d d"
  by (auto simp: keeps_owners_def)

lemma keeps_owners_trans: "keeps_owners d d' \<Longrightarrow> keeps_owners d' d'' \<Longrightarrow> keeps_owners d d''"
  unfolding keeps_owners_def by (metis subset_trans)

lemma keeps_owners_add_email: "keeps_owners d (d\<lparr>next_id := n, emails := emails d @ es\<rparr>)"
  by (auto simp: keeps_owners_def)

lemma keeps_owners_save_email:
  assumes "e \<in> set (emails d)" "directory_ok d"
  shows "keeps_owners d (d\<lparr>emails := t_save ea_id (ea_id e) (\<lambda>_. email_changes env org a e d) (emails d)\<rparr>)"
  unfolding keeps_owners_def
proof (intro conjI ballI; simp)
  fix x assume x: "x \<in> set (emails d)"
  have "ea_id x = ea_id e \<Longrightarrow> x = e"
    using assms x by (auto simp: directory_ok_def distinct_map inj_on_def)
  then show "\<exists>e' \<in> set (t_save ea_id (ea_id e) (\<lambda>_. email_changes env org a e d) (emails d)).
      ea_id e' = ea_id x \<and> email_key e' = email_key x \<and> ea_organization e' = ea_organization x"
    using x unfolding set_save_row [OF assms(1)] by (cases "ea_id x = ea_id e") (auto simp: email_key_def)
qed

lemma get_or_create_email_address_Inr:
  assumes "get_or_create_email_address env ws org n a d = Inr (k, d')" and ok: "directory_ok d"
  shows "directory_ok d' \<and> keeps_owners d d' \<and> identities d' = identities d
    \<and> (\<exists>e \<in> set (emails d'). ea_id e = k \<and> email_key e = (ws, n) \<and> ea_organization e = org)"
proof -
  obtain e d1 where e: "e \<in> set (emails d1)" "ea_organization e = org" "email_key e = (ws, n)" "ea_id e = k"
    and d1: "directory_ok d1" "keeps_owners d d1" "identities d1 = identities d"
    and d': "d' = d1\<lparr>emails := t_save ea_id (ea_id e) (\<lambda>_. email_changes env org a e d1) (emails d1)\<rparr>"
  proof (cases "find_email ws n d")
    case (Some e)
    note mem = find_email_mem [OF Some]
    have "ea_organization e = org" "k = ea_id e"
      "d' = d\<lparr>emails := t_save ea_id (ea_id e) (\<lambda>_. email_changes env org a e d) (emails d)\<rparr>"
      using assms Some by (auto simp: get_or_create_email_address_def res_simps Let_def split: if_splits)
    then show thesis using that [of e d] mem ok by (simp add: email_key_def)
  next
    case None
    let ?e = "new_email (next_id d) ws org n a (ra_prefer a \<and> \<not> has_preferred org d)"
    let ?d1 = "d\<lparr>next_id := Suc (next_id d), emails := emails d @ [?e]\<rparr>"
    have "d' = ?d1\<lparr>emails := t_save ea_id (ea_id ?e) (\<lambda>_. email_changes env org a ?e ?d1) (emails ?d1)\<rparr>"
      "k = next_id d"
      using assms None by (auto simp: get_or_create_email_address_def fresh_def res_simps Let_def
          split: if_splits)
    then show thesis
      using that [of ?e ?d1] directory_ok_add_email [OF ok None, of org a "ra_prefer a"]
        keeps_owners_add_email [of d] by (simp add: email_key_def)
  qed
  have "directory_ok d'" unfolding d' by (rule directory_ok_save_email [OF d1(1) e(1,2)])
  moreover have "keeps_owners d d'"
    unfolding d' by (rule keeps_owners_trans [OF d1(2) keeps_owners_save_email [OF e(1) d1(1)]])
  ultimately show ?thesis
    using e d1(3) unfolding d' by (auto simp: set_save_row email_key_def)
qed

lemma keeps_owners_identities:
  "identities d' = identities d @ is \<Longrightarrow> emails d' = emails d \<Longrightarrow> keeps_owners d d'"
  by (auto simp: keeps_owners_def)

lemma directory_ok_identities:
  "directory_ok d \<Longrightarrow> emails d' = emails d \<Longrightarrow> next_id d \<le> next_id d' \<Longrightarrow>
   distinct (map identity_key (identities d')) \<Longrightarrow> directory_ok d'"
  by (auto simp: directory_ok_def)

text \<open>
  The organization a resolution returns owns every claim and the address, and nothing that had an
  owner before changes hands.
\<close>

lemma find_or_create_organization_Inr:
  assumes "find_or_create_organization ws ks a d = Inr (org, d')"
  shows "emails d' = emails d \<and> identities d' = identities d \<and> next_id d \<le> next_id d'
    \<and> (ks = [] \<or> ks = [o_id org])"
  using assms
  by (auto simp: find_or_create_organization_def fresh_def Let_def res_simps split: list.splits
      dest: t_get_key)

definition claim_owned :: "id \<Rightarrow> id \<Rightarrow> identity_claim \<Rightarrow> db \<Rightarrow> bool" where
  "claim_owned ws org c d \<longleftrightarrow>
     (\<exists>i. find_identity ws (cl_kind c) (cl_value_hash c) d = Some i \<and> i_organization i = org)"

definition email_owned :: "id \<Rightarrow> id \<Rightarrow> str \<Rightarrow> id \<Rightarrow> db \<Rightarrow> bool" where
  "email_owned ws org n k d \<longleftrightarrow>
     (\<exists>e \<in> set (emails d). ea_id e = k \<and> email_key e = (ws, n) \<and> ea_organization e = org)"

lemma resolve_organization_Inr:
  assumes "resolve_organization env ws a d = Inr ((org, e), d')" and ok: "directory_ok d"
  shows "directory_ok d' \<and> keeps_owners d d'
    \<and> (\<exists>n given. (if ra_email a \<noteq> [] then normalize_email env (ra_email a) else Inr []) = Inr n
         \<and> prepared_claims env (ra_identities a) = Inr given
         \<and> (\<forall>c \<in> set (with_email_claim env n (ra_provenance a) given). claim_owned ws org c d')
         \<and> (case e of None \<Rightarrow> n = [] | Some k \<Rightarrow> n \<noteq> [] \<and> email_owned ws org n k d'))"
proof -
  let ?prep = "\<lambda>n given. with_email_claim env n (ra_provenance a) given"
  obtain n given o1 d1 d2 where
    n: "(if ra_email a \<noteq> [] then normalize_email env (ra_email a) else Inr []) = Inr n"
    and g: "prepared_claims env (ra_identities a) = Inr given"
    and f: "find_or_create_organization ws (candidate_organizations ws (?prep n given) n d) a d = Inr (o1, d1)"
    and i: "foldE (get_or_create_identity ws (o_id o1)) (?prep n given)
              (fill_organization_fields (o_id o1) a d1) = Inr d2"
    and r: "(if n = [] then Inr ((o_id o1, None), d2)
             else bindE (get_or_create_email_address env ws (o_id o1) n a d2)
                    (\<lambda>(e, d3). Inr ((o_id o1, Some e), d3))) = Inr ((org, e), d')"
    using assms(1) by (auto simp: resolve_organization_def res_simps Let_def split: if_splits)
  note F = find_or_create_organization_Inr [OF f] and I = foldE_identities [OF i]
  have ok2: "directory_ok d2"
    by (rule directory_ok_identities [OF ok]) (use F I ok in \<open>auto simp: directory_ok_def\<close>)
  have keep2: "keeps_owners d d2" using F I by (auto intro: keeps_owners_identities)
  show ?thesis
  proof (cases "n = []")
    case True
    then show ?thesis using r n g ok2 keep2 I by (auto simp: claim_owned_def)
  next
    case False
    with r obtain k where k: "get_or_create_email_address env ws (o_id o1) n a d2 = Inr (k, d')"
      and [simp]: "org = o_id o1" "e = Some k" by (auto simp: res_simps)
    note E = get_or_create_email_address_Inr [OF k ok2]
    have "claim_owned ws org c d'" if "c \<in> set (?prep n given)" for c
      using I that E by (auto simp: claim_owned_def find_identity_def)
    then show ?thesis using E keeps_owners_trans [OF keep2] n g False by (auto simp: email_owned_def)
  qed
qed

end
