(* ===== verification/Eligibility.thy ===== *)
theory Eligibility
  imports Organizations
begin

text \<open>
  Who may receive a campaign: \<open>enrollment_eligibility\<close> and the operation that stores its answer
  (\<open>contacts/services.py\<close>), with the restrictions it reads. Every later theory that is about to send
  asks this one again.
\<close>

section \<open>The rule\<close>

record eligibility =
  el_eligible :: bool
  el_code :: str
  el_message :: str

definition eligible_result :: eligibility where
  "eligible_result = \<lparr>el_eligible = True, el_code = [], el_message = []\<rparr>"

definition not_eligible :: "str \<Rightarrow> str \<Rightarrow> eligibility" where
  "not_eligible code text = \<lparr>el_eligible = False, el_code = code, el_message = text\<rparr>"

definition selected_email :: "enrollment \<Rightarrow> db \<Rightarrow> email_address option" where
  "selected_email e d = Option.bind (e_selected_email e) (\<lambda>k. t_get ea_id k (emails d))"

definition organization_has_contact :: "id \<Rightarrow> db \<Rightarrow> bool" where
  "organization_has_contact org d = list_ex (\<lambda>t. t_organization t = org) (contacts d)"

definition audience_removed :: "id \<Rightarrow> db \<Rightarrow> bool" where
  "audience_removed enr d =
     list_ex (\<lambda>p. p_enrollment p = Some enr \<and> p_pipeline_state p = P_SKIPPED_IRRELEVANT) (prospects d)"

definition restriction_organization :: "restriction \<Rightarrow> db \<Rightarrow> id option" where
  "restriction_organization r d =
     map_option t_organization (Option.bind (r_contact r) (\<lambda>k. t_get t_id k (contacts d)))"

definition active_restriction :: "id \<Rightarrow> id \<Rightarrow> id \<Rightarrow> db \<Rightarrow> bool" where
  "active_restriction ws email org d =
     list_ex (\<lambda>r. r_workspace r = ws \<and> r_revoked_at r = None
                  \<and> (r_email_address r = Some email \<or> restriction_organization r d = Some org))
       (restrictions d)"

definition enrollment_eligibility :: "enrollment \<Rightarrow> db \<Rightarrow> eligibility" where
  "enrollment_eligibility e d =
     (case selected_email e d of
        None \<Rightarrow> not_eligible ''NO_EMAIL'' txt_no_email
      | Some selected \<Rightarrow>
          if ea_workspace selected \<noteq> e_workspace e \<or> ea_organization selected \<noteq> e_organization e
          then not_eligible ''EMAIL_OWNERSHIP'' txt_email_ownership
          else if ea_validity selected \<noteq> VALID then not_eligible ''INVALID_EMAIL'' txt_invalid_email
          else if organization_has_contact (e_organization e) d
          then not_eligible ''EXISTING_CONTACT'' txt_existing_contact
          else if audience_removed (e_id e) d then not_eligible ''AUDIENCE_FILTER'' txt_audience_filter
          else if active_restriction (e_workspace e) (ea_id selected) (e_organization e) d
          then not_eligible ''RESTRICTED'' txt_restricted
          else if suppressed (ea_normalized selected) d
          then not_eligible ''LEGACY_RESTRICTION'' txt_legacy_restriction
          else eligible_result)"

section \<open>Storing the answer\<close>

definition eligibility_terminal :: "enrollment_state set" where
  "eligibility_terminal = {E_INITIAL_SENT, E_RESPONDED, E_REMINDER_SENT, E_CANCELLED}"

definition set_eligibility :: "eligibility \<Rightarrow> enrollment \<Rightarrow> enrollment" where
  "set_eligibility res e =
     e\<lparr>e_state := if el_eligible res then E_ELIGIBLE else E_INELIGIBLE, e_exclusion_reason := el_code res\<rparr>"

definition refresh_enrollment_eligibility :: "id \<Rightarrow> db \<Rightarrow> exn + eligibility \<times> db" where
  "refresh_enrollment_eligibility enr d =
     bindE (of_option DoesNotExist (t_get e_id enr (enrollments d))) (\<lambda>e.
       let res = enrollment_eligibility e d
       in Inr (res,
            if e_state e \<in> eligibility_terminal then d
            else d\<lparr>enrollments := t_save e_id enr (set_eligibility res) (enrollments d)\<rparr>))"

section \<open>Lemmas\<close>

lemma eligible_result_simps [simp]: "el_eligible eligible_result" "el_code eligible_result = []"
  by (simp_all add: eligible_result_def)

lemma not_eligible_simps [simp]:
  "\<not> el_eligible (not_eligible c t)" "el_code (not_eligible c t) = c" "el_message (not_eligible c t) = t"
  by (simp_all add: not_eligible_def)

text \<open>The answer is positive exactly when every one of the seven conditions holds.\<close>

lemma enrollment_eligible_iff:
  "el_eligible (enrollment_eligibility e d) \<longleftrightarrow>
     (\<exists>s. selected_email e d = Some s \<and> ea_workspace s = e_workspace e
        \<and> ea_organization s = e_organization e \<and> ea_validity s = VALID
        \<and> \<not> organization_has_contact (e_organization e) d \<and> \<not> audience_removed (e_id e) d
        \<and> \<not> active_restriction (e_workspace e) (ea_id s) (e_organization e) d
        \<and> \<not> suppressed (ea_normalized s) d)"
  by (auto simp: enrollment_eligibility_def split: option.splits)

lemma eligibility_code: "el_eligible (enrollment_eligibility e d) \<longleftrightarrow> el_code (enrollment_eligibility e d) = []"
  by (auto simp: enrollment_eligibility_def split: option.splits)

text \<open>The rule reads six tables only.\<close>

lemma enrollment_eligibility_cong:
  assumes "emails d' = emails d" "contacts d' = contacts d" "prospects d' = prospects d"
    "restrictions d' = restrictions d" "suppressions d' = suppressions d"
  shows "enrollment_eligibility e d' = enrollment_eligibility e d"
  unfolding enrollment_eligibility_def selected_email_def organization_has_contact_def
    audience_removed_def active_restriction_def restriction_organization_def suppressed_def assms ..

lemma set_eligibility_simps [simp]:
  "e_id (set_eligibility res e) = e_id e"
  "e_campaign (set_eligibility res e) = e_campaign e"
  "e_organization (set_eligibility res e) = e_organization e"
  "e_workspace (set_eligibility res e) = e_workspace e"
  "e_selected_email (set_eligibility res e) = e_selected_email e"
  "e_initial_sent_at (set_eligibility res e) = e_initial_sent_at e"
  "e_replied_at (set_eligibility res e) = e_replied_at e"
  by (simp_all add: set_eligibility_def)

lemma refresh_Inr:
  "refresh_enrollment_eligibility enr d = Inr (res, d') \<longleftrightarrow>
     (\<exists>e. t_get e_id enr (enrollments d) = Some e \<and> res = enrollment_eligibility e d
        \<and> d' = (if e_state e \<in> eligibility_terminal then d
                 else d\<lparr>enrollments := t_save e_id enr (set_eligibility res) (enrollments d)\<rparr>))"
  by (cases "t_get e_id enr (enrollments d)") (auto simp only: refresh_enrollment_eligibility_def Let_def
      of_option_simps bindE_simps sum.simps prod.simps option.simps)

text \<open>Asking again changes neither the answer nor the row.\<close>

lemma set_eligibility_idem: "set_eligibility r (set_eligibility r e) = set_eligibility r e"
  by (simp add: set_eligibility_def)

lemma enrollment_eligibility_set: "enrollment_eligibility (set_eligibility r e) d = enrollment_eligibility e d"
  by (simp add: enrollment_eligibility_def selected_email_def split: option.split)

lemma t_save_twice:
  assumes "\<And>r. key (f r) = key r"
  shows "t_save key k g (t_save key k f t) = t_save key k (\<lambda>r. g (f r)) t"
  using assms by (simp add: t_save_def t_update_def)

lemma refresh_idem:
  assumes "refresh_enrollment_eligibility enr d = Inr (res, d')"
  shows "refresh_enrollment_eligibility enr d' = Inr (res, d')"
proof -
  from assms obtain e where e: "t_get e_id enr (enrollments d) = Some e" "res = enrollment_eligibility e d"
    and d': "d' = (if e_state e \<in> eligibility_terminal then d
                   else d\<lparr>enrollments := t_save e_id enr (set_eligibility res) (enrollments d)\<rparr>)"
    by (auto simp: refresh_Inr)
  show ?thesis
  proof (cases "e_state e \<in> eligibility_terminal")
    case True
    then show ?thesis using e d' by (auto simp: refresh_Inr)
  next
    case False
    then have d'': "d' = d\<lparr>enrollments := t_save e_id enr (set_eligibility res) (enrollments d)\<rparr>"
      using d' by simp
    have "t_get e_id enr (enrollments d') = Some (set_eligibility res e)"
      using e d'' by (simp add: t_get_save_same)
    moreover have "enrollment_eligibility (set_eligibility res e) d' = res"
      unfolding d'' enrollment_eligibility_set using e by (subst enrollment_eligibility_cong [of _ d]) simp_all
    ultimately show ?thesis
      using d'' by (auto simp: refresh_Inr t_save_twice set_eligibility_idem)
  qed
qed

end
