(* ===== verification/Enrollments.thy ===== *)
theory Enrollments
  imports Eligibility
begin

text \<open>
  The participation of an organization in a campaign (\<open>contacts/services.py\<close>): a discovered business is
  projected into the contact model, a message is tied to its enrollment, the recipient is checked once
  more, and pending campaign work is cancelled once an organization becomes a contact.
\<close>

section \<open>\<open>ensure_prospect_enrollment\<close>\<close>

definition prospect_identity_claims :: "prospect \<Rightarrow> str \<Rightarrow> db \<Rightarrow> identity_claim list" where
  "prospect_identity_claims p provider d =
     (let provenance = [(''legacy_prospect_id'', str_of_pk (p_id p))]
      in map (\<lambda>i. \<lparr>cl_kind = if pi_kind i = PROVIDER_ID \<and> provider = ''overture'' then GERS_ID else pi_kind i,
                    cl_value = [], cl_value_hash = pi_value_hash i, cl_provider = provider,
                    cl_provenance = provenance\<rparr>)
           (filter (\<lambda>i. pi_prospect i = p_id p) (prospect_identities d))
         @ (if p_business_domain p \<noteq> []
            then [\<lparr>cl_kind = BUSINESS_DOMAIN, cl_value = p_business_domain p, cl_value_hash = [],
                   cl_provider = [], cl_provenance = provenance\<rparr>] else [])
         @ (if p_normalized_name p \<noteq> [] \<and> p_normalized_address p \<noteq> []
            then [\<lparr>cl_kind = NAME_ADDRESS,
                   cl_value = p_normalized_name p @ [CHR 0x1F] @ p_normalized_address p,
                   cl_value_hash = [], cl_provider = [], cl_provenance = provenance\<rparr>] else []))"

definition legacy_email_validity :: "prospect_email \<Rightarrow> validity" where
  "legacy_email_validity pe =
     (if pe_invalid pe \<or> pe_mx_status pe = INVALID then INVALID
      else if pe_mx_status pe = VALID then VALID
      else if pe_mx_status pe = TRANSIENT then TRANSIENT
      else UNKNOWN)"

definition prospect_args :: "prospect \<Rightarrow> str \<Rightarrow> db \<Rightarrow> resolve_args" where
  "prospect_args p provider d =
     resolve_defaults\<lparr>ra_identities := prospect_identity_claims p provider d, ra_name := p_name p,
       ra_address := p_address p, ra_website := p_website p, ra_business_domain := p_business_domain p,
       ra_phone := p_phone p, ra_source := FROM_DISCOVERY,
       ra_provenance := [(''legacy_prospect_id'', str_of_pk (p_id p))]\<rparr>"

definition legacy_email_args :: "prospect_email \<Rightarrow> bool \<Rightarrow> resolve_args \<Rightarrow> resolve_args" where
  "legacy_email_args pe prefer a =
     a\<lparr>ra_email := pe_original pe, ra_validity := legacy_email_validity pe,
       ra_email_provenance := pe_source pe, ra_source_url := pe_source_url pe,
       ra_source_content_hash := pe_source_content_hash pe, ra_provider_order := int (pe_provider_order pe),
       ra_validated_at := Some (pe_mx_checked_at pe), ra_invalid_reason := pe_invalid_reason pe,
       ra_invalidated_at := pe_invalidated_at pe, ra_legacy := Some (pe_id pe), ra_prefer := prefer\<rparr>"

definition legacy_emails :: "prospect \<Rightarrow> db \<Rightarrow> prospect_email list" where
  "legacy_emails p d = sort_key pe_provider_order (filter (\<lambda>pe. pe_prospect pe = p_id p) (prospect_emails d))"

text \<open>One turn of the loop over the other addresses; the state carries the chosen address.\<close>

definition attach_legacy_email ::
    "env \<Rightarrow> id \<Rightarrow> id \<Rightarrow> prospect \<Rightarrow> str \<Rightarrow> prospect_email \<Rightarrow> id option \<times> db \<Rightarrow> exn + id option \<times> db" where
  "attach_legacy_email env ws org p provider pe = (\<lambda>(selected, d).
     bindE (resolve_organization env ws (legacy_email_args pe (pe_primary pe) (prospect_args p provider d)) d)
       (\<lambda>((org', e), d1).
          if org' \<noteq> org then Inl (OrganizationResolutionConflict txt_prospect_emails_split)
          else Inr (if pe_primary pe then e else selected, d1)))"

definition find_enrollment :: "id \<Rightarrow> id \<Rightarrow> id \<Rightarrow> db \<Rightarrow> enrollment option" where
  "find_enrollment ws camp org d =
     find (\<lambda>e. e_workspace e = ws \<and> e_campaign e = camp \<and> e_organization e = org) (enrollments d)"

definition selection_taken :: "id \<Rightarrow> id option \<Rightarrow> id \<Rightarrow> db \<Rightarrow> bool" where
  "selection_taken camp email k d =
     (email \<noteq> None \<and> list_ex (\<lambda>e. e_campaign e = camp \<and> e_selected_email e = email \<and> e_id e \<noteq> k) (enrollments d))"

definition get_or_create_enrollment :: "id \<Rightarrow> id \<Rightarrow> id \<Rightarrow> id option \<Rightarrow> db \<Rightarrow> exn + enrollment \<times> db" where
  "get_or_create_enrollment ws camp org selected d =
     (case find_enrollment ws camp org d of
        Some e \<Rightarrow> Inr (e, d)
      | None \<Rightarrow>
          let (k, d1) = fresh d;
              e = \<lparr>e_id = k, e_workspace = ws, e_campaign = camp, e_organization = org,
                   e_selected_email = selected,
                   e_state = if selected \<noteq> None then E_ELIGIBLE else E_DISCOVERED,
                   e_source = ''DISCOVERY'', e_exclusion_reason = [], e_initial_sent_at = None,
                   e_replied_at = None\<rparr>
          in if list_ex (\<lambda>e. e_campaign e = camp \<and> e_organization e = org) (enrollments d)
                \<or> selection_taken camp selected k d
             then Inl (OrganizationResolutionConflict txt_enrollment_incompatible)
             else Inr (e, d1\<lparr>enrollments := enrollments d1 @ [e]\<rparr>))"

definition link_prospect_organization :: "prospect \<Rightarrow> id \<Rightarrow> db \<Rightarrow> exn + db" where
  "link_prospect_organization p org d =
     (if p_organization p \<notin> {None, Some org}
      then Inl (OrganizationResolutionConflict txt_prospect_linked)
      else if p_organization p = None
      then Inr (d\<lparr>prospects := t_save p_id (p_id p) (\<lambda>r. r\<lparr>p_organization := Some org\<rparr>) (prospects d)\<rparr>)
      else Inr d)"

definition select_enrollment_email :: "enrollment \<Rightarrow> id option \<Rightarrow> db \<Rightarrow> exn + db" where
  "select_enrollment_email e selected d =
     (if e_selected_email e = None \<and> selected \<noteq> None
      then if selection_taken (e_campaign e) selected (e_id e) d then Inl IntegrityError
           else Inr (d\<lparr>enrollments := t_save e_id (e_id e) (\<lambda>r. r\<lparr>e_selected_email := selected\<rparr>) (enrollments d)\<rparr>)
      else Inr d)"

definition link_prospect_enrollment :: "prospect \<Rightarrow> id \<Rightarrow> id \<Rightarrow> db \<Rightarrow> db" where
  "link_prospect_enrollment p camp enr d =
     (if camp = p_campaign p \<and> p_enrollment p \<noteq> Some enr
      then d\<lparr>prospects := t_save p_id (p_id p) (\<lambda>r. r\<lparr>p_enrollment := Some enr\<rparr>) (prospects d)\<rparr>
      else d)"

text \<open>The address the projection starts from: the primary one, else the first.\<close>

definition seed_email :: "prospect_email list \<Rightarrow> prospect_email option" where
  "seed_email pes = (case find pe_primary pes of Some pe \<Rightarrow> Some pe
                     | None \<Rightarrow> (case pes of [] \<Rightarrow> None | pe # _ \<Rightarrow> Some pe))"

definition ensure_prospect_enrollment ::
    "env \<Rightarrow> id \<Rightarrow> id option \<Rightarrow> str \<Rightarrow> db \<Rightarrow> exn + enrollment \<times> db" where
  "ensure_prospect_enrollment env prospect camp provider d =
     bindE (of_option DoesNotExist (t_get p_id prospect (prospects d))) (\<lambda>p.
       let target = (case camp of Some c \<Rightarrow> c | None \<Rightarrow> p_campaign p) in
     bindE (of_option DoesNotExist (t_get c_id target (campaigns d))) (\<lambda>c.
       let ws = c_workspace c;
           provider_name = (if provider \<noteq> [] then provider
                            else case t_get sr_id (p_source_run p) (search_runs d) of
                                   None \<Rightarrow> [] | Some r \<Rightarrow> sr_provider r);
           pes = legacy_emails p d;
           primary = find pe_primary pes;
           seed = seed_email pes;
           args = (case seed of None \<Rightarrow> prospect_args p provider_name d
                   | Some pe \<Rightarrow> legacy_email_args pe (primary \<noteq> None) (prospect_args p provider_name d)) in
     bindE (resolve_organization env ws args d) (\<lambda>((org, email), d1).
     bindE (foldE (attach_legacy_email env ws org p provider_name)
              (filter (\<lambda>pe. map_option pe_id seed \<noteq> Some (pe_id pe)) pes)
              (if primary \<noteq> None then email else None, d1)) (\<lambda>(selected, d2).
     bindE (link_prospect_organization p org d2) (\<lambda>d3.
     bindE (get_or_create_enrollment ws target org selected d3) (\<lambda>(e, d4).
     bindE (select_enrollment_email e selected d4) (\<lambda>d5.
     bindE (refresh_enrollment_eligibility (e_id e) (link_prospect_enrollment p target (e_id e) d5))
       (\<lambda>(res, d6).
     bindE (of_option DoesNotExist (t_get e_id (e_id e) (enrollments d6))) (\<lambda>e'.
       Inr (e', d6))))))))))"

section \<open>Messages and their enrollment\<close>

definition save_message :: "env \<Rightarrow> id \<Rightarrow> (message \<Rightarrow> message) \<Rightarrow> db \<Rightarrow> db" where
  "save_message env k f d =
     d\<lparr>messages := t_save m_id k (\<lambda>m. (f m)\<lparr>m_updated_at := clock env\<rparr>) (messages d)\<rparr>"

definition get_message :: "id \<Rightarrow> db \<Rightarrow> exn + message" where
  "get_message k d = of_option DoesNotExist (t_get m_id k (messages d))"

definition get_campaign :: "id \<Rightarrow> db \<Rightarrow> exn + campaign" where
  "get_campaign k d = of_option DoesNotExist (t_get c_id k (campaigns d))"

definition enrollment_of_message :: "env \<Rightarrow> message \<Rightarrow> db \<Rightarrow> exn + enrollment \<times> db" where
  "enrollment_of_message env m d =
     (case m_enrollment m of
        Some enr \<Rightarrow> bindE (of_option DoesNotExist (t_get e_id enr (enrollments d))) (\<lambda>e. Inr (e, d))
      | None \<Rightarrow>
          (case (m_prospect m, m_campaign m) of
             (Some p, Some c) \<Rightarrow> ensure_prospect_enrollment env p (Some c) [] d
           | _ \<Rightarrow> Inl (ValidationError txt_no_prospect)))"

definition link_message :: "env \<Rightarrow> message \<Rightarrow> enrollment \<Rightarrow> db \<Rightarrow> db" where
  "link_message env m e d =
     (if m_organization m \<noteq> Some (e_organization e) \<or> m_enrollment m \<noteq> Some (e_id e)
      then save_message env (m_id m)
             (\<lambda>r. r\<lparr>m_organization := Some (e_organization e), m_enrollment := Some (e_id e)\<rparr>) d
      else d)"

definition ensure_outbound_contact_links :: "env \<Rightarrow> id \<Rightarrow> db \<Rightarrow> exn + enrollment \<times> db" where
  "ensure_outbound_contact_links env k d =
     bindE (get_message k d) (\<lambda>m.
     bindE (enrollment_of_message env m d) (\<lambda>(e, d1).
       Inr (e, link_message env m e d1)))"

text \<open>\<open>outbound_eligibility_error\<close>: the empty text when the message may still be sent.\<close>

definition recipient_of :: "message \<Rightarrow> str" where
  "recipient_of m = (if m_recipient_normalized m \<noteq> [] then m_recipient_normalized m else m_recipient m)"

definition eligibility_error :: "env \<Rightarrow> message \<Rightarrow> enrollment \<Rightarrow> db \<Rightarrow> exn + str" where
  "eligibility_error env m e d =
     (let res = enrollment_eligibility e d
      in if \<not> el_eligible res then Inr (el_message res)
         else
           bindE (of_option AssertionFailed (selected_email e d)) (\<lambda>selected.
             case normalize_email env (recipient_of m) of
               Inl x \<Rightarrow> if is_validation_error x then Inr txt_recipient_invalid else Inl x
             | Inr recipient \<Rightarrow>
                 Inr (if ea_normalized selected \<noteq> recipient then txt_recipient_changed else [])))"

definition outbound_eligibility_error :: "env \<Rightarrow> message \<Rightarrow> db \<Rightarrow> exn + str \<times> db" where
  "outbound_eligibility_error env m d =
     bindE (ensure_outbound_contact_links env (m_id m) d) (\<lambda>(e0, d1).
     bindE (of_option DoesNotExist (t_get e_id (e_id e0) (enrollments d1))) (\<lambda>e.
     bindE (eligibility_error env m e d1) (\<lambda>t. Inr (t, d1))))"

section \<open>Cancelling pending work\<close>

definition cancellable :: "message_state set" where
  "cancellable = {PREPARED, REVIEW_READY, QUEUED}"

definition cancel_message :: "env \<Rightarrow> str \<Rightarrow> message \<Rightarrow> message" where
  "cancel_message env reason m =
     m\<lparr>m_state := CANCELLED, m_next_attempt_at := None, m_error := reason, m_updated_at := clock env\<rparr>"

definition cancel_message_queryset ::
    "env \<Rightarrow> (message \<Rightarrow> bool) \<Rightarrow> str \<Rightarrow> db \<Rightarrow> nat \<times> db" where
  "cancel_message_queryset env P reason d =
     (let Q = (\<lambda>m. P m \<and> m_state m \<in> cancellable)
      in (length (filter Q (messages d)),
          d\<lparr>messages := t_update Q (cancel_message env reason) (messages d)\<rparr>))"

definition cancel_pending_campaign_reminders :: "env \<Rightarrow> id \<Rightarrow> str \<Rightarrow> db \<Rightarrow> nat \<times> db" where
  "cancel_pending_campaign_reminders env org reason d =
     cancel_message_queryset env
       (\<lambda>m. m_organization m = Some org \<and> m_kind m = CAMPAIGN_REMINDER) reason d"

definition mark_replied :: "env \<Rightarrow> id \<Rightarrow> id option \<Rightarrow> instant option \<Rightarrow> db \<Rightarrow> db" where
  "mark_replied env org replied at d =
     (case replied of
        None \<Rightarrow> d
      | Some k \<Rightarrow>
          d\<lparr>enrollments := t_update (\<lambda>e. e_organization e = org \<and> e_id e = k)
              (\<lambda>e. e\<lparr>e_state := E_RESPONDED, e_replied_at := or_now env at, e_exclusion_reason := []\<rparr>)
              (enrollments d)\<rparr>)"

definition exclude_enrollments :: "id \<Rightarrow> id option \<Rightarrow> db \<Rightarrow> db" where
  "exclude_enrollments org replied d =
     d\<lparr>enrollments := t_update
         (\<lambda>e. e_organization e = org \<and> replied \<noteq> Some (e_id e) \<and> e_state e \<notin> eligibility_terminal)
         (\<lambda>e. e\<lparr>e_state := E_INELIGIBLE, e_exclusion_reason := ''EXISTING_CONTACT''\<rparr>) (enrollments d)\<rparr>"

definition campaign_kinds :: "message_kind set" where
  "campaign_kinds = {FIRST_CONTACT, INITIAL, CAMPAIGN_REMINDER}"

definition cancel_pending_campaign_work ::
    "env \<Rightarrow> id \<Rightarrow> str \<Rightarrow> id option \<Rightarrow> instant option \<Rightarrow> db \<Rightarrow> nat \<times> db" where
  "cancel_pending_campaign_work env org reason replied at d =
     (let (n, d1) = cancel_message_queryset env
            (\<lambda>m. m_organization m = Some org \<and> m_kind m \<in> campaign_kinds) reason d
      in (n, exclude_enrollments org replied (mark_replied env org replied at d1)))"

section \<open>Lemmas: what the directory operations leave alone\<close>

definition directory_frame :: "db \<Rightarrow> db \<Rightarrow> bool" where
  "directory_frame d d' \<longleftrightarrow>
     campaigns d' = campaigns d \<and> messages d' = messages d \<and> reservations d' = reservations d
     \<and> ledgers d' = ledgers d \<and> suppressions d' = suppressions d \<and> restrictions d' = restrictions d
     \<and> contacts d' = contacts d \<and> jobs d' = jobs d \<and> connections d' = connections d
     \<and> attachments d' = attachments d \<and> catalogs d' = catalogs d \<and> storage d' = storage d
     \<and> send_mode_settings d' = send_mode_settings d \<and> workspace_pk d' = workspace_pk d
     \<and> prospect_emails d' = prospect_emails d \<and> prospect_identities d' = prospect_identities d
     \<and> search_runs d' = search_runs d \<and> memberships d' = memberships d \<and> next_id d \<le> next_id d'"

lemma directory_frame_refl [simp]: "directory_frame d d"
  by (simp add: directory_frame_def)

lemma directory_frame_trans [trans]:
  "directory_frame d d' \<Longrightarrow> directory_frame d' d'' \<Longrightarrow> directory_frame d d''"
  by (simp add: directory_frame_def)

lemma directory_frame_fill [simp]: "directory_frame d (fill_organization_fields k a d)"
  by (simp add: directory_frame_def fill_organization_fields_def)

lemma directory_frame_identity:
  "get_or_create_identity ws org c d = Inr d' \<Longrightarrow> directory_frame d d'"
  by (auto simp: get_or_create_identity_def directory_frame_def fresh_def split: option.splits if_splits)

lemma directory_frame_find_or_create:
  "find_or_create_organization ws ks a d = Inr (org, d') \<Longrightarrow> directory_frame d d'"
  by (auto simp: find_or_create_organization_def directory_frame_def fresh_def Let_def res_simps
      split: list.splits)

lemma directory_frame_email:
  assumes "get_or_create_email_address env ws org n a d = Inr (k, d')"
  shows "directory_frame d d'"
proof (cases "find_email ws n d")
  case (Some e)
  then show ?thesis
    using assms by (auto simp: get_or_create_email_address_def directory_frame_def Let_def split: if_splits)
next
  case None
  then show ?thesis
    using assms
    by (auto simp: get_or_create_email_address_def directory_frame_def Let_def fresh_def res_simps
        split: if_splits)
qed

lemma directory_frame_identities:
  assumes "foldE (get_or_create_identity ws org) cs d = Inr d'"
  shows "directory_frame d d'"
  by (rule foldE_invariant [OF assms, of "directory_frame d"])
    (auto intro: directory_frame_trans directory_frame_identity)

lemma directory_frame_resolve:
  assumes "resolve_organization env ws a d = Inr (r, d')"
  shows "directory_frame d d'"
proof -
  obtain n given o1 d1 d2 where
    f: "find_or_create_organization ws
          (candidate_organizations ws (with_email_claim env n (ra_provenance a) given) n d) a d = Inr (o1, d1)"
    and i: "foldE (get_or_create_identity ws (o_id o1)) (with_email_claim env n (ra_provenance a) given)
              (fill_organization_fields (o_id o1) a d1) = Inr d2"
    and r: "(if n = [] then Inr ((o_id o1, None), d2)
             else bindE (get_or_create_email_address env ws (o_id o1) n a d2)
                    (\<lambda>(e, d3). Inr ((o_id o1, Some e), d3))) = Inr (r, d')"
    using assms by (auto simp: resolve_organization_def res_simps Let_def split: if_splits)
  have "directory_frame d d2"
    using directory_frame_find_or_create [OF f] directory_frame_identities [OF i]
    by (meson directory_frame_trans directory_frame_fill)
  moreover have "directory_frame d2 d'"
    using r by (auto simp: res_simps split: if_splits dest: directory_frame_email)
  ultimately show ?thesis by (rule directory_frame_trans)
qed

lemma directory_frame_attach:
  assumes "attach_legacy_email env ws org p provider pe (s, d) = Inr (s', d')"
  shows "directory_frame d d'"
  using assms by (auto simp: attach_legacy_email_def res_simps split: if_splits dest: directory_frame_resolve)

lemma directory_frame_attach_all:
  assumes "foldE (attach_legacy_email env ws org p provider) pes (s, d) = Inr (s', d')"
  shows "directory_frame d d'"
proof -
  have "directory_frame d (snd (s', d'))"
    by (rule foldE_invariant [OF assms]) (auto dest!: directory_frame_attach elim: directory_frame_trans)
  then show ?thesis by simp
qed

lemma directory_frame_enrollment_steps:
  "link_prospect_organization p org d = Inr d' \<Longrightarrow> directory_frame d d'"
  "get_or_create_enrollment ws camp org sel d = Inr (e, d') \<Longrightarrow> directory_frame d d'"
  "select_enrollment_email e sel d = Inr d' \<Longrightarrow> directory_frame d d'"
  "refresh_enrollment_eligibility k d = Inr (res, d') \<Longrightarrow> directory_frame d d'"
  "directory_frame d (link_prospect_enrollment p camp k d)"
proof -
  show "link_prospect_organization p org d = Inr d' \<Longrightarrow> directory_frame d d'"
    by (auto simp: link_prospect_organization_def directory_frame_def split: if_splits)
  show "get_or_create_enrollment ws camp org sel d = Inr (e, d') \<Longrightarrow> directory_frame d d'"
    by (auto simp: get_or_create_enrollment_def directory_frame_def fresh_def Let_def
        split: if_splits option.splits)
  show "select_enrollment_email e sel d = Inr d' \<Longrightarrow> directory_frame d d'"
    by (auto simp: select_enrollment_email_def directory_frame_def split: if_splits)
  show "refresh_enrollment_eligibility k d = Inr (res, d') \<Longrightarrow> directory_frame d d'"
    by (elim refresh_Inr [THEN iffD1, elim_format] exE conjE) (simp add: directory_frame_def)
  show "directory_frame d (link_prospect_enrollment p camp k d)"
    by (simp add: link_prospect_enrollment_def directory_frame_def)
qed

lemma directory_frame_ensure:
  assumes "ensure_prospect_enrollment env p camp provider d = Inr (e, d')"
  shows "directory_frame d d'"
proof -
  from assms obtain pr ws args org em d1 seeds prov sel0 sel d2 d3 d4 d5 c e0 res where
    r: "resolve_organization env ws args d = Inr ((org, em), d1)"
    and a: "foldE (attach_legacy_email env ws org pr prov) seeds (sel0, d1) = Inr (sel, d2)"
    and l: "link_prospect_organization pr org d2 = Inr d3"
    and g: "get_or_create_enrollment ws c org sel d3 = Inr (e0, d4)"
    and s: "select_enrollment_email e0 sel d4 = Inr d5"
    and f: "refresh_enrollment_eligibility (e_id e0) (link_prospect_enrollment pr c (e_id e0) d5) = Inr (res, d')"
    unfolding ensure_prospect_enrollment_def Let_def bindE_eq_Inr of_option_eq_Inr
    by (clarsimp simp: bindE_eq_Inr of_option_eq_Inr split_beta)
  show ?thesis
    using directory_frame_resolve [OF r] directory_frame_attach_all [OF a]
      directory_frame_enrollment_steps(1) [OF l] directory_frame_enrollment_steps(2) [OF g]
      directory_frame_enrollment_steps(3) [OF s] directory_frame_enrollment_steps(4) [OF f]
      directory_frame_enrollment_steps(5) [of d5 pr c "e_id e0"]
    by (meson directory_frame_trans)
qed

text \<open>Tying a message to its enrollment changes nothing of the message but the two links.\<close>

definition relinked :: "message \<Rightarrow> message \<Rightarrow> bool" where
  "relinked m m' \<longleftrightarrow>
     (\<exists>org enr u. m' = m\<lparr>m_organization := org, m_enrollment := enr, m_updated_at := u\<rparr>)"

definition only_links :: "db \<Rightarrow> db \<Rightarrow> bool" where
  "only_links d d' \<longleftrightarrow> list_all2 relinked (messages d) (messages d')
     \<and> directory_frame (d\<lparr>messages := messages d'\<rparr>) d'"

lemma relinked_refl [simp]: "relinked m m"
  unfolding relinked_def by (rule exI [of _ "m_organization m"], rule exI [of _ "m_enrollment m"],
      rule exI [of _ "m_updated_at m"]) simp

lemma relinked_trans: "relinked a b \<Longrightarrow> relinked b c \<Longrightarrow> relinked a c"
  unfolding relinked_def by (elim exE, intro exI) simp

lemma only_links_refl [simp]: "only_links d d"
  by (simp add: only_links_def list_all2_refl)

lemma only_links_frame: "directory_frame d d' \<Longrightarrow> only_links d d'"
  by (auto simp: only_links_def directory_frame_def list_all2_refl)

lemma only_links_trans: "only_links a b \<Longrightarrow> only_links b c \<Longrightarrow> only_links a c"
  unfolding only_links_def directory_frame_def using list_all2_trans [of relinked relinked relinked]
  by (auto intro: relinked_trans)

lemma only_links_save:
  "only_links d (save_message env k (\<lambda>r. r\<lparr>m_organization := org, m_enrollment := enr\<rparr>) d)"
proof -
  have "relinked m (if m_id m = k then (m\<lparr>m_organization := org, m_enrollment := enr\<rparr>)
          \<lparr>m_updated_at := clock env\<rparr> else m)" for m
  proof (cases "m_id m = k")
    case True
    then show ?thesis unfolding relinked_def by (intro exI) simp
  next
    case False
    then show ?thesis by (simp only: if_False relinked_refl)
  qed
  then show ?thesis
    by (simp add: only_links_def save_message_def directory_frame_def t_save_def t_update_def
        list_all2_conv_all_nth)
qed

lemma only_links_link_message: "only_links d (link_message env m e d)"
  by (simp add: link_message_def only_links_save)

lemma enrollment_of_message_frame:
  "enrollment_of_message env m d = Inr (e, d') \<Longrightarrow> directory_frame d d'"
  by (auto simp: enrollment_of_message_def bindE_eq_Inr split: option.splits dest: directory_frame_ensure)

lemma ensure_links_Inr:
  assumes "ensure_outbound_contact_links env k d = Inr (e, d')"
  shows "only_links d d'"
proof -
  obtain m d1 where m: "enrollment_of_message env m d = Inr (e, d1)" and d': "d' = link_message env m e d1"
    using assms by (auto simp: ensure_outbound_contact_links_def bindE_eq_Inr)
  show ?thesis
    unfolding d' using only_links_frame [OF enrollment_of_message_frame [OF m]] only_links_link_message
    by (rule only_links_trans)
qed

lemma outbound_eligibility_error_Inr:
  assumes "outbound_eligibility_error env m d = Inr (err, d')"
  shows "only_links d d' \<and> (\<exists>e \<in> set (enrollments d'). eligibility_error env m e d' = Inr err)"
  using assms
  by (auto simp: outbound_eligibility_error_def bindE_eq_Inr of_option_eq_Inr
      dest: ensure_links_Inr t_get_mem)

text \<open>No error means that the recipient is the address the organization still accepts.\<close>

lemma not_eligible_message: "\<not> el_eligible (enrollment_eligibility e d) \<Longrightarrow> el_message (enrollment_eligibility e d) \<noteq> []"
  by (auto simp: enrollment_eligibility_def not_eligible_def txt_defs split: option.splits if_splits)

lemma eligibility_error_none:
  "eligibility_error env m e d = Inr [] \<longleftrightarrow>
     el_eligible (enrollment_eligibility e d)
     \<and> (\<exists>s. selected_email e d = Some s \<and> normalize_email env (recipient_of m) = Inr (ea_normalized s))"
proof (cases "el_eligible (enrollment_eligibility e d)")
  case True
  then obtain s where s: "selected_email e d = Some s" by (auto simp: enrollment_eligible_iff)
  have t: "txt_recipient_invalid \<noteq> []" "txt_recipient_changed \<noteq> []" by (simp_all add: txt_defs)
  show ?thesis
    using True s t by (cases "normalize_email env (recipient_of m)") (auto simp: eligibility_error_def Let_def)
next
  case False
  then show ?thesis using not_eligible_message [OF False] by (simp add: eligibility_error_def Let_def)
qed

lemma outbound_eligibility_error_none:
  assumes "outbound_eligibility_error env m d = Inr ([], d')"
  shows "only_links d d' \<and> (\<exists>e s. e \<in> set (enrollments d') \<and> el_eligible (enrollment_eligibility e d')
    \<and> selected_email e d' = Some s \<and> normalize_email env (recipient_of m) = Inr (ea_normalized s))"
  using outbound_eligibility_error_Inr [OF assms] by (auto simp: eligibility_error_none)

lemmas outbound_eligibility_error_links = outbound_eligibility_error_Inr [THEN conjunct1]

section \<open>Lemmas: cancelling\<close>

lemma cancel_message_simps [simp]:
  "m_state (cancel_message env r m) = CANCELLED" "m_id (cancel_message env r m) = m_id m"
  "m_kind (cancel_message env r m) = m_kind m" "m_organization (cancel_message env r m) = m_organization m"
  by (simp_all add: cancel_message_def)

lemma messages_cancel_work:
  "messages (snd (cancel_pending_campaign_work env org reason replied at d)) =
     t_update (\<lambda>m. m_organization m = Some org \<and> m_kind m \<in> campaign_kinds \<and> m_state m \<in> cancellable)
       (cancel_message env reason) (messages d)"
  by (simp add: cancel_pending_campaign_work_def cancel_message_queryset_def mark_replied_def
      exclude_enrollments_def Let_def conj_assoc split: option.splits)

lemma enrollments_cancel_work:
  "enrollments (snd (cancel_pending_campaign_work env org reason replied at d)) =
     enrollments (exclude_enrollments org replied (mark_replied env org replied at d))"
  by (simp add: cancel_pending_campaign_work_def cancel_message_queryset_def mark_replied_def
      exclude_enrollments_def Let_def split: option.splits)

text \<open>After it no campaign mail of the organization is pending, and no enrollment of it can be sent to.\<close>

lemma cancel_work_messages:
  assumes "m \<in> set (messages (snd (cancel_pending_campaign_work env org reason replied at d)))"
    "m_organization m = Some org" "m_kind m \<in> campaign_kinds"
  shows "m_state m \<notin> cancellable"
  using assms(1) unfolding messages_cancel_work
proof (cases rule: t_updateE)
  case kept
  then show ?thesis using assms(2,3) by blast
next
  case (changed x)
  then show ?thesis by (simp add: cancellable_def)
qed

lemma enrollments_exclude [simp]:
  "enrollments (exclude_enrollments org replied d) = t_update
     (\<lambda>e. e_organization e = org \<and> replied \<noteq> Some (e_id e) \<and> e_state e \<notin> eligibility_terminal)
     (\<lambda>e. e\<lparr>e_state := E_INELIGIBLE, e_exclusion_reason := ''EXISTING_CONTACT''\<rparr>) (enrollments d)"
  by (simp add: exclude_enrollments_def)

lemma enrollments_mark_replied [simp]:
  "enrollments (mark_replied env org (Some k) at d) =
     t_update (\<lambda>e. e_organization e = org \<and> e_id e = k)
       (\<lambda>e. e\<lparr>e_state := E_RESPONDED, e_replied_at := or_now env at, e_exclusion_reason := []\<rparr>)
       (enrollments d)"
  by (simp add: mark_replied_def)

lemma cancel_work_enrollments:
  assumes "e \<in> set (enrollments (snd (cancel_pending_campaign_work env org reason replied at d)))"
    "e_organization e = org"
  shows "e_state e \<in> insert E_INELIGIBLE eligibility_terminal \<or> replied = Some (e_id e)"
  using assms(1) unfolding enrollments_cancel_work enrollments_exclude
proof (cases rule: t_updateE)
  case kept
  then show ?thesis using assms(2) by blast
next
  case (changed x)
  then show ?thesis by simp
qed

lemma mark_replied_responded:
  assumes "e \<in> set (enrollments (snd (cancel_pending_campaign_work env org reason (Some k) at d)))"
    "e_organization e = org" "e_id e = k"
  shows "e_state e = E_RESPONDED"
  using assms(1) unfolding enrollments_cancel_work enrollments_exclude
proof (cases rule: t_updateE)
  case kept
  from kept(1) show ?thesis unfolding enrollments_mark_replied
    by (cases rule: t_updateE) (use assms(2,3) in auto)
next
  case (changed x)
  then show ?thesis using assms(2,3) by simp
qed

end
