(* ===== verification/Mail.thy ===== *)
theory Mail
  imports Db Texts
begin

text \<open>
  What a message is made of: the fixed content of a campaign (\<open>campaigns/content.py\<close>), the MIME message
  (\<open>mailbox/mime.py\<close>; the serialisation itself is the \<open>email\<close> package's) and the integrity check of a
  stored PDF (\<open>catalogs/services.py\<close>). Bytes are texts.
\<close>

section \<open>Fixed content\<close>

record frozen_content =
  f_subject :: str
  f_body :: str
  f_signature :: str
  f_rendered_body :: str
  f_content_hash :: str

definition placeholder_markers :: "str list" where
  "placeholder_markers = [''{{'', ''}}'', ''{%'', ''%}'']"

definition validate_fixed_content :: "str \<Rightarrow> str \<Rightarrow> exn + unit" where
  "validate_fixed_content subject body =
     (if py_strip subject = [] \<or> py_strip body = [] then Inl (ValueError txt_empty_content)
      else if list_ex (\<lambda>m. contains_text m subject \<or> contains_text m body) placeholder_markers
      then Inl (ValueError txt_placeholders)
      else Inr ())"

definition freeze_message_content :: "env \<Rightarrow> str \<Rightarrow> str \<Rightarrow> str \<Rightarrow> exn + frozen_content" where
  "freeze_message_content env subject body signature =
     (let clean_subject = py_strip subject; clean_body = py_strip body; clean_signature = py_strip signature
      in bindE (validate_fixed_content clean_subject clean_body) (\<lambda>_.
        let newline = [CHR 0x0A];
            rendered = (if clean_signature \<noteq> [] then clean_body @ newline @ newline @ clean_signature
                        else clean_body);
            canonical = py_join newline [clean_subject, clean_body, clean_signature]
        in Inr \<lparr>f_subject = clean_subject, f_body = clean_body, f_signature = clean_signature,
                f_rendered_body = rendered, f_content_hash = sha256_hex env canonical\<rparr>))"

section \<open>The MIME message\<close>

definition MAX_PDF_BYTES :: nat where "MAX_PDF_BYTES = 15 * 1024 * 1024"
definition MAX_SOURCE_PDF_BYTES :: nat where "MAX_SOURCE_PDF_BYTES = 17 * 1024 * 1024"
definition MAX_SERIALIZED_MIME_BYTES :: nat where "MAX_SERIALIZED_MIME_BYTES = 24 * 1024 * 1024"

record pdf_attachment =
  pdf_filename :: str
  pdf_content :: str

record built_message =
  b_raw :: str
  b_sha256 :: str
  b_size :: nat

definition deterministic_message_id :: "env \<Rightarrow> str \<Rightarrow> str" where
  "deterministic_message_id env key = ''<'' @ sha256_hex env key @ ''@contact-outreach.local>''"

text \<open>\<open>Path(filename).name\<close>: the last component that is neither empty nor a single dot.\<close>

fun path_parts :: "str \<Rightarrow> str \<Rightarrow> str list" where
  "path_parts acc [] = [rev acc]"
| "path_parts acc (c # cs) = (if c = CHR ''/'' then rev acc # path_parts [] cs else path_parts (c # acc) cs)"

definition path_name :: "str \<Rightarrow> str" where
  "path_name s =
     (let parts = filter (\<lambda>p. p \<noteq> [] \<and> p \<noteq> ''.'') (path_parts [] s)
      in if parts = [] then [] else last parts)"

definition ends_with :: "str \<Rightarrow> str \<Rightarrow> bool" where
  "ends_with s e \<longleftrightarrow> length e \<le> length s \<and> drop (length s - length e) s = e"

definition safe_pdf_filename :: "str \<Rightarrow> str" where
  "safe_pdf_filename filename =
     (let safe_name = path_name filename
      in if \<not> ends_with (py_casefold safe_name) ''.pdf'' then ''catalogo.pdf'' else safe_name)"

text \<open>The loop over the attachments, with the running total of their sizes.\<close>

fun check_pdfs :: "pdf_attachment list \<Rightarrow> nat \<Rightarrow> exn + nat" where
  "check_pdfs [] tot = Inr tot"
| "check_pdfs (a # as) tot =
     (let size = length (pdf_content a)
      in if size = 0 then Inl (ValidationError txt_pdf_empty)
         else if MAX_PDF_BYTES < size then Inl (ValidationError txt_pdf_too_big)
         else if take 5 (pdf_content a) \<noteq> ''%PDF-'' then Inl (ValidationError txt_not_pdf)
         else check_pdfs as (tot + size))"

definition validated_pdf_attachments ::
    "pdf_attachment list \<Rightarrow> str option \<Rightarrow> str \<Rightarrow> exn + pdf_attachment list" where
  "validated_pdf_attachments atts pdf_bytes filename =
     (if pdf_bytes \<noteq> None \<and> atts \<noteq> [] then Inl (ValidationError txt_one_collection)
      else
        let attachments = (case pdf_bytes of None \<Rightarrow> atts
                           | Some b \<Rightarrow> [\<lparr>pdf_filename = filename, pdf_content = b\<rparr>])
        in bindE (check_pdfs attachments 0) (\<lambda>tot.
             if MAX_SOURCE_PDF_BYTES < tot then Inl (ValidationError txt_pdfs_total)
             else Inr attachments))"

definition single_plain_address :: "str \<Rightarrow> bool" where
  "single_plain_address value \<longleftrightarrow>
     value \<noteq> [] \<and> count_list value (CHR ''@'') = 1
     \<and> \<not> list_ex (\<lambda>c. c \<in> set ('' ,;<>()'' @ [CHR 0x22, CHR 0x0D, CHR 0x0A, CHR 0x09, CHR 0x00])) value"

definition finish_message ::
    "env \<Rightarrow> (str \<times> str) list \<Rightarrow> instant \<Rightarrow> str \<Rightarrow> (str \<times> str) list \<Rightarrow> exn + built_message" where
  "finish_message env headers date body atts =
     (let raw = mime_bytes env headers date body atts; size = length raw
      in if MAX_SERIALIZED_MIME_BYTES < size then Inl (ValidationError txt_mime_too_big)
         else Inr \<lparr>b_raw = raw, b_sha256 = sha256_hex env raw, b_size = size\<rparr>)"

definition bad_sender :: "str \<Rightarrow> bool" where
  "bad_sender s \<longleftrightarrow> s = [] \<or> CHR 0x0A \<in> set s \<or> CHR 0x0D \<in> set s"

definition check_headers :: "env \<Rightarrow> (str \<times> str) list \<Rightarrow> exn + unit" where
  "check_headers env hs =
     (if list_all (\<lambda>h. header_ok env (snd h)) hs then Inr ()
      else Inl (ValueError ''Header values may not contain linefeed or carriage return characters''))"

definition build_message ::
    "env \<Rightarrow> str \<Rightarrow> str \<Rightarrow> str \<Rightarrow> str \<Rightarrow> str \<Rightarrow> instant \<Rightarrow> str \<Rightarrow> str \<Rightarrow> pdf_attachment list \<Rightarrow> exn + built_message"
  where
  "build_message env sender recipient subject body_text message_id sent_at campaign_header message_header
       pdfs =
     (if bad_sender sender \<or> \<not> single_plain_address recipient
      then Inl (ValidationError txt_bad_address)
      else
        let headers = [(''From'', sender), (''To'', recipient), (''Subject'', subject),
                       (''Message-ID'', message_id), (''X-Contact-Outreach-Campaign'', campaign_header),
                       (''X-Contact-Outreach-Message'', message_header)]
        in bindE (check_headers env headers) (\<lambda>_.
           bindE (validated_pdf_attachments pdfs None ''catalogo.pdf'') (\<lambda>attachments.
             finish_message env headers sent_at body_text
               (map (\<lambda>a. (safe_pdf_filename (pdf_filename a), pdf_content a)) attachments))))"

definition build_reply_message ::
    "env \<Rightarrow> str \<Rightarrow> str \<Rightarrow> str \<Rightarrow> str \<Rightarrow> str \<Rightarrow> instant \<Rightarrow> str list \<Rightarrow> str \<Rightarrow> str \<Rightarrow> str \<Rightarrow> exn + built_message"
  where
  "build_reply_message env sender recipient subject body_text message_id sent_at thread_references
       in_reply_to campaign_header message_header =
     (if bad_sender sender \<or> \<not> single_plain_address recipient
      then Inl (ValidationError txt_bad_address)
      else if in_reply_to = [] then Inl (ValidationError txt_no_parent)
      else
        let headers = [(''From'', sender), (''To'', recipient), (''Subject'', subject),
                       (''Message-ID'', message_id), (''In-Reply-To'', in_reply_to),
                       (''References'', py_join '' '' thread_references),
                       (''X-Contact-Outreach-Campaign'', campaign_header),
                       (''X-Contact-Outreach-Message'', message_header)]
        in bindE (check_headers env headers) (\<lambda>_. finish_message env headers sent_at body_text []))"

section \<open>Stored PDFs\<close>

definition verify_catalog :: "env \<Rightarrow> catalog \<Rightarrow> db \<Rightarrow> exn + unit" where
  "verify_catalog env k d =
     (case map_of (storage d) (k_file_name k) of
        None \<Rightarrow> Inl (ValidationError txt_catalog_unavailable)
      | Some content \<Rightarrow>
          if k_missing k \<or> \<not> k_active k \<or> k_file_name k = []
          then Inl (ValidationError txt_catalog_unavailable)
          else if sha256_hex env content \<noteq> k_sha256 k \<or> length content \<noteq> k_byte_size k
          then Inl (ValidationError txt_catalog_integrity)
          else Inr ())"

section \<open>Lemmas\<close>

lemma check_pdfs_Inr:
  "check_pdfs as n = Inr tot \<Longrightarrow>
   tot = n + sum_list (map (length \<circ> pdf_content) as)
   \<and> (\<forall>a \<in> set as. 0 < length (pdf_content a) \<and> length (pdf_content a) \<le> MAX_PDF_BYTES
        \<and> take 5 (pdf_content a) = ''%PDF-'')"
  by (induction as n rule: check_pdfs.induct) (auto simp: Let_def split: if_splits)

lemma freeze_message_content_Inr:
  assumes "freeze_message_content env subject body signature = Inr f"
  shows "f_body f \<noteq> [] \<and> f_subject f \<noteq> []
    \<and> (\<forall>m \<in> set placeholder_markers. \<not> contains_text m (f_subject f) \<and> \<not> contains_text m (f_body f))"
  using assms
  by (auto simp: freeze_message_content_def validate_fixed_content_def Let_def res_simps list_ex_iff
      split: if_splits)

lemma frozen_is_fixed:
  assumes "freeze_message_content env subject body signature = Inr f"
  shows "freeze_message_content env (f_subject f) (f_body f) (f_signature f) = Inr f"
  using assms
  by (auto simp: freeze_message_content_def Let_def res_simps)

end
