(* ===== verification/Calendar.thy ===== *)
theory Calendar
  imports Complex_Main Db Texts
begin

text \<open>
  The date arithmetic of \<open>campaigns/delivery.py\<close>: when a campaign may send, the bounds of its local
  day, the next permitted window, the Buenos Aires date of a reservation and the retry delay. An
  aware datetime in the campaign's zone is its wall-clock reading, the number of microseconds since
  1970-01-01T00:00 on the clock of the zone; \<open>date()\<close> and \<open>time()\<close> are its quotient and remainder by
  the length of a day.
\<close>

section \<open>Wall-clock readings\<close>

definition second :: int where "second = 1000000"
definition minute :: int where "minute = 60 * second"
definition day_length :: int where "day_length = 86400 * second"

definition date_of :: "wall \<Rightarrow> day" where "date_of l = l div day_length"
definition time_of :: "wall \<Rightarrow> int" where "time_of l = l mod day_length"
definition combine :: "day \<Rightarrow> int \<Rightarrow> wall" where "combine d t = d * day_length + t"

text \<open>\<open>date.weekday()\<close>: Monday is 0, and 1970-01-01 was a Thursday.\<close>

definition weekday :: "day \<Rightarrow> int" where "weekday d = (d + 3) mod 7"

definition to_wall :: "env \<Rightarrow> str \<Rightarrow> instant \<Rightarrow> wall" where
  "to_wall env zone t = t + utc_offset env zone t"

definition to_utc :: "env \<Rightarrow> str \<Rightarrow> wall \<Rightarrow> instant" where
  "to_utc env zone l = l - wall_offset env zone l"

lemmas time_units = second_def minute_def day_length_def

lemma day_length_pos [simp]: "0 < day_length"
  by (simp add: time_units)

lemma time_of_bounds [simp]: "0 \<le> time_of l" "time_of l < day_length"
  by (simp_all add: time_of_def)

lemma combine_date_time [simp]: "combine (date_of l) (time_of l) = l"
  by (simp add: combine_def date_of_def time_of_def)

lemma date_of_combine [simp]: "0 \<le> t \<Longrightarrow> t < day_length \<Longrightarrow> date_of (combine d t) = d"
  by (simp add: combine_def date_of_def)

lemma time_of_combine [simp]: "0 \<le> t \<Longrightarrow> t < day_length \<Longrightarrow> time_of (combine d t) = t"
  by (simp add: combine_def time_of_def)

lemma combine_less:
  "d < d' \<Longrightarrow> t < day_length \<Longrightarrow> 0 \<le> t' \<Longrightarrow> combine d t < combine d' t'"
proof -
  assume a: "d < d'" "t < day_length" "0 \<le> t'"
  have "(d + 1) * day_length \<le> d' * day_length" using a(1) by (intro mult_right_mono) (auto simp: time_units)
  with a(2,3) show ?thesis by (simp add: combine_def algebra_simps)
qed

lemma weekday_range: "0 \<le> weekday d" "weekday d < 7"
  by (simp_all add: weekday_def)

section \<open>The retry delay: \<open>_backoff\<close>\<close>

definition MAX_BACKOFF_SECONDS :: int where "MAX_BACKOFF_SECONDS = 900"

text \<open>\<open>int(x)\<close> of a finite float.\<close>

definition truncate_rat :: "rat \<Rightarrow> int" where
  "truncate_rat x = (if 0 \<le> x then \<lfloor>x\<rfloor> else \<lceil>x\<rceil>)"

definition backoff :: "nat \<Rightarrow> rat option \<Rightarrow> int" where
  "backoff attempt retry_after =
     (case retry_after of
        Some s \<Rightarrow> max 1 (min MAX_BACKOFF_SECONDS (truncate_rat s))
      | None \<Rightarrow> min MAX_BACKOFF_SECONDS (30 * 2 ^ (attempt - 1))) * second"

section \<open>The local day and the sending window\<close>

definition local_day_bounds :: "env \<Rightarrow> campaign \<Rightarrow> instant \<Rightarrow> instant \<times> instant" where
  "local_day_bounds env c now =
     (let start_local = combine (date_of (to_wall env (c_timezone c) now)) 0;
          end_local = start_local + day_length
      in (to_utc env (c_timezone c) start_local, to_utc env (c_timezone c) end_local))"

definition in_window :: "campaign \<Rightarrow> wall \<Rightarrow> bool" where
  "in_window c l \<longleftrightarrow>
     weekday (date_of l) \<in> set (c_weekdays c) \<and> c_window_start c \<le> time_of l \<and> time_of l < c_window_end c"

definition inside_schedule :: "env \<Rightarrow> campaign \<Rightarrow> instant \<Rightarrow> bool" where
  "inside_schedule env c now = in_window c (to_wall env (c_timezone c) now)"

text \<open>The loop \<open>for _ in range(7)\<close> of \<open>_shift_to_business_window\<close>.\<close>

fun next_allowed_date :: "nat \<Rightarrow> int list \<Rightarrow> day \<Rightarrow> day option" where
  "next_allowed_date 0 days d = None"
| "next_allowed_date (Suc n) days d =
     (if weekday d \<in> set days then Some d else next_allowed_date n days (d + 1))"

text \<open>
  \<open>_shift_to_business_window\<close> up to the final \<open>astimezone(UTC)\<close>. Both its callers pass a datetime
  already in the campaign's zone, so its argument is a wall-clock reading.
\<close>

definition business_wall :: "campaign \<Rightarrow> wall \<Rightarrow> exn + wall" where
  "business_wall c l =
     (let days = c_weekdays c; d = date_of l; t = time_of l
      in if days = [] then Inl (ValidationError txt_no_weekdays)
         else if weekday d \<in> set days \<and> c_window_start c \<le> t \<and> t < c_window_end c then Inr l
         else if weekday d \<in> set days \<and> t < c_window_start c then Inr (combine d (c_window_start c))
         else case next_allowed_date 7 days (d + 1) of
                Some d' \<Rightarrow> Inr (combine d' (c_window_start c))
              | None \<Rightarrow> Inl (ValidationError txt_no_next_day))"

definition shift_to_business_window :: "env \<Rightarrow> campaign \<Rightarrow> wall \<Rightarrow> exn + instant" where
  "shift_to_business_window env c l =
     bindE (business_wall c l) (\<lambda>w. Inr (to_utc env (c_timezone c) w))"

definition next_permitted_sending_day :: "env \<Rightarrow> campaign \<Rightarrow> instant \<Rightarrow> exn + instant" where
  "next_permitted_sending_day env c now =
     (let local_date = date_of (to_wall env (c_timezone c) now) + 1
      in shift_to_business_window env c (combine local_date (c_window_start c)))"

definition reminder_due_at :: "env \<Rightarrow> campaign \<Rightarrow> instant \<Rightarrow> exn + instant" where
  "reminder_due_at env c sent_at =
     shift_to_business_window env c
       (to_wall env (c_timezone c) sent_at + int (c_reminder_delay_days c) * day_length)"

definition CAMPAIGN_RESERVATION_ZONE :: str where
  "CAMPAIGN_RESERVATION_ZONE = ''America/Argentina/Buenos_Aires''"

definition reservation_local_date :: "env \<Rightarrow> instant \<Rightarrow> day" where
  "reservation_local_date env now = date_of (to_wall env CAMPAIGN_RESERVATION_ZONE now)"

section \<open>Lemmas\<close>

lemma next_allowed_date_Some:
  "next_allowed_date n days d = Some d' \<Longrightarrow>
   d \<le> d' \<and> d' < d + int n \<and> weekday d' \<in> set days \<and> (\<forall>x. d \<le> x \<and> x < d' \<longrightarrow> weekday x \<notin> set days)"
proof (induction n arbitrary: d)
  case (Suc n)
  show ?case
  proof (cases "weekday d \<in> set days")
    case False
    with Suc.prems have "next_allowed_date n days (d + 1) = Some d'" by simp
    note ih = Suc.IH [OF this]
    have "weekday x \<notin> set days" if "d \<le> x" "x < d'" for x
      using that ih False by (cases "x = d") auto
    with ih show ?thesis by auto
  qed (use Suc.prems in auto)
qed simp

lemma next_allowed_date_None:
  "next_allowed_date n days d = None \<Longrightarrow> d \<le> x \<Longrightarrow> x < d + int n \<Longrightarrow> weekday x \<notin> set days"
proof (induction n arbitrary: d)
  case (Suc n)
  then show ?case by (cases "x = d") (auto split: if_splits)
qed simp

text \<open>A week holds every weekday, so seven tries are enough.\<close>

lemma next_allowed_date_week:
  assumes "w \<in> set days" "0 \<le> w" "w < 7"
  shows "next_allowed_date 7 days d \<noteq> None"
proof
  assume none: "next_allowed_date 7 days d = None"
  define x where "x = d + (w - (d + 3)) mod 7"
  have "weekday x = ((d + 3) + (w - (d + 3)) mod 7) mod 7"
    by (simp add: weekday_def x_def algebra_simps)
  also have "\<dots> = w mod 7" by (subst mod_add_right_eq) simp
  also have "\<dots> = w" using assms(2,3) by simp
  finally have "weekday x = w" .
  moreover have "d \<le> x" "x < d + 7" by (simp_all add: x_def)
  ultimately show False using next_allowed_date_None [OF none, of x] assms(1) by simp
qed

text \<open>A campaign whose schedule passes \<open>Campaign.clean\<close>: a window inside the day, at least one weekday.\<close>

definition valid_schedule :: "campaign \<Rightarrow> bool" where
  "valid_schedule c \<longleftrightarrow>
     c_weekdays c \<noteq> [] \<and> (\<forall>w \<in> set (c_weekdays c). 0 \<le> w \<and> w \<le> 6)
     \<and> 0 \<le> c_window_start c \<and> c_window_start c < c_window_end c \<and> c_window_end c \<le> day_length"

lemma valid_schedule_next:
  assumes "valid_schedule c"
  obtains d' where "next_allowed_date 7 (c_weekdays c) d = Some d'"
proof -
  obtain w where "w \<in> set (c_weekdays c)" "0 \<le> w" "w < 7"
    using assms by (cases "c_weekdays c") (fastforce simp: valid_schedule_def)+
  then show ?thesis using next_allowed_date_week [of w "c_weekdays c" d] that by auto
qed

lemma business_wall_total:
  "valid_schedule c \<Longrightarrow> \<exists>w. business_wall c l = Inr w"
  by (rule valid_schedule_next [of c "date_of l + 1"])
     (auto simp: business_wall_def Let_def valid_schedule_def)

text \<open>No instant of the window lies between two walls of which the first is past today's window.\<close>

lemma in_window_date: "in_window c l \<Longrightarrow> weekday (date_of l) \<in> set (c_weekdays c)"
  by (simp add: in_window_def)

lemma less_combineD:
  assumes "l < combine d t" "0 \<le> t" "t < day_length"
  shows "date_of l < d \<or> date_of l = d \<and> time_of l < t"
proof (rule ccontr)
  assume "\<not> ?thesis"
  then have "d < date_of l \<or> date_of l = d \<and> t \<le> time_of l" by auto
  then have "combine d t \<le> combine (date_of l) (time_of l)"
    using combine_less [of d "date_of l" t "time_of l"] assms(2,3) by (auto simp: combine_def)
  with assms(1) show False by simp
qed

lemma date_of_mono: "l \<le> l' \<Longrightarrow> date_of l \<le> date_of l'"
  by (simp add: date_of_def zdiv_mono1)

lemma time_of_mono: "l \<le> l' \<Longrightarrow> date_of l = date_of l' \<Longrightarrow> time_of l \<le> time_of l'"
  using combine_date_time [of l] combine_date_time [of l'] by (simp add: combine_def)

lemma business_wall_least:
  assumes v: "valid_schedule c" and r: "business_wall c l = Inr w"
  shows "l \<le> w \<and> in_window c w \<and> (\<forall>x. l \<le> x \<and> x < w \<longrightarrow> \<not> in_window c x)"
proof -
  let ?s = "c_window_start c" and ?days = "c_weekdays c"
  have s: "0 \<le> ?s" "?s < c_window_end c" "?s < day_length" "c_window_end c \<le> day_length"
    using v by (auto simp: valid_schedule_def)
  consider (now) "in_window c l" "w = l"
    | (today) "weekday (date_of l) \<in> set ?days" "time_of l < ?s" "w = combine (date_of l) ?s"
    | (later) d' where "next_allowed_date 7 ?days (date_of l + 1) = Some d'" "w = combine d' ?s"
        "weekday (date_of l) \<notin> set ?days \<or> c_window_end c \<le> time_of l"
    using r s by (auto simp: business_wall_def Let_def in_window_def split: if_splits option.splits)
  then show ?thesis
  proof cases
    case now
    then show ?thesis by auto
  next
    case today
    have "l \<le> w"
      using today(2,3) combine_date_time [of l] by (simp add: combine_def)
    moreover have "in_window c w" using today s by (simp add: in_window_def)
    moreover have "\<not> in_window c x" if "l \<le> x" "x < w" for x
      using less_combineD [of x "date_of l" ?s] date_of_mono [OF that(1)] that(2) today(3) s
      by (auto simp: in_window_def)
    ultimately show ?thesis by blast
  next
    case later
    note n = next_allowed_date_Some [OF later(1)]
    have "combine (date_of l) (time_of l) < combine d' ?s"
      by (rule combine_less) (use n s in auto)
    moreover have "in_window c w" using later n s by (simp add: in_window_def)
    moreover have "\<not> in_window c x" if "l \<le> x" "x < w" for x
    proof
      assume x: "in_window c x"
      have "date_of l \<le> date_of x" using that(1) by (rule date_of_mono)
      moreover have "date_of x < d'"
        using less_combineD [of x d' ?s] that(2) later(2) s x by (auto simp: in_window_def)
      moreover have "\<not> date_of l + 1 \<le> date_of x"
        using n in_window_date [OF x] calculation by blast
      ultimately have "date_of x = date_of l" by linarith
      then show False using x later(3) time_of_mono [OF that(1)] by (auto simp: in_window_def)
    qed
    ultimately show ?thesis using later(2) by (auto simp: less_imp_le)
  qed
qed

end
