(* ===== verification/Campaign_Content.thy ===== *)
theory Campaign_Content
  imports Enrollments Mail Calendar
begin

text \<open>
  What a campaign sends and what an approval covers: the approved templates of a workspace
  (\<open>configuration/message_templates.py\<close>), the content frozen into a campaign, its PDFs, and the hashes
  of audience, attachments and schedule (the first half of \<open>campaigns/approval.py\<close>).
\<close>

section \<open>Templates\<close>

definition template_hash :: "env \<Rightarrow> str \<Rightarrow> str \<Rightarrow> str" where
  "template_hash env subject body = sha256_hex env (py_join [CHR 0x0A] [subject, body])"

definition active_template :: "id \<Rightarrow> template_kind \<Rightarrow> db \<Rightarrow> template option" where
  "active_template ws kind d =
     find (\<lambda>t. tp_workspace t = ws \<and> tp_kind t = kind \<and> tp_active t) (templates (config d))"

definition default_content :: "template_kind \<Rightarrow> str \<times> str" where
  "default_content kind =
     (case kind of
        T_INITIAL \<Rightarrow> (INITIAL_SUBJECT, INITIAL_BODY)
      | T_REMINDER \<Rightarrow> ([], REMINDER_BODY)
      | T_REFERRED_PROPOSAL \<Rightarrow> (REFERRED_PROPOSAL_SUBJECT, REFERRED_PROPOSAL_BODY))"

definition add_template :: "template \<Rightarrow> db \<Rightarrow> db" where
  "add_template t d = d\<lparr>config := (config d)\<lparr>templates := templates (config d) @ [t]\<rparr>\<rparr>"

definition ensure_template :: "env \<Rightarrow> id \<Rightarrow> template_kind \<Rightarrow> db \<Rightarrow> template \<times> db" where
  "ensure_template env ws kind d =
     (case active_template ws kind d of
        Some t \<Rightarrow> (t, d)
      | None \<Rightarrow>
          let (k, d1) = fresh d; (subject, body) = default_content kind;
              t = \<lparr>tp_id = k, tp_workspace = ws, tp_kind = kind, tp_subject = subject, tp_body = body,
                   tp_revision = 1, tp_content_hash = template_hash env subject body,
                   tp_approved_at = clock env, tp_approved_by = None, tp_active = True\<rparr>
          in (t, add_template t d1))"

record active_templates =
  at_initial :: template
  at_reminder :: template
  at_referred :: template

definition ensure_default_message_templates :: "env \<Rightarrow> id \<Rightarrow> db \<Rightarrow> active_templates \<times> db" where
  "ensure_default_message_templates env ws d =
     (let (i, d1) = ensure_template env ws T_INITIAL d;
          (r, d2) = ensure_template env ws T_REMINDER d1;
          (f, d3) = ensure_template env ws T_REFERRED_PROPOSAL d2
      in (\<lparr>at_initial = i, at_reminder = r, at_referred = f\<rparr>, d3))"

definition validate_template_content :: "template_kind \<Rightarrow> str \<Rightarrow> str \<Rightarrow> exn + str \<times> str" where
  "validate_template_content kind subject body =
     (let clean_subject = py_strip subject; clean_body = py_strip body
      in if clean_body = [] then Inl (ValidationError txt_template_body)
         else if kind \<noteq> T_REMINDER \<and> clean_subject = [] then Inl (ValidationError txt_template_subject)
         else if list_ex (\<lambda>m. contains_text m clean_subject \<or> contains_text m clean_body) placeholder_markers
         then Inl (ValidationError txt_template_markers)
         else Inr (clean_subject, clean_body))"

definition create_message_template_revision ::
    "env \<Rightarrow> id \<Rightarrow> id \<Rightarrow> template_kind \<Rightarrow> str \<Rightarrow> str \<Rightarrow> db \<Rightarrow> exn + template \<times> db" where
  "create_message_template_revision env ws actor kind subject body d =
     bindE (require_user_capability d actor MANAGE_CONFIGURATION (Some ws)) (\<lambda>_.
     bindE (validate_template_content kind subject body) (\<lambda>(clean_subject, clean_body).
       let current = active_template ws kind d;
           revision_number = (case current of None \<Rightarrow> 0 | Some t \<Rightarrow> tp_revision t) + 1;
           d1 = (case current of None \<Rightarrow> d
                 | Some t \<Rightarrow> d\<lparr>config := (config d)\<lparr>templates :=
                       t_save tp_id (tp_id t) (\<lambda>r. r\<lparr>tp_active := False\<rparr>) (templates (config d))\<rparr>\<rparr>);
           (k, d2) = fresh d1;
           t = \<lparr>tp_id = k, tp_workspace = ws, tp_kind = kind, tp_subject = clean_subject,
                tp_body = clean_body, tp_revision = revision_number,
                tp_content_hash = template_hash env clean_subject clean_body,
                tp_approved_at = clock env, tp_approved_by = Some actor, tp_active = True\<rparr>
       in if list_ex (\<lambda>x. tp_workspace x = ws \<and> tp_kind x = kind \<and> tp_revision x = revision_number)
               (templates (config d))
          then Inl IntegrityError
          else Inr (t, record_event ''message_template.approved'' k (Some actor) (add_template t d2))))"

section \<open>The content frozen into a campaign\<close>

definition workspace_profile :: "id \<Rightarrow> db \<Rightarrow> business_profile option" where
  "workspace_profile ws d = find (\<lambda>p. bp_workspace p = ws) (profiles (config d))"

definition template_json :: "template \<Rightarrow> json" where
  "template_json t = JObj [(''id'', JStr (str_of_pk (tp_id t))), (''revision'', JInt (int (tp_revision t)))]"

definition freeze_campaign_content :: "env \<Rightarrow> campaign \<Rightarrow> db \<Rightarrow> exn + campaign \<times> db" where
  "freeze_campaign_content env c d =
     (let (ts, d1) = ensure_default_message_templates env (c_workspace c) d;
          profile = workspace_profile (c_workspace c) d1;
          signature = (case profile of None \<Rightarrow> [] | Some p \<Rightarrow> py_strip (bp_signature p));
          c1 = c\<lparr>c_initial_subject := tp_subject (at_initial ts), c_initial_body := tp_body (at_initial ts),
                 c_reminder_body := tp_body (at_reminder ts), c_signature := signature,
                 c_plan := (c_plan c)\<lparr>
                   pl_referred_subject := tp_subject (at_referred ts),
                   pl_referred_body := tp_body (at_referred ts),
                   pl_template_revisions := JObj
                     [(''INITIAL'', template_json (at_initial ts)),
                      (''REMINDER'', template_json (at_reminder ts)),
                      (''REFERRED_PROPOSAL'', template_json (at_referred ts)),
                      (''profile_version'', case profile of None \<Rightarrow> JNull
                                            | Some p \<Rightarrow> JInt (int (bp_version p)))]\<rparr>\<rparr>
      in bindE (freeze_message_content env (c_initial_subject c1) (c_initial_body c1) (c_signature c1))
           (\<lambda>frozen. Inr (c1\<lparr>c_content_hash := f_content_hash frozen\<rparr>, d1)))"

section \<open>The PDFs\<close>

definition MAX_ATTACHMENT_SOURCE_BYTES :: nat where
  "MAX_ATTACHMENT_SOURCE_BYTES = 17 * 1024 * 1024"

definition MAX_CATALOG_BYTES :: nat where
  "MAX_CATALOG_BYTES = 15 * 1024 * 1024"

definition attachments_of_campaign :: "id \<Rightarrow> db \<Rightarrow> campaign_attachment list" where
  "attachments_of_campaign camp d =
     sort_key ca_position (filter (\<lambda>a. ca_campaign a = camp) (campaign_attachments (selections d)))"

fun verify_attachments :: "env \<Rightarrow> campaign_attachment list \<Rightarrow> nat \<Rightarrow> db \<Rightarrow> exn + nat" where
  "verify_attachments env [] tot d = Inr tot"
| "verify_attachments env (a # as) tot d =
     bindE (of_option DoesNotExist (t_get k_id (ca_catalog a) (catalogs d))) (\<lambda>k.
     bindE (verify_catalog env k d) (\<lambda>_.
       if MAX_CATALOG_BYTES < k_byte_size k then Inl (ValidationError (k_name k @ txt_exceeds_15))
       else verify_attachments env as (tot + k_byte_size k) d))"

definition verified_campaign_attachments :: "env \<Rightarrow> id \<Rightarrow> db \<Rightarrow> exn + campaign_attachment list" where
  "verified_campaign_attachments env camp d =
     (let atts = attachments_of_campaign camp d
      in if atts = [] then Inl (ValidationError txt_choose_pdf)
         else bindE (verify_attachments env atts 0 d) (\<lambda>tot.
           if MAX_ATTACHMENT_SOURCE_BYTES < tot then Inl (ValidationError txt_selected_17)
           else Inr atts))"

definition available_catalog :: "id \<Rightarrow> db \<Rightarrow> id \<Rightarrow> catalog option" where
  "available_catalog ws d k =
     (case t_get k_id k (catalogs d) of
        None \<Rightarrow> None
      | Some c \<Rightarrow> if k_workspace c = ws \<and> k_active c \<and> \<not> k_missing c then Some c else None)"

text \<open>\<open>list(dict.fromkeys(ids))\<close> keeps the first occurrence of each key.\<close>

fun dedup :: "'a list \<Rightarrow> 'a list" where
  "dedup [] = []"
| "dedup (x # xs) = x # filter (\<lambda>y. y \<noteq> x) (dedup xs)"

definition set_campaign_attachments :: "id \<Rightarrow> id list \<Rightarrow> id \<Rightarrow> db \<Rightarrow> exn + db" where
  "set_campaign_attachments camp catalog_ids actor d =
     bindE (get_campaign camp d) (\<lambda>c.
     bindE (require_user_capability d actor MANAGE_CAMPAIGNS (Some (c_workspace c))) (\<lambda>_.
       if c_state c \<noteq> C_DRAFT then Inl (ValidationError txt_pdfs_locked)
       else
         let ordered = dedup catalog_ids;
             found = List.map_filter (available_catalog (c_workspace c) d) ordered
         in if ordered = [] then Inl (ValidationError txt_choose_pdf)
            else if length found \<noteq> length ordered then Inl (ValidationError txt_pdf_gone)
            else if list_ex (\<lambda>k. MAX_CATALOG_BYTES < k_byte_size k) found
            then Inl (ValidationError txt_each_15)
            else if MAX_ATTACHMENT_SOURCE_BYTES < sum_list (map k_byte_size found)
            then Inl (ValidationError txt_selected_17)
            else
              let kept = filter (\<lambda>a. ca_campaign a \<noteq> camp) (campaign_attachments (selections d));
                  created = map (\<lambda>(i, k). \<lparr>ca_id = next_id d + i, ca_campaign = camp, ca_catalog = k_id k,
                                           ca_position = i\<rparr>) (enumerate 0 found);
                  d1 = d\<lparr>next_id := next_id d + length found,
                         selections := (selections d)\<lparr>campaign_attachments := kept @ created\<rparr>\<rparr>;
                  first = k_id (hd found)
              in Inr (if c_catalog c \<noteq> first
                      then d1\<lparr>campaigns := t_save c_id camp (\<lambda>r. r\<lparr>c_catalog := first\<rparr>) (campaigns d1)\<rparr>
                      else d1)))"

definition attachments_of_message :: "id \<Rightarrow> db \<Rightarrow> attachment list" where
  "attachments_of_message k d = sort_key a_position (filter (\<lambda>a. a_message a = k) (attachments d))"

definition snapshot_attachment :: "id \<Rightarrow> campaign_attachment \<Rightarrow> catalog \<Rightarrow> attachment" where
  "snapshot_attachment msg item k =
     \<lparr>a_message = msg, a_catalog = k_id k, a_position = ca_position item, a_catalog_version = k_version k,
      a_storage_key = k_file_name k, a_filename = k_original_filename k, a_byte_size = k_byte_size k,
      a_sha256 = k_sha256 k\<rparr>"

definition catalog_of :: "campaign_attachment \<Rightarrow> db \<Rightarrow> catalog option" where
  "catalog_of a d = t_get k_id (ca_catalog a) (catalogs d)"

definition snapshot_outbound_attachments :: "env \<Rightarrow> message \<Rightarrow> db \<Rightarrow> exn + db" where
  "snapshot_outbound_attachments env m d =
     (case m_campaign m of
        None \<Rightarrow> Inl (ValidationError txt_no_source_campaign)
      | Some camp \<Rightarrow>
          if attachments_of_message (m_id m) d \<noteq> [] then Inr d
          else bindE (verified_campaign_attachments env camp d) (\<lambda>source.
            Inr (d\<lparr>attachments := attachments d @
                   List.map_filter (\<lambda>a. map_option (snapshot_attachment (m_id m) a) (catalog_of a d)) source\<rparr>)))"

section \<open>The hashes an approval covers\<close>

definition canonical_hash :: "env \<Rightarrow> json \<Rightarrow> str" where
  "canonical_hash env j = sha256_hex env (json_dumps False j)"

definition audience_enrollments :: "id \<Rightarrow> db \<Rightarrow> enrollment list" where
  "audience_enrollments camp d =
     sort_key (\<lambda>e. (e_organization e, case e_selected_email e of Some k \<Rightarrow> k | None \<Rightarrow> 0))
       (filter (\<lambda>e. e_campaign e = camp \<and> e_state e \<in> {E_ELIGIBLE, E_PREPARED} \<and> e_selected_email e \<noteq> None)
          (enrollments d))"

definition audience_row :: "db \<Rightarrow> enrollment \<Rightarrow> json option" where
  "audience_row d e =
     map_option (\<lambda>s. JObj
       [(''enrollment_id'', JStr (str_of_pk (e_id e))),
        (''organization_id'', JStr (str_of_pk (e_organization e))),
        (''email_id'', JStr (str_of_pk (ea_id s))),
        (''normalized_email'', JStr (ea_normalized s))]) (selected_email e d)"

definition audience_rows :: "id \<Rightarrow> db \<Rightarrow> json" where
  "audience_rows camp d = JList (List.map_filter (audience_row d) (audience_enrollments camp d))"

definition attachment_json :: "id \<Rightarrow> nat \<Rightarrow> nat \<Rightarrow> str \<Rightarrow> nat \<Rightarrow> json" where
  "attachment_json catalog position version digest bytes =
     JObj [(''catalog_id'', JStr (str_of_pk catalog)), (''position'', JInt (int position)),
           (''version'', JInt (int version)), (''sha256'', JStr digest), (''size'', JInt (int bytes))]"

definition attachment_rows :: "id \<Rightarrow> db \<Rightarrow> json" where
  "attachment_rows camp d =
     JList (List.map_filter (\<lambda>a. map_option (\<lambda>k. attachment_json (ca_catalog a) (ca_position a) (k_version k)
              (k_sha256 k) (k_byte_size k)) (catalog_of a d)) (attachments_of_campaign camp d))"

definition message_attachment_rows :: "id \<Rightarrow> db \<Rightarrow> json" where
  "message_attachment_rows k d =
     JList (map (\<lambda>a. attachment_json (a_catalog a) (a_position a) (a_catalog_version a) (a_sha256 a)
              (a_byte_size a)) (attachments_of_message k d))"

definition two_digits :: "int \<Rightarrow> str" where
  "two_digits n = (if n < 10 then ''0'' else []) @ digits_of (nat n)"

definition hour_minute :: "int \<Rightarrow> str" where
  "hour_minute t = two_digits (t div (60 * minute)) @ '':'' @ two_digits (t div minute mod 60)"

definition schedule_payload :: "campaign \<Rightarrow> json" where
  "schedule_payload c =
     JObj [(''daily_limit'', JInt (int (c_daily_limit c))),
           (''interval_minutes'', JInt (int (c_interval_minutes c))),
           (''weekdays'', JList (map JInt (c_weekdays c))),
           (''window_start'', JStr (hour_minute (c_window_start c))),
           (''window_end'', JStr (hour_minute (c_window_end c))),
           (''timezone'', JStr (c_timezone c)),
           (''reminder_enabled'', JBool (c_reminder_enabled c)),
           (''reminder_delay_days'', JInt (int (c_reminder_delay_days c)))]"

definition refresh_campaign_hashes :: "env \<Rightarrow> campaign \<Rightarrow> db \<Rightarrow> campaign" where
  "refresh_campaign_hashes env c d =
     c\<lparr>c_audience_hash := canonical_hash env (audience_rows (c_id c) d),
       c_attachment_hash := canonical_hash env (attachment_rows (c_id c) d),
       c_schedule_hash := canonical_hash env (schedule_payload c)\<rparr>"

end
