(* ===== verification/Campaign_Start.thy ===== *)
theory Campaign_Start
  imports Campaign_Content "HOL-Library.AList"
begin

text \<open>
  Starting or resuming a campaign (\<open>campaigns/services.py\<close>): the checks of \<open>_preflight\<close>, and what
  \<open>_freeze_draft\<close> writes when a draft leaves for discovery, with the settings it snapshots
  (\<open>configuration/services.py\<close>, \<open>configuration/integrations.py\<close>). The geometry of a boundary is
  \<open>validated_geojson\<close> of the environment.
\<close>

section \<open>Saving a campaign\<close>

text \<open>The columns of \<open>IMMUTABLE_AFTER_START\<close>: what is left of a campaign when the others are blanked.\<close>

definition immutable_part :: "campaign \<Rightarrow> campaign" where
  "immutable_part c =
     c\<lparr>c_id := 0, c_created_by := 0, c_state := C_DRAFT, c_discovery := D_PENDING,
       c_discovery_stop_reason := [], c_status_reason := [], c_content_hash := [], c_audience_hash := [],
       c_attachment_hash := [], c_schedule_hash := [], c_approved_at := None, c_approved_by := None,
       c_started_at := None, c_finished_at := None,
       c_plan := (c_plan c)\<lparr>pl_name := [], pl_template_revisions := JNull\<rparr>\<rparr>"

definition save_campaign :: "campaign \<Rightarrow> (campaign \<Rightarrow> campaign) \<Rightarrow> db \<Rightarrow> exn + db" where
  "save_campaign c f d =
     bindE (get_campaign (c_id c) d) (\<lambda>previous.
       if c_state previous \<noteq> C_DRAFT \<and> immutable_part previous \<noteq> immutable_part c
       then Inl (ValidationError txt_immutable)
       else Inr (d\<lparr>campaigns := t_save c_id (c_id c) f (campaigns d)\<rparr>))"

definition campaign_clean :: "env \<Rightarrow> campaign \<Rightarrow> exn + unit" where
  "campaign_clean env c =
     (let p = c_plan c
      in if pl_max_raw_records p < pl_objective p then Inl (ValidationError txt_raw_limit)
         else if c_window_end c \<le> c_window_start c then Inl (ValidationError txt_window_order)
         else if c_weekdays c = [] \<or> list_ex (\<lambda>w. w < 0 \<or> 6 < w) (c_weekdays c)
         then Inl (ValidationError txt_some_weekday)
         else if \<not> known_zone env (c_timezone c) then Inl (ValidationError txt_bad_zone)
         else if pl_extractor p \<noteq> ''fake'' \<and> pl_extractor p \<noteq> ''overture''
         then Inl (ValidationError txt_bad_extractor)
         else if pl_extractor p = ''overture'' \<and> c_state c \<noteq> C_DRAFT \<and> pl_overture_snapshot p = None
         then Inl (ValidationError txt_pin_snapshot)
         else if pl_website_fetcher p \<noteq> ''fake'' \<and> pl_website_fetcher p \<noteq> ''http''
         then Inl (ValidationError txt_bad_fetcher)
         else if pl_llm_provider p \<notin> {''fake'', ''ollama'', ''openai-compatible''}
         then Inl (ValidationError txt_bad_llm)
         else if pl_llm_provider p \<noteq> ''fake'' \<and> pl_llm_base_url p = []
         then Inl (ValidationError txt_llm_url)
         else Inr ())"

definition campaign_full_clean :: "env \<Rightarrow> campaign \<Rightarrow> exn + unit" where
  "campaign_full_clean env c =
     (case field_error env c of
        Some t \<Rightarrow> Inl (ValidationError t)
      | None \<Rightarrow> campaign_clean env c)"

section \<open>The snapshots\<close>

fun replace_crlf :: "str \<Rightarrow> str" where
  "replace_crlf (a # b # cs) =
     (if a = CHR 0x0D \<and> b = CHR 0x0A then CHR 0x0A # replace_crlf cs else a # replace_crlf (b # cs))"
| "replace_crlf cs = cs"

definition clean_prompt :: "str \<Rightarrow> str \<Rightarrow> nat \<Rightarrow> exn + str" where
  "clean_prompt value label max_length =
     (let prompt = py_strip (replace_crlf value)
      in if CHR 0x00 \<in> set prompt then Inl (ValidationError (label @ txt_prompt_char))
         else if max_length < length prompt
         then Inl (ValidationError (label @ txt_prompt_long @ digits_of max_length @ txt_characters))
         else Inr prompt)"

record runtime_prompts =
  rp_reply_prompt :: str
  rp_mode :: filter_mode
  rp_criteria :: str
  rp_revision :: nat

definition runtime_prompt_configuration :: "id \<Rightarrow> db \<Rightarrow> exn + runtime_prompts" where
  "runtime_prompt_configuration owner d =
     (let default = \<lparr>rp_reply_prompt = DEFAULT_AUTOMATIC_REPLY_PROMPT, rp_mode = FILTER_LENIENT,
                     rp_criteria = DEFAULT_RELEVANCE_CRITERIA, rp_revision = 0\<rparr>
      in case t_get u_id owner (memberships d) of
           None \<Rightarrow> Inr default
         | Some u \<Rightarrow>
             (case find (\<lambda>p. pc_workspace p = u_workspace u) (prompt_configurations (config d)) of
                None \<Rightarrow> Inr default
              | Some p \<Rightarrow>
                  bindE (clean_prompt (pc_reply_prompt p) txt_reply_instructions 4000) (\<lambda>reply.
                  bindE (clean_prompt (pc_criteria p) txt_audience_criteria 1200) (\<lambda>criteria.
                    Inr \<lparr>rp_reply_prompt = reply, rp_mode = pc_mode p, rp_criteria = criteria,
                         rp_revision = pc_revision p\<rparr>))))"

definition runtime_llm_choice :: "env \<Rightarrow> id \<Rightarrow> db \<Rightarrow> llm_choice" where
  "runtime_llm_choice env owner d =
     (case t_get u_id owner (memberships d) of
        None \<Rightarrow> llm_settings env
      | Some u \<Rightarrow> (case map_of (llm_choices (config d)) (u_workspace u) of
                     None \<Rightarrow> llm_settings env | Some l \<Rightarrow> l))"

definition llm_base_url :: "llm_choice \<Rightarrow> str \<Rightarrow> str" where
  "llm_base_url l provider =
     (let selected = (if provider \<noteq> [] then provider else ll_provider l)
      in if selected = ''ollama'' then ll_ollama_base_url l
         else if selected = ''openai-compatible'' then ll_openai_base_url l
         else [])"

definition relevance_connection :: "llm_choice \<Rightarrow> str \<times> str" where
  "relevance_connection l =
     (if ll_relevance_provider l = [] then (ll_provider l, llm_base_url l [])
      else (ll_relevance_provider l,
            if ll_relevance_base_url l \<noteq> [] then ll_relevance_base_url l
            else llm_base_url l (ll_relevance_provider l)))"

definition relevance_model :: "llm_choice \<Rightarrow> str" where
  "relevance_model l =
     (if ll_relevance_provider l = []
      then (if ll_relevance_model l \<noteq> [] then ll_relevance_model l else ll_model l)
      else ll_relevance_model l)"

definition mode_value :: "filter_mode \<Rightarrow> str" where
  "mode_value m = (case m of FILTER_OFF \<Rightarrow> ''OFF'' | FILTER_OBSERVE \<Rightarrow> ''OBSERVE''
                   | FILTER_LENIENT \<Rightarrow> ''LENIENT'' | FILTER_STRICT \<Rightarrow> ''STRICT'')"

definition prompt_snapshot :: "env \<Rightarrow> campaign \<Rightarrow> db \<Rightarrow> exn + json" where
  "prompt_snapshot env c d =
     bindE (runtime_prompt_configuration (c_created_by c) d) (\<lambda>p.
       let l = runtime_llm_choice env (c_created_by c) d;
           (provider, base_url) = relevance_connection l
       in Inr (JObj
            [(''version'', JStr ''fixed-campaign-message-v1''),
             (''schema_version'', JStr ''fixed-message-no-placeholders-v1''),
             (''initial_outreach'', JStr ''fixed-no-llm''),
             (''initial_outreach_llm_calls'', JInt 0),
             (''search_mode'', JStr ''structured-overture-rules-v1''),
             (''prospect_screening'', JObj
                [(''mode'', JStr (mode_value (rp_mode p))),
                 (''criteria'', JStr (rp_criteria p)),
                 (''criteria_sha256'', JStr (sha256_hex env (rp_criteria p))),
                 (''criteria_characters'', JInt (int (length (rp_criteria p)))),
                 (''provider'', JStr provider), (''base_url'', JStr base_url),
                 (''model'', JStr (relevance_model l)),
                 (''configuration_revision'', JInt (int (rp_revision p))),
                 (''schema_version'', JStr ''prospect-screening-v1'')])]))"

definition profile_snapshot :: "business_profile \<Rightarrow> json" where
  "profile_snapshot p =
     JObj [(''company_name'', JStr (bp_company_name p)), (''salesperson_name'', JStr (bp_salesperson_name p)),
           (''phone'', JStr (bp_phone p)), (''whatsapp'', JStr (bp_whatsapp p)),
           (''description'', JStr (bp_description p)), (''products'', JStr (bp_products p)),
           (''differentiators'', JStr (bp_differentiators p)), (''address'', JStr (bp_address p)),
           (''website'', JStr (bp_website p)), (''signature'', JStr (bp_signature p)),
           (''additional_instructions'', JStr (bp_instructions p)),
           (''relevance_threshold'', JInt (int (bp_threshold p))),
           (''profile_version'', JInt (int (bp_version p)))]"

definition iso_time :: "int \<Rightarrow> str" where
  "iso_time t =
     hour_minute t @ '':'' @ two_digits (t div second mod 60)
     @ (let us = t mod second
        in if us = 0 then [] else ''.'' @ tl (digits_of (nat (1000000 + us))))"

definition mode_text :: "delivery_mode \<Rightarrow> str" where
  "mode_text m = (case m of DRY_RUN \<Rightarrow> ''DRY_RUN'' | REVIEW_ONLY \<Rightarrow> ''REVIEW_ONLY'' | LIVE \<Rightarrow> ''LIVE'')"

definition coverages_of_campaign :: "id \<Rightarrow> db \<Rightarrow> coverage_selection list" where
  "coverages_of_campaign camp d =
     sort_key vs_sort_order (filter (\<lambda>v. vs_campaign v = camp) (coverage_selections (selections d)))"

definition settings_snapshot :: "env \<Rightarrow> campaign \<Rightarrow> nat \<Rightarrow> db \<Rightarrow> json" where
  "settings_snapshot env c catalog_version d =
     (let p = c_plan c;
          release = Option.bind (pl_overture_release p) (\<lambda>k. t_get or_id k (releases (config d)))
      in JObj
       [(''location_text'', JStr (pl_location_text p)), (''objective'', JInt (int (pl_objective p))),
        (''max_raw_records'', JInt (int (pl_max_raw_records p))),
        (''overture_min_confidence'', JStr (pl_min_confidence p)),
        (''daily_limit'', JInt (int (c_daily_limit c))),
        (''message_interval_minutes'', JInt (int (c_interval_minutes c))),
        (''weekdays'', JList (map JInt (c_weekdays c))),
        (''window_start'', JStr (iso_time (c_window_start c))),
        (''window_end'', JStr (iso_time (c_window_end c))),
        (''timezone_name'', JStr (c_timezone c)),
        (''relevance_threshold'', JInt (int (pl_relevance_threshold p))),
        (''extractor_provider'', JStr (pl_extractor p)),
        (''overture_snapshot_id'', JStr (case pl_overture_snapshot p of None \<Rightarrow> [] | Some k \<Rightarrow> str_of_pk k)),
        (''overture_release_id'', JStr (case release of None \<Rightarrow> [] | Some r \<Rightarrow> or_release_id r)),
        (''overture_coverages'', JList (map (\<lambda>v. JObj
           [(''partition_id'', JStr (str_of_pk (vs_partition v))),
            (''province_code'', JStr (vs_province_code v)), (''province_name'', JStr (vs_province_name v)),
            (''district_code'', JStr (vs_district_code v)), (''district_name'', JStr (vs_district_name v)),
            (''boundary_hash'', JStr (vs_hash v))]) (coverages_of_campaign (c_id c) d))),
        (''website_fetcher'', JStr (pl_website_fetcher p)), (''llm_provider'', JStr (pl_llm_provider p)),
        (''llm_base_url'', JStr (pl_llm_base_url p)), (''llm_model'', JStr (pl_llm_model p)),
        (''delivery_mode'', JStr (mode_text (c_delivery_mode c))),
        (''catalog_id'', JStr (str_of_pk (c_catalog c))),
        (''catalog_version'', JInt (int catalog_version)),
        (''runtime_send_mode'', JStr (send_mode_text env)),
        (''runtime_kill_switch'', JBool (send_kill_switch env))])"

section \<open>Refreshing a draft\<close>

definition categories_of_campaign :: "id \<Rightarrow> db \<Rightarrow> category_selection list" where
  "categories_of_campaign camp d =
     sort_key cs_sort_order (filter (\<lambda>s. cs_campaign s = camp) (category_selections (selections d)))"

definition zones_of_campaign :: "id \<Rightarrow> db \<Rightarrow> zone_selection list" where
  "zones_of_campaign camp d =
     sort_key zs_sort_order (filter (\<lambda>s. zs_campaign s = camp) (zone_selections (selections d)))"

definition usable_category :: "id \<Rightarrow> db \<Rightarrow> id \<Rightarrow> category option" where
  "usable_category ws d k =
     find (\<lambda>c. sc_id c = k \<and> sc_workspace c = ws \<and> sc_active c \<and> sc_archived_at c = None)
       (categories (config d))"

definition active_rules :: "id \<Rightarrow> db \<Rightarrow> (str \<times> str list) list" where
  "active_rules k d =
     map (\<lambda>r. (rl_taxonomy_code r, rl_name_terms r))
       (sort_key rl_sort_order (filter (\<lambda>r. rl_category r = k \<and> rl_active r) (category_rules (config d))))"

definition save_category_selection ::
    "id \<Rightarrow> (category_selection \<Rightarrow> category_selection) \<Rightarrow> db \<Rightarrow> db" where
  "save_category_selection k f d =
     d\<lparr>selections := (selections d)\<lparr>category_selections :=
         t_save cs_id k f (category_selections (selections d))\<rparr>\<rparr>"

definition refresh_draft_category_rules :: "campaign \<Rightarrow> db \<Rightarrow> exn + db" where
  "refresh_draft_category_rules c d =
     (let sels = categories_of_campaign (c_id c) d
      in if sels = [] then Inl (ValidationError txt_no_categories)
         else if list_ex (\<lambda>s. usable_category (c_workspace c) d (cs_category s) = None) sels
         then Inl (ValidationError txt_category_inactive)
         else if list_ex (\<lambda>s. active_rules (cs_category s) d = []) sels
         then Inl (ValidationError txt_category_rules)
         else Inr (fold (\<lambda>s. save_category_selection (cs_id s)
                   (\<lambda>r. r\<lparr>cs_rules := active_rules (cs_category s) d,
                          cs_revision := (case usable_category (c_workspace c) d (cs_category s) of
                                            None \<Rightarrow> cs_revision r | Some k \<Rightarrow> sc_rules_revision k)\<rparr>)) sels d))"

fun json_truthy :: "json \<Rightarrow> bool" where
  "json_truthy JNull = False"
| "json_truthy (JBool b) = b"
| "json_truthy (JInt n) = (n \<noteq> 0)"
| "json_truthy (JFloat t) = True"
| "json_truthy (JStr s) = (s \<noteq> [])"
| "json_truthy (JList xs) = (xs \<noteq> [])"
| "json_truthy (JObj kvs) = (kvs \<noteq> [])"

definition usable_zone :: "id \<Rightarrow> db \<Rightarrow> id \<Rightarrow> zone option" where
  "usable_zone ws d k =
     find (\<lambda>z. z_id z = k \<and> z_workspace z = ws \<and> z_active z \<and> z_archived_at z = None) (zones (config d))"

definition boundary_missing :: "zone_selection \<Rightarrow> bool" where
  "boundary_missing s \<longleftrightarrow> zs_hash s = [] \<or> \<not> json_truthy (zs_geojson s)"

definition backfill_boundary :: "env \<Rightarrow> id \<Rightarrow> zone_selection \<Rightarrow> db \<Rightarrow> exn + db" where
  "backfill_boundary env ws s d =
     bindE (of_option DoesNotExist (usable_zone ws d (zs_zone s))) (\<lambda>z.
       if \<not> json_truthy (z_geojson z) \<or> z_hash z = []
       then Inl (ValidationError (txt_upload_boundary @ z_name z @ txt_before_legacy))
       else case validated_geojson env (z_geojson z) of
              Inl t \<Rightarrow> Inl (ValidationError t)
            | Inr (geojson, bbox, digest) \<Rightarrow>
                if digest \<noteq> z_hash z \<or> bbox \<noteq> z_bbox z
                then Inl (ValidationError (txt_boundary_of @ z_name z @ txt_lost_integrity))
                else Inr (d\<lparr>selections := (selections d)\<lparr>zone_selections :=
                       t_save zs_id (zs_id s)
                         (\<lambda>r. r\<lparr>zs_geojson := geojson, zs_bbox := bbox, zs_hash := digest,
                                zs_revision := z_revision z\<rparr>)
                         (zone_selections (selections d))\<rparr>\<rparr>))"

definition refresh_missing_legacy_draft_boundaries :: "env \<Rightarrow> campaign \<Rightarrow> db \<Rightarrow> exn + db" where
  "refresh_missing_legacy_draft_boundaries env c d =
     (let sels = zones_of_campaign (c_id c) d; missing = filter boundary_missing sels
      in if sels = [] then Inl (ValidationError txt_no_zones)
         else if missing = [] then Inr d
         else if list_ex (\<lambda>s. usable_zone (c_workspace c) d (zs_zone s) = None) missing
         then Inl (ValidationError txt_legacy_zone)
         else bindE (foldE (backfill_boundary env (c_workspace c)) missing d) (\<lambda>d1.
           Inr (record_event ''campaign.legacy_boundaries_refreshed'' (c_id c) None d1)))"

section \<open>Coverage\<close>

definition human_join :: "str list \<Rightarrow> str" where
  "human_join values =
     (if length values < 2 then (case values of [] \<Rightarrow> [] | v # _ \<Rightarrow> v)
      else py_join '', '' (butlast values) @ '' y '' @ last values)"

definition zone_of_selection :: "zone_selection \<Rightarrow> db \<Rightarrow> zone option" where
  "zone_of_selection s d = t_get z_id (zs_zone s) (zones (config d))"

text \<open>\<open>province_names.setdefault(code, name)\<close> over the selected zones, in order.\<close>

fun province_names :: "zone list \<Rightarrow> (str \<times> str) list \<Rightarrow> exn + (str \<times> str) list" where
  "province_names [] acc = Inr acc"
| "province_names (z # zs) acc =
     (if z_province_code z = [] \<or> z_parent z = None
      then Inl (ValidationError (txt_the_zone @ z_name z @ txt_no_province))
      else province_names zs
             (if map_of acc (z_province_code z) = None then acc @ [(z_province_code z, z_province_name z)]
              else acc))"

definition ready_partition :: "db \<Rightarrow> str \<Rightarrow> partition option" where
  "ready_partition d code =
     find (\<lambda>p. pt_province_code p = code \<and> pt_status p = READY \<and> pt_active p) (partitions (config d))"

definition exact_zone_exists :: "partition \<Rightarrow> zone_selection \<Rightarrow> db \<Rightarrow> bool" where
  "exact_zone_exists p s d =
     list_ex (\<lambda>x. pz_partition x = pt_id p \<and> pz_boundary_hash x = zs_hash s
                \<and> (pz_search_zone x = Some (zs_zone s) \<or> pz_search_zone x = None))
       (partition_zones (config d))"

fun cover_zones ::
    "(zone_selection \<times> zone) list \<Rightarrow> db \<Rightarrow> (id \<times> partition) list \<Rightarrow> exn + (id \<times> partition) list" where
  "cover_zones [] d acc = Inr acc"
| "cover_zones ((s, z) # rest) d acc =
     (case ready_partition d (z_province_code z) of
        None \<Rightarrow> Inl DoesNotExist
      | Some p \<Rightarrow>
          if \<not> exact_zone_exists p s d
          then Inl (ValidationError (txt_the_data_of_cap @ z_province_name z @ txt_not_include @ z_name z
                      @ ''.'' @ txt_update_from))
          else cover_zones rest d (AList.update (z_id z) p acc))"

definition selected_zones :: "id \<Rightarrow> db \<Rightarrow> (zone_selection \<times> zone) list" where
  "selected_zones camp d =
     List.map_filter (\<lambda>s. map_option (\<lambda>z. (s, z)) (zone_of_selection s d)) (zones_of_campaign camp d)"

definition resolve_draft_coverages :: "campaign \<Rightarrow> db \<Rightarrow> exn + (id \<times> partition) list" where
  "resolve_draft_coverages c d =
     (let sels = selected_zones (c_id c) d in
      bindE (province_names (map snd sels) []) (\<lambda>names.
        let missing = filter (\<lambda>n. ready_partition d (fst n) = None) names;
            found = List.map_filter (ready_partition d \<circ> fst) names
        in if missing \<noteq> []
           then Inl (ValidationError (txt_missing
                  @ (if length missing = 1 then txt_the_data_of else txt_data_of) @ '' ''
                  @ human_join (map snd missing) @ ''.'' @ txt_update_from))
           else if card (pt_release ` set found) \<noteq> 1 then Inl (ValidationError txt_province_versions)
           else cover_zones sels d []))"

definition pinned_coverages :: "campaign \<Rightarrow> db \<Rightarrow> exn + (id \<times> partition) list" where
  "pinned_coverages c d =
     (let vs = coverages_of_campaign (c_id c) d;
          part = (\<lambda>v. t_get pt_id (vs_partition v) (partitions (config d)));
          unavailable = filter (\<lambda>v. map_option pt_status (part v) \<notin> {Some READY, Some SUPERSEDED}) vs
      in if vs = [] then Inl (ValidationError txt_no_coverage)
         else if card (vs_release ` set vs) \<noteq> 1 then Inl (ValidationError txt_incompatible_versions)
         else if unavailable \<noteq> []
         then Inl (ValidationError (txt_pinned_coverage
                @ human_join (dedup (map vs_province_name unavailable)) @ txt_not_available))
         else Inr (List.map_filter (\<lambda>v. case (vs_district v, part v) of
                     (Some z, Some p) \<Rightarrow> Some (z, p) | _ \<Rightarrow> None) vs))"

section \<open>\<open>_preflight\<close>\<close>

definition GMAIL_SCOPES :: "str list" where
  "GMAIL_SCOPES = [''https://www.googleapis.com/auth/gmail.send'',
                   ''https://www.googleapis.com/auth/gmail.readonly'']"

definition connection_is_ready :: "gmail_connection \<Rightarrow> bool" where
  "connection_is_ready g \<longleftrightarrow>
     g_status g = CONNECTED \<and> g_email g \<noteq> [] \<and> g_refresh_token g \<noteq> [] \<and> g_last_tested_at g \<noteq> None"

definition workspace_connection :: "id \<Rightarrow> db \<Rightarrow> gmail_connection option" where
  "workspace_connection ws d = find (\<lambda>g. g_workspace g = ws) (connections d)"

definition require_live_gmail :: "env \<Rightarrow> campaign \<Rightarrow> db \<Rightarrow> exn + unit" where
  "require_live_gmail env c d =
     (if c_delivery_mode c \<noteq> LIVE then Inr ()
      else if \<not> live_sending_allowed env d then Inl (ValidationError txt_live_blocked)
      else case workspace_connection (c_workspace c) d of
             None \<Rightarrow> Inl (ValidationError txt_gmail_needed)
           | Some g \<Rightarrow>
               if \<not> connection_is_ready g \<or> set (g_scopes g) \<noteq> set GMAIL_SCOPES
               then Inl (ValidationError txt_gmail_needed) else Inr ())"

definition profile_complete :: "business_profile \<Rightarrow> bool" where
  "profile_complete p \<longleftrightarrow>
     list_all (\<lambda>v. py_strip v \<noteq> [])
       [bp_company_name p, bp_salesperson_name p, bp_address p, bp_signature p]"

type_synonym preflight_result = "business_profile \<times> id option \<times> (id \<times> partition) list"

definition overture_preflight :: "campaign \<Rightarrow> db \<Rightarrow> exn + id option \<times> (id \<times> partition) list" where
  "overture_preflight c d =
     (if pl_extractor (c_plan c) \<noteq> ''overture'' then Inr (None, [])
      else
        bindE (if c_state c = C_DRAFT
               then bindE (resolve_draft_coverages c d) (\<lambda>cov.
                      Inr (map_option (pt_snapshot \<circ> snd) (case cov of [] \<Rightarrow> None | x # _ \<Rightarrow> Some x), cov))
               else bindE (pinned_coverages c d) (\<lambda>cov. Inr (pl_overture_snapshot (c_plan c), cov)))
          (\<lambda>(snap, cov).
             case snap of
               None \<Rightarrow> Inl (ValidationError txt_sync_overture)
             | Some k \<Rightarrow>
                 if c_state c \<noteq> C_DRAFT
                    \<and> map_option os_status (t_get os_id k (snapshots (config d))) \<notin> {Some READY, Some SUPERSEDED}
                 then Inl (ValidationError txt_overture_gone)
                 else Inr (snap, cov)))"

definition preflight :: "env \<Rightarrow> campaign \<Rightarrow> db \<Rightarrow> exn + preflight_result" where
  "preflight env c d =
     (case workspace_profile (c_workspace c) d of
        None \<Rightarrow> Inl (ValidationError txt_fill_profile)
      | Some profile \<Rightarrow>
          if \<not> profile_complete profile then Inl (ValidationError txt_profile_incomplete)
          else if categories_of_campaign (c_id c) d = [] \<or> zones_of_campaign (c_id c) d = []
          then Inl (ValidationError txt_categories_and_zones)
          else
            bindE (verified_campaign_attachments env (c_id c) d) (\<lambda>_.
            bindE (of_option DoesNotExist (t_get k_id (c_catalog c) (catalogs d))) (\<lambda>k.
              if k_workspace k \<noteq> c_workspace c then Inl (ValidationError txt_pdf_other_workspace)
              else
                bindE (campaign_full_clean env c) (\<lambda>_.
                bindE (overture_preflight c d) (\<lambda>(snap, cov).
                bindE (require_live_gmail env c d) (\<lambda>_.
                  Inr (profile, snap, cov)))))))"

section \<open>\<open>_freeze_draft\<close>\<close>

definition coverage_row ::
    "campaign \<Rightarrow> (id \<times> partition) list \<Rightarrow> db \<Rightarrow> nat \<times> zone_selection \<times> zone \<Rightarrow> exn + coverage_selection" where
  "coverage_row c cov d = (\<lambda>(order, s, z).
     bindE (of_option DoesNotExist (map_of cov (z_id z))) (\<lambda>p.
       let parent = Option.bind (z_parent z) (\<lambda>k. t_get z_id k (zones (config d)))
       in Inr \<lparr>vs_id = next_id d + order, vs_campaign = c_id c, vs_release = pt_release p,
               vs_partition = pt_id p, vs_province = z_parent z, vs_district = Some (z_id z),
               vs_province_code = z_province_code z, vs_province_name = z_province_name z,
               vs_district_code = z_official_code z, vs_district_name = zs_name s,
               vs_district_level = z_level z,
               vs_district_label = (case parent of Some q \<Rightarrow> z_label_plural q | None \<Rightarrow> z_label_plural z),
               vs_geojson = zs_geojson s, vs_bbox = zs_bbox s, vs_hash = zs_hash s,
               vs_revision = zs_revision s, vs_source = z_source z, vs_attribution = z_attribution z,
               vs_sort_order = order\<rparr>))"

fun mapE :: "('x \<Rightarrow> 'e + 'y) \<Rightarrow> 'x list \<Rightarrow> 'e + 'y list" where
  "mapE f [] = Inr []"
| "mapE f (x # xs) = bindE (f x) (\<lambda>y. bindE (mapE f xs) (\<lambda>ys. Inr (y # ys)))"

definition freeze_coverages ::
    "campaign \<Rightarrow> (id \<times> partition) list \<Rightarrow> db \<Rightarrow> exn + campaign \<times> db" where
  "freeze_coverages c cov d =
     (case cov of
        [] \<Rightarrow> Inr (c, d)
      | first # _ \<Rightarrow>
          if card ((pt_release \<circ> snd) ` set cov) \<noteq> 1 then Inl (ValidationError txt_mixed_versions)
          else
            bindE (mapE (coverage_row c cov d) (enumerate 0 (selected_zones (c_id c) d))) (\<lambda>rows.
              Inr (c\<lparr>c_plan := (c_plan c)\<lparr>pl_overture_release := Some (pt_release (snd first))\<rparr>\<rparr>,
                   d\<lparr>next_id := next_id d + length rows,
                     selections := (selections d)\<lparr>coverage_selections :=
                       coverage_selections (selections d) @ rows\<rparr>\<rparr>)))"

definition rules_json :: "(str \<times> str list) list \<Rightarrow> json" where
  "rules_json rs =
     JList (map (\<lambda>(code, terms). JObj [(''taxonomy_code'', JStr code),
                                      (''name_terms'', JList (map JStr terms))]) rs)"

definition query_criteria ::
    "db \<Rightarrow> campaign \<Rightarrow> id option \<Rightarrow> category_selection \<Rightarrow> zone_selection \<Rightarrow> coverage_selection option \<Rightarrow> json" where
  "query_criteria d c overture cat s cov =
     (let partition = Option.bind cov (\<lambda>v. t_get pt_id (vs_partition v) (partitions (config d)));
          snap = (case partition of Some p \<Rightarrow> Some (pt_snapshot p) | None \<Rightarrow> overture);
          row = Option.bind snap (\<lambda>k. t_get os_id k (snapshots (config d)))
      in JObj [(''category_rules'', rules_json (cs_rules cat)),
               (''rules_revision'', JInt (int (cs_revision cat))),
               (''zone_boundary_hash'', JStr (zs_hash s)), (''zone_bbox'', zs_bbox s),
               (''minimum_confidence'', JStr (pl_min_confidence (c_plan c))),
               (''snapshot_id'', json_pk snap), (''partition_id'', json_pk (map_option vs_partition cov)),
               (''release_id'', JStr (case row of None \<Rightarrow> ''fake'' | Some r \<Rightarrow> os_release_id r))])"

definition query_identity :: "category_selection \<Rightarrow> zone_selection \<Rightarrow> json \<Rightarrow> json" where
  "query_identity cat s criteria =
     JObj [(''category_selection_id'', JStr (str_of_pk (cs_id cat))),
           (''zone_selection_id'', JStr (str_of_pk (zs_id s))), (''criteria'', criteria)]"

definition search_query_of ::
    "env \<Rightarrow> db \<Rightarrow> campaign \<Rightarrow> id option \<Rightarrow> nat \<times> category_selection \<times> zone_selection \<Rightarrow> search_query" where
  "search_query_of env d c overture = (\<lambda>(order, cat, s).
     let cov = find (\<lambda>v. vs_district v = Some (zs_zone s)) (coverages_of_campaign (c_id c) d);
         criteria = query_criteria d c overture cat s cov
     in \<lparr>sq_campaign = c_id c, sq_coverage = map_option vs_id cov, sq_category_snapshot = cs_name cat,
         sq_zone_snapshot = zs_name s, sq_location_snapshot = zs_location s,
         sq_query_text = cs_name cat @ '' en '' @ zs_name s,
         sq_normalized_query = ''structured-overture-rules-v1:''
           @ sha256_hex env (json_dumps True (query_identity cat s criteria)),
         sq_criteria = criteria, sq_zone_boundary_hash = zs_hash s, sq_sort_order = order,
         sq_state = RUN_PENDING\<rparr>)"

definition create_queries :: "env \<Rightarrow> campaign \<Rightarrow> id option \<Rightarrow> db \<Rightarrow> exn + db" where
  "create_queries env c overture d =
     (let pairs = List.product (categories_of_campaign (c_id c) d) (zones_of_campaign (c_id c) d);
          rows = map (search_query_of env d c overture) (enumerate 0 pairs);
          all_rows = search_queries d @ rows
      in if \<not> distinct (map (\<lambda>q. (sq_campaign q, sq_normalized_query q)) all_rows) then Inl IntegrityError
         else Inr (d\<lparr>search_queries := all_rows\<rparr>))"

definition freeze_draft :: "env \<Rightarrow> campaign \<Rightarrow> preflight_result \<Rightarrow> db \<Rightarrow> exn + campaign \<times> db" where
  "freeze_draft env c = (\<lambda>(profile, overture, cov) d.
     bindE (freeze_coverages (c\<lparr>c_plan := (c_plan c)\<lparr>pl_overture_snapshot := overture\<rparr>\<rparr>) cov d) (\<lambda>(c1, d1).
     bindE (of_option DoesNotExist (t_get k_id (c_catalog c1) (catalogs d1))) (\<lambda>k.
     bindE (prompt_snapshot env c1 d1) (\<lambda>prompts.
       let c2 = c1\<lparr>c_plan := (c_plan c1)\<lparr>pl_settings_snapshot := settings_snapshot env c1 (k_version k) d1,
                   pl_profile_snapshot := profile_snapshot profile, pl_prompt_snapshot := prompts\<rparr>\<rparr>
       in bindE (create_queries env c2 overture d1) (\<lambda>d2. Inr (c2, d2))))))"

text \<open>Leaving for discovery or delivery: the preparation \<open>transition_campaign\<close> makes before the new state.\<close>

definition prepare_departure :: "env \<Rightarrow> campaign \<Rightarrow> db \<Rightarrow> exn + campaign \<times> db" where
  "prepare_departure env c d =
     (if c_state c = C_DRAFT
      then
        bindE (refresh_draft_category_rules c d) (\<lambda>d1.
        bindE (refresh_missing_legacy_draft_boundaries env c d1) (\<lambda>d2.
        bindE (preflight env c d2) (\<lambda>pre.
        bindE (freeze_campaign_content env c d2) (\<lambda>(c1, d3).
        bindE (freeze_draft env c1 pre d3) (\<lambda>(c2, d4).
          Inr (c2\<lparr>c_discovery := D_RUNNING, c_started_at := Some (clock env), c_status_reason := []\<rparr>, d4))))))
      else bindE (preflight env c d) (\<lambda>_. Inr (c\<lparr>c_status_reason := []\<rparr>, d)))"

end
