(* ===== verification/Lifecycle.thy ===== *)
theory Lifecycle
  imports Campaign_Start
begin

text \<open>
  The campaign's state machine: \<open>transition_campaign\<close>, \<open>resume_campaign\<close> and \<open>finish_discovery\<close>
  (\<open>campaigns/services.py\<close>). A target state is a \<open>campaign_state\<close>, so the test that it exists holds by
  typing. The callback \<open>finish_discovery\<close> leaves for after its commit is in the theory \<open>Approval\<close>.
\<close>

definition TERMINAL_STATES :: "campaign_state set" where
  "TERMINAL_STATES = {C_CANCELLED, C_COMPLETED, C_STOPPED_ERROR}"

definition TERMINAL_DISCOVERY_STATES :: "discovery_state set" where
  "TERMINAL_DISCOVERY_STATES =
     {D_TARGET_REACHED, D_EXHAUSTED_QUERIES, D_EXHAUSTED_RAW_LIMIT, D_EXHAUSTED_COST, D_FAILED_PROVIDER}"

fun ALLOWED_TRANSITIONS :: "campaign_state \<Rightarrow> campaign_state set" where
  "ALLOWED_TRANSITIONS C_DRAFT = {C_DISCOVERING, C_CANCELLED}"
| "ALLOWED_TRANSITIONS C_DISCOVERING = {C_AWAITING_APPROVAL, C_PAUSED, C_CANCELLED, C_STOPPED_ERROR}"
| "ALLOWED_TRANSITIONS C_AWAITING_APPROVAL = {C_RUNNING, C_CANCELLED}"
| "ALLOWED_TRANSITIONS C_RUNNING = {C_PAUSED, C_CANCELLED, C_COMPLETED, C_STOPPED_ERROR}"
| "ALLOWED_TRANSITIONS C_PAUSED = {C_DISCOVERING, C_RUNNING, C_CANCELLED}"
| "ALLOWED_TRANSITIONS C_CANCELLED = {}"
| "ALLOWED_TRANSITIONS C_COMPLETED = {}"
| "ALLOWED_TRANSITIONS C_STOPPED_ERROR = {}"

section \<open>What each target does before the state is saved\<close>

definition or_default :: "str \<Rightarrow> str \<Rightarrow> str" where
  "or_default reason text = (if reason \<noteq> [] then reason else text)"

definition pause_searches :: "env \<Rightarrow> id \<Rightarrow> db \<Rightarrow> db" where
  "pause_searches env camp d =
     d\<lparr>search_runs := t_update
         (\<lambda>r. sr_campaign r = camp \<and> sr_state r \<in> {RUN_PENDING, RUN_RUNNING, RUN_RETRY_WAIT})
         (\<lambda>r. r\<lparr>sr_state := RUN_RETRY_WAIT, sr_next_poll_at := Some (clock env)\<rparr>) (search_runs d),
       search_queries := t_update
         (\<lambda>q. sq_campaign q = camp \<and> sq_state q \<in> {RUN_RUNNING, RUN_RETRY_WAIT})
         (\<lambda>q. q\<lparr>sq_state := RUN_RETRY_WAIT\<rparr>) (search_queries d)\<rparr>"

definition cancel_searches :: "env \<Rightarrow> id \<Rightarrow> db \<Rightarrow> db" where
  "cancel_searches env camp d =
     d\<lparr>search_runs := t_update
         (\<lambda>r. sr_campaign r = camp \<and> sr_state r \<in> {RUN_PENDING, RUN_RUNNING, RUN_RETRY_WAIT})
         (\<lambda>r. r\<lparr>sr_state := RUN_CANCELLED, sr_finished_at := Some (clock env), sr_next_poll_at := None\<rparr>)
         (search_runs d),
       search_queries := t_update
         (\<lambda>q. sq_campaign q = camp \<and> sq_state q \<in> {RUN_PENDING, RUN_RUNNING, RUN_RETRY_WAIT})
         (\<lambda>q. q\<lparr>sq_state := RUN_CANCELLED\<rparr>) (search_queries d)\<rparr>"

text \<open>The bulk update of the pending messages leaves \<open>next_attempt_at\<close> and \<open>updated_at\<close> as they were.\<close>

definition cancel_campaign_messages :: "id \<Rightarrow> str \<Rightarrow> db \<Rightarrow> db" where
  "cancel_campaign_messages camp reason d =
     d\<lparr>messages := t_update (\<lambda>m. m_campaign m = Some camp \<and> m_state m \<in> cancellable)
         (\<lambda>m. m\<lparr>m_state := CANCELLED, m_error := reason\<rparr>) (messages d)\<rparr>"

definition transition_effect ::
    "env \<Rightarrow> campaign_state \<Rightarrow> str \<Rightarrow> campaign \<Rightarrow> db \<Rightarrow> exn + campaign \<times> db" where
  "transition_effect env target reason c d =
     (if target \<in> {C_DISCOVERING, C_RUNNING} then prepare_departure env c d
      else if target = C_PAUSED
      then Inr (c\<lparr>c_status_reason := or_default reason txt_paused_by_user\<rparr>, pause_searches env (c_id c) d)
      else if target = C_CANCELLED
      then
        let c1 = c\<lparr>c_status_reason := or_default reason txt_cancelled_by_user,
                   c_finished_at := Some (clock env)\<rparr>
        in Inr (c1, cancel_campaign_messages (c_id c) (c_status_reason c1) (cancel_searches env (c_id c) d))
      else if target = C_COMPLETED
      then if c_discovery c \<notin> TERMINAL_DISCOVERY_STATES
           then Inl (InvalidCampaignTransition txt_discovery_active)
           else Inr (c\<lparr>c_finished_at := Some (clock env)\<rparr>, d)
      else if target = C_STOPPED_ERROR
      then if py_strip reason = [] then Inl (InvalidCampaignTransition txt_error_reason)
           else Inr (c\<lparr>c_status_reason := py_strip reason, c_finished_at := Some (clock env)\<rparr>, d)
      else Inr (c, d))"

definition transition_campaign ::
    "env \<Rightarrow> id \<Rightarrow> campaign_state \<Rightarrow> id option \<Rightarrow> str \<Rightarrow> db \<Rightarrow> exn + campaign \<times> db" where
  "transition_campaign env camp target actor reason d =
     bindE (get_campaign camp d) (\<lambda>c.
       if target \<notin> ALLOWED_TRANSITIONS (c_state c) then Inl (ForbiddenTransition (c_state c) target)
       else
         bindE (require_if_actor d actor MANAGE_CAMPAIGNS (Some (c_workspace c))) (\<lambda>_.
           if target = C_RUNNING \<and> c_approved_at c = None
           then Inl (InvalidCampaignTransition txt_approve_first)
           else
             bindE (transition_effect env target reason c d) (\<lambda>(c1, d1).
               let c2 = c1\<lparr>c_state := target\<rparr>
               in bindE (save_campaign c2 (\<lambda>_. c2) d1) (\<lambda>d2.
                    Inr (c2, record_event ''campaign.transitioned'' camp actor d2)))))"

definition resume_campaign :: "env \<Rightarrow> id \<Rightarrow> id option \<Rightarrow> str \<Rightarrow> db \<Rightarrow> exn + campaign \<times> db" where
  "resume_campaign env camp actor reason d =
     bindE (get_campaign camp d) (\<lambda>c.
       if c_state c \<noteq> C_PAUSED then Inl (InvalidCampaignTransition txt_only_paused)
       else transition_campaign env camp
              (if c_approved_at c \<noteq> None then C_RUNNING else C_DISCOVERING) actor reason d)"

definition finish_discovery ::
    "env \<Rightarrow> id \<Rightarrow> discovery_state \<Rightarrow> str \<Rightarrow> id option \<Rightarrow> db \<Rightarrow> exn + campaign \<times> db" where
  "finish_discovery env camp target reason actor d =
     bindE (get_campaign camp d) (\<lambda>c.
     bindE (require_if_actor d actor MANAGE_CAMPAIGNS (Some (c_workspace c))) (\<lambda>_.
       if c_state c \<notin> {C_DISCOVERING, C_RUNNING}
       then Inl (InvalidCampaignTransition txt_discovery_campaign)
       else if c_discovery c \<noteq> D_RUNNING then Inl (InvalidCampaignTransition txt_discovery_over)
       else if target \<notin> TERMINAL_DISCOVERY_STATES
       then Inl (InvalidCampaignTransition txt_discovery_target)
       else if py_strip reason = [] then Inl (InvalidCampaignTransition txt_discovery_reason)
       else
         let c1 = c\<lparr>c_discovery := target, c_discovery_stop_reason := py_strip reason\<rparr>
         in bindE (save_campaign c1
                     (\<lambda>r. r\<lparr>c_discovery := target, c_discovery_stop_reason := py_strip reason\<rparr>) d) (\<lambda>d1.
              Inr (c1, record_event ''campaign.discovery_finished'' camp actor d1))))"

section \<open>Lemmas: how a transition changes the campaigns\<close>

lemma get_campaign_Inr [res_simps]: "get_campaign k d = Inr c \<longleftrightarrow> t_get c_id k (campaigns d) = Some c"
  by (simp add: get_campaign_def res_simps)

lemma get_message_Inr [res_simps]: "get_message k d = Inr m \<longleftrightarrow> t_get m_id k (messages d) = Some m"
  by (simp add: get_message_def res_simps)

lemma save_campaign_Inr:
  "save_campaign c f d = Inr d' \<longleftrightarrow>
     (\<exists>p. t_get c_id (c_id c) (campaigns d) = Some p
        \<and> (c_state p = C_DRAFT \<or> immutable_part p = immutable_part c)
        \<and> d' = d\<lparr>campaigns := t_save c_id (c_id c) f (campaigns d)\<rparr>)"
  by (cases "t_get c_id (c_id c) (campaigns d)") (auto simp: save_campaign_def get_campaign_def)

text \<open>What the preparation for a departure changes of the database: never a message or a campaign row.\<close>

definition keeps_rows :: "db \<Rightarrow> db \<Rightarrow> bool" where
  "keeps_rows d d' \<longleftrightarrow> messages d' = messages d \<and> campaigns d' = campaigns d
     \<and> reservations d' = reservations d \<and> ledgers d' = ledgers d \<and> next_id d \<le> next_id d'"

lemma keeps_rows_refl [simp]: "keeps_rows d d"
  by (simp add: keeps_rows_def)

lemma keeps_rows_trans: "keeps_rows a b \<Longrightarrow> keeps_rows b c \<Longrightarrow> keeps_rows a c"
  by (simp add: keeps_rows_def)

lemma keeps_rows_fresh [simp]: "keeps_rows d (snd (fresh d))"
  by (simp add: keeps_rows_def fresh_def)

lemma keeps_rows_event [simp]: "keeps_rows d (record_event a e u d)"
  by (simp add: keeps_rows_def)

lemma keeps_rows_template: "keeps_rows d (snd (ensure_template env ws kind d))"
  by (auto simp: ensure_template_def add_template_def keeps_rows_def fresh_def Let_def
      split: option.splits prod.splits)

lemma keeps_rows_templates: "keeps_rows d (snd (ensure_default_message_templates env ws d))"
  unfolding ensure_default_message_templates_def
  using keeps_rows_template [of _ env ws] by (simp add: split_beta Let_def) (metis keeps_rows_trans)

lemma freeze_campaign_content_Inr:
  assumes "freeze_campaign_content env c d = Inr (c', d')"
  shows "keeps_rows d d' \<and> c_id c' = c_id c \<and> c_state c' = c_state c \<and> c_approved_at c' = c_approved_at c
    \<and> c_approved_by c' = c_approved_by c \<and> c_workspace c' = c_workspace c"
  using assms keeps_rows_templates [of d env "c_workspace c"]
  by (auto simp: freeze_campaign_content_def Let_def split_beta res_simps)

lemma keeps_rows_category: "keeps_rows d (save_category_selection k f d)"
  by (simp add: save_category_selection_def keeps_rows_def)

lemma keeps_rows_categories:
  "keeps_rows d (fold (\<lambda>s. save_category_selection (g s) (h s)) ss d)"
proof (induction ss arbitrary: d)
  case (Cons s ss)
  show ?case using keeps_rows_trans [OF keeps_rows_category Cons.IH] by simp
qed simp

lemma refresh_categories_Inr: "refresh_draft_category_rules c d = Inr d' \<Longrightarrow> keeps_rows d d'"
  unfolding refresh_draft_category_rules_def Let_def
  by (auto split: if_splits intro: keeps_rows_categories)

lemma backfill_Inr: "backfill_boundary env ws s d = Inr d' \<Longrightarrow> keeps_rows d d'"
  by (auto simp: backfill_boundary_def res_simps keeps_rows_def split: if_splits sum.splits)

lemma backfill_all_Inr:
  assumes "foldE (backfill_boundary env ws) ss d = Inr d'"
  shows "keeps_rows d d'"
  by (rule foldE_invariant [OF assms]) (auto dest!: backfill_Inr elim: keeps_rows_trans)

lemma refresh_boundaries_Inr:
  assumes "refresh_missing_legacy_draft_boundaries env c d = Inr d'"
  shows "keeps_rows d d'"
  using assms unfolding refresh_missing_legacy_draft_boundaries_def Let_def
  by (auto simp: res_simps split: if_splits dest!: backfill_all_Inr intro: keeps_rows_trans)

lemma freeze_coverages_Inr:
  assumes "freeze_coverages c cov d = Inr (c', d')"
  shows "keeps_rows d d' \<and> c_id c' = c_id c \<and> c_state c' = c_state c \<and> c_approved_at c' = c_approved_at c
    \<and> c_approved_by c' = c_approved_by c \<and> c_workspace c' = c_workspace c"
  using assms by (auto simp: freeze_coverages_def res_simps keeps_rows_def split: list.splits if_splits)

lemma create_queries_Inr: "create_queries env c o1 d = Inr d' \<Longrightarrow> keeps_rows d d'"
  by (auto simp: create_queries_def Let_def keeps_rows_def split: if_splits)

lemma freeze_draft_Inr:
  assumes "freeze_draft env c pre d = Inr (c', d')"
  shows "keeps_rows d d' \<and> c_id c' = c_id c \<and> c_state c' = c_state c \<and> c_approved_at c' = c_approved_at c
    \<and> c_approved_by c' = c_approved_by c \<and> c_workspace c' = c_workspace c"
proof -
  obtain profile overture cov where pre: "pre = (profile, overture, cov)" by (cases pre) auto
  obtain c1 d1 c2 where
    a: "freeze_coverages (c\<lparr>c_plan := (c_plan c)\<lparr>pl_overture_snapshot := overture\<rparr>\<rparr>) cov d = Inr (c1, d1)"
    and b: "create_queries env c2 overture d1 = Inr d'"
    and c: "c' = c2" "c_id c2 = c_id c1" "c_state c2 = c_state c1" "c_approved_at c2 = c_approved_at c1"
      "c_approved_by c2 = c_approved_by c1" "c_workspace c2 = c_workspace c1"
    using assms unfolding freeze_draft_def pre by (auto simp: bindE_eq_Inr Let_def)
  show ?thesis using freeze_coverages_Inr [OF a] create_queries_Inr [OF b] c by (auto elim: keeps_rows_trans)
qed

lemma prepare_departure_Inr:
  assumes "prepare_departure env c d = Inr (c', d')"
  shows "keeps_rows d d' \<and> c_id c' = c_id c \<and> c_state c' = c_state c \<and> c_approved_at c' = c_approved_at c
    \<and> c_approved_by c' = c_approved_by c \<and> c_workspace c' = c_workspace c"
proof (cases "c_state c = C_DRAFT")
  case True
  obtain d1 d2 pre c1 d3 c2 where
    s: "refresh_draft_category_rules c d = Inr d1"
      "refresh_missing_legacy_draft_boundaries env c d1 = Inr d2"
      "freeze_campaign_content env c d2 = Inr (c1, d3)" "freeze_draft env c1 pre d3 = Inr (c2, d')"
    and c': "c' = c2\<lparr>c_discovery := D_RUNNING, c_started_at := Some (clock env), c_status_reason := []\<rparr>"
    using assms True unfolding prepare_departure_def by (auto simp: bindE_eq_Inr)
  show ?thesis
    using refresh_categories_Inr [OF s(1)] refresh_boundaries_Inr [OF s(2)]
      freeze_campaign_content_Inr [OF s(3)] freeze_draft_Inr [OF s(4)] c'
    by simp (meson keeps_rows_trans)
next
  case False
  then show ?thesis using assms by (auto simp: prepare_departure_def res_simps)
qed

lemma transition_effect_Inr:
  assumes "transition_effect env target reason c d = Inr (c', d')"
  shows "campaigns d' = campaigns d \<and> c_id c' = c_id c \<and> c_approved_at c' = c_approved_at c
    \<and> c_approved_by c' = c_approved_by c \<and> c_workspace c' = c_workspace c \<and> c_state c' = c_state c
    \<and> reservations d' = reservations d \<and> ledgers d' = ledgers d \<and> next_id d \<le> next_id d'
    \<and> messages d' = (if target = C_CANCELLED
                     then messages (cancel_campaign_messages (c_id c) (or_default reason txt_cancelled_by_user) d)
                     else messages d)"
proof (cases "target \<in> {C_DISCOVERING, C_RUNNING}")
  case True
  then have "prepare_departure env c d = Inr (c', d')" using assms by (simp add: transition_effect_def)
  then show ?thesis using prepare_departure_Inr True by (auto simp: keeps_rows_def)
next
  case False
  then show ?thesis
    using assms
    by (cases target) (auto simp: transition_effect_def Let_def pause_searches_def cancel_searches_def
        cancel_campaign_messages_def split: if_splits)
qed

definition cancelled_messages :: "id \<Rightarrow> str \<Rightarrow> message list \<Rightarrow> message list" where
  "cancelled_messages camp reason t =
     t_update (\<lambda>m. m_campaign m = Some camp \<and> m_state m \<in> cancellable)
       (\<lambda>m. m\<lparr>m_state := CANCELLED, m_error := reason\<rparr>) t"

lemma messages_cancel_campaign [simp]:
  "messages (cancel_campaign_messages camp reason d) = cancelled_messages camp reason (messages d)"
  by (simp add: cancel_campaign_messages_def cancelled_messages_def)

text \<open>Everything a successful transition did.\<close>

lemma transition_Inr:
  assumes "transition_campaign env camp target actor reason d = Inr (c', d')"
  obtains c where "t_get c_id camp (campaigns d) = Some c" "target \<in> ALLOWED_TRANSITIONS (c_state c)"
    "target = C_RUNNING \<Longrightarrow> c_approved_at c \<noteq> None"
    "require_if_actor d actor MANAGE_CAMPAIGNS (Some (c_workspace c)) = Inr ()"
    "c_state c' = target" "c_id c' = camp" "c_approved_at c' = c_approved_at c"
    "c_approved_by c' = c_approved_by c" "c_workspace c' = c_workspace c"
    "campaigns d' = t_save c_id camp (\<lambda>_. c') (campaigns d)"
    "reservations d' = reservations d" "ledgers d' = ledgers d" "next_id d \<le> next_id d'"
    "messages d' = (if target = C_CANCELLED
        then cancelled_messages camp (or_default reason txt_cancelled_by_user) (messages d) else messages d)"
    "c_state c = C_DRAFT \<or> immutable_part c' = immutable_part c"
proof -
  obtain c c1 d1 d2 where
    c: "t_get c_id camp (campaigns d) = Some c" "target \<in> ALLOWED_TRANSITIONS (c_state c)"
      "require_if_actor d actor MANAGE_CAMPAIGNS (Some (c_workspace c)) = Inr ()"
      "target = C_RUNNING \<Longrightarrow> c_approved_at c \<noteq> None"
    and e: "transition_effect env target reason c d = Inr (c1, d1)"
    and sv: "save_campaign c' (\<lambda>_. c') d1 = Inr d2" and c': "c' = c1\<lparr>c_state := target\<rparr>"
    and d': "d' = record_event ''campaign.transitioned'' camp actor d2"
    using assms unfolding transition_campaign_def
    by (auto simp: bindE_eq_Inr get_campaign_Inr Let_def split: if_splits)
  note E = transition_effect_Inr [OF e]
  have k: "c_id c = camp" using c(1) by (rule t_get_key)
  from sv obtain p where p: "t_get c_id (c_id c') (campaigns d1) = Some p"
    "c_state p = C_DRAFT \<or> immutable_part p = immutable_part c'"
    "d2 = d1\<lparr>campaigns := t_save c_id (c_id c') (\<lambda>_. c') (campaigns d1)\<rparr>"
    unfolding save_campaign_Inr by blast
  have "p = c" using p(1) c(1) E k c' by simp
  then show thesis
    using that [OF c(1,2) c(4) c(3)] E p k c' d' by auto
qed

text \<open>Pausing a running campaign without an actor always succeeds, and only the campaign changes state.\<close>

lemma pause_running:
  assumes "t_get c_id camp (campaigns d) = Some c" "c_state c = C_RUNNING"
  shows "transition_campaign env camp C_PAUSED None reason d =
    (let c2 = c\<lparr>c_status_reason := or_default reason txt_paused_by_user, c_state := C_PAUSED\<rparr>
     in Inr (c2, record_event ''campaign.transitioned'' camp None
          ((pause_searches env camp d)\<lparr>campaigns := t_save c_id camp (\<lambda>_. c2) (campaigns d)\<rparr>)))"
  using assms t_get_key [OF assms(1)]
  by (simp add: transition_campaign_def get_campaign_def require_if_actor_def transition_effect_def
      save_campaign_def pause_searches_def immutable_part_def Let_def)

section \<open>Invariants of the state machine\<close>

definition campaign_keys_ok :: "db \<Rightarrow> bool" where
  "campaign_keys_ok d \<longleftrightarrow> distinct (map c_id (campaigns d))"

text \<open>Only an approved campaign runs.\<close>

definition running_approved :: "db \<Rightarrow> bool" where
  "running_approved d \<longleftrightarrow> (\<forall>c \<in> set (campaigns d). c_state c = C_RUNNING \<longrightarrow> c_approved_at c \<noteq> None)"

lemma t_save_const_cases:
  assumes "r \<in> set (t_save key k (\<lambda>_. x) t)"
  shows "r = x \<or> r \<in> set t"
  using assms by (cases rule: t_saveE) auto

lemma transition_running_approved:
  assumes "transition_campaign env camp target actor reason d = Inr (c', d')" "running_approved d"
  shows "running_approved d'"
  using assms(1)
proof (rule transition_Inr)
  fix c
  assume c: "target = C_RUNNING \<Longrightarrow> c_approved_at c \<noteq> None" "c_state c' = target"
    "c_approved_at c' = c_approved_at c" "campaigns d' = t_save c_id camp (\<lambda>_. c') (campaigns d)"
  show ?thesis
    unfolding running_approved_def c(4)
    using assms(2) c(1-3) by (auto simp: running_approved_def dest!: t_save_const_cases)
qed

lemma finish_discovery_Inr:
  assumes "finish_discovery env camp target reason actor d = Inr (c', d')"
  obtains c where "t_get c_id camp (campaigns d) = Some c" "c_state c \<in> {C_DISCOVERING, C_RUNNING}"
    "c_discovery c = D_RUNNING" "target \<in> TERMINAL_DISCOVERY_STATES" "py_strip reason \<noteq> []"
    "c' = c\<lparr>c_discovery := target, c_discovery_stop_reason := py_strip reason\<rparr>"
    "campaigns d' = t_save c_id camp
       (\<lambda>r. r\<lparr>c_discovery := target, c_discovery_stop_reason := py_strip reason\<rparr>) (campaigns d)"
    "messages d' = messages d"
proof -
  obtain c d1 where
    c: "t_get c_id camp (campaigns d) = Some c" "c_state c \<in> {C_DISCOVERING, C_RUNNING}"
      "c_discovery c = D_RUNNING" "target \<in> TERMINAL_DISCOVERY_STATES" "py_strip reason \<noteq> []"
      "c' = c\<lparr>c_discovery := target, c_discovery_stop_reason := py_strip reason\<rparr>"
    and sv: "save_campaign c' (\<lambda>r. r\<lparr>c_discovery := target, c_discovery_stop_reason := py_strip reason\<rparr>) d = Inr d1"
    and d': "d' = record_event ''campaign.discovery_finished'' camp actor d1"
    using assms unfolding finish_discovery_def
    by (auto simp: bindE_eq_Inr get_campaign_Inr Let_def split: if_splits)
  have "c_id c' = camp" using c(6) t_get_key [OF c(1)] by simp
  then show thesis using that [OF c] sv d' by (auto simp: save_campaign_Inr)
qed

lemma finish_running_approved:
  assumes "finish_discovery env camp target reason actor d = Inr (c', d')" "running_approved d"
  shows "running_approved d'"
  using assms(1)
proof (rule finish_discovery_Inr)
  fix c
  assume "campaigns d' = t_save c_id camp
       (\<lambda>r. r\<lparr>c_discovery := target, c_discovery_stop_reason := py_strip reason\<rparr>) (campaigns d)"
  then show ?thesis
    using assms(2) by (auto simp: running_approved_def elim!: t_saveE)
qed

text \<open>The abstract state machine: the edges of the table, with the guard of \<open>C_RUNNING\<close>.\<close>

inductive campaign_edge :: "campaign_state \<times> bool \<Rightarrow> campaign_state \<times> bool \<Rightarrow> bool" where
  edge: "t \<in> ALLOWED_TRANSITIONS s \<Longrightarrow> (t = C_RUNNING \<Longrightarrow> approved) \<Longrightarrow> campaign_edge (s, approved) (t, approved)"
| approve: "campaign_edge (C_AWAITING_APPROVAL, a) (C_RUNNING, True)"

inductive_cases campaign_edgeE: "campaign_edge (s, a) (t, b)"

lemma edge_terminal: "campaign_edge (s, a) x \<Longrightarrow> s \<notin> TERMINAL_STATES"
  by (auto simp: TERMINAL_STATES_def elim: campaign_edge.cases)

lemma edges_terminal:
  "campaign_edge\<^sup>*\<^sup>* (s, a) (t, b) \<Longrightarrow> s \<in> TERMINAL_STATES \<Longrightarrow> t = s \<and> b = a"
  by (erule converse_rtranclpE) (auto dest: edge_terminal)

lemma edges_running:
  assumes "campaign_edge\<^sup>*\<^sup>* (C_DRAFT, False) (t, b)"
  shows "t = C_RUNNING \<longrightarrow> b"
proof -
  have "case x of (t, b) \<Rightarrow> t = C_RUNNING \<longrightarrow> b" if "campaign_edge\<^sup>*\<^sup>* (C_DRAFT, False) x" for x
    using that by (induction rule: rtranclp_induct) (auto elim!: campaign_edge.cases)
  then show ?thesis using assms by auto
qed

lemma transition_refines_edge:
  assumes "transition_campaign env camp target actor reason d = Inr (c', d')"
  obtains c where "t_get c_id camp (campaigns d) = Some c"
    "campaign_edge (c_state c, c_approved_at c \<noteq> None) (c_state c', c_approved_at c' \<noteq> None)"
  using assms by (rule transition_Inr) (metis campaign_edge.edge)

end
