(* ===== verification/Guards.thy ===== *)
theory Guards
  imports Lifecycle
begin

text \<open>
  What limits the sending of a campaign (\<open>campaigns/delivery.py\<close>): the daily limit, the interval, the
  ledger that gives one first contact per address at a time, and the reservation that gives one campaign
  mail per address and Buenos Aires day. The last two share an interface, the locale \<open>delivery_guard\<close>.
  A Python message object is the \<open>message\<close> argument; the row of the database may already differ from it.
\<close>

section \<open>Daily limit and interval\<close>

definition in_flight :: "message_state set" where
  "in_flight = {SENDING, RECONCILING, SENT}"

definition counts_for :: "id \<Rightarrow> message \<Rightarrow> bool" where
  "counts_for camp m \<longleftrightarrow>
     m_campaign m = Some camp \<and> m_delivery_mode m = LIVE \<and> m_delivery_reserved_at m \<noteq> None
     \<and> m_state m \<in> in_flight"

definition reserved_between :: "instant \<Rightarrow> instant \<Rightarrow> message \<Rightarrow> bool" where
  "reserved_between a b m \<longleftrightarrow>
     (case m_delivery_reserved_at m of None \<Rightarrow> False | Some t \<Rightarrow> a \<le> t \<and> t < b)"

definition daily_slot_available :: "env \<Rightarrow> campaign \<Rightarrow> instant \<Rightarrow> db \<Rightarrow> bool" where
  "daily_slot_available env c now d =
     (let (a, b) = local_day_bounds env c now
      in length (filter (\<lambda>m. counts_for (c_id c) m \<and> reserved_between a b m) (messages d)) < c_daily_limit c)"

definition latest_reservation :: "id \<Rightarrow> db \<Rightarrow> instant option" where
  "latest_reservation camp d =
     (let ts = List.map_filter m_delivery_reserved_at (filter (counts_for camp) (messages d))
      in if ts = [] then None else Some (Max (set ts)))"

definition interval_elapsed :: "campaign \<Rightarrow> instant \<Rightarrow> db \<Rightarrow> bool" where
  "interval_elapsed c now d =
     (case latest_reservation (c_id c) d of
        None \<Rightarrow> True
      | Some latest \<Rightarrow> latest + int (c_interval_minutes c) * minute \<le> now)"

section \<open>The contact ledger\<close>

definition find_ledger :: "str \<Rightarrow> db \<Rightarrow> ledger option" where
  "find_ledger email d = find (\<lambda>l. l_email l = email) (ledgers d)"

definition get_or_create_ledger :: "str \<Rightarrow> db \<Rightarrow> ledger \<times> db" where
  "get_or_create_ledger email d =
     (case find_ledger email d of
        Some l \<Rightarrow> (l, d)
      | None \<Rightarrow>
          let (k, d1) = fresh d;
              l = \<lparr>l_id = k, l_email = email, l_reserved_message = None, l_reserved_at = None,
                   l_last_sent_message = None, l_last_sent_at = None, l_next_sequence = 1\<rparr>
          in (l, d1\<lparr>ledgers := ledgers d1 @ [l]\<rparr>))"

definition save_ledger :: "str \<Rightarrow> (ledger \<Rightarrow> ledger) \<Rightarrow> db \<Rightarrow> db" where
  "save_ledger email f d = d\<lparr>ledgers := t_update (\<lambda>l. l_email l = email) f (ledgers d)\<rparr>"

definition ledger_busy :: "ledger \<Rightarrow> message \<Rightarrow> db \<Rightarrow> exn + bool" where
  "ledger_busy l m d =
     (case l_reserved_message l of
        None \<Rightarrow> Inr False
      | Some k \<Rightarrow>
          if k = m_id m then Inr False
          else bindE (get_message k d) (\<lambda>other. Inr (m_state other \<in> {SENDING, RECONCILING})))"

definition reserve_ledger :: "message \<Rightarrow> instant \<Rightarrow> db \<Rightarrow> exn + message \<times> db" where
  "reserve_ledger m now d =
     (let (l, d1) = get_or_create_ledger (m_recipient_normalized m) d
      in bindE (ledger_busy l m d1) (\<lambda>busy.
           if busy then Inl (ValidationError txt_ledger_taken)
           else Inr (m\<lparr>m_contact_sequence := Some (l_next_sequence l)\<rparr>,
                     save_ledger (m_recipient_normalized m)
                       (\<lambda>r. r\<lparr>l_reserved_message := Some (m_id m), l_reserved_at := Some now\<rparr>) d1)))"

definition release_ledger :: "message \<Rightarrow> db \<Rightarrow> db" where
  "release_ledger m d =
     (case find_ledger (m_recipient_normalized m) d of
        None \<Rightarrow> d
      | Some l \<Rightarrow>
          if l_reserved_message l = Some (m_id m)
          then save_ledger (m_recipient_normalized m)
                 (\<lambda>r. r\<lparr>l_reserved_message := None, l_reserved_at := None\<rparr>) d
          else d)"

section \<open>One campaign mail per address and day\<close>

definition reservation_of :: "id \<Rightarrow> db \<Rightarrow> reservation option" where
  "reservation_of msg d = find (\<lambda>v. v_message v = msg) (reservations d)"

text \<open>The partial unique constraint \<open>workspace_email_campaign_day_unique\<close>, for a row other than \<open>own\<close>.\<close>

definition day_taken :: "id \<Rightarrow> str \<Rightarrow> day \<Rightarrow> id option \<Rightarrow> db \<Rightarrow> bool" where
  "day_taken ws email day own d =
     list_ex (\<lambda>v. v_workspace v = ws \<and> v_normalized_email v = email \<and> v_local_date v = day
                \<and> v_status v \<noteq> RELEASED \<and> own \<noteq> Some (v_id v)) (reservations d)"

definition save_reservation :: "id \<Rightarrow> (reservation \<Rightarrow> reservation) \<Rightarrow> db \<Rightarrow> db" where
  "save_reservation k f d = d\<lparr>reservations := t_save v_id k f (reservations d)\<rparr>"

definition reserve_campaign_delivery_day ::
    "env \<Rightarrow> message \<Rightarrow> campaign \<Rightarrow> instant \<Rightarrow> db \<Rightarrow> bool \<times> db" where
  "reserve_campaign_delivery_day env m c now d =
     (let target = reservation_local_date env now; ws = c_workspace c; email = m_recipient_normalized m
      in case reservation_of (m_id m) d of
           None \<Rightarrow>
             if day_taken ws email target None d then (False, d)
             else
               let (k, d1) = fresh d
               in (True, d1\<lparr>reservations := reservations d1 @
                     [\<lparr>v_id = k, v_workspace = ws, v_campaign = c_id c, v_message = m_id m,
                       v_email_address = m_email_address m, v_normalized_email = email,
                       v_local_date = target, v_status = RESERVED, v_consumed_at = None,
                       v_released_at = None\<rparr>]\<rparr>)
         | Some v \<Rightarrow>
             if v_status v = CONSUMED then (False, d)
             else if day_taken ws email target (Some (v_id v)) d then (False, d)
             else (True, save_reservation (v_id v)
                    (\<lambda>r. r\<lparr>v_workspace := ws, v_campaign := c_id c, v_email_address := m_email_address m,
                           v_normalized_email := email, v_local_date := target, v_status := RESERVED,
                           v_consumed_at := None, v_released_at := None\<rparr>) d))"

definition release_campaign_delivery_day :: "message \<Rightarrow> instant \<Rightarrow> db \<Rightarrow> db" where
  "release_campaign_delivery_day m moment d =
     (case reservation_of (m_id m) d of
        None \<Rightarrow> d
      | Some v \<Rightarrow>
          if v_status v \<noteq> RESERVED then d
          else save_reservation (v_id v) (\<lambda>r. r\<lparr>v_status := RELEASED, v_released_at := Some moment\<rparr>) d)"

text \<open>A released day that another mail took meanwhile cannot be consumed: the constraint rejects the row.\<close>

definition consume_campaign_delivery_day :: "message \<Rightarrow> instant \<Rightarrow> db \<Rightarrow> exn + db" where
  "consume_campaign_delivery_day m now d =
     (case reservation_of (m_id m) d of
        None \<Rightarrow> Inr d
      | Some v \<Rightarrow>
          if day_taken (v_workspace v) (v_normalized_email v) (v_local_date v) (Some (v_id v)) d
          then Inl IntegrityError
          else Inr (save_reservation (v_id v)
                 (\<lambda>r. r\<lparr>v_status := CONSUMED, v_consumed_at := Some now, v_released_at := None\<rparr>) d))"

definition SAME_DAY_RESERVATION_KINDS :: "message_kind set" where
  "SAME_DAY_RESERVATION_KINDS = {INITIAL, CAMPAIGN_REMINDER}"

definition release_delivery_guard :: "message \<Rightarrow> instant \<Rightarrow> db \<Rightarrow> db" where
  "release_delivery_guard m moment d =
     (if m_kind m = FIRST_CONTACT then release_ledger m d
      else if m_kind m \<in> SAME_DAY_RESERVATION_KINDS then release_campaign_delivery_day m moment d
      else d)"

definition reschedule_same_day_conflict ::
    "env \<Rightarrow> message \<Rightarrow> campaign \<Rightarrow> instant \<Rightarrow> db \<Rightarrow> exn + db" where
  "reschedule_same_day_conflict env m c now d =
     bindE (next_permitted_sending_day env c now) (\<lambda>next_window.
       Inr (record_event ''message.same_day_rescheduled'' (m_id m) None
         (save_message env (m_id m)
           (\<lambda>r. r\<lparr>m_state := QUEUED, m_next_attempt_at := Some next_window,
                  m_scheduled_for := Some next_window, m_delivery_reserved_at := None,
                  m_sending_started_at := None, m_error := txt_same_day\<rparr>) d)))"

section \<open>The interface of the two guards\<close>

text \<open>
  A guard hands out slots: \<open>holds d k a\<close> says that message \<open>a\<close> has the slot \<open>k\<close>. A slot has one holder,
  taking one makes the message its holder, and giving one back touches no other message.
\<close>

locale delivery_guard =
  fixes ok :: "db \<Rightarrow> bool"
    and holds :: "db \<Rightarrow> 'k \<Rightarrow> id \<Rightarrow> bool"
    and take_slot :: "message \<Rightarrow> instant \<Rightarrow> db \<Rightarrow> db option"
    and slot_of :: "message \<Rightarrow> instant \<Rightarrow> 'k"
    and give_back :: "message \<Rightarrow> instant \<Rightarrow> db \<Rightarrow> db"
  assumes exclusive: "ok d \<Longrightarrow> holds d k a \<Longrightarrow> holds d k b \<Longrightarrow> a = b"
    and take_ok: "ok d \<Longrightarrow> take_slot m now d = Some d' \<Longrightarrow> ok d'"
    and take_holds: "ok d \<Longrightarrow> take_slot m now d = Some d' \<Longrightarrow> holds d' (slot_of m now) (m_id m)"
    and give_ok: "ok d \<Longrightarrow> ok (give_back m moment d)"
    and give_others: "ok d \<Longrightarrow> a \<noteq> m_id m \<Longrightarrow> holds (give_back m moment d) k a \<longleftrightarrow> holds d k a"
begin

text \<open>Whoever takes a slot is its only holder, whoever held it before.\<close>

lemma take_only_holder:
  "ok d \<Longrightarrow> take_slot m now d = Some d' \<Longrightarrow> holds d' (slot_of m now) a \<longleftrightarrow> a = m_id m"
  using exclusive take_ok take_holds by blast

lemma two_takers:
  assumes "ok d" "take_slot m now d = Some d1" "take_slot m' now' d1 = Some d2"
    "slot_of m now = slot_of m' now'" "m_id m \<noteq> m_id m'"
  shows "\<not> holds d2 (slot_of m now) (m_id m)"
  using assms take_only_holder [of d1 m' now' d2] take_ok [of d m now d1] by auto

lemma give_back_keeps_holder:
  "ok d \<Longrightarrow> take_slot m now d = Some d' \<Longrightarrow> m_id x \<noteq> m_id m \<Longrightarrow>
   holds (give_back x moment d') (slot_of m now) (m_id m)"
  using give_others take_ok take_holds by metis

end

section \<open>The ledger is such a guard\<close>

definition ledgers_ok :: "db \<Rightarrow> bool" where
  "ledgers_ok d \<longleftrightarrow> distinct (map l_email (ledgers d))"

definition ledger_holds :: "db \<Rightarrow> str \<Rightarrow> id \<Rightarrow> bool" where
  "ledger_holds d email a \<longleftrightarrow> (\<exists>l \<in> set (ledgers d). l_email l = email \<and> l_reserved_message l = Some a)"

definition take_ledger :: "message \<Rightarrow> instant \<Rightarrow> db \<Rightarrow> db option" where
  "take_ledger m now d = (case reserve_ledger m now d of Inl e \<Rightarrow> None | Inr (m', d') \<Rightarrow> Some d')"

lemma find_ledger_Some: "find_ledger e d = Some l \<Longrightarrow> l \<in> set (ledgers d) \<and> l_email l = e"
  unfolding find_ledger_def by (auto dest: find_Some_mem)

lemma find_ledger_None: "find_ledger e d = None \<Longrightarrow> l \<in> set (ledgers d) \<Longrightarrow> l_email l \<noteq> e"
  unfolding find_ledger_def by (auto simp: find_None_iff_all)

lemma get_or_create_ledger:
  assumes "get_or_create_ledger e d = (l, d')"
  shows "(ledgers_ok d \<longrightarrow> ledgers_ok d') \<and> l \<in> set (ledgers d') \<and> l_email l = e
    \<and> messages d' = messages d \<and> (\<forall>x. l_email x \<noteq> e \<longrightarrow> (x \<in> set (ledgers d') \<longleftrightarrow> x \<in> set (ledgers d)))"
proof (cases "find_ledger e d")
  case None
  have "e \<notin> l_email ` set (ledgers d)" using find_ledger_None [OF None] by blast
  then show ?thesis
    using assms None by (auto simp: get_or_create_ledger_def fresh_def ledgers_ok_def Let_def)
next
  case (Some x)
  then show ?thesis using assms find_ledger_Some by (auto simp: get_or_create_ledger_def)
qed

lemma ledgers_save [simp]: "ledgers (save_ledger e f d) = t_update (\<lambda>l. l_email l = e) f (ledgers d)"
  by (simp add: save_ledger_def)

lemma ledgers_ok_save:
  "ledgers_ok d \<Longrightarrow> (\<And>l. l_email (f l) = l_email l) \<Longrightarrow> ledgers_ok (save_ledger e f d)"
  by (simp add: ledgers_ok_def map_key_update)

lemma reserve_ledger_Inr:
  assumes "reserve_ledger m now d = Inr (m', d')"
  obtains l d1 where "get_or_create_ledger (m_recipient_normalized m) d = (l, d1)"
    "ledger_busy l m d1 = Inr False" "m' = m\<lparr>m_contact_sequence := Some (l_next_sequence l)\<rparr>"
    "d' = save_ledger (m_recipient_normalized m)
            (\<lambda>r. r\<lparr>l_reserved_message := Some (m_id m), l_reserved_at := Some now\<rparr>) d1"
  using assms unfolding reserve_ledger_def
  by (cases "get_or_create_ledger (m_recipient_normalized m) d") (auto simp: res_simps split: if_splits)

lemma ledger_holds_save:
  "ledger_holds (save_ledger e f d) k a \<longleftrightarrow>
     (\<exists>l \<in> set (ledgers d). l_email (if l_email l = e then f l else l) = k
        \<and> l_reserved_message (if l_email l = e then f l else l) = Some a)"
  by (simp only: ledger_holds_def ledgers_save t_update_def set_map bex_simps)

lemma ledger_exclusive: "ledgers_ok d \<Longrightarrow> ledger_holds d k a \<Longrightarrow> ledger_holds d k b \<Longrightarrow> a = b"
  unfolding ledgers_ok_def ledger_holds_def distinct_map inj_on_def by (metis option.inject)

lemma take_ledger_Some:
  assumes "take_ledger m now d = Some d'"
  obtains m' where "reserve_ledger m now d = Inr (m', d')"
  using assms by (auto simp: take_ledger_def split: sum.splits)

interpretation ledger_guard:
  delivery_guard ledgers_ok ledger_holds take_ledger "\<lambda>m now. m_recipient_normalized m"
    "\<lambda>m moment d. release_ledger m d"
proof unfold_locales
  fix d k a b
  show "ledgers_ok d \<Longrightarrow> ledger_holds d k a \<Longrightarrow> ledger_holds d k b \<Longrightarrow> a = b" by (rule ledger_exclusive)
next
  fix d m now d'
  assume ok: "ledgers_ok d" and t: "take_ledger m now d = Some d'"
  from t obtain m' where "reserve_ledger m now d = Inr (m', d')" by (rule take_ledger_Some)
  then obtain l d1 where g: "get_or_create_ledger (m_recipient_normalized m) d = (l, d1)"
    and d': "d' = save_ledger (m_recipient_normalized m)
            (\<lambda>r. r\<lparr>l_reserved_message := Some (m_id m), l_reserved_at := Some now\<rparr>) d1"
    by (rule reserve_ledger_Inr)
  note G = get_or_create_ledger [OF g]
  show "ledgers_ok d'" unfolding d' using G ok by (intro ledgers_ok_save) auto
  show "ledger_holds d' (m_recipient_normalized m) (m_id m)"
    unfolding d' ledger_holds_save using G by (intro bexI [of _ l]) auto
next
  fix d m moment a k
  assume ok: "ledgers_ok d"
  show "ledgers_ok (release_ledger m d)"
    using ok by (auto simp: release_ledger_def intro!: ledgers_ok_save split: option.splits)
  assume a: "a \<noteq> m_id m"
  show "ledger_holds (release_ledger m d) k a \<longleftrightarrow> ledger_holds d k a"
  proof (cases "find_ledger (m_recipient_normalized m) d")
    case None
    then show ?thesis by (simp add: release_ledger_def)
  next
    case (Some l)
    note l = find_ledger_Some [OF Some]
    have only: "x = l" if "x \<in> set (ledgers d)" "l_email x = m_recipient_normalized m" for x
      using ok l that by (auto simp: ledgers_ok_def distinct_map inj_on_def)
    show ?thesis
    proof (cases "l_reserved_message l = Some (m_id m)")
      case True
      have r: "release_ledger m d = save_ledger (m_recipient_normalized m)
              (\<lambda>r. r\<lparr>l_reserved_message := None, l_reserved_at := None\<rparr>) d"
        using Some True by (simp add: release_ledger_def)
      have "l_reserved_message x \<noteq> Some a"
        if "x \<in> set (ledgers d)" "l_email x = m_recipient_normalized m" for x
        using only [OF that] True a by simp
      then show ?thesis unfolding r ledger_holds_save by (auto simp: ledger_holds_def)
    next
      case False
      then show ?thesis using Some by (simp add: release_ledger_def)
    qed
  qed
qed

section \<open>The reservation of the day is such a guard\<close>

definition v_slot :: "reservation \<Rightarrow> id \<times> str \<times> day" where
  "v_slot v = (v_workspace v, v_normalized_email v, v_local_date v)"

definition reservations_ok :: "db \<Rightarrow> bool" where
  "reservations_ok d \<longleftrightarrow>
     unique_on (\<lambda>v. v_status v \<noteq> RELEASED) v_slot (reservations d)
     \<and> distinct (map v_id (reservations d)) \<and> distinct (map v_message (reservations d))
     \<and> (\<forall>v \<in> set (reservations d). v_id v < next_id d)"

definition day_holds :: "db \<Rightarrow> id \<times> str \<times> day \<Rightarrow> id \<Rightarrow> bool" where
  "day_holds d k a \<longleftrightarrow>
     (\<exists>v \<in> set (reservations d). v_slot v = k \<and> v_status v \<noteq> RELEASED \<and> v_message v = a)"

definition day_slot :: "env \<Rightarrow> campaign \<Rightarrow> message \<Rightarrow> instant \<Rightarrow> id \<times> str \<times> day" where
  "day_slot env c m now = (c_workspace c, m_recipient_normalized m, reservation_local_date env now)"

definition take_day :: "env \<Rightarrow> campaign \<Rightarrow> message \<Rightarrow> instant \<Rightarrow> db \<Rightarrow> db option" where
  "take_day env c m now d =
     (case reserve_campaign_delivery_day env m c now d of (b, d') \<Rightarrow> if b then Some d' else None)"

lemma reservation_of_Some: "reservation_of k d = Some v \<Longrightarrow> v \<in> set (reservations d) \<and> v_message v = k"
  unfolding reservation_of_def by (auto dest: find_Some_mem)

lemma reservation_of_None: "reservation_of k d = None \<longleftrightarrow> k \<notin> v_message ` set (reservations d)"
  unfolding reservation_of_def by (auto simp: find_None_iff_all)

lemma day_taken_iff:
  "day_taken ws email day own d \<longleftrightarrow>
     (\<exists>v \<in> set (reservations d). v_slot v = (ws, email, day) \<and> v_status v \<noteq> RELEASED
        \<and> own \<noteq> Some (v_id v))"
  by (auto simp: day_taken_def list_ex_iff v_slot_def)

text \<open>The reservation fails exactly when the mail was sent already or another one has the day.\<close>

lemma reserve_day_fails_iff:
  "\<not> fst (reserve_campaign_delivery_day env m c now d) \<longleftrightarrow>
     (\<exists>v. reservation_of (m_id m) d = Some v \<and> v_status v = CONSUMED)
     \<or> (\<exists>v \<in> set (reservations d). v_slot v = day_slot env c m now \<and> v_status v \<noteq> RELEASED
          \<and> map_option v_id (reservation_of (m_id m) d) \<noteq> Some (v_id v))"
  by (auto simp: reserve_campaign_delivery_day_def day_slot_def day_taken_iff Let_def fresh_def
      split: option.splits if_splits)

lemma reserve_day_fails_same: "\<not> fst (reserve_campaign_delivery_day env m c now d) \<Longrightarrow>
   snd (reserve_campaign_delivery_day env m c now d) = d"
  by (auto simp: reserve_campaign_delivery_day_def Let_def fresh_def split: option.splits if_splits)

lemma reservations_save [simp]: "reservations (save_reservation k f d) = t_save v_id k f (reservations d)"
  by (simp add: save_reservation_def)

lemma next_id_save_reservation [simp]: "next_id (save_reservation k f d) = next_id d"
  by (simp add: save_reservation_def)

text \<open>Saving a row keeps the constraints when its new slot is free or it is released.\<close>

lemma reservations_ok_save:
  assumes ok: "reservations_ok d" and v: "v \<in> set (reservations d)"
    and keep: "\<And>r. v_id (f r) = v_id r" "\<And>r. v_message (f r) = v_message r"
    and free: "v_status (f v) \<noteq> RELEASED \<Longrightarrow>
      \<not> (\<exists>x \<in> set (reservations d). v_slot x = v_slot (f v) \<and> v_status x \<noteq> RELEASED \<and> v_id x \<noteq> v_id v)"
  shows "reservations_ok (save_reservation (v_id v) f d)"
proof -
  let ?t = "reservations d" and ?t' = "t_save v_id (v_id v) f (reservations d)"
  have dist: "distinct (map v_id ?t)" and u: "unique_on (\<lambda>v. v_status v \<noteq> RELEASED) v_slot ?t"
    using ok by (simp_all add: reservations_ok_def)
  have ids: "map v_id ?t' = map v_id ?t" "map v_message ?t' = map v_message ?t"
    using keep by (simp_all add: map_key_save t_save_def t_update_def)
  then have dist': "distinct (map v_id ?t')" using dist by simp
  have mem: "x = f v \<or> (x \<in> set ?t \<and> v_id x \<noteq> v_id v)" if "x \<in> set ?t'" for x
    using that by (cases rule: t_saveE) (use dist v in \<open>auto simp: distinct_map inj_on_def\<close>)
  have old: "v_id x = v_id y" if "x \<in> set ?t" "y \<in> set ?t" "v_status x \<noteq> RELEASED"
      "v_status y \<noteq> RELEASED" "v_slot x = v_slot y" for x y
    using u that unfolding unique_on_iff [OF dist] by blast
  have "unique_on (\<lambda>v. v_status v \<noteq> RELEASED) v_slot ?t'"
    unfolding unique_on_iff [OF dist']
  proof (intro ballI impI)
    fix x y
    assume "x \<in> set ?t'" "y \<in> set ?t'" and s: "v_status x \<noteq> RELEASED" "v_status y \<noteq> RELEASED"
      "v_slot x = v_slot y"
    then consider "x = f v" "y = f v" | "x = f v" "y \<in> set ?t" "v_id y \<noteq> v_id v"
      | "y = f v" "x \<in> set ?t" "v_id x \<noteq> v_id v" | "x \<in> set ?t" "y \<in> set ?t"
      using mem by blast
    then show "v_id x = v_id y"
    proof cases
      case 1 then show ?thesis by simp
    next
      case 2 then show ?thesis using free s by metis
    next
      case 3 then show ?thesis using free s by metis
    next
      case 4 then show ?thesis using old s by blast
    qed
  qed
  moreover have "\<forall>x \<in> set ?t'. v_id x < next_id d"
    using ok v mem keep by (auto simp: reservations_ok_def) (metis keep(1))
  ultimately show ?thesis using ok ids by (simp add: reservations_ok_def)
qed

lemma reservations_ok_add:
  assumes ok: "reservations_ok d" and r: "v_id r = next_id d" "v_message r \<notin> v_message ` set (reservations d)"
    and free: "\<not> (\<exists>x \<in> set (reservations d). v_slot x = v_slot r \<and> v_status x \<noteq> RELEASED)"
  shows "reservations_ok (d\<lparr>next_id := Suc (next_id d), reservations := reservations d @ [r]\<rparr>)"
  using assms by (auto simp: reservations_ok_def unique_on_def less_Suc_eq)

lemma reserve_day_cases:
  assumes "reserve_campaign_delivery_day env m c now d = (True, d')"
  obtains (new) r where "reservation_of (m_id m) d = None"
      "\<not> (\<exists>x \<in> set (reservations d). v_slot x = day_slot env c m now \<and> v_status x \<noteq> RELEASED)"
      "d' = d\<lparr>next_id := Suc (next_id d), reservations := reservations d @ [r]\<rparr>"
      "v_id r = next_id d" "v_message r = m_id m" "v_slot r = day_slot env c m now" "v_status r = RESERVED"
  | (again) v f where "reservation_of (m_id m) d = Some v" "v_status v \<noteq> CONSUMED"
      "\<not> (\<exists>x \<in> set (reservations d). v_slot x = day_slot env c m now \<and> v_status x \<noteq> RELEASED \<and> v_id x \<noteq> v_id v)"
      "d' = save_reservation (v_id v) f d" "\<And>r. v_id (f r) = v_id r" "\<And>r. v_message (f r) = v_message r"
      "\<And>r. v_slot (f r) = day_slot env c m now" "\<And>r. v_status (f r) = RESERVED"
proof (cases "reservation_of (m_id m) d")
  case None
  then show thesis
    using assms by (intro new)
      (auto simp: reserve_campaign_delivery_day_def Let_def fresh_def day_taken_iff day_slot_def v_slot_def
        split: if_splits)
next
  case (Some v)
  then show thesis
    using assms by (intro again [of v "\<lambda>r. r\<lparr>v_workspace := c_workspace c, v_campaign := c_id c,
        v_email_address := m_email_address m, v_normalized_email := m_recipient_normalized m,
        v_local_date := reservation_local_date env now, v_status := RESERVED, v_consumed_at := None,
        v_released_at := None\<rparr>"])
      (auto simp: reserve_campaign_delivery_day_def Let_def day_taken_iff day_slot_def v_slot_def
        split: if_splits)
qed

lemma reserve_day_ok:
  assumes ok: "reservations_ok d" and t: "reserve_campaign_delivery_day env m c now d = (True, d')"
  shows "reservations_ok d' \<and> day_holds d' (day_slot env c m now) (m_id m)"
  using t
proof (cases rule: reserve_day_cases)
  case (new r)
  then show ?thesis
    using reservations_ok_add [OF ok, of r] by (auto simp: reservation_of_None day_holds_def)
next
  case (again v f)
  note v = reservation_of_Some [OF again(1)]
  have "reservations_ok d'"
    unfolding again(4) by (rule reservations_ok_save [OF ok]) (use v again in auto)
  moreover have "f v \<in> set (reservations d')"
    unfolding again(4) using v mem_t_save [of v "reservations d" v_id "v_id v" f] by simp
  then have "day_holds d' (day_slot env c m now) (m_id m)"
    unfolding day_holds_def using again v by (intro bexI [of _ "f v"]) auto
  ultimately show ?thesis by blast
qed

lemma day_exclusive: "reservations_ok d \<Longrightarrow> day_holds d k a \<Longrightarrow> day_holds d k b \<Longrightarrow> a = b"
  unfolding reservations_ok_def day_holds_def by (auto dest: unique_onD)

lemma release_day_ok:
  assumes ok: "reservations_ok d"
  shows "reservations_ok (release_campaign_delivery_day m moment d)"
proof (cases "reservation_of (m_id m) d")
  case (Some v)
  show ?thesis
  proof (cases "v_status v = RESERVED")
    case True
    have "reservations_ok (save_reservation (v_id v) (\<lambda>r. r\<lparr>v_status := RELEASED, v_released_at := Some moment\<rparr>) d)"
      by (rule reservations_ok_save [OF ok]) (use reservation_of_Some [OF Some] in auto)
    then show ?thesis using Some True by (simp add: release_campaign_delivery_day_def)
  qed (use Some ok in \<open>simp add: release_campaign_delivery_day_def\<close>)
qed (use ok in \<open>simp add: release_campaign_delivery_day_def\<close>)

lemma release_day_others:
  assumes ok: "reservations_ok d" and a: "a \<noteq> m_id m"
  shows "day_holds (release_campaign_delivery_day m moment d) k a \<longleftrightarrow> day_holds d k a"
proof (cases "reservation_of (m_id m) d")
  case (Some v)
  note v = reservation_of_Some [OF Some]
  have own: "x = v" if "x \<in> set (reservations d)" "v_id x = v_id v" for x
    using ok v that by (auto simp: reservations_ok_def distinct_map inj_on_def)
  have "x \<in> set (reservations (save_reservation (v_id v) f d)) \<longleftrightarrow> x \<in> set (reservations d)"
    if "v_message x = a" "\<And>r. v_message (f r) = v_message r" for x f
    using that own v a by (auto simp: t_save_def t_update_def image_iff) metis+
  then have "day_holds (save_reservation (v_id v) f d) k a \<longleftrightarrow> day_holds d k a"
    if "\<And>r. v_message (f r) = v_message r" for f
    unfolding day_holds_def using that by blast
  then show ?thesis using Some by (simp add: release_campaign_delivery_day_def)
qed (simp add: release_campaign_delivery_day_def)

interpretation day_guard:
  delivery_guard reservations_ok day_holds "take_day env c" "day_slot env c" release_campaign_delivery_day
  for env c
proof unfold_locales
  fix d m now d'
  assume "reservations_ok d" "take_day env c m now d = Some d'"
  then show "reservations_ok d'" "day_holds d' (day_slot env c m now) (m_id m)"
    using reserve_day_ok by (auto simp: take_day_def split: prod.splits if_splits)
qed (auto intro: day_exclusive release_day_ok simp: release_day_others)

text \<open>A consumed day is never given back.\<close>

lemma release_keeps_consumed:
  assumes "v \<in> set (reservations d)" "v_status v = CONSUMED" "reservations_ok d"
  shows "v \<in> set (reservations (release_campaign_delivery_day m moment d))"
proof (cases "reservation_of (m_id m) d")
  case (Some w)
  have same: "v_id v = v_id w \<Longrightarrow> w = v"
    using assms reservation_of_Some [OF Some] by (auto simp: reservations_ok_def distinct_map inj_on_def)
  show ?thesis
  proof (cases "v_status w = RESERVED")
    case True
    then have "v_id v \<noteq> v_id w" using same assms(2) by auto
    then have "v \<in> set (t_save v_id (v_id w) f (reservations d))" for f
      using mem_t_save [OF assms(1), of v_id "v_id w" f] by simp
    then show ?thesis using Some assms(1) by (simp add: release_campaign_delivery_day_def)
  qed (use Some assms in \<open>simp add: release_campaign_delivery_day_def\<close>)
qed (use assms in \<open>simp add: release_campaign_delivery_day_def\<close>)

lemma consume_day_ok:
  assumes ok: "reservations_ok d" and r: "consume_campaign_delivery_day m now d = Inr d'"
  shows "reservations_ok d'"
proof (cases "reservation_of (m_id m) d")
  case (Some v)
  note v = reservation_of_Some [OF Some]
  have free: "\<not> (\<exists>x \<in> set (reservations d). v_slot x = v_slot v \<and> v_status x \<noteq> RELEASED \<and> v_id x \<noteq> v_id v)"
    and d': "d' = save_reservation (v_id v)
      (\<lambda>r. r\<lparr>v_status := CONSUMED, v_consumed_at := Some now, v_released_at := None\<rparr>) d"
    using r Some by (auto simp: consume_campaign_delivery_day_def day_taken_iff v_slot_def split: if_splits)
  show ?thesis
    unfolding d' by (rule reservations_ok_save [OF ok]) (use v free in \<open>auto simp: v_slot_def\<close>)
qed (use ok r in \<open>simp add: consume_campaign_delivery_day_def\<close>)

text \<open>A day that is still reserved can always be consumed.\<close>

lemma consume_day_total:
  assumes "reservations_ok d"
    and "\<And>v. reservation_of (m_id m) d = Some v \<Longrightarrow> v_status v \<noteq> RELEASED"
  obtains d' where "consume_campaign_delivery_day m now d = Inr d'"
proof (cases "reservation_of (m_id m) d")
  case (Some v)
  note v = reservation_of_Some [OF Some]
  have "v_id x = v_id v" if "x \<in> set (reservations d)" "v_slot x = v_slot v" "v_status x \<noteq> RELEASED" for x
    using assms(1) that assms(2) [OF Some] v by (auto simp: reservations_ok_def dest: unique_onD)
  then have "\<not> day_taken (v_workspace v) (v_normalized_email v) (v_local_date v) (Some (v_id v)) d"
    unfolding day_taken_iff v_slot_def [of v, symmetric] by force
  then show thesis using that Some by (simp add: consume_campaign_delivery_day_def)
qed (use that in \<open>simp add: consume_campaign_delivery_day_def\<close>)

end
