(* ===== verification/Preparation.thy ===== *)
theory Preparation
  imports Guards
begin

text \<open>
  The first half of a delivery (\<open>campaigns/delivery.py\<close>): building the bytes of a message, completing the
  modes that never reach Gmail, the safety pauses, and \<open>_prepare_live_effect\<close>, which decides under the
  locks of one transaction whether a live message may be sent now and reserves everything it needs.
\<close>

section \<open>The bytes of a message\<close>

definition read_storage :: "str \<Rightarrow> db \<Rightarrow> exn + str" where
  "read_storage key d = of_option (RuntimeFailure ''FileNotFoundError'') (map_of (storage d) key)"

definition snapshot_differs :: "attachment \<Rightarrow> catalog \<Rightarrow> bool" where
  "snapshot_differs a k \<longleftrightarrow>
     a_catalog_version a \<noteq> k_version k \<or> a_storage_key a \<noteq> k_file_name k
     \<or> a_filename a \<noteq> k_original_filename k \<or> a_byte_size a \<noteq> k_byte_size k \<or> a_sha256 a \<noteq> k_sha256 k"

definition attachment_payload :: "env \<Rightarrow> db \<Rightarrow> attachment \<Rightarrow> exn + pdf_attachment" where
  "attachment_payload env d a =
     bindE (of_option DoesNotExist (t_get k_id (a_catalog a) (catalogs d))) (\<lambda>k.
       if snapshot_differs a k then Inl (ValidationError txt_pdfs_changed)
       else
         bindE (verify_catalog env k d) (\<lambda>_.
         bindE (read_storage (k_file_name k) d) (\<lambda>content.
           if length content \<noteq> a_byte_size a then Inl (ValidationError txt_pdf_integrity)
           else Inr \<lparr>pdf_filename = a_filename a, pdf_content = content\<rparr>)))"

text \<open>A historical first contact has no snapshots; its single catalog is read instead.\<close>

definition historical_payload :: "env \<Rightarrow> message \<Rightarrow> db \<Rightarrow> exn + pdf_attachment list" where
  "historical_payload env m d =
     (case m_catalog m of
        None \<Rightarrow> Inr []
      | Some key \<Rightarrow>
          if m_kind m \<noteq> FIRST_CONTACT then Inr []
          else
            bindE (of_option DoesNotExist (t_get k_id key (catalogs d))) (\<lambda>k.
              if m_catalog_version m \<noteq> Some (k_version k) then Inl (ValidationError txt_catalog_version)
              else
                bindE (verify_catalog env k d) (\<lambda>_.
                bindE (read_storage (k_file_name k) d) (\<lambda>content.
                  Inr [\<lparr>pdf_filename = k_original_filename k, pdf_content = content\<rparr>]))))"

definition message_attachments :: "env \<Rightarrow> message \<Rightarrow> db \<Rightarrow> exn + pdf_attachment list" where
  "message_attachments env m d =
     (let snapshots = attachments_of_message (m_id m) d
      in if m_kind m = CAMPAIGN_REMINDER
         then if snapshots \<noteq> [] then Inl (ValidationError txt_reminder_attachments) else Inr []
         else if m_kind m = INITIAL \<and> snapshots = [] then Inl (ValidationError txt_lost_pdfs)
         else if snapshots = [] then historical_payload env m d
         else bindE (mapE (attachment_payload env d) snapshots) (\<lambda>payloads.
           if MAX_SOURCE_PDF_BYTES < sum_list (map (length \<circ> pdf_content) payloads)
           then Inl (ValidationError txt_pdfs_total)
           else Inr payloads))"

record message_mime =
  mm_raw :: str
  mm_sha256 :: str
  mm_rfc_id :: str
  mm_size :: nat

definition rfc_id_of :: "env \<Rightarrow> message \<Rightarrow> str" where
  "rfc_id_of env m =
     (if m_message_id m \<noteq> [] then m_message_id m else deterministic_message_id env (m_idempotency_key m))"

definition message_bytes :: "env \<Rightarrow> message \<Rightarrow> campaign \<Rightarrow> str \<Rightarrow> db \<Rightarrow> exn + message_mime" where
  "message_bytes env m c sender d =
     (let rfc = rfc_id_of env m;
          date = (case m_scheduled_for m of Some t \<Rightarrow> t | None \<Rightarrow> m_created_at m);
          campaign_header = str_of_pk (c_id c); message_header = str_of_pk (m_id m)
      in bindE
           (if m_kind m = CAMPAIGN_REMINDER
            then if m_gmail_thread_id m = [] then Inl (ValidationError txt_lost_thread)
                 else build_reply_message env sender (m_recipient m) (m_subject m) (m_body_text m) rfc date
                        (filter (\<lambda>r. r \<noteq> []) (m_references m)) (m_in_reply_to m) campaign_header
                        message_header
            else bindE (message_attachments env m d) (\<lambda>pdfs.
                 build_message env sender (m_recipient m) (m_subject m) (m_body_text m) rfc date
                   campaign_header message_header pdfs))
           (\<lambda>b. Inr \<lparr>mm_raw = b_raw b, mm_sha256 = b_sha256 b, mm_rfc_id = rfc, mm_size = b_size b\<rparr>))"

section \<open>Jobs, pauses and the failure threshold\<close>

definition deliver_key :: "id \<Rightarrow> str" where
  "deliver_key k = ''deliver:'' @ str_of_pk k"

definition update_jobs :: "str \<Rightarrow> (job \<Rightarrow> job) \<Rightarrow> db \<Rightarrow> db" where
  "update_jobs key f d = d\<lparr>jobs := t_update (\<lambda>j. j_key j = key) f (jobs d)\<rparr>"

definition pause_campaign :: "env \<Rightarrow> id \<Rightarrow> str \<Rightarrow> db \<Rightarrow> exn + db" where
  "pause_campaign env camp reason d =
     (case t_get c_id camp (campaigns d) of
        None \<Rightarrow> Inr d
      | Some c \<Rightarrow>
          if c_state c = C_RUNNING
          then bindE (transition_campaign env camp C_PAUSED None reason d) (\<lambda>(c', d'). Inr d')
          else Inr d)"

definition FAILURE_WINDOW_SIZE :: nat where "FAILURE_WINDOW_SIZE = 20"
definition CONSECUTIVE_FAILURE_THRESHOLD :: nat where "CONSECUTIVE_FAILURE_THRESHOLD = 5"

definition delivery_job_failed :: "id \<Rightarrow> db \<Rightarrow> bool" where
  "delivery_job_failed k d =
     (map_of (map (\<lambda>j. (j_entity_id j, j_state j))
               (filter (\<lambda>j. j_task_name j = ''mailbox.deliver_message'') (jobs d))) (str_of_pk k)
      = Some J_FAILED)"

fun collect_results :: "db \<Rightarrow> nat \<Rightarrow> message list \<Rightarrow> bool list" where
  "collect_results d n [] = []"
| "collect_results d 0 ms = []"
| "collect_results d (Suc n) (m # ms) =
     (if m_state m = SENT then False # collect_results d n ms
      else if delivery_job_failed (m_id m) d then True # collect_results d n ms
      else collect_results d (Suc n) ms)"

definition recent_deliveries :: "id \<Rightarrow> db \<Rightarrow> message list" where
  "recent_deliveries camp d =
     take (FAILURE_WINDOW_SIZE * 3)
       (sort_key (\<lambda>m. - m_updated_at m)
         (filter (\<lambda>m. m_campaign m = Some camp \<and> m_delivery_mode m = LIVE
                    \<and> m_state m \<in> {SENT, SEND_FAILED}) (messages d)))"

definition provider_delivery_results :: "id \<Rightarrow> db \<Rightarrow> bool list" where
  "provider_delivery_results camp d = collect_results d FAILURE_WINDOW_SIZE (recent_deliveries camp d)"

text \<open>The rate \<open>sum(results) / 20 >= 0.30\<close> with the denominators cleared.\<close>

definition failure_threshold_reason :: "id \<Rightarrow> db \<Rightarrow> str" where
  "failure_threshold_reason camp d =
     (let results = provider_delivery_results camp d
      in if CONSECUTIVE_FAILURE_THRESHOLD \<le> length results
            \<and> list_all id (take CONSECUTIVE_FAILURE_THRESHOLD results)
         then txt_five_failures
         else if FAILURE_WINDOW_SIZE \<le> length results
            \<and> 3 * FAILURE_WINDOW_SIZE \<le> 10 * length (filter id (take FAILURE_WINDOW_SIZE results))
         then txt_failure_rate
         else [])"

definition pause_if_failure_threshold_reached :: "env \<Rightarrow> id \<Rightarrow> db \<Rightarrow> exn + bool \<times> db" where
  "pause_if_failure_threshold_reached env camp d =
     (let reason = failure_threshold_reason camp d
      in if reason = [] then Inr (False, d)
         else bindE (pause_campaign env camp reason d) (\<lambda>d'. Inr (True, d')))"

section \<open>Eligibility before sending\<close>

definition update_enrollment :: "id option \<Rightarrow> (enrollment \<Rightarrow> enrollment) \<Rightarrow> db \<Rightarrow> db" where
  "update_enrollment k f d =
     (case k of
        None \<Rightarrow> d
      | Some enr \<Rightarrow> d\<lparr>enrollments := t_update (\<lambda>e. e_id e = enr \<and> e_state e \<noteq> E_RESPONDED) f (enrollments d)\<rparr>)"

definition ineligible_state :: "message_kind \<Rightarrow> message_state" where
  "ineligible_state kind = (if kind = FIRST_CONTACT then SEND_FAILED else INELIGIBLE)"

definition mark_message_ineligible :: "env \<Rightarrow> message \<Rightarrow> str \<Rightarrow> instant \<Rightarrow> db \<Rightarrow> db" where
  "mark_message_ineligible env m reason now d =
     (let d1 = release_delivery_guard m now d;
          d2 = save_message env (m_id m)
                 (\<lambda>r. r\<lparr>m_state := ineligible_state (m_kind m), m_next_attempt_at := None,
                        m_delivery_reserved_at := None, m_sending_started_at := None,
                        m_error := reason\<rparr>) d1;
          d3 = update_enrollment (m_enrollment m)
                 (\<lambda>e. e\<lparr>e_state := E_INELIGIBLE, e_exclusion_reason := take 200 reason\<rparr>) d2;
          d4 = update_jobs (deliver_key (m_id m))
                 (\<lambda>j. j\<lparr>j_state := J_CANCELLED, j_finished_at := Some now, j_error := reason\<rparr>) d3
      in record_event ''message.ineligible'' (m_id m) None d4)"

text \<open>A \<open>ValidationError\<close> rolls the projection back to the savepoint it opened.\<close>

definition final_email_error :: "env \<Rightarrow> message \<Rightarrow> db \<Rightarrow> exn + str \<times> db" where
  "final_email_error env m d =
     (case outbound_eligibility_error env m d of
        Inl e \<Rightarrow> if is_validation_error e then Inr (exn_text e, d) else Inl e
      | Inr res \<Rightarrow> Inr res)"

section \<open>The modes that never reach Gmail\<close>

definition campaign_of_message :: "message \<Rightarrow> db \<Rightarrow> exn + campaign" where
  "campaign_of_message m d =
     (case m_campaign m of
        None \<Rightarrow> Inl (ValidationError txt_no_campaign)
      | Some k \<Rightarrow> get_campaign k d)"

definition dry_run_sender :: "campaign \<Rightarrow> db \<Rightarrow> str" where
  "dry_run_sender c d =
     (case workspace_connection (c_workspace c) d of
        Some g \<Rightarrow> if g_email g \<noteq> [] then g_email g else ''dry-run@contact-outreach.invalid''
      | None \<Rightarrow> ''dry-run@contact-outreach.invalid'')"

text \<open>A failure to build the bytes is stored on the message and pauses its campaign.\<close>

definition stop_on_content :: "env \<Rightarrow> id \<Rightarrow> (str \<Rightarrow> message \<Rightarrow> message) \<Rightarrow> id \<Rightarrow> exn \<Rightarrow> db \<Rightarrow> exn + db" where
  "stop_on_content env k f camp e d =
     (if is_validation_error e
      then let reason = redact env (exn_str e)
           in pause_campaign env camp reason (save_message env k (f reason) d)
      else Inl e)"

text \<open>The unique constraint on a message's own \<open>Message-ID\<close>, which the saves below may violate.\<close>

definition message_id_taken :: "message \<Rightarrow> str \<Rightarrow> db \<Rightarrow> bool" where
  "message_id_taken m rfc d =
     (rfc \<noteq> [] \<and> list_ex (\<lambda>o1. m_id o1 \<noteq> m_id m \<and> m_message_id o1 = rfc) (messages d))"

definition complete_dry_run :: "env \<Rightarrow> id \<Rightarrow> instant \<Rightarrow> db \<Rightarrow> exn + message_state \<times> db" where
  "complete_dry_run env k now d =
     bindE (get_message k d) (\<lambda>m.
       if m_state m \<in> {REVIEW_READY, DRY_RUN_COMPLETED, SENT, CANCELLED} then Inr (m_state m, d)
       else bindE (campaign_of_message m d) (\<lambda>c.
         if c_state c \<noteq> C_RUNNING then Inr (m_state m, d)
         else if m_delivery_mode m \<noteq> DRY_RUN \<or> c_delivery_mode c \<noteq> DRY_RUN
         then Inl (ValidationError txt_not_dry_run)
         else
           let state = (if m_state m = PREPARED then QUEUED else m_state m) in
           bindE (final_email_error env m d) (\<lambda>(err, d1).
             if err \<noteq> [] then Inr (ineligible_state (m_kind m), mark_message_ineligible env m err now d1)
             else case message_bytes env m c (dry_run_sender c d1) d1 of
                    Inl e \<Rightarrow>
                      bindE (stop_on_content env k (\<lambda>t r. r\<lparr>m_state := state, m_error := t\<rparr>) (c_id c) e d1)
                        (\<lambda>d2. Inr (state, d2))
                  | Inr mime \<Rightarrow>
                      if message_id_taken m (mm_rfc_id mime) d1 then Inl IntegrityError
                      else Inr (DRY_RUN_COMPLETED,
                        record_event ''message.dry_run_completed'' k None
                          (save_message env k
                            (\<lambda>r. r\<lparr>m_message_id := mm_rfc_id mime, m_mime_sha256 := mm_sha256 mime,
                                   m_mime_size := Some (mm_size mime), m_state := DRY_RUN_COMPLETED,
                                   m_simulated_at := Some now, m_error := []\<rparr>) d1)))))"

definition complete_review_only :: "env \<Rightarrow> id \<Rightarrow> db \<Rightarrow> exn + message_state \<times> db" where
  "complete_review_only env k d =
     bindE (get_message k d) (\<lambda>m.
     bindE (campaign_of_message m d) (\<lambda>c.
       if m_delivery_mode m \<noteq> REVIEW_ONLY \<or> c_delivery_mode c \<noteq> REVIEW_ONLY
       then Inl (ValidationError txt_not_review)
       else if m_state m = REVIEW_READY then Inr (m_state m, d)
       else if c_state c \<noteq> C_RUNNING then Inr (m_state m, d)
       else if m_state m \<notin> {PREPARED, QUEUED} then Inl (ValidationError txt_review_state)
       else Inr (REVIEW_READY, record_event ''message.review_ready'' k None
              (save_message env k (\<lambda>r. r\<lparr>m_state := REVIEW_READY, m_error := []\<rparr>) d))))"

section \<open>\<open>_prepare_live_effect\<close>\<close>

record send_effect =
  x_message :: id
  x_connection :: id
  x_raw :: str
  x_rfc_id :: str
  x_recipient :: str
  x_recipient_normalized :: str
  x_idempotency_key :: str
  x_kind :: message_kind
  x_thread :: str

definition settled_states :: "message_state set" where
  "settled_states = {REVIEW_READY, SENT, DRY_RUN_COMPLETED, CANCELLED, SEND_FAILED, SENDING, RECONCILING}"

definition connected :: "id \<Rightarrow> db \<Rightarrow> gmail_connection option" where
  "connected ws d = find (\<lambda>g. g_workspace g = ws \<and> g_status g = CONNECTED) (connections d)"

definition usable_connection :: "id \<Rightarrow> db \<Rightarrow> gmail_connection option" where
  "usable_connection ws d =
     (case connected ws d of
        None \<Rightarrow> None
      | Some g \<Rightarrow> if \<not> connection_is_ready g \<or> set (g_scopes g) \<noteq> set GMAIL_SCOPES then None else Some g)"

text \<open>The guard of the message's kind; a message that cannot be reserved is failed or moved to the next day.\<close>

definition reserve_guard :: "env \<Rightarrow> message \<Rightarrow> campaign \<Rightarrow> instant \<Rightarrow> db \<Rightarrow> exn + message option \<times> db" where
  "reserve_guard env m c now d =
     (if m_kind m = FIRST_CONTACT
      then case reserve_ledger m now d of
             Inr (m', d') \<Rightarrow> Inr (Some m', d')
           | Inl e \<Rightarrow>
               if is_validation_error e
               then Inr (None, save_message env (m_id m)
                      (\<lambda>r. r\<lparr>m_state := SEND_FAILED, m_error := redact env (exn_str e)\<rparr>) d)
               else Inl e
      else
        case reserve_campaign_delivery_day env m c now d of
          (True, d') \<Rightarrow> Inr (Some m, d')
        | (False, d') \<Rightarrow> bindE (reschedule_same_day_conflict env m c now d') (\<lambda>d''. Inr (None, d'')))"

definition start_job :: "id \<Rightarrow> nat \<Rightarrow> instant \<Rightarrow> db \<Rightarrow> db" where
  "start_job k n now d =
     (let set_fields = (\<lambda>j. j\<lparr>j_task_name := ''mailbox.deliver_message'', j_entity_type := ''OutboundMessage'',
            j_entity_id := str_of_pk k, j_state := J_RUNNING, j_attempts := n, j_heartbeat_at := Some now,
            j_started_at := Some now, j_finished_at := None, j_error := []\<rparr>);
          blank = \<lparr>j_key = deliver_key k, j_task_name = [], j_entity_type = [], j_entity_id = [],
            j_state = J_PENDING, j_attempts = 0, j_heartbeat_at = None, j_started_at = None,
            j_finished_at = None, j_next_retry_at = None, j_error = []\<rparr>
      in if list_ex (\<lambda>j. j_key j = deliver_key k) (jobs d) then update_jobs (deliver_key k) set_fields d
         else d\<lparr>jobs := jobs d @ [set_fields blank]\<rparr>)"

text \<open>The unique constraints of \<open>OutboundMessage\<close> that the final \<open>save\<close> may violate.\<close>

definition same_sequence :: "message \<Rightarrow> message \<Rightarrow> bool" where
  "same_sequence m o1 \<longleftrightarrow>
     m_kind m \<in> {FIRST_CONTACT, INITIAL} \<and> m_kind o1 \<in> {FIRST_CONTACT, INITIAL}
     \<and> m_contact_sequence m \<noteq> None \<and> m_contact_sequence o1 = m_contact_sequence m
     \<and> m_recipient_normalized o1 = m_recipient_normalized m"

definition sending_conflict :: "message \<Rightarrow> str \<Rightarrow> db \<Rightarrow> bool" where
  "sending_conflict m rfc d \<longleftrightarrow>
     message_id_taken m rfc d \<or> list_ex (\<lambda>o1. m_id o1 \<noteq> m_id m \<and> same_sequence m o1) (messages d)"

definition effect_of :: "message \<Rightarrow> gmail_connection \<Rightarrow> message_mime \<Rightarrow> send_effect" where
  "effect_of m g mime =
     \<lparr>x_message = m_id m, x_connection = g_id g, x_raw = mm_raw mime, x_rfc_id = mm_rfc_id mime,
      x_recipient = m_recipient m, x_recipient_normalized = m_recipient_normalized m,
      x_idempotency_key = m_idempotency_key m, x_kind = m_kind m, x_thread = m_gmail_thread_id m\<rparr>"

definition sending_fields :: "message \<Rightarrow> message_mime \<Rightarrow> instant \<Rightarrow> message \<Rightarrow> message" where
  "sending_fields m mime now r =
     r\<lparr>m_message_id := mm_rfc_id mime, m_mime_sha256 := mm_sha256 mime,
       m_mime_size := Some (mm_size mime), m_state := SENDING, m_attempts := m_attempts m + 1,
       m_contact_sequence := m_contact_sequence m, m_delivery_reserved_at := Some now,
       m_sending_started_at := Some now, m_last_attempt_at := Some now,
       m_next_attempt_at := None, m_error := []\<rparr>"

definition commit_sending ::
    "env \<Rightarrow> message \<Rightarrow> gmail_connection \<Rightarrow> message_mime \<Rightarrow> instant \<Rightarrow> db \<Rightarrow> exn + send_effect \<times> db" where
  "commit_sending env m g mime now d =
     (if sending_conflict m (mm_rfc_id mime) d then Inl IntegrityError
      else Inr (effect_of m g mime,
                start_job (m_id m) (m_attempts m + 1) now
                  (save_message env (m_id m) (sending_fields m mime now) d)))"

definition approved :: "message \<Rightarrow> bool" where
  "approved m \<longleftrightarrow> m_approved_at m \<noteq> None \<and> m_approved_by m \<noteq> None"

text \<open>The part after the message is known to be approved, queued and due.\<close>

definition prepare_eligible ::
    "env \<Rightarrow> message \<Rightarrow> campaign \<Rightarrow> instant \<Rightarrow> db \<Rightarrow> exn + send_effect option \<times> db" where
  "prepare_eligible env m c now d =
     (case usable_connection (c_workspace c) d of
        None \<Rightarrow> bindE (pause_campaign env (c_id c) txt_gmail_not_ready d) (\<lambda>d1. Inr (None, d1))
      | Some g \<Rightarrow>
          if \<not> daily_slot_available env c now d \<or> \<not> interval_elapsed c now d then Inr (None, d)
          else case message_bytes env m c (g_email g) d of
                 Inl e \<Rightarrow>
                   bindE (stop_on_content env (m_id m) (\<lambda>t r. r\<lparr>m_error := t\<rparr>) (c_id c) e d)
                     (\<lambda>d1. Inr (None, d1))
               | Inr mime \<Rightarrow>
                   bindE (reserve_guard env m c now d) (\<lambda>(held, d1).
                     case held of
                       None \<Rightarrow> Inr (None, d1)
                     | Some m' \<Rightarrow>
                         bindE (commit_sending env m' g mime now d1) (\<lambda>(x, d2). Inr (Some x, d2))))"

definition prepare_due ::
    "env \<Rightarrow> message \<Rightarrow> campaign \<Rightarrow> instant \<Rightarrow> db \<Rightarrow> exn + send_effect option \<times> db" where
  "prepare_due env m c now d =
     (if \<not> live_sending_allowed env d
      then bindE (pause_campaign env (c_id c) txt_sending_blocked d) (\<lambda>d1. Inr (None, d1))
      else if \<not> inside_schedule env c now then Inr (None, d)
      else bindE (final_email_error env m d) (\<lambda>(err, d1).
        if err \<noteq> [] then Inr (None, mark_message_ineligible env m err now d1)
        else prepare_eligible env m c now d1))"

text \<open>A prepared message enters the queue, in memory and in its row.\<close>

definition queued :: "message \<Rightarrow> message" where
  "queued m = (if m_state m = PREPARED then m\<lparr>m_state := QUEUED\<rparr> else m)"

definition queue_row :: "env \<Rightarrow> message \<Rightarrow> db \<Rightarrow> db" where
  "queue_row env m d =
     (if m_state m = PREPARED then save_message env (m_id m) (\<lambda>r. r\<lparr>m_state := QUEUED\<rparr>) d else d)"

definition prepare_live_effect :: "env \<Rightarrow> id \<Rightarrow> instant \<Rightarrow> db \<Rightarrow> exn + send_effect option \<times> db" where
  "prepare_live_effect env k now d =
     bindE (get_message k d) (\<lambda>m.
     bindE (campaign_of_message m d) (\<lambda>c.
       if m_state m \<in> settled_states then Inr (None, d)
       else if c_state c \<noteq> C_RUNNING then Inr (None, d)
       else if m_delivery_mode m \<noteq> LIVE \<or> c_delivery_mode c \<noteq> LIVE
       then Inl (ValidationError txt_not_live)
       else if \<not> approved m
       then Inr (None, save_message env k
              (\<lambda>r. r\<lparr>m_state := REVIEW_READY, m_next_attempt_at := None, m_error := txt_needs_approval\<rparr>) d)
       else if (case m_next_attempt_at (queued m) of Some t \<Rightarrow> now < t | None \<Rightarrow> False)
       then Inr (None, queue_row env m d)
       else prepare_due env (queued m) c now (queue_row env m d)))"

end
