(* ===== verification/Confirmation.thy ===== *)
theory Confirmation
  imports Preparation
begin

text \<open>
  The second half of a delivery (\<open>campaigns/delivery.py\<close>): the last check before Gmail
  (\<open>_execute_external_effect\<close>), what is written when Gmail accepted the mail (\<open>_confirm_sent\<close>, with the
  reminder it schedules) and when it did not (\<open>_record_send_error\<close>). Each is one transaction; the
  provider call itself is in the theory \<open>Delivery\<close>.
\<close>

section \<open>What a provider answers\<close>

record send_result =
  gr_message_id :: str
  gr_thread_id :: str

text \<open>The exceptions of \<open>integrations/contracts.py\<close>, with their texts; the last one is any other \<open>ProviderError\<close>.\<close>

datatype provider_error =
  AuthenticationError str
| RateLimitError str "rat option"
| AmbiguousProviderError str
| RetryableProviderError str
| PermanentProviderError str
| ValidationProviderError str
| OtherProviderError str

fun provider_text :: "provider_error \<Rightarrow> str" where
  "provider_text (AuthenticationError t) = t"
| "provider_text (RateLimitError t r) = t"
| "provider_text (AmbiguousProviderError t) = t"
| "provider_text (RetryableProviderError t) = t"
| "provider_text (PermanentProviderError t) = t"
| "provider_text (ValidationProviderError t) = t"
| "provider_text (OtherProviderError t) = t"

fun retry_after_of :: "provider_error \<Rightarrow> rat option" where
  "retry_after_of (RateLimitError t r) = r"
| "retry_after_of _ = None"

fun is_authentication :: "provider_error \<Rightarrow> bool" where
  "is_authentication (AuthenticationError t) = True"
| "is_authentication _ = False"

fun is_rate_limit :: "provider_error \<Rightarrow> bool" where
  "is_rate_limit (RateLimitError t r) = True"
| "is_rate_limit _ = False"

section \<open>The reminder of an initial mail\<close>

definition reminder_key :: "id \<Rightarrow> str" where
  "reminder_key k = ''campaign-reminder:'' @ str_of_pk k"

definition find_reminder :: "id \<Rightarrow> db \<Rightarrow> message option" where
  "find_reminder initial d = find (\<lambda>m. m_reminder_for m = Some initial) (messages d)"

record reminder_content =
  rc_body :: str
  rc_signature :: str
  rc_content_hash :: str
  rc_error :: str

definition or_error :: "str \<Rightarrow> str \<Rightarrow> str" where
  "or_error first text = (if first \<noteq> [] then first else text)"

definition reminder_content_of :: "env \<Rightarrow> message \<Rightarrow> campaign \<Rightarrow> str \<Rightarrow> reminder_content" where
  "reminder_content_of env m c err =
     (case freeze_message_content env (m_subject m) (c_reminder_body c) (c_signature c) of
        Inr f \<Rightarrow> \<lparr>rc_body = f_rendered_body f, rc_signature = f_signature f,
                  rc_content_hash = f_content_hash f, rc_error = err\<rparr>
      | Inl e \<Rightarrow> \<lparr>rc_body = py_strip (c_reminder_body c), rc_signature = py_strip (c_signature c),
                  rc_content_hash = [], rc_error = or_error err txt_reminder_content\<rparr>)"

definition reminder_references :: "message \<Rightarrow> str list" where
  "reminder_references m = dedup (filter (\<lambda>r. r \<noteq> []) (m_references m) @ [m_message_id m])"

text \<open>State, error and next attempt of the reminder; only the last branch asks about the recipient.\<close>

definition reminder_plan ::
    "env \<Rightarrow> message \<Rightarrow> campaign \<Rightarrow> str \<Rightarrow> db \<Rightarrow> exn + (message_state \<times> str) \<times> db" where
  "reminder_plan env m c first_error d =
     (if c_state c = C_CANCELLED then Inr ((CANCELLED, txt_reminder_cancelled), d)
      else if first_error \<noteq> [] then Inr ((INELIGIBLE, first_error), d)
      else bindE (final_email_error env m d) (\<lambda>(err, d1).
        Inr (if err \<noteq> [] then (INELIGIBLE, err) else (QUEUED, []), d1)))"

definition new_reminder ::
    "env \<Rightarrow> id \<Rightarrow> message \<Rightarrow> campaign \<Rightarrow> reminder_content \<Rightarrow> instant \<Rightarrow> message_state \<Rightarrow> str \<Rightarrow> message" where
  "new_reminder env k m c content due state err =
     \<lparr>m_id = k, m_kind = CAMPAIGN_REMINDER, m_campaign = Some (c_id c), m_organization = m_organization m,
      m_enrollment = m_enrollment m, m_contact = None, m_conversation = None, m_prospect = m_prospect m,
      m_prospect_email = m_prospect_email m, m_email_address = m_email_address m,
      m_parent_inbound = None, m_sent_by = None,
      m_recipient = m_recipient m, m_recipient_normalized = m_recipient_normalized m,
      m_subject = m_subject m, m_body_text = rc_body content, m_signature = rc_signature content,
      m_content_hash = rc_content_hash content, m_content_revision = 1,
      m_last_edited_at = None, m_last_edited_by = None, m_catalog = None,
      m_catalog_version = None, m_state = state, m_delivery_mode = m_delivery_mode m,
      m_approved_at = m_approved_at m, m_approved_by = m_approved_by m,
      m_idempotency_key = reminder_key (m_id m), m_semantic_key = [], m_reminder_for = Some (m_id m), m_contact_sequence = None,
      m_message_id = deterministic_message_id env (reminder_key (m_id m)), m_in_reply_to = m_message_id m,
      m_references = reminder_references m, m_mime_sha256 = [], m_mime_size = None,
      m_gmail_message_id = [], m_gmail_thread_id = m_gmail_thread_id m, m_attempts = 0,
      m_next_attempt_at = if state = QUEUED then Some due else None, m_scheduled_for = Some due,
      m_delivery_reserved_at = None, m_sending_started_at = None, m_last_attempt_at = None,
      m_sent_at = None, m_simulated_at = None, m_error = err, m_created_at = clock env,
      m_updated_at = clock env\<rparr>"

definition new_message_conflict :: "message \<Rightarrow> db \<Rightarrow> bool" where
  "new_message_conflict m d =
     list_ex (\<lambda>o1. m_idempotency_key o1 = m_idempotency_key m
                  \<or> (m_message_id m \<noteq> [] \<and> m_message_id o1 = m_message_id m)) (messages d)"

definition reminder_enrollment_state :: "message_state \<Rightarrow> enrollment_state" where
  "reminder_enrollment_state s =
     (if s = QUEUED then E_REMINDER_DUE else if s = INELIGIBLE then E_INELIGIBLE else E_CANCELLED)"

definition wants_reminder :: "message \<Rightarrow> campaign \<Rightarrow> bool" where
  "wants_reminder m c \<longleftrightarrow> m_kind m = INITIAL \<and> m_delivery_mode m = LIVE \<and> c_reminder_enabled c"

text \<open>When the reminder is due, with the error of a campaign that has no sending window.\<close>

definition reminder_time :: "env \<Rightarrow> campaign \<Rightarrow> instant \<Rightarrow> instant \<times> str" where
  "reminder_time env c sent_at =
     (case reminder_due_at env c sent_at of Inr t \<Rightarrow> (t, []) | Inl e \<Rightarrow> (sent_at, txt_reminder_window))"

definition scheduling_error :: "message \<Rightarrow> reminder_content \<Rightarrow> str" where
  "scheduling_error m content =
     (if m_message_id m = [] \<or> m_gmail_thread_id m = []
      then or_error (rc_error content) txt_reminder_thread else rc_error content)"

definition add_reminder ::
    "env \<Rightarrow> message \<Rightarrow> campaign \<Rightarrow> reminder_content \<Rightarrow> instant \<Rightarrow> message_state \<Rightarrow> str \<Rightarrow> db \<Rightarrow> exn + id option \<times> db"
  where
  "add_reminder env m c content due state err d =
     (let (k, d1) = fresh d; r = new_reminder env k m c content due state err
      in if new_message_conflict r d then Inl DoesNotExist
         else
           let d2 = update_enrollment (m_enrollment m)
                      (\<lambda>e. e\<lparr>e_state := reminder_enrollment_state state, e_exclusion_reason := take 200 err\<rparr>)
                      (d1\<lparr>messages := messages d1 @ [r]\<rparr>)
           in Inr (Some k, record_event ''campaign.reminder_scheduled'' k None d2))"

definition schedule_reminder :: "env \<Rightarrow> message \<Rightarrow> campaign \<Rightarrow> instant \<Rightarrow> db \<Rightarrow> exn + id option \<times> db" where
  "schedule_reminder env m c sent_at d =
     (let due = fst (reminder_time env c sent_at);
          content = reminder_content_of env m c (snd (reminder_time env c sent_at))
      in bindE (reminder_plan env m c (scheduling_error m content) d) (\<lambda>((state, err), d1).
           add_reminder env m c content due state err d1))"

definition ensure_campaign_reminder :: "env \<Rightarrow> message \<Rightarrow> instant \<Rightarrow> db \<Rightarrow> exn + id option \<times> db" where
  "ensure_campaign_reminder env m sent_at d =
     (case Option.bind (m_campaign m) (\<lambda>k. t_get c_id k (campaigns d)) of
        None \<Rightarrow> Inr (None, d)
      | Some c \<Rightarrow>
          if \<not> wants_reminder m c then Inr (None, d)
          else case find_reminder (m_id m) d of
                 Some r \<Rightarrow> Inr (Some (m_id r), d)
               | None \<Rightarrow> schedule_reminder env m c sent_at d)"

section \<open>\<open>_confirm_sent\<close>\<close>

definition INITIAL_MESSAGE_KINDS :: "message_kind set" where
  "INITIAL_MESSAGE_KINDS = {FIRST_CONTACT, INITIAL}"

definition sent_fields :: "send_result \<Rightarrow> instant \<Rightarrow> message \<Rightarrow> message" where
  "sent_fields res now r =
     r\<lparr>m_state := SENT, m_gmail_message_id := gr_message_id res, m_gmail_thread_id := gr_thread_id res,
       m_sent_at := Some now, m_next_attempt_at := None, m_error := []\<rparr>"

definition confirm_enrollment :: "message \<Rightarrow> instant \<Rightarrow> db \<Rightarrow> db" where
  "confirm_enrollment m now d =
     (if m_kind m \<in> INITIAL_MESSAGE_KINDS
      then update_enrollment (m_enrollment m)
             (\<lambda>e. e\<lparr>e_state := E_INITIAL_SENT, e_initial_sent_at := Some now, e_exclusion_reason := []\<rparr>) d
      else if m_kind m = CAMPAIGN_REMINDER
      then update_enrollment (m_enrollment m)
             (\<lambda>e. e\<lparr>e_state := E_REMINDER_SENT, e_exclusion_reason := []\<rparr>) d
      else d)"

definition next_sequence_after :: "message \<Rightarrow> ledger \<Rightarrow> nat" where
  "next_sequence_after m l =
     (case m_contact_sequence m of
        Some n \<Rightarrow> (if n \<noteq> 0 then n else l_next_sequence l)
      | None \<Rightarrow> l_next_sequence l) + 1"

definition confirm_ledger :: "message \<Rightarrow> instant \<Rightarrow> db \<Rightarrow> db" where
  "confirm_ledger m now d =
     save_ledger (m_recipient_normalized m)
       (\<lambda>l. l\<lparr>l_last_sent_message := Some (m_id m), l_last_sent_at := Some now,
              l_next_sequence := next_sequence_after m l, l_reserved_message := None,
              l_reserved_at := None\<rparr>) d"

definition confirm_guard :: "message \<Rightarrow> instant \<Rightarrow> db \<Rightarrow> exn + db" where
  "confirm_guard m now d =
     (if m_kind m = FIRST_CONTACT then Inr (confirm_ledger m now d)
      else if m_kind m \<in> SAME_DAY_RESERVATION_KINDS then consume_campaign_delivery_day m now d
      else Inr d)"

definition gmail_id_taken :: "message \<Rightarrow> str \<Rightarrow> db \<Rightarrow> bool" where
  "gmail_id_taken m gid d =
     (gid \<noteq> [] \<and> list_ex (\<lambda>o1. m_id o1 \<noteq> m_id m \<and> m_gmail_message_id o1 = gid) (messages d))"

definition remind_if_initial :: "env \<Rightarrow> message \<Rightarrow> instant \<Rightarrow> db \<Rightarrow> exn + message_state \<times> db" where
  "remind_if_initial env m sent_at d =
     (if m_kind m = INITIAL
      then bindE (ensure_campaign_reminder env m sent_at d) (\<lambda>(r, d'). Inr (m_state m, d'))
      else Inr (m_state m, d))"

definition confirm_sent :: "env \<Rightarrow> id \<Rightarrow> send_result \<Rightarrow> instant \<Rightarrow> db \<Rightarrow> exn + message_state \<times> db" where
  "confirm_sent env k res now d =
     bindE (get_message k d) (\<lambda>m.
       if m_state m = SENT
       then remind_if_initial env m (case m_sent_at m of Some t \<Rightarrow> t | None \<Rightarrow> now) d
       else if m_state m \<notin> {SENDING, RECONCILING} then Inl (ValidationError txt_not_reconcilable)
       else if gmail_id_taken m (gr_message_id res) d then Inl IntegrityError
       else
         let m' = sent_fields res now m; d1 = save_message env k (sent_fields res now) d
         in bindE (confirm_guard m' now (confirm_enrollment m' now d1)) (\<lambda>d2.
              remind_if_initial env m' now
                (record_event ''message.sent'' k None
                  (update_jobs (deliver_key k)
                    (\<lambda>j. j\<lparr>j_state := J_SUCCEEDED, j_finished_at := Some now,
                           j_heartbeat_at := Some now, j_error := []\<rparr>) d2))))"

section \<open>\<open>_execute_external_effect\<close>: the last check\<close>

datatype decision = Stopped message_state | Call_Provider message_kind

definition connection_still_ready :: "gmail_connection \<Rightarrow> bool" where
  "connection_still_ready g \<longleftrightarrow>
     g_status g = CONNECTED \<and> g_last_tested_at g \<noteq> None \<and> g_refresh_token g \<noteq> []
     \<and> set (g_scopes g) = set GMAIL_SCOPES"

definition effect_connection :: "send_effect \<Rightarrow> campaign \<Rightarrow> db \<Rightarrow> gmail_connection option" where
  "effect_connection x c d =
     find (\<lambda>g. g_id g = x_connection x \<and> g_workspace g = c_workspace c) (connections d)"

definition effect_changed :: "send_effect \<Rightarrow> message \<Rightarrow> bool" where
  "effect_changed x m \<longleftrightarrow>
     m_message_id m \<noteq> x_rfc_id x \<or> m_recipient m \<noteq> x_recipient x
     \<or> m_recipient_normalized m \<noteq> x_recipient_normalized x
     \<or> m_idempotency_key m \<noteq> x_idempotency_key x \<or> m_kind m \<noteq> x_kind x \<or> m_gmail_thread_id m \<noteq> x_thread x"

definition verify_effect :: "env \<Rightarrow> send_effect \<Rightarrow> message \<Rightarrow> db \<Rightarrow> exn + unit" where
  "verify_effect env x m d =
     bindE (message_attachments env m d) (\<lambda>_.
       if effect_changed x m then Inl (ValidationError txt_content_changed) else Inr ())"

definition stop_message :: "env \<Rightarrow> message \<Rightarrow> message_state \<Rightarrow> str \<Rightarrow> db \<Rightarrow> db" where
  "stop_message env m state err d =
     save_message env (m_id m)
       (\<lambda>r. r\<lparr>m_state := state, m_error := err, m_delivery_reserved_at := None,
              m_sending_started_at := None\<rparr>)
       (release_delivery_guard m (clock env) d)"

definition may_call_provider ::
    "env \<Rightarrow> message \<Rightarrow> campaign \<Rightarrow> gmail_connection option \<Rightarrow> db \<Rightarrow> bool" where
  "may_call_provider env m c g d \<longleftrightarrow>
     c_state c = C_RUNNING \<and> m_delivery_mode m = LIVE \<and> c_delivery_mode c = LIVE \<and> approved m
     \<and> live_sending_allowed env d \<and> (case g of None \<Rightarrow> False | Some x \<Rightarrow> connection_still_ready x)"

definition decide_effect ::
    "env \<Rightarrow> send_effect \<Rightarrow> message \<Rightarrow> campaign \<Rightarrow> db \<Rightarrow> exn + decision \<times> db" where
  "decide_effect env x m c d =
     (let g = effect_connection x c d
      in case (if g = None then Inr () else verify_effect env x m d) of
           Inl e \<Rightarrow>
             if is_validation_error e
             then
               let reason = redact env (exn_str e);
                   d1 = stop_message env m QUEUED reason d;
                   d2 = update_jobs (deliver_key (m_id m))
                          (\<lambda>j. j\<lparr>j_state := J_CANCELLED, j_finished_at := Some (clock env),
                                 j_error := reason\<rparr>) d1
               in bindE (pause_campaign env (c_id c) reason d2) (\<lambda>d3. Inr (Stopped QUEUED, d3))
             else Inl e
         | Inr _ \<Rightarrow>
             if may_call_provider env m c g d then Inr (Call_Provider (m_kind m), d)
             else if c_state c = C_CANCELLED
             then Inr (Stopped CANCELLED, stop_message env m CANCELLED txt_cancelled_before_effect d)
             else Inr (Stopped QUEUED, stop_message env m QUEUED txt_stopped_before_effect d))"

definition authorize_effect :: "env \<Rightarrow> send_effect \<Rightarrow> db \<Rightarrow> exn + decision \<times> db" where
  "authorize_effect env x d =
     bindE (get_message (x_message x) d) (\<lambda>m.
       if m_state m \<noteq> SENDING then Inr (Stopped (m_state m), d)
       else case m_campaign m of
         None \<Rightarrow> Inr (Stopped (ineligible_state (m_kind m)),
                    mark_message_ineligible env m txt_lost_campaign (clock env) d)
       | Some camp \<Rightarrow>
           bindE (get_campaign camp d) (\<lambda>c.
             if \<not> approved m
             then Inr (Stopped REVIEW_READY, stop_message env m REVIEW_READY txt_needs_approval d)
             else
               bindE (final_email_error env m d) (\<lambda>(err, d1).
                 if err \<noteq> []
                 then Inr (Stopped (ineligible_state (m_kind m)),
                           mark_message_ineligible env m err (clock env) d1)
                 else decide_effect env x m c d1)))"

section \<open>\<open>_record_send_error\<close>\<close>

definition MAX_SEND_ATTEMPTS :: nat where "MAX_SEND_ATTEMPTS = 3"

text \<open>State and next attempt after a failed call.\<close>

definition error_outcome ::
    "provider_error \<Rightarrow> instant \<Rightarrow> bool \<Rightarrow> bool \<Rightarrow> nat \<Rightarrow> message_state \<times> instant option" where
  "error_outcome err now ambiguous permanent attempts =
     (if permanent then (SEND_FAILED, None)
      else if ambiguous then (RECONCILING, Some (now + backoff attempts None))
      else if MAX_SEND_ATTEMPTS \<le> attempts then (SEND_FAILED, None)
      else (QUEUED, Some (now + backoff attempts (retry_after_of err))))"

definition break_connection :: "id option \<Rightarrow> str \<Rightarrow> db \<Rightarrow> db" where
  "break_connection ws text d =
     d\<lparr>connections := t_update (\<lambda>g. Some (g_workspace g) = ws)
         (\<lambda>g. g\<lparr>g_status := CONN_ERROR, g_error := text\<rparr>) (connections d)\<rparr>"

definition campaign_or_none :: "message \<Rightarrow> db \<Rightarrow> campaign option" where
  "campaign_or_none m d = Option.bind (m_campaign m) (\<lambda>k. t_get c_id k (campaigns d))"

text \<open>The row and the job, before anything is paused.\<close>

definition after_error ::
    "env \<Rightarrow> message \<Rightarrow> message_state \<Rightarrow> instant option \<Rightarrow> instant \<Rightarrow> str \<Rightarrow> db \<Rightarrow> db" where
  "after_error env m state next_attempt now text d =
     update_jobs (deliver_key (m_id m))
       (\<lambda>j. j\<lparr>j_state := if state = SEND_FAILED then J_FAILED else J_RETRY_WAIT,
              j_next_retry_at := next_attempt, j_heartbeat_at := Some now,
              j_finished_at := if state = SEND_FAILED then Some now else None, j_error := text\<rparr>)
       (save_message env (m_id m)
         (\<lambda>r. r\<lparr>m_state := state, m_next_attempt_at := next_attempt, m_error := text\<rparr>)
         (if state = SEND_FAILED then release_delivery_guard m now d else d))"

definition threshold_after_error ::
    "env \<Rightarrow> message \<Rightarrow> message_state \<Rightarrow> bool \<Rightarrow> db \<Rightarrow> exn + bool \<times> db" where
  "threshold_after_error env m state pause d =
     (case m_campaign m of
        Some camp \<Rightarrow>
          if state = SEND_FAILED
          then bindE (pause_if_failure_threshold_reached env camp d) (\<lambda>(b, d'). Inr (b \<or> pause, d'))
          else Inr (pause, d)
      | None \<Rightarrow> Inr (pause, d))"

definition pause_after_error :: "env \<Rightarrow> campaign option \<Rightarrow> bool \<Rightarrow> str \<Rightarrow> db \<Rightarrow> exn + db" where
  "pause_after_error env c pause text d =
     (case c of
        Some c' \<Rightarrow> if pause \<and> c_state c' = C_RUNNING then pause_campaign env (c_id c') text d else Inr d
      | None \<Rightarrow> Inr d)"

definition record_send_error ::
    "env \<Rightarrow> id \<Rightarrow> provider_error \<Rightarrow> instant \<Rightarrow> bool \<Rightarrow> bool \<Rightarrow> bool \<Rightarrow> db \<Rightarrow> exn + message_state \<times> db" where
  "record_send_error env k err now ambiguous pause permanent d =
     bindE (get_message k d) (\<lambda>m.
       if m_state m = SENT then Inr (m_state m, d)
       else
         let c = campaign_or_none m d;
             text = redact env (provider_text err);
             (state, next_attempt) = error_outcome err now ambiguous permanent (m_attempts m);
             d1 = after_error env m state next_attempt now text d;
             d2 = (if is_authentication err then break_connection (map_option c_workspace c) text d1 else d1)
         in bindE (threshold_after_error env m state
                     (pause \<or> (state = SEND_FAILED \<and> is_rate_limit err)) d2) (\<lambda>(pause', d3).
            bindE (pause_after_error env c pause' text d3) (\<lambda>d4. Inr (state, d4))))"

end
