(* ===== verification/Delivery.thy ===== *)
theory Delivery
  imports Confirmation
begin

text \<open>
  The delivery worker (\<open>campaigns/delivery.py\<close>, called by the tasks of \<open>mailbox/tasks.py\<close>): one message
  through its transactions and the provider, reconciliation, the queue, the operator's retry and the
  completion of a drained campaign. The provider is a parameter; the repository's own
  \<open>FakeGmailProvider\<close> (\<open>integrations/fakes.py\<close>) is an instance of its interface.

  An operation that commits several transactions returns the last committed database beside its result or
  exception; the state of the provider is never rolled back.
\<close>

section \<open>The provider\<close>

record send_request =
  q_recipient :: str
  q_raw :: str
  q_message_id :: str
  q_thread_id :: str
  q_correlation_id :: str
  q_idempotency_key :: str

text \<open>A provider call fails with a \<open>ProviderError\<close> or raises an exception the callers do not catch.\<close>

datatype provider_failure = Failed provider_error | Crashed exn

record 'p gmail =
  pv_send :: "send_request \<Rightarrow> 'p \<Rightarrow> (provider_failure + send_result) \<times> 'p"
  pv_reply :: "send_request \<Rightarrow> 'p \<Rightarrow> (provider_failure + send_result) \<times> 'p"
  pv_find :: "str \<Rightarrow> 'p \<Rightarrow> (provider_failure + send_result option) \<times> 'p"

type_synonym ('a, 'p) outcome = "(exn + 'a) \<times> db \<times> 'p"

definition commit :: "exn + 'a \<times> db \<Rightarrow> db \<Rightarrow> 'p \<Rightarrow> ('a, 'p) outcome" where
  "commit r d p = (case r of Inl e \<Rightarrow> (Inl e, d, p) | Inr (a, d') \<Rightarrow> (Inr a, d', p))"

section \<open>One delivery\<close>

definition request_of :: "send_effect \<Rightarrow> send_request" where
  "request_of x =
     \<lparr>q_recipient = x_recipient x, q_raw = x_raw x, q_message_id = x_rfc_id x, q_thread_id = x_thread x,
      q_correlation_id = str_of_pk (x_message x), q_idempotency_key = x_idempotency_key x\<rparr>"

definition call_provider ::
    "'p gmail \<Rightarrow> message_kind \<Rightarrow> send_effect \<Rightarrow> 'p \<Rightarrow> (provider_failure + send_result) \<times> 'p" where
  "call_provider G kind x p =
     (if kind = CAMPAIGN_REMINDER then pv_reply G (request_of x) p else pv_send G (request_of x) p)"

datatype effect_result =
  Not_Sent message_state | Was_Sent send_result | Provider_Failed provider_error | Raised exn

text \<open>An exception of the provider leaves the transaction, which is rolled back.\<close>

definition execute_external_effect ::
    "env \<Rightarrow> 'p gmail \<Rightarrow> send_effect \<Rightarrow> db \<Rightarrow> 'p \<Rightarrow> effect_result \<times> db \<times> 'p" where
  "execute_external_effect env G x d p =
     (case authorize_effect env x d of
        Inl e \<Rightarrow> (Raised e, d, p)
      | Inr (Stopped s, d') \<Rightarrow> (Not_Sent s, d', p)
      | Inr (Call_Provider kind, d') \<Rightarrow>
          (case call_provider G kind x p of
             (Inl (Failed err), p') \<Rightarrow> (Provider_Failed err, d, p')
           | (Inl (Crashed e), p') \<Rightarrow> (Raised e, d, p')
           | (Inr res, p') \<Rightarrow> (Was_Sent res, d', p')))"

text \<open>The arguments \<open>ambiguous\<close>, \<open>pause\<close> and \<open>permanent\<close> of each \<open>except\<close> clause.\<close>

fun delivery_flags :: "provider_error \<Rightarrow> bool \<times> bool \<times> bool" where
  "delivery_flags (AuthenticationError t) = (False, True, False)"
| "delivery_flags (RateLimitError t r) = (False, False, False)"
| "delivery_flags (AmbiguousProviderError t) = (True, False, False)"
| "delivery_flags (RetryableProviderError t) = (True, False, False)"
| "delivery_flags (PermanentProviderError t) = (False, True, True)"
| "delivery_flags (ValidationProviderError t) = (False, True, True)"
| "delivery_flags (OtherProviderError t) = (True, True, False)"

fun reconcile_flags :: "provider_error \<Rightarrow> bool \<times> bool \<times> bool" where
  "reconcile_flags (AuthenticationError t) = (True, True, False)"
| "reconcile_flags (PermanentProviderError t) = (True, True, False)"
| "reconcile_flags (ValidationProviderError t) = (True, True, False)"
| "reconcile_flags (RateLimitError t r) = (True, False, False)"
| "reconcile_flags (AmbiguousProviderError t) = (True, False, False)"
| "reconcile_flags (RetryableProviderError t) = (True, False, False)"
| "reconcile_flags (OtherProviderError t) = (True, True, False)"

definition record_error ::
    "env \<Rightarrow> id \<Rightarrow> provider_error \<Rightarrow> instant \<Rightarrow> bool \<times> bool \<times> bool \<Rightarrow> db \<Rightarrow> exn + message_state \<times> db" where
  "record_error env k err now flags d =
     (case flags of (ambiguous, pause, permanent) \<Rightarrow>
        record_send_error env k err now ambiguous pause permanent d)"

definition finish_delivery ::
    "env \<Rightarrow> send_effect \<Rightarrow> instant \<Rightarrow> effect_result \<times> db \<times> 'p \<Rightarrow> (message_state, 'p) outcome" where
  "finish_delivery env x now = (\<lambda>(res, d, p).
     case res of
       Raised e \<Rightarrow> (Inl e, d, p)
     | Not_Sent s \<Rightarrow> (Inr s, d, p)
     | Provider_Failed err \<Rightarrow> commit (record_error env (x_message x) err now (delivery_flags err) d) d p
     | Was_Sent r \<Rightarrow> commit (confirm_sent env (x_message x) r now d) d p)"

definition CAMPAIGN_DELIVERY_KINDS :: "message_kind set" where
  "CAMPAIGN_DELIVERY_KINDS = insert CAMPAIGN_REMINDER INITIAL_MESSAGE_KINDS"

definition state_of_message :: "id \<Rightarrow> db \<Rightarrow> exn + message_state" where
  "state_of_message k d = bindE (get_message k d) (\<lambda>m. Inr (m_state m))"

definition deliver_live :: "env \<Rightarrow> 'p gmail \<Rightarrow> id \<Rightarrow> instant \<Rightarrow> db \<Rightarrow> 'p \<Rightarrow> (message_state, 'p) outcome" where
  "deliver_live env G k now d p =
     (case prepare_live_effect env k now d of
        Inl e \<Rightarrow> (Inl e, d, p)
      | Inr (None, d1) \<Rightarrow> (state_of_message k d1, d1, p)
      | Inr (Some x, d1) \<Rightarrow>
          if t_get g_id (x_connection x) (connections d1) = None then (Inl DoesNotExist, d1, p)
          else finish_delivery env x now (execute_external_effect env G x d1 p))"

definition deliver_message ::
    "env \<Rightarrow> 'p gmail \<Rightarrow> id \<Rightarrow> instant \<Rightarrow> db \<Rightarrow> 'p \<Rightarrow> (message_state, 'p) outcome" where
  "deliver_message env G k now d p =
     (case get_message k d of
        Inl e \<Rightarrow> (Inl e, d, p)
      | Inr m \<Rightarrow>
          if m_kind m \<notin> CAMPAIGN_DELIVERY_KINDS
          then (Inl (ValidationError (if m_kind m = MANUAL_REPLY then txt_manual_reply_kind
                                      else txt_other_kind)), d, p)
          else (case m_delivery_mode m of
                  REVIEW_ONLY \<Rightarrow> commit (complete_review_only env k d) d p
                | DRY_RUN \<Rightarrow> commit (complete_dry_run env k now d) d p
                | LIVE \<Rightarrow> deliver_live env G k now d p))"

section \<open>Reconciliation\<close>

definition absence_outcome :: "campaign \<Rightarrow> message \<Rightarrow> instant \<Rightarrow> message_state \<times> instant option \<times> str" where
  "absence_outcome c m now =
     (if c_state c = C_CANCELLED then (CANCELLED, None, txt_cancelled_absent)
      else if MAX_SEND_ATTEMPTS \<le> m_attempts m then (SEND_FAILED, None, txt_absent_exhausted)
      else (QUEUED, Some (now + backoff (m_attempts m) None), txt_absent_retry))"

definition record_absence :: "env \<Rightarrow> id \<Rightarrow> instant \<Rightarrow> db \<Rightarrow> exn + message_state \<times> db" where
  "record_absence env k now d =
     bindE (get_message k d) (\<lambda>m.
       if m_state m \<notin> {SENDING, RECONCILING} then Inr (m_state m, d)
       else case m_campaign m of
         None \<Rightarrow> Inl (ValidationError txt_lost_campaign_reconciling)
       | Some camp \<Rightarrow>
           bindE (get_campaign camp d) (\<lambda>c.
             let (state, next_attempt, err) = absence_outcome c m now;
                 d1 = (if state = QUEUED then d else release_delivery_guard m now d);
                 d2 = save_message env k
                        (\<lambda>r. r\<lparr>m_state := state, m_next_attempt_at := next_attempt, m_error := err\<rparr>) d1;
                 d3 = update_jobs (deliver_key k)
                        (\<lambda>j. j\<lparr>j_state := if state = SEND_FAILED then J_FAILED else J_RETRY_WAIT,
                               j_next_retry_at := next_attempt, j_heartbeat_at := Some now,
                               j_finished_at := if state = SEND_FAILED then Some now else None,
                               j_error := err\<rparr>) d2
             in if state = SEND_FAILED
                then bindE (pause_if_failure_threshold_reached env camp d3) (\<lambda>(b, d4). Inr (state, d4))
                else Inr (state, d3)))"

definition reconcile_message ::
    "env \<Rightarrow> 'p gmail \<Rightarrow> id \<Rightarrow> instant \<Rightarrow> db \<Rightarrow> 'p \<Rightarrow> (message_state, 'p) outcome" where
  "reconcile_message env G k now d p =
     (case bindE (get_message k d) (\<lambda>m. bindE (campaign_of_message m d) (\<lambda>c. Inr (m, c))) of
        Inl e \<Rightarrow> (Inl e, d, p)
      | Inr (m, c) \<Rightarrow>
          if m_delivery_mode m \<noteq> LIVE \<or> c_delivery_mode c \<noteq> LIVE
          then (Inl (ValidationError txt_only_live), d, p)
          else if m_state m \<notin> {SENDING, RECONCILING} then (Inr (m_state m), d, p)
          else if workspace_connection (c_workspace c) d = None then (Inl DoesNotExist, d, p)
          else case pv_find G (m_message_id m) p of
                 (Inl (Failed err), p') \<Rightarrow> commit (record_error env k err now (reconcile_flags err) d) d p'
               | (Inl (Crashed e), p') \<Rightarrow> (Inl e, d, p')
               | (Inr (Some res), p') \<Rightarrow> commit (confirm_sent env k res now d) d p'
               | (Inr None, p') \<Rightarrow> commit (record_absence env k now d) d p')"

section \<open>The queue\<close>

definition queue_candidate_is_ready :: "env \<Rightarrow> id \<Rightarrow> instant \<Rightarrow> db \<Rightarrow> exn + bool \<times> db" where
  "queue_candidate_is_ready env k now d =
     bindE (get_message k d) (\<lambda>m.
       case campaign_or_none m d of
         None \<Rightarrow> Inr (False, d)
       | Some c \<Rightarrow>
           if c_state c \<noteq> C_RUNNING \<or> m_state m \<notin> {PREPARED, QUEUED} then Inr (False, d)
           else
             bindE (final_email_error env m d) (\<lambda>(err, d1).
               if err \<noteq> [] then Inr (False, mark_message_ineligible env m err now d1)
               else case message_attachments env m d1 of
                      Inr pdfs \<Rightarrow> Inr (True, d1)
                    | Inl e \<Rightarrow>
                        bindE (stop_on_content env k (\<lambda>t r. r\<lparr>m_error := t\<rparr>) (c_id c) e d1)
                          (\<lambda>d2. Inr (False, d2))))"

definition campaign_running_mode :: "message \<Rightarrow> db \<Rightarrow> bool" where
  "campaign_running_mode m d =
     (case campaign_or_none m d of
        None \<Rightarrow> False
      | Some c \<Rightarrow> c_state c = C_RUNNING \<and> m_delivery_mode m = c_delivery_mode c)"

definition ready_for_delivery :: "message \<Rightarrow> bool" where
  "ready_for_delivery m \<longleftrightarrow> m_delivery_mode m = DRY_RUN \<or> (m_delivery_mode m = LIVE \<and> approved m)"

definition is_due :: "instant \<Rightarrow> message \<Rightarrow> bool" where
  "is_due now m = (case m_next_attempt_at m of None \<Rightarrow> True | Some t \<Rightarrow> t \<le> now)"

definition pending_candidate :: "instant \<Rightarrow> db \<Rightarrow> message \<Rightarrow> bool" where
  "pending_candidate now d m \<longleftrightarrow>
     m_kind m \<in> CAMPAIGN_DELIVERY_KINDS \<and> campaign_running_mode m d \<and> m_state m \<in> {PREPARED, QUEUED}
     \<and> m_delivery_mode m \<noteq> REVIEW_ONLY \<and> ready_for_delivery m \<and> is_due now m"

text \<open>\<open>ORDER BY next_attempt_at, created_at\<close>; a missing next attempt comes last, as PostgreSQL orders it.\<close>

definition pending_order :: "message \<Rightarrow> bool \<times> int \<times> int" where
  "pending_order m =
     (case m_next_attempt_at m of
        None \<Rightarrow> (True, 0, m_created_at m) | Some t \<Rightarrow> (False, t, m_created_at m))"

fun ready_ids :: "env \<Rightarrow> instant \<Rightarrow> id list \<Rightarrow> db \<Rightarrow> (exn + id list) \<times> db" where
  "ready_ids env now [] d = (Inr [], d)"
| "ready_ids env now (k # ks) d =
     (case queue_candidate_is_ready env k now d of
        Inl e \<Rightarrow> (Inl e, d)
      | Inr (b, d1) \<Rightarrow>
          (case ready_ids env now ks d1 of
             (Inl e, d2) \<Rightarrow> (Inl e, d2)
           | (Inr ids, d2) \<Rightarrow> (Inr (if b then k # ids else ids), d2)))"

definition pending_message_ids :: "env \<Rightarrow> instant \<Rightarrow> db \<Rightarrow> (exn + id list) \<times> db" where
  "pending_message_ids env now d =
     ready_ids env now (map m_id (sort_key pending_order (filter (pending_candidate now d) (messages d)))) d"

definition STALE_SENDING_AFTER :: int where "STALE_SENDING_AFTER = 2 * minute"

definition recoverable_base :: "db \<Rightarrow> message \<Rightarrow> bool" where
  "recoverable_base d m \<longleftrightarrow>
     m_kind m \<in> CAMPAIGN_DELIVERY_KINDS \<and> m_delivery_mode m = LIVE
     \<and> map_option c_delivery_mode (campaign_or_none m d) = Some LIVE \<and> approved m"

definition recoverable_message_ids :: "instant \<Rightarrow> db \<Rightarrow> id list" where
  "recoverable_message_ids now d =
     map m_id (filter (\<lambda>m. recoverable_base d m \<and> m_state m = SENDING
                \<and> (case m_sending_started_at m of None \<Rightarrow> False | Some t \<Rightarrow> t \<le> now - STALE_SENDING_AFTER))
          (messages d))
     @ map m_id (filter (\<lambda>m. recoverable_base d m \<and> m_state m = RECONCILING
                \<and> (case m_next_attempt_at m of None \<Rightarrow> False | Some t \<Rightarrow> t \<le> now)) (messages d))"

section \<open>The operator's retry\<close>

definition retry_failed_message :: "env \<Rightarrow> id \<Rightarrow> id \<Rightarrow> str \<Rightarrow> db \<Rightarrow> exn + db" where
  "retry_failed_message env k actor reason d =
     bindE (get_message k d) (\<lambda>m.
     bindE (campaign_of_message m d) (\<lambda>c.
     bindE (require_user_capability d actor RETRY_JOBS (Some (c_workspace c))) (\<lambda>_.
       if m_state m \<noteq> SEND_FAILED then Inl (ValidationError txt_retry_state)
       else if m_gmail_message_id m \<noteq> [] then Inl (ValidationError txt_retry_confirmed)
       else if c_state c \<notin> {C_RUNNING, C_PAUSED} then Inl (ValidationError txt_retry_closed)
       else if length (collapse_spaces reason) < 10 then Inl (ValidationError txt_retry_reason)
       else
         bindE (final_email_error env m d) (\<lambda>(err, d1).
           if err \<noteq> [] then Inl (ValidationError err)
           else
             bindE (message_attachments env m d1) (\<lambda>_.
               let requires_approval = (m_delivery_mode m = LIVE \<and> \<not> approved m);
                   next_attempt = (if requires_approval then None else Some (clock env));
                   d2 = save_message env k
                          (\<lambda>r. r\<lparr>m_state := if requires_approval then REVIEW_READY else QUEUED,
                                 m_attempts := 0, m_next_attempt_at := next_attempt,
                                 m_delivery_reserved_at := None, m_sending_started_at := None,
                                 m_error := []\<rparr>) d1;
                   d3 = update_jobs (deliver_key k)
                          (\<lambda>j. j\<lparr>j_state := if requires_approval then J_CANCELLED else J_RETRY_WAIT,
                                 j_attempts := 0, j_next_retry_at := next_attempt,
                                 j_finished_at := if requires_approval then Some (clock env) else None,
                                 j_error := if requires_approval then txt_retry_approval else []\<rparr>) d2
               in Inr (record_event ''message.retry_requested'' k (Some actor) d3))))))"

section \<open>Completing a drained campaign\<close>

definition unreminded_initials :: "id \<Rightarrow> db \<Rightarrow> message list" where
  "unreminded_initials camp d =
     filter (\<lambda>m. m_campaign m = Some camp \<and> m_kind m = INITIAL \<and> m_state m = SENT
               \<and> find_reminder (m_id m) d = None) (rev (messages d))"

definition remind :: "env \<Rightarrow> message \<Rightarrow> db \<Rightarrow> exn + db" where
  "remind env m d =
     bindE (ensure_campaign_reminder env m (case m_sent_at m of Some t \<Rightarrow> t | None \<Rightarrow> clock env) d)
       (\<lambda>(r, d'). Inr d')"

definition active_message_states :: "delivery_mode \<Rightarrow> message_state set" where
  "active_message_states mode =
     {PREPARED, QUEUED, SENDING, RECONCILING} \<union> (if mode = LIVE then {REVIEW_READY} else {})"

definition has_active_messages :: "campaign \<Rightarrow> db \<Rightarrow> bool" where
  "has_active_messages c d =
     list_ex (\<lambda>m. m_campaign m = Some (c_id c) \<and> m_kind m \<in> CAMPAIGN_DELIVERY_KINDS
                \<and> m_state m \<in> active_message_states (c_delivery_mode c)) (messages d)"

definition has_unfinished_prospects :: "id \<Rightarrow> db \<Rightarrow> bool" where
  "has_unfinished_prospects camp d =
     list_ex (\<lambda>p. p_campaign p = camp
                \<and> (p_pipeline_state p \<in> {P_DISCOVERED, P_EMAIL_FOUND, P_ENRICHED, P_ANALYZED}
                   \<or> p_reservation_key p \<noteq> [])) (prospects d)"

definition has_retrying_analysis :: "id \<Rightarrow> db \<Rightarrow> bool" where
  "has_retrying_analysis camp d =
     list_ex (\<lambda>a. an_status a = A_RETRY_WAIT
                \<and> (case t_get p_id (an_prospect a) (prospects d) of
                     None \<Rightarrow> False
                   | Some p \<Rightarrow> p_campaign p = camp \<and> an_generation a = p_analysis_generation p))
       (analyses d)"

definition complete_campaign_if_drained :: "env \<Rightarrow> id \<Rightarrow> db \<Rightarrow> exn + bool \<times> db" where
  "complete_campaign_if_drained env camp d =
     bindE (get_campaign camp d) (\<lambda>c.
       if c_state c \<noteq> C_RUNNING \<or> c_discovery c \<notin> TERMINAL_DISCOVERY_STATES then Inr (False, d)
       else
         bindE (if c_reminder_enabled c \<and> c_delivery_mode c = LIVE
                then foldE (remind env) (unreminded_initials camp d) d else Inr d) (\<lambda>d1.
           if has_active_messages c d1 \<or> has_unfinished_prospects camp d1 \<or> has_retrying_analysis camp d1
           then Inr (False, d1)
           else bindE (transition_campaign env camp C_COMPLETED None [] d1) (\<lambda>(c', d2). Inr (True, d2))))"

fun complete_campaigns :: "env \<Rightarrow> id list \<Rightarrow> db \<Rightarrow> (exn + nat) \<times> db" where
  "complete_campaigns env [] d = (Inr 0, d)"
| "complete_campaigns env (k # ks) d =
     (case complete_campaign_if_drained env k d of
        Inl e \<Rightarrow> (Inl e, d)
      | Inr (b, d1) \<Rightarrow>
          (case complete_campaigns env ks d1 of
             (Inl e, d2) \<Rightarrow> (Inl e, d2)
           | (Inr n, d2) \<Rightarrow> (Inr (if b then n + 1 else n), d2)))"

definition complete_drained_campaigns :: "env \<Rightarrow> db \<Rightarrow> (exn + nat) \<times> db" where
  "complete_drained_campaigns env d =
     complete_campaigns env
       (map c_id (filter (\<lambda>c. c_state c = C_RUNNING \<and> c_discovery c \<in> TERMINAL_DISCOVERY_STATES)
          (rev (campaigns d)))) d"

end
