(* ===== verification/Progress.thy ===== *)
theory Progress
  imports Delivery
begin

text \<open>
  What every delivery operation keeps: the unique constraints of the tables it writes, and the relation
  \<open>progress\<close> between the database before and after it. A message keeps what identifies it and its
  approval, a sent message stays as it is, the only new messages are reminders, a campaign is at most
  paused or completed, and the tables that restrict sending are not written at all.
\<close>

section \<open>The relation\<close>

definition same_identity :: "message \<Rightarrow> message \<Rightarrow> bool" where
  "same_identity m m' \<longleftrightarrow>
     m_id m' = m_id m \<and> m_kind m' = m_kind m \<and> m_campaign m' = m_campaign m
     \<and> m_recipient m' = m_recipient m \<and> m_recipient_normalized m' = m_recipient_normalized m
     \<and> m_subject m' = m_subject m \<and> m_body_text m' = m_body_text m
     \<and> m_delivery_mode m' = m_delivery_mode m \<and> m_idempotency_key m' = m_idempotency_key m
     \<and> m_reminder_for m' = m_reminder_for m \<and> m_approved_at m' = m_approved_at m
     \<and> m_approved_by m' = m_approved_by m"

definition same_outcome :: "message \<Rightarrow> message \<Rightarrow> bool" where
  "same_outcome m m' \<longleftrightarrow>
     m_state m' = m_state m \<and> m_message_id m' = m_message_id m
     \<and> m_gmail_message_id m' = m_gmail_message_id m \<and> m_gmail_thread_id m' = m_gmail_thread_id m
     \<and> m_sent_at m' = m_sent_at m"

text \<open>\<open>K\<close> holds the keys of the messages the operation is about; every other row keeps its state.\<close>

definition evolves :: "id set \<Rightarrow> message \<Rightarrow> message \<Rightarrow> bool" where
  "evolves K m m' \<longleftrightarrow>
     same_identity m m' \<and> (m_message_id m \<noteq> [] \<longrightarrow> m_message_id m' = m_message_id m)
     \<and> (m_state m = SENT \<or> m_id m \<notin> K \<longrightarrow> same_outcome m m')"

definition same_keys :: "message \<Rightarrow> message \<Rightarrow> bool" where
  "same_keys m m' \<longleftrightarrow> m_message_id m' = m_message_id m \<and> m_gmail_message_id m' = m_gmail_message_id m"

definition messages_grow :: "id set \<Rightarrow> message list \<Rightarrow> message list \<Rightarrow> bool" where
  "messages_grow K ms ms' \<longleftrightarrow>
     (\<exists>old new. ms' = old @ new \<and> list_all2 (evolves K) ms old \<and> (\<forall>r \<in> set new. m_kind r = CAMPAIGN_REMINDER))"

definition campaign_settles :: "campaign \<Rightarrow> campaign \<Rightarrow> bool" where
  "campaign_settles c c' \<longleftrightarrow>
     (\<exists>s r f. c' = c\<lparr>c_state := s, c_status_reason := r, c_finished_at := f\<rparr>)
     \<and> (c_state c' = c_state c \<or> c_state c = C_RUNNING \<and> c_state c' \<in> {C_PAUSED, C_COMPLETED})"

definition static_tables where
  "static_tables d =
     (suppressions d, restrictions d, contacts d, attachments d, catalogs d, storage d,
      send_mode_settings d, workspace_pk d, memberships d)"

text \<open>The constraints of \<open>OutboundMessage\<close>: primary key and four unique fields.\<close>

definition message_keys_ok :: "db \<Rightarrow> bool" where
  "message_keys_ok d \<longleftrightarrow>
     distinct (map m_id (messages d)) \<and> (\<forall>m \<in> set (messages d). m_id m < next_id d)
     \<and> distinct (map m_idempotency_key (messages d))
     \<and> unique_on (\<lambda>m. m_message_id m \<noteq> []) m_message_id (messages d)
     \<and> unique_on (\<lambda>m. m_gmail_message_id m \<noteq> []) m_gmail_message_id (messages d)
     \<and> unique_on (\<lambda>m. m_reminder_for m \<noteq> None) m_reminder_for (messages d)"

definition delivery_ok :: "db \<Rightarrow> bool" where
  "delivery_ok d \<longleftrightarrow> message_keys_ok d \<and> campaign_keys_ok d \<and> running_approved d \<and> reservations_ok d
     \<and> ledgers_ok d"

definition progress :: "id set \<Rightarrow> db \<Rightarrow> db \<Rightarrow> bool" where
  "progress K d d' \<longleftrightarrow>
     (delivery_ok d \<longrightarrow>
        delivery_ok d' \<and> messages_grow K (messages d) (messages d')
        \<and> list_all2 campaign_settles (campaigns d) (campaigns d')
        \<and> static_tables d' = static_tables d \<and> next_id d \<le> next_id d')"

section \<open>It is a preorder\<close>

lemma list_all2_mem2:
  assumes "list_all2 P xs ys" "y \<in> set ys"
  obtains x where "x \<in> set xs" "P x y"
  using assms by (induction rule: list_all2_induct) auto

lemma same_identity_refl [simp]: "same_identity m m" by (simp add: same_identity_def)
lemma same_outcome_refl [simp]: "same_outcome m m" by (simp add: same_outcome_def)
lemma evolves_refl [simp]: "evolves K m m" by (simp add: evolves_def)
lemma same_keys_refl [simp]: "same_keys m m" by (simp add: same_keys_def)

lemma campaign_settles_refl [simp]: "campaign_settles c c"
  unfolding campaign_settles_def
  by (intro conjI exI [of _ "c_state c"] exI [of _ "c_status_reason c"] exI [of _ "c_finished_at c"]) simp_all

lemma evolves_trans: "evolves K a b \<Longrightarrow> evolves K b c \<Longrightarrow> evolves K a c"
  by (auto simp: evolves_def same_identity_def same_outcome_def)

lemma campaign_settles_trans:
  assumes "campaign_settles a b" "campaign_settles b c"
  shows "campaign_settles a c"
proof -
  from assms obtain s r f s' r' f' where
    "b = a\<lparr>c_state := s, c_status_reason := r, c_finished_at := f\<rparr>"
    "c = b\<lparr>c_state := s', c_status_reason := r', c_finished_at := f'\<rparr>"
    unfolding campaign_settles_def by blast
  then have "c = a\<lparr>c_state := s', c_status_reason := r', c_finished_at := f'\<rparr>" by simp
  then have "\<exists>s r f. c = a\<lparr>c_state := s, c_status_reason := r, c_finished_at := f\<rparr>" by blast
  then show ?thesis using assms unfolding campaign_settles_def by auto
qed

lemma messages_grow_refl [simp]: "messages_grow K ms ms"
  unfolding messages_grow_def
  by (rule exI [of _ ms], rule exI [of _ "[]"]) (simp add: list_all2_refl)

lemma messages_grow_rows: "list_all2 (evolves K) ms ms' \<Longrightarrow> messages_grow K ms ms'"
  unfolding messages_grow_def by (rule exI [of _ ms'], rule exI [of _ "[]"]) simp

lemma messages_grow_trans:
  assumes "messages_grow K a b" "messages_grow K b c"
  shows "messages_grow K a c"
proof -
  obtain b1 b2 where b: "b = b1 @ b2" "list_all2 (evolves K) a b1" "\<forall>r \<in> set b2. m_kind r = CAMPAIGN_REMINDER"
    using assms(1) by (auto simp: messages_grow_def)
  obtain c1 c2 where c: "c = c1 @ c2" "list_all2 (evolves K) (b1 @ b2) c1" "\<forall>r \<in> set c2. m_kind r = CAMPAIGN_REMINDER"
    using assms(2) b(1) by (auto simp: messages_grow_def)
  then obtain x y where x: "c1 = x @ y" "list_all2 (evolves K) b1 x" "list_all2 (evolves K) b2 y"
    by (auto simp: list_all2_append1)
  have "list_all2 (evolves K) a x" using list_all2_trans [OF evolves_trans b(2) x(2)] .
  moreover have "\<forall>r \<in> set y. m_kind r = CAMPAIGN_REMINDER"
    using b(3) by (auto simp: evolves_def same_identity_def elim!: list_all2_mem2 [OF x(3)])
  ultimately show ?thesis
    unfolding messages_grow_def using c x
    by (intro exI [of _ x] exI [of _ "y @ c2"]) auto
qed

lemma progress_refl [simp]: "progress K d d"
  by (simp add: progress_def list_all2_refl)

lemma campaigns_settle_trans:
  "list_all2 campaign_settles a b \<Longrightarrow> list_all2 campaign_settles b c \<Longrightarrow> list_all2 campaign_settles a c"
  by (rule list_all2_trans [OF campaign_settles_trans])

lemma progress_trans [trans]: "progress K a b \<Longrightarrow> progress K b c \<Longrightarrow> progress K a c"
  unfolding progress_def
  using messages_grow_trans [of K "messages a" "messages b" "messages c"]
    campaigns_settle_trans [of "campaigns a" "campaigns b" "campaigns c"]
  by (auto intro: le_trans)

section \<open>Keys under row updates\<close>

lemma map_eq_rows: "list_all2 R ms ms' \<Longrightarrow> (\<And>m m'. R m m' \<Longrightarrow> f m' = f m) \<Longrightarrow> map f ms' = map f ms"
  by (induction rule: list_all2_induct) auto

lemma unique_on_rows:
  assumes "list_all2 R ms ms'" "\<And>m m'. R m m' \<Longrightarrow> P m' = P m \<and> f m' = f m"
  shows "unique_on P f ms' = unique_on P f ms"
proof -
  have "map f (filter P ms') = map f (filter P ms)"
    using assms by (induction rule: list_all2_induct) auto
  then show ?thesis by (simp add: unique_on_def)
qed

definition quiet :: "id set \<Rightarrow> message \<Rightarrow> message \<Rightarrow> bool" where
  "quiet K m m' \<longleftrightarrow> evolves K m m' \<and> same_keys m m'"

lemma quiet_refl [simp]: "quiet K m m" by (simp add: quiet_def)

lemma quiet_fields:
  assumes "quiet K m m'"
  shows "m_id m' = m_id m" "m_idempotency_key m' = m_idempotency_key m" "m_message_id m' = m_message_id m"
    "m_gmail_message_id m' = m_gmail_message_id m" "m_reminder_for m' = m_reminder_for m"
  using assms by (simp_all add: quiet_def evolves_def same_keys_def same_identity_def)

lemma quiet_rows_evolve: "list_all2 (quiet K) ms ms' \<Longrightarrow> list_all2 (evolves K) ms ms'"
  by (erule list_all2_mono) (simp add: quiet_def)

lemma message_keys_quiet:
  assumes "list_all2 (quiet K) (messages d) (messages d')" "next_id d \<le> next_id d'" "message_keys_ok d"
  shows "message_keys_ok d'"
proof -
  note eq = map_eq_rows [OF assms(1)]
  have ids: "map m_id (messages d') = map m_id (messages d)"
    "map m_idempotency_key (messages d') = map m_idempotency_key (messages d)"
    by (rule eq, erule quiet_fields)+
  have "m_id ` set (messages d') = m_id ` set (messages d)" by (metis ids(1) set_map)
  then have "\<forall>m \<in> set (messages d'). m_id m < next_id d'"
    using assms(2,3) by (force simp: message_keys_ok_def)
  then show ?thesis
    using assms(3) ids unique_on_rows [OF assms(1), of "\<lambda>m. m_message_id m \<noteq> []" m_message_id]
      unique_on_rows [OF assms(1), of "\<lambda>m. m_gmail_message_id m \<noteq> []" m_gmail_message_id]
      unique_on_rows [OF assms(1), of "\<lambda>m. m_reminder_for m \<noteq> None" m_reminder_for]
    by (simp add: message_keys_ok_def quiet_fields)
qed

lemma settles_fields:
  assumes "campaign_settles c c'"
  shows "c_id c' = c_id c" "c_approved_at c' = c_approved_at c" "c_state c' = C_RUNNING \<Longrightarrow> c_state c = C_RUNNING"
    "c_delivery_mode c' = c_delivery_mode c" "c_workspace c' = c_workspace c"
  using assms by (auto simp: campaign_settles_def)

lemma campaigns_settle_ok:
  assumes s: "list_all2 campaign_settles (campaigns d) (campaigns d')"
  shows "campaign_keys_ok d' = campaign_keys_ok d" "running_approved d \<Longrightarrow> running_approved d'"
proof -
  have "map c_id (campaigns d') = map c_id (campaigns d)" by (rule map_eq_rows [OF s]) (erule settles_fields)
  then show "campaign_keys_ok d' = campaign_keys_ok d" by (simp add: campaign_keys_ok_def)
  assume r: "running_approved d"
  show "running_approved d'"
    unfolding running_approved_def
  proof (intro ballI impI)
    fix c'
    assume "c' \<in> set (campaigns d')" "c_state c' = C_RUNNING"
    moreover from this(1) obtain c where "c \<in> set (campaigns d)" "campaign_settles c c'"
      using s by (blast elim: list_all2_mem2)
    ultimately show "c_approved_at c' \<noteq> None" using r settles_fields by (auto simp: running_approved_def)
  qed
qed

section \<open>How to prove it of an operation\<close>

lemma progressI:
  assumes "delivery_ok d \<Longrightarrow> message_keys_ok d'" "delivery_ok d \<Longrightarrow> messages_grow K (messages d) (messages d')"
    "delivery_ok d \<Longrightarrow> list_all2 campaign_settles (campaigns d) (campaigns d')"
    "delivery_ok d \<Longrightarrow> reservations_ok d'" "delivery_ok d \<Longrightarrow> ledgers_ok d'"
    "static_tables d' = static_tables d" "next_id d \<le> next_id d'"
  shows "progress K d d'"
  using assms campaigns_settle_ok [of d d'] by (auto simp: progress_def delivery_ok_def)

lemma reservations_ok_frame:
  "reservations d' = reservations d \<Longrightarrow> next_id d \<le> next_id d' \<Longrightarrow> reservations_ok d \<Longrightarrow> reservations_ok d'"
  by (auto simp: reservations_ok_def intro: less_le_trans)

lemma ledgers_ok_frame: "ledgers d' = ledgers d \<Longrightarrow> ledgers_ok d' = ledgers_ok d"
  by (simp add: ledgers_ok_def)

lemma progress_rows:
  assumes "delivery_ok d \<Longrightarrow> list_all2 (quiet K) (messages d) (messages d')" "campaigns d' = campaigns d"
    "reservations d' = reservations d" "ledgers d' = ledgers d" "static_tables d' = static_tables d"
    "next_id d \<le> next_id d'"
  shows "progress K d d'"
  using assms message_keys_quiet [of K d d'] messages_grow_rows [OF quiet_rows_evolve]
    reservations_ok_frame [of d' d] ledgers_ok_frame [of d' d]
  by (intro progressI) (auto simp: delivery_ok_def list_all2_refl)

lemma progress_other_tables:
  assumes "messages d' = messages d" "campaigns d' = campaigns d" "reservations d' = reservations d"
    "ledgers d' = ledgers d" "static_tables d' = static_tables d" "next_id d \<le> next_id d'"
  shows "progress K d d'"
  by (rule progress_rows) (use assms in \<open>simp_all add: list_all2_refl\<close>)

lemma messages_keyed:
  assumes "message_keys_ok d" "t_get m_id k (messages d) = Some m" "r \<in> set (messages d)" "m_id r = k"
  shows "r = m"
  using assms t_get_mem [OF assms(2)] t_get_key [OF assms(2)]
  by (auto simp: message_keys_ok_def distinct_map inj_on_def)

lemma list_all2_t_save:
  assumes "\<And>x. P x x" "\<And>x. x \<in> set t \<Longrightarrow> key x = k \<Longrightarrow> P x (f x)"
  shows "list_all2 P t (t_save key k f t)"
  using assms(2) unfolding t_save_def t_update_def by (induction t) (auto simp: assms(1))

lemma messages_save_message [simp]:
  "messages (save_message env k f d) = t_save m_id k (\<lambda>m. (f m)\<lparr>m_updated_at := clock env\<rparr>) (messages d)"
  by (simp add: save_message_def)

lemma save_message_frame [simp]:
  "campaigns (save_message env k f d) = campaigns d"
  "reservations (save_message env k f d) = reservations d"
  "ledgers (save_message env k f d) = ledgers d"
  "static_tables (save_message env k f d) = static_tables d"
  "next_id (save_message env k f d) = next_id d"
  "connections (save_message env k f d) = connections d"
  "enrollments (save_message env k f d) = enrollments d"
  by (simp_all add: save_message_def static_tables_def)

text \<open>Saving a row that is found under its key: only that row is compared.\<close>

lemma progress_save:
  assumes "t_get m_id k (messages d) = Some m" "k \<in> K" "quiet UNIV m (f m)"
  shows "progress K d (save_message env k f d)"
proof (rule progress_rows)
  assume "delivery_ok d"
  then have keys: "message_keys_ok d" by (simp add: delivery_ok_def)
  have "m_id m \<in> K" using assms(1,2) t_get_key by metis
  then have "quiet K m ((f m)\<lparr>m_updated_at := clock env\<rparr>)"
    using assms(3) by (simp add: quiet_def evolves_def same_keys_def same_identity_def same_outcome_def)
  then show "list_all2 (quiet K) (messages d) (messages (save_message env k f d))"
    unfolding messages_save_message
    by (intro list_all2_t_save) (use messages_keyed [OF keys assms(1)] in auto)
qed simp_all

lemmas quiet_defs = quiet_def evolves_def same_keys_def same_identity_def same_outcome_def

section \<open>The building blocks\<close>

lemma static_tables_frame [simp]:
  "static_tables (record_event a e u d) = static_tables d"
  "static_tables (update_jobs key g d) = static_tables d"
  "static_tables (update_enrollment k h d) = static_tables d"
  "static_tables (start_job i n now d) = static_tables d"
  by (simp_all add: static_tables_def update_jobs_def update_enrollment_def start_job_def Let_def
      split: option.split)

lemma update_jobs_frame [simp]:
  "messages (update_jobs key g d) = messages d" "campaigns (update_jobs key g d) = campaigns d"
  "reservations (update_jobs key g d) = reservations d" "ledgers (update_jobs key g d) = ledgers d"
  "next_id (update_jobs key g d) = next_id d" "connections (update_jobs key g d) = connections d"
  "enrollments (update_jobs key g d) = enrollments d"
  by (simp_all add: update_jobs_def)

lemma update_enrollment_frame [simp]:
  "messages (update_enrollment k h d) = messages d" "campaigns (update_enrollment k h d) = campaigns d"
  "reservations (update_enrollment k h d) = reservations d" "ledgers (update_enrollment k h d) = ledgers d"
  "next_id (update_enrollment k h d) = next_id d" "connections (update_enrollment k h d) = connections d"
  "jobs (update_enrollment k h d) = jobs d"
  by (simp_all add: update_enrollment_def split: option.split)

lemma start_job_frame [simp]:
  "messages (start_job i n now d) = messages d" "campaigns (start_job i n now d) = campaigns d"
  "reservations (start_job i n now d) = reservations d" "ledgers (start_job i n now d) = ledgers d"
  "next_id (start_job i n now d) = next_id d" "connections (start_job i n now d) = connections d"
  "enrollments (start_job i n now d) = enrollments d"
  by (simp_all add: start_job_def Let_def)

lemma progress_record [simp]: "progress K d (record_event a e u d)"
  by (rule progress_other_tables) simp_all

lemma progress_jobs [simp]: "progress K d (update_jobs key g d)"
  by (rule progress_other_tables) simp_all

lemma progress_enrollment [simp]: "progress K d (update_enrollment k h d)"
  by (rule progress_other_tables) simp_all

lemma progress_start_job [simp]: "progress K d (start_job i n now d)"
  by (rule progress_other_tables) simp_all

text \<open>An operation is a chain of such steps; these rules walk it backwards.\<close>

lemma progress_then:
  "progress K d d' \<Longrightarrow> progress K d (record_event a e u d')"
  "progress K d d' \<Longrightarrow> progress K d (update_jobs key g d')"
  "progress K d d' \<Longrightarrow> progress K d (update_enrollment k h d')"
  "progress K d d' \<Longrightarrow> progress K d (start_job i n now d')"
  by (erule progress_trans, simp)+

lemma progress_then_save:
  "progress K d d' \<Longrightarrow> t_get m_id k (messages d') = Some m \<Longrightarrow> k \<in> K \<Longrightarrow> quiet UNIV m (f m) \<Longrightarrow>
   progress K d (save_message env k f d')"
  using progress_save progress_trans by blast

text \<open>The guards of the theory \<open>Guards\<close>: they write only their own table.\<close>

lemma guard_frame [simp]:
  "messages (release_delivery_guard m t d) = messages d" "campaigns (release_delivery_guard m t d) = campaigns d"
  "next_id (release_delivery_guard m t d) = next_id d"
  "static_tables (release_delivery_guard m t d) = static_tables d"
  "connections (release_delivery_guard m t d) = connections d"
  "enrollments (release_delivery_guard m t d) = enrollments d"
  "messages (confirm_ledger m t d) = messages d" "campaigns (confirm_ledger m t d) = campaigns d"
  "next_id (confirm_ledger m t d) = next_id d" "static_tables (confirm_ledger m t d) = static_tables d"
  "reservations (confirm_ledger m t d) = reservations d"
  by (simp_all add: release_delivery_guard_def release_ledger_def release_campaign_delivery_day_def
      save_ledger_def save_reservation_def static_tables_def confirm_ledger_def split: option.split)

lemma progress_tables:
  assumes "messages d' = messages d" "campaigns d' = campaigns d" "static_tables d' = static_tables d"
    "next_id d \<le> next_id d'" "reservations_ok d \<Longrightarrow> reservations_ok d'" "ledgers_ok d \<Longrightarrow> ledgers_ok d'"
  shows "progress K d d'"
  by (rule progressI) (use assms message_keys_quiet [of K d d'] in \<open>auto simp: delivery_ok_def list_all2_refl\<close>)

lemma release_guard_ok:
  "reservations_ok d \<Longrightarrow> reservations_ok (release_delivery_guard m t d)"
  "ledgers_ok d \<Longrightarrow> ledgers_ok (release_delivery_guard m t d)"
proof -
  have l: "reservations_ok (release_ledger m d) = reservations_ok d"
    by (simp add: release_ledger_def save_ledger_def reservations_ok_def split: option.split)
  have v: "ledgers_ok (release_campaign_delivery_day m t d) = ledgers_ok d"
    by (simp add: release_campaign_delivery_day_def save_reservation_def ledgers_ok_def split: option.split)
  show "reservations_ok d \<Longrightarrow> reservations_ok (release_delivery_guard m t d)"
    using l release_day_ok [of d m t] by (simp add: release_delivery_guard_def)
  show "ledgers_ok d \<Longrightarrow> ledgers_ok (release_delivery_guard m t d)"
    using v ledger_guard.give_ok [of d m] by (simp add: release_delivery_guard_def)
qed

lemma progress_release [simp]: "progress K d (release_delivery_guard m t d)"
  by (rule progress_tables) (simp_all add: release_guard_ok)

lemma progress_confirm_guard:
  assumes "confirm_guard m now d = Inr d'"
  shows "progress K d d'"
proof (rule progress_tables)
  have l: "ledgers_ok d \<Longrightarrow> ledgers_ok (confirm_ledger m now d)"
    unfolding confirm_ledger_def by (rule ledgers_ok_save) simp_all
  have v: "messages d' = messages d \<and> campaigns d' = campaigns d \<and> static_tables d' = static_tables d
      \<and> next_id d' = next_id d \<and> ledgers d' = ledgers d" if "consume_campaign_delivery_day m now d = Inr d'"
    using that by (auto simp: consume_campaign_delivery_day_def save_reservation_def static_tables_def
        split: option.splits if_splits)
  show "messages d' = messages d" "campaigns d' = campaigns d" "static_tables d' = static_tables d"
    "next_id d \<le> next_id d'"
    using assms v by (auto simp: confirm_guard_def split: if_splits)
  show "reservations_ok d \<Longrightarrow> reservations_ok d'"
    using assms consume_day_ok reservations_ok_frame [of "confirm_ledger m now d" d]
    by (auto simp: confirm_guard_def split: if_splits)
  show "ledgers_ok d \<Longrightarrow> ledgers_ok d'"
    using assms l v ledgers_ok_frame [of d' d] by (auto simp: confirm_guard_def split: if_splits)
qed

lemma reserve_ledger_frame:
  assumes "reserve_ledger m now d = Inr (m', d')"
  shows "progress K d d' \<and> messages d' = messages d \<and> campaigns d' = campaigns d
    \<and> reservations d' = reservations d \<and> connections d' = connections d
    \<and> (\<exists>n. m' = m\<lparr>m_contact_sequence := Some n\<rparr>)"
proof -
  obtain l d1 where g: "get_or_create_ledger (m_recipient_normalized m) d = (l, d1)"
    and m': "m' = m\<lparr>m_contact_sequence := Some (l_next_sequence l)\<rparr>"
    and d': "d' = save_ledger (m_recipient_normalized m)
            (\<lambda>r. r\<lparr>l_reserved_message := Some (m_id m), l_reserved_at := Some now\<rparr>) d1"
    using assms by (rule reserve_ledger_Inr)
  have 1: "messages d1 = messages d \<and> campaigns d1 = campaigns d \<and> reservations d1 = reservations d
      \<and> static_tables d1 = static_tables d \<and> connections d1 = connections d \<and> next_id d \<le> next_id d1"
    using g by (auto simp: get_or_create_ledger_def static_tables_def fresh_def Let_def split: option.splits)
  have "ledgers_ok d \<Longrightarrow> ledgers_ok d'"
    unfolding d' using get_or_create_ledger [OF g] by (intro ledgers_ok_save) auto
  moreover have "messages d' = messages d" "campaigns d' = campaigns d" "reservations d' = reservations d"
    "static_tables d' = static_tables d" "next_id d \<le> next_id d'" "connections d' = connections d"
    using 1 by (simp_all add: d' save_ledger_def static_tables_def)
  ultimately show ?thesis
    using progress_tables [of d' d] reservations_ok_frame [of d' d] m' by blast
qed

lemma reserve_day_frame:
  assumes "reserve_campaign_delivery_day env m c now d = (b, d')"
  shows "progress K d d' \<and> messages d' = messages d \<and> campaigns d' = campaigns d \<and> ledgers d' = ledgers d
    \<and> connections d' = connections d"
proof (cases b)
  case True
  have f: "messages d' = messages d" "campaigns d' = campaigns d" "ledgers d' = ledgers d"
    "static_tables d' = static_tables d" "next_id d \<le> next_id d'" "connections d' = connections d"
    using assms by (auto simp: reserve_campaign_delivery_day_def save_reservation_def static_tables_def
        fresh_def Let_def split: option.splits if_splits)
  then have "progress K d d'"
    using reserve_day_ok [of d env m c now d'] assms True ledgers_ok_frame [of d' d]
    by (intro progress_tables) auto
  then show ?thesis using f by simp
next
  case False
  then show ?thesis using reserve_day_fails_same [of env m c now d] assms by simp
qed

section \<open>Eligibility, pauses and stops\<close>

lemma relinked_quiet: "relinked m m' \<Longrightarrow> quiet K m m'"
  by (auto simp: relinked_def quiet_defs)

lemma progress_links:
  assumes "only_links d d'"
  shows "progress K d d'"
proof (rule progress_rows)
  show "list_all2 (quiet K) (messages d) (messages d')"
    using assms list_all2_mono [of relinked "messages d" "messages d'" "quiet K"] relinked_quiet
    by (simp add: only_links_def)
qed (use assms in \<open>simp_all add: only_links_def directory_frame_def static_tables_def\<close>)

lemma find_rows:
  assumes "list_all2 R t t'" "\<And>x y. R x y \<Longrightarrow> key y = key x"
  shows "rel_option R (t_get key k t) (t_get key k t')"
  unfolding t_get_def using assms by (induction rule: list_all2_induct) auto

lemma t_get_links:
  assumes "only_links d d'" "t_get m_id k (messages d) = Some m"
  obtains m' where "t_get m_id k (messages d') = Some m'" "relinked m m'"
proof -
  have "rel_option relinked (t_get m_id k (messages d)) (t_get m_id k (messages d'))"
    by (rule find_rows) (use assms in \<open>auto simp: only_links_def relinked_def\<close>)
  then show thesis using that assms(2) by (auto simp: option_rel_Some1)
qed

lemma relinked_state: "relinked m m' \<Longrightarrow> m_state m' = m_state m"
  by (auto simp: relinked_def)

lemma links_frame:
  assumes "only_links d d'"
  shows "campaigns d' = campaigns d" "static_tables d' = static_tables d" "connections d' = connections d"
    "reservations d' = reservations d" "ledgers d' = ledgers d" "jobs d' = jobs d"
  using assms by (simp_all add: only_links_def directory_frame_def static_tables_def)

lemma final_email_error_Inr:
  assumes "final_email_error env m d = Inr (err, d')"
  shows "only_links d d'"
  using assms outbound_eligibility_error_links
  by (auto simp: final_email_error_def split: sum.splits if_splits)

text \<open>The empty answer comes from the eligibility rule, unless a validation error had an empty text.\<close>

definition recipient_eligible :: "env \<Rightarrow> message \<Rightarrow> db \<Rightarrow> bool" where
  "recipient_eligible env m d \<longleftrightarrow>
     (\<exists>e s. e \<in> set (enrollments d) \<and> el_eligible (enrollment_eligibility e d)
        \<and> selected_email e d = Some s \<and> normalize_email env (recipient_of m) = Inr (ea_normalized s))"

lemma pause_campaign_Inr: "\<exists>d'. pause_campaign env camp reason d = Inr d'"
  unfolding pause_campaign_def by (auto simp: pause_running Let_def split: option.split)

lemma campaigns_keyed:
  assumes "campaign_keys_ok d" "t_get c_id k (campaigns d) = Some c" "r \<in> set (campaigns d)" "c_id r = k"
  shows "r = c"
  using assms t_get_mem [OF assms(2)] t_get_key [OF assms(2)]
  by (auto simp: campaign_keys_ok_def distinct_map inj_on_def)

lemma progress_campaign:
  assumes c: "t_get c_id k (campaigns d) = Some c" and r: "campaign_settles c c'"
    and d': "campaigns d' = t_save c_id k (\<lambda>_. c') (campaigns d)" "messages d' = messages d"
      "reservations d' = reservations d" "ledgers d' = ledgers d" "static_tables d' = static_tables d"
      "next_id d' = next_id d"
  shows "progress K d d'"
proof (rule progressI)
  assume ok: "delivery_ok d"
  then have k: "campaign_keys_ok d" by (simp add: delivery_ok_def)
  show "list_all2 campaign_settles (campaigns d) (campaigns d')"
    unfolding d'(1) by (rule list_all2_t_save) (use r campaigns_keyed [OF k c] in auto)
  show "message_keys_ok d'" "messages_grow K (messages d) (messages d')" "reservations_ok d'" "ledgers_ok d'"
    using ok d' by (simp_all add: delivery_ok_def message_keys_ok_def reservations_ok_def ledgers_ok_def)
qed (use d' in simp_all)

lemma pause_campaign_frame:
  assumes "pause_campaign env camp reason d = Inr d'"
  shows "progress K d d' \<and> messages d' = messages d \<and> connections d' = connections d \<and> enrollments d' = enrollments d"
proof (cases "t_get c_id camp (campaigns d)")
  case None
  then show ?thesis using assms by (simp add: pause_campaign_def)
next
  case (Some c)
  show ?thesis
  proof (cases "c_state c = C_RUNNING")
    case False
    then show ?thesis using assms Some by (simp add: pause_campaign_def)
  next
    case True
    let ?c = "c\<lparr>c_status_reason := or_default reason txt_paused_by_user, c_state := C_PAUSED\<rparr>"
    have d': "d' = record_event ''campaign.transitioned'' camp None
          ((pause_searches env camp d)\<lparr>campaigns := t_save c_id camp (\<lambda>_. ?c) (campaigns d)\<rparr>)"
      using assms Some True by (simp add: pause_campaign_def pause_running Let_def)
    have "campaign_settles c ?c"
      unfolding campaign_settles_def using True
      by (intro conjI exI [of _ C_PAUSED] exI [of _ "or_default reason txt_paused_by_user"]
          exI [of _ "c_finished_at c"]) simp_all
    then have "progress K d d'"
      by (rule progress_campaign [OF Some]) (simp_all add: d' pause_searches_def static_tables_def)
    then show ?thesis by (simp add: d' pause_searches_def)
  qed
qed

lemmas progress_pause = pause_campaign_frame [THEN conjunct1]

lemma progress_threshold:
  assumes "pause_if_failure_threshold_reached env camp d = Inr (b, d')"
  shows "progress K d d'"
  using assms progress_pause
  by (auto simp: pause_if_failure_threshold_reached_def Let_def bindE_eq_Inr split: if_splits)

lemma mark_ineligible_frame [simp]:
  "static_tables (mark_message_ineligible env m reason now d) = static_tables d"
  "campaigns (mark_message_ineligible env m reason now d) = campaigns d"
  by (simp_all add: mark_message_ineligible_def Let_def)

lemma progress_mark:
  assumes "t_get m_id (m_id m) (messages d) = Some r" "m_state r \<noteq> SENT"
    and inK [simp]: "m_id m \<in> K"
  shows "progress K d (mark_message_ineligible env m reason now d)"
  unfolding mark_message_ineligible_def Let_def
  by (intro progress_then, rule progress_then_save [where m = r])
    (use assms in \<open>simp_all add: quiet_defs\<close>)

lemma progress_stop:
  assumes "t_get m_id (m_id m) (messages d) = Some r" "m_state r \<noteq> SENT"
    and inK [simp]: "m_id m \<in> K"
  shows "progress K d (stop_message env m state err d)"
  unfolding stop_message_def
  by (rule progress_then_save [where m = r])
    (use assms in \<open>simp_all add: quiet_defs\<close>)

lemma progress_stop_on_content:
  assumes "stop_on_content env k f camp e d = Inr d'" "t_get m_id k (messages d) = Some m"
    "k \<in> K" "\<And>t. quiet UNIV m (f t m)"
  shows "progress K d d'"
proof -
  have "progress K d (save_message env k (f t) d)" for t
    by (rule progress_save) (fact assms)+
  then show ?thesis
    using assms(1) by (auto simp: stop_on_content_def Let_def split: if_splits intro: progress_trans progress_pause)
qed

section \<open>Preparation\<close>

lemma progress_reschedule:
  assumes "reschedule_same_day_conflict env m c now d = Inr d'"
    "t_get m_id (m_id m) (messages d) = Some r" "m_state r \<noteq> SENT"
    and inK [simp]: "m_id m \<in> K"
  shows "progress K d d'"
proof -
  obtain t where d': "d' = record_event ''message.same_day_rescheduled'' (m_id m) None
         (save_message env (m_id m)
           (\<lambda>r. r\<lparr>m_state := QUEUED, m_next_attempt_at := Some t,
                  m_scheduled_for := Some t, m_delivery_reserved_at := None,
                  m_sending_started_at := None, m_error := txt_same_day\<rparr>) d)"
    using assms(1) unfolding reschedule_same_day_conflict_def bindE_eq_Inr by blast
  show ?thesis
    unfolding d' by (intro progress_then, rule progress_then_save [where m = r])
      (use assms(2,3) in \<open>simp_all add: quiet_defs\<close>)
qed

lemma reserve_guard_held:
  assumes "reserve_guard env m c now d = Inr (Some m', d')"
  shows "progress K d d' \<and> messages d' = messages d \<and> campaigns d' = campaigns d \<and> connections d' = connections d
    \<and> (if m_kind m = FIRST_CONTACT then take_ledger m now d = Some d'
        else m' = m \<and> take_day env c m now d = Some d')
    \<and> (\<exists>n. m' = m\<lparr>m_contact_sequence := n\<rparr>)"
proof (cases "m_kind m = FIRST_CONTACT")
  case True
  then have "reserve_ledger m now d = Inr (m', d')"
    using assms by (auto simp: reserve_guard_def split: sum.splits if_splits)
  then show ?thesis using reserve_ledger_frame [of m now d m' d'] True by (auto simp: take_ledger_def)
next
  case False
  then have r: "reserve_campaign_delivery_day env m c now d = (True, d')" "m' = m"
    using assms by (auto simp: reserve_guard_def bindE_eq_Inr split: prod.splits bool.splits)
  have "\<exists>n. m' = m\<lparr>m_contact_sequence := n\<rparr>"
    using r(2) by (intro exI [of _ "m_contact_sequence m"]) simp
  then show ?thesis using reserve_day_frame [OF r(1)] r False by (auto simp: take_day_def)
qed

lemma progress_not_held:
  assumes "reserve_guard env m c now d = Inr (None, d')"
    "t_get m_id (m_id m) (messages d) = Some r" "m_state r \<noteq> SENT"
    and inK [simp]: "m_id m \<in> K"
  shows "progress K d d'"
proof (cases "m_kind m = FIRST_CONTACT")
  case True
  then obtain e where "d' = save_message env (m_id m)
      (\<lambda>r. r\<lparr>m_state := SEND_FAILED, m_error := redact env (exn_str e)\<rparr>) d"
    using assms(1) by (auto simp: reserve_guard_def split: sum.splits if_splits)
  then show ?thesis using assms(2,3) by (auto simp: quiet_defs intro!: progress_save [where m = r])
next
  case False
  then obtain d1 where "reserve_campaign_delivery_day env m c now d = (False, d1)"
    "reschedule_same_day_conflict env m c now d1 = Inr d'"
    using assms(1) by (auto simp: reserve_guard_def bindE_eq_Inr split: prod.splits bool.splits)
  then show ?thesis
    using reserve_day_frame [of env m c now d False d1 K] progress_reschedule [of env m c now d1 d' r K] assms(2,3)
      progress_trans [of K d d1 d'] inK by simp
qed

lemma unique_on_save_key:
  assumes u: "unique_on (\<lambda>m. K m \<noteq> []) K t" and d: "distinct (map key t)"
    and f: "\<And>r. key (f r) = key r" "\<And>r. K (f r) = v"
    and free: "v \<noteq> [] \<Longrightarrow> \<forall>x \<in> set t. key x \<noteq> k \<longrightarrow> K x \<noteq> v"
  shows "unique_on (\<lambda>m. K m \<noteq> []) K (t_save key k f t)"
proof -
  have ids: "map key (t_save key k f t) = map key t" using f(1) by (rule map_key_save)
  then have d': "distinct (map key (t_save key k f t))" using d by simp
  show ?thesis
    unfolding unique_on_iff [OF d']
  proof (intro ballI impI)
    fix x y
    assume x: "x \<in> set (t_save key k f t)" and y: "y \<in> set (t_save key k f t)"
      and n: "K x \<noteq> []" "K y \<noteq> []" "K x = K y"
    show "key x = key y"
      using x
    proof (cases rule: t_saveE)
      case kept
      from y show ?thesis
      proof (cases rule: t_saveE)
        case kept': kept
        then show ?thesis using u kept n unfolding unique_on_iff [OF d] by blast
      next
        case (changed y')
        then show ?thesis using free f n kept by auto
      qed
    next
      case (changed x')
      from y show ?thesis
        by (cases rule: t_saveE) (use changed free f n in auto)
    qed
  qed
qed

text \<open>Saving a row with a new \<open>Message-ID\<close> or Gmail id that no other message has.\<close>

lemma progress_save_keys:
  assumes m: "t_get m_id k (messages d) = Some m" and e: "k \<in> K" "evolves UNIV m (f m)"
    and f: "\<And>r. m_id (f r) = m_id r" "\<And>r. m_idempotency_key (f r) = m_idempotency_key r"
      "\<And>r. m_reminder_for (f r) = m_reminder_for r"
    and u: "message_keys_ok d \<Longrightarrow>
        unique_on (\<lambda>m. m_message_id m \<noteq> []) m_message_id (messages (save_message env k f d))"
      "message_keys_ok d \<Longrightarrow>
        unique_on (\<lambda>m. m_gmail_message_id m \<noteq> []) m_gmail_message_id (messages (save_message env k f d))"
  shows "progress K d (save_message env k f d)"
proof (rule progressI)
  assume "delivery_ok d"
  then have keys: "message_keys_ok d" by (simp add: delivery_ok_def)
  let ?f = "\<lambda>m. (f m)\<lparr>m_updated_at := clock env\<rparr>"
  have "m_id m \<in> K" using m e(1) t_get_key by metis
  then have "evolves K m (?f m)"
    using e(2) by (simp add: evolves_def same_identity_def same_outcome_def)
  then have rows: "list_all2 (evolves K) (messages d) (t_save m_id k ?f (messages d))"
    by (intro list_all2_t_save) (use messages_keyed [OF keys m] in auto)
  then show "messages_grow K (messages d) (messages (save_message env k f d))"
    by (simp add: messages_grow_rows)
  have "unique_on (\<lambda>m. m_reminder_for m \<noteq> None) m_reminder_for (t_save m_id k ?f (messages d))
    \<longleftrightarrow> unique_on (\<lambda>m. m_reminder_for m \<noteq> None) m_reminder_for (messages d)"
    unfolding t_save_def by (rule unique_on_t_update) (simp_all add: f)
  moreover have "map m_id (t_save m_id k ?f (messages d)) = map m_id (messages d)"
    by (rule map_key_save) (simp add: f)
  moreover have "map m_idempotency_key (t_save m_id k ?f (messages d)) = map m_idempotency_key (messages d)"
    unfolding t_save_def by (rule map_key_update) (simp add: f)
  moreover have "\<forall>m \<in> set (t_save m_id k ?f (messages d)). m_id m < next_id d"
    using keys f by (auto simp: message_keys_ok_def elim!: t_saveE)
  ultimately show "message_keys_ok (save_message env k f d)"
    using keys u [OF keys] by (simp add: message_keys_ok_def)
qed (simp_all add: delivery_ok_def list_all2_refl reservations_ok_def ledgers_ok_def)

lemma unique_on_save_same:
  "(\<And>r. K (f r) = K r) \<Longrightarrow> unique_on (\<lambda>m. K m \<noteq> []) K (t_save key k f t) = unique_on (\<lambda>m. K m \<noteq> []) K t"
  unfolding t_save_def by (rule unique_on_t_update) simp_all

lemma progress_save_rfc:
  assumes "t_get m_id k (messages d) = Some m" "k \<in> K" "evolves UNIV m (f m)" "m_id x = k"
    and f: "\<And>r. m_id (f r) = m_id r" "\<And>r. m_message_id (f r) = rfc"
      "\<And>r. m_idempotency_key (f r) = m_idempotency_key r" "\<And>r. m_gmail_message_id (f r) = m_gmail_message_id r"
      "\<And>r. m_reminder_for (f r) = m_reminder_for r"
    and free: "\<not> message_id_taken x rfc d"
  shows "progress K d (save_message env k f d)"
proof (rule progress_save_keys [where f = f, OF assms(1-3)])
  assume keys: "message_keys_ok d"
  have "\<forall>y \<in> set (messages d). m_id y \<noteq> k \<longrightarrow> m_message_id y \<noteq> rfc" if "rfc \<noteq> []"
    using free that assms(4) by (auto simp: message_id_taken_def list_ex_iff)
  then show "unique_on (\<lambda>m. m_message_id m \<noteq> []) m_message_id (messages (save_message env k f d))"
    using keys unfolding messages_save_message
    by (intro unique_on_save_key [where v = rfc]) (auto simp: message_keys_ok_def f)
  show "unique_on (\<lambda>m. m_gmail_message_id m \<noteq> []) m_gmail_message_id (messages (save_message env k f d))"
    using keys by (simp add: message_keys_ok_def unique_on_save_same f)
qed (simp_all add: f)

lemma progress_save_gmail:
  assumes "t_get m_id k (messages d) = Some m" "k \<in> K" "evolves UNIV m (f m)" "m_id x = k"
    and f: "\<And>r. m_id (f r) = m_id r" "\<And>r. m_gmail_message_id (f r) = gid"
      "\<And>r. m_idempotency_key (f r) = m_idempotency_key r" "\<And>r. m_message_id (f r) = m_message_id r"
      "\<And>r. m_reminder_for (f r) = m_reminder_for r"
    and free: "\<not> gmail_id_taken x gid d"
  shows "progress K d (save_message env k f d)"
proof (rule progress_save_keys [where f = f, OF assms(1-3)])
  assume keys: "message_keys_ok d"
  have "\<forall>y \<in> set (messages d). m_id y \<noteq> k \<longrightarrow> m_gmail_message_id y \<noteq> gid" if "gid \<noteq> []"
    using free that assms(4) by (auto simp: gmail_id_taken_def list_ex_iff)
  then show "unique_on (\<lambda>m. m_gmail_message_id m \<noteq> []) m_gmail_message_id (messages (save_message env k f d))"
    using keys unfolding messages_save_message
    by (intro unique_on_save_key [where v = gid]) (auto simp: message_keys_ok_def f)
  show "unique_on (\<lambda>m. m_message_id m \<noteq> []) m_message_id (messages (save_message env k f d))"
    using keys by (simp add: message_keys_ok_def unique_on_save_same f)
qed (simp_all add: f)

lemma sending_fields_simps [simp]:
  "m_id (sending_fields m mime now r) = m_id r" "m_message_id (sending_fields m mime now r) = mm_rfc_id mime"
  "m_idempotency_key (sending_fields m mime now r) = m_idempotency_key r"
  "m_gmail_message_id (sending_fields m mime now r) = m_gmail_message_id r"
  "m_reminder_for (sending_fields m mime now r) = m_reminder_for r"
  "m_state (sending_fields m mime now r) = SENDING"
  "m_attempts (sending_fields m mime now r) = m_attempts m + 1"
  "m_delivery_reserved_at (sending_fields m mime now r) = Some now"
  "m_campaign (sending_fields m mime now r) = m_campaign r"
  "m_delivery_mode (sending_fields m mime now r) = m_delivery_mode r"
  by (simp_all add: sending_fields_def)

lemma commit_sending_Inr:
  assumes "commit_sending env m g mime now d = Inr (x, d')"
  shows "\<not> sending_conflict m (mm_rfc_id mime) d" "x = effect_of m g mime"
    "d' = start_job (m_id m) (m_attempts m + 1) now (save_message env (m_id m) (sending_fields m mime now) d)"
  using assms by (auto simp: commit_sending_def split: if_splits)

lemma message_bytes_rfc: "message_bytes env m c s d = Inr mime \<Longrightarrow> mm_rfc_id mime = rfc_id_of env m"
  by (auto simp: message_bytes_def Let_def bindE_eq_Inr)

lemma progress_commit:
  assumes c: "commit_sending env m g mime now d = Inr (x, d')"
    and r: "t_get m_id (m_id m) (messages d) = Some r" "m_state r \<noteq> SENT"
      "m_message_id r \<noteq> [] \<Longrightarrow> mm_rfc_id mime = m_message_id r"
    and inK [simp]: "m_id m \<in> K"
  shows "progress K d d'"
proof -
  have "progress K d (save_message env (m_id m) (sending_fields m mime now) d)"
  proof (rule progress_save_rfc [where x = m and rfc = "mm_rfc_id mime", OF r(1)])
    show "\<not> message_id_taken m (mm_rfc_id mime) d"
      using commit_sending_Inr(1) [OF c] by (simp add: sending_conflict_def)
  qed (use r(2,3) in \<open>auto simp: evolves_def same_identity_def sending_fields_def\<close>)
  then show ?thesis unfolding commit_sending_Inr(3) [OF c] by (rule progress_then)
qed

lemma prepare_eligible_Some:
  assumes "prepare_eligible env m c now d = Inr (Some x, d')"
  obtains g mime m' d1 where "usable_connection (c_workspace c) d = Some g"
    "daily_slot_available env c now d" "interval_elapsed c now d"
    "message_bytes env m c (g_email g) d = Inr mime" "reserve_guard env m c now d = Inr (Some m', d1)"
    "commit_sending env m' g mime now d1 = Inr (x, d')"
proof -
  obtain g where g: "usable_connection (c_workspace c) d = Some g"
    using assms by (cases "usable_connection (c_workspace c) d") (auto simp: prepare_eligible_def bindE_eq_Inr)
  have slot: "daily_slot_available env c now d" "interval_elapsed c now d"
    using assms g by (auto simp: prepare_eligible_def split: if_splits)
  obtain mime where mime: "message_bytes env m c (g_email g) d = Inr mime"
    using assms g slot
    by (cases "message_bytes env m c (g_email g) d") (auto simp: prepare_eligible_def bindE_eq_Inr)
  obtain held d1 where h: "reserve_guard env m c now d = Inr (held, d1)"
    and rest: "(case held of None \<Rightarrow> Inr (None, d1)
      | Some m' \<Rightarrow> bindE (commit_sending env m' g mime now d1) (\<lambda>(x, d2). Inr (Some x, d2))) = Inr (Some x, d')"
    using assms g slot mime by (auto simp: prepare_eligible_def bindE_eq_Inr)
  from rest obtain m' where "held = Some m'" "commit_sending env m' g mime now d1 = Inr (x, d')"
    by (cases held) (auto simp: bindE_eq_Inr)
  then show thesis using that g slot mime h by blast
qed

lemma prepare_due_Some:
  assumes "prepare_due env m c now d = Inr (Some x, d')"
  obtains d1 g mime m' d2 where "live_sending_allowed env d" "inside_schedule env c now"
    "final_email_error env m d = Inr ([], d1)" "usable_connection (c_workspace c) d1 = Some g"
    "daily_slot_available env c now d1" "interval_elapsed c now d1"
    "message_bytes env m c (g_email g) d1 = Inr mime" "reserve_guard env m c now d1 = Inr (Some m', d2)"
    "commit_sending env m' g mime now d2 = Inr (x, d')"
proof -
  obtain err d1 where e: "live_sending_allowed env d" "inside_schedule env c now"
      "final_email_error env m d = Inr (err, d1)"
    and rest: "(if err \<noteq> [] then Inr (None, mark_message_ineligible env m err now d1)
      else prepare_eligible env m c now d1) = Inr (Some x, d')"
    using assms by (auto simp: prepare_due_def bindE_eq_Inr split: if_splits)
  then have "err = []" and rest: "prepare_eligible env m c now d1 = Inr (Some x, d')"
    by (auto split: if_splits)
  from rest show thesis
    by (rule prepare_eligible_Some) (rule that [OF e(1,2) e(3) [unfolded \<open>err = []\<close>]])
qed

lemma prepare_eligible_progress:
  assumes "prepare_eligible env m c now d = Inr (res, d')"
    and r: "t_get m_id (m_id m) (messages d) = Some r" "m_state r \<noteq> SENT" "m_message_id r = m_message_id m"
    and inK [simp]: "m_id m \<in> K"
  shows "progress K d d'"
proof (cases "usable_connection (c_workspace c) d")
  case None
  then have "pause_campaign env (c_id c) txt_gmail_not_ready d = Inr d'"
    using assms(1) by (auto simp: prepare_eligible_def bindE_eq_Inr)
  then show ?thesis by (rule progress_pause)
next
  case g: (Some g)
  show ?thesis
  proof (cases "daily_slot_available env c now d \<and> interval_elapsed c now d")
    case False
    then show ?thesis using assms(1) g by (auto simp: prepare_eligible_def)
  next
    case slot: True
    show ?thesis
    proof (cases "message_bytes env m c (g_email g) d")
      case (Inl e)
      then have "stop_on_content env (m_id m) (\<lambda>t r. r\<lparr>m_error := t\<rparr>) (c_id c) e d = Inr d'"
        using assms(1) g slot by (auto simp: prepare_eligible_def bindE_eq_Inr)
      then show ?thesis by (rule progress_stop_on_content [OF _ r(1) inK]) (simp add: quiet_defs)
    next
      case (Inr mime)
      then obtain held d2 where h: "reserve_guard env m c now d = Inr (held, d2)"
        and rest: "(case held of None \<Rightarrow> Inr (None, d2)
          | Some m' \<Rightarrow> bindE (commit_sending env m' g mime now d2) (\<lambda>(x, d3). Inr (Some x, d3))) = Inr (res, d')"
        using assms(1) g slot by (auto simp: prepare_eligible_def bindE_eq_Inr)
      show ?thesis
      proof (cases held)
        case None
        then show ?thesis using progress_not_held [of env m c now d d2 r K] h rest r by simp
      next
        case (Some m')
        note h' = reserve_guard_held [where K = K, OF h [unfolded Some]]
        obtain x where x: "commit_sending env m' g mime now d2 = Inr (x, d')"
          using rest Some by (auto simp: bindE_eq_Inr)
        have r': "t_get m_id (m_id m') (messages d2) = Some r" "m_id m' \<in> K" using h' r(1) by auto
        have "progress K d2 d'"
          by (rule progress_commit [OF x r'(1) r(2) _ r'(2)])
            (use message_bytes_rfc [OF Inr] r(3) in \<open>simp add: rfc_id_of_def\<close>)
        then show ?thesis using h' progress_trans by blast
      qed
    qed
  qed
qed

lemma prepare_due_progress:
  assumes "prepare_due env m c now d = Inr (res, d')"
    and r: "t_get m_id (m_id m) (messages d) = Some r" "m_state r \<noteq> SENT" "m_message_id r = m_message_id m"
    and inK [simp]: "m_id m \<in> K"
  shows "progress K d d'"
proof (cases "live_sending_allowed env d \<and> inside_schedule env c now")
  case False
  then show ?thesis
    using assms(1) by (auto simp: prepare_due_def bindE_eq_Inr split: if_splits intro: progress_pause)
next
  case True
  then obtain err d1 where e: "final_email_error env m d = Inr (err, d1)"
    using assms(1) by (auto simp: prepare_due_def bindE_eq_Inr)
  note l = final_email_error_Inr [OF e]
  obtain r1 where r1: "t_get m_id (m_id m) (messages d1) = Some r1" "relinked r r1"
    using l r(1) by (rule t_get_links)
  then have n: "m_state r1 \<noteq> SENT" "m_message_id r1 = m_message_id m"
    using r(2,3) by (auto simp: relinked_def)
  have "progress K d1 d'"
  proof (cases "err \<noteq> []")
    case True': True
    then have "d' = mark_message_ineligible env m err now d1"
      using assms(1) e True by (simp add: prepare_due_def)
    then show ?thesis using progress_mark [OF r1(1) n(1)] by simp
  next
    case False
    then have due: "prepare_due env m c now d = prepare_eligible env m c now d1"
      using e True by (simp add: prepare_due_def)
    show ?thesis
      using r1(1) n inK by (rule prepare_eligible_progress [OF assms(1) [unfolded due]])
  qed
  then show ?thesis using progress_links [OF l] progress_trans by blast
qed

lemma prepare_live_cases:
  assumes "prepare_live_effect env k now d = Inr (res, d')"
  obtains (stop) "res = None" "d' = d"
  | (approval) m where "t_get m_id k (messages d) = Some m" "m_state m \<notin> settled_states" "res = None"
      "d' = save_message env k (\<lambda>r. r\<lparr>m_state := REVIEW_READY, m_next_attempt_at := None, m_error := txt_needs_approval\<rparr>) d"
  | (wait) m where "t_get m_id k (messages d) = Some m" "m_state m \<notin> settled_states" "res = None"
      "d' = queue_row env m d"
  | (due) m c where "t_get m_id k (messages d) = Some m" "m_state m \<notin> settled_states"
      "m_campaign m = Some (c_id c)" "t_get c_id (c_id c) (campaigns d) = Some c" "c_state c = C_RUNNING"
      "m_delivery_mode m = LIVE" "c_delivery_mode c = LIVE" "approved m"
      "\<forall>t. m_next_attempt_at m = Some t \<longrightarrow> t \<le> now"
      "prepare_due env (queued m) c now (queue_row env m d) = Inr (res, d')"
proof -
  obtain m c where m: "t_get m_id k (messages d) = Some m" and c: "campaign_of_message m d = Inr c"
    using assms by (auto simp: prepare_live_effect_def bindE_eq_Inr get_message_Inr)
  have body: "(if m_state m \<in> settled_states then Inr (None, d)
      else if c_state c \<noteq> C_RUNNING then Inr (None, d)
      else if m_delivery_mode m \<noteq> LIVE \<or> c_delivery_mode c \<noteq> LIVE then Inl (ValidationError txt_not_live)
      else if \<not> approved m
      then Inr (None, save_message env k
             (\<lambda>r. r\<lparr>m_state := REVIEW_READY, m_next_attempt_at := None, m_error := txt_needs_approval\<rparr>) d)
      else if (case m_next_attempt_at (queued m) of Some t \<Rightarrow> now < t | None \<Rightarrow> False) then Inr (None, queue_row env m d)
      else prepare_due env (queued m) c now (queue_row env m d)) = Inr (res, d')"
    using assms m c by (simp add: prepare_live_effect_def get_message_def)
  have camp: "m_campaign m = Some (c_id c)" "t_get c_id (c_id c) (campaigns d) = Some c"
    using c by (auto simp: campaign_of_message_def get_campaign_Inr split: option.splits dest: t_get_key)
  have nxt: "m_next_attempt_at (queued m) = m_next_attempt_at m" by (simp add: queued_def)
  show thesis
  proof (cases "m_state m \<in> settled_states \<or> c_state c \<noteq> C_RUNNING")
    case True
    then show thesis using body stop by (auto split: if_splits)
  next
    case live: False
    then have mode: "m_delivery_mode m = LIVE" "c_delivery_mode c = LIVE"
      using body by (auto split: if_splits)
    show thesis
    proof (cases "approved m")
      case False
      then show thesis using body live mode approval m by auto
    next
      case True
      show thesis
      proof (cases "case m_next_attempt_at (queued m) of Some t \<Rightarrow> now < t | None \<Rightarrow> False")
        case late: True
        then show thesis using body live mode True wait m by auto
      next
        case False
        then have "prepare_due env (queued m) c now (queue_row env m d) = Inr (res, d')"
          using body live mode True by simp
        then show thesis using due [OF m _ camp _ mode True] False live nxt by (auto split: option.splits)
      qed
    qed
  qed
qed

lemma queue_row_get:
  assumes "t_get m_id k (messages d) = Some m" "m_state m \<noteq> SENT"
  obtains r where "t_get m_id (m_id m) (messages (queue_row env m d)) = Some r" "m_state r \<noteq> SENT"
    "same_identity m r" "m_attempts r = m_attempts m" "m_message_id r = m_message_id m"
proof -
  have k: "t_get m_id (m_id m) (messages d) = Some m" using assms(1) t_get_key by metis
  show thesis
  proof (rule that [of "if m_state m = PREPARED then m\<lparr>m_state := QUEUED, m_updated_at := clock env\<rparr> else m"])
    show "t_get m_id (m_id m) (messages (queue_row env m d)) =
        Some (if m_state m = PREPARED then m\<lparr>m_state := QUEUED, m_updated_at := clock env\<rparr> else m)"
      using k by (simp add: queue_row_def t_get_save_same)
  qed (use assms(2) in \<open>simp_all add: same_identity_def\<close>)
qed

lemma progress_queue_row:
  assumes "t_get m_id k (messages d) = Some m" "k \<in> K"
  shows "progress K d (queue_row env m d)"
proof -
  have "t_get m_id (m_id m) (messages d) = Some m" "m_id m \<in> K" using assms t_get_key by metis+
  then show ?thesis
    unfolding queue_row_def by (cases "m_state m = PREPARED") (auto intro!: progress_save simp: quiet_defs)
qed

lemma queued_simps [simp]:
  "m_id (queued m) = m_id m" "m_kind (queued m) = m_kind m" "m_attempts (queued m) = m_attempts m"
  "m_recipient_normalized (queued m) = m_recipient_normalized m" "m_campaign (queued m) = m_campaign m"
  "recipient_of (queued m) = recipient_of m" "m_idempotency_key (queued m) = m_idempotency_key m"
  "m_recipient (queued m) = m_recipient m" "m_gmail_thread_id (queued m) = m_gmail_thread_id m"
  "m_message_id (queued m) = m_message_id m"
  by (simp_all add: queued_def recipient_of_def)

lemma prepare_live_progress:
  assumes "prepare_live_effect env k now d = Inr (res, d')"
    and inK [simp]: "k \<in> K"
  shows "progress K d d'"
  using assms
proof (cases rule: prepare_live_cases)
  case stop
  then show ?thesis by simp
next
  case (approval m)
  then show ?thesis by (auto intro!: progress_save simp: quiet_defs settled_states_def)
next
  case (wait m)
  then show ?thesis using progress_queue_row by simp
next
  case (due m c)
  have "m_state m \<noteq> SENT" using due(2) by (auto simp: settled_states_def)
  with due(1) obtain r where r: "t_get m_id (m_id m) (messages (queue_row env m d)) = Some r" "m_state r \<noteq> SENT"
    "m_message_id r = m_message_id m"
    by (rule queue_row_get)
  have "progress K (queue_row env m d) d'"
    by (rule prepare_due_progress [OF due(10), of r]) (use r t_get_key [OF due(1)] in simp_all)
  then show ?thesis using progress_queue_row [OF due(1) inK] progress_trans by blast
qed

section \<open>Simulation and review\<close>

lemma campaign_of_message_Inr:
  assumes "campaign_of_message m d = Inr c"
  shows "m_campaign m = Some (c_id c)" "t_get c_id (c_id c) (campaigns d) = Some c"
  using assms by (auto simp: campaign_of_message_def get_campaign_Inr split: option.splits dest: t_get_key)

lemma dry_run_progress:
  assumes "complete_dry_run env k now d = Inr (s, d')"
    and inK [simp]: "k \<in> K"
  shows "progress K d d'"
proof -
  obtain m where m: "t_get m_id k (messages d) = Some m"
    using assms by (auto simp: complete_dry_run_def bindE_eq_Inr get_message_Inr)
  have k: "m_id m = k" using m by (rule t_get_key)
  obtain c where c: "m_state m \<notin> {REVIEW_READY, DRY_RUN_COMPLETED, SENT, CANCELLED} \<Longrightarrow> campaign_of_message m d = Inr c"
    using assms m by (auto simp: complete_dry_run_def bindE_eq_Inr get_message_def split: if_splits)
  show ?thesis
  proof (cases "m_state m \<in> {REVIEW_READY, DRY_RUN_COMPLETED, SENT, CANCELLED} \<or> c_state c \<noteq> C_RUNNING")
    case True
    then show ?thesis
      using assms m c by (auto simp: complete_dry_run_def Let_def get_message_def split: if_splits)
  next
    case False
    let ?st = "if m_state m = PREPARED then QUEUED else m_state m"
    from False obtain err d1 where e: "final_email_error env m d = Inr (err, d1)"
      using assms m c by (auto simp: complete_dry_run_def Let_def get_message_def bindE_eq_Inr split: if_splits)
    note l = final_email_error_Inr [OF e]
    obtain r where r: "t_get m_id k (messages d1) = Some r" "relinked m r" using l m by (rule t_get_links)
    have n: "m_state r \<noteq> SENT" "m_state r = m_state m" using relinked_state [OF r(2)] False by auto
    consider (bad) "d' = mark_message_ineligible env m err now d1"
      | (stop) x where "stop_on_content env k (\<lambda>t r. r\<lparr>m_state := ?st, m_error := t\<rparr>) (c_id c) x d1 = Inr d'"
      | (over) mime :: message_mime where "m_message_id r \<noteq> [] \<Longrightarrow> mm_rfc_id mime = m_message_id r" "\<not> message_id_taken m (mm_rfc_id mime) d1"
          "d' = record_event ''message.dry_run_completed'' k None
            (save_message env k (\<lambda>r. r\<lparr>m_message_id := mm_rfc_id mime, m_mime_sha256 := mm_sha256 mime,
               m_mime_size := Some (mm_size mime), m_state := DRY_RUN_COMPLETED,
               m_simulated_at := Some now, m_error := []\<rparr>) d1)"
    proof (cases "err = []")
      case False': False
      then show thesis using assms m c False e bad
        by (auto simp: complete_dry_run_def Let_def get_message_def split: if_splits)
    next
      case True
      show thesis
      proof (cases "message_bytes env m c (dry_run_sender c d1) d1")
        case (Inl x)
        then show thesis using assms m c False e True stop [of x]
          by (auto simp: complete_dry_run_def Let_def get_message_def bindE_eq_Inr split: if_splits)
      next
        case (Inr mime)
        have "m_message_id r = m_message_id m" using r(2) by (auto simp: relinked_def)
        then have "m_message_id r \<noteq> [] \<Longrightarrow> mm_rfc_id mime = m_message_id r"
          using message_bytes_rfc [OF Inr] by (simp add: rfc_id_of_def)
        then show thesis using assms m c False e True Inr over [of mime]
          by (auto simp: complete_dry_run_def Let_def get_message_def split: if_splits)
      qed
    qed
    then have "progress K d1 d'"
    proof cases
      case bad
      then show ?thesis using progress_mark [of m d1 r] r(1) n k by simp
    next
      case stop
      then show ?thesis by (rule progress_stop_on_content [OF _ r(1) inK]) (use n in \<open>simp add: quiet_defs\<close>)
    next
      case (over mime)
      show ?thesis
        unfolding over(3)
        by (rule progress_then, rule progress_save_rfc [where x = m and rfc = "mm_rfc_id mime", OF r(1)])
          (use n k over(1,2) in \<open>auto simp: evolves_def same_identity_def\<close>)
    qed
    then show ?thesis using progress_links [OF l] progress_trans by blast
  qed
qed

lemma review_only_progress:
  assumes "complete_review_only env k d = Inr (s, d')"
    and inK [simp]: "k \<in> K"
  shows "progress K d d'"
proof -
  obtain m where m: "t_get m_id k (messages d) = Some m"
    using assms by (auto simp: complete_review_only_def bindE_eq_Inr get_message_Inr)
  then consider "d' = d" | "m_state m \<in> {PREPARED, QUEUED}" "d' = record_event ''message.review_ready'' k None
      (save_message env k (\<lambda>r. r\<lparr>m_state := REVIEW_READY, m_error := []\<rparr>) d)"
    using assms by (auto simp: complete_review_only_def bindE_eq_Inr get_message_def split: if_splits)
  then show ?thesis
    by cases (use m in \<open>auto intro!: progress_then progress_save simp: quiet_defs\<close>)
qed

section \<open>Confirmation and reminders\<close>

lemma find_reminder_links:
  assumes "list_all2 (quiet K) (messages d) (messages d')"
  shows "find_reminder k d' = None \<longleftrightarrow> find_reminder k d = None"
  using assms unfolding find_reminder_def
  by (induction rule: list_all2_induct) (auto simp: quiet_fields)

text \<open>A new row with fresh keys.\<close>

lemma progress_append:
  assumes d': "messages d' = messages d @ [r]" "campaigns d' = campaigns d" "reservations d' = reservations d"
      "ledgers d' = ledgers d" "static_tables d' = static_tables d" "next_id d' = Suc (next_id d)"
    and r: "m_id r = next_id d" "m_kind r = CAMPAIGN_REMINDER" "m_gmail_message_id r = []"
      "m_reminder_for r = Some k"
    and free: "\<not> new_message_conflict r d" "find_reminder k d = None"
  shows "progress K d d'"
proof (rule progressI)
  assume "delivery_ok d"
  then have keys: "message_keys_ok d" by (simp add: delivery_ok_def)
  have f: "m_idempotency_key r \<notin> m_idempotency_key ` set (messages d)"
    "m_message_id r \<noteq> [] \<Longrightarrow> m_message_id r \<notin> m_message_id ` set (messages d)"
    "Some k \<notin> m_reminder_for ` set (messages d)"
    using free by (auto simp: new_message_conflict_def list_ex_iff find_reminder_def find_None_iff_all)
  have u: "unique_on P g (messages d @ [r])" if "unique_on P g (messages d)"
    "P r \<Longrightarrow> g r \<notin> g ` set (messages d)" for P :: "message \<Rightarrow> bool" and g :: "message \<Rightarrow> 'k"
    using that by (auto simp: unique_on_def)
  have "distinct (map m_id (messages d'))" "\<forall>m \<in> set (messages d'). m_id m < next_id d'"
    "distinct (map m_idempotency_key (messages d'))"
    using keys f(1) r(1) unfolding message_keys_ok_def d' by (auto simp: less_Suc_eq)
  moreover have "unique_on (\<lambda>m. m_message_id m \<noteq> []) m_message_id (messages d')"
    using keys f(2) unfolding message_keys_ok_def d' by (intro u) auto
  moreover have "unique_on (\<lambda>m. m_gmail_message_id m \<noteq> []) m_gmail_message_id (messages d')"
    using keys r(3) unfolding message_keys_ok_def d' by (intro u) auto
  moreover have "unique_on (\<lambda>m. m_reminder_for m \<noteq> None) m_reminder_for (messages d')"
    using keys f(3) r(4) unfolding message_keys_ok_def d' by (intro u) auto
  ultimately show "message_keys_ok d'" by (simp add: message_keys_ok_def)
  show "messages_grow K (messages d) (messages d')"
    unfolding messages_grow_def d' using r
    by (intro exI [of _ "messages d"] exI [of _ "[r]"]) (simp add: list_all2_refl)
  assume "delivery_ok d"
  then show "reservations_ok d'" "ledgers_ok d'" "list_all2 campaign_settles (campaigns d) (campaigns d')"
    using d' by (auto simp: delivery_ok_def reservations_ok_def ledgers_ok_def less_Suc_eq list_all2_refl)
qed (use d' in simp_all)

lemma new_reminder_simps [simp]:
  "m_id (new_reminder env k m c content due state err) = k"
  "m_kind (new_reminder env k m c content due state err) = CAMPAIGN_REMINDER"
  "m_gmail_message_id (new_reminder env k m c content due state err) = []"
  "m_reminder_for (new_reminder env k m c content due state err) = Some (m_id m)"
  "m_state (new_reminder env k m c content due state err) = state"
  "m_approved_at (new_reminder env k m c content due state err) = m_approved_at m"
  "m_approved_by (new_reminder env k m c content due state err) = m_approved_by m"
  "m_delivery_mode (new_reminder env k m c content due state err) = m_delivery_mode m"
  "m_recipient_normalized (new_reminder env k m c content due state err) = m_recipient_normalized m"
  "m_recipient (new_reminder env k m c content due state err) = m_recipient m"
  "m_error (new_reminder env k m c content due state err) = err"
  "m_scheduled_for (new_reminder env k m c content due state err) = Some due"
  "m_next_attempt_at (new_reminder env k m c content due state err) = (if state = QUEUED then Some due else None)"
  "m_idempotency_key (new_reminder env k m c content due state err) = reminder_key (m_id m)"
  by (simp_all add: new_reminder_def)

lemma reminder_plan_Inr:
  assumes "reminder_plan env m c e0 d = Inr ((state, err), d')"
  shows "only_links d d' \<and> state \<in> {CANCELLED, INELIGIBLE, QUEUED}
    \<and> (state = QUEUED \<longrightarrow> c_state c \<noteq> C_CANCELLED \<and> e0 = [] \<and> err = [] \<and> final_email_error env m d = Inr ([], d'))"
  using assms final_email_error_Inr
  by (auto simp: reminder_plan_def bindE_eq_Inr split: if_splits)

text \<open>What \<open>schedule_reminder\<close> does: the recipient's projection, then one new row.\<close>

lemma schedule_reminder_Inr:
  assumes "schedule_reminder env m c sent_at d = Inr (res, d')"
  obtains d1 r e0 where "only_links d d1" "messages d' = messages d1 @ [r]" "m_id r = next_id d1"
    "res = Some (next_id d1)" "m_kind r = CAMPAIGN_REMINDER" "m_reminder_for r = Some (m_id m)"
    "m_gmail_message_id r = []" "m_state r \<in> {CANCELLED, INELIGIBLE, QUEUED}"
    "m_approved_at r = m_approved_at m" "m_approved_by r = m_approved_by m"
    "m_recipient_normalized r = m_recipient_normalized m" "\<not> new_message_conflict r d1"
    "m_state r = QUEUED \<Longrightarrow> final_email_error env m d = Inr ([], d1) \<and> m_scheduled_for r = m_next_attempt_at r
       \<and> map_sum (\<lambda>_. ()) Some (reminder_due_at env c sent_at) = Inr (m_next_attempt_at r)"
    "campaigns d' = campaigns d" "reservations d' = reservations d" "ledgers d' = ledgers d"
    "static_tables d' = static_tables d" "next_id d' = Suc (next_id d1)"
proof -
  let ?due = "fst (reminder_time env c sent_at)"
  let ?content = "reminder_content_of env m c (snd (reminder_time env c sent_at))"
  let ?e0 = "scheduling_error m ?content"
  obtain state err d1 where p: "reminder_plan env m c ?e0 d = Inr ((state, err), d1)"
    and a: "add_reminder env m c ?content ?due state err d1 = Inr (res, d')"
    using assms by (auto simp: schedule_reminder_def Let_def bindE_eq_Inr)
  define r where "r = new_reminder env (next_id d1) m c ?content ?due state err"
  have free: "\<not> new_message_conflict r d1"
    and out: "res = Some (next_id d1)"
    and d': "d' = record_event ''campaign.reminder_scheduled'' (next_id d1) None
        (update_enrollment (m_enrollment m)
          (\<lambda>e. e\<lparr>e_state := reminder_enrollment_state state, e_exclusion_reason := take 200 err\<rparr>)
          (d1\<lparr>next_id := Suc (next_id d1), messages := messages d1 @ [r]\<rparr>))"
    using a by (simp_all add: add_reminder_def r_def Let_def fresh_def split: if_splits)
  note P = reminder_plan_Inr [OF p]
  have due: "map_sum (\<lambda>_. ()) Some (reminder_due_at env c sent_at) = Inr (Some ?due)" if "state = QUEUED"
  proof -
    from P that have "?e0 = []" by simp
    then have "snd (reminder_time env c sent_at) = []"
      by (auto simp: scheduling_error_def reminder_content_of_def or_error_def split: if_splits sum.splits)
    then show ?thesis by (auto simp: reminder_time_def txt_defs split: sum.splits)
  qed
  show thesis
  proof (rule that [of d1 r])
    show "m_state r = QUEUED \<Longrightarrow> final_email_error env m d = Inr ([], d1) \<and> m_scheduled_for r = m_next_attempt_at r
       \<and> map_sum (\<lambda>_. ()) Some (reminder_due_at env c sent_at) = Inr (m_next_attempt_at r)"
      using P due by (simp add: r_def)
    have "static_tables (d1\<lparr>next_id := Suc (next_id d1), messages := messages d1 @ [r]\<rparr>) = static_tables d1"
      by (simp add: static_tables_def)
    then show "campaigns d' = campaigns d" "reservations d' = reservations d" "ledgers d' = ledgers d"
      "static_tables d' = static_tables d"
      using links_frame [of d d1] P by (simp_all add: d')
  qed (use P free out in \<open>simp_all add: d' r_def\<close>)
qed

lemma schedule_reminder_progress:
  assumes s: "schedule_reminder env m c sent_at d = Inr (res, d')" and none: "find_reminder (m_id m) d = None"
  shows "progress K d d'"
  using s
proof (rule schedule_reminder_Inr)
  fix d1 r
  assume l: "only_links d d1" and r: "messages d' = messages d1 @ [r]" "m_id r = next_id d1"
    "m_kind r = CAMPAIGN_REMINDER" "m_reminder_for r = Some (m_id m)" "m_gmail_message_id r = []"
    "\<not> new_message_conflict r d1" "next_id d' = Suc (next_id d1)"
    and f: "campaigns d' = campaigns d" "reservations d' = reservations d" "ledgers d' = ledgers d"
    "static_tables d' = static_tables d"
  have "list_all2 (quiet K) (messages d) (messages d1)"
    using l list_all2_mono [of relinked "messages d" "messages d1" "quiet K"] relinked_quiet
    by (simp add: only_links_def)
  then have "find_reminder (m_id m) d1 = None" using none find_reminder_links by blast
  then have "progress K d1 d'"
    by (intro progress_append [where r = r and k = "m_id m"]) (use r f links_frame [OF l] in simp_all)
  then show ?thesis using progress_links [OF l] progress_trans by blast
qed

lemma ensure_reminder_progress:
  assumes "ensure_campaign_reminder env m sent_at d = Inr (res, d')"
  shows "progress K d d'"
  using assms schedule_reminder_progress
  by (auto simp: ensure_campaign_reminder_def split: option.splits if_splits)

lemma sent_fields_simps [simp]:
  "m_id (sent_fields res now r) = m_id r" "m_gmail_message_id (sent_fields res now r) = gr_message_id res"
  "m_state (sent_fields res now r) = SENT" "m_sent_at (sent_fields res now r) = Some now"
  "m_gmail_thread_id (sent_fields res now r) = gr_thread_id res" "m_kind (sent_fields res now r) = m_kind r"
  "m_message_id (sent_fields res now r) = m_message_id r" "m_reminder_for (sent_fields res now r) = m_reminder_for r"
  "m_idempotency_key (sent_fields res now r) = m_idempotency_key r"
  "m_recipient_normalized (sent_fields res now r) = m_recipient_normalized r"
  "m_campaign (sent_fields res now r) = m_campaign r"
  by (simp_all add: sent_fields_def)

lemma remind_if_initial_progress:
  assumes "remind_if_initial env m sent_at d = Inr (s, d')"
  shows "progress K d d' \<and> s = m_state m"
  using assms ensure_reminder_progress by (auto simp: remind_if_initial_def bindE_eq_Inr split: if_splits)

lemma confirm_enrollment_frame [simp]:
  "progress K d (confirm_enrollment m now d)" "messages (confirm_enrollment m now d) = messages d"
  "ledgers (confirm_enrollment m now d) = ledgers d"
  "reservations (confirm_enrollment m now d) = reservations d"
  by (simp_all add: confirm_enrollment_def)

text \<open>The two ways \<open>_confirm_sent\<close> succeeds.\<close>

lemma confirm_sent_cases:
  assumes "confirm_sent env k res now d = Inr (s, d')"
  obtains (again) m t where "t_get m_id k (messages d) = Some m" "m_state m = SENT" "s = SENT"
      "remind_if_initial env m t d = Inr (s, d')"
  | (now_sent) m d2 where "t_get m_id k (messages d) = Some m" "m_state m \<in> {SENDING, RECONCILING}"
      "\<not> gmail_id_taken m (gr_message_id res) d" "s = SENT"
      "confirm_guard (sent_fields res now m) now (confirm_enrollment (sent_fields res now m) now
         (save_message env k (sent_fields res now) d)) = Inr d2"
      "remind_if_initial env (sent_fields res now m) now
         (record_event ''message.sent'' k None (update_jobs (deliver_key k)
            (\<lambda>j. j\<lparr>j_state := J_SUCCEEDED, j_finished_at := Some now, j_heartbeat_at := Some now,
                   j_error := []\<rparr>) d2)) = Inr (s, d')"
proof -
  obtain m where m: "t_get m_id k (messages d) = Some m"
    using assms by (auto simp: confirm_sent_def bindE_eq_Inr get_message_Inr)
  show thesis
  proof (cases "m_state m = SENT")
    case True
    then have r: "remind_if_initial env m (case m_sent_at m of Some t \<Rightarrow> t | None \<Rightarrow> now) d = Inr (s, d')"
      using assms m by (simp add: confirm_sent_def get_message_def)
    then have "s = SENT" using remind_if_initial_progress True by blast
    then show thesis using again [OF m True _ r] by simp
  next
    case False
    then obtain d2 where *: "m_state m \<in> {SENDING, RECONCILING}" "\<not> gmail_id_taken m (gr_message_id res) d"
      "confirm_guard (sent_fields res now m) now (confirm_enrollment (sent_fields res now m) now
         (save_message env k (sent_fields res now) d)) = Inr d2"
      "remind_if_initial env (sent_fields res now m) now
         (record_event ''message.sent'' k None (update_jobs (deliver_key k)
            (\<lambda>j. j\<lparr>j_state := J_SUCCEEDED, j_finished_at := Some now, j_heartbeat_at := Some now,
                   j_error := []\<rparr>) d2)) = Inr (s, d')"
      using assms m by (auto simp: confirm_sent_def get_message_def bindE_eq_Inr Let_def split: if_splits)
    moreover have "s = SENT" using remind_if_initial_progress [OF *(4)] by simp
    ultimately show thesis using now_sent [OF m] by blast
  qed
qed

lemma now_sent_progress:
  assumes m: "t_get m_id k (messages d) = Some m" "m_state m \<in> {SENDING, RECONCILING}"
    and free: "\<not> gmail_id_taken m (gr_message_id res) d"
    and g: "confirm_guard (sent_fields res now m) now (confirm_enrollment (sent_fields res now m) now
       (save_message env k (sent_fields res now) d)) = Inr d2"
    and inK [simp]: "k \<in> K"
  shows "progress K d (record_event a e u (update_jobs key f d2))"
proof -
  have k: "m_id m = k" using m(1) by (rule t_get_key)
  have "progress K d (save_message env k (sent_fields res now) d)"
    by (rule progress_save_gmail [where x = m and gid = "gr_message_id res", OF m(1)])
      (use m(2) free k in \<open>auto simp: evolves_def same_identity_def sent_fields_def\<close>)
  also have "progress K (save_message env k (sent_fields res now) d) (confirm_enrollment (sent_fields res now m) now
       (save_message env k (sent_fields res now) d))" by simp
  also have "progress K \<dots> d2" using g by (rule progress_confirm_guard)
  also have "progress K d2 (record_event a e u (update_jobs key f d2))"
    by (intro progress_then progress_refl)
  finally show ?thesis .
qed

lemma confirm_sent_progress:
  assumes "confirm_sent env k res now d = Inr (s, d')"
    and inK [simp]: "k \<in> K"
  shows "progress K d d'"
  using assms(1)
proof (cases rule: confirm_sent_cases)
  case (again m t)
  then show ?thesis using remind_if_initial_progress by blast
next
  case (now_sent m d2)
  note now_sent_progress [OF now_sent(1-3,5) inK]
  also have "progress K (record_event ''message.sent'' k None (update_jobs (deliver_key k)
      (\<lambda>j. j\<lparr>j_state := J_SUCCEEDED, j_finished_at := Some now, j_heartbeat_at := Some now,
             j_error := []\<rparr>) d2)) d'"
    using remind_if_initial_progress [OF now_sent(6)] ..
  finally show ?thesis .
qed

end
