(* ===== verification/Worker.thy ===== *)
theory Worker
  imports Progress
begin

text \<open>
  The remaining delivery operations respect \<open>progress\<close>, and with it the whole worker does: one delivery,
  one reconciliation, one scan of the queue, the operator's retry and the completion of campaigns, for
  any provider. The last section says when a worker may call the provider at all.
\<close>

section \<open>The last check before the provider\<close>

lemma decide_effect_progress:
  assumes "decide_effect env x m c d = Inr (r, d')" and m: "t_get m_id (m_id m) (messages d) = Some r0"
    "m_state r0 \<noteq> SENT"
    and inK [simp]: "m_id m \<in> K"
  shows "progress K d d'"
proof (cases "if effect_connection x c d = None then Inr () else verify_effect env x m d")
  case (Inr u)
  then show ?thesis
    using assms(1) progress_stop [OF m] by (auto simp: decide_effect_def Let_def split: if_splits)
next
  case (Inl e)
  then obtain reason where
    "pause_campaign env (c_id c) reason (update_jobs (deliver_key (m_id m))
       (\<lambda>j. j\<lparr>j_state := J_CANCELLED, j_finished_at := Some (clock env), j_error := reason\<rparr>)
       (stop_message env m QUEUED reason d)) = Inr d'"
    using assms(1) by (auto simp: decide_effect_def Let_def bindE_eq_Inr split: if_splits)
  then have "progress K (update_jobs (deliver_key (m_id m))
       (\<lambda>j. j\<lparr>j_state := J_CANCELLED, j_finished_at := Some (clock env), j_error := reason\<rparr>)
       (stop_message env m QUEUED reason d)) d'" by (rule progress_pause)
  moreover have "progress K d (update_jobs (deliver_key (m_id m))
       (\<lambda>j. j\<lparr>j_state := J_CANCELLED, j_finished_at := Some (clock env), j_error := reason\<rparr>)
       (stop_message env m QUEUED reason d))"
    by (intro progress_then progress_stop [OF m inK])
  ultimately show ?thesis by (metis progress_trans)
qed

lemma authorize_cases:
  assumes "authorize_effect env x d = Inr (r, d')"
  obtains (gone) m where "t_get m_id (x_message x) (messages d) = Some m" "m_state m \<noteq> SENDING"
      "r = Stopped (m_state m)" "d' = d"
  | (lost) m where "t_get m_id (x_message x) (messages d) = Some m" "m_state m = SENDING"
      "r = Stopped (ineligible_state (m_kind m))"
      "d' = mark_message_ineligible env m txt_lost_campaign (clock env) d"
  | (unapproved) m where "t_get m_id (x_message x) (messages d) = Some m" "m_state m = SENDING"
      "r = Stopped REVIEW_READY" "d' = stop_message env m REVIEW_READY txt_needs_approval d"
  | (ineligible) m err d1 where "t_get m_id (x_message x) (messages d) = Some m" "m_state m = SENDING"
      "final_email_error env m d = Inr (err, d1)" "err \<noteq> []" "r = Stopped (ineligible_state (m_kind m))"
      "d' = mark_message_ineligible env m err (clock env) d1"
  | (decided) m c d1 where "t_get m_id (x_message x) (messages d) = Some m" "m_state m = SENDING"
      "m_campaign m = Some (c_id c)" "t_get c_id (c_id c) (campaigns d) = Some c" "approved m"
      "final_email_error env m d = Inr ([], d1)" "decide_effect env x m c d1 = Inr (r, d')"
proof -
  obtain m where m: "t_get m_id (x_message x) (messages d) = Some m"
    using assms by (auto simp: authorize_effect_def bindE_eq_Inr get_message_Inr)
  show thesis
  proof (cases "m_state m = SENDING")
    case False
    then show thesis using assms m by (intro gone [OF m]) (simp_all add: authorize_effect_def get_message_def)
  next
    case sending: True
    show thesis
    proof (cases "m_campaign m")
      case None
      then show thesis using assms m sending
        by (intro lost [OF m]) (simp_all add: authorize_effect_def get_message_def)
    next
      case (Some k)
      then obtain c where c: "t_get c_id k (campaigns d) = Some c"
        using assms m sending by (auto simp: authorize_effect_def get_message_def bindE_eq_Inr get_campaign_Inr)
      then have k: "k = c_id c" by (auto dest: t_get_key)
      show thesis
      proof (cases "approved m")
        case False
        then show thesis using assms m sending Some c
          by (intro unapproved [OF m]) (simp_all add: authorize_effect_def get_message_def get_campaign_def)
      next
        case True
        then obtain err d1 where e: "final_email_error env m d = Inr (err, d1)"
          and rest: "(if err \<noteq> [] then Inr (Stopped (ineligible_state (m_kind m)),
              mark_message_ineligible env m err (clock env) d1) else decide_effect env x m c d1) = Inr (r, d')"
          using assms m sending Some c
          by (auto simp: authorize_effect_def get_message_def get_campaign_def bindE_eq_Inr)
        show thesis
        proof (cases "err = []")
          case err: True
          then have "decide_effect env x m c d1 = Inr (r, d')" using rest by simp
          then show thesis using sending Some k c True e err by (intro decided [OF m]) simp_all
        next
          case False
          then show thesis using rest by (intro ineligible [OF m sending e]) simp_all
        qed
      qed
    qed
  qed
qed

lemma authorize_progress:
  assumes "authorize_effect env x d = Inr (r, d')"
    and inK [simp]: "x_message x \<in> K"
  shows "progress K d d'"
  using assms
proof (cases rule: authorize_cases)
  case (gone m)
  then show ?thesis by simp
next
  case (lost m)
  then show ?thesis using progress_mark [of m d m] t_get_key [OF lost(1)] by simp
next
  case (unapproved m)
  then show ?thesis using progress_stop [of m d m] t_get_key [OF unapproved(1)] by simp
next
  case (ineligible m err d1)
  note l = final_email_error_Inr [OF ineligible(3)]
  obtain r1 where r1: "t_get m_id (x_message x) (messages d1) = Some r1" "relinked m r1"
    using l ineligible(1) by (rule t_get_links)
  have "progress K d1 d'"
    unfolding ineligible(6)
    by (rule progress_mark [of _ _ r1])
      (use r1 relinked_state [OF r1(2)] ineligible(2) t_get_key [OF ineligible(1)] in auto)
  then show ?thesis using progress_links [OF l] progress_trans by blast
next
  case (decided m c d1)
  note l = final_email_error_Inr [OF decided(6)]
  obtain r1 where r1: "t_get m_id (x_message x) (messages d1) = Some r1" "relinked m r1"
    using l decided(1) by (rule t_get_links)
  have "progress K d1 d'"
    by (rule decide_effect_progress [OF decided(7), of r1])
      (use r1 relinked_state [OF r1(2)] decided(2) t_get_key [OF decided(1)] in auto)
  then show ?thesis using progress_links [OF l] progress_trans by blast
qed

text \<open>The provider is called only when every condition of the last check holds.\<close>

lemma authorize_call:
  assumes "authorize_effect env x d = Inr (Call_Provider kind, d')"
  obtains m c g where "t_get m_id (x_message x) (messages d) = Some m" "m_state m = SENDING" "kind = m_kind m"
    "m_campaign m = Some (c_id c)" "t_get c_id (c_id c) (campaigns d) = Some c" "approved m"
    "final_email_error env m d = Inr ([], d')" "may_call_provider env m c (Some g) d'"
    "effect_connection x c d' = Some g" "verify_effect env x m d' = Inr ()"
  using assms
proof (cases rule: authorize_cases)
  case (decided m c d1)
  obtain g where g: "effect_connection x c d1 = Some g" "verify_effect env x m d1 = Inr ()"
    "may_call_provider env m c (Some g) d1" "kind = m_kind m" "d' = d1"
  proof (cases "effect_connection x c d1")
    case None
    then show thesis using decided(7) by (auto simp: decide_effect_def may_call_provider_def split: if_splits)
  next
    case (Some g)
    then have "verify_effect env x m d1 = Inr ()"
      using decided(7)
      by (cases "verify_effect env x m d1")
        (auto simp: decide_effect_def Let_def bindE_eq_Inr split: if_splits)
    then show thesis using decided(7) Some by (intro that) (simp_all add: decide_effect_def split: if_splits)
  qed
  then show thesis using decided by (intro that) simp_all
qed (auto simp: mark_message_ineligible_def)

section \<open>Errors and absences\<close>

lemma break_connection_frame [simp]:
  "messages (break_connection ws t d) = messages d" "campaigns (break_connection ws t d) = campaigns d"
  "progress K d (break_connection ws t d)"
proof -
  show "messages (break_connection ws t d) = messages d" "campaigns (break_connection ws t d) = campaigns d"
    by (simp_all add: break_connection_def)
  show "progress K d (break_connection ws t d)"
    by (rule progress_other_tables) (simp_all add: break_connection_def static_tables_def)
qed

lemma progress_after_error:
  assumes "t_get m_id (m_id m) (messages d) = Some r" "m_state r \<noteq> SENT"
    and inK [simp]: "m_id m \<in> K"
  shows "progress K d (after_error env m state next_attempt now text d)"
proof -
  have "progress K d (if state = SEND_FAILED then release_delivery_guard m now d else d)" by simp
  then show ?thesis
    unfolding after_error_def
    by (intro progress_then progress_then_save [where m = r]) (use assms in \<open>simp_all add: quiet_defs\<close>)
qed

lemma record_send_error_cases:
  assumes "record_send_error env k err now ambiguous pause permanent d = Inr (s, d')"
  obtains (sent) m where "t_get m_id k (messages d) = Some m" "m_state m = SENT" "s = SENT" "d' = d"
  | (error) m next_attempt d4 d5 b where "t_get m_id k (messages d) = Some m" "m_state m \<noteq> SENT"
      "error_outcome err now ambiguous permanent (m_attempts m) = (s, next_attempt)"
      "d4 = (if is_authentication err then break_connection (map_option c_workspace (campaign_or_none m d))
               (redact env (provider_text err)) (after_error env m s next_attempt now (redact env (provider_text err)) d)
             else after_error env m s next_attempt now (redact env (provider_text err)) d)"
      "d5 = d4 \<or> (\<exists>camp. s = SEND_FAILED \<and> m_campaign m = Some camp
          \<and> pause_if_failure_threshold_reached env camp d4 = Inr (b, d5))"
      "d' = d5 \<or> (\<exists>c. campaign_or_none m d = Some c
          \<and> pause_campaign env (c_id c) (redact env (provider_text err)) d5 = Inr d')"
proof -
  obtain m where m: "t_get m_id k (messages d) = Some m"
    using assms by (auto simp: record_send_error_def bindE_eq_Inr get_message_Inr)
  have k: "m_id m = k" using m by (rule t_get_key)
  show thesis
  proof (cases "m_state m = SENT")
    case True
    then show thesis using assms m by (intro sent [OF m]) (simp_all add: record_send_error_def get_message_def)
  next
    case False
    let ?text = "redact env (provider_text err)" and ?c = "campaign_or_none m d"
    obtain s' nxt where o1: "error_outcome err now ambiguous permanent (m_attempts m) = (s', nxt)"
      by (cases "error_outcome err now ambiguous permanent (m_attempts m)")
    define d4 where "d4 = (if is_authentication err then break_connection (map_option c_workspace ?c) ?text
      (after_error env m s' nxt now ?text d) else after_error env m s' nxt now ?text d)"
    obtain p2 d5 where *: "threshold_after_error env m s'
          (pause \<or> (s' = SEND_FAILED \<and> is_rate_limit err)) d4 = Inr (p2, d5)"
      and **: "pause_after_error env ?c p2 ?text d5 = Inr d'" and s: "s' = s"
      using assms m False o1
      by (auto simp: record_send_error_def get_message_def d4_def Let_def bindE_eq_Inr)
    obtain b where b: "d5 = d4 \<or> (\<exists>camp. s' = SEND_FAILED \<and> m_campaign m = Some camp
          \<and> pause_if_failure_threshold_reached env camp d4 = Inr (b, d5))"
      using * by (auto simp: threshold_after_error_def bindE_eq_Inr split: option.splits if_splits)
    have "d' = d5 \<or> (\<exists>c. ?c = Some c \<and> pause_campaign env (c_id c) ?text d5 = Inr d')"
      using ** by (auto simp: pause_after_error_def split: option.splits if_splits)
    then show thesis
      using b by (intro error [OF m False o1 [unfolded s], of d4 d5 b]) (simp_all add: d4_def s)
  qed
qed

lemma record_send_error_progress:
  assumes "record_send_error env k err now ambiguous pause permanent d = Inr (s, d')"
    and inK [simp]: "k \<in> K"
  shows "progress K d d'"
  using assms
proof (cases rule: record_send_error_cases)
  case (sent m)
  then show ?thesis by simp
next
  case (error m nxt d4 d5 b)
  have "t_get m_id (m_id m) (messages d) = Some m" using error(1) t_get_key by metis
  then have e: "progress K d (after_error env m s nxt now (redact env (provider_text err)) d)"
    using error(2) t_get_key [OF error(1)] inK by (intro progress_after_error) simp_all
  then have "progress K d d4"
    unfolding error(4) by (auto intro: progress_trans [OF e])
  also have "progress K d4 d5" using error(5) progress_threshold by auto
  also have "progress K d5 d'" using error(6) progress_pause by auto
  finally show ?thesis .
qed

lemma record_absence_cases:
  assumes "record_absence env k now d = Inr (s, d')"
  obtains (settled) m where "t_get m_id k (messages d) = Some m" "m_state m \<notin> {SENDING, RECONCILING}"
      "s = m_state m" "d' = d"
  | (absent) m c next_attempt err d3 where "t_get m_id k (messages d) = Some m" "m_state m \<in> {SENDING, RECONCILING}"
      "m_campaign m = Some (c_id c)" "t_get c_id (c_id c) (campaigns d) = Some c"
      "absence_outcome c m now = (s, next_attempt, err)"
      "d3 = update_jobs (deliver_key k)
         (\<lambda>j. j\<lparr>j_state := if s = SEND_FAILED then J_FAILED else J_RETRY_WAIT,
                j_next_retry_at := next_attempt, j_heartbeat_at := Some now,
                j_finished_at := if s = SEND_FAILED then Some now else None, j_error := err\<rparr>)
         (save_message env k (\<lambda>r. r\<lparr>m_state := s, m_next_attempt_at := next_attempt, m_error := err\<rparr>)
           (if s = QUEUED then d else release_delivery_guard m now d))"
      "d' = d3 \<or> (\<exists>b. s = SEND_FAILED \<and> pause_if_failure_threshold_reached env (c_id c) d3 = Inr (b, d'))"
proof -
  obtain m where m: "t_get m_id k (messages d) = Some m"
    using assms by (auto simp: record_absence_def bindE_eq_Inr get_message_Inr)
  show thesis
  proof (cases "m_state m \<in> {SENDING, RECONCILING}")
    case False
    then show thesis using assms m by (intro settled [OF m]) (auto simp: record_absence_def get_message_def)
  next
    case True
    then obtain camp c where c: "m_campaign m = Some camp" "t_get c_id camp (campaigns d) = Some c"
      using assms m by (auto simp: record_absence_def get_message_def bindE_eq_Inr get_campaign_Inr split: option.splits)
    then have camp: "camp = c_id c" by (auto dest: t_get_key)
    obtain s' nxt err where o1: "absence_outcome c m now = (s', nxt, err)"
      by (cases "absence_outcome c m now")
    let ?d3 = "update_jobs (deliver_key k)
         (\<lambda>j. j\<lparr>j_state := if s' = SEND_FAILED then J_FAILED else J_RETRY_WAIT,
                j_next_retry_at := nxt, j_heartbeat_at := Some now,
                j_finished_at := if s' = SEND_FAILED then Some now else None, j_error := err\<rparr>)
         (save_message env k (\<lambda>r. r\<lparr>m_state := s', m_next_attempt_at := nxt, m_error := err\<rparr>)
           (if s' = QUEUED then d else release_delivery_guard m now d))"
    have body: "(if s' = SEND_FAILED
          then bindE (pause_if_failure_threshold_reached env camp ?d3) (\<lambda>(b, d4). Inr (s', d4))
          else Inr (s', ?d3)) = Inr (s, d')"
      using assms m True c o1 by (auto simp: record_absence_def get_message_def get_campaign_def Let_def)
    then have s: "s' = s" by (auto simp: bindE_eq_Inr split: if_splits)
    have "d' = ?d3 \<or> (\<exists>b. s = SEND_FAILED \<and> pause_if_failure_threshold_reached env (c_id c) ?d3 = Inr (b, d'))"
    proof (cases "s = SEND_FAILED")
      case True
      then show ?thesis using body unfolding s camp by (auto simp: bindE_eq_Inr)
    next
      case False
      then show ?thesis using body unfolding s camp by simp
    qed
    then show thesis
      using o1 c(2) unfolding s camp
      by (intro absent [OF m True c(1) [unfolded camp] _ _ refl]) simp_all
  qed
qed

lemma record_absence_progress:
  assumes "record_absence env k now d = Inr (s, d')"
    and inK [simp]: "k \<in> K"
  shows "progress K d d'"
  using assms
proof (cases rule: record_absence_cases)
  case (settled m)
  then show ?thesis by simp
next
  case (absent m c nxt err d3)
  have "progress K d (if s = QUEUED then d else release_delivery_guard m now d)" by simp
  then have "progress K d d3"
    unfolding absent(6)
    by (intro progress_then progress_then_save [where m = m]) (use absent(1,2) in \<open>auto simp: quiet_defs\<close>)
  also have "progress K d3 d'" using absent(7) progress_threshold by auto
  finally show ?thesis .
qed

section \<open>Whole operations, for any provider\<close>

lemma commit_progress:
  assumes "commit r d p = (res, d', p')" "\<And>a d1. r = Inr (a, d1) \<Longrightarrow> progress K d d1"
  shows "progress K d d' \<and> p' = p"
  using assms by (cases r) (auto simp: commit_def)

lemma execute_progress:
  assumes "execute_external_effect env G x d p = (res, d', p')"
    and inK [simp]: "x_message x \<in> K"
  shows "progress K d d'"
  using assms authorize_progress
  by (auto simp: execute_external_effect_def split: sum.splits prod.splits decision.splits provider_failure.splits)

lemma finish_progress:
  assumes "finish_delivery env x now (res0, d, p) = (res, d', p')"
    and inK [simp]: "x_message x \<in> K"
  shows "progress K d d' \<and> p' = p"
proof (cases res0)
  case (Provider_Failed err)
  then have "commit (record_error env (x_message x) err now (delivery_flags err) d) d p = (res, d', p')"
    using assms by (simp add: finish_delivery_def)
  then show ?thesis
    by (rule commit_progress) (auto simp: record_error_def split: prod.splits intro: record_send_error_progress)
next
  case (Was_Sent r)
  then have "commit (confirm_sent env (x_message x) r now d) d p = (res, d', p')"
    using assms by (simp add: finish_delivery_def)
  then show ?thesis by (rule commit_progress) (rule confirm_sent_progress [OF _ inK])
qed (use assms in \<open>simp_all add: finish_delivery_def\<close>)

lemma prepare_effect_message:
  assumes "prepare_live_effect env k now d = Inr (Some x, d')"
  shows "x_message x = k"
  using assms
proof (cases rule: prepare_live_cases)
  case (due m c)
  from due(10) show ?thesis
  proof (rule prepare_due_Some)
    fix d1 g mime m' d2
    assume h: "reserve_guard env (queued m) c now d1 = Inr (Some m', d2)"
      and c: "commit_sending env m' g mime now d2 = Inr (x, d')"
    have "m_id m' = m_id m" using reserve_guard_held [OF h, of UNIV] by auto
    then show ?thesis using commit_sending_Inr(2) [OF c] t_get_key [OF due(1)] by (simp add: effect_of_def)
  qed
qed simp_all

lemma deliver_live_progress:
  assumes "deliver_live env G k now d p = (res, d', p')"
    and inK [simp]: "k \<in> K"
  shows "progress K d d'"
proof (cases "prepare_live_effect env k now d")
  case (Inl e)
  then show ?thesis using assms by (simp add: deliver_live_def)
next
  case (Inr r)
  obtain eff d1 where r: "r = (eff, d1)" by (cases r)
  have p1: "progress K d d1" using prepare_live_progress [of env k now d eff d1 K] Inr r by simp
  show ?thesis
  proof (cases "eff = None \<or> (\<exists>x. eff = Some x \<and> t_get g_id (x_connection x) (connections d1) = None)")
    case True
    then have "d' = d1" using assms Inr r by (auto simp: deliver_live_def)
    then show ?thesis using p1 by simp
  next
    case False
    then obtain x res0 d2 p2 where "eff = Some x" and e: "execute_external_effect env G x d1 p = (res0, d2, p2)"
      and f: "finish_delivery env x now (res0, d2, p2) = (res, d', p')"
      using assms Inr r by (cases "execute_external_effect env G (the eff) d1 p") (auto simp: deliver_live_def)
    moreover have "x_message x = k"
      using prepare_effect_message [of env k now d x d1] Inr r \<open>eff = Some x\<close> by simp
    ultimately have "progress K d1 d2" "progress K d2 d'"
      using execute_progress [OF e, of K] finish_progress [OF f, of K] by simp_all
    then show ?thesis using p1 progress_trans [of K] by metis
  qed
qed

lemma deliver_message_progress:
  assumes "deliver_message env G k now d p = (res, d', p')"
    and inK [simp]: "k \<in> K"
  shows "progress K d d'"
proof (cases "get_message k d")
  case (Inl e)
  then show ?thesis using assms by (simp add: deliver_message_def)
next
  case (Inr m)
  show ?thesis
  proof (cases "m_kind m \<in> CAMPAIGN_DELIVERY_KINDS")
    case False
    then show ?thesis using assms Inr by (simp add: deliver_message_def)
  next
    case True
    then consider "commit (complete_review_only env k d) d p = (res, d', p')"
      | "commit (complete_dry_run env k now d) d p = (res, d', p')"
      | "deliver_live env G k now d p = (res, d', p')"
      using assms Inr by (cases "m_delivery_mode m") (auto simp: deliver_message_def)
    then show ?thesis
    proof cases
      case 1
      then show ?thesis by (rule commit_progress [THEN conjunct1]) (rule review_only_progress [OF _ inK])
    next
      case 2
      then show ?thesis by (rule commit_progress [THEN conjunct1]) (rule dry_run_progress [OF _ inK])
    next
      case 3
      then show ?thesis using inK by (rule deliver_live_progress)
    qed
  qed
qed

lemma reconcile_cases:
  assumes "reconcile_message env G k now d p = (res, d', p')"
  obtains (stopped) "d' = d" "p' = p"
  | (crashed) m e where "t_get m_id k (messages d) = Some m" "m_state m \<in> {SENDING, RECONCILING}"
      "pv_find G (m_message_id m) p = (Inl (Crashed e), p')" "d' = d"
  | (failed) m err where "t_get m_id k (messages d) = Some m" "m_state m \<in> {SENDING, RECONCILING}"
      "pv_find G (m_message_id m) p = (Inl (Failed err), p')"
      "commit (record_error env k err now (reconcile_flags err) d) d p' = (res, d', p')"
  | (found) m r where "t_get m_id k (messages d) = Some m" "m_state m \<in> {SENDING, RECONCILING}"
      "pv_find G (m_message_id m) p = (Inr (Some r), p')" "commit (confirm_sent env k r now d) d p' = (res, d', p')"
  | (absent) m where "t_get m_id k (messages d) = Some m" "m_state m \<in> {SENDING, RECONCILING}"
      "pv_find G (m_message_id m) p = (Inr None, p')" "commit (record_absence env k now d) d p' = (res, d', p')"
proof (cases "bindE (get_message k d) (\<lambda>m. bindE (campaign_of_message m d) (\<lambda>c. Inr (m, c)))")
  case (Inl e)
  then show thesis using assms stopped by (simp add: reconcile_message_def)
next
  case (Inr mc)
  obtain m c where mc: "mc = (m, c)" by (cases mc)
  have m: "t_get m_id k (messages d) = Some m" using Inr mc by (auto simp: bindE_eq_Inr get_message_Inr)
  show thesis
  proof (cases "m_delivery_mode m \<noteq> LIVE \<or> c_delivery_mode c \<noteq> LIVE \<or> m_state m \<notin> {SENDING, RECONCILING}
      \<or> workspace_connection (c_workspace c) d = None")
    case True
    then have "d' = d \<and> p' = p" using assms Inr mc by (auto simp: reconcile_message_def split: if_splits)
    then show thesis using stopped by blast
  next
    case False
    obtain found p2 where f: "pv_find G (m_message_id m) p = (found, p2)" by fastforce
    have p2: "p2 = p'"
      using assms Inr mc False f
      by (auto simp: reconcile_message_def commit_def split: sum.splits option.splits provider_failure.splits prod.splits)
    have body: "(case found of
        Inl (Failed err) \<Rightarrow> commit (record_error env k err now (reconcile_flags err) d) d p'
      | Inl (Crashed e) \<Rightarrow> (Inl e, d, p')
      | Inr (Some r) \<Rightarrow> commit (confirm_sent env k r now d) d p'
      | Inr None \<Rightarrow> commit (record_absence env k now d) d p') = (res, d', p')"
      using assms Inr mc False f p2
      by (auto simp: reconcile_message_def split: sum.splits option.splits provider_failure.splits)
    have s: "m_state m \<in> {SENDING, RECONCILING}" using False by blast
    note f' = f [unfolded p2]
    consider (1) e where "found = Inl (Crashed e)" | (2) err where "found = Inl (Failed err)"
      | (3) r where "found = Inr (Some r)" | (4) "found = Inr None"
      by (metis provider_failure.exhaust sum.exhaust option.exhaust)
    then show thesis
    proof cases
      case 1 then show thesis using crashed [OF m s] f' body by simp
    next
      case 2 then show thesis using failed [OF m s] f' body by simp
    next
      case 3 then show thesis using found [OF m s] f' body by simp
    next
      case 4 then show thesis using absent [OF m s] f' body by simp
    qed
  qed
qed

lemma record_error_progress:
  "record_error env k err now flags d = Inr (s, d') \<Longrightarrow> k \<in> K \<Longrightarrow> progress K d d'"
  by (auto simp: record_error_def split: prod.splits intro: record_send_error_progress)

lemma reconcile_progress:
  assumes "reconcile_message env G k now d p = (res, d', p')"
    and inK [simp]: "k \<in> K"
  shows "progress K d d'"
  using assms(1)
proof (cases rule: reconcile_cases)
  case failed
  from failed(4) show ?thesis
    by (rule commit_progress [THEN conjunct1]) (rule record_error_progress [OF _ inK])
next
  case found
  from found(4) show ?thesis
    by (rule commit_progress [THEN conjunct1]) (rule confirm_sent_progress [OF _ inK])
next
  case absent
  from absent(4) show ?thesis
    by (rule commit_progress [THEN conjunct1]) (rule record_absence_progress [OF _ inK])
qed simp_all

lemma candidate_progress:
  assumes "queue_candidate_is_ready env k now d = Inr (b, d')"
    and inK [simp]: "k \<in> K"
  shows "progress K d d'"
proof -
  obtain m where m: "t_get m_id k (messages d) = Some m"
    using assms by (auto simp: queue_candidate_is_ready_def bindE_eq_Inr get_message_Inr)
  have k: "m_id m = k" using m by (rule t_get_key)
  show ?thesis
  proof (cases "campaign_or_none m d = None \<or> (\<exists>c. campaign_or_none m d = Some c
      \<and> (c_state c \<noteq> C_RUNNING \<or> m_state m \<notin> {PREPARED, QUEUED}))")
    case True
    then have "d' = d" using assms m by (auto simp: queue_candidate_is_ready_def get_message_def)
    then show ?thesis by simp
  next
    case False
    then obtain c where c: "campaign_or_none m d = Some c" "c_state c = C_RUNNING" "m_state m \<in> {PREPARED, QUEUED}"
      by auto
    obtain err d1 where e: "final_email_error env m d = Inr (err, d1)"
      and rest: "(if err \<noteq> [] then Inr (False, mark_message_ineligible env m err now d1)
               else case message_attachments env m d1 of
                      Inr pdfs \<Rightarrow> Inr (True, d1)
                    | Inl e \<Rightarrow>
                        bindE (stop_on_content env k (\<lambda>t r. r\<lparr>m_error := t\<rparr>) (c_id c) e d1)
                          (\<lambda>d2. Inr (False, d2))) = Inr (b, d')"
      using assms m c by (auto simp: queue_candidate_is_ready_def get_message_def bindE_eq_Inr)
    note l = final_email_error_Inr [OF e]
    obtain r where r: "t_get m_id k (messages d1) = Some r" "relinked m r" using l m by (rule t_get_links)
    have n: "m_state r \<noteq> SENT" using relinked_state [OF r(2)] c(3) by auto
    have "progress K d1 d'"
    proof (cases "err = []")
      case False
      then have "d' = mark_message_ineligible env m err now d1" using rest by simp
      then show ?thesis using progress_mark [of m d1 r] r(1) n k by simp
    next
      case True
      show ?thesis
      proof (cases "message_attachments env m d1")
        case (Inl x)
        then have "stop_on_content env k (\<lambda>t r. r\<lparr>m_error := t\<rparr>) (c_id c) x d1 = Inr d'"
          using rest True by (auto simp: bindE_eq_Inr)
        then show ?thesis by (rule progress_stop_on_content [OF _ r(1) inK]) (simp add: quiet_defs)
      next
        case (Inr pdfs)
        then show ?thesis using rest True by simp
      qed
    qed
    then show ?thesis using progress_links [OF l] progress_trans by blast
  qed
qed

lemma ready_ids_progress:
  "ready_ids env now ks d = (res, d') \<Longrightarrow> set ks \<subseteq> K \<Longrightarrow> progress K d d'"
proof (induction ks arbitrary: d res d')
  case (Cons k ks)
  show ?case
  proof (cases "queue_candidate_is_ready env k now d")
    case (Inl e)
    then show ?thesis using Cons.prems by simp
  next
    case (Inr r)
    obtain b d1 where r: "r = (b, d1)" by (cases r)
    obtain res1 d2 where i: "ready_ids env now ks d1 = (res1, d2)" by fastforce
    have d2: "d' = d2" using Cons.prems Inr r i by (cases res1) auto
    have "progress K d d1" by (rule candidate_progress [OF Inr [unfolded r]]) (use Cons.prems in simp)
    then show ?thesis using Cons.IH [OF i] Cons.prems(2) progress_trans [of K d d1 d'] d2 by simp
  qed
qed simp

lemma pending_progress: "pending_message_ids env now d = (res, d') \<Longrightarrow> progress UNIV d d'"
  unfolding pending_message_ids_def by (erule ready_ids_progress) simp

section \<open>Retry and completion\<close>

text \<open>What a successful retry checked, and the row it leaves.\<close>

lemma retry_Inr:
  assumes "retry_failed_message env k actor reason d = Inr d'"
  obtains m c d1 pdfs where "t_get m_id k (messages d) = Some m" "campaign_of_message m d = Inr c"
    "m_state m = SEND_FAILED" "m_gmail_message_id m = []" "c_state c \<in> {C_RUNNING, C_PAUSED}"
    "10 \<le> length (collapse_spaces reason)" "final_email_error env m d = Inr ([], d1)"
    "message_attachments env m d1 = Inr pdfs"
    "\<exists>r. require_user_capability d actor RETRY_JOBS (Some (c_workspace c)) = Inr r"
    "\<exists>g. d' = record_event ''message.retry_requested'' k (Some actor) (update_jobs (deliver_key k) g
       (save_message env k
          (\<lambda>r. r\<lparr>m_state := if m_delivery_mode m = LIVE \<and> \<not> approved m then REVIEW_READY else QUEUED,
                 m_attempts := 0,
                 m_next_attempt_at := if m_delivery_mode m = LIVE \<and> \<not> approved m then None else Some (clock env),
                 m_delivery_reserved_at := None, m_sending_started_at := None, m_error := []\<rparr>) d1))"
proof -
  obtain m c where mc: "t_get m_id k (messages d) = Some m" "campaign_of_message m d = Inr c"
      "\<exists>r. require_user_capability d actor RETRY_JOBS (Some (c_workspace c)) = Inr r"
      "m_state m = SEND_FAILED" "m_gmail_message_id m = []" "c_state c \<in> {C_RUNNING, C_PAUSED}"
      "10 \<le> length (collapse_spaces reason)"
    using assms unfolding retry_failed_message_def
    by (auto simp: bindE_eq_Inr get_message_Inr not_less split: if_splits)
  then obtain d1 where d1: "final_email_error env m d = Inr ([], d1)"
    using assms unfolding retry_failed_message_def
    by (auto simp: bindE_eq_Inr get_message_Inr split: if_splits)
  then obtain pdfs where "message_attachments env m d1 = Inr pdfs"
    using assms mc unfolding retry_failed_message_def
    by (auto simp: bindE_eq_Inr get_message_Inr split: if_splits)
  then show thesis
    using assms mc(3) d1
    by (intro that [OF mc(1,2,4-7) d1 _ mc(3)])
      (auto simp: retry_failed_message_def get_message_def mc Let_def not_le [symmetric]
        bindE_eq_Inr split: if_splits)
qed

lemma retry_progress:
  assumes "retry_failed_message env k actor reason d = Inr d'"
    and inK [simp]: "k \<in> K"
  shows "progress K d d'"
  using assms(1)
proof (rule retry_Inr)
  fix m c d1 pdfs
  assume m: "t_get m_id k (messages d) = Some m" "m_state m = SEND_FAILED"
    and e: "final_email_error env m d = Inr ([], d1)"
    and d': "\<exists>g. d' = record_event ''message.retry_requested'' k (Some actor) (update_jobs (deliver_key k) g
       (save_message env k
          (\<lambda>r. r\<lparr>m_state := if m_delivery_mode m = LIVE \<and> \<not> approved m then REVIEW_READY else QUEUED,
                 m_attempts := 0,
                 m_next_attempt_at := if m_delivery_mode m = LIVE \<and> \<not> approved m then None else Some (clock env),
                 m_delivery_reserved_at := None, m_sending_started_at := None, m_error := []\<rparr>) d1))"
  note l = final_email_error_Inr [OF e]
  obtain r where r: "t_get m_id k (messages d1) = Some r" "relinked m r" using l m(1) by (rule t_get_links)
  have n: "m_state r \<noteq> SENT" using relinked_state [OF r(2)] m(2) by simp
  from d' have "progress K d1 d'"
    by (elim exE) (simp only:, intro progress_then progress_save [OF r(1) inK], use n in \<open>simp add: quiet_defs\<close>)
  then show ?thesis using progress_links [OF l] progress_trans by blast
qed

lemma remind_progress: "remind env m d = Inr d' \<Longrightarrow> progress K d d'"
  using ensure_reminder_progress by (auto simp: remind_def bindE_eq_Inr)

lemma remind_all_progress:
  assumes "foldE (remind env) ms d = Inr d'"
  shows "progress K d d'"
  by (rule foldE_invariant [OF assms, of "progress K d"]) (auto intro: progress_trans remind_progress)

lemma complete_transition_progress:
  assumes "transition_campaign env camp C_COMPLETED None [] d = Inr (c', d')"
  shows "progress K d d' \<and> messages d' = messages d"
proof -
  obtain c where c: "t_get c_id camp (campaigns d) = Some c" "C_COMPLETED \<in> ALLOWED_TRANSITIONS (c_state c)"
    "c_discovery c \<in> TERMINAL_DISCOVERY_STATES"
    using assms
    by (auto simp: transition_campaign_def transition_effect_def bindE_eq_Inr get_campaign_Inr split: if_splits)
  let ?c = "c\<lparr>c_finished_at := Some (clock env), c_state := C_COMPLETED\<rparr>"
  have k: "c_id c = camp" using c(1) by (rule t_get_key)
  have running: "c_state c = C_RUNNING" using c(2) by (cases "c_state c") auto
  have d': "d' = record_event ''campaign.transitioned'' camp None
      (d\<lparr>campaigns := t_save c_id camp (\<lambda>_. ?c) (campaigns d)\<rparr>)"
    using assms c k running
    by (auto simp: transition_campaign_def transition_effect_def require_if_actor_def get_campaign_def
        save_campaign_Inr bindE_eq_Inr Let_def)
  have "campaign_settles c ?c"
    unfolding campaign_settles_def using running
    by (intro conjI exI [of _ C_COMPLETED] exI [of _ "c_status_reason c"] exI [of _ "Some (clock env)"]) simp_all
  then have "progress K d d'"
    by (rule progress_campaign [OF c(1)]) (simp_all add: d' static_tables_def)
  then show ?thesis by (simp add: d')
qed

lemma complete_drained_Inr:
  assumes "complete_campaign_if_drained env camp d = Inr (b, d')"
  obtains (not_ready) "\<not> b" "d' = d"
  | (active) c d1 where "t_get c_id camp (campaigns d) = Some c" "\<And>K. progress K d d1" "\<not> b" "d' = d1"
  | (complete) c d1 c' where "t_get c_id camp (campaigns d) = Some c" "c_state c = C_RUNNING" "\<And>K. progress K d d1" "b"
      "\<not> has_active_messages c d1" "\<not> has_unfinished_prospects camp d1" "\<not> has_retrying_analysis camp d1"
      "transition_campaign env camp C_COMPLETED None [] d1 = Inr (c', d')"
proof -
  obtain c where c: "t_get c_id camp (campaigns d) = Some c"
    using assms by (auto simp: complete_campaign_if_drained_def bindE_eq_Inr get_campaign_Inr)
  show thesis
  proof (cases "c_state c \<noteq> C_RUNNING \<or> c_discovery c \<notin> TERMINAL_DISCOVERY_STATES")
    case True
    then show thesis
      using assms c by (intro not_ready) (auto simp: complete_campaign_if_drained_def get_campaign_def)
  next
    case False
    then obtain d1 where d1: "(if c_reminder_enabled c \<and> c_delivery_mode c = LIVE
                then foldE (remind env) (unreminded_initials camp d) d else Inr d) = Inr d1"
      and rest: "(if has_active_messages c d1 \<or> has_unfinished_prospects camp d1 \<or> has_retrying_analysis camp d1
           then Inr (False, d1)
           else bindE (transition_campaign env camp C_COMPLETED None [] d1) (\<lambda>(c', d2). Inr (True, d2))) = Inr (b, d')"
      using assms c by (auto simp: complete_campaign_if_drained_def get_campaign_def bindE_eq_Inr)
    have p: "progress K d d1" for K using d1 remind_all_progress by (auto split: if_splits)
    show thesis
    proof (cases "has_active_messages c d1 \<or> has_unfinished_prospects camp d1 \<or> has_retrying_analysis camp d1")
      case True
      then show thesis using rest p by (intro active [OF c]) auto
    next
      case idle: False
      then obtain c' where "transition_campaign env camp C_COMPLETED None [] d1 = Inr (c', d')" "b"
        using rest by (auto simp: bindE_eq_Inr)
      then show thesis using False idle p by (intro complete [OF c]) auto
    qed
  qed
qed

lemma complete_drained_progress:
  assumes "complete_campaign_if_drained env camp d = Inr (b, d')"
  shows "progress K d d'"
  using assms
proof (cases rule: complete_drained_Inr)
  case (complete c d1 c')
  then show ?thesis using complete_transition_progress progress_trans by blast
qed simp_all

lemma complete_campaigns_progress:
  "complete_campaigns env ks d = (res, d') \<Longrightarrow> progress K d d'"
proof (induction ks arbitrary: d res d')
  case (Cons k ks)
  show ?case
  proof (cases "complete_campaign_if_drained env k d")
    case (Inl e)
    then show ?thesis using Cons.prems by simp
  next
    case (Inr r)
    obtain b d1 where r: "r = (b, d1)" by (cases r)
    obtain res1 d2 where i: "complete_campaigns env ks d1 = (res1, d2)" by fastforce
    have "d' = d2" using Cons.prems Inr r i by (cases res1) auto
    then show ?thesis using complete_drained_progress Inr r Cons.IH [OF i] progress_trans by blast
  qed
qed simp

end
