(* ===== verification/Sending.thy ===== *)
theory Sending
  imports Worker
begin

text \<open>
  When a mail may leave. The first section shows that an empty answer of \<open>final_email_error\<close> means that
  the eligibility rule was asked and agreed; then the conditions under which \<open>_prepare_live_effect\<close>
  reserves a delivery, what it reserves, and that a worker calls the provider only after it did.
\<close>

section \<open>Every validation error has a text\<close>

definition speaks :: "exn \<Rightarrow> bool" where
  "speaks e \<longleftrightarrow> (is_validation_error e \<longrightarrow> exn_text e \<noteq> [])"

lemma speaks_simps [simp]:
  "speaks (ValidationError t) \<longleftrightarrow> t \<noteq> []" "speaks (OrganizationResolutionConflict t) \<longleftrightarrow> t \<noteq> []"
  "speaks DoesNotExist" "speaks IntegrityError" "speaks AssertionFailed" "speaks (RuntimeFailure t)"
  by (simp_all add: speaks_def)

lemma foldE_error:
  assumes "foldE f xs s = Inl e" "\<And>x s. f x s = Inl e \<Longrightarrow> Q"
  shows Q
  using assms by (induction xs arbitrary: s) (auto simp: bindE_eq_Inl)

lemma normalize_speaks:
  "invalid_email_text env \<noteq> [] \<Longrightarrow> normalize_email env v = Inl e \<Longrightarrow> speaks e"
  by (auto simp: normalize_email_def bindE_eq_Inl of_option_eq_Inl Let_def txt_defs split: if_splits)

lemma identity_value_speaks:
  "invalid_email_text env \<noteq> [] \<Longrightarrow> normalized_identity_value env k v = Inl e \<Longrightarrow> speaks e"
  by (cases k) (auto simp: normalized_identity_value_def intro: normalize_speaks)

lemma claims_speak:
  assumes "invalid_email_text env \<noteq> []" "prepared_claims env cs = Inl e"
  shows "speaks e"
proof -
  have "foldE (add_claim env) cs [] = Inl e" using assms(2) by (auto simp: prepared_claims_def bindE_eq_Inl)
  then obtain c ps where "add_claim env c ps = Inl e" by (rule foldE_error)
  then show ?thesis
    using assms(1) identity_value_speaks
    by (auto simp: add_claim_def prepare_claim_def bindE_eq_Inl Let_def txt_defs split: if_splits)
qed

lemma organization_speaks:
  "find_or_create_organization ws ks a d = Inl e \<Longrightarrow> speaks e"
  by (auto simp: find_or_create_organization_def bindE_eq_Inl of_option_eq_Inl fresh_def Let_def txt_defs
      split: list.splits)

lemma email_address_speaks: "get_or_create_email_address env ws org n a d = Inl e \<Longrightarrow> speaks e"
  by (auto simp: get_or_create_email_address_def bindE_eq_Inl fresh_def Let_def txt_defs
      split: option.splits if_splits)

lemma identities_speak:
  assumes "foldE (get_or_create_identity ws org) cs d = Inl e"
  shows "speaks e"
  using assms
  by (rule foldE_error)
    (auto simp: get_or_create_identity_def fresh_def txt_defs split: option.splits if_splits)

lemma resolve_speaks:
  assumes "invalid_email_text env \<noteq> []" "resolve_organization env ws a d = Inl e"
  shows "speaks e"
proof -
  consider "normalize_email env (ra_email a) = Inl e" | "prepared_claims env (ra_identities a) = Inl e"
    | "e = ValidationError txt_no_identity" | ks where "find_or_create_organization ws ks a d = Inl e"
    | "e = OrganizationResolutionConflict txt_other_workspace"
    | org cs d1 where "foldE (get_or_create_identity ws org) cs d1 = Inl e"
    | org n d1 where "get_or_create_email_address env ws org n a d1 = Inl e"
    using assms(2) unfolding resolve_organization_def Let_def
    by (auto simp: bindE_eq_Inl split: if_splits)
  then show ?thesis
    using assms(1) normalize_speaks claims_speak organization_speaks identities_speak email_address_speaks
    by cases (auto simp: txt_defs)
qed

lemma attach_all_speak:
  assumes "invalid_email_text env \<noteq> []" "foldE (attach_legacy_email env ws org p prov) pes s = Inl e"
  shows "speaks e"
  using assms(2)
proof (rule foldE_error)
  fix pe s
  assume "attach_legacy_email env ws org p prov pe s = Inl e"
  then show ?thesis
    using resolve_speaks [OF assms(1)]
    by (auto simp: attach_legacy_email_def bindE_eq_Inl txt_defs split: prod.splits if_splits)
qed

lemma ensure_speaks:
  assumes "invalid_email_text env \<noteq> []" "ensure_prospect_enrollment env p camp prov d = Inl e"
  shows "speaks e"
proof -
  consider "e = DoesNotExist" | ws a where "resolve_organization env ws a d = Inl e"
    | ws org q pr pes s where "foldE (attach_legacy_email env ws org q pr) pes s = Inl e"
    | q org d1 where "link_prospect_organization q org d1 = Inl e"
    | ws c org s d1 where "get_or_create_enrollment ws c org s d1 = Inl e"
    | x s d1 where "select_enrollment_email x s d1 = Inl e"
    | k d1 where "refresh_enrollment_eligibility k d1 = Inl e"
    using assms(2) unfolding ensure_prospect_enrollment_def Let_def
    by (auto simp: bindE_eq_Inl of_option_eq_Inl)
  then show ?thesis
    using resolve_speaks [OF assms(1)] attach_all_speak [OF assms(1)]
    by cases (auto simp: link_prospect_organization_def get_or_create_enrollment_def select_enrollment_email_def
        refresh_enrollment_eligibility_def bindE_eq_Inl of_option_eq_Inl fresh_def Let_def txt_defs
        split: if_splits option.splits)
qed

lemma eligibility_speaks:
  assumes "invalid_email_text env \<noteq> []" "outbound_eligibility_error env m d = Inl e"
  shows "speaks e"
proof -
  have links: "speaks e" if "ensure_outbound_contact_links env k d = Inl e" for k
    using that ensure_speaks [OF assms(1)]
    by (auto simp: ensure_outbound_contact_links_def enrollment_of_message_def get_message_def
        bindE_eq_Inl of_option_eq_Inl txt_defs split: option.splits)
  have rule: "speaks e" if "eligibility_error env m x d1 = Inl e" for x d1
  proof (cases "normalize_email env (recipient_of m)")
    case (Inl y)
    then show ?thesis
      using that by (auto simp: eligibility_error_def Let_def bindE_eq_Inl of_option_eq_Inl speaks_def split: if_splits)
  next
    case (Inr y)
    then show ?thesis
      using that by (auto simp: eligibility_error_def Let_def bindE_eq_Inl of_option_eq_Inl split: if_splits)
  qed
  show ?thesis
    using assms(2) links rule
    by (auto simp: outbound_eligibility_error_def bindE_eq_Inl of_option_eq_Inl)
qed

text \<open>So an empty answer is the rule's own.\<close>

lemma final_email_error_none:
  assumes "invalid_email_text env \<noteq> []" "final_email_error env m d = Inr ([], d')"
  shows "only_links d d' \<and> recipient_eligible env m d'"
proof -
  have "outbound_eligibility_error env m d = Inr ([], d')"
    using assms(2) eligibility_speaks [OF assms(1)]
    by (auto simp: final_email_error_def speaks_def split: sum.splits if_splits)
  then show ?thesis using outbound_eligibility_error_none by (auto simp: recipient_eligible_def)
qed

lemma eligible_not_suppressed:
  assumes "recipient_eligible env m d"
  obtains n where "normalize_email env (recipient_of m) = Inr n" "\<not> suppressed n d"
  using assms by (auto simp: recipient_eligible_def enrollment_eligible_iff)

section \<open>Counting against the daily limit\<close>

definition counts_same :: "message \<Rightarrow> message \<Rightarrow> bool" where
  "counts_same m m' \<longleftrightarrow>
     m_campaign m' = m_campaign m \<and> m_delivery_mode m' = m_delivery_mode m
     \<and> m_delivery_reserved_at m' = m_delivery_reserved_at m
     \<and> (m_state m' \<in> in_flight \<longleftrightarrow> m_state m \<in> in_flight)"

lemma counts_same_refl [simp]: "counts_same m m"
  by (simp add: counts_same_def)

lemma relinked_counts: "relinked m m' \<Longrightarrow> counts_same m m'"
  by (auto simp: relinked_def counts_same_def)

lemma counts_for_same: "counts_same m m' \<Longrightarrow> counts_for k m' = counts_for k m"
  by (simp add: counts_same_def counts_for_def)

definition sent_today :: "env \<Rightarrow> campaign \<Rightarrow> instant \<Rightarrow> db \<Rightarrow> nat" where
  "sent_today env c now d =
     (let (a, b) = local_day_bounds env c now
      in length (filter (\<lambda>m. counts_for (c_id c) m \<and> reserved_between a b m) (messages d)))"

lemma daily_slot_iff: "daily_slot_available env c now d \<longleftrightarrow> sent_today env c now d < c_daily_limit c"
  by (simp add: daily_slot_available_def sent_today_def split_beta Let_def)

lemma sent_today_same:
  assumes "list_all2 counts_same (messages d) (messages d')"
  shows "sent_today env c now d' = sent_today env c now d"
proof -
  have "length (filter (\<lambda>m. counts_for k m \<and> reserved_between a b m) ms')
      = length (filter (\<lambda>m. counts_for k m \<and> reserved_between a b m) ms)"
    if "list_all2 counts_same ms ms'" for k a b ms ms'
    using that
  proof (induction rule: list_all2_induct)
    case (Cons m ms m' ms')
    have "reserved_between a b m' = reserved_between a b m"
      using Cons.hyps(1) by (simp add: counts_same_def reserved_between_def)
    then show ?case using Cons counts_for_same [OF Cons.hyps(1), of k] by simp
  qed simp
  then show ?thesis using assms by (simp add: sent_today_def split_beta Let_def)
qed

lemma interval_same:
  assumes "list_all2 counts_same (messages d) (messages d')"
  shows "interval_elapsed c now d' = interval_elapsed c now d"
proof -
  have "List.map_filter m_delivery_reserved_at (filter (counts_for k) ms')
      = List.map_filter m_delivery_reserved_at (filter (counts_for k) ms)"
    if "list_all2 counts_same ms ms'" for k ms ms'
    using that
  proof (induction rule: list_all2_induct)
    case (Cons m ms m' ms')
    then show ?case
      using counts_for_same [OF Cons.hyps(1), of k] by (simp add: map_filter_simps counts_same_def split: option.split)
  qed simp
  then show ?thesis using assms by (simp add: interval_elapsed_def latest_reservation_def Let_def)
qed

lemma links_count: "only_links d d' \<Longrightarrow> list_all2 counts_same (messages d) (messages d')"
  unfolding only_links_def by (elim conjE, erule list_all2_mono) (rule relinked_counts)

lemma queue_row_count:
  assumes "message_keys_ok d" "t_get m_id k (messages d) = Some m"
  shows "list_all2 counts_same (messages d) (messages (queue_row env m d))"
proof (cases "m_state m = PREPARED")
  case True
  have k: "m_id m = k" using assms(2) by (rule t_get_key)
  show ?thesis
    unfolding queue_row_def using True messages_keyed [OF assms] k
    by (simp, intro list_all2_t_save) (auto simp: counts_same_def in_flight_def)
qed (simp add: queue_row_def list_all2_refl)

lemma queue_row_frame [simp]:
  "campaigns (queue_row env m d) = campaigns d" "static_tables (queue_row env m d) = static_tables d"
  "connections (queue_row env m d) = connections d" "enrollments (queue_row env m d) = enrollments d"
  by (simp_all add: queue_row_def)

text \<open>One more row can add one.\<close>

lemma length_filter_save:
  assumes "distinct (map key t)" "\<And>r. key (f r) = key r"
  shows "length (filter P (t_save key k f t)) \<le> Suc (length (filter P t))"
proof -
  have other: "k \<notin> key ` set ys \<Longrightarrow> map (\<lambda>r. if key r = k then f r else r) ys = ys" for ys k
    by (induction ys) auto
  show ?thesis
    using assms(1) unfolding t_save_def t_update_def
    by (induction t) (auto simp: other simp del: length_filter_map)
qed

section \<open>What a preparation checked and reserved\<close>

lemma static_live:
  "static_tables d' = static_tables d \<Longrightarrow> live_sending_allowed env d' = live_sending_allowed env d"
  by (simp add: static_tables_def live_sending_allowed_def app_enabled_live_def send_setting_def)

lemma static_suppressed: "static_tables d' = static_tables d \<Longrightarrow> suppressed n d' = suppressed n d"
  by (simp add: static_tables_def suppressed_def)

lemma usable_same: "connections d' = connections d \<Longrightarrow> usable_connection ws d' = usable_connection ws d"
  by (simp add: usable_connection_def connected_def)

definition due :: "instant \<Rightarrow> message \<Rightarrow> bool" where
  "due now m \<longleftrightarrow> (\<forall>t. m_next_attempt_at m = Some t \<longrightarrow> t \<le> now)"

lemma day_slot_queued [simp]: "day_slot env c (queued m) now = day_slot env c m now"
  by (simp add: day_slot_def)

lemma recipient_eligible_queued [simp]: "recipient_eligible env (queued m) d = recipient_eligible env m d"
  by (simp add: recipient_eligible_def)

text \<open>The specification: a message of this campaign may be sent at this instant.\<close>

definition sendable :: "env \<Rightarrow> message \<Rightarrow> campaign \<Rightarrow> instant \<Rightarrow> db \<Rightarrow> bool" where
  "sendable env m c now d \<longleftrightarrow>
     m_campaign m = Some (c_id c) \<and> t_get c_id (c_id c) (campaigns d) = Some c
     \<and> m_delivery_mode m = LIVE \<and> c_delivery_mode c = LIVE \<and> c_state c = C_RUNNING
     \<and> approved m \<and> m_state m \<notin> settled_states \<and> due now m
     \<and> live_sending_allowed env d \<and> inside_schedule env c now
     \<and> sent_today env c now d < c_daily_limit c \<and> interval_elapsed c now d
     \<and> usable_connection (c_workspace c) d \<noteq> None
     \<and> (\<exists>n. normalize_email env (recipient_of m) = Inr n \<and> \<not> suppressed n d)"

lemma prepare_live_Some:
  assumes "prepare_live_effect env k now d = Inr (Some x, d')" "delivery_ok d" "invalid_email_text env \<noteq> []"
  obtains m c d1 g mime m' d2 where "t_get m_id k (messages d) = Some m" "sendable env m c now d"
    "only_links (queue_row env m d) d1" "recipient_eligible env m d1" "usable_connection (c_workspace c) d = Some g"
    "message_bytes env (queued m) c (g_email g) d1 = Inr mime"
    "reserve_guard env (queued m) c now d1 = Inr (Some m', d2)" "commit_sending env m' g mime now d2 = Inr (x, d')"
  using assms(1)
proof (cases rule: prepare_live_cases)
  case (due m c)
  from due(10) obtain d1 g mime m' d2 where
    p: "live_sending_allowed env (queue_row env m d)" "inside_schedule env c now"
    "final_email_error env (queued m) (queue_row env m d) = Inr ([], d1)"
    "usable_connection (c_workspace c) d1 = Some g"
    "daily_slot_available env c now d1" "interval_elapsed c now d1"
    "message_bytes env (queued m) c (g_email g) d1 = Inr mime"
    "reserve_guard env (queued m) c now d1 = Inr (Some m', d2)" "commit_sending env m' g mime now d2 = Inr (x, d')"
    by (rule prepare_due_Some)
  have keys: "message_keys_ok d" using assms(2) by (simp add: delivery_ok_def)
  note e = final_email_error_none [OF assms(3) p(3)]
  have l: "only_links (queue_row env m d) d1" and el: "recipient_eligible env m d1"
    using e by simp_all
  note f = links_frame [OF l]
  have g: "usable_connection (c_workspace c) d = Some g"
    using p(4) usable_same [of d1 d "c_workspace c"] f(3) by simp
  have st: "static_tables d1 = static_tables d" using f(2) by simp
  obtain n where n: "normalize_email env (recipient_of m) = Inr n" "\<not> suppressed n d1"
    using el by (rule eligible_not_suppressed)
  have same: "list_all2 counts_same (messages d) (messages (queue_row env m d))"
    "list_all2 counts_same (messages (queue_row env m d)) (messages d1)"
    using queue_row_count [OF keys due(1)] links_count [OF l] by blast+
  have "sendable env m c now d"
    unfolding sendable_def
    using due p(1,2,5,6) g n st static_live [of "queue_row env m d" d env] static_suppressed [OF st]
      sent_today_same [OF same(1)] sent_today_same [OF same(2)] interval_same [OF same(1)] interval_same [OF same(2)]
    by (auto simp: daily_slot_iff due_def)
  then show thesis using that due(1) l el g p(7-9) by blast
qed simp_all

text \<open>The message is marked, its guard is held, and the campaign's daily limit is respected afterwards.\<close>

definition guard_held :: "env \<Rightarrow> message \<Rightarrow> campaign \<Rightarrow> instant \<Rightarrow> db \<Rightarrow> bool" where
  "guard_held env m c now d \<longleftrightarrow>
     (if m_kind m = FIRST_CONTACT then ledger_holds d (m_recipient_normalized m) (m_id m)
      else day_holds d (day_slot env c m now) (m_id m))"

lemma ledger_holds_frame: "ledgers d' = ledgers d \<Longrightarrow> ledger_holds d' k a = ledger_holds d k a"
  by (simp add: ledger_holds_def)

lemma day_holds_frame: "reservations d' = reservations d \<Longrightarrow> day_holds d' k a = day_holds d k a"
  by (simp add: day_holds_def)

lemma reserve_guard_holds:
  assumes "reserve_guard env m c now d = Inr (Some m', d')" "delivery_ok d"
  shows "guard_held env m c now d'"
proof -
  note h = reserve_guard_held [where K = UNIV, OF assms(1)]
  have ok: "ledgers_ok d" "reservations_ok d" using assms(2) by (simp_all add: delivery_ok_def)
  show ?thesis
  proof (cases "m_kind m = FIRST_CONTACT")
    case True
    then show ?thesis using h ledger_guard.take_holds [OF ok(1)] by (auto simp: guard_held_def)
  next
    case False
    then show ?thesis using h day_guard.take_holds [OF ok(2)] by (auto simp: guard_held_def)
  qed
qed

lemma prepare_reserves:
  assumes prep: "prepare_live_effect env k now d = Inr (Some x, d')" and ok: "delivery_ok d"
    and spoken: "invalid_email_text env \<noteq> []"
  obtains m c r where "t_get m_id k (messages d) = Some m" "sendable env m c now d"
    "t_get m_id k (messages d') = Some r" "m_state r = SENDING" "m_attempts r = m_attempts m + 1"
    "m_delivery_reserved_at r = Some now" "same_identity m r" "m_message_id r = x_rfc_id x"
    "guard_held env m c now d'" "sent_today env c now d' \<le> c_daily_limit c"
    "x_message x = k" "x_idempotency_key x = m_idempotency_key m" "x_recipient x = m_recipient m"
  using prep ok spoken
proof (rule prepare_live_Some)
  fix m c d1 g mime m' d2
  assume m: "t_get m_id k (messages d) = Some m" and s: "sendable env m c now d"
    and l: "only_links (queue_row env m d) d1"
    and h: "reserve_guard env (queued m) c now d1 = Inr (Some m', d2)"
    and cs: "commit_sending env m' g mime now d2 = Inr (x, d')"
  have k: "m_id m = k" using m by (rule t_get_key)
  have keys: "message_keys_ok d" using ok by (simp add: delivery_ok_def)
  have n: "m_state m \<noteq> SENT" using s by (auto simp: sendable_def settled_states_def)
  note H = reserve_guard_held [where K = UNIV, OF h]
  then obtain q where m': "m' = (queued m)\<lparr>m_contact_sequence := q\<rparr>" by blast
  have "progress UNIV d (queue_row env m d)" using m by (rule progress_queue_row) simp
  then have ok1: "delivery_ok d1" using ok progress_links [OF l, of UNIV] by (simp add: progress_def)
  obtain r0 where r0: "t_get m_id (m_id m) (messages (queue_row env m d)) = Some r0" "m_state r0 \<noteq> SENT"
    "same_identity m r0" using m n by (rule queue_row_get)
  obtain r1 where r1: "t_get m_id (m_id m) (messages d1) = Some r1" "relinked r0 r1" using l r0(1) by (rule t_get_links)
  have id1: "same_identity m r1" using r0(3) r1(2) by (auto simp: relinked_def same_identity_def)
  have d': "d' = start_job (m_id m') (m_attempts m' + 1) now
      (save_message env (m_id m') (sending_fields m' mime now) d2)" and x: "x = effect_of m' g mime"
    using commit_sending_Inr [OF cs] by simp_all
  let ?f = "\<lambda>r. (sending_fields m' mime now r)\<lparr>m_updated_at := clock env\<rparr>"
  have msgs: "messages d' = t_save m_id k ?f (messages d1)" using H d' m' k by simp
  have row: "t_get m_id k (messages d') = Some (?f r1)" unfolding msgs using r1(1) k by (simp add: t_get_save_same)
  have counted: "sent_today env c now d1 = sent_today env c now d"
    using sent_today_same [OF queue_row_count [OF keys m]] sent_today_same [OF links_count [OF l]] by simp
  have "distinct (map m_id (messages d1))" using ok1 by (simp add: delivery_ok_def message_keys_ok_def)
  then have "sent_today env c now d' \<le> Suc (sent_today env c now d1)"
    unfolding sent_today_def msgs split_beta Let_def by (intro length_filter_save) simp_all
  then have limit: "sent_today env c now d' \<le> c_daily_limit c" using s counted by (simp add: sendable_def)
  have "guard_held env (queued m) c now d2" using h ok1 by (rule reserve_guard_holds)
  then have held: "guard_held env m c now d'"
    using ledger_holds_frame [of d' d2] day_holds_frame [of d' d2]
    by (auto simp: guard_held_def d' split: if_splits)
  show thesis
    by (rule that [OF m s row _ _ _ _ _ held limit])
      (use id1 k in \<open>simp_all add: m' x effect_of_def sending_fields_def same_identity_def\<close>)
qed

section \<open>A worker calls the provider only for a sendable message\<close>

lemma finish_provider: "finish_delivery env x now (res0, d, p) = (res, d', p') \<Longrightarrow> p' = p"
  by (drule finish_progress [where K = UNIV]) simp_all

lemma deliver_called:
  assumes "deliver_message env G k now d p = (res, d', p')" "p' \<noteq> p"
  obtains x d1 kind d2 where "prepare_live_effect env k now d = Inr (Some x, d1)"
    "authorize_effect env x d1 = Inr (Call_Provider kind, d2)" "p' = snd (call_provider G kind x p)"
proof -
  obtain m where m: "get_message k d = Inr m" "m_kind m \<in> CAMPAIGN_DELIVERY_KINDS" "m_delivery_mode m = LIVE"
    using assms by (auto simp: deliver_message_def commit_def split: sum.splits if_splits delivery_mode.splits prod.splits)
  then have "deliver_live env G k now d p = (res, d', p')" using assms(1) by (simp add: deliver_message_def)
  then obtain x d1 where x: "prepare_live_effect env k now d = Inr (Some x, d1)"
    and f: "finish_delivery env x now (execute_external_effect env G x d1 p) = (res, d', p')"
    using assms(2) by (auto simp: deliver_live_def split: sum.splits prod.splits option.splits if_splits)
  obtain res0 d2 p2 where e: "execute_external_effect env G x d1 p = (res0, d2, p2)"
    by (cases "execute_external_effect env G x d1 p")
  have "p2 = p'" using finish_provider [of env x now res0 d2 p2 res d' p'] f e by simp
  then obtain kind d3 where "authorize_effect env x d1 = Inr (Call_Provider kind, d3)"
      "p' = snd (call_provider G kind x p)"
    using e assms(2)
    by (auto simp: execute_external_effect_def split: sum.splits prod.splits decision.splits provider_failure.splits)
  then show thesis using that x by blast
qed

end
