(* ===== verification/Examples.thy ===== *)
theory Examples
  imports Sending
begin

text \<open>
  A small concrete deployment on which the properties are instantiated: one workspace with an
  administrator and a sales user, one approved campaign that is running, one catalog, and one initial
  mail that is ready to be sent at noon of a Thursday. Providers and environment functions are the
  simplest ones with the behaviour the properties assume.
\<close>

definition ex_env :: env where
  "ex_env = \<lparr>send_mode_live = True, send_kill_switch = False, send_requires_app_enable = True,
     clock = 43200000000, utc_offset = (\<lambda>z t. 0), wall_offset = (\<lambda>z l. 0), sha256_hex = (\<lambda>s. s),
     valid_email = (\<lambda>s. CHR ''@'' \<in> set s), invalid_email_text = ''invalid'', idna = Some,
     redact = (\<lambda>s. s), header_ok = (\<lambda>s. True), mime_bytes = (\<lambda>hs t b as. b),
     send_mode_text = ''live'',
     llm_settings = \<lparr>ll_provider = [], ll_model = [], ll_relevance_model = [], ll_relevance_provider = [],
       ll_relevance_base_url = [], ll_ollama_base_url = [], ll_openai_base_url = []\<rparr>,
     known_zone = (\<lambda>z. True), field_error = (\<lambda>c. None), validated_geojson = (\<lambda>j. Inl []),
     relationship_kill_switch = False, auto_reply_kill_switch = False, auto_conversation_limit = 3,
     auto_workspace_limit = 20\<rparr>"

definition ex_plan :: plan where
  "ex_plan = \<lparr>pl_name = ''Otono'', pl_location_text = [], pl_objective = 10, pl_max_raw_records = 100,
     pl_cost_limit = ''0'', pl_cost_currency = ''USD'', pl_relevance_threshold = 60, pl_extractor = [],
     pl_overture_snapshot = None, pl_overture_release = None, pl_min_confidence = ''0'',
     pl_website_fetcher = [], pl_llm_provider = [], pl_llm_base_url = [], pl_llm_model = [],
     pl_referred_subject = [], pl_referred_body = [], pl_settings_snapshot = JNull,
     pl_profile_snapshot = JNull, pl_prompt_snapshot = JNull, pl_template_revisions = JNull\<rparr>"

definition ex_campaign :: campaign where
  "ex_campaign = \<lparr>c_id = 10, c_workspace = 7, c_created_by = 2, c_state = C_RUNNING,
     c_discovery = D_EXHAUSTED_QUERIES, c_discovery_stop_reason = ''done'', c_delivery_mode = LIVE,
     c_approval_mode = BY_CAMPAIGN, c_reminder_enabled = True, c_reminder_delay_days = 3,
     c_status_reason = [], c_daily_limit = 5, c_interval_minutes = 10, c_weekdays = [0, 1, 2, 3, 4],
     c_window_start = 32400000000, c_window_end = 64800000000, c_timezone = ''UTC'',
     c_initial_subject = ''Hola'', c_initial_body = ''Texto'', c_reminder_body = ''Seguimos'',
     c_signature = ''Ana'', c_content_hash = [], c_audience_hash = [], c_attachment_hash = [],
     c_schedule_hash = [], c_plan = ex_plan, c_catalog = 20, c_approved_at = Some 0,
     c_approved_by = Some 2, c_started_at = Some 0, c_finished_at = None\<rparr>"

definition ex_message :: message where
  "ex_message = \<lparr>m_id = 30, m_kind = INITIAL, m_campaign = Some 10, m_organization = Some 40,
     m_enrollment = Some 42, m_contact = None, m_conversation = None, m_prospect = None,
     m_prospect_email = None, m_email_address = Some 41, m_parent_inbound = None, m_sent_by = None,
     m_recipient = ''a@b.c'',
     m_recipient_normalized = ''a@b.c'', m_subject = ''Hola'', m_body_text = ''Texto'',
     m_signature = ''Ana'', m_content_hash = [], m_content_revision = 1, m_last_edited_at = None,
     m_last_edited_by = None, m_catalog = None,
     m_catalog_version = None, m_state = PREPARED, m_delivery_mode = LIVE, m_approved_at = Some 0,
     m_approved_by = Some 2, m_idempotency_key = ''initial:30'', m_semantic_key = [], m_reminder_for = None,
     m_contact_sequence = Some 1, m_message_id = [], m_in_reply_to = [], m_references = [],
     m_mime_sha256 = [], m_mime_size = None, m_gmail_message_id = [], m_gmail_thread_id = [],
     m_attempts = 0, m_next_attempt_at = None, m_scheduled_for = None, m_delivery_reserved_at = None,
     m_sending_started_at = None, m_last_attempt_at = None, m_sent_at = None, m_simulated_at = None,
     m_error = [], m_created_at = 0, m_updated_at = 0\<rparr>"

definition ex_catalog :: catalog where
  "ex_catalog = \<lparr>k_id = 20, k_workspace = 7, k_version = 1, k_file_name = ''c1'', k_name = ''Catalogo'',
     k_original_filename = ''c.pdf'', k_byte_size = 6, k_sha256 = ''%PDF-1'', k_active = True,
     k_missing = False\<rparr>"

definition ex_attachment :: attachment where
  "ex_attachment = \<lparr>a_message = 30, a_catalog = 20, a_position = 0, a_catalog_version = 1,
     a_storage_key = ''c1'', a_filename = ''c.pdf'', a_byte_size = 6, a_sha256 = ''%PDF-1''\<rparr>"

definition ex_email :: email_address where
  "ex_email = \<lparr>ea_id = 41, ea_workspace = 7, ea_organization = 40, ea_original = ''a@b.c'',
     ea_normalized = ''a@b.c'', ea_domain = ''b.c'', ea_label = [], ea_preferred = True,
     ea_provenance = [], ea_source_url = [], ea_source_content_hash = [], ea_provider_order = 0,
     ea_validity = VALID, ea_validated_at = Some 0, ea_invalid_reason = [], ea_invalidated_at = None,
     ea_legacy = None\<rparr>"

definition ex_enrollment :: enrollment where
  "ex_enrollment = \<lparr>e_id = 42, e_workspace = 7, e_campaign = 10, e_organization = 40,
     e_selected_email = Some 41, e_state = E_PREPARED, e_source = ''DISCOVERY'', e_exclusion_reason = [],
     e_initial_sent_at = None, e_replied_at = None\<rparr>"

definition ex_connection :: gmail_connection where
  "ex_connection = \<lparr>g_id = 50, g_workspace = 7, g_owner = 2, g_email = ''me@x.y'', g_scopes = GMAIL_SCOPES,
     g_refresh_token = ''t'', g_history_id = ''1'', g_status = CONNECTED, g_last_tested_at = Some 0,
     g_last_sync_at = None, g_error = []\<rparr>"

definition ex_config :: configuration_tables where
  "ex_config = \<lparr>profiles = [], prompt_configurations = [], llm_choices = [], templates = [],
     categories = [], category_rules = [], zones = [], releases = [], snapshots = [], partitions = [],
     partition_zones = []\<rparr>"

definition ex_automation :: automation_tables where
  "ex_automation = \<lparr>reply_configurations = [], fact_rows = [], fact_revisions = [], context_revisions = [],
     candidate_rows = [], decision_rows = [], task_rows = [], action_reservations = [], topic_rows = [], plan_rows = [],
     attempt_rows = [], memory_rows = []\<rparr>"

definition ex_db :: db where
  "ex_db = \<lparr>next_id = 100, workspace_pk = 7,
     memberships = [\<lparr>u_id = 2, u_active = True, u_workspace = 7, u_role = ADMIN\<rparr>,
                    \<lparr>u_id = 3, u_active = True, u_workspace = 7, u_role = VENDEDOR\<rparr>],
     campaigns = [ex_campaign], messages = [ex_message], attachments = [ex_attachment],
     reservations = [], catalogs = [ex_catalog], storage = [(''c1'', ''%PDF-1'')], ledgers = [],
     suppressions = [], organizations = [], identities = [], emails = [ex_email], contacts = [],
     restrictions = [], enrollments = [ex_enrollment], prospects = [], prospect_identities = [],
     prospect_emails = [], analyses = [], jobs = [], audit_log = [], connections = [ex_connection],
     send_mode_settings = [\<lparr>sm_id = 60, sm_workspace = 7, sm_live_enabled = True,
       sm_live_enabled_at = Some 0, sm_live_enabled_by = Some 2\<rparr>],
     search_runs = [], search_queries = [], conversations = [], inbounds = [], config = ex_config,
     selections = \<lparr>category_selections = [], zone_selections = [], coverage_selections = [],
       campaign_attachments = []\<rparr>,
     automation = ex_automation, dispatched = []\<rparr>"

definition ex_now :: instant where "ex_now = 43200000000"

text \<open>A provider that takes every mail and remembers the Message-IDs.\<close>

definition naive_send :: "send_request \<Rightarrow> str list \<Rightarrow> (provider_failure + send_result) \<times> str list" where
  "naive_send q sent =
     (Inr \<lparr>gr_message_id = ''g'' @ q_message_id q, gr_thread_id = ''t''\<rparr>, sent @ [q_message_id q])"

definition naive_find :: "str \<Rightarrow> str list \<Rightarrow> (provider_failure + send_result option) \<times> str list" where
  "naive_find i sent =
     (Inr (if i \<in> set sent then Some \<lparr>gr_message_id = ''g'' @ i, gr_thread_id = ''t''\<rparr> else None), sent)"

definition naive_gmail :: "str list gmail" where
  "naive_gmail = \<lparr>pv_send = naive_send, pv_reply = naive_send, pv_find = naive_find\<rparr>"

section \<open>Fields\<close>

lemma ex_env_fields [simp]:
  "send_mode_live ex_env = True"
  "send_kill_switch ex_env = False"
  "send_requires_app_enable ex_env = True"
  "clock ex_env = 43200000000"
  "utc_offset ex_env = (\<lambda>z t. 0)"
  "wall_offset ex_env = (\<lambda>z l. 0)"
  "sha256_hex ex_env = (\<lambda>s. s)"
  "valid_email ex_env = (\<lambda>s. CHR ''@'' \<in> set s)"
  "invalid_email_text ex_env = ''invalid''"
  "idna ex_env = Some"
  "redact ex_env = (\<lambda>s. s)"
  "header_ok ex_env = (\<lambda>s. True)"
  "mime_bytes ex_env = (\<lambda>hs t b as. b)"
  "send_mode_text ex_env = ''live''"
  "llm_settings ex_env = \<lparr>ll_provider = [], ll_model = [], ll_relevance_model = [], ll_relevance_provider = [], ll_relevance_base_url = [], ll_ollama_base_url = [], ll_openai_base_url = []\<rparr>"
  "known_zone ex_env = (\<lambda>z. True)"
  "field_error ex_env = (\<lambda>c. None)"
  "validated_geojson ex_env = (\<lambda>j. Inl [])"
  by (simp_all add: ex_env_def)

lemma ex_campaign_fields [simp]:
  "c_id ex_campaign = 10"
  "c_workspace ex_campaign = 7"
  "c_created_by ex_campaign = 2"
  "c_state ex_campaign = C_RUNNING"
  "c_discovery ex_campaign = D_EXHAUSTED_QUERIES"
  "c_discovery_stop_reason ex_campaign = ''done''"
  "c_delivery_mode ex_campaign = LIVE"
  "c_approval_mode ex_campaign = BY_CAMPAIGN"
  "c_reminder_enabled ex_campaign = True"
  "c_reminder_delay_days ex_campaign = 3"
  "c_status_reason ex_campaign = []"
  "c_daily_limit ex_campaign = 5"
  "c_interval_minutes ex_campaign = 10"
  "c_weekdays ex_campaign = [0, 1, 2, 3, 4]"
  "c_window_start ex_campaign = 32400000000"
  "c_window_end ex_campaign = 64800000000"
  "c_timezone ex_campaign = ''UTC''"
  "c_initial_subject ex_campaign = ''Hola''"
  "c_initial_body ex_campaign = ''Texto''"
  "c_reminder_body ex_campaign = ''Seguimos''"
  "c_signature ex_campaign = ''Ana''"
  "c_content_hash ex_campaign = []"
  "c_audience_hash ex_campaign = []"
  "c_attachment_hash ex_campaign = []"
  "c_schedule_hash ex_campaign = []"
  "c_plan ex_campaign = ex_plan"
  "c_catalog ex_campaign = 20"
  "c_approved_at ex_campaign = Some 0"
  "c_approved_by ex_campaign = Some 2"
  "c_started_at ex_campaign = Some 0"
  "c_finished_at ex_campaign = None"
  by (simp_all add: ex_campaign_def)

lemma ex_message_fields [simp]:
  "m_id ex_message = 30"
  "m_kind ex_message = INITIAL"
  "m_campaign ex_message = Some 10"
  "m_organization ex_message = Some 40"
  "m_enrollment ex_message = Some 42"
  "m_contact ex_message = None"
  "m_conversation ex_message = None"
  "m_prospect ex_message = None"
  "m_prospect_email ex_message = None"
  "m_email_address ex_message = Some 41"
  "m_recipient ex_message = ''a@b.c''"
  "m_recipient_normalized ex_message = ''a@b.c''"
  "m_subject ex_message = ''Hola''"
  "m_body_text ex_message = ''Texto''"
  "m_signature ex_message = ''Ana''"
  "m_content_hash ex_message = []"
  "m_content_revision ex_message = 1"
  "m_catalog ex_message = None"
  "m_catalog_version ex_message = None"
  "m_state ex_message = PREPARED"
  "m_delivery_mode ex_message = LIVE"
  "m_approved_at ex_message = Some 0"
  "m_approved_by ex_message = Some 2"
  "m_idempotency_key ex_message = ''initial:30''"
  "m_reminder_for ex_message = None"
  "m_contact_sequence ex_message = Some 1"
  "m_message_id ex_message = []"
  "m_in_reply_to ex_message = []"
  "m_references ex_message = []"
  "m_mime_sha256 ex_message = []"
  "m_mime_size ex_message = None"
  "m_gmail_message_id ex_message = []"
  "m_gmail_thread_id ex_message = []"
  "m_attempts ex_message = 0"
  "m_next_attempt_at ex_message = None"
  "m_scheduled_for ex_message = None"
  "m_delivery_reserved_at ex_message = None"
  "m_sending_started_at ex_message = None"
  "m_last_attempt_at ex_message = None"
  "m_sent_at ex_message = None"
  "m_simulated_at ex_message = None"
  "m_error ex_message = []"
  "m_created_at ex_message = 0"
  "m_updated_at ex_message = 0"
  by (simp_all add: ex_message_def)

lemma ex_catalog_fields [simp]:
  "k_id ex_catalog = 20"
  "k_workspace ex_catalog = 7"
  "k_version ex_catalog = 1"
  "k_file_name ex_catalog = ''c1''"
  "k_name ex_catalog = ''Catalogo''"
  "k_original_filename ex_catalog = ''c.pdf''"
  "k_byte_size ex_catalog = 6"
  "k_sha256 ex_catalog = ''%PDF-1''"
  "k_active ex_catalog = True"
  "k_missing ex_catalog = False"
  by (simp_all add: ex_catalog_def)

lemma ex_attachment_fields [simp]:
  "a_message ex_attachment = 30"
  "a_catalog ex_attachment = 20"
  "a_position ex_attachment = 0"
  "a_catalog_version ex_attachment = 1"
  "a_storage_key ex_attachment = ''c1''"
  "a_filename ex_attachment = ''c.pdf''"
  "a_byte_size ex_attachment = 6"
  "a_sha256 ex_attachment = ''%PDF-1''"
  by (simp_all add: ex_attachment_def)

lemma ex_email_fields [simp]:
  "ea_id ex_email = 41"
  "ea_workspace ex_email = 7"
  "ea_organization ex_email = 40"
  "ea_original ex_email = ''a@b.c''"
  "ea_normalized ex_email = ''a@b.c''"
  "ea_domain ex_email = ''b.c''"
  "ea_label ex_email = []"
  "ea_preferred ex_email = True"
  "ea_provenance ex_email = []"
  "ea_source_url ex_email = []"
  "ea_source_content_hash ex_email = []"
  "ea_provider_order ex_email = 0"
  "ea_validity ex_email = VALID"
  "ea_validated_at ex_email = Some 0"
  "ea_invalid_reason ex_email = []"
  "ea_invalidated_at ex_email = None"
  "ea_legacy ex_email = None"
  by (simp_all add: ex_email_def)

lemma ex_enrollment_fields [simp]:
  "e_id ex_enrollment = 42"
  "e_workspace ex_enrollment = 7"
  "e_campaign ex_enrollment = 10"
  "e_organization ex_enrollment = 40"
  "e_selected_email ex_enrollment = Some 41"
  "e_state ex_enrollment = E_PREPARED"
  "e_source ex_enrollment = ''DISCOVERY''"
  "e_exclusion_reason ex_enrollment = []"
  "e_initial_sent_at ex_enrollment = None"
  "e_replied_at ex_enrollment = None"
  by (simp_all add: ex_enrollment_def)

lemma ex_connection_fields [simp]:
  "g_id ex_connection = 50"
  "g_workspace ex_connection = 7"
  "g_email ex_connection = ''me@x.y''"
  "g_scopes ex_connection = GMAIL_SCOPES"
  "g_refresh_token ex_connection = ''t''"
  "g_status ex_connection = CONNECTED"
  "g_last_tested_at ex_connection = Some 0"
  "g_error ex_connection = []"
  by (simp_all add: ex_connection_def)

lemma ex_db_fields [simp]:
  "next_id ex_db = 100"
  "workspace_pk ex_db = 7"
  "memberships ex_db = [\<lparr>u_id = 2, u_active = True, u_workspace = 7, u_role = ADMIN\<rparr>, \<lparr>u_id = 3, u_active = True, u_workspace = 7, u_role = VENDEDOR\<rparr>]"
  "campaigns ex_db = [ex_campaign]"
  "messages ex_db = [ex_message]"
  "attachments ex_db = [ex_attachment]"
  "reservations ex_db = []"
  "catalogs ex_db = [ex_catalog]"
  "storage ex_db = [(''c1'', ''%PDF-1'')]"
  "ledgers ex_db = []"
  "suppressions ex_db = []"
  "organizations ex_db = []"
  "identities ex_db = []"
  "emails ex_db = [ex_email]"
  "contacts ex_db = []"
  "restrictions ex_db = []"
  "enrollments ex_db = [ex_enrollment]"
  "prospects ex_db = []"
  "prospect_identities ex_db = []"
  "prospect_emails ex_db = []"
  "analyses ex_db = []"
  "jobs ex_db = []"
  "audit_log ex_db = []"
  "connections ex_db = [ex_connection]"
  "send_mode_settings ex_db = [\<lparr>sm_id = 60, sm_workspace = 7, sm_live_enabled = True, sm_live_enabled_at = Some 0, sm_live_enabled_by = Some 2\<rparr>]"
  "search_runs ex_db = []"
  "search_queries ex_db = []"
  "conversations ex_db = []"
  "inbounds ex_db = []"
  "config ex_db = ex_config"
  "selections ex_db = \<lparr>category_selections = [], zone_selections = [], coverage_selections = [], campaign_attachments = []\<rparr>"
  by (simp_all add: ex_db_def)

section \<open>The example evaluated\<close>

lemmas ev_strings = py_strip_def py_isspace_def rsplit_at_def py_casefold_def fold_char_def
lemmas ev_lookup = get_message_def get_campaign_def t_get_def campaign_of_message_def Let_def
lemmas ev_eligibility = final_email_error_def outbound_eligibility_error_def ensure_outbound_contact_links_def
  enrollment_of_message_def link_message_def eligibility_error_def enrollment_eligibility_def
  selected_email_def organization_has_contact_def audience_removed_def active_restriction_def
  suppressed_def normalize_email_def recipient_of_def
lemmas ev_bytes = message_bytes_def rfc_id_of_def deterministic_message_id_def message_attachments_def
  attachments_of_message_def attachment_payload_def snapshot_differs_def verify_catalog_def
  read_storage_def build_message_def bad_sender_def single_plain_address_def check_headers_def
  validated_pdf_attachments_def finish_message_def MAX_PDF_BYTES_def MAX_SOURCE_PDF_BYTES_def
  MAX_SERIALIZED_MIME_BYTES_def safe_pdf_filename_def path_name_def ends_with_def
lemmas ev_schedule = inside_schedule_def in_window_def to_wall_def to_utc_def ex_now_def date_of_def time_of_def
  combine_def weekday_def time_units local_day_bounds_def reservation_local_date_def
lemmas ev_saves = save_message_def save_reservation_def t_save_def t_update_def fresh_def record_event_def
  update_jobs_def update_enrollment_def start_job_def

definition ex_rfc :: str where "ex_rfc = ''<initial:30@contact-outreach.local>''"

definition ex_mime :: message_mime where
  "ex_mime = \<lparr>mm_raw = ''Texto'', mm_sha256 = ''Texto'', mm_rfc_id = ex_rfc, mm_size = 5\<rparr>"

lemma ex_pk: "str_of_pk 30 = ''30''" "str_of_pk 10 = ''10''"
  by code_simp+

lemma ex_bytes:
  "message_bytes ex_env (ex_message\<lparr>m_state := s\<rparr>) ex_campaign ''me@x.y'' (ex_db\<lparr>messages := ms\<rparr>) = Inr ex_mime"
  by (simp add: ev_bytes ev_lookup ex_mime_def ex_rfc_def)

definition ex_reservation :: "reservation_status \<Rightarrow> instant option \<Rightarrow> reservation" where
  "ex_reservation s t =
     \<lparr>v_id = 100, v_workspace = 7, v_campaign = 10, v_message = 30, v_email_address = Some 41,
      v_normalized_email = ''a@b.c'', v_local_date = 0, v_status = s, v_consumed_at = t, v_released_at = None\<rparr>"

definition ex_sending :: message where
  "ex_sending = ex_message\<lparr>m_state := SENDING, m_message_id := ex_rfc, m_mime_sha256 := ''Texto'',
     m_mime_size := Some 5, m_attempts := 1, m_delivery_reserved_at := Some ex_now,
     m_sending_started_at := Some ex_now, m_last_attempt_at := Some ex_now, m_updated_at := ex_now\<rparr>"

definition ex_job :: job where
  "ex_job = \<lparr>j_key = ''deliver:30'', j_task_name = ''mailbox.deliver_message'',
     j_entity_type = ''OutboundMessage'', j_entity_id = ''30'', j_state = J_RUNNING, j_attempts = 1,
     j_heartbeat_at = Some ex_now, j_started_at = Some ex_now, j_finished_at = None,
     j_next_retry_at = None, j_error = []\<rparr>"

definition ex_sending_db :: db where
  "ex_sending_db = ex_db\<lparr>next_id := 101, messages := [ex_sending],
     reservations := [ex_reservation RESERVED None], jobs := [ex_job]\<rparr>"

definition ex_effect :: send_effect where
  "ex_effect = \<lparr>x_message = 30, x_connection = 50, x_raw = ''Texto'', x_rfc_id = ex_rfc,
     x_recipient = ''a@b.c'', x_recipient_normalized = ''a@b.c'', x_idempotency_key = ''initial:30'',
     x_kind = INITIAL, x_thread = []\<rparr>"

lemma ex_queue_row:
  "queue_row ex_env ex_message ex_db =
     ex_db\<lparr>messages := [ex_message\<lparr>m_state := QUEUED, m_updated_at := ex_now\<rparr>]\<rparr>"
  by (simp add: queue_row_def ev_saves ex_now_def)

lemma ex_eligible:
  "final_email_error ex_env (ex_message\<lparr>m_state := s\<rparr>) (ex_db\<lparr>messages := [ex_message\<lparr>m_state := s, m_updated_at := t\<rparr>]\<rparr>)
    = Inr ([], ex_db\<lparr>messages := [ex_message\<lparr>m_state := s, m_updated_at := t\<rparr>]\<rparr>)"
  by (simp add: ev_eligibility ev_lookup ev_strings)

lemma ex_prepare: "prepare_live_effect ex_env 30 ex_now ex_db = Inr (Some ex_effect, ex_sending_db)"
proof -
  let ?d = "ex_db\<lparr>messages := [ex_message\<lparr>m_state := QUEUED, m_updated_at := ex_now\<rparr>]\<rparr>"
  have q: "queued ex_message = ex_message\<lparr>m_state := QUEUED\<rparr>" by (simp add: queued_def)
  have limits: "daily_slot_available ex_env ex_campaign ex_now ?d" "interval_elapsed ex_campaign ex_now ?d"
    by (simp_all add: daily_slot_available_def counts_for_def reserved_between_def interval_elapsed_def
        latest_reservation_def ev_schedule map_filter_simps)
  have g: "usable_connection 7 ?d = Some ex_connection"
    by (simp add: usable_connection_def connected_def connection_is_ready_def)
  have r: "reserve_guard ex_env (ex_message\<lparr>m_state := QUEUED\<rparr>) ex_campaign ex_now ?d =
      Inr (Some (ex_message\<lparr>m_state := QUEUED\<rparr>),
        ?d\<lparr>next_id := 101, reservations := [ex_reservation RESERVED None]\<rparr>)"
    by (simp add: reserve_guard_def reserve_campaign_delivery_day_def reservation_of_def day_taken_def
        fresh_def ex_reservation_def ev_schedule Let_def)
  have c: "commit_sending ex_env (ex_message\<lparr>m_state := QUEUED\<rparr>) ex_connection ex_mime ex_now
      (?d\<lparr>next_id := 101, reservations := [ex_reservation RESERVED None]\<rparr>) = Inr (ex_effect, ex_sending_db)"
    by (simp add: commit_sending_def sending_conflict_def message_id_taken_def effect_of_def ex_effect_def
        sending_fields_def ex_sending_db_def ex_sending_def ev_saves Let_def deliver_key_def ex_pk
        ex_job_def ex_mime_def ex_now_def ex_db_def ex_message_def)
  have e: "prepare_eligible ex_env (ex_message\<lparr>m_state := QUEUED\<rparr>) ex_campaign ex_now ?d
      = Inr (Some ex_effect, ex_sending_db)"
    by (simp add: prepare_eligible_def g limits ex_bytes r c)
  have "live_sending_allowed ex_env ?d" "inside_schedule ex_env ex_campaign ex_now"
    by (simp_all add: live_sending_allowed_iff app_enabled_live_def send_setting_def ev_schedule)
  then have "prepare_due ex_env (ex_message\<lparr>m_state := QUEUED\<rparr>) ex_campaign ex_now ?d
      = Inr (Some ex_effect, ex_sending_db)"
    by (simp add: prepare_due_def ex_eligible e)
  then show ?thesis
    by (simp add: prepare_live_effect_def ev_lookup settled_states_def approved_def q ex_queue_row)
qed

definition ex_result :: send_result where
  "ex_result = \<lparr>gr_message_id = ''g'' @ ex_rfc, gr_thread_id = ''t''\<rparr>"

lemma ex_delivery_ok: "delivery_ok ex_db" "delivery_ok ex_sending_db"
  by (simp_all add: delivery_ok_def message_keys_ok_def campaign_keys_ok_def running_approved_def
      reservations_ok_def ledgers_ok_def unique_on_def ex_sending_db_def ex_sending_def ex_reservation_def)

lemma ex_sending_eligible: "final_email_error ex_env ex_sending ex_sending_db = Inr ([], ex_sending_db)"
  by (simp add: ev_eligibility ev_lookup ev_strings ex_sending_db_def ex_sending_def)

lemma ex_authorize: "authorize_effect ex_env ex_effect ex_sending_db = Inr (Call_Provider INITIAL, ex_sending_db)"
proof -
  have g: "effect_connection ex_effect ex_campaign ex_sending_db = Some ex_connection"
    by (simp add: effect_connection_def ex_effect_def ex_sending_db_def)
  have v: "verify_effect ex_env ex_effect ex_sending ex_sending_db = Inr ()"
    by (simp add: verify_effect_def effect_changed_def ev_bytes ev_lookup ex_sending_def ex_sending_db_def ex_effect_def)
  have m: "may_call_provider ex_env ex_sending ex_campaign (Some ex_connection) ex_sending_db"
    by (simp add: may_call_provider_def ex_sending_def ex_sending_db_def approved_def live_sending_allowed_iff
        app_enabled_live_def send_setting_def connection_still_ready_def)
  have d: "decide_effect ex_env ex_effect ex_sending ex_campaign ex_sending_db
      = Inr (Call_Provider INITIAL, ex_sending_db)"
    by (simp add: decide_effect_def g v m) (simp add: ex_sending_def)
  have "get_message (x_message ex_effect) ex_sending_db = Inr ex_sending" "m_state ex_sending = SENDING"
    "m_campaign ex_sending = Some 10" "get_campaign 10 ex_sending_db = Inr ex_campaign" "approved ex_sending"
    by (simp_all add: ev_lookup ex_sending_db_def ex_sending_def ex_effect_def approved_def)
  then show ?thesis by (simp add: authorize_effect_def ex_sending_eligible d)
qed

text \<open>The whole delivery: the provider takes the mail and the message is sent, with its reminder scheduled.\<close>

lemma ex_deliver_called:
  "snd (snd (deliver_message ex_env naive_gmail 30 ex_now ex_db [])) = [ex_rfc]"
proof -
  have "get_message 30 ex_db = Inr ex_message" "get_message 30 ex_sending_db = Inr ex_sending"
    by (simp_all add: ev_lookup ex_sending_db_def ex_sending_def)
  then have "deliver_message ex_env naive_gmail 30 ex_now ex_db [] =
      finish_delivery ex_env ex_effect ex_now (execute_external_effect ex_env naive_gmail ex_effect ex_sending_db [])"
    by (simp add: deliver_message_def CAMPAIGN_DELIVERY_KINDS_def INITIAL_MESSAGE_KINDS_def deliver_live_def
        ex_prepare) (simp add: ex_effect_def ex_sending_db_def t_get_def)
  moreover have "execute_external_effect ex_env naive_gmail ex_effect ex_sending_db []
      = (Was_Sent ex_result, ex_sending_db, [ex_rfc])"
    by (simp add: execute_external_effect_def ex_authorize call_provider_def naive_gmail_def naive_send_def
        request_of_def ex_result_def) (simp add: ex_effect_def)
  ultimately show ?thesis
    using finish_provider [of ex_env ex_effect ex_now "Was_Sent ex_result" ex_sending_db "[ex_rfc]"]
    by (metis prod.collapse)
qed

section \<open>The example with a suppressed recipient\<close>

definition ex_blocked_db :: db where
  "ex_blocked_db = ex_db\<lparr>suppressions :=
     [\<lparr>s_id = 90, s_original_email = ''A@b.c'', s_email = ''a@b.c'', s_reason = S_UNSUBSCRIBE,
       s_source = ''REPLY'', s_evidence = [], s_created_by = None\<rparr>]\<rparr>"

lemma ex_blocked_ok: "delivery_ok ex_blocked_db"
  by (simp add: delivery_ok_def message_keys_ok_def campaign_keys_ok_def running_approved_def
      reservations_ok_def ledgers_ok_def unique_on_def ex_blocked_db_def)

section \<open>The example after a final failure, and with nothing left\<close>

definition ex_failed :: message where
  "ex_failed = ex_message\<lparr>m_state := SEND_FAILED, m_attempts := 3\<rparr>"

definition ex_failed_db :: db where
  "ex_failed_db = ex_db\<lparr>messages := [ex_failed]\<rparr>"

lemma ex_retry: "\<exists>d'. retry_failed_message ex_env 30 2 ''corregido el dominio'' ex_failed_db = Inr d'"
proof -
  have e: "final_email_error ex_env ex_failed ex_failed_db = Inr ([], ex_failed_db)"
    by (simp add: ev_eligibility ev_lookup ev_strings ex_failed_db_def ex_failed_def)
  have a: "\<exists>as. message_attachments ex_env ex_failed ex_failed_db = Inr as"
    by (simp add: ev_bytes ev_lookup ex_failed_db_def ex_failed_def)
  have c: "\<exists>u. require_user_capability ex_failed_db 2 RETRY_JOBS (Some 7) = Inr u"
    by (simp add: require_user_capability_def membership_for_def has_capability_def t_get_def ex_failed_db_def)
  have r: "10 \<le> length (collapse_spaces ''corregido el dominio'')" by code_simp
  show ?thesis
    using e a c r by (auto simp: retry_failed_message_def get_message_def campaign_of_message_def get_campaign_def
        t_get_def ex_failed_db_def ex_failed_def Let_def)
qed

lemma ex_drained: "\<exists>d'. complete_campaign_if_drained ex_env 10 (ex_db\<lparr>messages := []\<rparr>) = Inr (True, d')"
  by (simp add: complete_campaign_if_drained_def get_campaign_def t_get_def TERMINAL_DISCOVERY_STATES_def
      unreminded_initials_def has_active_messages_def has_unfinished_prospects_def has_retrying_analysis_def
      transition_campaign_def require_if_actor_def transition_effect_def save_campaign_def immutable_part_def Let_def)

section \<open>The example as a directory\<close>

lemma ex_lower [simp]: "char_of (97::nat) = CHR ''a''"
  by code_simp

definition ex_directory :: db where
  "ex_directory = ex_db\<lparr>emails := [], organizations := []\<rparr>"

lemma ex_directory_ok: "directory_ok ex_directory"
  by (simp add: directory_ok_def ex_directory_def unique_on_def)

lemma ex_resolved: "\<exists>org k d'. resolve_organization ex_env 7 (resolve_defaults\<lparr>ra_email := ''A@b.c''\<rparr>) ex_directory
    = Inr ((org, Some k), d')"
proof -
  have n: "normalize_email ex_env ''A@b.c'' = Inr ''a@b.c''" by (simp add: normalize_email_def ev_strings)
  then show ?thesis
    by (simp add: resolve_organization_def resolve_defaults_def prepared_claims_def sort_claims_def
        with_email_claim_def candidate_organizations_def find_or_create_organization_def find_email_def
        find_identity_def get_or_create_identity_def get_or_create_email_address_def fill_organization_fields_def
        new_organization_def new_email_def fresh_def ex_directory_def Let_def email_changes_def has_preferred_def legacy_taken_def)
qed

lemma ex_suppress:
  "\<exists>entry d'. suppress_email ex_env ''A@b.c'' ''BOUNCE'' None ''GMAIL'' [] ex_blocked_db = Inr (entry, d')"
proof -
  have n: "normalize_email ex_env ''A@b.c'' = Inr ''a@b.c''" by (simp add: normalize_email_def ev_strings)
  have "suppression_of_value ''BOUNCE'' = Some S_BOUNCE" by code_simp
  then show ?thesis
    by (simp add: suppress_email_def require_if_actor_def n invalidate_prospect_emails_def find_suppression_def
        ex_blocked_db_def Let_def)
qed

end
