(* ===== verification/At_Most_Once.thy ===== *)
theory At_Most_Once
  imports Sending
begin

text \<open>
  At most one mail for each message. The provider is known only by a contract, a locale: what it has accepted,
  that it says truthfully whether it has a Message-ID, and that an error which is not ambiguous means the mail was
  refused. Under it, every interleaving of whole worker operations hands each Message-ID to the provider at most
  once, and only for an approved live message that is then in flight.
\<close>

section \<open>The contract of the provider\<close>

text \<open>The errors after which \<open>deliver_message\<close> takes the mail as not sent.\<close>

definition refusal :: "provider_error \<Rightarrow> bool" where
  "refusal err \<longleftrightarrow> \<not> fst (delivery_flags err)"

text \<open>\<open>accepted\<close> lists the Message-IDs of the mails the provider has taken, in order.\<close>

locale gmail_contract =
  fixes G :: "'p gmail" and accepted :: "'p \<Rightarrow> str list"
  assumes send_accepts: "pv_send G q p = (Inr r, p') \<Longrightarrow>
      accepted p' = accepted p @ [q_message_id q] \<or> accepted p' = accepted p \<and> q_message_id q \<in> set (accepted p)"
    and reply_accepts: "pv_reply G q p = (Inr r, p') \<Longrightarrow>
      accepted p' = accepted p @ [q_message_id q] \<or> accepted p' = accepted p \<and> q_message_id q \<in> set (accepted p)"
    and send_fails: "pv_send G q p = (Inl f, p') \<Longrightarrow>
      accepted p' = accepted p \<or> accepted p' = accepted p @ [q_message_id q] \<and> (\<forall>err. f = Failed err \<longrightarrow> \<not> refusal err)"
    and reply_fails: "pv_reply G q p = (Inl f, p') \<Longrightarrow>
      accepted p' = accepted p \<or> accepted p' = accepted p @ [q_message_id q] \<and> (\<forall>err. f = Failed err \<longrightarrow> \<not> refusal err)"
    and find_keeps: "pv_find G i p = (found, p') \<Longrightarrow> accepted p' = accepted p"
    and find_absent: "pv_find G i p = (Inr None, p') \<Longrightarrow> i \<notin> set (accepted p)"
begin

lemma call_accepts:
  assumes "call_provider G kind x p = (r, p')"
  obtains (same) "accepted p' = accepted p"
  | (new) "accepted p' = accepted p @ [x_rfc_id x]" "\<And>err. r = Inl (Failed err) \<Longrightarrow> \<not> refusal err"
proof -
  have q: "q_message_id (request_of x) = x_rfc_id x" by (simp add: request_of_def)
  have "accepted p' = accepted p \<or> accepted p' = accepted p @ [x_rfc_id x] \<and> (\<forall>err. r = Inl (Failed err) \<longrightarrow> \<not> refusal err)"
  proof (cases r)
    case (Inl f)
    then show ?thesis
      using assms send_fails [of "request_of x" p f p'] reply_fails [of "request_of x" p f p'] q
      by (auto simp: call_provider_def split: if_splits)
  next
    case (Inr s)
    then show ?thesis
      using assms send_accepts [of "request_of x" p s p'] reply_accepts [of "request_of x" p s p'] q
      by (auto simp: call_provider_def split: if_splits)
  qed
  then show thesis using same new by blast
qed

end

section \<open>What is in transit\<close>

definition in_transit :: "message \<Rightarrow> bool" where
  "in_transit m \<longleftrightarrow> m_state m \<in> in_flight \<and> m_delivery_mode m = LIVE \<and> approved m"

text \<open>Every accepted Message-ID is that of a message in transit, and was accepted once.\<close>

definition once_ok :: "str list \<Rightarrow> db \<Rightarrow> bool" where
  "once_ok ids d \<longleftrightarrow>
     delivery_ok d \<and> distinct ids
     \<and> (\<forall>i \<in> set ids. i \<noteq> [] \<and> (\<exists>m \<in> set (messages d). m_message_id m = i \<and> in_transit m))"

text \<open>The same, and none of them is the message \<open>k\<close>.\<close>

definition free_of :: "id \<Rightarrow> str list \<Rightarrow> db \<Rightarrow> bool" where
  "free_of k ids d \<longleftrightarrow>
     (\<forall>i \<in> set ids. \<exists>m \<in> set (messages d). m_message_id m = i \<and> in_transit m \<and> m_id m \<noteq> k)"

lemma once_ok_delivery: "once_ok ids d \<Longrightarrow> delivery_ok d" by (simp add: once_ok_def)

lemma list_all2_mem1: "list_all2 P xs ys \<Longrightarrow> x \<in> set xs \<Longrightarrow> \<exists>y \<in> set ys. P x y"
  by (induction rule: list_all2_induct) auto

lemma grown_message:
  assumes "messages_grow K ms ms'" "m \<in> set ms"
  obtains m' where "m' \<in> set ms'" "evolves K m m'"
proof -
  obtain old new where o: "ms' = old @ new" "list_all2 (evolves K) ms old"
    using assms(1) unfolding messages_grow_def by blast
  with list_all2_mem1 [OF o(2) assms(2)] that show thesis by auto
qed

lemma evolves_in_transit:
  assumes "evolves K m m'" "m_id m \<notin> K" "in_transit m"
  shows "in_transit m' \<and> m_message_id m' = m_message_id m \<and> m_id m' = m_id m"
  using assms by (auto simp: evolves_def same_outcome_def same_identity_def in_transit_def approved_def)

lemma progress_grow: "progress K d d' \<Longrightarrow> delivery_ok d \<Longrightarrow> messages_grow K (messages d) (messages d')"
  by (simp add: progress_def)

lemma progress_ok: "progress K d d' \<Longrightarrow> delivery_ok d \<Longrightarrow> delivery_ok d'"
  by (simp add: progress_def)

lemma free_of_progress:
  assumes "progress {k} d d'" "delivery_ok d" "free_of k ids d"
  shows "free_of k ids d'"
  unfolding free_of_def
proof
  fix i assume "i \<in> set ids"
  then obtain m where m: "m \<in> set (messages d)" "m_message_id m = i" "in_transit m" "m_id m \<noteq> k"
    using assms(3) by (auto simp: free_of_def)
  obtain m' where "m' \<in> set (messages d')" "evolves {k} m m'"
    by (rule grown_message [OF progress_grow [OF assms(1,2)] m(1)])
  then show "\<exists>m' \<in> set (messages d'). m_message_id m' = i \<and> in_transit m' \<and> m_id m' \<noteq> k"
    using evolves_in_transit [of "{k}" m m'] m by auto
qed

lemma once_free: "once_ok ids d \<Longrightarrow> free_of k ids d' \<Longrightarrow> delivery_ok d' \<Longrightarrow> once_ok ids d'"
  by (auto simp: once_ok_def free_of_def)

text \<open>An operation about a message that is not in transit.\<close>

lemma message_unique:
  assumes "delivery_ok d" "m \<in> set (messages d)" "t_get m_id k (messages d) = Some r" "m_id m = k"
  shows "m = r"
  using assms distinct_key_t_get [of m_id "messages d" m] by (simp add: delivery_ok_def message_keys_ok_def)

lemma idle_free:
  assumes "once_ok ids d" "t_get m_id k (messages d) = Some m" "\<not> in_transit m"
  shows "free_of k ids d"
  using assms message_unique [of d _ k m] by (fastforce simp: once_ok_def free_of_def)

lemma once_idle:
  assumes "once_ok ids d" "t_get m_id k (messages d) = Some m" "\<not> in_transit m" "progress {k} d d'"
  shows "once_ok ids d'"
  using once_free [OF assms(1) free_of_progress [OF assms(4) _ idle_free [OF assms(1-3)]]] assms(1,4)
    progress_ok once_ok_delivery by blast

text \<open>An operation after which the message is still in transit.\<close>

lemma once_stays:
  assumes "once_ok ids d" "progress {k} d d'" "t_get m_id k (messages d') = Some r" "in_transit r"
  shows "once_ok ids d'"
proof -
  have ok: "delivery_ok d" "delivery_ok d'" using assms(1,2) progress_ok by (auto simp: once_ok_def)
  have "\<exists>m' \<in> set (messages d'). m_message_id m' = i \<and> in_transit m'" if i: "i \<in> set ids" for i
  proof -
    from i assms(1) obtain m where m: "m \<in> set (messages d)" "m_message_id m = i" "in_transit m" "i \<noteq> []"
      by (auto simp: once_ok_def)
    obtain m' where m': "m' \<in> set (messages d')" "evolves {k} m m'"
      by (rule grown_message [OF progress_grow [OF assms(2) ok(1)] m(1)])
    show ?thesis
    proof (cases "m_id m = k")
      case True
      then have "m_id m' = k" "m_message_id m' = i" using m' m by (auto simp: evolves_def same_identity_def)
      then have "m' = r" using message_unique [OF ok(2) m'(1) assms(3)] by simp
      then show ?thesis using assms(4) m' \<open>m_message_id m' = i\<close> by blast
    next
      case False
      then show ?thesis using evolves_in_transit [OF m'(2) _ m(3)] m' m by auto
    qed
  qed
  then show ?thesis using assms(1) ok by (auto simp: once_ok_def)
qed

text \<open>An operation about no message.\<close>

lemma once_other:
  assumes "once_ok ids d" "progress {} d d'"
  shows "once_ok ids d'"
proof -
  have ok: "delivery_ok d" "delivery_ok d'" using assms progress_ok by (auto simp: once_ok_def)
  have "\<exists>m' \<in> set (messages d'). m_message_id m' = i \<and> in_transit m'" if i: "i \<in> set ids" for i
  proof -
    from i assms(1) obtain m where m: "m \<in> set (messages d)" "m_message_id m = i" "in_transit m"
      by (auto simp: once_ok_def)
    obtain m' where "m' \<in> set (messages d')" "evolves {} m m'"
      by (rule grown_message [OF progress_grow [OF assms(2) ok(1)] m(1)])
    then show ?thesis using evolves_in_transit [of "{}" m m'] m by auto
  qed
  then show ?thesis using assms(1) ok by (auto simp: once_ok_def)
qed

section \<open>What a send leaves behind\<close>

lemma progress_row:
  assumes "progress K d d'" "delivery_ok d" "t_get m_id k (messages d) = Some m"
  obtains m' where "t_get m_id k (messages d') = Some m'" "evolves K m m'"
proof -
  obtain m' where m': "m' \<in> set (messages d')" "evolves K m m'"
    by (rule grown_message [OF progress_grow [OF assms(1,2)] t_get_mem [OF assms(3)]])
  have "m_id m' = k" using m'(2) t_get_key [OF assms(3)] by (simp add: evolves_def same_identity_def)
  then show thesis
    using that distinct_key_t_get [of m_id "messages d'" m'] m' progress_ok [OF assms(1,2)]
    by (simp add: delivery_ok_def message_keys_ok_def)
qed

lemma pause_messages:
  "pause_campaign env camp reason d = Inr d' \<Longrightarrow> messages d' = messages d"
  using pause_campaign_frame by blast

lemma threshold_messages:
  "pause_if_failure_threshold_reached env camp d = Inr (b, d') \<Longrightarrow> messages d' = messages d"
  by (auto simp: pause_if_failure_threshold_reached_def Let_def bindE_eq_Inr dest: pause_messages split: if_splits)

lemma after_error_row:
  assumes "t_get m_id k (messages d) = Some m"
  shows "t_get m_id k (messages (after_error env m s t now text d))
      = Some (m\<lparr>m_state := s, m_next_attempt_at := t, m_error := text, m_updated_at := clock env\<rparr>)"
proof -
  have "messages (if s = SEND_FAILED then release_delivery_guard m now d else d) = messages d" by simp
  then show ?thesis
    using assms t_get_key [OF assms] by (simp add: after_error_def row_simps)
qed

text \<open>After an ambiguous error the message is reconciling, and no row but its own has moved.\<close>

lemma ambiguous_error_row:
  assumes "record_send_error env k err now True pause False d = Inr (s, d')" "t_get m_id k (messages d) = Some m"
    "m_state m \<noteq> SENT"
  shows "\<exists>r. t_get m_id k (messages d') = Some r \<and> m_state r = RECONCILING \<and> same_identity m r"
  using assms(1)
proof (cases rule: record_send_error_cases)
  case (error m' t d4 d5 b)
  have m': "m' = m" using error(1) assms(2) by simp
  have s: "s = RECONCILING" using error(3) by (simp add: error_outcome_def)
  have "messages d4 = messages (after_error env m s t now (redact env (provider_text err)) d)"
    using error(4) m' by (simp split: if_splits)
  moreover have "messages d5 = messages d4" using error(5) by (auto dest: threshold_messages)
  moreover have "messages d' = messages d5" using error(6) by (auto dest: pause_messages)
  ultimately show ?thesis using after_error_row [OF assms(2)] s by (simp add: same_identity_def)
qed (use assms in simp)

lemma confirm_row:
  assumes "confirm_sent env k res now d = Inr (s, d')" "delivery_ok d"
  shows "\<exists>r. t_get m_id k (messages d') = Some r \<and> m_state r = SENT"
  using assms(1)
proof (cases rule: confirm_sent_cases)
  case (again m t)
  have "progress {} d d'" using remind_if_initial_progress [OF again(4)] by blast
  from this assms(2) again(1) obtain r where "t_get m_id k (messages d') = Some r" "evolves {} m r"
    by (rule progress_row)
  then show ?thesis using again(2) by (auto simp: evolves_def same_outcome_def)
next
  case (now_sent m d2)
  let ?d3 = "record_event ''message.sent'' k None (update_jobs (deliver_key k)
            (\<lambda>j. j\<lparr>j_state := J_SUCCEEDED, j_finished_at := Some now, j_heartbeat_at := Some now, j_error := []\<rparr>) d2)"
  have "messages d2 = messages (save_message env k (sent_fields res now) d)"
    using now_sent(5) by (auto simp: confirm_guard_def consume_campaign_delivery_day_def confirm_enrollment_def confirm_ledger_def
        save_ledger_def save_reservation_def split: if_splits option.splits)
  then have row: "t_get m_id k (messages ?d3) = Some ((sent_fields res now m)\<lparr>m_updated_at := clock env\<rparr>)"
    using now_sent(1) by (simp add: row_simps)
  have "progress {k} d ?d3" using now_sent_progress [OF now_sent(1-3,5), of "{k}"] by simp
  then have ok: "delivery_ok ?d3" using assms(2) by (rule progress_ok)
  have "progress {} ?d3 d'" using remind_if_initial_progress [OF now_sent(6)] by blast
  from this ok row obtain r where "t_get m_id k (messages d') = Some r"
    "evolves {} ((sent_fields res now m)\<lparr>m_updated_at := clock env\<rparr>) r"
    by (rule progress_row)
  then show ?thesis by (auto simp: evolves_def same_outcome_def)
qed

section \<open>One worker operation\<close>

lemma deliver_in_transit:
  assumes "deliver_message env G k now d p = (res, d', p')" "t_get m_id k (messages d) = Some m" "in_transit m"
  shows "d' = d \<and> p' = p"
proof -
  have "m_state m \<in> settled_states" using assms(3) by (auto simp: in_transit_def in_flight_def settled_states_def)
  then have "\<exists>e. prepare_live_effect env k now d = Inl e \<or> prepare_live_effect env k now d = Inr (None, d)"
    using assms(2) by (cases "campaign_of_message m d") (simp_all add: prepare_live_effect_def get_message_def)
  moreover have "get_message k d = Inr m" "m_delivery_mode m = LIVE"
    using assms(2,3) by (simp_all add: get_message_def in_transit_def)
  ultimately show ?thesis
    using assms(1) by (auto simp: deliver_message_def deliver_live_def split: if_splits)
qed

lemma deliver_call_cases:
  assumes "deliver_message env G k now d p = (res, d', p')" "p' \<noteq> p"
  obtains x d1 kind d2 r where "prepare_live_effect env k now d = Inr (Some x, d1)"
    "authorize_effect env x d1 = Inr (Call_Provider kind, d2)" "call_provider G kind x p = (r, p')"
    "case r of Inl (Failed err) \<Rightarrow> commit (record_error env (x_message x) err now (delivery_flags err) d1) d1 p' = (res, d', p')
     | Inl (Crashed e) \<Rightarrow> d' = d1 | Inr s \<Rightarrow> commit (confirm_sent env (x_message x) s now d2) d2 p' = (res, d', p')"
proof -
  obtain m where m: "get_message k d = Inr m" "m_kind m \<in> CAMPAIGN_DELIVERY_KINDS" "m_delivery_mode m = LIVE"
    using assms by (auto simp: deliver_message_def commit_def split: sum.splits if_splits delivery_mode.splits prod.splits)
  then have "deliver_live env G k now d p = (res, d', p')" using assms(1) by (simp add: deliver_message_def)
  then obtain x d1 where x: "prepare_live_effect env k now d = Inr (Some x, d1)"
    and f: "finish_delivery env x now (execute_external_effect env G x d1 p) = (res, d', p')"
    using assms(2) by (auto simp: deliver_live_def split: sum.splits prod.splits option.splits if_splits)
  obtain res0 d3 p2 where e: "execute_external_effect env G x d1 p = (res0, d3, p2)"
    by (cases "execute_external_effect env G x d1 p")
  have p2: "p2 = p'" using finish_provider [of env x now res0 d3 p2 res d' p'] f e by simp
  then obtain kind d2 where a: "authorize_effect env x d1 = Inr (Call_Provider kind, d2)"
    using e assms(2)
    by (auto simp: execute_external_effect_def split: sum.splits prod.splits decision.splits provider_failure.splits)
  obtain r where c: "call_provider G kind x p = (r, p')"
    using e a p2 by (auto simp: execute_external_effect_def split: sum.splits prod.splits provider_failure.splits)
  show thesis
    by (rule that [OF x a c]) (use e f a c p2 in \<open>auto simp: execute_external_effect_def finish_delivery_def
        split: sum.splits prod.splits provider_failure.splits\<close>)
qed

lemma prepared_id_nonempty:
  assumes "prepare_live_effect env k now d = Inr (Some x, d')" "delivery_ok d" "invalid_email_text env \<noteq> []"
  shows "x_rfc_id x \<noteq> []"
  using assms
proof (rule prepare_live_Some)
  fix m c d1 g mime m' d2
  assume b: "message_bytes env (queued m) c (g_email g) d1 = Inr mime" and "commit_sending env m' g mime now d2 = Inr (x, d')"
  then have "x_rfc_id x = mm_rfc_id mime" by (auto simp: commit_sending_def effect_of_def split: if_splits)
  moreover have "rfc_id_of env (queued m) \<noteq> []" by (simp add: rfc_id_of_def deterministic_message_id_def)
  ultimately show ?thesis using message_bytes_rfc [OF b] by simp
qed

lemma prepared_id_fresh:
  assumes prep: "prepare_live_effect env k now d = Inr (Some x, d1)" and once: "once_ok ids d"
    and row: "t_get m_id k (messages d) = Some m" "\<not> in_transit m" "t_get m_id k (messages d1) = Some r" "m_message_id r = x_rfc_id x"
  shows "x_rfc_id x \<notin> set ids"
proof
  assume "x_rfc_id x \<in> set ids"
  have ok: "delivery_ok d" using once by (rule once_ok_delivery)
  have prog: "progress {k} d d1" using prep by (rule prepare_live_progress) simp
  have "free_of k ids d1" using free_of_progress [OF prog ok idle_free [OF once row(1,2)]] .
  then obtain m' where m': "m' \<in> set (messages d1)" "m_message_id m' = x_rfc_id x" "m_id m' \<noteq> k"
    using \<open>x_rfc_id x \<in> set ids\<close> by (auto simp: free_of_def)
  moreover have "x_rfc_id x \<noteq> []" using once \<open>x_rfc_id x \<in> set ids\<close> by (auto simp: once_ok_def)
  moreover have "unique_on (\<lambda>m. m_message_id m \<noteq> []) m_message_id (messages d1)"
    using progress_ok [OF prog ok] by (simp add: delivery_ok_def message_keys_ok_def)
  ultimately have "m' = r"
    using unique_onD [of "\<lambda>m. m_message_id m \<noteq> []" m_message_id "messages d1" m' r] t_get_mem [OF row(3)] row(4)
    by simp
  then show False using m'(3) t_get_key [OF row(3)] by simp
qed

lemma not_refused_flags: "\<not> refusal err \<Longrightarrow> \<exists>b. delivery_flags err = (True, b, False)"
  by (cases err) (auto simp: refusal_def)

lemma reconcile_is_ambiguous: "\<exists>b. reconcile_flags err = (True, b, False)"
  by (cases err) auto

lemma identity_in_transit:
  "same_identity m r \<Longrightarrow> in_transit m \<Longrightarrow> m_state r \<in> in_flight \<Longrightarrow> in_transit r"
  by (auto simp: same_identity_def in_transit_def approved_def)

text \<open>An ambiguous error, and a confirmation, leave a message in transit in transit.\<close>

lemma error_stays:
  assumes "commit (record_error env k err now (True, b, False) d) d p = (res, d', p')" "once_ok ids d"
    "t_get m_id k (messages d) = Some m" "m_state m \<noteq> SENT" "in_transit m"
  shows "once_ok ids d'"
proof (cases "record_error env k err now (True, b, False) d")
  case (Inl e)
  then show ?thesis using assms by (simp add: commit_def)
next
  case (Inr sd)
  then have r: "record_send_error env k err now True b False d = Inr (fst sd, d')"
    using assms(1) by (cases sd) (simp add: commit_def record_error_def)
  obtain r' where r': "t_get m_id k (messages d') = Some r'" "m_state r' = RECONCILING" "same_identity m r'"
    using ambiguous_error_row [OF r assms(3,4)] by blast
  then have "in_transit r'" using identity_in_transit [OF _ assms(5)] by (simp add: in_flight_def)
  then show ?thesis
    using once_stays [OF assms(2) record_send_error_progress [OF r, of "{k}"] r'(1)] by simp
qed

lemma confirm_stays:
  assumes "commit (confirm_sent env k s now d) d p = (res, d', p')" "once_ok ids d"
    "t_get m_id k (messages d) = Some m" "in_transit m"
  shows "once_ok ids d'"
proof (cases "confirm_sent env k s now d")
  case (Inl e)
  then show ?thesis using assms by (simp add: commit_def)
next
  case (Inr sd)
  then have r: "confirm_sent env k s now d = Inr (fst sd, d')" using assms(1) by (cases sd) (simp add: commit_def)
  have ok: "delivery_ok d" using assms(2) by (rule once_ok_delivery)
  have prog: "progress {k} d d'" using r by (rule confirm_sent_progress) simp
  obtain r' where r': "t_get m_id k (messages d') = Some r'" "m_state r' = SENT" using confirm_row [OF r ok] by blast
  obtain m' where "t_get m_id k (messages d') = Some m'" "evolves {k} m m'" by (rule progress_row [OF prog ok assms(3)])
  then have "same_identity m r'" using r' by (simp add: evolves_def)
  then have "in_transit r'" using identity_in_transit [OF _ assms(4)] r'(2) by (simp add: in_flight_def)
  then show ?thesis by (rule once_stays [OF assms(2) prog r'(1)])
qed

context gmail_contract begin

lemma deliver_once:
  assumes run: "deliver_message env G k now d p = (res, d', p')" and once: "once_ok (accepted p) d"
    and spoken: "invalid_email_text env \<noteq> []"
  shows "once_ok (accepted p') d'"
proof (cases "accepted p' = accepted p")
  case True
  show ?thesis
  proof (cases "t_get m_id k (messages d)")
    case None
    then have "d' = d" using run by (simp add: deliver_message_def get_message_def)
    then show ?thesis using once True by simp
  next
    case (Some m)
    show ?thesis
    proof (cases "in_transit m")
      case in_t: True
      then show ?thesis using deliver_in_transit [OF run Some] once True by simp
    next
      case False
      then show ?thesis
        using once_idle [OF once Some _ deliver_message_progress [OF run, where K = "{k}"]] True by simp
    qed
  qed
next
  case False
  then have "p' \<noteq> p" by blast
  with run obtain x d1 kind d2 r where prep: "prepare_live_effect env k now d = Inr (Some x, d1)"
    and auth: "authorize_effect env x d1 = Inr (Call_Provider kind, d2)" and call: "call_provider G kind x p = (r, p')"
    and after: "case r of Inl (Failed err) \<Rightarrow> commit (record_error env (x_message x) err now (delivery_flags err) d1) d1 p' = (res, d', p')
     | Inl (Crashed e) \<Rightarrow> d' = d1 | Inr s \<Rightarrow> commit (confirm_sent env (x_message x) s now d2) d2 p' = (res, d', p')"
    by (rule deliver_call_cases)
  have ok: "delivery_ok d" using once by (rule once_ok_delivery)
  obtain m c row where m: "t_get m_id k (messages d) = Some m" "sendable env m c now d"
    and row: "t_get m_id k (messages d1) = Some row" "m_state row = SENDING" "same_identity m row"
      "m_message_id row = x_rfc_id x" and k: "x_message x = k"
    by (rule prepare_reserves [OF prep ok spoken])
  have idle: "\<not> in_transit m" using m(2) by (auto simp: sendable_def in_transit_def settled_states_def in_flight_def)
  have prog: "progress {k} d d1" using prep by (rule prepare_live_progress) simp
  have transit: "in_transit row" using m(2) row(2,3)
    by (auto simp: sendable_def in_transit_def in_flight_def same_identity_def approved_def)
  have new: "accepted p' = accepted p @ [x_rfc_id x]" "\<And>err. r = Inl (Failed err) \<Longrightarrow> \<not> refusal err"
    using call False by (auto elim!: call_accepts)
  have once1: "once_ok (accepted p') d1"
    using once_idle [OF once m(1) idle prog] prepared_id_fresh [OF prep once m(1) idle row(1,4)]
      prepared_id_nonempty [OF prep ok spoken] row(4) transit t_get_mem [OF row(1)] new(1)
    by (auto simp: once_ok_def)
  show ?thesis
  proof (cases r)
    case (Inl f)
    show ?thesis
    proof (cases f)
      case (Failed err)
      then obtain b where "delivery_flags err = (True, b, False)" using new(2) not_refused_flags Inl by blast
      then show ?thesis using error_stays [OF _ once1 row(1) _ transit] after Inl Failed k row(2) by simp
    next
      case (Crashed e)
      then show ?thesis using after Inl once1 by simp
    qed
  next
    case (Inr s)
    from auth obtain m1 where a: "final_email_error env m1 d1 = Inr ([], d2)" by (rule authorize_call)
    have links: "only_links d1 d2" using a by (rule final_email_error_Inr)
    have prog2: "progress {} d1 d2" using links by (rule progress_links)
    have ok1: "delivery_ok d1" using once1 by (rule once_ok_delivery)
    obtain row2 where row2: "t_get m_id k (messages d2) = Some row2" "evolves {} row row2"
      by (rule progress_row [OF prog2 ok1 row(1)])
    have "in_transit row2" using evolves_in_transit [OF row2(2) _ transit] by simp
    then show ?thesis using confirm_stays [OF _ once_other [OF once1 prog2] row2(1)] after Inr k by simp
  qed
qed

lemma reconcile_once:
  assumes run: "reconcile_message env G k now d p = (res, d', p')" and once: "once_ok (accepted p) d"
  shows "once_ok (accepted p') d'"
proof -
  have prog: "progress {k} d d'" using run by (rule reconcile_progress) simp
  show ?thesis
    using run
  proof (cases rule: reconcile_cases)
    case stopped
    then show ?thesis using once by simp
  next
    case (crashed m e)
    then show ?thesis using once find_keeps [OF crashed(3)] by simp
  next
    case (failed m err)
    obtain b where "reconcile_flags err = (True, b, False)" using reconcile_is_ambiguous by blast
    then show ?thesis
      using error_stays [OF _ once failed(1)] once_idle [OF once failed(1) _ prog] failed(2,4) find_keeps [OF failed(3)]
      by (cases "in_transit m") auto
  next
    case (found m s)
    then show ?thesis
      using confirm_stays [OF found(4) once found(1)] once_idle [OF once found(1) _ prog] find_keeps [OF found(3)]
      by (cases "in_transit m") auto
  next
    case (absent m)
    have ok: "delivery_ok d" using once by (rule once_ok_delivery)
    have "free_of k (accepted p) d"
      using once find_absent [OF absent(3)] message_unique [OF ok _ absent(1)]
      by (fastforce simp: once_ok_def free_of_def)
    then have "free_of k (accepted p) d'" by (rule free_of_progress [OF prog ok])
    then show ?thesis using once_free [OF once] progress_ok [OF prog ok] find_keeps [OF absent(3)] by simp
  qed
qed

end

section \<open>Everything else a worker does\<close>

lemma candidate_once:
  assumes "queue_candidate_is_ready env k now d = Inr (b, d')" "once_ok ids d"
  shows "once_ok ids d'"
proof -
  obtain m where m: "t_get m_id k (messages d) = Some m"
    using assms(1) by (auto simp: queue_candidate_is_ready_def bindE_eq_Inr get_message_Inr)
  show ?thesis
  proof (cases "m_state m \<in> {PREPARED, QUEUED}")
    case True
    then have "\<not> in_transit m" by (auto simp: in_transit_def in_flight_def)
    then show ?thesis using once_idle [OF assms(2) m _ candidate_progress [OF assms(1)]] by simp
  next
    case False
    then have "d' = d"
      using assms(1) m by (auto simp: queue_candidate_is_ready_def get_message_def split: option.splits if_splits)
    then show ?thesis using assms(2) by simp
  qed
qed

lemma ready_ids_once: "ready_ids env now ks d = (res, d') \<Longrightarrow> once_ok ids d \<Longrightarrow> once_ok ids d'"
  by (induction ks arbitrary: d res d') (auto split: sum.splits prod.splits dest: candidate_once)

lemma scan_once: "pending_message_ids env now d = (res, d') \<Longrightarrow> once_ok ids d \<Longrightarrow> once_ok ids d'"
  unfolding pending_message_ids_def by (rule ready_ids_once)

lemma retry_once:
  assumes "retry_failed_message env k actor reason d = Inr d'" "once_ok ids d"
  shows "once_ok ids d'"
  using assms(1)
proof (rule retry_Inr)
  fix m assume m: "t_get m_id k (messages d) = Some m" "m_state m = SEND_FAILED"
  then have "\<not> in_transit m" by (simp add: in_transit_def in_flight_def)
  then show ?thesis using once_idle [OF assms(2) m(1) _ retry_progress [OF assms(1)]] by simp
qed

lemma complete_once: "complete_drained_campaigns env d = (res, d') \<Longrightarrow> once_ok ids d \<Longrightarrow> once_ok ids d'"
  unfolding complete_drained_campaigns_def by (erule once_other) (rule complete_campaigns_progress)

text \<open>
  What the rest of the application may do between two operations of a worker: anything that keeps the
  constraints and leaves the messages in transit in transit.
\<close>

definition control_change :: "db \<Rightarrow> db \<Rightarrow> bool" where
  "control_change d d' \<longleftrightarrow>
     (delivery_ok d \<longrightarrow> delivery_ok d'
        \<and> (\<forall>m \<in> set (messages d). in_transit m \<longrightarrow>
             (\<exists>m' \<in> set (messages d'). m_message_id m' = m_message_id m \<and> in_transit m')))"

lemma control_once: "control_change d d' \<Longrightarrow> once_ok ids d \<Longrightarrow> once_ok ids d'"
  unfolding control_change_def once_ok_def by metis

lemma control_change_refl [simp]: "control_change d d" by (auto simp: control_change_def)

lemma control_change_trans: "control_change a b \<Longrightarrow> control_change b c \<Longrightarrow> control_change a c"
  unfolding control_change_def by metis

section \<open>Interleavings\<close>

inductive worker_step :: "'p gmail \<Rightarrow> db \<times> 'p \<Rightarrow> db \<times> 'p \<Rightarrow> bool" for G where
  deliver: "deliver_message env G k now d p = (res, d', p') \<Longrightarrow> invalid_email_text env \<noteq> [] \<Longrightarrow> worker_step G (d, p) (d', p')"
| reconcile: "reconcile_message env G k now d p = (res, d', p') \<Longrightarrow> worker_step G (d, p) (d', p')"
| scan: "pending_message_ids env now d = (ids, d') \<Longrightarrow> worker_step G (d, p) (d', p)"
| retry: "retry_failed_message env k actor reason d = Inr d' \<Longrightarrow> worker_step G (d, p) (d', p)"
| complete: "complete_drained_campaigns env d = (n, d') \<Longrightarrow> worker_step G (d, p) (d', p)"
| control: "control_change d d' \<Longrightarrow> worker_step G (d, p) (d', p)"

inductive_cases worker_stepE: "worker_step G (d, p) (d', p')"

context gmail_contract begin

lemma step_once: "worker_step G s s' \<Longrightarrow> once_ok (accepted (snd s)) (fst s) \<Longrightarrow> once_ok (accepted (snd s')) (fst s')"
  by (induction rule: worker_step.induct)
    (auto intro: deliver_once reconcile_once scan_once retry_once complete_once control_once)

lemma steps_once: "(worker_step G)\<^sup>*\<^sup>* s s' \<Longrightarrow> once_ok (accepted (snd s)) (fst s) \<Longrightarrow> once_ok (accepted (snd s')) (fst s')"
  by (induction rule: rtranclp_induct) (auto intro: step_once)

end

section \<open>Control changes\<close>

lemma control_change_rows:
  assumes rows: "list_all2 (\<lambda>m m'. quiet UNIV m m' \<and> (in_transit m \<longrightarrow> in_transit m')) (messages d) (messages d')"
    and "next_id d \<le> next_id d'" "campaign_keys_ok d \<Longrightarrow> campaign_keys_ok d'" "running_approved d \<Longrightarrow> running_approved d'"
    and "reservations d' = reservations d" "ledgers d' = ledgers d"
  shows "control_change d d'"
proof -
  have q: "list_all2 (quiet UNIV) (messages d) (messages d')" by (rule list_all2_mono [OF rows]) simp
  have "\<exists>m' \<in> set (messages d'). m_message_id m' = m_message_id m \<and> in_transit m'"
    if m: "m \<in> set (messages d)" "in_transit m" for m
  proof -
    obtain m' where "m' \<in> set (messages d')" "quiet UNIV m m'" "in_transit m'"
      using list_all2_mem1 [OF rows m(1)] m(2) by blast
    then show ?thesis using quiet_fields(3) [of UNIV m m'] by blast
  qed
  moreover have "delivery_ok d'" if "delivery_ok d"
    using that assms(2-) message_keys_quiet [OF q assms(2)]
    by (auto simp: delivery_ok_def reservations_ok_def ledgers_ok_def)
  ultimately show ?thesis unfolding control_change_def by blast
qed

lemma list_all2_t_update:
  assumes "\<And>x. R x x" "\<And>x. x \<in> set t \<Longrightarrow> P x \<Longrightarrow> R x (f x)"
  shows "list_all2 R t (t_update P f t)"
  using assms(2) unfolding t_update_def by (induction t) (auto simp: assms(1))

lemma transition_is_control:
  assumes "transition_campaign env camp target actor reason d = Inr (c', d')"
  shows "control_change d d'"
  using assms
proof (rule transition_Inr)
  fix c assume t: "c_id c' = camp" "campaigns d' = t_save c_id camp (\<lambda>_. c') (campaigns d)"
    "reservations d' = reservations d" "ledgers d' = ledgers d" "next_id d \<le> next_id d'"
    "messages d' = (if target = C_CANCELLED
        then cancelled_messages camp (or_default reason txt_cancelled_by_user) (messages d) else messages d)"
  show ?thesis
  proof (rule control_change_rows)
    show "list_all2 (\<lambda>m m'. quiet UNIV m m' \<and> (in_transit m \<longrightarrow> in_transit m')) (messages d) (messages d')"
      unfolding t(6) cancelled_messages_def
      by (auto simp: cancellable_def in_transit_def in_flight_def quiet_defs list_all2_refl intro!: list_all2_t_update)
    have "map c_id (campaigns d') = map c_id (campaigns d)"
      unfolding t(2) t_save_def t_update_def using t(1) by (induction "campaigns d") auto
    then show "campaign_keys_ok d \<Longrightarrow> campaign_keys_ok d'" by (simp add: campaign_keys_ok_def)
    show "running_approved d \<Longrightarrow> running_approved d'" using assms by (rule transition_running_approved)
  qed (use t in simp_all)
qed

lemma cancel_work_is_control:
  "control_change d (snd (cancel_pending_campaign_work env org reason replied at_time d))"
proof (rule control_change_rows)
  show "list_all2 (\<lambda>m m'. quiet UNIV m m' \<and> (in_transit m \<longrightarrow> in_transit m')) (messages d)
      (messages (snd (cancel_pending_campaign_work env org reason replied at_time d)))"
    unfolding messages_cancel_work
    by (rule list_all2_t_update)
      (auto simp: cancellable_def in_transit_def in_flight_def quiet_defs cancel_message_def)
qed (simp_all add: cancel_pending_campaign_work_def cancel_message_queryset_def exclude_enrollments_def mark_replied_def
    campaign_keys_ok_def running_approved_def Let_def split: option.splits)

lemma control_of_frame:
  assumes "messages d' = messages d" "campaigns d' = campaigns d" "reservations d' = reservations d" "ledgers d' = ledgers d"
    "next_id d \<le> next_id d'"
  shows "control_change d d'"
  by (rule control_change_rows) (use assms in \<open>simp_all add: list_all2_refl campaign_keys_ok_def running_approved_def\<close>)

lemma invalidate_is_control: "control_change d (invalidate_prospect_emails env n d)"
  by (rule control_of_frame) (simp_all add: invalidate_prospect_emails_def)

lemma merge_is_control: "control_change d (snd (merge_existing_suppression entry r actor source evidence d))"
  by (rule control_of_frame) (simp_all add: merge_existing_suppression_def Let_def)

lemma suppress_is_control:
  assumes "suppress_email env email reason actor source evidence d = Inr (entry, d')"
  shows "control_change d d'"
proof -
  obtain n r where n: "normalize_email env email = Inr n" and r: "suppression_of_value reason = Some r"
    and "require_if_actor d actor MANAGE_CONTACTS None = Inr ()"
    using assms by (auto simp: suppress_email_def bindE_eq_Inr of_option_eq_Inr)
  then have body: "suppress_email env email reason actor source evidence d =
      (let d1 = (if r = S_BOUNCE then invalidate_prospect_emails env n d else d)
       in case find_suppression n d1 of
            Some entry \<Rightarrow> Inr (merge_existing_suppression entry r actor source evidence d1)
          | None \<Rightarrow>
              let (k, d2) = fresh d1;
                  entry = \<lparr>s_id = k, s_original_email = py_strip email, s_email = n,
                           s_reason = r, s_source = source, s_evidence = evidence, s_created_by = actor\<rparr>;
                  d3 = d2\<lparr>suppressions := suppressions d2 @ [entry]\<rparr>
              in Inr (entry, record_event ''suppression.created'' k actor d3))"
    by (simp add: suppress_email_def of_option_def bindE_def)
  define d1 where "d1 = (if r = S_BOUNCE then invalidate_prospect_emails env n d else d)"
  have "control_change d d1" by (simp add: d1_def invalidate_is_control)
  moreover have "control_change d1 d'"
  proof (cases "find_suppression n d1")
    case None
    then show ?thesis
      using assms unfolding body d1_def [symmetric] by (auto simp: Let_def fresh_def intro!: control_of_frame)
  next
    case (Some e)
    then show ?thesis
      using assms merge_is_control [of d1 e r actor source evidence] unfolding body d1_def [symmetric] by (simp add: Let_def)
  qed
  ultimately show ?thesis by (rule control_change_trans)
qed

end
