(* ===== verification/Gmail_Fake.thy ===== *)
theory Gmail_Fake
  imports At_Most_Once
begin

text \<open>
  \<open>FakeGmailProvider\<close> of integrations/fakes.py, the provider the application runs with when no Gmail account is
  configured (its \<open>persist = False\<close> form): a dict from Message-ID to result. It answers a repeated Message-ID with
  the first result, a stronger contract than the one the delivery needs.
\<close>

section \<open>The provider\<close>

text \<open>\<open>_sent\<close>, in insertion order.\<close>

type_synonym fake_sent = "(str \<times> send_result) list"

definition fake_insert :: "send_request \<Rightarrow> send_result \<Rightarrow> fake_sent \<Rightarrow> (provider_failure + send_result) \<times> fake_sent" where
  "fake_insert q r sent =
     (case map_of sent (q_message_id q) of
        Some existing \<Rightarrow> (Inr existing, sent)
      | None \<Rightarrow> (Inr r, sent @ [(q_message_id q, r)]))"

definition fake_digest :: "env \<Rightarrow> str \<Rightarrow> str" where
  "fake_digest env i = take 16 (sha256_hex env i)"

definition fake_send :: "env \<Rightarrow> send_request \<Rightarrow> fake_sent \<Rightarrow> (provider_failure + send_result) \<times> fake_sent" where
  "fake_send env q sent =
     fake_insert q \<lparr>gr_message_id = ''fake-message-'' @ fake_digest env (q_message_id q),
                    gr_thread_id = ''fake-thread-'' @ fake_digest env (q_message_id q)\<rparr> sent"

definition fake_reply :: "env \<Rightarrow> send_request \<Rightarrow> fake_sent \<Rightarrow> (provider_failure + send_result) \<times> fake_sent" where
  "fake_reply env q sent =
     fake_insert q \<lparr>gr_message_id = ''fake-message-'' @ fake_digest env (q_message_id q),
                    gr_thread_id = q_thread_id q\<rparr> sent"

definition fake_find :: "str \<Rightarrow> fake_sent \<Rightarrow> (provider_failure + send_result option) \<times> fake_sent" where
  "fake_find i sent = (Inr (map_of sent i), sent)"

definition fake_gmail :: "env \<Rightarrow> fake_sent gmail" where
  "fake_gmail env = \<lparr>pv_send = fake_send env, pv_reply = fake_reply env, pv_find = fake_find\<rparr>"

section \<open>A provider that deduplicates\<close>

text \<open>It never fails, and knows a Message-ID exactly when it has taken a mail with it.\<close>

locale deduplicating_gmail =
  fixes G :: "'p gmail" and taken :: "'p \<Rightarrow> str list"
  assumes send_dedup: "pv_send G q p = (r, p') \<Longrightarrow>
      r \<in> range Inr \<and> taken p' = (if q_message_id q \<in> set (taken p) then taken p else taken p @ [q_message_id q])"
    and reply_dedup: "pv_reply G q p = (r, p') \<Longrightarrow>
      r \<in> range Inr \<and> taken p' = (if q_message_id q \<in> set (taken p) then taken p else taken p @ [q_message_id q])"
    and find_exact: "pv_find G i p = (f, p') \<Longrightarrow>
      taken p' = taken p \<and> (\<exists>found. f = Inr found \<and> (found \<noteq> None) = (i \<in> set (taken p)))"
begin

lemma send_distinct: "pv_send G q p = (r, p') \<Longrightarrow> distinct (taken p) \<Longrightarrow> distinct (taken p')"
  using send_dedup by auto

lemma send_known: "pv_send G q p = (r, p') \<Longrightarrow> q_message_id q \<in> set (taken p')"
  using send_dedup by auto

lemma found_after_send:
  assumes "pv_send G q p = (r, p')" "pv_find G (q_message_id q) p' = (f, p'')"
  shows "\<exists>s. f = Inr (Some s)"
  using find_exact [OF assms(2)] send_known [OF assms(1)] by auto

end

sublocale deduplicating_gmail \<subseteq> gmail_contract G taken
proof
  fix q p p' r
  show "taken p' = taken p @ [q_message_id q] \<or> taken p' = taken p \<and> q_message_id q \<in> set (taken p)"
    if "pv_send G q p = (Inr r, p')"
    using send_dedup [OF that] by (auto split: if_splits)
  show "taken p' = taken p @ [q_message_id q] \<or> taken p' = taken p \<and> q_message_id q \<in> set (taken p)"
    if "pv_reply G q p = (Inr r, p')"
    using reply_dedup [OF that] by (auto split: if_splits)
next
  fix q p f p'
  show "taken p' = taken p \<or> taken p' = taken p @ [q_message_id q] \<and> (\<forall>err. f = Failed err \<longrightarrow> \<not> refusal err)"
    if "pv_send G q p = (Inl f, p')"
    using send_dedup [OF that] by auto
  show "taken p' = taken p \<or> taken p' = taken p @ [q_message_id q] \<and> (\<forall>err. f = Failed err \<longrightarrow> \<not> refusal err)"
    if "pv_reply G q p = (Inl f, p')"
    using reply_dedup [OF that] by auto
next
  fix i p found p'
  show "taken p' = taken p" if "pv_find G i p = (found, p')" using find_exact [OF that] by simp
next
  fix i p p'
  show "i \<notin> set (taken p)" if "pv_find G i p = (Inr None, p')" using find_exact [OF that] by auto
qed

lemma map_of_Some_mem: "(map_of t i \<noteq> None) = (i \<in> set (map fst t))"
  by (simp add: map_of_eq_None_iff)

interpretation fake: deduplicating_gmail "fake_gmail env" "map fst"
proof
  fix q p r p'
  show "r \<in> range Inr \<and> map fst p' = (if q_message_id q \<in> set (map fst p) then map fst p else map fst p @ [q_message_id q])"
    if "pv_send (fake_gmail env) q p = (r, p')"
    using that map_of_Some_mem [of p "q_message_id q"]
    by (cases "map_of p (q_message_id q)") (auto simp: fake_gmail_def fake_send_def fake_insert_def)
  show "r \<in> range Inr \<and> map fst p' = (if q_message_id q \<in> set (map fst p) then map fst p else map fst p @ [q_message_id q])"
    if "pv_reply (fake_gmail env) q p = (r, p')"
    using that map_of_Some_mem [of p "q_message_id q"]
    by (cases "map_of p (q_message_id q)") (auto simp: fake_gmail_def fake_reply_def fake_insert_def)
next
  fix i f and p p' :: fake_sent
  show "map fst p' = map fst p \<and> (\<exists>found. f = Inr found \<and> (found \<noteq> None) = (i \<in> set (map fst p)))"
    if "pv_find (fake_gmail env) i p = (f, p')"
    using that map_of_Some_mem [of p i] by (auto simp: fake_gmail_def fake_find_def)
qed

end
