(* ===== verification/Automation_Texts.thy ===== *)
theory Automation_Texts
  imports Texts
begin

text \<open>
  The literal texts of the automation, contact and mailbox code: exception messages, the reasons and summaries
  stored in rows. Arrows and dashes outside Latin-1 do not occur in them.
\<close>

definition txt_mode_unavailable :: str where
  "txt_mode_unavailable =
     ''El modo solicitado no est'' @ [CHR 0xE1] @ '' disponible desde esta acci'' @ [CHR 0xF3] @ ''n.''"

definition txt_fact_incomplete :: str where
  "txt_fact_incomplete =
     ''Complet'' @ [CHR 0xE1] @ '' el t'' @ [CHR 0xED] @ ''tulo y la informaci'' @ [CHR 0xF3] @ ''n que se puede usar.''"

definition txt_context_empty :: str where
  "txt_context_empty =
     ''Escrib'' @ [CHR 0xED] @ '' el contexto general antes de guardarlo.''"

definition txt_task_note :: str where
  "txt_task_note =
     ''Contanos brevemente c'' @ [CHR 0xF3] @ ''mo se resolvi'' @ [CHR 0xF3] @ ''.''"

definition txt_manually_answered :: str where "txt_manually_answered = ''Respondida manualmente.''"

definition txt_ref_foreign_email :: str where
  "txt_ref_foreign_email =
     ''La decisi'' @ [CHR 0xF3] @ ''n devolvi'' @ [CHR 0xF3] @ '' un email que no estaba en la solicitud.''"

definition txt_ref_no_email :: str where
  "txt_ref_no_email =
     ''La redirecci'' @ [CHR 0xF3] @ ''n no eligi'' @ [CHR 0xF3] @ '' un email de la solicitud.''"

definition txt_ref_extra_email :: str where
  "txt_ref_extra_email =
     ''La decisi'' @ [CHR 0xF3] @ ''n eligi'' @ [CHR 0xF3] @ '' un email para una acci'' @ [CHR 0xF3] @ ''n que no lo admite.''"

definition txt_ref_repeated :: str where
  "txt_ref_repeated =
     ''La decisi'' @ [CHR 0xF3] @ ''n repiti'' @ [CHR 0xF3] @ '' una referencia de informaci'' @ [CHR 0xF3] @ ''n.''"

definition txt_ref_foreign_fact :: str where
  "txt_ref_foreign_fact =
     ''La decisi'' @ [CHR 0xF3] @ ''n cit'' @ [CHR 0xF3] @ '' informaci'' @ [CHR 0xF3] @ ''n que no estaba en la solicitud.''"

definition txt_ref_ungrounded :: str where
  "txt_ref_ungrounded =
     ''La respuesta autom'' @ [CHR 0xE1] @ ''tica no qued'' @ [CHR 0xF3] @ '' fundamentada en informaci'' @ [CHR 0xF3] @ ''n aprobada.''"

definition txt_ref_extra_fact :: str where
  "txt_ref_extra_fact =
     ''Una redirecci'' @ [CHR 0xF3] @ ''n expl'' @ [CHR 0xED] @ ''cita no debe agregar informaci'' @ [CHR 0xF3] @ ''n no solicitada.''"

definition txt_not_analysed :: str where
  "txt_not_analysed =
     ''No pudimos analizar esta respuesta. Revisala antes de continuar.''"

definition txt_needs_person :: str where
  "txt_needs_person =
     ''Esta conversaci'' @ [CHR 0xF3] @ ''n necesita que la revise una persona.''"

definition txt_cadence_minimum :: str where
  "txt_cadence_minimum =
     ''La periodicidad m'' @ [CHR 0xED] @ ''nima es de siete d'' @ [CHR 0xED] @ ''as.''"

definition txt_topic_name :: str where
  "txt_topic_name =
     ''Escrib'' @ [CHR 0xED] @ '' un nombre para el tema.''"

definition txt_topic_objective :: str where
  "txt_topic_objective =
     ''Escrib'' @ [CHR 0xED] @ '' el objetivo del seguimiento.''"

definition txt_topic_changed :: str where
  "txt_topic_changed =
     ''El tema de seguimiento cambi'' @ [CHR 0xF3] @ '' antes del env'' @ [CHR 0xED] @ ''o.''"

definition txt_plan_inactive :: str where
  "txt_plan_inactive =
     ''El seguimiento no est'' @ [CHR 0xE1] @ '' activo.''"

definition txt_topic_inactive :: str where
  "txt_topic_inactive =
     ''El tema de seguimiento no est'' @ [CHR 0xE1] @ '' activo.''"

definition txt_plan_snoozed :: str where
  "txt_plan_snoozed =
     ''El seguimiento est'' @ [CHR 0xE1] @ '' pospuesto hasta la fecha elegida.''"

definition txt_contact_restricted :: str where
  "txt_contact_restricted =
     ''El contacto est'' @ [CHR 0xE1] @ '' marcado como No contactar o pidi'' @ [CHR 0xF3] @ '' la baja.''"

definition txt_preferred_changed :: str where
  "txt_preferred_changed =
     ''El email preferido cambi'' @ [CHR 0xF3] @ ''. Revis'' @ [CHR 0xE1] @ '' el seguimiento antes de continuar.''"

definition txt_email_not_valid :: str where
  "txt_email_not_valid =
     ''El email preferido no est'' @ [CHR 0xE1] @ '' validado para enviar.''"

definition txt_active_restriction :: str where
  "txt_active_restriction =
     ''Este contacto o email tiene una restricci'' @ [CHR 0xF3] @ ''n activa.''"

definition txt_open_task :: str where
  "txt_open_task =
     ''Hay una conversaci'' @ [CHR 0xF3] @ ''n que necesita revisi'' @ [CHR 0xF3] @ ''n antes del pr'' @ [CHR 0xF3] @ ''ximo contacto.''"

definition txt_automation_suspended :: str where
  "txt_automation_suspended =
     ''La automatizaci'' @ [CHR 0xF3] @ ''n est'' @ [CHR 0xE1] @ '' pausada para este contacto.''"

definition txt_relationship_blocked :: str where
  "txt_relationship_blocked =
     ''Los contactos programados est'' @ [CHR 0xE1] @ ''n detenidos por el bloqueo de seguridad.''"

definition txt_global_blocked :: str where
  "txt_global_blocked =
     ''El modo de env'' @ [CHR 0xED] @ ''o o el bloqueo general impiden enviar este mensaje.''"

definition txt_topic_off :: str where
  "txt_topic_off =
     ''El tema de seguimiento est'' @ [CHR 0xE1] @ '' inactivo.''"

definition txt_choose_preferred :: str where
  "txt_choose_preferred =
     ''Eleg'' @ [CHR 0xED] @ '' un email preferido validado antes de aprobar temas.''"

definition txt_preferred_unvalidated :: str where
  "txt_preferred_unvalidated =
     ''El email preferido debe estar validado antes de aprobar temas.''"

definition txt_plan_email_owner :: str where
  "txt_plan_email_owner =
     ''El email del plan debe pertenecer al contacto.''"

definition txt_plan_topic_space :: str where
  "txt_plan_topic_space =
     ''El tema debe pertenecer al mismo espacio que el contacto.''"

definition txt_schedule_moved :: str where
  "txt_schedule_moved =
     ''La programaci'' @ [CHR 0xF3] @ ''n cambi'' @ [CHR 0xF3] @ '' antes del env'' @ [CHR 0xED] @ ''o.''"

definition txt_goal_check_in :: str where
  "txt_goal_check_in =
     ''Preguntar de manera cordial c'' @ [CHR 0xF3] @ ''mo est'' @ [CHR 0xE1] @ ''n y si hay algo en lo que podamos ayudar.''"

definition txt_goal_feedback :: str where
  "txt_goal_feedback =
     ''Pedir una opini'' @ [CHR 0xF3] @ ''n general sobre el producto o la atenci'' @ [CHR 0xF3] @ ''n, sin asumir detalles.''"

definition txt_goal_default :: str where "txt_goal_default = ''Retomar el contacto.''"

definition txt_choose_first :: str where
  "txt_choose_first =
     ''Eleg'' @ [CHR 0xED] @ '' primero este email como preferido en la secci'' @ [CHR 0xF3] @ ''n Emails.''"

definition txt_unvalidated_plan :: str where
  "txt_unvalidated_plan =
     ''El email preferido debe estar validado antes de programar env'' @ [CHR 0xED] @ ''os.''"

definition txt_frequency_minimum :: str where
  "txt_frequency_minimum =
     ''La frecuencia m'' @ [CHR 0xED] @ ''nima es de siete d'' @ [CHR 0xED] @ ''as.''"

definition txt_write_goal :: str where
  "txt_write_goal =
     ''Escrib'' @ [CHR 0xED] @ '' el objetivo de este contacto.''"

definition txt_choose_activate :: str where
  "txt_choose_activate =
     ''Eleg'' @ [CHR 0xED] @ '' un email preferido validado antes de activar este tema.''"

definition txt_paused_before :: str where
  "txt_paused_before =
     ''El seguimiento se paus'' @ [CHR 0xF3] @ '' antes del env'' @ [CHR 0xED] @ ''o.''"

definition txt_disabled_before :: str where
  "txt_disabled_before =
     ''El seguimiento se desactiv'' @ [CHR 0xF3] @ '' antes del env'' @ [CHR 0xED] @ ''o.''"

definition txt_future_date :: str where
  "txt_future_date =
     ''Eleg'' @ [CHR 0xED] @ '' una fecha futura para posponer el contacto.''"

definition txt_snoozed_before :: str where
  "txt_snoozed_before =
     ''El seguimiento se pospuso antes del env'' @ [CHR 0xED] @ ''o.''"

definition txt_recent_interaction :: str where
  "txt_recent_interaction =
     ''Hubo una interacci'' @ [CHR 0xF3] @ ''n reciente; el pr'' @ [CHR 0xF3] @ ''ximo contacto se reprogram'' @ [CHR 0xF3] @ ''.''"

definition txt_automation_blocked :: str where
  "txt_automation_blocked =
     ''La automatizaci'' @ [CHR 0xF3] @ ''n est'' @ [CHR 0xE1] @ '' detenida por el bloqueo de seguridad.''"

definition txt_automation_not_live :: str where
  "txt_automation_not_live =
     ''Las respuestas autom'' @ [CHR 0xE1] @ ''ticas todav'' @ [CHR 0xED] @ ''a no est'' @ [CHR 0xE1] @ ''n en modo activo.''"

definition txt_date_changed :: str where
  "txt_date_changed =
     ''La fecha cambi'' @ [CHR 0xF3] @ '' antes de preparar el mensaje.''"

definition txt_date_changed_while :: str where
  "txt_date_changed_while =
     ''La fecha cambi'' @ [CHR 0xF3] @ '' mientras se preparaba el mensaje.''"

definition txt_unsafe_draft :: str where
  "txt_unsafe_draft =
     ''No pudimos preparar un mensaje seguro. Revis'' @ [CHR 0xE1] @ '' el objetivo y la conversaci'' @ [CHR 0xF3] @ ''n.''"

definition txt_goal_needs_person :: str where
  "txt_goal_needs_person =
     ''El objetivo necesita que una persona prepare el pr'' @ [CHR 0xF3] @ ''ximo mensaje.''"

definition txt_daily_limit :: str where
  "txt_daily_limit =
     ''Se alcanz'' @ [CHR 0xF3] @ '' el l'' @ [CHR 0xED] @ ''mite diario de mensajes autom'' @ [CHR 0xE1] @ ''ticos. Revis'' @ [CHR 0xE1] @ '' este contacto.''"

definition txt_incomplete_draft :: str where
  "txt_incomplete_draft =
     ''El borrador qued'' @ [CHR 0xF3] @ '' incompleto y no se puede enviar.''"

definition txt_draft_locked :: str where
  "txt_draft_locked =
     ''Este borrador ya no se puede editar.''"

definition txt_complete_draft :: str where
  "txt_complete_draft =
     ''Complet'' @ [CHR 0xE1] @ '' el asunto y el mensaje antes de guardar.''"

definition txt_draft_too_long :: str where
  "txt_draft_too_long =
     ''El asunto o el mensaje son demasiado extensos.''"

definition txt_draft_gone :: str where
  "txt_draft_gone =
     ''Este borrador ya fue autorizado o dej'' @ [CHR 0xF3] @ '' de estar disponible.''"

definition txt_scheduled_failed :: str where
  "txt_scheduled_failed =
     ''El contacto programado no se pudo enviar.''"

definition txt_scheduled_failed_check :: str where
  "txt_scheduled_failed_check =
     ''El contacto programado no se pudo enviar. Revis'' @ [CHR 0xE1] @ '' Gmail y el destinatario.''"

definition txt_choose_review :: str where
  "txt_choose_review =
     ''Eleg'' @ [CHR 0xED] @ '' c'' @ [CHR 0xF3] @ ''mo se revisar'' @ [CHR 0xE1] @ '' el pr'' @ [CHR 0xF3] @ ''ximo mensaje.''"

definition txt_cand_not_new :: str where
  "txt_cand_not_new =
     ''El email elegido no proviene del texto nuevo de este mensaje.''"

definition txt_cand_many :: str where
  "txt_cand_many =
     ''El mensaje contiene m'' @ [CHR 0xE1] @ ''s de un email posible y necesita revisi'' @ [CHR 0xF3] @ ''n.''"

definition txt_cand_syntax :: str where
  "txt_cand_syntax =
     ''El email indicado ya no tiene una sintaxis v'' @ [CHR 0xE1] @ ''lida.''"

definition txt_cand_unlike :: str where
  "txt_cand_unlike =
     ''El email indicado no coincide con su versi'' @ [CHR 0xF3] @ ''n validada.''"

definition txt_cand_literal :: str where
  "txt_cand_literal =
     ''El email indicado ya no coincide literalmente con el mensaje recibido.''"

definition txt_cand_evidence :: str where
  "txt_cand_evidence =
     ''La evidencia guardada del email indicado ya no coincide.''"

definition txt_cand_unconfirmed :: str where
  "txt_cand_unconfirmed =
     ''No se pudo confirmar de forma inequ'' @ [CHR 0xED] @ ''voca el email indicado.''"

definition txt_label_check_in :: str where
  "txt_label_check_in =
     ''Preguntar c'' @ [CHR 0xF3] @ ''mo est'' @ [CHR 0xE1]"

definition txt_label_feedback :: str where
  "txt_label_feedback =
     ''Pedir opini'' @ [CHR 0xF3] @ ''n sobre el producto''"

definition txt_label_admin :: str where
  "txt_label_admin =
     ''Objetivo escrito por el administrador''"

definition txt_instructions_prefix :: str where
  "txt_instructions_prefix =
     ''Instrucciones del tema: ''"

definition txt_invalid_action :: str where
  "txt_invalid_action =
     ''La acci'' @ [CHR 0xF3] @ ''n solicitada no es v'' @ [CHR 0xE1] @ ''lida.''"

lemmas automation_txt_defs =
  txt_mode_unavailable_def txt_fact_incomplete_def txt_context_empty_def txt_task_note_def
  txt_manually_answered_def txt_ref_foreign_email_def txt_ref_no_email_def txt_ref_extra_email_def
  txt_ref_repeated_def txt_ref_foreign_fact_def txt_ref_ungrounded_def txt_ref_extra_fact_def
  txt_not_analysed_def txt_needs_person_def txt_cadence_minimum_def txt_topic_name_def
  txt_topic_objective_def txt_topic_changed_def txt_plan_inactive_def txt_topic_inactive_def
  txt_plan_snoozed_def txt_contact_restricted_def txt_preferred_changed_def
  txt_email_not_valid_def txt_active_restriction_def txt_open_task_def
  txt_automation_suspended_def txt_relationship_blocked_def txt_global_blocked_def
  txt_topic_off_def txt_choose_preferred_def txt_preferred_unvalidated_def
  txt_plan_email_owner_def txt_plan_topic_space_def txt_schedule_moved_def txt_goal_check_in_def
  txt_goal_feedback_def txt_goal_default_def txt_choose_first_def txt_unvalidated_plan_def
  txt_frequency_minimum_def txt_write_goal_def txt_choose_activate_def txt_paused_before_def
  txt_disabled_before_def txt_future_date_def txt_snoozed_before_def txt_recent_interaction_def
  txt_automation_blocked_def txt_automation_not_live_def txt_date_changed_def
  txt_date_changed_while_def txt_unsafe_draft_def txt_goal_needs_person_def txt_daily_limit_def
  txt_incomplete_draft_def txt_draft_locked_def txt_complete_draft_def txt_draft_too_long_def
  txt_draft_gone_def txt_scheduled_failed_def txt_scheduled_failed_check_def txt_choose_review_def
  txt_cand_not_new_def txt_cand_many_def txt_cand_syntax_def txt_cand_unlike_def
  txt_cand_literal_def txt_cand_evidence_def txt_cand_unconfirmed_def txt_label_check_in_def
  txt_label_feedback_def txt_label_admin_def txt_instructions_prefix_def txt_invalid_action_def

end
