(* ===== verification/Control.thy ===== *)
theory Control
  imports At_Most_Once
begin

text \<open>
  What the rest of the application does between two operations of a worker, step by step: adding a message,
  updating messages that are not in transit, saving a campaign, and writing any other table are all
  \<open>control_change\<close>s, so that \<open>steps_once\<close> covers the operations composed of them.
\<close>

section \<open>The columns that identify a message\<close>

definition key_fields :: "message \<Rightarrow> id \<times> str \<times> str \<times> str \<times> id option" where
  "key_fields m = (m_id m, m_idempotency_key m, m_message_id m, m_gmail_message_id m, m_reminder_for m)"

lemma key_fields_eq:
  assumes "key_fields m' = key_fields m"
  shows "m_id m' = m_id m" "m_idempotency_key m' = m_idempotency_key m" "m_message_id m' = m_message_id m"
    "m_gmail_message_id m' = m_gmail_message_id m" "m_reminder_for m' = m_reminder_for m"
  using assms by (simp_all add: key_fields_def)

lemma message_keys_rows:
  assumes rows: "list_all2 (\<lambda>m m'. key_fields m' = key_fields m) (messages d) (messages d')"
    and "next_id d \<le> next_id d'" "message_keys_ok d"
  shows "message_keys_ok d'"
proof -
  note eq = map_eq_rows [OF rows]
  have ids: "map m_id (messages d') = map m_id (messages d)"
    "map m_idempotency_key (messages d') = map m_idempotency_key (messages d)"
    by (rule eq, erule key_fields_eq)+
  have "m_id ` set (messages d') = m_id ` set (messages d)" by (metis ids(1) set_map)
  then have "\<forall>m \<in> set (messages d'). m_id m < next_id d'"
    using assms(2,3) by (force simp: message_keys_ok_def)
  moreover have "unique_on (\<lambda>m. m_message_id m \<noteq> []) m_message_id (messages d')"
    "unique_on (\<lambda>m. m_gmail_message_id m \<noteq> []) m_gmail_message_id (messages d')"
    "unique_on (\<lambda>m. m_reminder_for m \<noteq> None) m_reminder_for (messages d')"
    using assms(3) unique_on_rows [OF rows, of "\<lambda>m. m_message_id m \<noteq> []" m_message_id]
      unique_on_rows [OF rows, of "\<lambda>m. m_gmail_message_id m \<noteq> []" m_gmail_message_id]
      unique_on_rows [OF rows, of "\<lambda>m. m_reminder_for m \<noteq> None" m_reminder_for]
    unfolding message_keys_ok_def by (metis key_fields_eq(3), metis key_fields_eq(4), metis key_fields_eq(5))
  ultimately show ?thesis using assms(3) ids by (simp add: message_keys_ok_def)
qed

lemma other_key: "key m \<notin> key ` A \<Longrightarrow> x \<in> A \<Longrightarrow> key x \<noteq> key m"
  by (metis imageI)

section \<open>The steps\<close>

text \<open>Tables that \<open>delivery_ok\<close> reads besides the messages.\<close>

definition other_rows :: "db \<Rightarrow> db \<Rightarrow> bool" where
  "other_rows d d' \<longleftrightarrow> campaigns d' = campaigns d \<and> reservations d' = reservations d \<and> ledgers d' = ledgers d
     \<and> next_id d \<le> next_id d'"

lemma other_rows_ok:
  assumes "other_rows d d'" "delivery_ok d" "message_keys_ok d'"
  shows "delivery_ok d'"
  using assms
  by (auto simp: other_rows_def delivery_ok_def campaign_keys_ok_def running_approved_def reservations_ok_def ledgers_ok_def)

lemma control_messages:
  assumes rows: "list_all2 (\<lambda>m m'. key_fields m' = key_fields m \<and> (in_transit m \<longrightarrow> in_transit m')) (messages d) (messages d')"
    and o1: "other_rows d d'"
  shows "control_change d d'"
proof -
  have keys: "list_all2 (\<lambda>m m'. key_fields m' = key_fields m) (messages d) (messages d')"
    by (rule list_all2_mono [OF rows]) simp
  have "\<exists>m' \<in> set (messages d'). m_message_id m' = m_message_id m \<and> in_transit m'"
    if m: "m \<in> set (messages d)" "in_transit m" for m
  proof -
    obtain m' where "m' \<in> set (messages d')" "key_fields m' = key_fields m" "in_transit m'"
      using list_all2_mem1 [OF rows m(1)] m(2) by blast
    then show ?thesis using key_fields_eq(3) [of m' m] by blast
  qed
  moreover have "delivery_ok d'" if "delivery_ok d"
    using that other_rows_ok [OF o1 that] message_keys_rows [OF keys] o1 by (simp add: delivery_ok_def other_rows_def)
  ultimately show ?thesis unfolding control_change_def by blast
qed

lemma control_update_messages:
  assumes "messages d' = t_update P f (messages d)" "other_rows d d'"
    and "\<And>m. P m \<Longrightarrow> key_fields (f m) = key_fields m" "\<And>m. P m \<Longrightarrow> in_transit m \<Longrightarrow> in_transit (f m)"
  shows "control_change d d'"
  by (rule control_messages [OF _ assms(2)])
    (use assms(3,4) in \<open>auto simp: assms(1) intro!: list_all2_t_update\<close>)

lemma control_save_message:
  assumes "t_get m_id k (messages d) = Some r" "\<not> in_transit r" "\<And>m. key_fields (f m) = key_fields m"
    "delivery_ok d \<Longrightarrow> messages d' = t_save m_id k f (messages d)" "delivery_ok d \<Longrightarrow> other_rows d d'"
  shows "control_change d d'"
proof (cases "delivery_ok d")
  case ok: True
  have "list_all2 (\<lambda>m m'. key_fields m' = key_fields m \<and> (in_transit m \<longrightarrow> in_transit m')) (messages d) (messages d')"
    unfolding assms(4) [OF ok] t_save_def
    by (rule list_all2_t_update) (use assms(2,3) message_unique [OF ok _ assms(1)] in auto)
  then show ?thesis by (rule control_messages) (rule assms(5) [OF ok])
qed (simp add: control_change_def)

lemma control_add_message:
  assumes "messages d' = messages d @ [m]" "campaigns d' = campaigns d" "reservations d' = reservations d"
    "ledgers d' = ledgers d" "next_id d \<le> m_id m" "m_id m < next_id d'"
    and "m_idempotency_key m \<notin> m_idempotency_key ` set (messages d)" "m_gmail_message_id m = [] \<or>
      m_gmail_message_id m \<notin> m_gmail_message_id ` set (messages d)" "m_reminder_for m = None"
    and "m_message_id m = [] \<or> m_message_id m \<notin> m_message_id ` set (messages d)"
  shows "control_change d d'"
proof -
  have "message_keys_ok d'" if "message_keys_ok d"
    using that assms by (fastforce simp: message_keys_ok_def unique_on_def)
  then show ?thesis
    using assms(1-6) by (auto simp: control_change_def delivery_ok_def campaign_keys_ok_def running_approved_def
        reservations_ok_def ledgers_ok_def)
qed

lemma control_save_campaign:
  assumes "messages d' = messages d" "campaigns d' = t_save c_id k f (campaigns d)" "\<And>c. c_id (f c) = c_id c"
    "\<And>c. c_id c = k \<Longrightarrow> c \<in> set (campaigns d) \<Longrightarrow> c_state (f c) = C_RUNNING \<Longrightarrow>
       c_state c = C_RUNNING \<and> c_approved_at (f c) = c_approved_at c \<or> c_approved_at (f c) \<noteq> None"
    and "reservations d' = reservations d" "ledgers d' = ledgers d" "next_id d \<le> next_id d'"
  shows "control_change d d'"
proof (rule control_change_rows)
  show "campaign_keys_ok d \<Longrightarrow> campaign_keys_ok d'"
    by (simp add: campaign_keys_ok_def assms(2) map_key_save assms(3))
  show "running_approved d \<Longrightarrow> running_approved d'"
    using assms(4) by (fastforce simp: running_approved_def assms(2) t_save_def t_update_def)
qed (use assms in \<open>simp_all add: list_all2_refl\<close>)

lemma control_foldE:
  assumes "foldE f xs s = Inr s'" "\<And>x s s'. f x s = Inr s' \<Longrightarrow> control_change (g s) (g s')"
  shows "control_change (g s) (g s')"
  by (rule foldE_invariant [OF assms(1)]) (auto elim: control_change_trans dest: assms(2))

text \<open>Resolving an organization or an enrollment touches the directory only.\<close>

lemma control_directory: "directory_frame d d' \<Longrightarrow> control_change d d'"
  by (rule control_of_frame) (simp_all add: directory_frame_def)

end
