(* ===== verification/Regex.thy ===== *)
theory Regex
  imports Prelude
begin

text \<open>
  The part of Python's \<open>re\<close> the sources use, as data and a backtracking matcher: literals, character classes,
  alternatives, optional parts, repetition, word boundaries and one-character look-around. A matching position is the character before it and
  the text after it; \<open>ends\<close> lists the positions where a match can end, in the order the engine tries them.
\<close>

datatype rx =
  Eps
| Class "char \<Rightarrow> bool"
| Seq rx rx
| Alt rx rx
| Star rx
| WordBoundary
| TextEnd
| NotBehind "char \<Rightarrow> bool"
| NotAhead "char \<Rightarrow> bool"

type_synonym position = "char option \<times> str"

text \<open>\<open>\w\<close> below U+0100, \<open>\b\<close>.\<close>

definition py_word_char :: "char \<Rightarrow> bool" where
  "py_word_char c \<longleftrightarrow>
     (let n = (of_char c :: nat)
      in 48 \<le> n \<and> n \<le> 57 \<or> 65 \<le> n \<and> n \<le> 90 \<or> n = 95 \<or> 97 \<le> n \<and> n \<le> 122
         \<or> n \<in> {170, 178, 179, 181, 185, 186, 188, 189, 190} \<or> 192 \<le> n \<and> n \<noteq> 215 \<and> n \<noteq> 247)"

definition at_word_boundary :: "position \<Rightarrow> bool" where
  "at_word_boundary p =
     ((case fst p of None \<Rightarrow> False | Some c \<Rightarrow> py_word_char c)
      \<noteq> (case snd p of [] \<Rightarrow> False | c # _ \<Rightarrow> py_word_char c))"

text \<open>Repetition is greedy, and only goes on where an iteration consumed something.\<close>

fun star_ends :: "(position \<Rightarrow> position list) \<Rightarrow> nat \<Rightarrow> position \<Rightarrow> position list" where
  "star_ends f 0 p = [p]"
| "star_ends f (Suc n) p =
     concat (map (\<lambda>q. if length (snd q) < length (snd p) then star_ends f n q else []) (f p)) @ [p]"

fun ends :: "rx \<Rightarrow> position \<Rightarrow> position list" where
  "ends Eps p = [p]"
| "ends (Class P) p = (case snd p of [] \<Rightarrow> [] | c # cs \<Rightarrow> if P c then [(Some c, cs)] else [])"
| "ends (Seq r s) p = concat (map (ends s) (ends r p))"
| "ends (Alt r s) p = ends r p @ ends s p"
| "ends (Star r) p = star_ends (ends r) (length (snd p)) p"
| "ends WordBoundary p = (if at_word_boundary p then [p] else [])"
| "ends TextEnd p = (if snd p = [] then [p] else [])"
| "ends (NotBehind P) p = (case fst p of None \<Rightarrow> [p] | Some c \<Rightarrow> if P c then [] else [p])"
| "ends (NotAhead P) p = (case snd p of [] \<Rightarrow> [p] | c # _ \<Rightarrow> if P c then [] else [p])"

text \<open>\<open>pattern.match(text)\<close> (a match at the start) and \<open>pattern.search(text)\<close> (anywhere).\<close>

definition rx_match :: "rx \<Rightarrow> str \<Rightarrow> bool" where
  "rx_match r s \<longleftrightarrow> ends r (None, s) \<noteq> []"

fun search_from :: "rx \<Rightarrow> char option \<Rightarrow> str \<Rightarrow> bool" where
  "search_from r prev [] \<longleftrightarrow> ends r (prev, []) \<noteq> []"
| "search_from r prev (c # cs) \<longleftrightarrow> ends r (prev, c # cs) \<noteq> [] \<or> search_from r (Some c) cs"

definition rx_search :: "rx \<Rightarrow> str \<Rightarrow> bool" where
  "rx_search r s \<longleftrightarrow> search_from r None s"

text \<open>
  \<open>pattern.finditer(text)\<close>: from the left, the first end the engine finds; a match starts where the previous one
  ended, and no pattern used this way matches the empty text. A match is its offset and its text.
\<close>

fun finditer :: "rx \<Rightarrow> nat \<Rightarrow> nat \<Rightarrow> char option \<Rightarrow> str \<Rightarrow> (nat \<times> str) list" where
  "finditer r skip i prev [] = []"
| "finditer r skip i prev (c # cs) =
     (case skip of
        Suc n \<Rightarrow> finditer r n (Suc i) (Some c) cs
      | 0 \<Rightarrow>
          (case ends r (prev, c # cs) of
             [] \<Rightarrow> finditer r 0 (Suc i) (Some c) cs
           | (_, rest) # _ \<Rightarrow>
               let n = length (c # cs) - length rest
               in (i, take n (c # cs)) # finditer r (n - 1) (Suc i) (Some c) cs))"

section \<open>Building patterns\<close>

definition chr_rx :: "char \<Rightarrow> rx" where
  "chr_rx c = Class (\<lambda>x. x = c)"

text \<open>\<open>re.IGNORECASE\<close>: a lower-case letter of the pattern also stands for its capital.\<close>

definition upper_of :: "char \<Rightarrow> char" where
  "upper_of c =
     (let n = (of_char c :: nat)
      in if 97 \<le> n \<and> n \<le> 122 \<or> 224 \<le> n \<and> n \<le> 254 \<and> n \<noteq> 247 then char_of (n - 32) else c)"

definition any_case :: "char \<Rightarrow> rx" where
  "any_case c = Class (\<lambda>x. x = c \<or> x = upper_of c)"

fun seq_rx :: "rx list \<Rightarrow> rx" where
  "seq_rx [] = Eps"
| "seq_rx [r] = r"
| "seq_rx (r # rs) = Seq r (seq_rx rs)"

fun alt_rx :: "rx list \<Rightarrow> rx" where
  "alt_rx [] = Class (\<lambda>_. False)"
| "alt_rx [r] = r"
| "alt_rx (r # rs) = Alt r (alt_rx rs)"

definition opt_rx :: "rx \<Rightarrow> rx" where
  "opt_rx r = Alt r Eps"

definition plus_rx :: "rx \<Rightarrow> rx" where
  "plus_rx r = Seq r (Star r)"

definition word_rx :: "str \<Rightarrow> rx" where
  "word_rx s = seq_rx (map chr_rx s)"

definition text_rx :: "str \<Rightarrow> rx" where
  "text_rx s = seq_rx (map any_case s)"

text \<open>\<open>r{0,n}\<close>, as many as possible first.\<close>

fun upto_rx :: "nat \<Rightarrow> rx \<Rightarrow> rx" where
  "upto_rx 0 r = Eps"
| "upto_rx (Suc n) r = opt_rx (Seq r (upto_rx n r))"

definition spaces_rx :: rx where
  "spaces_rx = plus_rx (Class py_isspace)"

section \<open>What the matcher finds\<close>

text \<open>The relation the matcher decides: \<open>r\<close> takes the position \<open>p\<close> to \<open>q\<close>.\<close>

inductive matches :: "rx \<Rightarrow> position \<Rightarrow> position \<Rightarrow> bool" where
  eps: "matches Eps p p"
| class_char: "P c \<Longrightarrow> matches (Class P) (b, c # cs) (Some c, cs)"
| seq: "matches r p q \<Longrightarrow> matches s q t \<Longrightarrow> matches (Seq r s) p t"
| alt_left: "matches r p q \<Longrightarrow> matches (Alt r s) p q"
| alt_right: "matches s p q \<Longrightarrow> matches (Alt r s) p q"
| star_stop: "matches (Star r) p p"
| star_step: "matches r p q \<Longrightarrow> length (snd q) < length (snd p) \<Longrightarrow> matches (Star r) q t \<Longrightarrow> matches (Star r) p t"
| boundary: "at_word_boundary p \<Longrightarrow> matches WordBoundary p p"
| text_end: "snd p = [] \<Longrightarrow> matches TextEnd p p"
| not_behind: "(\<And>c. fst p = Some c \<Longrightarrow> \<not> P c) \<Longrightarrow> matches (NotBehind P) p p"
| not_ahead: "(\<And>c cs. snd p = c # cs \<Longrightarrow> \<not> P c) \<Longrightarrow> matches (NotAhead P) p p"

inductive_cases match_cases:
  "matches Eps p q" "matches (Class P) p q" "matches (Seq r s) p q" "matches (Alt r s) p q"
  "matches WordBoundary p q" "matches TextEnd p q"
  "matches (NotBehind P) p q" "matches (NotAhead P) p q"

inductive_simps match_simps [simp]:
  "matches Eps p q" "matches (Class P) p q" "matches (Seq r s) p q" "matches (Alt r s) p q"
  "matches WordBoundary p q" "matches TextEnd p q"
  "matches (NotBehind P) p q" "matches (NotAhead P) p q"

lemma star_ends_matches:
  assumes "q \<in> set (star_ends (ends r) n p)" "\<And>p q. q \<in> set (ends r p) \<Longrightarrow> matches r p q"
  shows "matches (Star r) p q"
  using assms(1)
proof (induction n arbitrary: p)
  case (Suc n)
  then consider "q = p" | x where "x \<in> set (ends r p)" "length (snd x) < length (snd p)" "q \<in> set (star_ends (ends r) n x)"
    by (auto split: if_splits)
  then show ?case
    using Suc.IH assms(2) matches.star_stop matches.star_step by cases blast+
qed (simp add: matches.star_stop)

lemma ends_matches: "q \<in> set (ends r p) \<Longrightarrow> matches r p q"
proof (induction r arbitrary: p q)
  case (Class P)
  then show ?case by (cases p) (auto split: list.splits if_splits)
next
  case (Seq r s)
  then obtain x where "x \<in> set (ends r p)" "q \<in> set (ends s x)" by (auto simp del: split_paired_Ex)
  then show ?case using Seq.IH matches.seq by blast
next
  case (Star r)
  then show ?case using star_ends_matches by simp
qed (auto split: if_splits option.splits list.splits)

lemma matches_star_ends:
  assumes "matches R p q" "R = Star r" "\<And>p q. matches r p q \<Longrightarrow> q \<in> set (ends r p)" "length (snd p) \<le> n"
  shows "q \<in> set (star_ends (ends r) n p)"
  using assms(1,2,4)
proof (induction R p q arbitrary: n rule: matches.induct)
  case (star_stop r' p)
  then show ?case by (cases n) simp_all
next
  case (star_step r' p x t)
  then obtain k where k: "n = Suc k" by (cases n) auto
  have "t \<in> set (star_ends (ends r) k x)" using star_step k by simp
  moreover have "x \<in> set (ends r p)" using star_step.hyps(1) star_step.prems(1) assms(3) by simp
  ultimately show ?case using star_step.hyps(2) k by (simp add: bexI [of _ x] del: split_paired_Ex)
qed simp_all

lemma matches_ends: "matches r p q \<Longrightarrow> q \<in> set (ends r p)"
proof (induction r arbitrary: p q)
  case (Star r)
  then show ?case using matches_star_ends by auto
qed (auto split: option.splits list.splits, force?)

text \<open>So the search finds a match exactly when there is one at some position.\<close>

lemma ends_iff: "q \<in> set (ends r p) \<longleftrightarrow> matches r p q"
  using ends_matches matches_ends by blast

lemma ends_nonempty: "ends r p \<noteq> [] \<longleftrightarrow> (\<exists>q. matches r p q)"
  unfolding ends_iff [symmetric] by (metis ex_in_conv set_empty)

lemma search_from_iff:
  "search_from r prev s \<longleftrightarrow> (\<exists>n q. n \<le> length s \<and> matches r (if n = 0 then prev else Some (s ! (n - 1)), drop n s) q)"
proof (induction s arbitrary: prev)
  case Nil
  then show ?case by (simp add: ends_nonempty)
next
  case (Cons c s)
  show ?case (is "?l \<longleftrightarrow> ?r")
  proof
    assume ?l
    then consider q where "matches r (prev, c # s) q"
      | n q where "n \<le> length s" "matches r (if n = 0 then Some c else Some (s ! (n - 1)), drop n s) q"
      using Cons.IH by (auto simp: ends_nonempty simp del: split_paired_Ex)
    then show ?r
    proof cases
      case 1
      then show ?thesis by (intro exI [of _ 0] exI [of _ q]) simp
    next
      case 2
      then show ?thesis by (intro exI [of _ "Suc n"] exI [of _ q]) (auto simp: nth_Cons' split: if_splits)
    qed
  next
    assume ?r
    then obtain n q where n: "n \<le> Suc (length s)"
      "matches r (if n = 0 then prev else Some ((c # s) ! (n - 1)), drop n (c # s)) q" by auto
    show ?l
    proof (cases n)
      case 0
      then have "matches r (prev, c # s) q" using n by simp
      then show ?thesis using ends_nonempty [of r "(prev, c # s)"] by (metis search_from.simps(2))
    next
      case (Suc k)
      then have "k \<le> length s" "matches r (if k = 0 then Some c else Some (s ! (k - 1)), drop k s) q"
        using n by (auto simp: nth_Cons' split: if_splits)
      then have "search_from r (Some c) s" unfolding Cons.IH by blast
      then show ?thesis by simp
    qed
  qed
qed

end
