(* ===== verification/Tasks.thy ===== *)
theory Tasks
  imports Automation_Texts Control Regex
begin

text \<open>
  \<open>automation/services.py\<close>: the automation mode, the approved knowledge, the tasks a person has to close before
  the automation goes on, and the policy that decides what a proposed reply is allowed to do.
\<close>

section \<open>The automation mode\<close>

definition with_automation :: "(automation_tables \<Rightarrow> automation_tables) \<Rightarrow> db \<Rightarrow> db" where
  "with_automation f d = d\<lparr>automation := f (automation d)\<rparr>"

definition reply_configuration_of :: "id \<Rightarrow> db \<Rightarrow> reply_configuration option" where
  "reply_configuration_of ws d = find (\<lambda>c. am_workspace c = ws) (reply_configurations (automation d))"

text \<open>\<open>ReplyAutomationConfiguration.objects.get_or_create(workspace=workspace)\<close>\<close>

definition get_or_create_configuration :: "id \<Rightarrow> db \<Rightarrow> reply_configuration \<times> db" where
  "get_or_create_configuration ws d =
     (case reply_configuration_of ws d of
        Some c \<Rightarrow> (c, d)
      | None \<Rightarrow>
          let (k, d1) = fresh d;
              c = \<lparr>am_id = k, am_workspace = ws, am_mode = MODE_SHADOW, am_policy_version = ''2026-07'',
                   am_live_enabled_at = None, am_live_enabled_by = None\<rparr>
          in (c, with_automation (\<lambda>a. a\<lparr>reply_configurations := reply_configurations a @ [c]\<rparr>) d1))"

definition save_configuration :: "id \<Rightarrow> (reply_configuration \<Rightarrow> reply_configuration) \<Rightarrow> db \<Rightarrow> db" where
  "save_configuration k f = with_automation (\<lambda>a. a\<lparr>reply_configurations := t_save am_id k f (reply_configurations a)\<rparr>)"

definition set_non_live_mode :: "id \<Rightarrow> id \<Rightarrow> automation_mode \<Rightarrow> db \<Rightarrow> exn + db" where
  "set_non_live_mode ws actor mode d =
     bindE (require_user_capability d actor MANAGE_AUTOMATION (Some ws)) (\<lambda>_.
       if mode = MODE_LIVE then Inl (ValidationError txt_mode_unavailable)
       else
         let (c, d1) = get_or_create_configuration ws d
         in Inr (record_event ''automation.mode_changed'' (am_id c) (Some actor)
              (save_configuration (am_id c)
                (\<lambda>r. r\<lparr>am_mode := mode, am_live_enabled_at := None, am_live_enabled_by := None\<rparr>) d1)))"

definition set_live_mode :: "env \<Rightarrow> id \<Rightarrow> id \<Rightarrow> bool \<Rightarrow> db \<Rightarrow> exn + db" where
  "set_live_mode env ws actor reauthenticated d =
     bindE (require_user_capability d actor MANAGE_AUTOMATION (Some ws)) (\<lambda>_.
       if \<not> reauthenticated then Inl PermissionDenied
       else
         let (c, d1) = get_or_create_configuration ws d
         in Inr (record_event ''automation.live_enabled'' (am_id c) (Some actor)
              (save_configuration (am_id c)
                (\<lambda>r. r\<lparr>am_mode := MODE_LIVE, am_live_enabled_at := Some (clock env), am_live_enabled_by := Some actor\<rparr>)
                d1)))"

section \<open>Knowledge\<close>

definition last_version :: "('r \<Rightarrow> nat) \<Rightarrow> 'r list \<Rightarrow> nat" where
  "last_version v rows = (if rows = [] then 0 else Max (set (map v rows)))"

definition get_or_create_fact :: "id \<Rightarrow> id \<Rightarrow> str \<Rightarrow> str \<Rightarrow> db \<Rightarrow> id \<times> db" where
  "get_or_create_fact ws actor title category d =
     (case find (\<lambda>f. kf_workspace f = ws \<and> kf_title f = title) (fact_rows (automation d)) of
        Some f \<Rightarrow> (kf_id f, d)
      | None \<Rightarrow>
          let (k, d1) = fresh d;
              f = \<lparr>kf_id = k, kf_workspace = ws, kf_title = title, kf_category = category, kf_active = True,
                   kf_created_by = actor\<rparr>
          in (k, with_automation (\<lambda>a. a\<lparr>fact_rows := fact_rows a @ [f]\<rparr>) d1))"

definition create_knowledge_revision ::
    "env \<Rightarrow> id \<Rightarrow> id \<Rightarrow> str \<Rightarrow> str \<Rightarrow> str \<Rightarrow> str \<Rightarrow> db \<Rightarrow> exn + id \<times> db" where
  "create_knowledge_revision env ws actor title category body notes d =
     bindE (require_user_capability d actor MANAGE_KNOWLEDGE (Some ws)) (\<lambda>_.
       if py_strip title = [] \<or> py_strip body = [] then Inl (ValidationError txt_fact_incomplete)
       else
         let (fk, d1) = get_or_create_fact ws actor (py_strip title) (py_strip category) d;
             version = last_version kr_version (filter (\<lambda>r. kr_fact r = fk) (fact_revisions (automation d1))) + 1;
             (k, d2) = fresh d1;
             r = \<lparr>kr_id = k, kr_fact = fk, kr_version = version, kr_text = py_strip body,
                  kr_source_notes = py_strip notes, kr_content_hash = sha256_hex env (py_strip body),
                  kr_approved_at = None, kr_approved_by = None, kr_superseded_at = None\<rparr>
         in Inr (k, record_event ''knowledge.revision_created'' k (Some actor)
              (with_automation (\<lambda>a. a\<lparr>fact_revisions := fact_revisions a @ [r]\<rparr>) d2)))"

definition fact_approved :: "id \<Rightarrow> fact_revision \<Rightarrow> bool" where
  "fact_approved fk r \<longleftrightarrow> kr_fact r = fk \<and> kr_approved_at r \<noteq> None \<and> kr_superseded_at r = None"

definition approve_fact_revision :: "instant \<Rightarrow> id \<Rightarrow> id \<Rightarrow> id \<Rightarrow> fact_revision list \<Rightarrow> fact_revision list" where
  "approve_fact_revision now actor k fk rows =
     t_save kr_id k (\<lambda>r. r\<lparr>kr_approved_at := Some now, kr_approved_by := Some actor\<rparr>)
       (t_update (fact_approved fk) (\<lambda>r. r\<lparr>kr_superseded_at := Some now\<rparr>) rows)"

definition approve_knowledge_revision :: "env \<Rightarrow> id \<Rightarrow> id \<Rightarrow> db \<Rightarrow> exn + db" where
  "approve_knowledge_revision env k actor d =
     bindE (of_option DoesNotExist (t_get kr_id k (fact_revisions (automation d)))) (\<lambda>r.
     bindE (of_option DoesNotExist (t_get kf_id (kr_fact r) (fact_rows (automation d)))) (\<lambda>fk.
     bindE (require_user_capability d actor MANAGE_KNOWLEDGE (Some (kf_workspace fk))) (\<lambda>_.
       if kr_approved_at r \<noteq> None then Inr d
       else
         let d1 = with_automation (\<lambda>a. a\<lparr>fact_revisions :=
                    approve_fact_revision (clock env) actor k (kr_fact r) (fact_revisions a)\<rparr>) d;
             d2 = record_event ''knowledge.revision_approved'' k (Some actor) d1
         in Inr (d2\<lparr>dispatched := dispatched d2 @ [(''refresh_knowledge_revision_embedding'', k)]\<rparr>))))"

definition create_global_knowledge_context_revision ::
    "env \<Rightarrow> id \<Rightarrow> id \<Rightarrow> str \<Rightarrow> str \<Rightarrow> db \<Rightarrow> exn + id \<times> db" where
  "create_global_knowledge_context_revision env ws actor body notes d =
     bindE (require_user_capability d actor MANAGE_KNOWLEDGE (Some ws)) (\<lambda>_.
       if py_strip body = [] then Inl (ValidationError txt_context_empty)
       else
         let version = last_version kc_version (filter (\<lambda>r. kc_workspace r = ws) (context_revisions (automation d))) + 1;
             (k, d1) = fresh d;
             r = \<lparr>kc_id = k, kc_workspace = ws, kc_version = version, kc_text = py_strip body,
                  kc_source_notes = py_strip notes, kc_content_hash = sha256_hex env (py_strip body),
                  kc_approved_at = None, kc_approved_by = None, kc_superseded_at = None\<rparr>
         in Inr (k, record_event ''knowledge.global_context_revision_created'' k (Some actor)
              (with_automation (\<lambda>a. a\<lparr>context_revisions := context_revisions a @ [r]\<rparr>) d1)))"

definition context_approved :: "id \<Rightarrow> context_revision \<Rightarrow> bool" where
  "context_approved ws r \<longleftrightarrow> kc_workspace r = ws \<and> kc_approved_at r \<noteq> None \<and> kc_superseded_at r = None"

definition approve_context_revision ::
    "instant \<Rightarrow> id \<Rightarrow> id \<Rightarrow> id \<Rightarrow> context_revision list \<Rightarrow> context_revision list" where
  "approve_context_revision now actor k ws rows =
     t_save kc_id k (\<lambda>r. r\<lparr>kc_approved_at := Some now, kc_approved_by := Some actor\<rparr>)
       (t_update (context_approved ws) (\<lambda>r. r\<lparr>kc_superseded_at := Some now\<rparr>) rows)"

definition approve_global_knowledge_context_revision :: "env \<Rightarrow> id \<Rightarrow> id \<Rightarrow> db \<Rightarrow> exn + db" where
  "approve_global_knowledge_context_revision env k actor d =
     bindE (of_option DoesNotExist (t_get kc_id k (context_revisions (automation d)))) (\<lambda>r.
     bindE (require_user_capability d actor MANAGE_KNOWLEDGE (Some (kc_workspace r))) (\<lambda>_.
       if kc_approved_at r \<noteq> None then Inr d
       else Inr (record_event ''knowledge.global_context_revision_approved'' k (Some actor)
              (with_automation (\<lambda>a. a\<lparr>context_revisions :=
                 approve_context_revision (clock env) actor k (kc_workspace r) (context_revisions a)\<rparr>) d))))"

section \<open>Tasks for a person\<close>

definition task_open :: "human_task \<Rightarrow> bool" where
  "task_open t \<longleftrightarrow> ht_status t = TASK_OPEN"

text \<open>The three partial unique constraints over open tasks.\<close>

definition task_conflict :: "human_task \<Rightarrow> human_task \<Rightarrow> bool" where
  "task_conflict t u \<longleftrightarrow> task_open t \<and> task_open u
     \<and> (ht_inbound t \<noteq> None \<and> ht_inbound u = ht_inbound t \<and> ht_reason u = ht_reason t
        \<or> ht_inbound t = None \<and> ht_inbound u = None \<and> ht_conversation t = None \<and> ht_conversation u = None
            \<and> ht_contact u = ht_contact t \<and> ht_kind u = ht_kind t \<and> ht_reason u = ht_reason t
        \<or> ht_inbound t = None \<and> ht_inbound u = None \<and> ht_conversation t \<noteq> None \<and> ht_conversation u = ht_conversation t
            \<and> ht_kind u = ht_kind t \<and> ht_reason u = ht_reason t)"

definition task_matches :: "id option \<Rightarrow> id \<Rightarrow> id option \<Rightarrow> str \<Rightarrow> str \<Rightarrow> id option \<Rightarrow> human_task \<Rightarrow> bool" where
  "task_matches ws contact conversation kind reason inbound t \<longleftrightarrow>
     (ws = None \<or> ws = Some (ht_workspace t)) \<and> ht_contact t = contact \<and> ht_conversation t = conversation
     \<and> ht_kind t = kind \<and> ht_reason t = reason \<and> task_open t \<and> (inbound = None \<or> ht_inbound t = inbound)"

text \<open>\<open>QuerySet.get()\<close>\<close>

definition get_one :: "'r list \<Rightarrow> exn + 'r" where
  "get_one rows = (case rows of [] \<Rightarrow> Inl DoesNotExist | [r] \<Rightarrow> Inr r | _ \<Rightarrow> Inl MultipleObjectsReturned)"

definition new_task ::
    "env \<Rightarrow> id \<Rightarrow> id \<Rightarrow> id \<Rightarrow> id option \<Rightarrow> str \<Rightarrow> str \<Rightarrow> str \<Rightarrow> id option \<Rightarrow> id option \<Rightarrow> human_task" where
  "new_task env k ws contact conversation kind reason summary inbound decision =
     \<lparr>ht_id = k, ht_workspace = ws, ht_contact = contact, ht_conversation = conversation,
      ht_inbound = inbound, ht_decision = decision, ht_kind = kind, ht_reason = reason,
      ht_status = TASK_OPEN, ht_summary = summary, ht_opened_at = clock env, ht_resolved_at = None,
      ht_resolved_by = None, ht_note = []\<rparr>"

definition add_task :: "human_task \<Rightarrow> db \<Rightarrow> db" where
  "add_task t d = with_automation (\<lambda>a. a\<lparr>task_rows := task_rows a @ [t]\<rparr>) (d\<lparr>next_id := Suc (ht_id t)\<rparr>)"

text \<open>\<open>get_or_create\<close>, and the fallback for the constraints its lookup does not name.\<close>

definition get_or_create_task ::
    "env \<Rightarrow> id \<Rightarrow> id \<Rightarrow> id option \<Rightarrow> str \<Rightarrow> str \<Rightarrow> str \<Rightarrow> id option \<Rightarrow> id option \<Rightarrow> db \<Rightarrow> exn + (human_task \<times> bool) \<times> db" where
  "get_or_create_task env ws contact conversation kind reason summary inbound decision d =
     (case filter (task_matches (Some ws) contact conversation kind reason inbound) (task_rows (automation d)) of
        [] \<Rightarrow>
          let t = new_task env (next_id d) ws contact conversation kind reason summary inbound decision
          in if list_ex (task_conflict t) (task_rows (automation d))
             then bindE (get_one (filter (task_matches None contact conversation kind reason inbound)
                    (task_rows (automation d)))) (\<lambda>u. Inr ((u, False), d))
             else Inr ((t, True), add_task t d)
      | [t] \<Rightarrow> Inr ((t, False), d)
      | _ \<Rightarrow> Inl MultipleObjectsReturned)"

definition suspend_conversation :: "bool \<Rightarrow> id \<Rightarrow> db \<Rightarrow> db" where
  "suspend_conversation b k d =
     d\<lparr>conversations := t_save cv_id k (\<lambda>c. c\<lparr>cv_automation_suspended := b\<rparr>) (conversations d)\<rparr>"

definition suspend_contact :: "bool \<Rightarrow> id \<Rightarrow> db \<Rightarrow> db" where
  "suspend_contact b k d =
     d\<lparr>contacts := t_save t_id k (\<lambda>c. c\<lparr>t_automation_suspended := b\<rparr>) (contacts d)\<rparr>"

definition check_conversation :: "id \<Rightarrow> id \<Rightarrow> id option \<Rightarrow> db \<Rightarrow> exn + unit" where
  "check_conversation ws contact conversation d =
     (case conversation of
        None \<Rightarrow> Inr ()
      | Some k \<Rightarrow>
          bindE (of_option DoesNotExist (t_get cv_id k (conversations d))) (\<lambda>c.
            if cv_contact c = contact \<and> cv_workspace c = ws then Inr () else Inl DoesNotExist))"

definition suspend_automation :: "id \<Rightarrow> id option \<Rightarrow> db \<Rightarrow> db" where
  "suspend_automation contact conversation d =
     (case conversation of None \<Rightarrow> suspend_contact True contact d | Some k \<Rightarrow> suspend_conversation True k d)"

definition open_human_task ::
    "env \<Rightarrow> id \<Rightarrow> id \<Rightarrow> id option \<Rightarrow> str \<Rightarrow> str \<Rightarrow> str \<Rightarrow> id option \<Rightarrow> id option \<Rightarrow> db \<Rightarrow> exn + human_task \<times> db" where
  "open_human_task env ws contact conversation kind reason summary inbound decision d =
     bindE (of_option DoesNotExist (t_get t_id contact (contacts d))) (\<lambda>c.
       if t_workspace c \<noteq> ws then Inl DoesNotExist
       else
         bindE (check_conversation ws contact conversation d) (\<lambda>_.
         bindE (get_or_create_task env ws contact conversation kind reason summary inbound decision d)
           (\<lambda>((t, created), d1).
             let d2 = suspend_automation contact conversation d1
             in Inr (t,
                  if created
                  then let d3 = record_event ''human_task.opened'' (ht_id t) None d2
                       in d3\<lparr>dispatched := dispatched d3 @ [(''ensure_notification_deliveries'', ht_id t)]\<rparr>
                  else d2))))"

text \<open>Both branches write the column only when it changes; the row is the same if they always do.\<close>

definition resume_automation_after_task_close :: "human_task \<Rightarrow> db \<Rightarrow> db" where
  "resume_automation_after_task_close t d =
     (case ht_conversation t of
        Some k \<Rightarrow>
          if list_ex (\<lambda>u. ht_conversation u = Some k \<and> task_open u) (task_rows (automation d)) then d
          else suspend_conversation False k d
      | None \<Rightarrow>
          if list_ex (\<lambda>u. ht_contact u = ht_contact t \<and> ht_conversation u = None \<and> task_open u)
               (task_rows (automation d))
          then d
          else suspend_contact False (ht_contact t) d)"

definition close_task_row :: "env \<Rightarrow> id \<Rightarrow> task_status \<Rightarrow> str \<Rightarrow> id \<Rightarrow> db \<Rightarrow> db" where
  "close_task_row env actor status note k =
     with_automation (\<lambda>a. a\<lparr>task_rows := t_save ht_id k
       (\<lambda>t. t\<lparr>ht_status := status, ht_resolved_at := Some (clock env), ht_resolved_by := Some actor, ht_note := note\<rparr>)
       (task_rows a)\<rparr>)"

definition close_human_task :: "env \<Rightarrow> id \<Rightarrow> id \<Rightarrow> bool \<Rightarrow> str \<Rightarrow> db \<Rightarrow> exn + db" where
  "close_human_task env k actor dismiss note d =
     bindE (of_option DoesNotExist (t_get ht_id k (task_rows (automation d)))) (\<lambda>t.
     bindE (require_user_capability d actor MANAGE_AUTOMATION (Some (ht_workspace t))) (\<lambda>_.
       if \<not> task_open t then Inr d
       else if py_strip note = [] then Inl (ValidationError txt_task_note)
       else
         let d1 = close_task_row env actor (if dismiss then TASK_DISMISSED else TASK_RESOLVED) (py_strip note) k d
         in Inr (record_event (if dismiss then ''human_task.dismissed'' else ''human_task.resolved'') k (Some actor)
              (resume_automation_after_task_close t d1))))"

definition resolve_one_review :: "env \<Rightarrow> id \<Rightarrow> human_task \<Rightarrow> db \<Rightarrow> db" where
  "resolve_one_review env actor t d =
     record_event ''human_task.resolved'' (ht_id t) (Some actor)
       (resume_automation_after_task_close t
         (close_task_row env actor TASK_RESOLVED txt_manually_answered (ht_id t) d))"

definition resolve_reply_review_tasks_for_manual_reply :: "env \<Rightarrow> id \<Rightarrow> id \<Rightarrow> id \<Rightarrow> db \<Rightarrow> nat \<times> db" where
  "resolve_reply_review_tasks_for_manual_reply env inbound ws actor d =
     (let tasks = filter (\<lambda>t. ht_workspace t = ws \<and> ht_inbound t = Some inbound \<and> ht_kind t = ''REPLY_REVIEW''
                    \<and> task_open t) (task_rows (automation d))
      in (length tasks, fold (resolve_one_review env actor) tasks d))"

section \<open>Lemmas\<close>

lemma with_automation_frame [simp]:
  "messages (with_automation f d) = messages d" "campaigns (with_automation f d) = campaigns d"
  "contacts (with_automation f d) = contacts d" "conversations (with_automation f d) = conversations d"
  "reservations (with_automation f d) = reservations d" "ledgers (with_automation f d) = ledgers d"
  "next_id (with_automation f d) = next_id d" "automation (with_automation f d) = f (automation d)"
  by (simp_all add: with_automation_def)

lemma suspend_frame [simp]:
  "messages (suspend_conversation b k d) = messages d" "messages (suspend_contact b k d) = messages d"
  "automation (suspend_conversation b k d) = automation d" "automation (suspend_contact b k d) = automation d"
  "contacts (suspend_conversation b k d) = contacts d" "conversations (suspend_contact b k d) = conversations d"
  by (simp_all add: suspend_conversation_def suspend_contact_def)

text \<open>
  While a task is open, the automation of its conversation (of its contact, when it has none) is suspended.
\<close>

definition task_suspends :: "human_task \<Rightarrow> db \<Rightarrow> bool" where
  "task_suspends t d \<longleftrightarrow>
     (case ht_conversation t of
        Some k \<Rightarrow> (\<forall>c \<in> set (conversations d). cv_id c = k \<longrightarrow> cv_automation_suspended c)
      | None \<Rightarrow> (\<forall>c \<in> set (contacts d). t_id c = ht_contact t \<longrightarrow> t_automation_suspended c))"

definition suspension_ok :: "db \<Rightarrow> bool" where
  "suspension_ok d \<longleftrightarrow> (\<forall>t \<in> set (task_rows (automation d)). task_open t \<longrightarrow> task_suspends t d)"

lemma suspends_conversation:
  "task_suspends t d \<Longrightarrow> b \<or> ht_conversation t \<noteq> Some k \<Longrightarrow> task_suspends t (suspend_conversation b k d)"
  by (auto simp: task_suspends_def suspend_conversation_def t_save_def t_update_def split: option.splits)

lemma suspends_contact:
  "task_suspends t d \<Longrightarrow> b \<or> ht_conversation t \<noteq> None \<or> ht_contact t \<noteq> k \<Longrightarrow> task_suspends t (suspend_contact b k d)"
  by (auto simp: task_suspends_def suspend_contact_def t_save_def t_update_def split: option.splits)

lemma suspends_automation: "task_suspends t d \<Longrightarrow> task_suspends t (suspend_automation contact conversation d)"
  by (cases conversation) (simp_all add: suspend_automation_def suspends_conversation suspends_contact)

lemma suspends_itself: "task_suspends t (suspend_automation (ht_contact t) (ht_conversation t) d)"
  by (cases "ht_conversation t")
    (simp_all add: task_suspends_def suspend_automation_def suspend_conversation_def suspend_contact_def
      t_save_def ball_t_update)

lemma suspension_frame:
  "automation d' = automation d \<Longrightarrow> contacts d' = contacts d \<Longrightarrow> conversations d' = conversations d \<Longrightarrow>
   suspension_ok d' = suspension_ok d"
  by (simp add: suspension_ok_def task_suspends_def split: option.split)

lemma suspension_event [simp]:
  "suspension_ok (record_event a e u d) = suspension_ok d" "suspension_ok (d\<lparr>dispatched := x\<rparr>) = suspension_ok d"
  by (rule suspension_frame; simp add: record_event_def)+

lemma get_one_mem: "get_one rows = Inr r \<Longrightarrow> r \<in> set rows"
  by (auto simp: get_one_def split: list.splits)

lemma new_task_simps [simp]:
  "ht_id (new_task env k ws contact conversation kind reason summary inbound decision) = k"
  "ht_contact (new_task env k ws contact conversation kind reason summary inbound decision) = contact"
  "ht_conversation (new_task env k ws contact conversation kind reason summary inbound decision) = conversation"
  "task_open (new_task env k ws contact conversation kind reason summary inbound decision)"
  by (simp_all add: new_task_def task_open_def)

lemma get_or_create_task_Inr:
  assumes "get_or_create_task env ws contact conversation kind reason summary inbound decision d = Inr ((t, b), d')"
  shows "ht_contact t = contact \<and> ht_conversation t = conversation \<and> task_open t
    \<and> (t \<in> set (task_rows (automation d)) \<and> d' = d \<or> ht_id t = next_id d \<and> d' = add_task t d)"
proof -
  have mem: "ht_contact u = contact \<and> ht_conversation u = conversation \<and> task_open u \<and> u \<in> set (task_rows (automation d))"
    if "u \<in> set (filter (task_matches w contact conversation kind reason inbound) (task_rows (automation d)))" for u w
    using that by (simp add: task_matches_def)
  show ?thesis
  proof (cases "filter (task_matches (Some ws) contact conversation kind reason inbound) (task_rows (automation d))")
    case Nil
    define n where "n = new_task env (next_id d) ws contact conversation kind reason summary inbound decision"
    show ?thesis
    proof (cases "list_ex (task_conflict n) (task_rows (automation d))")
      case True
      have "bindE (get_one (filter (task_matches None contact conversation kind reason inbound) (task_rows (automation d))))
          (\<lambda>u. Inr ((u, False), d)) = Inr ((t, b), d')"
        using assms by (simp only: get_or_create_task_def Let_def n_def [symmetric] Nil list.case True if_True)
      then have one: "get_one (filter (task_matches None contact conversation kind reason inbound) (task_rows (automation d))) = Inr t"
        and d: "d' = d" by (auto simp only: bindE_eq_Inr sum.inject prod.inject)
      show ?thesis using mem [OF get_one_mem [OF one]] d by blast
    next
      case False
      then have "t = n \<and> d' = add_task n d"
        using assms Nil by (auto simp: get_or_create_task_def Let_def n_def [symmetric])
      then show ?thesis by (auto simp: n_def)
    qed
  next
    case (Cons u us)
    then have "us = []" "t = u" "d' = d" using assms by (cases us; simp add: get_or_create_task_def)+
    then show ?thesis using mem [of u "Some ws"] Cons by simp
  qed
qed

lemma open_task_suspends:
  assumes "open_human_task env ws contact conversation kind reason summary inbound decision d = Inr (t, d')" "suspension_ok d"
  shows "suspension_ok d' \<and> task_open t \<and> t \<in> set (task_rows (automation d')) \<and> task_suspends t d'"
proof -
  obtain b d1 where g: "get_or_create_task env ws contact conversation kind reason summary inbound decision d = Inr ((t, b), d1)"
    and d': "automation d' = automation d1" "contacts d' = contacts (suspend_automation contact conversation d1)"
      "conversations d' = conversations (suspend_automation contact conversation d1)"
    using assms(1)
    by (auto simp: open_human_task_def res_simps Let_def record_event_def suspend_automation_def
        split: if_splits option.splits)
  have g: "ht_contact t = contact" "ht_conversation t = conversation" "task_open t"
    "t \<in> set (task_rows (automation d1))" "contacts d1 = contacts d" "conversations d1 = conversations d"
    "set (task_rows (automation d1)) \<subseteq> insert t (set (task_rows (automation d)))"
    using get_or_create_task_Inr [OF g] by (auto simp: add_task_def)
  have s: "task_suspends u d' = task_suspends u (suspend_automation contact conversation d1)" for u
    using d' by (simp add: task_suspends_def split: option.split)
  have "task_suspends u d'" if u: "u \<in> set (task_rows (automation d'))" "task_open u" for u
  proof (cases "u = t")
    case True
    then show ?thesis using s suspends_itself [of t] g(1,2) by simp
  next
    case False
    then have "task_suspends u d" using u g(7) d'(1) assms(2) by (auto simp: suspension_ok_def)
    then have "task_suspends u d1" using g(5,6) by (simp add: task_suspends_def split: option.splits)
    then show ?thesis using s suspends_automation by simp
  qed
  then show ?thesis using g(3,4) d'(1) by (simp add: suspension_ok_def)
qed

lemma resume_suspends:
  assumes "\<And>u. u \<in> set (task_rows (automation d)) \<Longrightarrow> task_open u \<Longrightarrow> task_suspends u d"
  shows "suspension_ok (resume_automation_after_task_close t d)"
  unfolding suspension_ok_def
proof (intro ballI impI)
  fix u
  assume u: "u \<in> set (task_rows (automation (resume_automation_after_task_close t d)))" "task_open u"
  have "automation (resume_automation_after_task_close t d) = automation d"
    by (simp add: resume_automation_after_task_close_def split: option.split)
  with u assms have k: "u \<in> set (task_rows (automation d))" "task_suspends u d" by auto
  show "task_suspends u (resume_automation_after_task_close t d)"
    using k u(2) suspends_conversation [OF k(2), of False] suspends_contact [OF k(2), of False]
    by (auto simp: resume_automation_after_task_close_def list_ex_iff split: option.split)
qed

lemma close_row_suspends:
  assumes "suspension_ok d" "status \<noteq> TASK_OPEN"
  shows "suspension_ok (resume_automation_after_task_close t (close_task_row env actor status note k d))"
proof (rule resume_suspends)
  fix u
  assume u: "u \<in> set (task_rows (automation (close_task_row env actor status note k d)))" "task_open u"
  then have "u \<in> set (task_rows (automation d))"
    using assms(2) by (auto simp: close_task_row_def task_open_def elim!: t_saveE)
  then show "task_suspends u (close_task_row env actor status note k d)"
    using assms(1) u(2) by (auto simp: suspension_ok_def task_suspends_def close_task_row_def split: option.splits)
qed

lemma reviews_suspend:
  assumes "suspension_ok d"
  shows "suspension_ok (fold (resolve_one_review env actor) ts d)"
  using assms by (induction ts arbitrary: d) (simp_all add: resolve_one_review_def close_row_suspends)

text \<open>At most one approved revision of a fact, and of the workspace's context, is current.\<close>

definition knowledge_current :: "automation_tables \<Rightarrow> bool" where
  "knowledge_current a \<longleftrightarrow>
     unique_on (\<lambda>r. kr_approved_at r \<noteq> None \<and> kr_superseded_at r = None) kr_fact (fact_revisions a)
     \<and> unique_on (\<lambda>r. kc_approved_at r \<noteq> None \<and> kc_superseded_at r = None) kc_workspace (context_revisions a)"

text \<open>Retire every current row of a group, then promote one row of it.\<close>

lemma unique_promote:
  assumes "unique_on cur grp rows" "distinct (map key rows)"
    and "\<And>x. x \<in> set rows \<Longrightarrow> grp x = G \<Longrightarrow> \<not> cur x" "\<And>x. x \<in> set rows \<Longrightarrow> key x = k \<Longrightarrow> grp x = G"
    and promote: "\<And>x. grp (promote x) = grp x"
  shows "unique_on cur grp (t_save key k promote rows)"
  using assms(1-4)
proof (induction rows)
  case (Cons a rows)
  have ih: "unique_on cur grp (t_save key k promote rows)"
    by (rule Cons.IH) (use Cons.prems in \<open>auto simp: unique_on_def split: if_splits\<close>)
  show ?case
  proof (cases "key a = k")
    case True
    then have "t_save key k promote rows = rows"
      using Cons.prems(2) unfolding t_save_def t_update_def by (intro map_idI) (auto simp: image_iff)
    then show ?thesis
      using True Cons.prems promote unfolding t_save_def t_update_def unique_on_def by (auto split: if_splits)
  next
    case False
    have "grp x \<noteq> grp a" if "cur a" "x \<in> set (t_save key k promote rows)" "cur x" for x
      using that(2)
    proof (cases rule: t_saveE)
      case kept
      have "grp a \<notin> grp ` {x \<in> set rows. cur x}" using Cons.prems(1) that(1) by (simp add: unique_on_def)
      then show ?thesis using kept(1) that(3) by (metis (mono_tags, lifting) image_eqI mem_Collect_eq)
    next
      case (changed y)
      then show ?thesis using Cons.prems(3) [of a] Cons.prems(4) [of y] promote that(1) by auto
    qed
    then have "cur a \<Longrightarrow> grp a \<notin> grp ` {x \<in> set (t_save key k promote rows). cur x}" by fastforce
    moreover have "t_save key k promote (a # rows) = a # t_save key k promote rows"
      using False by (simp add: t_save_def t_update_def)
    ultimately show ?thesis using ih by (simp add: unique_on_def)
  qed
qed (simp add: unique_on_def t_save_def t_update_def)

lemma unique_retire:
  assumes "unique_on cur grp rows" "\<And>x. \<not> cur (retire x)"
  shows "unique_on cur grp (t_update P retire rows)"
  using assms(1)
proof (induction rows)
  case (Cons a rows)
  have "grp ` (set (t_update P retire rows) \<inter> Collect cur) \<subseteq> grp ` (set rows \<inter> Collect cur)"
    using assms(2) by (auto elim!: t_updateE)
  then show ?case using Cons assms(2) by (auto simp: unique_on_def t_update_def split: if_splits)
qed (simp add: unique_on_def t_update_def)

lemma unique_supersede:
  assumes u: "unique_on cur grp rows" and k: "distinct (map key rows)" "t_get key k rows = Some r"
    and f: "\<And>x. \<not> cur (retire x)" "\<And>x. grp (retire x) = grp x" "\<And>x. key (retire x) = key x"
    and g: "\<And>x. grp (promote x) = grp x"
    and P: "\<And>x. P x \<longleftrightarrow> grp x = grp r \<and> cur x"
  shows "unique_on cur grp (t_save key k promote (t_update P retire rows))"
proof (rule unique_promote [where G = "grp r"])
  show "unique_on cur grp (t_update P retire rows)" using u f(1) by (rule unique_retire)
  show "distinct (map key (t_update P retire rows))" using k(1) by (simp add: map_key_update f(3))
  show "\<not> cur x" if "x \<in> set (t_update P retire rows)" "grp x = grp r" for x
    using that f(1) P by (auto elim!: t_updateE)
  show "grp x = grp r" if x: "x \<in> set (t_update P retire rows)" "key x = k" for x
  proof -
    obtain y where y: "y \<in> set rows" "key y = k" "grp y = grp x"
      using x(1)
    proof (cases rule: t_updateE)
      case kept
      with x(2) show ?thesis using that by blast
    next
      case (changed y)
      with x(2) f(2,3) show ?thesis using that [of y] by simp
    qed
    then have "y = r" using k(2) distinct_key_t_get [OF k(1) y(1)] by simp
    then show ?thesis using y(3) by simp
  qed
qed (rule g)

lemma fact_supersede:
  assumes "knowledge_current a" "distinct (map kr_id (fact_revisions a))" "t_get kr_id k (fact_revisions a) = Some r"
  shows "knowledge_current (a\<lparr>fact_revisions := approve_fact_revision now actor k (kr_fact r) (fact_revisions a)\<rparr>)"
proof -
  have "unique_on (\<lambda>r. kr_approved_at r \<noteq> None \<and> kr_superseded_at r = None) kr_fact
      (approve_fact_revision now actor k (kr_fact r) (fact_revisions a))"
    unfolding approve_fact_revision_def
    by (rule unique_supersede [OF _ assms(2,3)]) (use assms(1) in \<open>auto simp: knowledge_current_def fact_approved_def\<close>)
  then show ?thesis using assms(1) by (simp add: knowledge_current_def)
qed

lemma context_supersede:
  assumes "knowledge_current a" "distinct (map kc_id (context_revisions a))" "t_get kc_id k (context_revisions a) = Some r"
  shows "knowledge_current
    (a\<lparr>context_revisions := approve_context_revision now actor k (kc_workspace r) (context_revisions a)\<rparr>)"
proof -
  have "unique_on (\<lambda>r. kc_approved_at r \<noteq> None \<and> kc_superseded_at r = None) kc_workspace
      (approve_context_revision now actor k (kc_workspace r) (context_revisions a))"
    unfolding approve_context_revision_def
    by (rule unique_supersede [OF _ assms(2,3)]) (use assms(1) in \<open>auto simp: knowledge_current_def context_approved_def\<close>)
  then show ?thesis using assms(1) by (simp add: knowledge_current_def)
qed

end
