(* ===== verification/Scheduled.thy ===== *)
theory Scheduled
  imports Tasks
begin

text \<open>
  The scheduled contacts of \<open>automation/scheduled.py\<close>: a topic with a cadence, the plan of a contact for a topic, the
  attempt made at each due instant, and its draft. The draft's text is the model's answer over the context
  \<open>automation/context.py\<close> builds; both are behind the parameter of \<open>process_scheduled_contact_attempt\<close>.
\<close>

section \<open>Keys and dates\<close>

definition scheduled_message_id :: "env \<Rightarrow> str \<Rightarrow> str" where
  "scheduled_message_id env key = ''<scheduled-'' @ take 40 (sha256_hex env key) @ ''@contact-outreach.local>''"

definition scheduled_content_hash :: "env \<Rightarrow> str \<Rightarrow> str \<Rightarrow> str \<Rightarrow> str" where
  "scheduled_content_hash env subject body signature =
     sha256_hex env (json_dumps False
       (JObj [(''subject'', JStr subject), (''body'', JStr body), (''signature'', JStr signature)]))"

definition days :: "nat \<Rightarrow> int" where
  "days n = int n * day_length"

text \<open>\<open>isoformat()\<close> of an aware instant in UTC, with the civil date of a day count (years 1 to 9999).\<close>

definition civil_date :: "day \<Rightarrow> int \<times> int \<times> int" where
  "civil_date z =
     (let z = z + 719468; era = z div 146097; doe = z mod 146097;
          yoe = (doe - doe div 1460 + doe div 36524 - doe div 146096) div 365;
          doy = doe - (365 * yoe + yoe div 4 - yoe div 100);
          mp = (5 * doy + 2) div 153;
          m = (if mp < 10 then mp + 3 else mp - 9)
      in (yoe + era * 400 + (if m \<le> 2 then 1 else 0), m, doy - (153 * mp + 2) div 5 + 1))"

definition padded :: "nat \<Rightarrow> int \<Rightarrow> str" where
  "padded width n = (let s = digits_of (nat n) in replicate (width - length s) CHR ''0'' @ s)"

definition iso_utc :: "instant \<Rightarrow> str" where
  "iso_utc t =
     (let (y, m, d) = civil_date (t div day_length); r = t mod day_length;
          us = r mod second
      in padded 4 y @ ''-'' @ padded 2 m @ ''-'' @ padded 2 d @ ''T''
         @ padded 2 (r div (60 * minute)) @ '':'' @ padded 2 (r div minute mod 60) @ '':'' @ padded 2 (r div second mod 60)
         @ (if us = 0 then [] else ''.'' @ padded 6 us) @ ''+00:00'')"

definition follow_up_topic_goal :: "follow_up_topic \<Rightarrow> str" where
  "follow_up_topic_goal t =
     py_join [CHR 0x0A] (filter (\<lambda>s. s \<noteq> [])
       ([py_strip (ft_objective t)]
        @ (if py_strip (ft_instructions t) \<noteq> [] then [txt_instructions_prefix @ py_strip (ft_instructions t)] else [])))"

definition next_due_for_approval :: "env \<Rightarrow> communication_plan \<Rightarrow> follow_up_topic \<Rightarrow> instant" where
  "next_due_for_approval env p t =
     (let candidates =
            (case ft_next_due_at t of None \<Rightarrow> [] | Some x \<Rightarrow> [x])
            @ (case cp_last_interaction_at p of None \<Rightarrow> [] | Some x \<Rightarrow> [x + days (ft_cadence_days t)])
            @ (case cp_last_sent_at p of None \<Rightarrow> [] | Some x \<Rightarrow> [x + days (ft_cadence_days t)])
            @ (case cp_snoozed_until p of None \<Rightarrow> [] | Some x \<Rightarrow> [x])
      in if candidates \<noteq> [] then Max (set candidates) else clock env + days (ft_cadence_days t))"

section \<open>Rows\<close>

definition get_plan :: "id \<Rightarrow> db \<Rightarrow> exn + communication_plan" where
  "get_plan k d = of_option DoesNotExist (t_get cp_id k (plan_rows (automation d)))"

definition get_topic :: "id \<Rightarrow> db \<Rightarrow> exn + follow_up_topic" where
  "get_topic k d = of_option DoesNotExist (t_get ft_id k (topic_rows (automation d)))"

definition get_attempt :: "id \<Rightarrow> db \<Rightarrow> exn + scheduled_attempt" where
  "get_attempt k d = of_option DoesNotExist (t_get sa_id k (attempt_rows (automation d)))"

definition get_contact :: "id \<Rightarrow> db \<Rightarrow> exn + contact" where
  "get_contact k d = of_option DoesNotExist (t_get t_id k (contacts d))"

definition get_email :: "id \<Rightarrow> db \<Rightarrow> exn + email_address" where
  "get_email k d = of_option DoesNotExist (t_get ea_id k (emails d))"

definition save_plan :: "id \<Rightarrow> (communication_plan \<Rightarrow> communication_plan) \<Rightarrow> db \<Rightarrow> db" where
  "save_plan k f = with_automation (\<lambda>a. a\<lparr>plan_rows := t_save cp_id k f (plan_rows a)\<rparr>)"

definition save_attempt :: "id \<Rightarrow> (scheduled_attempt \<Rightarrow> scheduled_attempt) \<Rightarrow> db \<Rightarrow> db" where
  "save_attempt k f = with_automation (\<lambda>a. a\<lparr>attempt_rows := t_save sa_id k f (attempt_rows a)\<rparr>)"

section \<open>Whether a contact may be made\<close>

definition plan_restricted :: "contact \<Rightarrow> email_address \<Rightarrow> db \<Rightarrow> bool" where
  "plan_restricted c e d =
     list_ex (\<lambda>r. r_workspace r = t_workspace c \<and> r_revoked_at r = None
       \<and> (r_contact r = Some (t_id c) \<or> r_email_address r = Some (ea_id e))) (restrictions d)"

definition contact_suspended :: "contact \<Rightarrow> db \<Rightarrow> bool" where
  "contact_suspended c d =
     (t_automation_suspended c \<or> list_ex (\<lambda>v. cv_contact v = t_id c \<and> cv_automation_suspended v) (conversations d))"

definition contact_has_open_task :: "contact \<Rightarrow> db \<Rightarrow> bool" where
  "contact_has_open_task c d = list_ex (\<lambda>t. ht_contact t = t_id c \<and> task_open t) (task_rows (automation d))"

definition scheduled_contact_eligibility ::
    "env \<Rightarrow> communication_plan \<Rightarrow> contact \<Rightarrow> follow_up_topic \<Rightarrow> email_address \<Rightarrow> instant \<Rightarrow> bool \<Rightarrow> db \<Rightarrow> eligibility" where
  "scheduled_contact_eligibility env p c t e now for_send d =
     (if cp_state p \<noteq> PLAN_ACTIVE then not_eligible ''PLAN_INACTIVE'' txt_plan_inactive
      else if \<not> ft_active t then not_eligible ''TOPIC_INACTIVE'' txt_topic_inactive
      else if (case cp_snoozed_until p of None \<Rightarrow> False | Some u \<Rightarrow> now < u)
      then not_eligible ''PLAN_SNOOZED'' txt_plan_snoozed
      else if t_status c \<noteq> ACTIVE then not_eligible ''CONTACT_RESTRICTED'' txt_contact_restricted
      else if t_preferred_email c \<noteq> Some (ea_id e) then not_eligible ''PREFERRED_EMAIL_CHANGED'' txt_preferred_changed
      else if ea_organization e \<noteq> t_organization c \<or> ea_workspace e \<noteq> t_workspace c \<or> ea_validity e \<noteq> VALID
              \<or> ea_invalid_reason e \<noteq> []
      then not_eligible ''INVALID_EMAIL'' txt_email_not_valid
      else if plan_restricted c e d \<or> suppressed (ea_normalized e) d
      then not_eligible ''RESTRICTED'' txt_active_restriction
      else if contact_has_open_task c d then not_eligible ''OPEN_HUMAN_TASK'' txt_open_task
      else if contact_suspended c d then not_eligible ''AUTOMATION_SUSPENDED'' txt_automation_suspended
      else if \<not> for_send then eligible_result
      else if relationship_kill_switch env then not_eligible ''RELATIONSHIP_KILL_SWITCH'' txt_relationship_blocked
      else if \<not> live_sending_allowed env d then not_eligible ''GLOBAL_SEND_BLOCKED'' txt_global_blocked
      else
        (case find (\<lambda>g. g_workspace g = t_workspace c) (connections d) of
           None \<Rightarrow> not_eligible ''GMAIL_NOT_READY'' txt_gmail_not_ready
         | Some g \<Rightarrow>
             if connection_is_ready g \<and> set (g_scopes g) = set GMAIL_SCOPES then eligible_result
             else not_eligible ''GMAIL_NOT_READY'' txt_gmail_not_ready))"

section \<open>Withdrawing attempts\<close>

definition open_attempt_states :: "attempt_state set" where
  "open_attempt_states = {AT_DUE, AT_DRAFT_REVIEW, AT_AUTHORIZED, AT_HUMAN_REQUIRED, AT_INELIGIBLE}"

definition attempt_to_cancel :: "id \<Rightarrow> instant option \<Rightarrow> scheduled_attempt \<Rightarrow> bool" where
  "attempt_to_cancel p before a \<longleftrightarrow>
     sa_plan a = p \<and> sa_state a \<in> open_attempt_states
     \<and> (case before of None \<Rightarrow> True | Some b \<Rightarrow> sa_due_at a < b)"

definition withdrawable_states :: "message_state set" where
  "withdrawable_states = {PREPARED, REVIEW_READY, QUEUED}"

definition cancel_open_attempts :: "env \<Rightarrow> id \<Rightarrow> str \<Rightarrow> instant option \<Rightarrow> db \<Rightarrow> db" where
  "cancel_open_attempts env p reason before d =
     (let outbound_ids = List.map_filter sa_outbound (filter (attempt_to_cancel p before) (attempt_rows (automation d)));
          d1 = with_automation (\<lambda>a. a\<lparr>attempt_rows := t_update (attempt_to_cancel p before)
                 (\<lambda>r. r\<lparr>sa_state := AT_CANCELLED, sa_reason := take 300 reason\<rparr>) (attempt_rows a)\<rparr>) d
      in d1\<lparr>messages := t_update (\<lambda>m. m_id m \<in> set outbound_ids \<and> m_state m \<in> withdrawable_states)
             (\<lambda>m. m\<lparr>m_state := CANCELLED, m_error := take 500 reason, m_next_attempt_at := None,
                     m_updated_at := clock env\<rparr>) (messages d1)\<rparr>)"

section \<open>Topics\<close>

definition reschedule_plan :: "env \<Rightarrow> id \<Rightarrow> str \<Rightarrow> follow_up_topic \<Rightarrow> communication_plan \<Rightarrow> db \<Rightarrow> db" where
  "reschedule_plan env actor reason t p d =
     save_plan (cp_id p)
       (\<lambda>r. r\<lparr>cp_next_due_at := (if ft_active t then Some (next_due_for_approval env p t) else None),
               cp_updated_by := actor\<rparr>)
       (cancel_open_attempts env (cp_id p) reason None d)"

definition reschedule_topic_approvals :: "env \<Rightarrow> id \<Rightarrow> str \<Rightarrow> follow_up_topic \<Rightarrow> db \<Rightarrow> db" where
  "reschedule_topic_approvals env actor reason t d =
     fold (reschedule_plan env actor reason t)
       (filter (\<lambda>p. cp_topic p = ft_id t \<and> cp_state p = PLAN_ACTIVE) (plan_rows (automation d))) d"

text \<open>\<open>full_clean()\<close>: \<open>field_check\<close> is Django's validation of the fields and of the unique name.\<close>

definition topic_clean :: "(db \<Rightarrow> follow_up_topic \<Rightarrow> str option) \<Rightarrow> follow_up_topic \<Rightarrow> db \<Rightarrow> exn + unit" where
  "topic_clean field_check t d =
     (case field_check d t of
        Some e \<Rightarrow> Inl (ValidationError e)
      | None \<Rightarrow>
          if py_strip (ft_name t) = [] then Inl (ValidationError txt_topic_name)
          else if py_strip (ft_objective t) = [] then Inl (ValidationError txt_topic_objective)
          else Inr ())"

definition save_topic :: "follow_up_topic \<Rightarrow> db \<Rightarrow> db" where
  "save_topic t d =
     with_automation (\<lambda>a. a\<lparr>topic_rows :=
       (case t_get ft_id (ft_id t) (topic_rows a) of
          None \<Rightarrow> topic_rows a @ [t] | Some _ \<Rightarrow> t_save ft_id (ft_id t) (\<lambda>_. t) (topic_rows a))\<rparr>) d"

text \<open>What the form gives: the mode is \<open>None\<close> when its text is none of the choices.\<close>

record topic_form =
  tf_name :: str
  tf_objective :: str
  tf_instructions :: str
  tf_cadence_days :: nat
  tf_mode :: "topic_mode option"
  tf_next_due_at :: "instant option"
  tf_active :: bool

definition topic_of_form :: "id \<Rightarrow> id \<Rightarrow> id \<Rightarrow> topic_mode \<Rightarrow> topic_form \<Rightarrow> follow_up_topic" where
  "topic_of_form k ws actor mode f =
     \<lparr>ft_id = k, ft_workspace = ws, ft_name = py_strip (tf_name f), ft_objective = py_strip (tf_objective f),
      ft_instructions = py_strip (tf_instructions f), ft_cadence_days = tf_cadence_days f, ft_mode = mode,
      ft_next_due_at = tf_next_due_at f, ft_active = tf_active f, ft_created_by = actor, ft_updated_by = actor\<rparr>"

definition topic_schedule_changed :: "follow_up_topic \<Rightarrow> follow_up_topic \<Rightarrow> bool" where
  "topic_schedule_changed old new \<longleftrightarrow>
     ft_name old \<noteq> ft_name new \<or> ft_cadence_days old \<noteq> ft_cadence_days new \<or> ft_mode old \<noteq> ft_mode new
     \<or> ft_next_due_at old \<noteq> ft_next_due_at new \<or> ft_active old \<noteq> ft_active new
     \<or> ft_objective old \<noteq> ft_objective new \<or> ft_instructions old \<noteq> ft_instructions new"

definition save_follow_up_topic ::
    "(db \<Rightarrow> follow_up_topic \<Rightarrow> str option) \<Rightarrow> env \<Rightarrow> id \<Rightarrow> id option \<Rightarrow> topic_form \<Rightarrow> db \<Rightarrow> exn + follow_up_topic \<times> db" where
  "save_follow_up_topic field_check env actor topic_id f d =
     bindE (require_user_capability d actor MANAGE_AUTOMATION None) (\<lambda>u.
       if tf_cadence_days f < 7 then Inl (ValidationError txt_cadence_minimum)
       else
         case tf_mode f of
           None \<Rightarrow> Inl (ValidationError txt_choose_review)
         | Some mode \<Rightarrow>
             bindE (case topic_id of
                      None \<Rightarrow> Inr (topic_of_form (next_id d) (u_workspace u) actor mode f, False, d\<lparr>next_id := Suc (next_id d)\<rparr>)
                    | Some k \<Rightarrow>
                        bindE (get_topic k d) (\<lambda>old.
                          if ft_workspace old \<noteq> u_workspace u then Inl DoesNotExist
                          else
                            let new = (topic_of_form k (u_workspace u) actor mode f)\<lparr>ft_created_by := ft_created_by old\<rparr>
                            in Inr (new, topic_schedule_changed old new, d)))
               (\<lambda>(t, changed, d1).
                 bindE (topic_clean field_check t d1) (\<lambda>_.
                   let d2 = save_topic t d1;
                       d3 = (if changed then reschedule_topic_approvals env actor txt_topic_changed t d2 else d2)
                   in Inr (t, record_event ''scheduled_contact.topic_saved'' (ft_id t) (Some actor) d3))))"

section \<open>Plans\<close>

text \<open>The rows a plan points to.\<close>

definition plan_context :: "communication_plan \<Rightarrow> db \<Rightarrow> exn + contact \<times> follow_up_topic \<times> email_address" where
  "plan_context p d =
     bindE (get_contact (cp_contact p) d) (\<lambda>c.
     bindE (get_topic (cp_topic p) d) (\<lambda>t.
     bindE (get_email (cp_preferred_email p) d) (\<lambda>e. Inr (c, t, e))))"

definition plan_clean :: "contact \<Rightarrow> follow_up_topic \<Rightarrow> email_address \<Rightarrow> exn + unit" where
  "plan_clean c t e =
     (if ea_organization e \<noteq> t_organization c then Inl (ValidationError txt_plan_email_owner)
      else if ft_workspace t \<noteq> t_workspace c then Inl (ValidationError txt_plan_topic_space)
      else Inr ())"

definition find_plan :: "id \<Rightarrow> id \<Rightarrow> db \<Rightarrow> communication_plan option" where
  "find_plan contact topic d = find (\<lambda>p. cp_contact p = contact \<and> cp_topic p = topic) (plan_rows (automation d))"

definition new_plan :: "id \<Rightarrow> id \<Rightarrow> id \<Rightarrow> id \<Rightarrow> plan_state \<Rightarrow> id \<Rightarrow> communication_plan" where
  "new_plan k contact topic email state actor =
     \<lparr>cp_id = k, cp_contact = contact, cp_topic = topic, cp_preferred_email = email, cp_state = state,
      cp_snoozed_until = None, cp_next_due_at = None, cp_last_interaction_at = None, cp_last_sent_at = None,
      cp_created_by = actor, cp_updated_by = actor\<rparr>"

text \<open>The two branches after \<open>get_or_create\<close>; the row they leave is the second component.\<close>

definition write_approval ::
    "env \<Rightarrow> id \<Rightarrow> contact \<Rightarrow> follow_up_topic \<Rightarrow> email_address \<Rightarrow> bool \<Rightarrow> db \<Rightarrow> communication_plan \<times> db" where
  "write_approval env actor c t e enabled d =
     (let state = (if enabled then PLAN_ACTIVE else PLAN_DISABLED)
      in case find_plan (t_id c) (ft_id t) d of
           None \<Rightarrow>
             let (k, d1) = fresh d;
                 p0 = new_plan k (t_id c) (ft_id t) (ea_id e) state actor;
                 p = p0\<lparr>cp_next_due_at := (if enabled then Some (next_due_for_approval env p0 t) else None)\<rparr>
             in (p, with_automation (\<lambda>a. a\<lparr>plan_rows := plan_rows a @ [p]\<rparr>) d1)
         | Some old \<Rightarrow>
             let due_on = (if enabled then Some (next_due_for_approval env old t) else None);
                 changed = (cp_preferred_email old \<noteq> ea_id e \<or> cp_next_due_at old \<noteq> due_on \<or> cp_state old \<noteq> state
                            \<or> cp_snoozed_until old \<noteq> None);
                 p = old\<lparr>cp_preferred_email := ea_id e, cp_state := state, cp_next_due_at := due_on,
                         cp_snoozed_until := None, cp_updated_by := actor\<rparr>;
                 d1 = save_plan (cp_id old) (\<lambda>_. p) d
             in (p, if changed then cancel_open_attempts env (cp_id old) txt_schedule_moved None d1 else d1))"

definition approve_contact_follow_up_topic ::
    "env \<Rightarrow> id \<Rightarrow> id \<Rightarrow> id \<Rightarrow> bool \<Rightarrow> db \<Rightarrow> exn + communication_plan \<times> db" where
  "approve_contact_follow_up_topic env actor contact topic enabled d =
     bindE (require_user_capability d actor MANAGE_CONTACTS None) (\<lambda>u.
     bindE (get_contact contact d) (\<lambda>c.
       if t_workspace c \<noteq> u_workspace u then Inl PermissionDenied
       else
         bindE (get_topic topic d) (\<lambda>t.
           if ft_workspace t \<noteq> u_workspace u then Inl DoesNotExist
           else if \<not> ft_active t \<and> enabled then Inl (ValidationError txt_topic_off)
           else
             case t_preferred_email c of
               None \<Rightarrow> Inl (ValidationError txt_choose_preferred)
             | Some pe \<Rightarrow>
                 bindE (get_email pe d) (\<lambda>e.
                   if ea_validity e \<noteq> VALID \<or> ea_invalid_reason e \<noteq> []
                   then Inl (ValidationError txt_preferred_unvalidated)
                   else
                     bindE (plan_clean c t e) (\<lambda>_.
                       let (p, d1) = write_approval env actor c t e enabled d;
                           el = scheduled_contact_eligibility env p c t e (clock env) False d1
                       in if enabled \<and> \<not> el_eligible el then Inl (ValidationError (el_message el))
                          else Inr (p, record_event ''scheduled_contact.plan_saved'' (cp_id p) (Some actor) d1))))))"

definition LEGACY_PURPOSE_GOALS :: "(str \<times> str) list" where
  "LEGACY_PURPOSE_GOALS = [(''CHECK_IN'', txt_goal_check_in), (''PRODUCT_FEEDBACK'', txt_goal_feedback)]"

definition PURPOSE_LABELS :: "(str \<times> str) list" where
  "PURPOSE_LABELS = [(''CHECK_IN'', txt_label_check_in), (''PRODUCT_FEEDBACK'', txt_label_feedback),
                     (''ADMIN_GOAL'', txt_label_admin)]"

definition or_else :: "'b \<Rightarrow> 'b option \<Rightarrow> 'b" where
  "or_else b x = (case x of None \<Rightarrow> b | Some a \<Rightarrow> a)"

definition save_contact_communication_plan ::
    "(db \<Rightarrow> follow_up_topic \<Rightarrow> str option) \<Rightarrow> env \<Rightarrow> id \<Rightarrow> id \<Rightarrow> id \<Rightarrow> str \<Rightarrow> str \<Rightarrow> nat \<Rightarrow> topic_mode option \<Rightarrow> bool \<Rightarrow>
     instant option \<Rightarrow> db \<Rightarrow> exn + communication_plan \<times> db" where
  "save_contact_communication_plan field_check env actor contact email purpose goal cadence mode enabled due_on d =
     bindE (require_user_capability d actor MANAGE_CONTACTS None) (\<lambda>u.
     bindE (get_contact contact d) (\<lambda>c.
       if t_workspace c \<noteq> u_workspace u then Inl PermissionDenied
       else
         bindE (get_email email d) (\<lambda>e.
           if ea_workspace e \<noteq> u_workspace u \<or> ea_organization e \<noteq> t_organization c then Inl DoesNotExist
           else if t_preferred_email c \<noteq> Some (ea_id e) then Inl (ValidationError txt_choose_first)
           else if ea_validity e \<noteq> VALID \<or> ea_invalid_reason e \<noteq> [] then Inl (ValidationError txt_unvalidated_plan)
           else if cadence < 7 then Inl (ValidationError txt_frequency_minimum)
           else
             case mode of
               None \<Rightarrow> Inl (ValidationError txt_choose_review)
             | Some m \<Rightarrow>
                 if purpose = ''ADMIN_GOAL'' \<and> py_strip goal = [] then Inl (ValidationError txt_write_goal)
                 else
                   bindE (case find (\<lambda>p. cp_contact p = contact) (plan_rows (automation d)) of
                            Some p \<Rightarrow> bindE (get_topic (cp_topic p) d) (\<lambda>t. Inr (t, d))
                          | None \<Rightarrow>
                              Inr (\<lparr>ft_id = next_id d, ft_workspace = u_workspace u,
                                    ft_name = or_else ''Seguimiento'' (map_of PURPOSE_LABELS purpose) @ '' '' @ take 8 (str_of_pk contact),
                                    ft_objective = [], ft_instructions = [], ft_cadence_days = 30,
                                    ft_mode = REVIEW_BEFORE_SEND, ft_next_due_at = None, ft_active = True,
                                    ft_created_by = actor, ft_updated_by = actor\<rparr>, d\<lparr>next_id := Suc (next_id d)\<rparr>)) (\<lambda>(t0, d1).
                     let t = t0\<lparr>ft_objective := (if py_strip goal \<noteq> [] then py_strip goal
                                  else or_else txt_goal_default (map_of LEGACY_PURPOSE_GOALS purpose)),
                               ft_instructions := [], ft_cadence_days := cadence, ft_mode := m, ft_next_due_at := due_on,
                               ft_active := True, ft_updated_by := actor\<rparr>
                     in bindE (topic_clean field_check t d1) (\<lambda>_.
                          approve_contact_follow_up_topic env actor contact (ft_id t) enabled (save_topic t d1))))))"

text \<open>\<open>None\<close> stands for a text that is no state.\<close>

definition set_contact_communication_plan_state ::
    "env \<Rightarrow> id \<Rightarrow> id \<Rightarrow> plan_state option \<Rightarrow> db \<Rightarrow> exn + communication_plan \<times> db" where
  "set_contact_communication_plan_state env actor k state d =
     bindE (require_user_capability d actor MANAGE_CONTACTS None) (\<lambda>u.
       case state of
         None \<Rightarrow> Inl (ValidationError txt_invalid_action)
       | Some st \<Rightarrow>
           bindE (get_plan k d) (\<lambda>p.
           bindE (get_contact (cp_contact p) d) (\<lambda>c.
             if t_workspace c \<noteq> u_workspace u then Inl PermissionDenied
             else
               bindE (if st = PLAN_ACTIVE
                      then
                        (case t_preferred_email c of
                           None \<Rightarrow> Inl (ValidationError txt_choose_activate)
                         | Some pe \<Rightarrow>
                             bindE (get_email pe d) (\<lambda>e.
                             bindE (get_topic (cp_topic p) d) (\<lambda>t.
                               let p1 = p\<lparr>cp_state := PLAN_ACTIVE, cp_preferred_email := pe\<rparr>;
                                   p2 = (if cp_next_due_at p1 = None
                                         then p1\<lparr>cp_next_due_at := Some (next_due_for_approval env p1 t)\<rparr> else p1);
                                   el = scheduled_contact_eligibility env p2 c t e (clock env) False d
                               in if \<not> el_eligible el \<and> el_code el \<noteq> ''PLAN_SNOOZED''
                                  then Inl (ValidationError (el_message el))
                                  else Inr (if (case cp_snoozed_until p2 of None \<Rightarrow> False | Some x \<Rightarrow> x \<le> clock env)
                                            then p2\<lparr>cp_snoozed_until := None\<rparr> else p2, d))))
                      else
                        Inr (if st = PLAN_DISABLED then p\<lparr>cp_next_due_at := None\<rparr> else p,
                             cancel_open_attempts env k
                               (if st = PLAN_PAUSED then txt_paused_before else txt_disabled_before) None d)) (\<lambda>(p1, d1).
                 let p2 = p1\<lparr>cp_state := st, cp_updated_by := actor\<rparr>
                 in Inr (p2, record_event ''scheduled_contact.plan_state_changed'' k (Some actor)
                      (save_plan k (\<lambda>_. p2) d1))))))"

definition snooze_contact_communication_plan ::
    "env \<Rightarrow> id \<Rightarrow> id \<Rightarrow> instant \<Rightarrow> db \<Rightarrow> exn + db" where
  "snooze_contact_communication_plan env actor k until d =
     bindE (require_user_capability d actor MANAGE_CONTACTS None) (\<lambda>u.
     bindE (get_plan k d) (\<lambda>p.
     bindE (get_contact (cp_contact p) d) (\<lambda>c.
       if t_workspace c \<noteq> u_workspace u then Inl PermissionDenied
       else if until \<le> clock env then Inl (ValidationError txt_future_date)
       else Inr (record_event ''scheduled_contact.plan_snoozed'' k (Some actor)
              (save_plan k (\<lambda>r. r\<lparr>cp_snoozed_until := Some until, cp_next_due_at := Some until, cp_updated_by := actor\<rparr>)
                (cancel_open_attempts env k txt_snoozed_before None d))))))"

section \<open>An interaction\<close>

definition interaction_due :: "instant \<Rightarrow> follow_up_topic \<Rightarrow> communication_plan \<Rightarrow> instant" where
  "interaction_due at_time t p =
     Max (set ([at_time + days (ft_cadence_days t)]
               @ (case cp_next_due_at p of None \<Rightarrow> [] | Some x \<Rightarrow> [x])
               @ (case cp_snoozed_until p of None \<Rightarrow> [] | Some x \<Rightarrow> [x])))"

definition reschedule_after_interaction ::
    "env \<Rightarrow> instant \<Rightarrow> communication_plan \<Rightarrow> db \<Rightarrow> exn + db" where
  "reschedule_after_interaction env at_time p d =
     bindE (get_topic (cp_topic p) d) (\<lambda>t.
       let due_on = interaction_due at_time t p
       in Inr (record_event ''scheduled_contact.interaction_rescheduled'' (cp_id p) None
            (save_plan (cp_id p)
              (\<lambda>r. r\<lparr>cp_last_interaction_at :=
                        Some (case cp_last_interaction_at p of None \<Rightarrow> at_time | Some x \<Rightarrow> max x at_time),
                      cp_next_due_at := Some due_on\<rparr>)
              (cancel_open_attempts env (cp_id p) txt_recent_interaction (Some due_on) d))))"

definition plans_of_contact :: "id \<Rightarrow> db \<Rightarrow> communication_plan list" where
  "plans_of_contact k d = filter (\<lambda>p. cp_contact p = k) (plan_rows (automation d))"

definition record_genuine_contact_interaction :: "env \<Rightarrow> id \<Rightarrow> instant \<Rightarrow> db \<Rightarrow> exn + db" where
  "record_genuine_contact_interaction env contact at_time d =
     foldE (reschedule_after_interaction env at_time) (plans_of_contact contact d) d"

end
