(* ===== verification/Approval.thy ===== *)
theory Approval
  imports Control
begin

text \<open>
  From the end of a search to the first mail (the second half of \<open>campaigns/approval.py\<close>): preparing one initial
  message for each eligible participant, moving the campaign to approval, and the two ways of approving it. The
  hashes stored when the campaign was prepared are compared with the database once more when it is approved.
\<close>

section \<open>A new outbound row\<close>

text \<open>\<open>OutboundMessage.objects.create\<close>: the columns the caller gives are set by record updates.\<close>

definition blank_message :: "env \<Rightarrow> id \<Rightarrow> message_kind \<Rightarrow> str \<Rightarrow> message" where
  "blank_message env k kind key =
     \<lparr>m_id = k, m_kind = kind, m_campaign = None, m_organization = None, m_enrollment = None, m_contact = None,
      m_conversation = None, m_prospect = None, m_prospect_email = None, m_email_address = None,
      m_parent_inbound = None, m_sent_by = None, m_recipient = [], m_recipient_normalized = [], m_subject = [],
      m_body_text = [], m_signature = [], m_content_hash = [], m_content_revision = 1, m_last_edited_at = None,
      m_last_edited_by = None, m_catalog = None, m_catalog_version = None, m_state = PREPARED,
      m_delivery_mode = LIVE, m_approved_at = None, m_approved_by = None, m_idempotency_key = key,
      m_semantic_key = [], m_reminder_for = None, m_contact_sequence = None, m_message_id = [],
      m_in_reply_to = [], m_references = [], m_mime_sha256 = [], m_mime_size = None, m_gmail_message_id = [],
      m_gmail_thread_id = [], m_attempts = 0, m_next_attempt_at = None, m_scheduled_for = None,
      m_delivery_reserved_at = None, m_sending_started_at = None, m_last_attempt_at = None, m_sent_at = None,
      m_simulated_at = None, m_error = [], m_created_at = clock env, m_updated_at = clock env\<rparr>"

definition get_enrollment :: "id \<Rightarrow> db \<Rightarrow> exn + enrollment" where
  "get_enrollment k d = of_option DoesNotExist (t_get e_id k (enrollments d))"

definition save_enrollment :: "id \<Rightarrow> (enrollment \<Rightarrow> enrollment) \<Rightarrow> db \<Rightarrow> db" where
  "save_enrollment k f d = d\<lparr>enrollments := t_save e_id k f (enrollments d)\<rparr>"

section \<open>\<open>prepare_fixed_initial_messages\<close>\<close>

definition initial_key :: "id \<Rightarrow> id \<Rightarrow> str" where
  "initial_key camp enr = ''initial:'' @ str_of_pk camp @ '':'' @ str_of_pk enr"

definition legacy_prospect :: "email_address \<Rightarrow> db \<Rightarrow> id option" where
  "legacy_prospect s d =
     map_option pe_prospect (Option.bind (ea_legacy s) (\<lambda>k. t_get pe_id k (prospect_emails d)))"

definition initial_message ::
    "env \<Rightarrow> id \<Rightarrow> campaign \<Rightarrow> catalog \<Rightarrow> frozen_content \<Rightarrow> enrollment \<Rightarrow> email_address \<Rightarrow> db \<Rightarrow> message" where
  "initial_message env k c catalog frozen e s d =
     (blank_message env k INITIAL (initial_key (c_id c) (e_id e)))
       \<lparr>m_campaign := Some (c_id c), m_organization := Some (e_organization e), m_enrollment := Some (e_id e),
        m_prospect := legacy_prospect s d, m_prospect_email := ea_legacy s, m_email_address := Some (ea_id s),
        m_recipient := ea_original s, m_recipient_normalized := ea_normalized s,
        m_subject := f_subject frozen, m_body_text := f_rendered_body frozen,
        m_signature := f_signature frozen, m_content_hash := f_content_hash frozen,
        m_catalog := Some (k_id catalog), m_catalog_version := Some (k_version catalog),
        m_state := if c_approval_mode c = PER_MESSAGE then REVIEW_READY else PREPARED,
        m_delivery_mode := c_delivery_mode c\<rparr>"

definition find_message_key :: "str \<Rightarrow> db \<Rightarrow> message option" where
  "find_message_key key d = find (\<lambda>m. m_idempotency_key m = key) (messages d)"

definition get_or_create_initial ::
    "env \<Rightarrow> campaign \<Rightarrow> frozen_content \<Rightarrow> enrollment \<Rightarrow> email_address \<Rightarrow> db \<Rightarrow> exn + message \<times> db" where
  "get_or_create_initial env c frozen e s d =
     (case find_message_key (initial_key (c_id c) (e_id e)) d of
        Some m \<Rightarrow> Inr (m, d)
      | None \<Rightarrow>
          bindE (of_option DoesNotExist (t_get k_id (c_catalog c) (catalogs d))) (\<lambda>catalog.
            let (k, d1) = fresh d; m = initial_message env k c catalog frozen e s d
            in Inr (m, d1\<lparr>messages := messages d1 @ [m]\<rparr>)))"

text \<open>One turn of the loop over the participants; the state carries the prepared messages.\<close>

definition prepare_initial ::
    "env \<Rightarrow> campaign \<Rightarrow> frozen_content \<Rightarrow> id \<Rightarrow> id list \<times> db \<Rightarrow> exn + id list \<times> db" where
  "prepare_initial env c frozen enr = (\<lambda>(prepared, d).
     bindE (refresh_enrollment_eligibility enr d) (\<lambda>(res, d1).
     bindE (get_enrollment enr d1) (\<lambda>e.
       if \<not> el_eligible res \<or> e_selected_email e = None then Inr (prepared, d1)
       else
         bindE (of_option DoesNotExist (selected_email e d1)) (\<lambda>s.
         bindE (get_or_create_initial env c frozen e s d1) (\<lambda>(m, d2).
         bindE (snapshot_outbound_attachments env m d2) (\<lambda>d3.
           Inr (prepared @ [m_id m], save_enrollment enr (\<lambda>r. r\<lparr>e_state := E_PREPARED\<rparr>) d3)))))))"

definition participants :: "id \<Rightarrow> db \<Rightarrow> id list" where
  "participants camp d = map e_id (filter (\<lambda>e. e_campaign e = camp) (enrollments d))"

definition prepare_fixed_initial_messages ::
    "env \<Rightarrow> campaign \<Rightarrow> db \<Rightarrow> exn + (campaign \<times> id list) \<times> db" where
  "prepare_fixed_initial_messages env c d =
     bindE (verified_campaign_attachments env (c_id c) d) (\<lambda>_.
     bindE (freeze_message_content env (c_initial_subject c) (c_initial_body c) (c_signature c)) (\<lambda>frozen.
     bindE (foldE (prepare_initial env c frozen) (participants (c_id c) d) ([], d)) (\<lambda>(prepared, d1).
       Inr ((refresh_campaign_hashes env c d1, prepared), d1))))"

section \<open>Moving a campaign to approval\<close>

definition refresh_review_audience :: "env \<Rightarrow> id \<Rightarrow> db \<Rightarrow> exn + db" where
  "refresh_review_audience env camp d =
     bindE (get_campaign camp d) (\<lambda>c.
       if c_state c \<noteq> C_AWAITING_APPROVAL then Inr d
       else
         bindE (prepare_fixed_initial_messages env c d) (\<lambda>((c1, prepared), d1).
           save_campaign c1
             (\<lambda>r. r\<lparr>c_audience_hash := c_audience_hash c1, c_attachment_hash := c_attachment_hash c1,
                     c_schedule_hash := c_schedule_hash c1\<rparr>) d1))"

definition SUCCESSFUL_DISCOVERY :: "discovery_state set" where
  "SUCCESSFUL_DISCOVERY = {D_TARGET_REACHED, D_EXHAUSTED_QUERIES, D_EXHAUSTED_RAW_LIMIT, D_EXHAUSTED_COST}"

definition move_campaign_to_approval :: "env \<Rightarrow> id \<Rightarrow> db \<Rightarrow> exn + campaign \<times> db" where
  "move_campaign_to_approval env camp d =
     bindE (get_campaign camp d) (\<lambda>c.
       if c_state c \<noteq> C_DISCOVERING then Inl (ValidationError txt_not_finishing)
       else if c_discovery c \<notin> SUCCESSFUL_DISCOVERY then Inl (ValidationError txt_search_unfinished)
       else
         bindE (prepare_fixed_initial_messages env c d) (\<lambda>((c1, prepared), d1).
           if \<not> list_ex (\<lambda>m. m_campaign m = Some camp \<and> m_kind m = INITIAL) (messages d1)
           then Inl (NoRecipientsError txt_no_recipients)
           else
             let c2 = c1\<lparr>c_state := C_AWAITING_APPROVAL\<rparr>
             in bindE (save_campaign c2
                  (\<lambda>r. r\<lparr>c_state := C_AWAITING_APPROVAL, c_audience_hash := c_audience_hash c2,
                          c_content_hash := c_content_hash c2, c_attachment_hash := c_attachment_hash c2,
                          c_schedule_hash := c_schedule_hash c2\<rparr>) d1) (\<lambda>d2.
                  Inr (c2, record_event ''campaign.awaiting_approval'' camp None d2))))"

text \<open>The two \<open>with transaction.atomic()\<close> blocks that stop a search.\<close>

definition stop_discovering :: "env \<Rightarrow> id \<Rightarrow> str \<Rightarrow> db \<Rightarrow> exn + campaign \<times> db" where
  "stop_discovering env camp reason d =
     bindE (get_campaign camp d) (\<lambda>locked.
       if c_state locked \<noteq> C_DISCOVERING then Inr (locked, d)
       else
         let c1 = locked\<lparr>c_state := C_STOPPED_ERROR, c_status_reason := reason, c_finished_at := Some (clock env)\<rparr>
         in bindE (save_campaign c1
              (\<lambda>r. r\<lparr>c_state := C_STOPPED_ERROR, c_status_reason := reason, c_finished_at := Some (clock env)\<rparr>) d)
              (\<lambda>d1. Inr (c1, d1)))"

definition has_unanalyzed_prospects :: "id \<Rightarrow> db \<Rightarrow> bool" where
  "has_unanalyzed_prospects camp d =
     list_ex (\<lambda>p. p_campaign p = camp \<and> p_pipeline_state p \<in> {P_DISCOVERED, P_EMAIL_FOUND, P_ENRICHED}) (prospects d)"

text \<open>Several transactions: the error of one leaves the database of those before it.\<close>

definition settle :: "exn + campaign \<times> db \<Rightarrow> db \<Rightarrow> (exn + campaign option) \<times> db" where
  "settle r d = (case r of Inl e \<Rightarrow> (Inl e, d) | Inr (c, d') \<Rightarrow> (Inr (Some c), d'))"

definition maybe_move_campaign_to_approval :: "env \<Rightarrow> id \<Rightarrow> db \<Rightarrow> (exn + campaign option) \<times> db" where
  "maybe_move_campaign_to_approval env camp d =
     (case get_campaign camp d of
        Inl e \<Rightarrow> (Inl e, d)
      | Inr c \<Rightarrow>
          if c_state c \<noteq> C_DISCOVERING
          then (Inr (if c_state c = C_AWAITING_APPROVAL then Some c else None), d)
          else if c_discovery c = D_FAILED_PROVIDER
          then settle (stop_discovering env camp txt_search_stopped d) d
          else if c_discovery c \<notin> SUCCESSFUL_DISCOVERY then (Inr None, d)
          else if has_unanalyzed_prospects camp d then (Inr None, d)
          else case move_campaign_to_approval env camp d of
                 Inl (NoRecipientsError t) \<Rightarrow> settle (stop_discovering env camp txt_nobody_left d) d
               | r \<Rightarrow> settle r d)"

text \<open>\<open>finish_discovery\<close> with the callback it leaves for after its commit.\<close>

definition finish_discovery_committed ::
    "env \<Rightarrow> id \<Rightarrow> discovery_state \<Rightarrow> str \<Rightarrow> id option \<Rightarrow> db \<Rightarrow> (exn + campaign) \<times> db" where
  "finish_discovery_committed env camp target reason actor d =
     (case finish_discovery env camp target reason actor d of
        Inl e \<Rightarrow> (Inl e, d)
      | Inr (c, d1) \<Rightarrow>
          if c_state c \<noteq> C_DISCOVERING then (Inr c, d1)
          else case maybe_move_campaign_to_approval env camp d1 of
                 (Inl e, d2) \<Rightarrow> (Inl e, d2)
               | (Inr _, d2) \<Rightarrow> (Inr c, d2))"

section \<open>Approving\<close>

definition recheck_prepared_message :: "env \<Rightarrow> message \<Rightarrow> db \<Rightarrow> exn + str \<times> db" where
  "recheck_prepared_message env m d =
     (case m_enrollment m of
        None \<Rightarrow> Inr (txt_not_in_audience, d)
      | Some enr \<Rightarrow>
          bindE (get_enrollment enr d) (\<lambda>e.
            let res = enrollment_eligibility e d
            in if \<not> el_eligible res then Inr (el_message res, d)
               else if m_email_address m \<noteq> e_selected_email e then Inr (txt_email_changed, d)
               else
                 bindE (snapshot_outbound_attachments env m d) (\<lambda>d1.
                   case m_campaign m of
                     None \<Rightarrow> Inr (txt_lost_approving, d1)
                   | Some camp \<Rightarrow>
                       if message_attachment_rows (m_id m) d1 \<noteq> attachment_rows camp d1
                       then Inl (ValidationError txt_pdfs_differ)
                       else Inr ([], d1))))"

definition validate_campaign_approval_snapshot :: "env \<Rightarrow> campaign \<Rightarrow> db \<Rightarrow> exn + unit" where
  "validate_campaign_approval_snapshot env c d =
     (if c_audience_hash c \<noteq> canonical_hash env (audience_rows (c_id c) d)
      then Inl (ValidationError txt_audience_changed)
      else if c_attachment_hash c \<noteq> canonical_hash env (attachment_rows (c_id c) d)
      then Inl (ValidationError txt_attachments_changed)
      else if c_schedule_hash c \<noteq> canonical_hash env (schedule_payload c)
      then Inl (ValidationError txt_schedule_changed)
      else
        bindE (freeze_message_content env (c_initial_subject c) (c_initial_body c) (c_signature c)) (\<lambda>frozen.
          if c_content_hash c \<noteq> f_content_hash frozen then Inl (ValidationError txt_message_changed)
          else Inr ()))"

definition cancel_unapproved :: "env \<Rightarrow> message \<Rightarrow> str \<Rightarrow> db \<Rightarrow> db" where
  "cancel_unapproved env m err d =
     save_message env (m_id m) (\<lambda>r. r\<lparr>m_state := CANCELLED, m_error := err\<rparr>) d"

definition exclude_enrollment :: "message \<Rightarrow> enrollment_state \<Rightarrow> str \<Rightarrow> db \<Rightarrow> db" where
  "exclude_enrollment m state reason d =
     (case m_enrollment m of
        None \<Rightarrow> d
      | Some enr \<Rightarrow> save_enrollment enr (\<lambda>e. e\<lparr>e_state := state, e_exclusion_reason := reason\<rparr>) d)"

definition approve_prepared ::
    "env \<Rightarrow> id \<Rightarrow> message \<Rightarrow> nat \<times> db \<Rightarrow> exn + nat \<times> db" where
  "approve_prepared env actor m = (\<lambda>(n, d).
     bindE (recheck_prepared_message env m d) (\<lambda>(err, d1).
       if err \<noteq> []
       then Inr (n, exclude_enrollment m E_INELIGIBLE err (cancel_unapproved env m err d1))
       else Inr (n + 1, save_message env (m_id m)
              (\<lambda>r. r\<lparr>m_approved_at := Some (clock env), m_approved_by := Some actor, m_state := QUEUED,
                     m_next_attempt_at := Some (clock env)\<rparr>) d1)))"

text \<open>The prepared messages in the model's default order, newest first.\<close>

definition prepared_messages :: "id \<Rightarrow> db \<Rightarrow> message list" where
  "prepared_messages camp d =
     rev (filter (\<lambda>m. m_campaign m = Some camp \<and> m_kind m = INITIAL \<and> m_state m = PREPARED) (messages d))"

definition approved_campaign :: "env \<Rightarrow> id \<Rightarrow> campaign \<Rightarrow> campaign" where
  "approved_campaign env actor c =
     c\<lparr>c_approved_at := Some (clock env), c_approved_by := Some actor, c_state := C_RUNNING\<rparr>"

definition approve_campaign :: "env \<Rightarrow> id \<Rightarrow> id \<Rightarrow> db \<Rightarrow> exn + campaign \<times> db" where
  "approve_campaign env camp actor d =
     bindE (get_campaign camp d) (\<lambda>c.
     bindE (require_user_capability d actor APPROVE_CAMPAIGNS (Some (c_workspace c))) (\<lambda>_.
       if c_state c \<noteq> C_AWAITING_APPROVAL then Inl (ValidationError txt_not_approvable)
       else if c_approval_mode c \<noteq> BY_CAMPAIGN then Inl (ValidationError txt_per_message)
       else
         bindE (verified_campaign_attachments env camp d) (\<lambda>_.
         bindE (validate_campaign_approval_snapshot env c d) (\<lambda>_.
         bindE (foldE (approve_prepared env actor) (prepared_messages camp d) (0, d)) (\<lambda>(n, d1).
           if n = 0 then Inl (ValidationError txt_nobody_eligible)
           else
             let c1 = approved_campaign env actor (refresh_campaign_hashes env c d1)
             in bindE (save_campaign c1
                  (\<lambda>r. approved_campaign env actor
                     (r\<lparr>c_audience_hash := c_audience_hash c1, c_attachment_hash := c_attachment_hash c1,
                        c_schedule_hash := c_schedule_hash c1\<rparr>)) d1) (\<lambda>d2.
                  Inr (c1, record_event ''campaign.approved'' camp (Some actor) d2)))))))"

section \<open>Starting a campaign approved message by message\<close>

definition select_approved :: "env \<Rightarrow> message \<Rightarrow> message list \<times> db \<Rightarrow> exn + message list \<times> db" where
  "select_approved env m = (\<lambda>(selected, d).
     if m_approved_at m = None \<or> m_state m \<noteq> PREPARED
     then Inr (selected,
            exclude_enrollment m E_CANCELLED txt_not_approved_single
              (if m_state m = REVIEW_READY then cancel_unapproved env m txt_not_included d else d))
     else
       bindE (recheck_prepared_message env m d) (\<lambda>(err, d1).
         if err \<noteq> []
         then Inr (selected, exclude_enrollment m E_INELIGIBLE err (cancel_unapproved env m err d1))
         else Inr (selected @ [m], d1)))"

definition selected_content :: "message list \<Rightarrow> json" where
  "selected_content ms =
     JList (map (\<lambda>m. JObj [(''message_id'', JStr (str_of_pk (m_id m))), (''subject'', JStr (m_subject m)),
                            (''body'', JStr (m_body_text m)), (''revision'', JInt (int (m_content_revision m)))]) ms)"

definition queue_selected :: "env \<Rightarrow> message \<Rightarrow> db \<Rightarrow> db" where
  "queue_selected env m d =
     save_message env (m_id m) (\<lambda>r. r\<lparr>m_state := QUEUED, m_next_attempt_at := Some (clock env)\<rparr>) d"

definition initial_messages :: "id \<Rightarrow> db \<Rightarrow> message list" where
  "initial_messages camp d = filter (\<lambda>m. m_campaign m = Some camp \<and> m_kind m = INITIAL) (messages d)"

definition start_per_message_campaign :: "env \<Rightarrow> id \<Rightarrow> id \<Rightarrow> db \<Rightarrow> exn + campaign \<times> db" where
  "start_per_message_campaign env camp actor d =
     bindE (get_campaign camp d) (\<lambda>c.
     bindE (require_user_capability d actor APPROVE_CAMPAIGNS (Some (c_workspace c))) (\<lambda>_.
       if c_state c \<noteq> C_AWAITING_APPROVAL then Inl (ValidationError txt_not_startable)
       else if c_approval_mode c \<noteq> PER_MESSAGE then Inl (ValidationError txt_whole_campaign)
       else
         bindE (verified_campaign_attachments env camp d) (\<lambda>_.
         bindE (foldE (select_approved env) (initial_messages camp d) ([], d)) (\<lambda>(selected, d1).
           if selected = [] then Inl (ValidationError txt_approve_one)
           else
             let c1 = approved_campaign env actor ((refresh_campaign_hashes env c d1)
                        \<lparr>c_content_hash := canonical_hash env (selected_content selected)\<rparr>);
                 d2 = fold (queue_selected env) selected d1
             in bindE (save_campaign c1
                  (\<lambda>r. approved_campaign env actor
                     (r\<lparr>c_audience_hash := c_audience_hash c1, c_content_hash := c_content_hash c1,
                        c_attachment_hash := c_attachment_hash c1, c_schedule_hash := c_schedule_hash c1\<rparr>)) d2)
                  (\<lambda>d3. Inr (c1, record_event ''campaign.per_message_delivery_started'' camp (Some actor) d3))))))"

end
