(* ===== verification/Scheduled_Attempts.thy ===== *)
theory Scheduled_Attempts
  imports Scheduled Approval
begin

text \<open>
  The attempts of \<open>automation/scheduled.py\<close>: created when a plan is due, checked before and after the draft is
  written, reviewed or authorized automatically, and completed when their message has ended.
\<close>

section \<open>Creating what is due\<close>

text \<open>The candidates ordered by contact, instant and topic name, one for each contact.\<close>

definition plan_due :: "instant \<Rightarrow> db \<Rightarrow> communication_plan \<Rightarrow> bool" where
  "plan_due now d p \<longleftrightarrow>
     cp_state p = PLAN_ACTIVE
     \<and> (case t_get ft_id (cp_topic p) (topic_rows (automation d)) of None \<Rightarrow> False | Some t \<Rightarrow> ft_active t)
     \<and> (case cp_next_due_at p of None \<Rightarrow> False | Some x \<Rightarrow> x \<le> now)
     \<and> (case cp_snoozed_until p of None \<Rightarrow> True | Some x \<Rightarrow> x \<le> now)"

definition plan_order :: "db \<Rightarrow> communication_plan \<Rightarrow> int list \<times> str" where
  "plan_order d p =
     ([int (cp_contact p), case cp_next_due_at p of None \<Rightarrow> 0 | Some x \<Rightarrow> x],
      case t_get ft_id (cp_topic p) (topic_rows (automation d)) of None \<Rightarrow> [] | Some t \<Rightarrow> ft_name t)"

definition plan_before :: "db \<Rightarrow> communication_plan \<Rightarrow> communication_plan \<Rightarrow> bool" where
  "plan_before d p q \<longleftrightarrow>
     fst (plan_order d p) < fst (plan_order d q)
     \<or> fst (plan_order d p) = fst (plan_order d q) \<and> snd (plan_order d p) \<le> snd (plan_order d q)"

fun insert_plan :: "db \<Rightarrow> communication_plan \<Rightarrow> communication_plan list \<Rightarrow> communication_plan list" where
  "insert_plan d p [] = [p]"
| "insert_plan d p (q # qs) = (if plan_before d p q then p # q # qs else q # insert_plan d p qs)"

fun first_per_contact :: "id list \<Rightarrow> communication_plan list \<Rightarrow> id list" where
  "first_per_contact seen [] = []"
| "first_per_contact seen (p # ps) =
     (if cp_contact p \<in> set seen then first_per_contact seen ps
      else cp_id p # first_per_contact (cp_contact p # seen) ps)"

definition due_plan_ids :: "instant \<Rightarrow> db \<Rightarrow> id list" where
  "due_plan_ids now d =
     first_per_contact [] (foldr (insert_plan d) (filter (plan_due now d) (plan_rows (automation d))) [])"

definition attempt_key :: "env \<Rightarrow> id \<Rightarrow> instant \<Rightarrow> str" where
  "attempt_key env plan t = ''scheduled-contact:'' @ sha256_hex env (str_of_pk plan @ '':'' @ iso_utc t)"

definition new_attempt :: "env \<Rightarrow> id \<Rightarrow> id \<Rightarrow> instant \<Rightarrow> scheduled_attempt" where
  "new_attempt env k plan t =
     \<lparr>sa_id = k, sa_plan = plan, sa_due_at = t, sa_outbound = None, sa_state = AT_DUE,
      sa_idempotency_key = attempt_key env plan t, sa_reason = [], sa_provider = [], sa_model = [],
      sa_context_manifest = JObj [], sa_context_hash = [], sa_fact_revision_ids = [], sa_authorized_at = None, sa_sent_at = None\<rparr>"

definition find_attempt :: "id \<Rightarrow> instant \<Rightarrow> db \<Rightarrow> scheduled_attempt option" where
  "find_attempt plan t d = find (\<lambda>a. sa_plan a = plan \<and> sa_due_at a = t) (attempt_rows (automation d))"

text \<open>One transaction per plan; an error leaves what the previous ones created.\<close>

definition create_due_attempt :: "env \<Rightarrow> instant \<Rightarrow> id \<Rightarrow> id list \<times> db \<Rightarrow> exn + id list \<times> db" where
  "create_due_attempt env now k = (\<lambda>(ids, d).
     bindE (get_plan k d) (\<lambda>p.
       case cp_next_due_at p of
         None \<Rightarrow> Inr (ids, d)
       | Some t \<Rightarrow>
           if \<not> plan_due now d p then Inr (ids, d)
           else
             case find_attempt k t d of
               Some a \<Rightarrow> Inr (if sa_state a = AT_DUE then ids @ [sa_id a] else ids, d)
             | None \<Rightarrow>
                 let (i, d1) = fresh d
                 in if list_ex (\<lambda>a. sa_idempotency_key a = attempt_key env k t) (attempt_rows (automation d))
                    then Inl IntegrityError
                    else Inr (ids @ [i], with_automation (\<lambda>x. x\<lparr>attempt_rows := attempt_rows x @ [new_attempt env i k t]\<rparr>) d1)))"

fun create_due_attempts :: "env \<Rightarrow> instant \<Rightarrow> id list \<Rightarrow> id list \<times> db \<Rightarrow> (exn + id list) \<times> db" where
  "create_due_attempts env now [] s = (Inr (fst s), snd s)"
| "create_due_attempts env now (k # ks) s =
     (case create_due_attempt env now k s of Inl e \<Rightarrow> (Inl e, snd s) | Inr s' \<Rightarrow> create_due_attempts env now ks s')"

definition create_due_scheduled_attempts :: "env \<Rightarrow> instant \<Rightarrow> db \<Rightarrow> (exn + id list) \<times> db" where
  "create_due_scheduled_attempts env now d = create_due_attempts env now (due_plan_ids now d) ([], d)"

section \<open>Blocking an attempt\<close>

definition mark_attempt :: "id \<Rightarrow> attempt_state \<Rightarrow> str \<Rightarrow> db \<Rightarrow> db" where
  "mark_attempt k state reason d =
     record_event ''scheduled_contact.attempt_blocked'' k None
       (save_attempt k (\<lambda>a. a\<lparr>sa_state := state, sa_reason := take 300 reason\<rparr>) d)"

text \<open>\<open>order_by("-last_message_at").first()\<close>: PostgreSQL sorts the missing dates first.\<close>

definition latest_conversation :: "id \<Rightarrow> db \<Rightarrow> conversation option" where
  "latest_conversation contact d =
     (let cs = filter (\<lambda>c. cv_contact c = contact) (conversations d)
      in case find (\<lambda>c. cv_last_message_at c = None) cs of
           Some c \<Rightarrow> Some c
         | None \<Rightarrow>
             find (\<lambda>c. list_all (\<lambda>x. case (cv_last_message_at x, cv_last_message_at c) of
                                      (Some a, Some b) \<Rightarrow> a \<le> b | _ \<Rightarrow> True) cs) cs)"

definition open_scheduled_task :: "env \<Rightarrow> contact \<Rightarrow> str \<Rightarrow> str \<Rightarrow> db \<Rightarrow> exn + db" where
  "open_scheduled_task env c reason summary d =
     bindE (open_human_task env (t_workspace c) (t_id c) (map_option cv_id (latest_conversation (t_id c) d))
              ''SCHEDULED_CONTACT'' reason summary None None d) (\<lambda>(_, d1). Inr d1)"

text \<open>\<open>_open_scheduled_task\<close> answers True, so the attempt is left to a person.\<close>

definition block_for_person :: "env \<Rightarrow> id \<Rightarrow> contact \<Rightarrow> str \<Rightarrow> str \<Rightarrow> db \<Rightarrow> exn + db" where
  "block_for_person env k c reason summary d =
     bindE (open_scheduled_task env c reason summary d) (\<lambda>d1. Inr (mark_attempt k AT_HUMAN_REQUIRED summary d1))"

definition automatic_mode_error :: "env \<Rightarrow> contact \<Rightarrow> db \<Rightarrow> str" where
  "automatic_mode_error env c d =
     (if auto_reply_kill_switch env then txt_automation_blocked
      else case reply_configuration_of (t_workspace c) d of
             None \<Rightarrow> txt_automation_not_live
           | Some cfg \<Rightarrow> if am_mode cfg = MODE_LIVE then [] else txt_automation_not_live)"

section \<open>The daily limit of automatic messages\<close>

definition BUSINESS_TIMEZONE :: str where
  "BUSINESS_TIMEZONE = ''America/Argentina/Buenos_Aires''"

definition slots_used :: "id \<Rightarrow> day \<Rightarrow> db \<Rightarrow> nat" where
  "slots_used ws date d =
     sum_list (map ar_slots (filter (\<lambda>r. ar_workspace r = ws \<and> ar_local_date r = date) (action_reservations (automation d))))"

definition reserve_scheduled_automatic_capacity :: "env \<Rightarrow> id \<Rightarrow> contact \<Rightarrow> instant \<Rightarrow> db \<Rightarrow> bool \<times> db" where
  "reserve_scheduled_automatic_capacity env attempt c now d =
     (if list_ex (\<lambda>r. ar_attempt r = Some attempt) (action_reservations (automation d)) then (True, d)
      else
        let date = date_of (to_wall env BUSINESS_TIMEZONE now)
        in if auto_workspace_limit env \<le> slots_used (t_workspace c) date d then (False, d)
           else
             let (k, d1) = fresh d;
                 r = \<lparr>ar_id = k, ar_workspace = t_workspace c, ar_conversation = None, ar_decision = None,
                      ar_attempt = Some attempt, ar_reserved_at = now, ar_local_date = date, ar_slots = 1\<rparr>
             in (True, with_automation (\<lambda>a. a\<lparr>action_reservations := action_reservations a @ [r]\<rparr>) d1))"

section \<open>Preparing the message of an attempt\<close>

definition unfinished :: "scheduled_attempt \<Rightarrow> bool" where
  "unfinished a \<longleftrightarrow> sa_state a = AT_DUE"

text \<open>What is checked before the draft is asked for; \<open>Some\<close> database when the attempt has ended there.\<close>

definition before_draft :: "env \<Rightarrow> scheduled_attempt \<Rightarrow> db \<Rightarrow> exn + db option" where
  "before_draft env a d =
     bindE (get_plan (sa_plan a) d) (\<lambda>p.
     bindE (plan_context p d) (\<lambda>(c, t, e).
       if cp_next_due_at p \<noteq> Some (sa_due_at a)
       then Inr (Some (mark_attempt (sa_id a) AT_CANCELLED txt_date_changed d))
       else
         let el = scheduled_contact_eligibility env p c t e (clock env) False d
         in if \<not> el_eligible el then Inr (Some (mark_attempt (sa_id a) AT_INELIGIBLE (el_message el) d))
            else if ft_mode t = AUTOMATIC
            then
              let el2 = scheduled_contact_eligibility env p c t e (clock env) True d;
                  err = automatic_mode_error env c d
              in if \<not> el_eligible el2 then Inr (Some (mark_attempt (sa_id a) AT_INELIGIBLE (el_message el2) d))
                 else if err \<noteq> []
                 then bindE (block_for_person env (sa_id a) c ''AUTOMATIC_MODE_NOT_AVAILABLE'' err d) (Inr \<circ> Some)
                 else Inr None
            else Inr None))"

text \<open>\<open>ScheduledContactDraftResult\<close>, with the hash of the context it was asked with.\<close>

record draft_result =
  dr_status :: str
  dr_subject :: "str option"
  dr_body :: "str option"
  dr_fact_revision_ids :: "str list"
  dr_human_reason :: "str option"
  dr_context_manifest :: json
  dr_context_hash :: str

definition draft_fields :: "str \<times> str \<Rightarrow> draft_result \<Rightarrow> scheduled_attempt \<Rightarrow> scheduled_attempt" where
  "draft_fields names w a =
     a\<lparr>sa_provider := fst names, sa_model := snd names, sa_context_manifest := dr_context_manifest w,
       sa_context_hash := dr_context_hash w,
       sa_fact_revision_ids := dr_fact_revision_ids w\<rparr>"

definition scheduled_message ::
    "env \<Rightarrow> id \<Rightarrow> scheduled_attempt \<Rightarrow> contact \<Rightarrow> email_address \<Rightarrow> topic_mode \<Rightarrow> str \<Rightarrow> str \<Rightarrow> str \<Rightarrow> message" where
  "scheduled_message env k a c e mode subject body signature =
     (let key = sa_idempotency_key a @ '':outbound''
      in (blank_message env k SCHEDULED_CONTACT key)
           \<lparr>m_organization := Some (t_organization c), m_contact := Some (t_id c), m_email_address := Some (ea_id e),
            m_recipient := ea_original e, m_recipient_normalized := ea_normalized e, m_subject := subject,
            m_body_text := body, m_signature := signature,
            m_content_hash := scheduled_content_hash env subject body signature,
            m_state := (if mode = REVIEW_BEFORE_SEND then REVIEW_READY else QUEUED), m_delivery_mode := LIVE,
            m_semantic_key := key, m_message_id := scheduled_message_id env key,
            m_scheduled_for := Some (sa_due_at a),
            m_next_attempt_at := (if mode = REVIEW_BEFORE_SEND then None else Some (clock env))\<rparr>)"

definition message_key_taken :: "message \<Rightarrow> db \<Rightarrow> bool" where
  "message_key_taken m d =
     list_ex (\<lambda>x. m_idempotency_key x = m_idempotency_key m
        \<or> m_message_id m \<noteq> [] \<and> m_message_id x = m_message_id m
        \<or> m_semantic_key m \<noteq> [] \<and> m_semantic_key x = m_semantic_key m) (messages d)"

text \<open>A duplicate is caught inside the transaction, and the query that looks for it fails.\<close>

definition create_scheduled_message ::
    "env \<Rightarrow> scheduled_attempt \<Rightarrow> contact \<Rightarrow> email_address \<Rightarrow> topic_mode \<Rightarrow> str \<Rightarrow> str \<Rightarrow> db \<Rightarrow> exn + message \<times> db" where
  "create_scheduled_message env a c e mode subject body d =
     (let signature = (case find (\<lambda>b. bp_workspace b = t_workspace c) (profiles (config d)) of
            None \<Rightarrow> [] | Some b \<Rightarrow> py_strip (bp_signature b));
          m = scheduled_message env (next_id d) a c e mode subject body signature
      in if message_key_taken m d then Inl TransactionManagementError
         else Inr (m, d\<lparr>next_id := Suc (next_id d), messages := messages d @ [m]\<rparr>))"

definition attach_message :: "env \<Rightarrow> id \<Rightarrow> str \<times> str \<Rightarrow> draft_result \<Rightarrow> message \<Rightarrow> db \<Rightarrow> db" where
  "attach_message env k names w m d =
     (let review = (m_state m = REVIEW_READY)
      in record_event (if review then ''scheduled_contact.draft_created'' else ''scheduled_contact.automatic_authorized'')
           k None
           (save_attempt k (\<lambda>a. (draft_fields names w a)
              \<lparr>sa_outbound := Some (m_id m), sa_state := (if review then AT_DRAFT_REVIEW else AT_AUTHORIZED),
               sa_authorized_at := (if review then sa_authorized_at a else Some (clock env)), sa_reason := []\<rparr>) d))"

text \<open>The block that writes the draft; everything is checked once more.\<close>

definition after_draft :: "env \<Rightarrow> id \<Rightarrow> str \<times> str \<Rightarrow> draft_result \<Rightarrow> db \<Rightarrow> exn + db" where
  "after_draft env k names w d =
     bindE (get_attempt k d) (\<lambda>a.
       if sa_outbound a \<noteq> None then Inr d
       else
         bindE (get_plan (sa_plan a) d) (\<lambda>p.
         bindE (plan_context p d) (\<lambda>(c, t, e).
           let el = scheduled_contact_eligibility env p c t e (clock env) False d;
               el2 = scheduled_contact_eligibility env p c t e (clock env) True d;
               subject = py_strip (case dr_subject w of None \<Rightarrow> [] | Some s \<Rightarrow> s);
               body = py_strip (case dr_body w of None \<Rightarrow> [] | Some s \<Rightarrow> s)
           in if cp_next_due_at p \<noteq> Some (sa_due_at a)
              then Inr (mark_attempt k AT_CANCELLED txt_date_changed_while d)
              else if \<not> el_eligible el then Inr (mark_attempt k AT_INELIGIBLE (el_message el) d)
              else if dr_status w = ''HUMAN''
              then
                bindE (open_scheduled_task env c
                         (case dr_human_reason w of None \<Rightarrow> ''INSUFFICIENT_CONTEXT''
                          | Some r \<Rightarrow> if r = [] then ''INSUFFICIENT_CONTEXT'' else r) txt_goal_needs_person d) (\<lambda>d1.
                  Inr (save_attempt k (\<lambda>x. (draft_fields names w x)
                         \<lparr>sa_state := AT_HUMAN_REQUIRED, sa_reason := txt_goal_needs_person\<rparr>) d1))
              else if ft_mode t = AUTOMATIC \<and> \<not> el_eligible el2
              then Inr (mark_attempt k AT_INELIGIBLE (el_message el2) d)
              else
                let (granted, d1) = (if ft_mode t = AUTOMATIC
                      then reserve_scheduled_automatic_capacity env k c (clock env) d else (True, d))
                in if \<not> granted then block_for_person env k c ''AUTOMATIC_DAILY_LIMIT'' txt_daily_limit d1
                   else if subject = [] \<or> body = [] then Inr (mark_attempt k AT_INELIGIBLE txt_incomplete_draft d1)
                   else
                     bindE (create_scheduled_message env a c e (ft_mode t) subject body d1) (\<lambda>(m, d2).
                       Inr (attach_message env k names w m d2)))))"

definition fail_draft :: "env \<Rightarrow> id \<Rightarrow> db \<Rightarrow> exn + db" where
  "fail_draft env k d =
     bindE (get_attempt k d) (\<lambda>a.
     bindE (get_plan (sa_plan a) d) (\<lambda>p.
     bindE (get_contact (cp_contact p) d) (\<lambda>c.
       block_for_person env k c ''SCHEDULED_CONTEXT_OR_PROVIDER_FAILURE'' txt_unsafe_draft d)))"

text \<open>
  The whole step: the checks, the draft (asked for outside any transaction; \<open>None\<close> where the model or its context
  fails, and with the database other workers may have changed meanwhile), and the block that writes it.
\<close>

definition process_scheduled_contact_attempt ::
    "(str \<times> str \<Rightarrow> scheduled_attempt \<Rightarrow> db \<Rightarrow> draft_result option) \<Rightarrow> (db \<Rightarrow> db) \<Rightarrow> env \<Rightarrow> id option \<Rightarrow> id \<Rightarrow> db \<Rightarrow>
     (exn + unit) \<times> db" where
  "process_scheduled_contact_attempt draft meanwhile env owner k d =
     (case get_attempt k d of
        Inl e \<Rightarrow> (Inl e, d)
      | Inr a \<Rightarrow>
          if \<not> unfinished a then (Inr (), d)
          else
            (case before_draft env a d of
               Inl e \<Rightarrow> (Inl e, d)
             | Inr (Some d1) \<Rightarrow> (Inr (), d1)
             | Inr None \<Rightarrow>
                 let l = (case owner of None \<Rightarrow> llm_settings env | Some u \<Rightarrow> runtime_llm_choice env u d);
                     names = (ll_provider l, ll_model l);
                     d1 = meanwhile d
                 in (case (case draft names a d of
                            None \<Rightarrow> fail_draft env k d1 | Some w \<Rightarrow> after_draft env k names w d1) of
                       Inl e \<Rightarrow> (Inl e, d1)
                     | Inr d2 \<Rightarrow> (Inr (), d2))))"

section \<open>Reviewing a draft\<close>

definition reviewable :: "scheduled_attempt \<Rightarrow> db \<Rightarrow> message option" where
  "reviewable a d =
     (case Option.bind (sa_outbound a) (\<lambda>k. t_get m_id k (messages d)) of
        None \<Rightarrow> None
      | Some m \<Rightarrow> if sa_state a = AT_DRAFT_REVIEW \<and> m_state m = REVIEW_READY then Some m else None)"

definition attempt_for_actor :: "id \<Rightarrow> id \<Rightarrow> db \<Rightarrow> exn + scheduled_attempt \<times> communication_plan \<times> contact" where
  "attempt_for_actor actor k d =
     bindE (require_user_capability d actor MANAGE_CONTACTS None) (\<lambda>u.
     bindE (get_attempt k d) (\<lambda>a.
     bindE (get_plan (sa_plan a) d) (\<lambda>p.
     bindE (get_contact (cp_contact p) d) (\<lambda>c.
       if t_workspace c \<noteq> u_workspace u then Inl PermissionDenied else Inr (a, p, c)))))"

definition edit_scheduled_contact_draft :: "env \<Rightarrow> id \<Rightarrow> id \<Rightarrow> str \<Rightarrow> str \<Rightarrow> db \<Rightarrow> exn + db" where
  "edit_scheduled_contact_draft env actor k subject body d =
     bindE (attempt_for_actor actor k d) (\<lambda>(a, p, c).
       case reviewable a d of
         None \<Rightarrow> Inl (ValidationError txt_draft_locked)
       | Some m \<Rightarrow>
           let s = py_strip subject; b = py_strip body
           in if s = [] \<or> b = [] then Inl (ValidationError txt_complete_draft)
              else if 255 < length s \<or> 10000 < length b then Inl (ValidationError txt_draft_too_long)
              else Inr (record_event ''scheduled_contact.draft_edited'' k (Some actor)
                     (save_message env (m_id m)
                       (\<lambda>r. r\<lparr>m_subject := s, m_body_text := b, m_content_revision := m_content_revision m + 1,
                               m_last_edited_at := Some (clock env), m_last_edited_by := Some actor,
                               m_content_hash := scheduled_content_hash env s b (m_signature m)\<rparr>) d)))"

definition authorize_scheduled_contact_attempt :: "env \<Rightarrow> id \<Rightarrow> id \<Rightarrow> db \<Rightarrow> exn + db" where
  "authorize_scheduled_contact_attempt env actor k d =
     bindE (attempt_for_actor actor k d) (\<lambda>(a, p, c).
       case reviewable a d of
         None \<Rightarrow> Inl (ValidationError txt_draft_gone)
       | Some m \<Rightarrow>
           bindE (plan_context p d) (\<lambda>(_, t, e).
             let el = scheduled_contact_eligibility env p c t e (clock env) True d
             in if \<not> el_eligible el then Inl (ValidationError (el_message el))
                else Inr (record_event ''scheduled_contact.draft_authorized'' k (Some actor)
                       (save_attempt k (\<lambda>r. r\<lparr>sa_state := AT_AUTHORIZED, sa_authorized_at := Some (clock env), sa_reason := []\<rparr>)
                         (save_message env (m_id m)
                           (\<lambda>r. r\<lparr>m_state := QUEUED, m_approved_at := Some (clock env), m_approved_by := Some actor,
                                   m_sent_by := Some actor, m_next_attempt_at := Some (clock env), m_error := []\<rparr>) d)))))"

section \<open>Completing an attempt\<close>

definition find_conversation :: "id \<Rightarrow> str \<Rightarrow> db \<Rightarrow> conversation option" where
  "find_conversation connection thread d =
     find (\<lambda>c. cv_connection c = connection \<and> cv_gmail_thread_id c = thread) (conversations d)"

definition get_or_create_conversation ::
    "id \<Rightarrow> str \<Rightarrow> id \<Rightarrow> id \<Rightarrow> str \<Rightarrow> instant \<Rightarrow> db \<Rightarrow> conversation \<times> db" where
  "get_or_create_conversation connection thread ws contact subject at_time d =
     (case find_conversation connection thread d of
        Some c \<Rightarrow> (c, d)
      | None \<Rightarrow>
          let (k, d1) = fresh d;
              c = \<lparr>cv_id = k, cv_workspace = ws, cv_contact = contact, cv_connection = connection,
                   cv_gmail_thread_id = thread, cv_subject = subject, cv_automation_suspended = False,
                   cv_last_message_at = Some at_time\<rparr>
          in (c, d1\<lparr>conversations := conversations d1 @ [c]\<rparr>))"

definition touch_conversation :: "conversation \<Rightarrow> instant \<Rightarrow> db \<Rightarrow> db" where
  "touch_conversation c at_time d =
     (if (case cv_last_message_at c of None \<Rightarrow> True | Some x \<Rightarrow> x < at_time)
      then d\<lparr>conversations := t_save cv_id (cv_id c) (\<lambda>x. x\<lparr>cv_last_message_at := Some at_time\<rparr>) (conversations d)\<rparr>
      else d)"

definition link_sent_conversation :: "env \<Rightarrow> contact \<Rightarrow> message \<Rightarrow> instant \<Rightarrow> db \<Rightarrow> db" where
  "link_sent_conversation env c m sent d =
     (case find (\<lambda>g. g_workspace g = t_workspace c) (connections d) of
        None \<Rightarrow> d
      | Some g \<Rightarrow>
          if m_gmail_thread_id m = [] then d
          else
            let (v, d1) = get_or_create_conversation (g_id g) (m_gmail_thread_id m) (t_workspace c) (t_id c)
                  (m_subject m) sent d
            in if cv_contact v \<noteq> t_id c then d1
               else
                 let d2 = touch_conversation v sent d1
                 in if m_conversation m = Some (cv_id v) then d2
                    else save_message env (m_id m) (\<lambda>r. r\<lparr>m_conversation := Some (cv_id v)\<rparr>) d2)"

definition sent_plan :: "instant \<Rightarrow> follow_up_topic \<Rightarrow> communication_plan \<Rightarrow> communication_plan" where
  "sent_plan sent t p =
     p\<lparr>cp_last_sent_at := Some sent,
       cp_next_due_at := Some (max (sent + days (ft_cadence_days t)) (case ft_next_due_at t of None \<Rightarrow> sent | Some x \<Rightarrow> x)),
       cp_snoozed_until := None\<rparr>"

definition complete_scheduled_contact_attempt :: "env \<Rightarrow> id \<Rightarrow> db \<Rightarrow> exn + db" where
  "complete_scheduled_contact_attempt env message_id d =
     (case find (\<lambda>a. sa_outbound a = Some message_id) (sort_key sa_due_at (attempt_rows (automation d))) of
        None \<Rightarrow> Inr d
      | Some a \<Rightarrow>
          bindE (get_message message_id d) (\<lambda>m.
          bindE (get_plan (sa_plan a) d) (\<lambda>p.
          bindE (get_contact (cp_contact p) d) (\<lambda>c.
          bindE (get_topic (cp_topic p) d) (\<lambda>t.
            if m_state m = SENT
            then
              let sent = (case m_sent_at m of None \<Rightarrow> clock env | Some x \<Rightarrow> x);
                  d1 = link_sent_conversation env c m sent d;
                  d2 = save_attempt (sa_id a) (\<lambda>r. r\<lparr>sa_state := AT_SENT, sa_sent_at := Some sent, sa_reason := []\<rparr>) d1
              in Inr (record_event ''scheduled_contact.sent'' (sa_id a) (m_sent_by m)
                   (save_plan (cp_id p) (sent_plan sent t) d2))
            else if m_state m \<in> {SEND_FAILED, INELIGIBLE, CANCELLED}
            then
              bindE (open_scheduled_task env c ''SCHEDULED_DELIVERY_FAILED'' txt_scheduled_failed_check d) (\<lambda>d1.
                Inr (save_attempt (sa_id a)
                  (\<lambda>r. r\<lparr>sa_state := AT_HUMAN_REQUIRED,
                          sa_reason := take 300 (if m_error m \<noteq> [] then m_error m else txt_scheduled_failed)\<rparr>) d1))
            else Inr d)))))"

definition scheduled_outbound_ids_for_completion :: "db \<Rightarrow> id list" where
  "scheduled_outbound_ids_for_completion d =
     List.map_filter (\<lambda>a.
       if sa_state a \<noteq> AT_AUTHORIZED then None
       else (case Option.bind (sa_outbound a) (\<lambda>k. t_get m_id k (messages d)) of
               None \<Rightarrow> None
             | Some m \<Rightarrow> if m_state m \<in> {SENT, SEND_FAILED, INELIGIBLE, CANCELLED} then Some (m_id m) else None))
       (sort_key sa_due_at (attempt_rows (automation d)))"

end
