(* ===== verification/Inbound.thy ===== *)
theory Inbound
  imports Scheduled_Attempts
begin

text \<open>
  What a received mail does to the directory (\<open>contacts/services.py\<close> from \<open>_contact_for_organization\<close> to
  \<open>apply_inbound_contact_effect\<close>). A mail is a reply to a campaign, a reply to a scheduled contact, or a new thread
  of a known contact; its classification decides whether its organization becomes a contact, whether the address is
  restricted, and which pending work is withdrawn. \<open>email.utils.parseaddr\<close> is the parameter \<open>addr\<close>, which gives the
  address of a header. The rows a restriction is saved from always pass its \<open>full_clean\<close>: the address or the
  contact has just been read, in the restriction's own workspace, and no active restriction of the same kind exists.
\<close>

section \<open>The contact of an organization\<close>

definition contact_of :: "id \<Rightarrow> db \<Rightarrow> contact option" where
  "contact_of org d = find (\<lambda>t. t_organization t = org) (contacts d)"

definition new_contact ::
    "id \<Rightarrow> organization \<Rightarrow> id option \<Rightarrow> created_reason \<Rightarrow> inbound option \<Rightarrow> id option \<Rightarrow> str \<Rightarrow> contact" where
  "new_contact k og preferred reason i actor name =
     \<lparr>t_id = k, t_workspace = o_workspace og, t_organization = o_id og, t_preferred_email = preferred,
      t_name = take 200 (py_strip name), t_status = ACTIVE, t_created_reason = reason,
      t_source_inbound = map_option in_id i, t_created_by = actor, t_automation_suspended = False,
      t_last_interaction_at = map_option in_external_at i\<rparr>"

definition refreshed_contact ::
    "id option \<Rightarrow> created_reason \<Rightarrow> inbound option \<Rightarrow> str \<Rightarrow> contact \<Rightarrow> contact" where
  "refreshed_contact preferred reason i name t =
     t\<lparr>t_preferred_email := if t_preferred_email t = None then preferred else t_preferred_email t,
       t_name := if py_strip name \<noteq> [] \<and> t_name t = [] then take 200 (py_strip name) else t_name t,
       t_last_interaction_at :=
         (case i of
            None \<Rightarrow> t_last_interaction_at t
          | Some m \<Rightarrow>
              if (case t_last_interaction_at t of None \<Rightarrow> True | Some x \<Rightarrow> x < in_external_at m)
              then Some (in_external_at m) else t_last_interaction_at t),
       t_status := if reason = BY_UNSUBSCRIBE then UNSUBSCRIBED else t_status t\<rparr>"

definition get_or_create_contact ::
    "organization \<Rightarrow> id option \<Rightarrow> created_reason \<Rightarrow> inbound option \<Rightarrow> id option \<Rightarrow> str \<Rightarrow> db \<Rightarrow> (contact \<times> bool) \<times> db" where
  "get_or_create_contact og preferred reason i actor name d =
     (case contact_of (o_id og) d of
        Some t \<Rightarrow> ((t, False), d)
      | None \<Rightarrow>
          let (k, d1) = fresh d; t = new_contact k og preferred reason i actor name
          in ((t, True), d1\<lparr>contacts := contacts d1 @ [t]\<rparr>))"

definition get_organization :: "id \<Rightarrow> db \<Rightarrow> exn + organization" where
  "get_organization k d = of_option DoesNotExist (t_get o_id k (organizations d))"

definition contact_for_organization ::
    "id \<Rightarrow> id option \<Rightarrow> created_reason \<Rightarrow> inbound option \<Rightarrow> id option \<Rightarrow> str \<Rightarrow> db \<Rightarrow> exn + (contact \<times> bool) \<times> db" where
  "contact_for_organization org preferred reason i actor name d =
     bindE (get_organization org d) (\<lambda>og.
       let ((t, created), d1) = get_or_create_contact og preferred reason i actor name d;
           f = refreshed_contact preferred reason i name
       in Inr ((f t, created), d1\<lparr>contacts := t_save t_id (t_id t) f (contacts d1)\<rparr>))"

section \<open>Its conversation\<close>

definition conversation_for_inbound :: "inbound \<Rightarrow> contact \<Rightarrow> db \<Rightarrow> id option \<times> db" where
  "conversation_for_inbound i t d =
     (if in_gmail_thread_id i = [] then (None, d)
      else if (case find_conversation (in_connection i) (in_gmail_thread_id i) d of
                 None \<Rightarrow> False | Some c \<Rightarrow> cv_contact c \<noteq> t_id t)
      then (None, record_event ''contact.conversation_conflict'' (in_id i) None d)
      else
        let (c, d1) = get_or_create_conversation (in_connection i) (in_gmail_thread_id i) (t_workspace t) (t_id t)
              (in_subject i) (in_external_at i) d
        in (Some (cv_id c), touch_conversation c (in_external_at i) d1))"

section \<open>Restrictions\<close>

definition inbound_evidence :: "inbound \<Rightarrow> str" where
  "inbound_evidence i = ''InboundMessage:'' @ str_of_pk (in_id i)"

definition email_restriction :: "id \<Rightarrow> inbound \<Rightarrow> email_address \<Rightarrow> restriction_kind \<Rightarrow> restriction" where
  "email_restriction k i e kind =
     \<lparr>r_id = k, r_workspace = ea_workspace e, r_scope = SCOPE_EMAIL, r_kind = kind, r_contact = None,
      r_email_address = Some (ea_id e), r_source = ''gmail_reply'', r_evidence = inbound_evidence i,
      r_source_inbound = Some (in_id i), r_created_by = None, r_revoked_at = None, r_revoked_by = None,
      r_revocation_reason = []\<rparr>"

definition has_email_restriction :: "email_address \<Rightarrow> restriction_kind \<Rightarrow> db \<Rightarrow> bool" where
  "has_email_restriction e kind d =
     list_ex (\<lambda>r. r_workspace r = ea_workspace e \<and> r_scope r = SCOPE_EMAIL \<and> r_kind r = kind
       \<and> r_email_address r = Some (ea_id e) \<and> r_revoked_at r = None) (restrictions d)"

definition restrict_email :: "inbound \<Rightarrow> email_address \<Rightarrow> restriction_kind \<Rightarrow> db \<Rightarrow> db" where
  "restrict_email i e kind d =
     (if has_email_restriction e kind d then d
      else let (k, d1) = fresh d in d1\<lparr>restrictions := restrictions d1 @ [email_restriction k i e kind]\<rparr>)"

definition restriction_for_inbound ::
    "env \<Rightarrow> inbound \<Rightarrow> email_address \<Rightarrow> restriction_kind \<Rightarrow> db \<Rightarrow> exn + db" where
  "restriction_for_inbound env i e kind d =
     map_sum id snd (suppress_email env (ea_original e)
       (suppression_value (if kind = R_UNSUBSCRIBE then S_UNSUBSCRIBE else S_BOUNCE)) None
       (if kind = R_UNSUBSCRIBE then ''gmail_reply'' else ''gmail_bounce'') (inbound_evidence i)
       (restrict_email i e kind d))"

text \<open>The address a bounce came back from.\<close>

definition invalidate_bounced :: "inbound \<Rightarrow> email_address \<Rightarrow> db \<Rightarrow> db" where
  "invalidate_bounced i e d =
     d\<lparr>emails := t_save ea_id (ea_id e)
         (\<lambda>x. x\<lparr>ea_validity := INVALID, ea_invalid_reason := txt_bounce_reason,
                 ea_invalidated_at := Some (in_external_at i)\<rparr>) (emails d)\<rparr>"

definition bounce_of :: "env \<Rightarrow> inbound \<Rightarrow> email_address option \<Rightarrow> db \<Rightarrow> exn + db" where
  "bounce_of env i selected d =
     (case selected of
        None \<Rightarrow> Inr d
      | Some e \<Rightarrow> restriction_for_inbound env i e R_BOUNCE (invalidate_bounced i e d))"

definition opt_out_of :: "env \<Rightarrow> inbound \<Rightarrow> email_address option \<Rightarrow> db \<Rightarrow> exn + db" where
  "opt_out_of env i selected d =
     (case selected of
        Some e \<Rightarrow> if in_classification i = UNSUBSCRIBE_REPLY then restriction_for_inbound env i e R_UNSUBSCRIBE d
                  else Inr d
      | None \<Rightarrow> Inr d)"

section \<open>The address it was written from\<close>

definition claims_of_organization :: "id \<Rightarrow> db \<Rightarrow> identity_claim list" where
  "claims_of_organization org d =
     map (\<lambda>x. \<lparr>cl_kind = i_kind x, cl_value = i_value x, cl_value_hash = i_value_hash x,
                cl_provider = i_provider x, cl_provenance = i_provenance x\<rparr>)
       (filter (\<lambda>x. i_organization x = org) (identities d))"

definition sender_args :: "inbound \<Rightarrow> organization \<Rightarrow> str \<Rightarrow> bool \<Rightarrow> db \<Rightarrow> resolve_args" where
  "sender_args i og literal prefer d =
     resolve_defaults\<lparr>ra_identities := claims_of_organization (o_id og) d, ra_email := literal, ra_name := o_name og,
       ra_source := FROM_INBOUND, ra_provenance := [(''source_inbound_message_id'', str_of_pk (in_id i))],
       ra_validity := VALID, ra_label := txt_reply_label, ra_email_provenance := ''INBOUND_MESSAGE'',
       ra_validated_at := Some (in_external_at i), ra_prefer := prefer\<rparr>"

definition resolve_sender ::
    "env \<Rightarrow> (str \<Rightarrow> str) \<Rightarrow> inbound \<Rightarrow> organization \<Rightarrow> bool \<Rightarrow> db \<Rightarrow> exn + id option \<times> db" where
  "resolve_sender env addr i og prefer d =
     (if addr (in_sender i) = [] then Inr (None, d)
      else case resolve_organization env (o_workspace og) (sender_args i og (addr (in_sender i)) prefer d) d of
             Inl x \<Rightarrow> if is_validation_error x
                      then Inr (None, record_event ''contact.sender_email_conflict'' (in_id i) None d) else Inl x
           | Inr ((org, e), d1) \<Rightarrow> Inr (if org = o_id og then e else None, d1))"

section \<open>The effect of a mail\<close>

record inbound_effect =
  fx_contact :: "id option"
  fx_conversation :: "id option"
  fx_created :: bool
  fx_cancelled :: nat

definition update_inbound :: "id \<Rightarrow> (inbound \<Rightarrow> inbound) \<Rightarrow> db \<Rightarrow> db" where
  "update_inbound k f d = d\<lparr>inbounds := t_save in_id k f (inbounds d)\<rparr>"

definition reply_reason :: "inbound \<Rightarrow> created_reason" where
  "reply_reason i = (if in_classification i = UNSUBSCRIBE_REPLY then BY_UNSUBSCRIBE else HUMAN_REPLY)"

text \<open>\<open>_apply_established_contact_inbound\<close>: a reply to a message without a campaign.\<close>

definition link_established :: "inbound \<Rightarrow> message \<Rightarrow> contact \<Rightarrow> id option \<Rightarrow> db \<Rightarrow> db" where
  "link_established i m t v d =
     (let d1 = update_inbound (in_id i) (\<lambda>r. r\<lparr>in_organization := Some (t_organization t),
                 in_contact := Some (t_id t), in_conversation := v\<rparr>) d
      in if v \<noteq> None \<and> m_conversation m \<noteq> v
         then d1\<lparr>messages := t_save m_id (m_id m) (\<lambda>r. r\<lparr>m_conversation := v\<rparr>) (messages d1)\<rparr> else d1)"

definition established_selected :: "message \<Rightarrow> contact \<Rightarrow> db \<Rightarrow> email_address option" where
  "established_selected m t d =
     Option.bind (if m_email_address m \<noteq> None then m_email_address m else t_preferred_email t)
       (\<lambda>k. t_get ea_id k (emails d))"

definition established_reply ::
    "env \<Rightarrow> (str \<Rightarrow> str) \<Rightarrow> inbound \<Rightarrow> organization \<Rightarrow> email_address option \<Rightarrow> id option \<Rightarrow> db \<Rightarrow> exn + inbound_effect \<times> db" where
  "established_reply env addr i og selected v d =
     bindE (resolve_sender env addr i og (selected = None) d) (\<lambda>(sender, d1).
     bindE (contact_for_organization (o_id og) (if sender \<noteq> None then sender else map_option ea_id selected)
              (reply_reason i) (Some i) None [] d1) (\<lambda>((t, created), d2).
     bindE (opt_out_of env i selected d2) (\<lambda>d3.
     bindE (record_genuine_contact_interaction env (t_id t) (in_external_at i)
              (snd (cancel_pending_campaign_work env (o_id og) txt_interacted None (Some (in_external_at i)) d3)))
       (\<lambda>d4. Inr (\<lparr>fx_contact = Some (t_id t), fx_conversation = v, fx_created = False, fx_cancelled = 0\<rparr>,
                 record_event ''contact.interaction_recorded'' (t_id t) None d4)))))"

definition apply_established_contact_inbound ::
    "env \<Rightarrow> (str \<Rightarrow> str) \<Rightarrow> inbound \<Rightarrow> message \<Rightarrow> db \<Rightarrow> exn + inbound_effect \<times> db" where
  "apply_established_contact_inbound env addr i m d =
     (case (m_contact m, m_organization m) of
        (Some ck, Some org) \<Rightarrow>
          bindE (get_contact ck d) (\<lambda>t.
            if t_organization t \<noteq> org then Inl DoesNotExist
            else
              bindE (get_organization org d) (\<lambda>og.
                let selected = established_selected m t d;
                    (v, d1) = conversation_for_inbound i t d;
                    d2 = link_established i m t v d1;
                    fx = \<lparr>fx_contact = Some ck, fx_conversation = v, fx_created = False, fx_cancelled = 0\<rparr>
                in if in_classification i = AUTO_REPLY then Inr (fx, d2)
                   else if in_classification i = BOUNCE_NOTICE
                   then bindE (bounce_of env i selected d2) (\<lambda>d3. Inr (fx, d3))
                   else established_reply env addr i og selected v d2))
      | _ \<Rightarrow> Inl (ValidationError txt_no_contact_link))"

text \<open>\<open>_apply_direct_contact_inbound\<close>: a new thread of a known contact.\<close>

definition direct_address :: "str \<Rightarrow> id \<Rightarrow> db \<Rightarrow> email_address option" where
  "direct_address normalized ws d =
     find (\<lambda>e. ea_workspace e = ws \<and> ea_normalized e = normalized \<and> ea_validity e = VALID \<and> ea_invalid_reason e = []
       \<and> contact_of (ea_organization e) d \<noteq> None) (emails d)"

definition direct_reply :: "env \<Rightarrow> inbound \<Rightarrow> email_address \<Rightarrow> id option \<Rightarrow> db \<Rightarrow> exn + inbound_effect \<times> db" where
  "direct_reply env i e v d =
     bindE (contact_for_organization (ea_organization e) (Some (ea_id e)) (reply_reason i) (Some i) None [] d)
       (\<lambda>((t, created), d1).
     bindE (opt_out_of env i (Some e) d1) (\<lambda>d2.
     bindE (record_genuine_contact_interaction env (t_id t) (in_external_at i)
              (record_event ''contact.direct_inbound_imported'' (t_id t) None d2)) (\<lambda>d3.
       Inr (\<lparr>fx_contact = Some (t_id t), fx_conversation = v, fx_created = False, fx_cancelled = 0\<rparr>, d3))))"

definition apply_direct_contact_inbound ::
    "env \<Rightarrow> (str \<Rightarrow> str) \<Rightarrow> inbound \<Rightarrow> db \<Rightarrow> exn + inbound_effect \<times> db" where
  "apply_direct_contact_inbound env addr i d =
     (if addr (in_sender i) = [] then Inl (ValidationError txt_no_sender)
      else
        bindE (normalize_email env (addr (in_sender i))) (\<lambda>normalized.
        bindE (of_option DoesNotExist (t_get g_id (in_connection i) (connections d))) (\<lambda>g.
        bindE (of_option DoesNotExist (direct_address normalized (g_workspace g) d)) (\<lambda>e.
        bindE (of_option DoesNotExist (contact_of (ea_organization e) d)) (\<lambda>t.
          let (v, d1) = conversation_for_inbound i t d;
              d2 = update_inbound (in_id i) (\<lambda>r. r\<lparr>in_organization := Some (ea_organization e),
                     in_contact := Some (t_id t), in_conversation := v\<rparr>) d1;
              fx = \<lparr>fx_contact = Some (t_id t), fx_conversation = v, fx_created = False, fx_cancelled = 0\<rparr>
          in if in_classification i = AUTO_REPLY then Inr (fx, d2)
             else if in_classification i = BOUNCE_NOTICE
             then bindE (bounce_of env i (Some e) d2) (\<lambda>d3. Inr (fx, d3))
             else direct_reply env i e v d2)))))"

text \<open>\<open>apply_inbound_contact_effect\<close>: a reply to a campaign, and the choice between the three.\<close>

definition campaign_selected :: "enrollment \<Rightarrow> message \<Rightarrow> db \<Rightarrow> email_address option" where
  "campaign_selected e m d =
     (case selected_email e d of
        Some s \<Rightarrow> Some s
      | None \<Rightarrow> find (\<lambda>x. ea_organization x = e_organization e \<and> ea_normalized x = m_recipient_normalized m) (emails d))"

definition preferred_of_organization :: "id \<Rightarrow> db \<Rightarrow> id option" where
  "preferred_of_organization org d =
     map_option ea_id (find (\<lambda>e. ea_organization e = org \<and> ea_preferred e) (emails d))"

definition link_promoted :: "inbound \<Rightarrow> id \<Rightarrow> contact \<Rightarrow> id option \<Rightarrow> db \<Rightarrow> db" where
  "link_promoted i org t v d =
     (let d1 = update_inbound (in_id i) (\<lambda>r. r\<lparr>in_contact := Some (t_id t), in_conversation := v\<rparr>) d
      in d1\<lparr>messages := t_update (\<lambda>m. m_organization m = Some org \<and> m_gmail_thread_id m = in_gmail_thread_id i)
           (\<lambda>m. m\<lparr>m_contact := Some (t_id t), m_conversation := if v = None then m_conversation m else v\<rparr>)
           (messages d1)\<rparr>)"

definition finish_campaign_reply ::
    "env \<Rightarrow> inbound \<Rightarrow> id \<Rightarrow> id \<Rightarrow> contact \<Rightarrow> bool \<Rightarrow> db \<Rightarrow> exn + inbound_effect \<times> db" where
  "finish_campaign_reply env i org enr t created d =
     (let (v, d1) = conversation_for_inbound i t d;
          (cancelled, d2) = cancel_pending_campaign_work env org txt_replied (Some enr)
            (Some (in_external_at i)) (link_promoted i org t v d1);
          d3 = record_event (if created then ''contact.promoted'' else ''contact.interaction_recorded'') (t_id t) None d2
      in bindE (record_genuine_contact_interaction env (t_id t) (in_external_at i) d3) (\<lambda>d4.
           Inr (\<lparr>fx_contact = Some (t_id t), fx_conversation = v, fx_created = created, fx_cancelled = cancelled\<rparr>, d4)))"

definition campaign_reply ::
    "env \<Rightarrow> (str \<Rightarrow> str) \<Rightarrow> inbound \<Rightarrow> organization \<Rightarrow> id \<Rightarrow> email_address option \<Rightarrow> db \<Rightarrow> exn + inbound_effect \<times> db" where
  "campaign_reply env addr i og enr selected d =
     bindE (resolve_sender env addr i og (selected = None) d) (\<lambda>(sender, d1).
       let preferred = (if sender \<noteq> None then sender
                        else if selected \<noteq> None then map_option ea_id selected
                        else preferred_of_organization (o_id og) d1)
       in bindE (contact_for_organization (o_id og) preferred (reply_reason i) (Some i) None [] d1)
            (\<lambda>((t, created), d2).
          bindE (opt_out_of env i selected d2) (finish_campaign_reply env i (o_id og) enr t created)))"

definition no_effect :: "nat \<Rightarrow> inbound_effect" where
  "no_effect n = \<lparr>fx_contact = None, fx_conversation = None, fx_created = False, fx_cancelled = n\<rparr>"

definition apply_campaign_inbound ::
    "env \<Rightarrow> (str \<Rightarrow> str) \<Rightarrow> inbound \<Rightarrow> message \<Rightarrow> db \<Rightarrow> exn + inbound_effect \<times> db" where
  "apply_campaign_inbound env addr i m d =
     bindE (ensure_outbound_contact_links env (m_id m) d) (\<lambda>(e0, d0).
     bindE (get_enrollment (e_id e0) d0) (\<lambda>e.
     bindE (get_organization (e_organization e) d0) (\<lambda>og.
       let d1 = update_inbound (in_id i)
                  (\<lambda>r. r\<lparr>in_organization := Some (o_id og), in_enrollment := Some (e_id e)\<rparr>) d0;
           selected = campaign_selected e m d1
       in if in_classification i = AUTO_REPLY then Inr (no_effect 0, d1)
          else if in_classification i = BOUNCE_NOTICE
          then bindE (bounce_of env i selected d1) (\<lambda>d2.
                 let (n, d3) = cancel_pending_campaign_reminders env (o_id og) txt_bounced d2
                 in Inr (no_effect n, d3))
          else campaign_reply env addr i og (e_id e) selected d1)))"

definition apply_inbound_contact_effect ::
    "env \<Rightarrow> (str \<Rightarrow> str) \<Rightarrow> id \<Rightarrow> db \<Rightarrow> exn + inbound_effect \<times> db" where
  "apply_inbound_contact_effect env addr k d =
     bindE (of_option DoesNotExist (t_get in_id k (inbounds d))) (\<lambda>i.
       case in_related_outbound i of
         None \<Rightarrow> apply_direct_contact_inbound env addr i d
       | Some mk \<Rightarrow>
           bindE (get_message mk d) (\<lambda>m.
             if m_campaign m = None then apply_established_contact_inbound env addr i m d
             else apply_campaign_inbound env addr i m d))"

end
