(* ===== verification/Scheduled_Proofs.thy ===== *)
theory Scheduled_Proofs
  imports Scheduled_Attempts
begin

text \<open>
  What the scheduled contacts promise: an interaction postpones every contact of the person by the cadence of its topic,
  a message is only written for an eligible plan and to its validated address, and the automatic messages of a day stay
  within the limit.
\<close>

section \<open>Frames\<close>

lemma cancel_open_attempts_frame [simp]:
  "plan_rows (automation (cancel_open_attempts env k reason before d)) = plan_rows (automation d)"
  "topic_rows (automation (cancel_open_attempts env k reason before d)) = topic_rows (automation d)"
  "task_rows (automation (cancel_open_attempts env k reason before d)) = task_rows (automation d)"
  "campaigns (cancel_open_attempts env k reason before d) = campaigns d"
  "reservations (cancel_open_attempts env k reason before d) = reservations d"
  "ledgers (cancel_open_attempts env k reason before d) = ledgers d"
  "next_id (cancel_open_attempts env k reason before d) = next_id d"
  "contacts (cancel_open_attempts env k reason before d) = contacts d"
  by (simp_all add: cancel_open_attempts_def Let_def)

lemma cancel_open_attempts_rows:
  "attempt_rows (automation (cancel_open_attempts env k reason before d)) =
     t_update (attempt_to_cancel k before) (\<lambda>r. r\<lparr>sa_state := AT_CANCELLED, sa_reason := take 300 reason\<rparr>)
       (attempt_rows (automation d))"
  "messages (cancel_open_attempts env k reason before d) =
     t_update (\<lambda>m. m_id m \<in> set (List.map_filter sa_outbound (filter (attempt_to_cancel k before) (attempt_rows (automation d))))
                 \<and> m_state m \<in> withdrawable_states)
       (\<lambda>m. m\<lparr>m_state := CANCELLED, m_error := take 500 reason, m_next_attempt_at := None, m_updated_at := clock env\<rparr>)
       (messages d)"
  by (simp_all add: cancel_open_attempts_def Let_def)

lemma save_plan_frame [simp]:
  "plan_rows (automation (save_plan k f d)) = t_save cp_id k f (plan_rows (automation d))"
  "topic_rows (automation (save_plan k f d)) = topic_rows (automation d)"
  "attempt_rows (automation (save_plan k f d)) = attempt_rows (automation d)"
  "messages (save_plan k f d) = messages d"
  by (simp_all add: save_plan_def)

lemma logged_frame [simp]:
  "messages (record_event a e u d) = messages d" "automation (record_event a e u d) = automation d"
  "campaigns (record_event a e u d) = campaigns d" "contacts (record_event a e u d) = contacts d"
  by (simp_all add: record_event_def)

section \<open>An interaction postpones the contacts\<close>

definition withdrawn :: "id \<Rightarrow> instant \<Rightarrow> db \<Rightarrow> db \<Rightarrow> bool" where
  "withdrawn k x d d' \<longleftrightarrow>
     (\<forall>a \<in> set (attempt_rows (automation d')). \<not> (sa_plan a = k \<and> sa_state a \<in> open_attempt_states \<and> sa_due_at a < x))
     \<and> (\<forall>a \<in> set (attempt_rows (automation d)). \<forall>m \<in> set (messages d').
          \<not> (attempt_to_cancel k (Some x) a \<and> sa_outbound a = Some (m_id m) \<and> m_state m \<in> withdrawable_states))"

definition postponed :: "instant \<Rightarrow> id \<Rightarrow> db \<Rightarrow> db \<Rightarrow> bool" where
  "postponed at_time k d d' \<longleftrightarrow>
     (\<exists>p t x. t_get cp_id k (plan_rows (automation d')) = Some p \<and> t_get ft_id (cp_topic p) (topic_rows (automation d')) = Some t
        \<and> cp_next_due_at p = Some x \<and> at_time + days (ft_cadence_days t) \<le> x \<and> withdrawn k x d d')"

lemma interaction_due_ge: "at_time + days (ft_cadence_days t) \<le> interaction_due at_time t p"
  unfolding interaction_due_def by (rule Max_ge) (simp_all del: set_append)

lemma interaction_step:
  assumes "reschedule_after_interaction env at_time p d = Inr d'"
  obtains t where "t_get ft_id (cp_topic p) (topic_rows (automation d)) = Some t"
    "topic_rows (automation d') = topic_rows (automation d)"
    "plan_rows (automation d') = t_save cp_id (cp_id p)
       (\<lambda>r. r\<lparr>cp_last_interaction_at :=
                        Some (case cp_last_interaction_at p of None \<Rightarrow> at_time | Some x \<Rightarrow> max x at_time),
                      cp_next_due_at := Some (interaction_due at_time t p)\<rparr>) (plan_rows (automation d))"
    "attempt_rows (automation d') =
       attempt_rows (automation (cancel_open_attempts env (cp_id p) txt_recent_interaction (Some (interaction_due at_time t p)) d))"
    "messages d' = messages (cancel_open_attempts env (cp_id p) txt_recent_interaction (Some (interaction_due at_time t p)) d)"
  using assms by (auto simp: reschedule_after_interaction_def get_topic_def res_simps Let_def)

lemma cancel_withdraws: "withdrawn k x d (cancel_open_attempts env k reason (Some x) d)"
  unfolding withdrawn_def
proof (intro conjI ballI)
  fix a
  assume "a \<in> set (attempt_rows (automation (cancel_open_attempts env k reason (Some x) d)))"
  then show "\<not> (sa_plan a = k \<and> sa_state a \<in> open_attempt_states \<and> sa_due_at a < x)"
    unfolding cancel_open_attempts_rows(1)
    by (cases rule: t_updateE) (auto simp: attempt_to_cancel_def open_attempt_states_def)
next
  fix a m
  assume a: "a \<in> set (attempt_rows (automation d))" and m: "m \<in> set (messages (cancel_open_attempts env k reason (Some x) d))"
  show "\<not> (attempt_to_cancel k (Some x) a \<and> sa_outbound a = Some (m_id m) \<and> m_state m \<in> withdrawable_states)"
    using m unfolding cancel_open_attempts_rows(2)
  proof (cases rule: t_updateE)
    case kept
    then show ?thesis using a by (force simp: List.map_filter_def)
  next
    case (changed y)
    then show ?thesis by (simp add: withdrawable_states_def)
  qed
qed

text \<open>A withdrawal of another plan's attempts keeps this one.\<close>

lemma withdrawn_later:
  assumes "withdrawn k x d d1"
    and "\<And>a. a \<in> set (attempt_rows (automation d2)) \<Longrightarrow> sa_state a \<in> open_attempt_states \<Longrightarrow> a \<in> set (attempt_rows (automation d1))"
    and "\<And>m. m \<in> set (messages d2) \<Longrightarrow> m_state m \<in> withdrawable_states \<Longrightarrow> m \<in> set (messages d1)"
  shows "withdrawn k x d d2"
  using assms unfolding withdrawn_def by blast

lemma withdrawn_earlier:
  assumes "withdrawn k x d1 d'"
    and "\<And>a. a \<in> set (attempt_rows (automation d)) \<Longrightarrow> sa_plan a = k \<Longrightarrow> a \<in> set (attempt_rows (automation d1))"
  shows "withdrawn k x d d'"
  using assms unfolding withdrawn_def attempt_to_cancel_def by blast

lemma interaction_loop:
  assumes "foldE (reschedule_after_interaction env at_time) ps d = Inr d'" "distinct (map cp_id ps)"
    "\<forall>p \<in> set ps. t_get cp_id (cp_id p) (plan_rows (automation d)) = Some p"
  shows "(\<forall>p \<in> set ps. postponed at_time (cp_id p) d d') \<and> topic_rows (automation d') = topic_rows (automation d)
    \<and> (\<forall>k. k \<notin> cp_id ` set ps \<longrightarrow> t_get cp_id k (plan_rows (automation d')) = t_get cp_id k (plan_rows (automation d)))
    \<and> (\<forall>a \<in> set (attempt_rows (automation d')). sa_state a \<notin> open_attempt_states \<or> a \<in> set (attempt_rows (automation d)))
    \<and> (\<forall>m \<in> set (messages d'). m_state m \<notin> withdrawable_states \<or> m \<in> set (messages d))"
  using assms
proof (induction ps arbitrary: d)
  case (Cons p ps)
  obtain d1 where s: "reschedule_after_interaction env at_time p d = Inr d1"
    and f: "foldE (reschedule_after_interaction env at_time) ps d1 = Inr d'"
    using Cons.prems(1) by (auto simp: res_simps)
  obtain t where t: "t_get ft_id (cp_topic p) (topic_rows (automation d)) = Some t"
    "topic_rows (automation d1) = topic_rows (automation d)"
    "plan_rows (automation d1) = t_save cp_id (cp_id p)
       (\<lambda>r. r\<lparr>cp_last_interaction_at :=
                        Some (case cp_last_interaction_at p of None \<Rightarrow> at_time | Some x \<Rightarrow> max x at_time),
                      cp_next_due_at := Some (interaction_due at_time t p)\<rparr>) (plan_rows (automation d))"
    "attempt_rows (automation d1) =
       attempt_rows (automation (cancel_open_attempts env (cp_id p) txt_recent_interaction (Some (interaction_due at_time t p)) d))"
    "messages d1 = messages (cancel_open_attempts env (cp_id p) txt_recent_interaction (Some (interaction_due at_time t p)) d)"
    by (rule interaction_step [OF s])
  have other: "cp_id q \<noteq> cp_id p" if "q \<in> set ps" for q
    using other_key [of cp_id p "set ps" q] Cons.prems(2) that by simp
  have rows: "t_get cp_id k (plan_rows (automation d1)) = t_get cp_id k (plan_rows (automation d))" if "k \<noteq> cp_id p" for k
    using that by (simp add: t(3) t_get_save_other)
  have own: "\<exists>r. t_get cp_id (cp_id p) (plan_rows (automation d1)) = Some r \<and> cp_topic r = cp_topic p
      \<and> cp_next_due_at r = Some (interaction_due at_time t p)"
    using Cons.prems(3) by (simp add: t(3) t_get_save_same)
  have ih: "\<forall>q \<in> set ps. postponed at_time (cp_id q) d1 d'" "topic_rows (automation d') = topic_rows (automation d1)"
    "\<And>k. k \<notin> cp_id ` set ps \<Longrightarrow> t_get cp_id k (plan_rows (automation d')) = t_get cp_id k (plan_rows (automation d1))"
    "\<And>a. a \<in> set (attempt_rows (automation d')) \<Longrightarrow> sa_state a \<in> open_attempt_states \<Longrightarrow> a \<in> set (attempt_rows (automation d1))"
    "\<And>m. m \<in> set (messages d') \<Longrightarrow> m_state m \<in> withdrawable_states \<Longrightarrow> m \<in> set (messages d1)"
    using Cons.IH [OF f] Cons.prems(2,3) rows other by auto
  have older: "a \<in> set (attempt_rows (automation d))"
    if "a \<in> set (attempt_rows (automation d1))" "sa_state a \<in> open_attempt_states" for a
    using that unfolding t(4) cancel_open_attempts_rows(1)
    by (cases rule: t_updateE) (auto simp: open_attempt_states_def)
  have older_m: "m \<in> set (messages d)" if "m \<in> set (messages d1)" "m_state m \<in> withdrawable_states" for m
    using that unfolding t(5) cancel_open_attempts_rows(2)
    by (cases rule: t_updateE) (auto simp: withdrawable_states_def)
  have "withdrawn (cp_id p) (interaction_due at_time t p) d d1"
    using cancel_withdraws [of "cp_id p" "interaction_due at_time t p" d env txt_recent_interaction]
    unfolding withdrawn_def t(4,5) .
  then have "withdrawn (cp_id p) (interaction_due at_time t p) d d'" by (rule withdrawn_later) (rule ih(4,5), assumption+)+
  then have p: "postponed at_time (cp_id p) d d'"
    using own ih(2) ih(3) [of "cp_id p"] Cons.prems(2) t(1,2) interaction_due_ge [of at_time t p]
    unfolding postponed_def by auto
  have q: "postponed at_time (cp_id q) d d'" if "q \<in> set ps" for q
  proof -
    have "a \<in> set (attempt_rows (automation d1))" if "a \<in> set (attempt_rows (automation d))" "sa_plan a = cp_id q" for a
      using mem_t_update [OF that(1), of "attempt_to_cancel (cp_id p) (Some (interaction_due at_time t p))"] that(2) other \<open>q \<in> set ps\<close>
      unfolding t(4) cancel_open_attempts_rows(1) by (auto simp: attempt_to_cancel_def)
    then show ?thesis
      using ih(1) that withdrawn_earlier unfolding postponed_def by blast
  qed
  show ?case using p q ih rows t(2) older older_m by auto
qed simp

text \<open>Every plan of the contact.\<close>

lemma interaction_postpones:
  assumes "record_genuine_contact_interaction env contact at_time d = Inr d'" "distinct (map cp_id (plan_rows (automation d)))"
  shows "list_all (\<lambda>p. \<exists>r t x. t_get cp_id (cp_id p) (plan_rows (automation d')) = Some r
       \<and> t_get ft_id (cp_topic r) (topic_rows (automation d')) = Some t
       \<and> cp_next_due_at r = Some x \<and> at_time + days (ft_cadence_days t) \<le> x \<and> withdrawn (cp_id p) x d d')
     (plans_of_contact contact d)"
proof -
  have "distinct (map cp_id (plans_of_contact contact d))"
    using assms(2) by (simp add: plans_of_contact_def distinct_map_filter)
  moreover have "\<forall>p \<in> set (plans_of_contact contact d). t_get cp_id (cp_id p) (plan_rows (automation d)) = Some p"
    using distinct_key_t_get [OF assms(2)] by (simp add: plans_of_contact_def)
  ultimately show ?thesis
    using interaction_loop [OF assms(1) [unfolded record_genuine_contact_interaction_def]]
    by (auto simp: list_all_iff postponed_def)
qed

section \<open>A message is written for an eligible plan\<close>

lemma eligible_plan:
  assumes "el_eligible (scheduled_contact_eligibility env p c t e now b d)"
  shows "cp_state p = PLAN_ACTIVE \<and> ft_active t \<and> t_status c = ACTIVE \<and> t_preferred_email c = Some (ea_id e)
    \<and> ea_organization e = t_organization c \<and> ea_validity e = VALID \<and> \<not> plan_restricted c e d \<and> \<not> suppressed (ea_normalized e) d
    \<and> \<not> contact_has_open_task c d \<and> \<not> contact_suspended c d
    \<and> (b \<longrightarrow> \<not> relationship_kill_switch env \<and> live_sending_allowed env d)"
  using assms by (auto simp: scheduled_contact_eligibility_def split: if_splits)

lemma open_human_task_messages:
  "open_human_task env ws contact conversation kind reason summary inbound decision d = Inr (t, d') \<Longrightarrow> messages d' = messages d"
  using get_or_create_task_Inr
  by (fastforce simp: open_human_task_def res_simps Let_def suspend_automation_def add_task_def split: if_splits option.splits)

lemma scheduled_task_messages: "open_scheduled_task env c reason summary d = Inr d' \<Longrightarrow> messages d' = messages d"
  by (auto simp: open_scheduled_task_def res_simps dest: open_human_task_messages)

lemma mark_attempt_frame [simp]:
  "messages (mark_attempt k st reason d) = messages d" "messages (save_attempt k f d) = messages d"
  "action_reservations (automation (mark_attempt k st reason d)) = action_reservations (automation d)"
  "action_reservations (automation (save_attempt k f d)) = action_reservations (automation d)"
  by (simp_all add: mark_attempt_def save_attempt_def)

lemma block_for_person_messages: "block_for_person env k c reason summary d = Inr d' \<Longrightarrow> messages d' = messages d"
  by (auto simp: block_for_person_def res_simps dest: scheduled_task_messages)

lemma capacity_granted:
  assumes "reserve_scheduled_automatic_capacity env k c now d = (b, d')"
  shows "messages d' = messages d" "b \<Longrightarrow> \<exists>r \<in> set (action_reservations (automation d')). ar_attempt r = Some k"
    "config d' = config d" "next_id d \<le> next_id d'" "campaigns d' = campaigns d" "reservations d' = reservations d"
    "ledgers d' = ledgers d"
  using assms
  by (auto simp: reserve_scheduled_automatic_capacity_def Let_def fresh_def list_ex_iff with_automation_def split: if_splits)

lemma attach_message_frame [simp]:
  "messages (attach_message env k names w m d) = messages d"
  "action_reservations (automation (attach_message env k names w m d)) = action_reservations (automation d)"
  by (simp_all add: attach_message_def Let_def)

definition scheduled_grant :: "env \<Rightarrow> id \<Rightarrow> message \<Rightarrow> db \<Rightarrow> db \<Rightarrow> bool" where
  "scheduled_grant env k m d d' \<longleftrightarrow>
     (\<exists>a p c t e. t_get sa_id k (attempt_rows (automation d)) = Some a \<and> sa_outbound a = None
        \<and> t_get cp_id (sa_plan a) (plan_rows (automation d)) = Some p \<and> plan_context p d = Inr (c, t, e)
        \<and> cp_next_due_at p = Some (sa_due_at a)
        \<and> el_eligible (scheduled_contact_eligibility env p c t e (clock env) False d)
        \<and> m_contact m = Some (t_id c) \<and> m_recipient_normalized m = ea_normalized e \<and> m_recipient m = ea_original e
        \<and> m_approved_at m = None \<and> m_subject m \<noteq> [] \<and> m_body_text m \<noteq> []
        \<and> (ft_mode t = REVIEW_BEFORE_SEND \<and> m_state m = REVIEW_READY
           \<or> ft_mode t = AUTOMATIC \<and> m_state m = QUEUED
             \<and> el_eligible (scheduled_contact_eligibility env p c t e (clock env) True d)
             \<and> (\<exists>r \<in> set (action_reservations (automation d')). ar_attempt r = Some k)))"

text \<open>The last transaction of a draft writes at most one message, and only with the grant.\<close>

lemma draft_granted:
  assumes "after_draft env k names w d = Inr d'" "messages d' \<noteq> messages d"
  shows "\<exists>m. messages d' = messages d @ [m] \<and> scheduled_grant env k m d d'"
proof -
  obtain a p c t e where rows: "t_get sa_id k (attempt_rows (automation d)) = Some a" "sa_outbound a = None"
    "t_get cp_id (sa_plan a) (plan_rows (automation d)) = Some p" "plan_context p d = Inr (c, t, e)"
    using assms by (auto simp: after_draft_def get_attempt_def get_plan_def res_simps split: if_splits)
  define el where "el = scheduled_contact_eligibility env p c t e (clock env) False d"
  define el2 where "el2 = scheduled_contact_eligibility env p c t e (clock env) True d"
  define subject where "subject = py_strip (case dr_subject w of None \<Rightarrow> [] | Some s \<Rightarrow> s)"
  define body where "body = py_strip (case dr_body w of None \<Rightarrow> [] | Some s \<Rightarrow> s)"
  define cap where "cap = (if ft_mode t = AUTOMATIC
                      then reserve_scheduled_automatic_capacity env k c (clock env) d else (True, d))"
  obtain granted d1 where cap1: "cap = (granted, d1)" by (cases cap)
  have cap_frame: "messages d1 = messages d"
    using cap1 capacity_granted(1) by (auto simp: cap_def split: if_splits)
  have "(if cp_next_due_at p \<noteq> Some (sa_due_at a)
              then Inr (mark_attempt k AT_CANCELLED txt_date_changed_while d)
              else if \<not> el_eligible el then Inr (mark_attempt k AT_INELIGIBLE (el_message el) d)
              else if dr_status w = ''HUMAN''
              then
                bindE (open_scheduled_task env c
                         (case dr_human_reason w of None \<Rightarrow> ''INSUFFICIENT_CONTEXT''
                          | Some r \<Rightarrow> if r = [] then ''INSUFFICIENT_CONTEXT'' else r) txt_goal_needs_person d) (\<lambda>d1.
                  Inr (save_attempt k (\<lambda>x. (draft_fields names w x)
                         \<lparr>sa_state := AT_HUMAN_REQUIRED, sa_reason := txt_goal_needs_person\<rparr>) d1))
              else if ft_mode t = AUTOMATIC \<and> \<not> el_eligible el2
              then Inr (mark_attempt k AT_INELIGIBLE (el_message el2) d)
              else if \<not> granted then block_for_person env k c ''AUTOMATIC_DAILY_LIMIT'' txt_daily_limit d1
              else if subject = [] \<or> body = [] then Inr (mark_attempt k AT_INELIGIBLE txt_incomplete_draft d1)
              else
                     bindE (create_scheduled_message env a c e (ft_mode t) subject body d1) (\<lambda>(m, d2).
                       Inr (attach_message env k names w m d2))) = Inr d'"
    using assms(1)
    by (simp add: after_draft_def get_attempt_def get_plan_def Let_def el_def el2_def subject_def body_def rows
        cap1 [unfolded cap_def] cong: if_cong split del: if_split)
  then obtain m d2 where facts: "cp_next_due_at p = Some (sa_due_at a)" "el_eligible el"
    "\<not> (ft_mode t = AUTOMATIC \<and> \<not> el_eligible el2)" "granted" "subject \<noteq> []" "body \<noteq> []"
    "create_scheduled_message env a c e (ft_mode t) subject body d1 = Inr (m, d2)" "d' = attach_message env k names w m d2"
    using assms(2) cap_frame
    by (auto simp: res_simps split: if_splits dest!: scheduled_task_messages block_for_person_messages)
  obtain signature where m: "m = scheduled_message env (next_id d1) a c e (ft_mode t) subject body signature"
    "messages d2 = messages d1 @ [m]" "automation d2 = automation d1"
    using facts(7) by (auto simp: create_scheduled_message_def Let_def split: if_splits)
  have "ft_mode t = REVIEW_BEFORE_SEND \<and> m_state m = REVIEW_READY
           \<or> ft_mode t = AUTOMATIC \<and> m_state m = QUEUED \<and> el_eligible el2
             \<and> (\<exists>r \<in> set (action_reservations (automation d')). ar_attempt r = Some k)"
  proof (cases "ft_mode t")
    case AUTOMATIC
    then have "\<exists>r \<in> set (action_reservations (automation d1)). ar_attempt r = Some k"
      using cap1 facts(4) capacity_granted(2) by (simp add: cap_def)
    then show ?thesis using AUTOMATIC facts(3,8) m by (simp add: scheduled_message_def Let_def)
  qed (simp add: m(1) scheduled_message_def Let_def)
  then have "scheduled_grant env k m d d'"
    unfolding scheduled_grant_def el_def [symmetric] el2_def [symmetric]
    using rows facts(1,2,5,6) el_def el2_def
    by (intro exI [of _ a] exI [of _ p] exI [of _ c] exI [of _ t] exI [of _ e])
      (simp add: m(1) scheduled_message_def blank_message_def Let_def)
  then show ?thesis using facts(8) m(2) cap_frame by auto
qed

section \<open>The daily limit\<close>

lemma capacity_within_limit:
  assumes "reserve_scheduled_automatic_capacity env k c now d = (b, d')"
  shows "slots_used (t_workspace c) (date_of (to_wall env BUSINESS_TIMEZONE now)) d'
      \<le> max (slots_used (t_workspace c) (date_of (to_wall env BUSINESS_TIMEZONE now)) d) (auto_workspace_limit env)"
  using assms
  by (auto simp: reserve_scheduled_automatic_capacity_def Let_def fresh_def slots_used_def split: if_splits)

end
