(* ===== verification/Approval_Proofs.thy ===== *)
theory Approval_Proofs
  imports Approval
begin

text \<open>
  What an approval guarantees: every message it queues was approved by the person who asked, goes to a participant
  that is eligible now, to the address chosen for it, with exactly the PDFs of the campaign; every other prepared
  message is cancelled with a reason; and the hashes stored describe what was approved. Every operation here is a
  change the delivery workers tolerate.
\<close>

section \<open>What the loops leave alone\<close>

definition enrollment_key :: "enrollment \<Rightarrow> id \<times> id \<times> id \<times> id \<times> id option" where
  "enrollment_key e = (e_id e, e_workspace e, e_campaign e, e_organization e, e_selected_email e)"

definition steady :: "db \<Rightarrow> db \<Rightarrow> bool" where
  "steady d d' \<longleftrightarrow> campaigns d' = campaigns d \<and> emails d' = emails d \<and> contacts d' = contacts d
     \<and> prospects d' = prospects d \<and> restrictions d' = restrictions d \<and> suppressions d' = suppressions d
     \<and> catalogs d' = catalogs d \<and> selections d' = selections d \<and> storage d' = storage d
     \<and> reservations d' = reservations d \<and> ledgers d' = ledgers d \<and> memberships d' = memberships d
     \<and> next_id d \<le> next_id d' \<and> map enrollment_key (enrollments d') = map enrollment_key (enrollments d)"

lemma steady_refl [simp]: "steady d d" by (simp add: steady_def)

lemma steady_trans [trans]: "steady a b \<Longrightarrow> steady b c \<Longrightarrow> steady a c" by (simp add: steady_def)

lemma steady_save_message [simp]: "steady d (save_message env k f d)"
  by (simp add: steady_def save_message_def)

lemma steady_save_enrollment:
  "(\<And>e. enrollment_key (f e) = enrollment_key e) \<Longrightarrow> steady d (save_enrollment k f d)"
  by (simp add: steady_def save_enrollment_def t_save_def t_update_def map_eq_conv)

lemma steady_exclude [simp]: "steady d (exclude_enrollment m s t d)"
  unfolding exclude_enrollment_def
  by (cases "m_enrollment m") (auto intro!: steady_save_enrollment simp: enrollment_key_def)

lemma snapshot_Inr:
  assumes "snapshot_outbound_attachments env m d = Inr d'"
  shows "\<exists>as. d' = d\<lparr>attachments := attachments d @ as\<rparr> \<and> (\<forall>a \<in> set as. a_message a = m_id m)"
proof (cases "m_campaign m")
  case None
  then show ?thesis using assms by (simp add: snapshot_outbound_attachments_def)
next
  case (Some camp)
  show ?thesis
  proof (cases "attachments_of_message (m_id m) d = []")
    case True
    then obtain source where "d' = d\<lparr>attachments := attachments d @
        List.map_filter (\<lambda>a. map_option (snapshot_attachment (m_id m) a) (catalog_of a d)) source\<rparr>"
      using assms Some by (auto simp: snapshot_outbound_attachments_def bindE_eq_Inr)
    moreover have "\<forall>a \<in> set (List.map_filter (\<lambda>a. map_option (snapshot_attachment (m_id m) a) (catalog_of a d)) source).
        a_message a = m_id m"
      by (auto simp: List.map_filter_def snapshot_attachment_def)
    ultimately show ?thesis by blast
  next
    case False
    then have "d' = d\<lparr>attachments := attachments d @ []\<rparr>"
      using assms Some by (simp add: snapshot_outbound_attachments_def)
    then show ?thesis by (intro exI [of _ "[]"]) simp
  qed
qed

lemma steady_snapshot: "snapshot_outbound_attachments env m d = Inr d' \<Longrightarrow> steady d d'"
  using snapshot_Inr [of env m d d'] by (auto simp: steady_def)

lemma t_get_key_map:
  assumes "map g t' = map g t" "\<And>x y. g x = g y \<Longrightarrow> key x = key y" "t_get key k t = Some x"
  shows "\<exists>y. t_get key k t' = Some y \<and> g y = g x"
  using assms(1,3)
proof (induction t arbitrary: t')
  case (Cons a t)
  then obtain b u where u: "t' = b # u" "g b = g a" "map g u = map g t" by (cases t') auto
  have "key b = key a" using u(2) assms(2) by blast
  then show ?case using Cons.IH [OF u(3)] Cons.prems(2) u(1,2) by (auto simp: t_get_def split: if_splits)
qed (simp add: t_get_def)

lemma eligibility_key:
  assumes "steady d d'" "enrollment_key e' = enrollment_key e"
  shows "enrollment_eligibility e' d' = enrollment_eligibility e d"
  using assms
  by (simp add: steady_def enrollment_key_def enrollment_eligibility_def selected_email_def organization_has_contact_def
      audience_removed_def active_restriction_def restriction_organization_def suppressed_def split: option.split)

lemma audience_rows_steady_campaign [simp]:
  "audience_rows k (d\<lparr>campaigns := cs\<rparr>) = audience_rows k d"
  "attachment_rows k (d\<lparr>campaigns := cs\<rparr>) = attachment_rows k d"
  "audience_rows k (record_event a e u d) = audience_rows k d"
  "attachment_rows k (record_event a e u d) = attachment_rows k d"
  "message_attachment_rows i (d\<lparr>campaigns := cs\<rparr>) = message_attachment_rows i d"
  "message_attachment_rows i (record_event a e u d) = message_attachment_rows i d"
proof -
  have r: "audience_row (d\<lparr>campaigns := cs\<rparr>) = audience_row d" "audience_row (record_event a e u d) = audience_row d"
    by (rule ext, simp add: audience_row_def selected_email_def)+
  show "audience_rows k (d\<lparr>campaigns := cs\<rparr>) = audience_rows k d"
    "audience_rows k (record_event a e u d) = audience_rows k d"
    by (simp_all add: audience_rows_def audience_enrollments_def r)
qed (simp_all add: attachment_rows_def attachments_of_campaign_def catalog_of_def message_attachment_rows_def
    attachments_of_message_def record_event_def)

lemma attachment_rows_steady: "steady d d' \<Longrightarrow> attachment_rows k d' = attachment_rows k d"
  by (simp add: steady_def attachment_rows_def attachments_of_campaign_def catalog_of_def)

section \<open>One message\<close>

text \<open>What a person answers for when a message is queued.\<close>

definition authorized :: "id \<Rightarrow> message \<Rightarrow> db \<Rightarrow> bool" where
  "authorized camp m d \<longleftrightarrow>
     (\<exists>enr e. m_enrollment m = Some enr \<and> t_get e_id enr (enrollments d) = Some e
        \<and> el_eligible (enrollment_eligibility e d) \<and> m_email_address m = e_selected_email e)
     \<and> message_attachment_rows (m_id m) d = attachment_rows camp d"

lemma authorized_later:
  assumes "authorized camp m d" "steady d d'" "attachments_of_message (m_id m) d' = attachments_of_message (m_id m) d"
  shows "authorized camp m d'"
proof -
  obtain enr e where e: "m_enrollment m = Some enr" "t_get e_id enr (enrollments d) = Some e"
    "el_eligible (enrollment_eligibility e d)" "m_email_address m = e_selected_email e"
    using assms(1) by (auto simp: authorized_def)
  obtain e' where e': "t_get e_id enr (enrollments d') = Some e'" "enrollment_key e' = enrollment_key e"
    using t_get_key_map [of enrollment_key "enrollments d'" "enrollments d" e_id enr e] assms(2) e(2)
    by (auto simp: steady_def enrollment_key_def)
  have "el_eligible (enrollment_eligibility e' d')" using eligibility_key [OF assms(2) e'(2)] e(3) by simp
  moreover have "m_email_address m = e_selected_email e'" using e(4) e'(2) by (simp add: enrollment_key_def)
  moreover have "message_attachment_rows (m_id m) d' = attachment_rows camp d'"
    using assms attachment_rows_steady [OF assms(2), of camp]
    by (simp add: authorized_def message_attachment_rows_def)
  ultimately show ?thesis unfolding authorized_def using e(1) e'(1) by blast
qed

lemma attachments_of_other:
  "\<forall>a \<in> set as. a_message a = i \<Longrightarrow> k \<noteq> i \<Longrightarrow>
   attachments_of_message k (d\<lparr>attachments := attachments d @ as\<rparr>) = attachments_of_message k d"
  by (simp add: attachments_of_message_def filter_empty_conv)

text \<open>A recheck that finds nothing wrong has authorized the message; in any case it only snapshots its PDFs.\<close>

lemma recheck_Inr:
  assumes "recheck_prepared_message env m d = Inr (err, d')" "m_campaign m = Some camp"
  shows "messages d' = messages d \<and> steady d d' \<and> (err = [] \<longrightarrow> authorized camp m d')
    \<and> (\<forall>k. k \<noteq> m_id m \<longrightarrow> attachments_of_message k d' = attachments_of_message k d)"
proof (cases "m_enrollment m")
  case None
  then show ?thesis using assms by (auto simp: recheck_prepared_message_def txt_not_in_audience_def)
next
  case (Some enr)
  then obtain e where e: "t_get e_id enr (enrollments d) = Some e"
    using assms by (auto simp: recheck_prepared_message_def bindE_eq_Inr get_enrollment_def of_option_eq_Inr)
  show ?thesis
  proof (cases "el_eligible (enrollment_eligibility e d) \<and> m_email_address m = e_selected_email e")
    case True
    then obtain d1 where d1: "snapshot_outbound_attachments env m d = Inr d1" "d' = d1" "err = []"
      "message_attachment_rows (m_id m) d1 = attachment_rows camp d1"
      using assms Some e
      by (auto simp: recheck_prepared_message_def bindE_eq_Inr get_enrollment_def Let_def split: if_splits)
    obtain as where as: "d1 = d\<lparr>attachments := attachments d @ as\<rparr>" "\<forall>a \<in> set as. a_message a = m_id m"
      using snapshot_Inr [OF d1(1)] by blast
    have "enrollment_eligibility e d1 = enrollment_eligibility e d"
      by (rule eligibility_key [OF steady_snapshot [OF d1(1)]]) simp
    then have "authorized camp m d1" unfolding authorized_def using True Some e d1(4) as(1) by auto
    then show ?thesis using d1(2) steady_snapshot [OF d1(1)] as attachments_of_other [OF as(2)] by auto
  next
    case False
    then have "d' = d" "err \<noteq> []"
      using assms Some e
      by (auto simp: recheck_prepared_message_def get_enrollment_def Let_def txt_email_changed_def
          enrollment_eligibility_def not_eligible_def eligible_result_def txt_no_email_def txt_email_ownership_def txt_invalid_email_def
          txt_existing_contact_def txt_audience_filter_def txt_restricted_def txt_legacy_restriction_def
          split: if_splits option.splits)
    then show ?thesis by simp
  qed
qed

section \<open>The loop over the prepared messages\<close>

definition approved_row :: "env \<Rightarrow> id \<Rightarrow> message \<Rightarrow> message" where
  "approved_row env actor r =
     r\<lparr>m_approved_at := Some (clock env), m_approved_by := Some actor, m_state := QUEUED,
       m_next_attempt_at := Some (clock env), m_updated_at := clock env\<rparr>"

definition cancelled_row :: "env \<Rightarrow> str \<Rightarrow> message \<Rightarrow> message" where
  "cancelled_row env err r = r\<lparr>m_state := CANCELLED, m_error := err, m_updated_at := clock env\<rparr>"

text \<open>What became of the message \<open>m\<close>, whose row was \<open>r\<close>.\<close>

definition approval_outcome :: "env \<Rightarrow> id \<Rightarrow> id \<Rightarrow> message \<Rightarrow> message \<Rightarrow> message \<Rightarrow> db \<Rightarrow> bool" where
  "approval_outcome env actor camp m r r' d \<longleftrightarrow>
     (r' = approved_row env actor r \<and> authorized camp m d) \<or> (\<exists>err. err \<noteq> [] \<and> r' = cancelled_row env err r)"

lemma exclude_enrollment_frame [simp]:
  "messages (exclude_enrollment m s t d) = messages d"
  "attachments_of_message k (exclude_enrollment m s t d) = attachments_of_message k d"
  by (simp_all add: exclude_enrollment_def save_enrollment_def attachments_of_message_def split: option.split)

lemma save_message_attachments [simp]:
  "attachments_of_message k (save_message env i f d) = attachments_of_message k d"
  by (simp add: attachments_of_message_def save_message_def)

lemma approve_prepared_Inr:
  assumes "approve_prepared env actor m (n, d) = Inr (n', d')" "m_campaign m = Some camp"
  shows "steady d d' \<and> (\<forall>k. k \<noteq> m_id m \<longrightarrow> attachments_of_message k d' = attachments_of_message k d)
    \<and> (n' = n \<and> (\<exists>err. err \<noteq> [] \<and> messages d' = t_save m_id (m_id m) (cancelled_row env err) (messages d))
       \<or> n' = n + 1 \<and> authorized camp m d' \<and> messages d' = t_save m_id (m_id m) (approved_row env actor) (messages d))"
proof -
  obtain err d1 where r: "recheck_prepared_message env m d = Inr (err, d1)"
    using assms(1) by (auto simp: approve_prepared_def bindE_eq_Inr)
  note k = recheck_Inr [OF r assms(2)]
  show ?thesis
  proof (cases "err = []")
    case True
    define d2 where "d2 = save_message env (m_id m)
              (\<lambda>r. r\<lparr>m_approved_at := Some (clock env), m_approved_by := Some actor, m_state := QUEUED,
                     m_next_attempt_at := Some (clock env)\<rparr>) d1"
    have d': "d' = d2" "n' = n + 1" using assms(1) r True by (simp_all add: approve_prepared_def d2_def)
    have s: "steady d1 d2" by (simp add: d2_def)
    have a: "attachments_of_message j d2 = attachments_of_message j d1" for j by (simp add: d2_def)
    have "messages d2 = t_save m_id (m_id m) (approved_row env actor) (messages d1)"
      by (simp add: d2_def save_message_def approved_row_def [abs_def])
    then show ?thesis using k s a d' authorized_later [OF _ s a] steady_trans [OF _ s] True by auto
  next
    case False
    define d2 where "d2 = cancel_unapproved env m err d1"
    have d': "d' = exclude_enrollment m E_INELIGIBLE err d2" "n' = n"
      using assms(1) r False by (simp_all add: approve_prepared_def d2_def)
    have "messages d2 = t_save m_id (m_id m) (cancelled_row env err) (messages d1)"
      by (simp add: d2_def cancel_unapproved_def save_message_def cancelled_row_def [abs_def])
    moreover have "steady d d2"
      using steady_trans [OF _ steady_save_message] k by (simp add: d2_def cancel_unapproved_def)
    moreover have "attachments_of_message j d2 = attachments_of_message j d1" for j
      by (simp add: d2_def cancel_unapproved_def)
    ultimately show ?thesis using k d' False steady_trans [OF _ steady_exclude] by auto
  qed
qed

lemma row_keys [simp]:
  "m_id (approved_row env actor r) = m_id r" "m_id (cancelled_row env err r) = m_id r"
  by (simp_all add: approved_row_def cancelled_row_def)

lemma approval_outcome_later:
  assumes "approval_outcome env actor camp m r r' d" "steady d d'"
    "attachments_of_message (m_id m) d' = attachments_of_message (m_id m) d"
  shows "approval_outcome env actor camp m r r' d'"
  using assms authorized_later unfolding approval_outcome_def by blast

lemma approve_loop:
  assumes "foldE (approve_prepared env actor) ms (n, d) = Inr (n', d')" "distinct (map m_id ms)"
    "\<forall>m \<in> set ms. m_campaign m = Some camp"
  shows "steady d d' \<and> (\<forall>k. k \<notin> m_id ` set ms \<longrightarrow> t_get m_id k (messages d') = t_get m_id k (messages d)
        \<and> attachments_of_message k d' = attachments_of_message k d)
    \<and> (\<forall>m \<in> set ms. \<forall>r. t_get m_id (m_id m) (messages d) = Some r \<longrightarrow>
          (\<exists>r'. t_get m_id (m_id m) (messages d') = Some r' \<and> approval_outcome env actor camp m r r' d'))
    \<and> (n < n' \<longrightarrow> (\<exists>m \<in> set ms. \<forall>r. t_get m_id (m_id m) (messages d) = Some r \<longrightarrow>
          t_get m_id (m_id m) (messages d') = Some (approved_row env actor r)))"
  using assms
proof (induction ms arbitrary: n d)
  case (Cons m ms)
  obtain n1 d1 where s: "approve_prepared env actor m (n, d) = Inr (n1, d1)"
    and f: "foldE (approve_prepared env actor) ms (n1, d1) = Inr (n', d')"
    using Cons.prems(1) by (auto simp: bindE_eq_Inr)
  have m: "m_campaign m = Some camp" "m_id m \<notin> m_id ` set ms" using Cons.prems by auto
  note step = approve_prepared_Inr [OF s m(1)]
  obtain g where g: "messages d1 = t_save m_id (m_id m) g (messages d)" "\<And>r. m_id (g r) = m_id r"
    "\<And>r. approval_outcome env actor camp m r (g r) d1" "n < n1 \<Longrightarrow> g = approved_row env actor"
  proof -
    consider (kept) "n1 = n" "\<exists>err. err \<noteq> [] \<and>
          messages d1 = t_save m_id (m_id m) (cancelled_row env err) (messages d)"
      | (queued) "authorized camp m d1" "messages d1 = t_save m_id (m_id m) (approved_row env actor) (messages d)"
      using step by blast
    then show thesis
    proof cases
      case kept
      then obtain err where "err \<noteq> []" "messages d1 = t_save m_id (m_id m) (cancelled_row env err) (messages d)" by blast
      with kept(1) show ?thesis by (intro that [of "cancelled_row env err"]) (auto simp: approval_outcome_def)
    next
      case queued
      then show ?thesis by (intro that [of "approved_row env actor"]) (simp_all add: approval_outcome_def)
    qed
  qed
  have rows: "t_get m_id k (messages d1) = (if k = m_id m then map_option g (t_get m_id k (messages d))
      else t_get m_id k (messages d))" for k
    using g(1,2) by (simp add: row_simps)
  have ih: "steady d1 d'" "\<And>k. k \<notin> m_id ` set ms \<Longrightarrow> t_get m_id k (messages d') = t_get m_id k (messages d1)
        \<and> attachments_of_message k d' = attachments_of_message k d1"
    "\<And>x r. x \<in> set ms \<Longrightarrow> t_get m_id (m_id x) (messages d1) = Some r \<Longrightarrow>
        \<exists>r'. t_get m_id (m_id x) (messages d') = Some r' \<and> approval_outcome env actor camp x r r' d'"
    "n1 < n' \<Longrightarrow> \<exists>x \<in> set ms. \<forall>r. t_get m_id (m_id x) (messages d1) = Some r \<longrightarrow>
        t_get m_id (m_id x) (messages d') = Some (approved_row env actor r)"
    using Cons.IH [OF f] Cons.prems by auto
  have old: "t_get m_id (m_id x) (messages d1) = t_get m_id (m_id x) (messages d)" if "x \<in> set ms" for x
    using imageI [OF that, of m_id] m(2) rows [of "m_id x"] by metis
  have fst: "t_get m_id (m_id m) (messages d') = map_option g (t_get m_id (m_id m) (messages d))"
    using ih(2) [OF m(2)] rows by simp
  have "\<exists>r'. t_get m_id (m_id x) (messages d') = Some r' \<and> approval_outcome env actor camp x r r' d'"
    if "x \<in> set (m # ms)" "t_get m_id (m_id x) (messages d) = Some r" for x r
  proof (cases "x = m")
    case True
    have "approval_outcome env actor camp m r (g r) d'"
      by (rule approval_outcome_later [OF g(3) ih(1)]) (use ih(2) [OF m(2)] in simp)
    then show ?thesis using True fst that(2) by simp
  next
    case False
    then show ?thesis using ih(3) [of x r] old that by simp
  qed
  moreover have "\<exists>x \<in> set (m # ms). \<forall>r. t_get m_id (m_id x) (messages d) = Some r \<longrightarrow>
        t_get m_id (m_id x) (messages d') = Some (approved_row env actor r)" if less: "n < n'"
  proof (cases "n < n1")
    case True
    then show ?thesis using fst g(4) by simp
  next
    case False
    then obtain x where "x \<in> set ms" "\<forall>r. t_get m_id (m_id x) (messages d1) = Some r \<longrightarrow>
        t_get m_id (m_id x) (messages d') = Some (approved_row env actor r)"
      using ih(4) less by auto
    then show ?thesis using old by auto
  qed
  moreover have "steady d d'" using step ih(1) steady_trans by blast
  moreover have "t_get m_id k (messages d') = t_get m_id k (messages d)
      \<and> attachments_of_message k d' = attachments_of_message k d" if "k \<notin> m_id ` set (m # ms)" for k
    using that ih(2) [of k] rows [of k] step by simp
  ultimately show ?case by blast
qed simp

section \<open>Approving a campaign\<close>

lemma eligibility_frame [simp]:
  "enrollment_eligibility e (d\<lparr>campaigns := cs\<rparr>) = enrollment_eligibility e d"
  "enrollment_eligibility e (record_event a k u d) = enrollment_eligibility e d"
  by (simp_all add: enrollment_eligibility_def selected_email_def organization_has_contact_def record_event_def
      audience_removed_def active_restriction_def restriction_organization_def suppressed_def split: option.split)

lemma authorized_frame [simp]:
  "authorized camp m (d\<lparr>campaigns := cs\<rparr>) = authorized camp m d"
  "authorized camp m (record_event a e u d) = authorized camp m d"
  by (simp_all add: authorized_def)

lemma prepared_messages_keys:
  assumes "delivery_ok d"
  shows "distinct (map m_id (prepared_messages camp d))"
    "m \<in> set (prepared_messages camp d) \<Longrightarrow> t_get m_id (m_id m) (messages d) = Some m"
  using assms distinct_key_t_get [of m_id "messages d" m]
  by (auto simp: prepared_messages_def rev_map [symmetric] delivery_ok_def message_keys_ok_def distinct_map_filter)

text \<open>Approving a campaign settles every prepared message, and queues at least one.\<close>

lemma approve_campaign_outcome:
  assumes "approve_campaign env camp actor d = Inr (c', d')" "delivery_ok d"
  shows "(\<exists>row. t_get c_id camp (campaigns d') = Some row \<and> c_state row = C_RUNNING \<and> c_approved_by row = Some actor
          \<and> c_approved_at row = Some (clock env) \<and> c_audience_hash row = canonical_hash env (audience_rows camp d')
          \<and> c_attachment_hash row = canonical_hash env (attachment_rows camp d'))
    \<and> has_capability d actor APPROVE_CAMPAIGNS
    \<and> (\<forall>m \<in> set (prepared_messages camp d). \<exists>m'. t_get m_id (m_id m) (messages d') = Some m'
          \<and> approval_outcome env actor camp m m m' d')
    \<and> (\<exists>m \<in> set (prepared_messages camp d). t_get m_id (m_id m) (messages d') = Some (approved_row env actor m))
    \<and> (\<forall>k. k \<notin> m_id ` set (prepared_messages camp d) \<longrightarrow> t_get m_id k (messages d') = t_get m_id k (messages d))"
proof -
  obtain c u n d1 d2 where c: "get_campaign camp d = Inr c"
    and u: "require_user_capability d actor APPROVE_CAMPAIGNS (Some (c_workspace c)) = Inr u"
    and f: "foldE (approve_prepared env actor) (prepared_messages camp d) (0, d) = Inr (n, d1)" "n \<noteq> 0"
    and s: "save_campaign (approved_campaign env actor (refresh_campaign_hashes env c d1))
        (\<lambda>r. approved_campaign env actor (r\<lparr>c_audience_hash := canonical_hash env (audience_rows camp d1),
               c_attachment_hash := canonical_hash env (attachment_rows camp d1),
               c_schedule_hash := canonical_hash env (schedule_payload c)\<rparr>)) d1 = Inr d2"
    and d': "d' = record_event ''campaign.approved'' camp (Some actor) d2"
    using assms(1) t_get_key [of c_id camp "campaigns d"]
    by (auto simp: approve_campaign_def res_simps Let_def get_campaign_def approved_campaign_def
        refresh_campaign_hashes_def split: if_splits)
  have k: "c_id c = camp" using c by (auto simp: get_campaign_def res_simps dest: t_get_key)
  note loop = approve_loop [OF f(1) prepared_messages_keys(1) [OF assms(2)], of camp]
  have loop: "steady d d1"
    "\<And>j. j \<notin> m_id ` set (prepared_messages camp d) \<Longrightarrow> t_get m_id j (messages d1) = t_get m_id j (messages d)"
    "\<And>m. m \<in> set (prepared_messages camp d) \<Longrightarrow> \<exists>m'. t_get m_id (m_id m) (messages d1) = Some m'
       \<and> approval_outcome env actor camp m m m' d1"
    "\<exists>m \<in> set (prepared_messages camp d). t_get m_id (m_id m) (messages d1) = Some (approved_row env actor m)"
    using loop f(2) prepared_messages_keys(2) [OF assms(2)] by (auto simp: prepared_messages_def)
  obtain g where g: "d2 = d1\<lparr>campaigns := t_save c_id camp g (campaigns d1)\<rparr>" "\<And>r. c_id (g r) = c_id r"
    "\<And>r. c_state (g r) = C_RUNNING \<and> c_approved_by (g r) = Some actor \<and> c_approved_at (g r) = Some (clock env)
       \<and> c_audience_hash (g r) = canonical_hash env (audience_rows camp d1)
       \<and> c_attachment_hash (g r) = canonical_hash env (attachment_rows camp d1)"
    using s k
    by (auto simp: save_campaign_def res_simps approved_campaign_def refresh_campaign_hashes_def split: if_splits
        intro: that)
  have "t_get c_id camp (campaigns d1) = Some c"
    using loop(1) c by (simp add: steady_def get_campaign_def res_simps)
  then have "\<exists>row. t_get c_id camp (campaigns d') = Some row \<and> c_state row = C_RUNNING \<and> c_approved_by row = Some actor
          \<and> c_approved_at row = Some (clock env) \<and> c_audience_hash row = canonical_hash env (audience_rows camp d')
          \<and> c_attachment_hash row = canonical_hash env (attachment_rows camp d')"
    using g by (simp add: d' t_get_save_same)
  moreover have "has_capability d actor APPROVE_CAMPAIGNS"
    using u by (auto simp: require_user_capability_def split: option.splits if_splits)
  moreover have "messages d' = messages d1" by (simp add: d' g(1) record_event_def)
  moreover have "approval_outcome env actor camp m m m' d' = approval_outcome env actor camp m m m' d1" for m m'
    by (simp add: approval_outcome_def d' g(1))
  ultimately show ?thesis using loop by simp
qed

section \<open>The snapshot a reviewer sees\<close>

lemma prepare_initial_campaigns: "prepare_initial env c frozen enr s = Inr s' \<Longrightarrow> campaigns (snd s') = campaigns (snd s)"
proof (cases s)
  case (Pair prepared d)
  assume a: "prepare_initial env c frozen enr s = Inr s'"
  obtain res d1 e where 1: "refresh_enrollment_eligibility enr d = Inr (res, d1)" "get_enrollment enr d1 = Inr e"
    using a Pair by (auto simp: prepare_initial_def res_simps)
  have d1: "campaigns d1 = campaigns d"
    using directory_frame_enrollment_steps(4) [OF 1(1)] by (simp add: directory_frame_def)
  show ?thesis
  proof (cases "\<not> el_eligible res \<or> e_selected_email e = None")
    case False
    then obtain x m d2 d3 where 2: "get_or_create_initial env c frozen e x d1 = Inr (m, d2)"
      "snapshot_outbound_attachments env m d2 = Inr d3"
      "s' = (prepared @ [m_id m], save_enrollment enr (\<lambda>r. r\<lparr>e_state := E_PREPARED\<rparr>) d3)"
      using a Pair 1 by (auto simp: prepare_initial_def res_simps)
    have "campaigns d2 = campaigns d1"
      using 2(1) by (auto simp: get_or_create_initial_def fresh_def Let_def res_simps split: option.splits)
    then show ?thesis using 2(3) d1 Pair steady_snapshot [OF 2(2)] by (simp add: steady_def save_enrollment_def)
  qed (use a Pair 1 d1 in \<open>auto simp: prepare_initial_def\<close>)
qed

text \<open>The hashes written when a campaign is prepared describe the database they are written to.\<close>

lemma prepared_snapshot_fresh:
  assumes "move_campaign_to_approval env camp d = Inr (c', d')"
  shows "\<exists>row. t_get c_id camp (campaigns d') = Some row \<and> c_state row = C_AWAITING_APPROVAL
    \<and> validate_campaign_approval_snapshot env row d' =
        bindE (freeze_message_content env (c_initial_subject row) (c_initial_body row) (c_signature row)) (\<lambda>frozen.
          if c_content_hash row = f_content_hash frozen then Inr () else Inl (ValidationError txt_message_changed))"
proof -
  obtain c c1 prepared d1 d2 where c: "get_campaign camp d = Inr c"
    and p: "prepare_fixed_initial_messages env c d = Inr ((c1, prepared), d1)"
    and s: "save_campaign (c1\<lparr>c_state := C_AWAITING_APPROVAL\<rparr>)
                  (\<lambda>r. r\<lparr>c_state := C_AWAITING_APPROVAL, c_audience_hash := c_audience_hash c1,
                          c_content_hash := c_content_hash c1, c_attachment_hash := c_attachment_hash c1,
                          c_schedule_hash := c_schedule_hash c1\<rparr>) d1 = Inr d2"
    and d': "d' = record_event ''campaign.awaiting_approval'' camp None d2"
    using assms by (auto simp: move_campaign_to_approval_def res_simps Let_def split: if_splits)
  obtain frozen where f: "foldE (prepare_initial env c frozen) (participants (c_id c) d) ([], d) = Inr (prepared, d1)"
    and c1: "c1 = refresh_campaign_hashes env c d1"
    using p by (auto simp: prepare_fixed_initial_messages_def res_simps)
  have k: "c_id c = camp" "t_get c_id camp (campaigns d) = Some c" using c t_get_key by (auto simp: res_simps)
  have "campaigns (snd (prepared, d1)) = campaigns d"
    by (rule foldE_invariant [OF f]) (auto dest: prepare_initial_campaigns)
  then have row: "t_get c_id camp (campaigns d1) = Some c" using k by simp
  define g :: "campaign \<Rightarrow> campaign" where "g = (\<lambda>r. r\<lparr>c_state := C_AWAITING_APPROVAL, c_audience_hash := c_audience_hash c1,
      c_content_hash := c_content_hash c1, c_attachment_hash := c_attachment_hash c1,
      c_schedule_hash := c_schedule_hash c1\<rparr>)"
  have d2: "d2 = d1\<lparr>campaigns := t_save c_id camp g (campaigns d1)\<rparr>"
    using s c1 k by (auto simp: save_campaign_Inr refresh_campaign_hashes_def g_def)
  have "t_get c_id camp (campaigns d') = Some (g c)"
    unfolding d' d2 using row by (simp add: record_event_def t_get_save_same g_def)
  moreover have "validate_campaign_approval_snapshot env (g c) d' =
        bindE (freeze_message_content env (c_initial_subject (g c)) (c_initial_body (g c)) (c_signature (g c))) (\<lambda>frozen.
          if c_content_hash (g c) = f_content_hash frozen then Inr () else Inl (ValidationError txt_message_changed))"
    unfolding validate_campaign_approval_snapshot_def d' d2
    by (simp add: g_def c1 k refresh_campaign_hashes_def schedule_payload_def) (intro arg_cong [of _ _ "bindE _"] ext, simp)
  ultimately show ?thesis by (intro exI [of _ "g c"]) (simp add: g_def)
qed

section \<open>Control changes\<close>

lemma control_of_steady: "messages d' = messages d \<Longrightarrow> steady d d' \<Longrightarrow> control_change d d'"
  by (rule control_of_frame) (simp_all add: steady_def)

lemma control_save_enrollment [simp]: "control_change d (save_enrollment k f d)"
  by (rule control_of_frame) (simp_all add: save_enrollment_def)

lemma control_record_event [simp]: "control_change d (record_event a e u d)"
  by (rule control_of_frame) (simp_all add: record_event_def)

lemma control_exclude [simp]: "control_change d (exclude_enrollment m s t d)"
  by (rule control_of_steady) simp_all

lemma control_refresh: "refresh_enrollment_eligibility k d = Inr (res, d') \<Longrightarrow> control_change d d'"
  by (rule control_directory [OF directory_frame_enrollment_steps(4)])

lemma control_snapshot: "snapshot_outbound_attachments env m d = Inr d' \<Longrightarrow> control_change d d'"
  by (rule control_of_steady [OF _ steady_snapshot]) (auto dest: snapshot_Inr)

lemma control_get_or_create_initial:
  assumes "get_or_create_initial env c frozen e s d = Inr (m, d')"
  shows "control_change d d'"
proof (cases "find_message_key (initial_key (c_id c) (e_id e)) d")
  case None
  then have "initial_key (c_id c) (e_id e) \<notin> m_idempotency_key ` set (messages d)"
    by (auto simp: find_message_key_def find_None_iff_all)
  then show ?thesis
    using assms None
    by (intro control_add_message [of d' d m])
      (auto simp: get_or_create_initial_def res_simps fresh_def initial_message_def blank_message_def Let_def)
qed (use assms in \<open>simp add: get_or_create_initial_def\<close>)

lemma control_prepare_initial:
  assumes "prepare_initial env c frozen enr s = Inr s'"
  shows "control_change (snd s) (snd s')"
proof -
  obtain prepared d where s: "s = (prepared, d)" by (cases s)
  obtain res d1 e where 1: "refresh_enrollment_eligibility enr d = Inr (res, d1)" "get_enrollment enr d1 = Inr e"
    using assms s by (auto simp: prepare_initial_def res_simps)
  show ?thesis
  proof (cases "\<not> el_eligible res \<or> e_selected_email e = None")
    case True
    then show ?thesis using assms s 1 control_refresh [OF 1(1)] by (auto simp: prepare_initial_def)
  next
    case False
    then obtain x m d2 d3 where 2: "get_or_create_initial env c frozen e x d1 = Inr (m, d2)"
      "snapshot_outbound_attachments env m d2 = Inr d3"
      "s' = (prepared @ [m_id m], save_enrollment enr (\<lambda>r. r\<lparr>e_state := E_PREPARED\<rparr>) d3)"
      using assms s 1 by (auto simp: prepare_initial_def res_simps)
    have "control_change d d3"
      by (rule control_change_trans [OF control_change_trans [OF control_refresh [OF 1(1)]
            control_get_or_create_initial [OF 2(1)]] control_snapshot [OF 2(2)]])
    then show ?thesis using s 2(3) control_change_trans [OF _ control_save_enrollment] by simp
  qed
qed

lemma control_prepare_fixed:
  "prepare_fixed_initial_messages env c d = Inr (r, d') \<Longrightarrow> control_change d d'"
  unfolding prepare_fixed_initial_messages_def
  by (auto simp: res_simps) (use control_foldE [of _ _ _ _ snd] control_prepare_initial in fastforce)

lemma saved_campaign:
  assumes "save_campaign c f d = Inr d'" "\<And>r. c_id (f r) = c_id r"
    "\<And>r. c_state (f r) = C_RUNNING \<Longrightarrow> c_state r = C_RUNNING \<and> c_approved_at (f r) = c_approved_at r \<or> c_approved_at (f r) \<noteq> None"
  shows "control_change d d'"
  by (rule control_save_campaign [where f = f and k = "c_id c"])
    (use assms in \<open>auto simp: save_campaign_def res_simps split: if_splits\<close>)

lemma control_approve_prepared:
  assumes "approve_prepared env actor m s = Inr s'" "m_state m = PREPARED" "m_campaign m = Some camp"
    "t_get m_id (m_id m) (messages (snd s)) = Some m"
  shows "control_change (snd s) (snd s')"
proof -
  obtain n d n' d' where s: "s = (n, d)" "s' = (n', d')" by (cases s, cases s') auto
  note step = approve_prepared_Inr [OF assms(1) [unfolded s] assms(3)]
  obtain g where g: "messages d' = t_save m_id (m_id m) g (messages d)" "\<And>r. key_fields (g r) = key_fields r"
    using step that [of "cancelled_row env _"] that [of "approved_row env actor"]
    by (auto simp: key_fields_def approved_row_def cancelled_row_def)
  have "\<not> in_transit m" using assms(2) by (simp add: in_transit_def in_flight_def)
  then show ?thesis
    using control_save_message [of "m_id m" d m g d'] assms(4) g step s
    by (auto simp: other_rows_def steady_def)
qed

lemma control_approve_loop:
  assumes "foldE (approve_prepared env actor) ms s = Inr s'" "distinct (map m_id ms)"
    "\<forall>m \<in> set ms. m_state m = PREPARED \<and> m_campaign m = Some camp
       \<and> t_get m_id (m_id m) (messages (snd s)) = Some m"
  shows "control_change (snd s) (snd s')"
  using assms
proof (induction ms arbitrary: s)
  case (Cons m ms)
  obtain s1 where s1: "approve_prepared env actor m s = Inr s1" "foldE (approve_prepared env actor) ms s1 = Inr s'"
    using Cons.prems(1) by (auto simp: res_simps)
  have "foldE (approve_prepared env actor) [m] (fst s, snd s) = Inr (fst s1, snd s1)" using s1(1) by simp
  note one = approve_loop [OF this, of camp]
  have "control_change (snd s1) (snd s')"
  proof (rule Cons.IH [OF s1(2)])
    show "distinct (map m_id ms)" using Cons.prems(2) by simp
    show "\<forall>x \<in> set ms. m_state x = PREPARED \<and> m_campaign x = Some camp
       \<and> t_get m_id (m_id x) (messages (snd s1)) = Some x"
    proof
      fix x
      assume x: "x \<in> set ms"
      then have "m_id x \<noteq> m_id m" using other_key [of m_id m "set ms" x] Cons.prems(2) by simp
      then show "m_state x = PREPARED \<and> m_campaign x = Some camp \<and> t_get m_id (m_id x) (messages (snd s1)) = Some x"
        using Cons.prems(3) x one by simp
    qed
  qed
  moreover have "control_change (snd s) (snd s1)" using control_approve_prepared [OF s1(1)] Cons.prems(3) by simp
  ultimately show ?case using control_change_trans by blast
qed simp

lemma control_approve_campaign:
  assumes "approve_campaign env camp actor d = Inr (c', d')"
  shows "control_change d d'"
proof (cases "delivery_ok d")
  case ok: True
  obtain c n d1 d2 where f: "foldE (approve_prepared env actor) (prepared_messages camp d) (0, d) = Inr (n, d1)"
    and s: "save_campaign (approved_campaign env actor (refresh_campaign_hashes env c d1))
        (\<lambda>r. approved_campaign env actor (r\<lparr>c_audience_hash := canonical_hash env (audience_rows (c_id c) d1),
               c_attachment_hash := canonical_hash env (attachment_rows (c_id c) d1),
               c_schedule_hash := canonical_hash env (schedule_payload c)\<rparr>)) d1 = Inr d2"
    and d': "d' = record_event ''campaign.approved'' camp (Some actor) d2"
    using assms
    by (auto simp: approve_campaign_def res_simps Let_def approved_campaign_def
        refresh_campaign_hashes_def split: if_splits)
  have "control_change d d1"
    using control_approve_loop [OF f prepared_messages_keys(1) [OF ok], of camp] prepared_messages_keys(2) [OF ok]
    by (auto simp: prepared_messages_def)
  moreover have "control_change d1 d2" by (rule saved_campaign [OF s]) (simp_all add: approved_campaign_def)
  ultimately show ?thesis unfolding d' using control_change_trans control_record_event by blast
qed (simp add: control_change_def)

lemma control_refresh_review:
  assumes "refresh_review_audience env camp d = Inr d'"
  shows "control_change d d'"
proof -
  obtain c where c: "get_campaign camp d = Inr c"
    using assms by (auto simp: refresh_review_audience_def res_simps)
  show ?thesis
  proof (cases "c_state c \<noteq> C_AWAITING_APPROVAL")
    case True
    then show ?thesis using assms c by (auto simp: refresh_review_audience_def)
  next
    case False
    then obtain c1 prepared d1 where p: "prepare_fixed_initial_messages env c d = Inr ((c1, prepared), d1)"
      and s: "save_campaign c1
             (\<lambda>r. r\<lparr>c_audience_hash := c_audience_hash c1, c_attachment_hash := c_attachment_hash c1,
                     c_schedule_hash := c_schedule_hash c1\<rparr>) d1 = Inr d'"
      using assms c by (auto simp: refresh_review_audience_def res_simps)
    show ?thesis by (rule control_change_trans [OF control_prepare_fixed [OF p] saved_campaign [OF s]]) simp_all
  qed
qed

lemma control_move:
  assumes "move_campaign_to_approval env camp d = Inr (c', d')"
  shows "control_change d d'"
proof -
  obtain c c1 prepared d1 d2 where p: "prepare_fixed_initial_messages env c d = Inr ((c1, prepared), d1)"
    and s: "save_campaign (c1\<lparr>c_state := C_AWAITING_APPROVAL\<rparr>)
                  (\<lambda>r. r\<lparr>c_state := C_AWAITING_APPROVAL, c_audience_hash := c_audience_hash c1,
                          c_content_hash := c_content_hash c1, c_attachment_hash := c_attachment_hash c1,
                          c_schedule_hash := c_schedule_hash c1\<rparr>) d1 = Inr d2"
    and d': "d' = record_event ''campaign.awaiting_approval'' camp None d2"
    using assms by (auto simp: move_campaign_to_approval_def res_simps Let_def split: if_splits)
  have "control_change d d2"
    by (rule control_change_trans [OF control_prepare_fixed [OF p] saved_campaign [OF s]]) simp_all
  then show ?thesis unfolding d' using control_change_trans control_record_event by blast
qed

lemma control_stop:
  assumes "stop_discovering env camp reason d = Inr (c', d')"
  shows "control_change d d'"
proof -
  obtain c where c: "get_campaign camp d = Inr c" using assms by (auto simp: stop_discovering_def res_simps)
  show ?thesis
  proof (cases "c_state c \<noteq> C_DISCOVERING")
    case False
    then have "save_campaign (c\<lparr>c_state := C_STOPPED_ERROR, c_status_reason := reason, c_finished_at := Some (clock env)\<rparr>)
      (\<lambda>r. r\<lparr>c_state := C_STOPPED_ERROR, c_status_reason := reason, c_finished_at := Some (clock env)\<rparr>) d = Inr d'"
      using assms c by (auto simp: stop_discovering_def res_simps Let_def)
    then show ?thesis by (rule saved_campaign) simp_all
  qed (use assms c in \<open>simp add: stop_discovering_def\<close>)
qed

lemma control_maybe_move:
  assumes "maybe_move_campaign_to_approval env camp d = (res, d')"
  shows "control_change d d'"
  using assms
  by (auto simp: maybe_move_campaign_to_approval_def settle_def split: sum.splits if_splits exn.splits prod.splits
      intro: control_stop control_move)

text \<open>Choosing among the messages approved one by one only cancels those still waiting for a review.\<close>

lemma control_cancel_unapproved:
  assumes "t_get m_id (m_id m) (messages d) = Some m" "\<not> in_transit m"
  shows "control_change d (cancel_unapproved env m err d)"
  by (rule control_save_message [OF assms, of "\<lambda>r. (r\<lparr>m_state := CANCELLED, m_error := err\<rparr>)\<lparr>m_updated_at := clock env\<rparr>"])
    (simp_all add: key_fields_def other_rows_def cancel_unapproved_def save_message_def)

lemma cancel_unapproved_row:
  "k \<noteq> m_id m \<Longrightarrow> t_get m_id k (messages (cancel_unapproved env m err d)) = t_get m_id k (messages d)"
  by (simp add: cancel_unapproved_def save_message_def t_get_save_other)

lemma select_approved_step:
  assumes "select_approved env m (sel, d) = Inr (sel', d')" "m_campaign m = Some camp"
    "t_get m_id (m_id m) (messages d) = Some m"
  shows "control_change d d' \<and> (\<forall>k. k \<noteq> m_id m \<longrightarrow> t_get m_id k (messages d') = t_get m_id k (messages d))
    \<and> (sel' = sel \<or> sel' = sel @ [m] \<and> m_state m = PREPARED \<and> messages d' = messages d)"
proof -
  have idle: "m_state m = REVIEW_READY \<or> m_state m = PREPARED \<Longrightarrow> \<not> in_transit m"
    by (auto simp: in_transit_def in_flight_def)
  show ?thesis
  proof (cases "m_approved_at m = None \<or> m_state m \<noteq> PREPARED")
    case True
    define d1 where "d1 = (if m_state m = REVIEW_READY then cancel_unapproved env m txt_not_included d else d)"
    have d': "sel' = sel" "d' = exclude_enrollment m E_CANCELLED txt_not_approved_single d1"
      using assms(1) True by (simp_all add: select_approved_def d1_def)
    have "control_change d d1" using control_cancel_unapproved [OF assms(3)] idle by (simp add: d1_def)
    then show ?thesis
      using d' control_change_trans [OF _ control_exclude] cancel_unapproved_row by (simp add: d1_def)
  next
    case False
    then obtain err d1 where r: "recheck_prepared_message env m d = Inr (err, d1)"
      using assms(1) by (auto simp: select_approved_def res_simps)
    note k = recheck_Inr [OF r assms(2)]
    have c: "control_change d d1" using k control_of_steady by blast
    show ?thesis
    proof (cases "err = []")
      case True
      then have "sel' = sel @ [m]" "d' = d1" using assms(1) False r by (auto simp: select_approved_def)
      then show ?thesis using c k False by simp
    next
      case e: False
      then have d': "sel' = sel" "d' = exclude_enrollment m E_INELIGIBLE err (cancel_unapproved env m err d1)"
        using assms(1) False r by (auto simp: select_approved_def)
      have "control_change d1 (cancel_unapproved env m err d1)"
        by (rule control_cancel_unapproved) (use k assms(3) idle False in auto)
      then have "control_change d d'"
        unfolding d' using c control_change_trans control_exclude by blast
      then show ?thesis using d' k cancel_unapproved_row by simp
    qed
  qed
qed

text \<open>The selected messages are prepared rows still as they were loaded.\<close>

definition still_prepared :: "db \<Rightarrow> message list \<Rightarrow> bool" where
  "still_prepared d ms \<longleftrightarrow> (\<forall>m \<in> set ms. m_state m = PREPARED \<and> t_get m_id (m_id m) (messages d) = Some m)"

lemma control_select_loop:
  assumes "foldE (select_approved env) ms (sel, d) = Inr (sel', d')" "distinct (map m_id (sel @ ms))"
    "\<forall>m \<in> set ms. m_campaign m = Some camp \<and> t_get m_id (m_id m) (messages d) = Some m" "still_prepared d sel"
  shows "control_change d d' \<and> still_prepared d' sel' \<and> distinct (map m_id sel')"
  using assms
proof (induction ms arbitrary: sel d)
  case (Cons m ms)
  obtain sel1 d1 where s: "select_approved env m (sel, d) = Inr (sel1, d1)"
    "foldE (select_approved env) ms (sel1, d1) = Inr (sel', d')"
    using Cons.prems(1) by (auto simp: res_simps)
  note step = select_approved_step [OF s(1), of camp]
  have other: "m_id x \<noteq> m_id m" if "x \<in> set sel \<union> set ms" for x
    using other_key [of m_id m "set sel \<union> set ms" x] Cons.prems(2) that by auto
  have "control_change d1 d' \<and> still_prepared d' sel' \<and> distinct (map m_id sel')"
  proof (rule Cons.IH [OF s(2)])
    have sel: "sel1 = sel \<or> sel1 = sel @ [m]" using step Cons.prems(3) by auto
    then show "distinct (map m_id (sel1 @ ms))" using Cons.prems(2) by (elim disjE) simp_all
    show "\<forall>x \<in> set ms. m_campaign x = Some camp \<and> t_get m_id (m_id x) (messages d1) = Some x"
      using Cons.prems(3) step other by simp
    show "still_prepared d1 sel1"
    proof (cases "sel1 = sel")
      case True
      then show ?thesis using Cons.prems(3,4) step other by (simp add: still_prepared_def)
    next
      case False
      then have "sel1 = sel @ [m]" "m_state m = PREPARED" "messages d1 = messages d" using step Cons.prems(3) by auto
      then show ?thesis using Cons.prems(3,4) by (simp add: still_prepared_def)
    qed
  qed
  moreover have "control_change d d1" using step Cons.prems(3) by simp
  ultimately show ?case using control_change_trans by blast
qed simp

lemma control_queue:
  "distinct (map m_id ms) \<Longrightarrow> still_prepared d ms \<Longrightarrow> control_change d (fold (queue_selected env) ms d)"
proof (induction ms arbitrary: d)
  case (Cons m ms)
  have row: "t_get m_id (m_id m) (messages d) = Some m" "\<not> in_transit m"
    using Cons.prems(2) by (auto simp: still_prepared_def in_transit_def in_flight_def)
  have "control_change d (queue_selected env m d)"
    by (rule control_save_message [OF row, of "\<lambda>r. (r\<lparr>m_state := QUEUED, m_next_attempt_at := Some (clock env)\<rparr>)
          \<lparr>m_updated_at := clock env\<rparr>"])
      (simp_all add: key_fields_def other_rows_def queue_selected_def save_message_def)
  moreover have "still_prepared (queue_selected env m d) ms"
    using Cons.prems other_key [of m_id m "set ms"]
    by (auto simp: still_prepared_def queue_selected_def save_message_def t_get_save_other)
  ultimately show ?case using Cons.IH [of "queue_selected env m d"] Cons.prems(1) control_change_trans by auto
qed simp

lemma control_start_per_message:
  assumes "start_per_message_campaign env camp actor d = Inr (c', d')"
  shows "control_change d d'"
proof (cases "delivery_ok d")
  case ok: True
  obtain c sel d1 d3 where f: "foldE (select_approved env) (initial_messages camp d) ([], d) = Inr (sel, d1)"
    and s: "save_campaign (approved_campaign env actor ((refresh_campaign_hashes env c d1)
                        \<lparr>c_content_hash := canonical_hash env (selected_content sel)\<rparr>))
        (\<lambda>r. approved_campaign env actor
                     (r\<lparr>c_audience_hash := canonical_hash env (audience_rows (c_id c) d1),
                        c_content_hash := canonical_hash env (selected_content sel),
                        c_attachment_hash := canonical_hash env (attachment_rows (c_id c) d1),
                        c_schedule_hash := canonical_hash env (schedule_payload c)\<rparr>)) (fold (queue_selected env) sel d1) = Inr d3"
    and d': "d' = record_event ''campaign.per_message_delivery_started'' camp (Some actor) d3"
    using assms
    by (auto simp: start_per_message_campaign_def res_simps Let_def approved_campaign_def
        refresh_campaign_hashes_def split: if_splits)
  have "control_change d d1 \<and> still_prepared d1 sel \<and> distinct (map m_id sel)"
    by (rule control_select_loop [OF f, of camp])
      (use ok distinct_key_t_get [of m_id "messages d"] in
        \<open>auto simp: initial_messages_def still_prepared_def delivery_ok_def message_keys_ok_def distinct_map_filter\<close>)
  moreover have "control_change (fold (queue_selected env) sel d1) d3"
    by (rule saved_campaign [OF s]) (simp_all add: approved_campaign_def)
  ultimately show ?thesis unfolding d' using control_change_trans control_record_event control_queue by meson
qed (simp add: control_change_def)

lemma control_finish_discovery:
  assumes "finish_discovery_committed env camp target reason actor d = (res, d')"
  shows "control_change d d'"
proof (cases "finish_discovery env camp target reason actor d")
  case (Inr r)
  obtain c d1 where r: "r = (c, d1)" by (cases r)
  obtain c1 d2 where s: "save_campaign c1
        (\<lambda>r. r\<lparr>c_discovery := target, c_discovery_stop_reason := py_strip reason\<rparr>) d = Inr d2"
    and d1: "d1 = record_event ''campaign.discovery_finished'' camp actor d2"
    using Inr r by (auto simp: finish_discovery_def res_simps Let_def split: if_splits)
  have "control_change d d1"
    unfolding d1 by (rule control_change_trans [OF saved_campaign [OF s] control_record_event]) simp_all
  then show ?thesis
    using assms Inr r control_maybe_move control_change_trans
    by (fastforce simp: finish_discovery_committed_def split: if_splits sum.splits prod.splits)
qed (use assms in \<open>simp add: finish_discovery_committed_def\<close>)

lemmas approval_is_control = control_refresh_review control_move control_stop control_maybe_move
  control_finish_discovery control_approve_campaign control_start_per_message

end
