(* ===== verification/Inbound_Proofs.thy ===== *)
theory Inbound_Proofs
  imports Inbound Scheduled_Proofs Approval_Proofs
begin

text \<open>
  What a received mail can and cannot do: whatever it says, it lifts no restriction, no suppression and no
  unsubscription; and a reply from a person makes its organization a contact, which no campaign may write to again.
\<close>

section \<open>Never less strict\<close>

definition stricter :: "db \<Rightarrow> db \<Rightarrow> bool" where
  "stricter d d' \<longleftrightarrow> suppressions_grow d d' \<and> set (restrictions d) \<subseteq> set (restrictions d')
     \<and> (\<forall>t \<in> set (contacts d). \<exists>t' \<in> set (contacts d').
          t_id t' = t_id t \<and> t_organization t' = t_organization t \<and> (t_status t' = t_status t \<or> t_status t' = UNSUBSCRIBED))"

lemma suppressions_grow_refl [simp]: "suppressions d' = suppressions d \<Longrightarrow> suppressions_grow d d'"
  by (auto simp: suppressions_grow_def)

lemma suppressions_grow_trans: "suppressions_grow a b \<Longrightarrow> suppressions_grow b c \<Longrightarrow> suppressions_grow a c"
  unfolding suppressions_grow_def by (metis (no_types))

lemma stricter_frame:
  "suppressions d' = suppressions d \<Longrightarrow> restrictions d' = restrictions d \<Longrightarrow> contacts d' = contacts d \<Longrightarrow> stricter d d'"
  by (auto simp: stricter_def)

lemma stricter_refl [simp]: "stricter d d"
  by (rule stricter_frame) simp_all

lemma stricter_trans [trans]:
  assumes "stricter a b" "stricter b c"
  shows "stricter a c"
proof -
  have "\<exists>t' \<in> set (contacts c). t_id t' = t_id t \<and> t_organization t' = t_organization t
      \<and> (t_status t' = t_status t \<or> t_status t' = UNSUBSCRIBED)" if t: "t \<in> set (contacts a)" for t
  proof -
    obtain u where u: "u \<in> set (contacts b)" "t_id u = t_id t" "t_organization u = t_organization t"
      "t_status u = t_status t \<or> t_status u = UNSUBSCRIBED" using assms(1) t by (auto simp: stricter_def)
    obtain v where "v \<in> set (contacts c)" "t_id v = t_id u" "t_organization v = t_organization u"
      "t_status v = t_status u \<or> t_status v = UNSUBSCRIBED" using assms(2) u(1) by (auto simp: stricter_def)
    with u show ?thesis by (intro bexI [of _ v]) auto
  qed
  then show ?thesis using assms suppressions_grow_trans by (auto simp: stricter_def)
qed

lemma stricter_directory: "directory_frame d d' \<Longrightarrow> stricter d d'"
  by (rule stricter_frame) (simp_all add: directory_frame_def)

lemma stricter_event [simp]: "stricter d (record_event a k u d') = stricter d d'"
  by (simp add: stricter_def suppressions_grow_def record_event_def)

section \<open>The steps of an inbound mail\<close>

lemma interaction_frame:
  assumes "record_genuine_contact_interaction env k t d = Inr d'"
  shows "suppressions d' = suppressions d \<and> restrictions d' = restrictions d \<and> contacts d' = contacts d
    \<and> enrollments d' = enrollments d \<and> emails d' = emails d \<and> conversations d' = conversations d \<and> inbounds d' = inbounds d
    \<and> prospects d' = prospects d"
  using assms unfolding record_genuine_contact_interaction_def
proof (rule foldE_invariant)
  fix p s s'
  assume "reschedule_after_interaction env t p s = Inr s'"
    "suppressions s = suppressions d \<and> restrictions s = restrictions d \<and> contacts s = contacts d
      \<and> enrollments s = enrollments d \<and> emails s = emails d \<and> conversations s = conversations d \<and> inbounds s = inbounds d
      \<and> prospects s = prospects d"
  then show "suppressions s' = suppressions d \<and> restrictions s' = restrictions d \<and> contacts s' = contacts d
      \<and> enrollments s' = enrollments d \<and> emails s' = emails d \<and> conversations s' = conversations d \<and> inbounds s' = inbounds d
      \<and> prospects s' = prospects d"
    by (auto simp: reschedule_after_interaction_def res_simps Let_def record_event_def save_plan_def with_automation_def
        cancel_open_attempts_def)
qed simp

lemma withdrawal_frame:
  "suppressions (snd (cancel_pending_campaign_work env org reason replied at_time d)) = suppressions d"
  "restrictions (snd (cancel_pending_campaign_work env org reason replied at_time d)) = restrictions d"
  "contacts (snd (cancel_pending_campaign_work env org reason replied at_time d)) = contacts d"
  by (simp_all add: cancel_pending_campaign_work_def cancel_message_queryset_def mark_replied_def exclude_enrollments_def
      Let_def split: option.split)

lemma stricter_withdrawal: "stricter d (snd (cancel_pending_campaign_work env org reason replied at_time d))"
  by (rule stricter_frame) (simp_all add: withdrawal_frame)

lemma stricter_contact:
  assumes "contact_for_organization org preferred reason i actor name d = Inr ((t, created), d')"
  shows "stricter d d' \<and> t \<in> set (contacts d') \<and> t_organization t = org
    \<and> (reason = BY_UNSUBSCRIBE \<longrightarrow> t_status t = UNSUBSCRIBED)"
proof -
  obtain og where og: "get_organization org d = Inr og"
    using assms by (auto simp: contact_for_organization_def res_simps)
  obtain t0 b d1 where "get_or_create_contact og preferred reason i actor name d = ((t0, b), d1)"
    by (metis surj_pair)
  then have g: "get_or_create_contact og preferred reason i actor name d = ((t0, created), d1)"
    and r: "t = refreshed_contact preferred reason i name t0"
      "d' = d1\<lparr>contacts := t_save t_id (t_id t0) (refreshed_contact preferred reason i name) (contacts d1)\<rparr>"
    using assms og by (simp_all add: contact_for_organization_def Let_def)
  have key: "o_id og = org" using og by (auto simp: get_organization_def res_simps dest: t_get_key)
  have f: "t_id (refreshed_contact preferred reason i name x) = t_id x"
    "t_organization (refreshed_contact preferred reason i name x) = t_organization x"
    "t_status (refreshed_contact preferred reason i name x) = (if reason = BY_UNSUBSCRIBE then UNSUBSCRIBED else t_status x)"
    for x by (simp_all add: refreshed_contact_def)
  have d1: "suppressions d1 = suppressions d" "restrictions d1 = restrictions d" "set (contacts d) \<subseteq> set (contacts d1)"
    "t0 \<in> set (contacts d1)" "t_organization t0 = org"
    using g key find_Some_mem [of "\<lambda>t. t_organization t = org" "contacts d" t0]
    by (auto simp: get_or_create_contact_def contact_of_def fresh_def new_contact_def Let_def split: option.splits)
  have "t \<in> set (contacts d')" using mem_t_save [OF d1(4), of t_id "t_id t0"] r by auto
  moreover have "\<exists>t' \<in> set (contacts d'). t_id t' = t_id x \<and> t_organization t' = t_organization x
      \<and> (t_status t' = t_status x \<or> t_status t' = UNSUBSCRIBED)" if "x \<in> set (contacts d)" for x
  proof -
    let ?y = "if t_id x = t_id t0 then refreshed_contact preferred reason i name x else x"
    have "x \<in> set (contacts d1)" using that d1(3) by blast
    moreover have "contacts d' = t_save t_id (t_id t0) (refreshed_contact preferred reason i name) (contacts d1)"
      using r(2) by simp
    ultimately have "?y \<in> set (contacts d')" by (simp only: mem_t_save)
    moreover have "t_id ?y = t_id x \<and> t_organization ?y = t_organization x
        \<and> (t_status ?y = t_status x \<or> t_status ?y = UNSUBSCRIBED)" using f by simp
    ultimately show ?thesis by blast
  qed
  ultimately show ?thesis using d1 r f by (auto simp: stricter_def)
qed

lemma stricter_conversation: "conversation_for_inbound i t d = (v, d') \<Longrightarrow> stricter d d'"
  by (auto simp: conversation_for_inbound_def get_or_create_conversation_def touch_conversation_def fresh_def Let_def
      record_event_def intro!: stricter_frame split: if_splits option.splits prod.splits)

lemma suppress_email_frame:
  assumes "suppress_email env email reason actor source evidence d = Inr (entry, d')"
  shows "restrictions d' = restrictions d \<and> contacts d' = contacts d"
proof -
  have m: "restrictions (snd (merge_existing_suppression e r actor source evidence d1)) = restrictions d1"
    "contacts (snd (merge_existing_suppression e r actor source evidence d1)) = contacts d1" for e r d1
    by (simp_all add: merge_existing_suppression_def Let_def record_event_def)
  obtain n r where n: "(let d1 = (if r = S_BOUNCE then invalidate_prospect_emails env n d else d)
       in case find_suppression n d1 of
            Some entry \<Rightarrow> Inr (merge_existing_suppression entry r actor source evidence d1)
          | None \<Rightarrow>
              let (k, d2) = fresh d1;
                  entry = \<lparr>s_id = k, s_original_email = py_strip email, s_email = n,
                           s_reason = r, s_source = source, s_evidence = evidence, s_created_by = actor\<rparr>;
                  d3 = d2\<lparr>suppressions := suppressions d2 @ [entry]\<rparr>
              in Inr (entry, record_event ''suppression.created'' k actor d3)) = (Inr (entry, d') :: exn + suppression \<times> db)"
    using assms by (auto simp: suppress_email_def res_simps)
  define d1 where "d1 = (if r = S_BOUNCE then invalidate_prospect_emails env n d else d)"
  have d1: "restrictions d1 = restrictions d" "contacts d1 = contacts d"
    by (simp_all add: d1_def invalidate_prospect_emails_def)
  show ?thesis
  proof (cases "find_suppression n d1")
    case None
    then show ?thesis using n d1 by (auto simp: d1_def [symmetric] fresh_def record_event_def Let_def)
  next
    case (Some e)
    have "merge_existing_suppression e r actor source evidence d1 = (entry, d')"
      using n by (simp only: Let_def d1_def [symmetric] Some option.case sum.inject)
    then have "d' = snd (merge_existing_suppression e r actor source evidence d1)" by simp
    then show ?thesis using m d1 by simp
  qed
qed

lemma stricter_restriction:
  assumes "restriction_for_inbound env i e kind d = Inr d'"
  shows "stricter d d'"
proof -
  obtain entry where s: "suppress_email env (ea_original e) (suppression_value (if kind = R_UNSUBSCRIBE then S_UNSUBSCRIBE else S_BOUNCE))
      None (if kind = R_UNSUBSCRIBE then ''gmail_reply'' else ''gmail_bounce'') (inbound_evidence i) (restrict_email i e kind d)
      = Inr (entry, d')"
    using assms by (auto simp: restriction_for_inbound_def map_sum_def split: sum.splits)
  have r: "restrictions d' = restrictions (restrict_email i e kind d)" "contacts d' = contacts (restrict_email i e kind d)"
    using suppress_email_frame [OF s] by simp_all
  have "suppressions (restrict_email i e kind d) = suppressions d" "contacts (restrict_email i e kind d) = contacts d"
    "set (restrictions d) \<subseteq> set (restrictions (restrict_email i e kind d))"
    by (auto simp: restrict_email_def fresh_def)
  then show ?thesis using r suppress_email_grow [OF s] by (auto simp: stricter_def suppressions_grow_def)
qed

lemma stricter_bounce: "bounce_of env i selected d = Inr d' \<Longrightarrow> stricter d d'"
proof (cases selected)
  case (Some e)
  assume "bounce_of env i selected d = Inr d'"
  with Some have "stricter (invalidate_bounced i e d) d'" by (simp add: bounce_of_def stricter_restriction)
  moreover have "stricter d (invalidate_bounced i e d)" by (rule stricter_frame) (simp_all add: invalidate_bounced_def)
  ultimately show ?thesis by (rule stricter_trans [rotated])
qed (simp add: bounce_of_def)

lemma stricter_opt_out: "opt_out_of env i selected d = Inr d' \<Longrightarrow> stricter d d'"
  by (auto simp: opt_out_of_def stricter_restriction split: option.splits if_splits)

lemma stricter_sender: "resolve_sender env addr i og prefer d = Inr (s, d') \<Longrightarrow> stricter d d'"
  by (auto simp: resolve_sender_def stricter_directory split: if_splits sum.splits dest: directory_frame_resolve)

lemma stricter_links: "ensure_outbound_contact_links env k d = Inr (e, d') \<Longrightarrow> stricter d d'"
  by (drule ensure_links_Inr) (auto simp: only_links_def directory_frame_def intro: stricter_frame)

lemma stricter_updates:
  "stricter d (update_inbound k f d)" "stricter d (link_established i m t v d)" "stricter d (link_promoted i org t v d)"
  by (rule stricter_frame; simp add: update_inbound_def link_established_def link_promoted_def Let_def)+

lemma stricter_interaction: "record_genuine_contact_interaction env k t d = Inr d' \<Longrightarrow> stricter d d'"
  by (drule interaction_frame) (simp add: stricter_frame)

lemmas stricter_steps = stricter_conversation stricter_bounce stricter_opt_out stricter_sender stricter_links
  stricter_interaction stricter_withdrawal

section \<open>A reply makes a contact\<close>

text \<open>The contact a reply is attached to, in the database it leaves.\<close>

definition attached :: "inbound \<Rightarrow> inbound_effect \<Rightarrow> db \<Rightarrow> bool" where
  "attached i fx d \<longleftrightarrow>
     (\<exists>t \<in> set (contacts d). fx_contact fx = Some (t_id t) \<and> (in_classification i = UNSUBSCRIBE_REPLY \<longrightarrow> t_status t = UNSUBSCRIBED))"

lemma attached_later: "attached i fx d \<Longrightarrow> stricter d d' \<Longrightarrow> attached i fx d'"
  unfolding attached_def stricter_def by (metis (full_types))

lemma contact_attached:
  assumes "contact_for_organization org preferred (reply_reason i) j actor name d = Inr ((t, created), d1)"
    "fx_contact fx = Some (t_id t)"
  shows "attached i fx d1"
  using stricter_contact [OF assms(1)] assms(2) by (auto simp: attached_def reply_reason_def)

lemma established_reply_attached:
  assumes "established_reply env addr i og selected v d = Inr (fx, d')"
  shows "stricter d d' \<and> attached i fx d'"
proof -
  obtain s d1 t b d2 d3 d4 where 1: "resolve_sender env addr i og (selected = None) d = Inr (s, d1)"
    and 2: "contact_for_organization (o_id og) (if s \<noteq> None then s else map_option ea_id selected) (reply_reason i) (Some i) None [] d1
        = Inr ((t, b), d2)"
    and 3: "opt_out_of env i selected d2 = Inr d3"
    and 4: "record_genuine_contact_interaction env (t_id t) (in_external_at i)
        (snd (cancel_pending_campaign_work env (o_id og) txt_interacted None (Some (in_external_at i)) d3)) = Inr d4"
    and r: "fx_contact fx = Some (t_id t)" "d' = record_event ''contact.interaction_recorded'' (t_id t) None d4"
    using assms by (auto simp: established_reply_def res_simps)
  have "stricter d2 d'"
    unfolding r stricter_event
    using stricter_opt_out [OF 3] stricter_withdrawal stricter_interaction [OF 4] by (meson stricter_trans)
  then show ?thesis
    using stricter_sender [OF 1] stricter_contact [OF 2] contact_attached [OF 2 r(1)] attached_later stricter_trans by meson
qed

lemma direct_reply_attached:
  assumes "direct_reply env i e v d = Inr (fx, d')"
  shows "stricter d d' \<and> attached i fx d'"
proof -
  obtain t b d1 d2 where 1: "contact_for_organization (ea_organization e) (Some (ea_id e)) (reply_reason i) (Some i) None [] d
        = Inr ((t, b), d1)"
    and 2: "opt_out_of env i (Some e) d1 = Inr d2"
    and 3: "record_genuine_contact_interaction env (t_id t) (in_external_at i)
        (record_event ''contact.direct_inbound_imported'' (t_id t) None d2) = Inr d'"
    and r: "fx_contact fx = Some (t_id t)"
    using assms by (auto simp: direct_reply_def res_simps)
  have "stricter d1 d'"
    using stricter_opt_out [OF 2] stricter_interaction [OF 3] by (meson stricter_trans stricter_event stricter_refl)
  then show ?thesis
    using stricter_contact [OF 1] contact_attached [OF 1 r] attached_later stricter_trans by meson
qed

lemma campaign_reply_attached:
  assumes "campaign_reply env addr i og enr selected d = Inr (fx, d')"
  shows "stricter d d' \<and> attached i fx d'"
proof -
  obtain s d1 preferred t b d2 d3 where 1: "resolve_sender env addr i og (selected = None) d = Inr (s, d1)"
    and 2: "contact_for_organization (o_id og) preferred (reply_reason i) (Some i) None [] d1 = Inr ((t, b), d2)"
    and 3: "opt_out_of env i selected d2 = Inr d3"
    and r: "finish_campaign_reply env i (o_id og) enr t b d3 = Inr (fx, d')"
    using assms unfolding campaign_reply_def by (auto simp: res_simps Let_def)
  obtain v d4 where v: "conversation_for_inbound i t d3 = (v, d4)" by fastforce
  have 4: "record_genuine_contact_interaction env (t_id t) (in_external_at i)
        (record_event (if b then ''contact.promoted'' else ''contact.interaction_recorded'') (t_id t) None
          (snd (cancel_pending_campaign_work env (o_id og) txt_replied (Some enr) (Some (in_external_at i))
             (link_promoted i (o_id og) t v d4)))) = Inr d'"
    and r: "fx_contact fx = Some (t_id t)"
    using r v by (auto simp: finish_campaign_reply_def res_simps split_beta Let_def)
  have "stricter d2 d'"
    using stricter_opt_out [OF 3] stricter_conversation [OF v] stricter_updates(3) stricter_withdrawal
      stricter_interaction [OF 4] by (meson stricter_trans stricter_event stricter_refl)
  then show ?thesis
    using stricter_sender [OF 1] stricter_contact [OF 2] contact_attached [OF 2 r] attached_later stricter_trans by meson
qed

section \<open>The whole operation\<close>

lemma established_inbound:
  assumes "apply_established_contact_inbound env addr i m d = Inr (fx, d')"
  shows "stricter d d' \<and> (in_classification i \<notin> {AUTO_REPLY, BOUNCE_NOTICE} \<longrightarrow> attached i fx d')"
proof -
  obtain ck org t og where r: "(let (v, d1) = conversation_for_inbound i t d; fx0 = \<lparr>fx_contact = Some ck, fx_conversation = v, fx_created = False, fx_cancelled = 0\<rparr>;
               selected = established_selected m t d; d2 = link_established i m t v d1
             in if in_classification i = AUTO_REPLY then Inr (fx0, d2)
                else if in_classification i = BOUNCE_NOTICE then bindE (bounce_of env i selected d2) (\<lambda>d3. Inr (fx0, d3))
                else established_reply env addr i og selected v d2) = Inr (fx, d')"
    using assms by (auto simp: apply_established_contact_inbound_def res_simps Let_def split: option.splits if_splits)
  obtain v d1 where v: "conversation_for_inbound i t d = (v, d1)" by fastforce
  have s: "stricter d (link_established i m t v d1)"
    using stricter_conversation [OF v] stricter_updates(2) by (rule stricter_trans)
  show ?thesis
    using r s stricter_bounce established_reply_attached
    by (auto simp: v Let_def res_simps split: if_splits) (meson stricter_trans)+
qed

lemma direct_inbound:
  assumes "apply_direct_contact_inbound env addr i d = Inr (fx, d')"
  shows "stricter d d' \<and> (in_classification i \<notin> {AUTO_REPLY, BOUNCE_NOTICE} \<longrightarrow> attached i fx d')"
proof -
  obtain e t where r: "(let (v, d1) = conversation_for_inbound i t d; d2 = update_inbound (in_id i) (\<lambda>r. r\<lparr>in_organization := Some (ea_organization e),
                     in_contact := Some (t_id t), in_conversation := v\<rparr>) d1;
               fx0 = \<lparr>fx_contact = Some (t_id t), fx_conversation = v, fx_created = False, fx_cancelled = 0\<rparr>
             in if in_classification i = AUTO_REPLY then Inr (fx0, d2)
                else if in_classification i = BOUNCE_NOTICE then bindE (bounce_of env i (Some e) d2) (\<lambda>d3. Inr (fx0, d3))
                else direct_reply env i e v d2) = Inr (fx, d')"
    using assms by (auto simp: apply_direct_contact_inbound_def res_simps Let_def split: if_splits)
  obtain v d1 where v: "conversation_for_inbound i t d = (v, d1)" by fastforce
  have s: "stricter d (update_inbound (in_id i) f d1)" for f
    using stricter_conversation [OF v] stricter_updates(1) by (rule stricter_trans)
  show ?thesis
    using r s stricter_bounce direct_reply_attached
    by (auto simp: v Let_def res_simps split: if_splits) (meson stricter_trans)+
qed

lemma campaign_inbound:
  assumes "apply_campaign_inbound env addr i m d = Inr (fx, d')"
  shows "stricter d d' \<and> (in_classification i \<notin> {AUTO_REPLY, BOUNCE_NOTICE} \<longrightarrow> attached i fx d')"
proof -
  obtain e0 d0 e og where l: "ensure_outbound_contact_links env (m_id m) d = Inr (e0, d0)"
    and r: "(let d1 = update_inbound (in_id i) (\<lambda>r. r\<lparr>in_organization := Some (o_id og), in_enrollment := Some (e_id e)\<rparr>) d0;
               selected = campaign_selected e m d1
             in if in_classification i = AUTO_REPLY then Inr (no_effect 0, d1)
                else if in_classification i = BOUNCE_NOTICE
                then bindE (bounce_of env i selected d1) (\<lambda>d2.
                       let (n, d3) = cancel_pending_campaign_reminders env (o_id og) txt_bounced d2 in Inr (no_effect n, d3))
                else campaign_reply env addr i og (e_id e) selected d1) = Inr (fx, d')"
    using assms by (auto simp: apply_campaign_inbound_def res_simps)
  have s: "stricter d (update_inbound (in_id i) f d0)" for f
    using stricter_links [OF l] stricter_updates(1) by (rule stricter_trans)
  have c: "stricter d2 (snd (cancel_pending_campaign_reminders env (o_id og) txt_bounced d2))" for d2
    by (rule stricter_frame) (simp_all add: cancel_pending_campaign_reminders_def cancel_message_queryset_def Let_def)
  show ?thesis
    using r s stricter_bounce campaign_reply_attached c
    by (auto simp: Let_def res_simps split_beta split: if_splits) (meson stricter_trans)+
qed

lemma inbound_effect:
  assumes "apply_inbound_contact_effect env addr k d = Inr (fx, d')" "t_get in_id k (inbounds d) = Some i"
  shows "stricter d d' \<and> (in_classification i \<notin> {AUTO_REPLY, BOUNCE_NOTICE} \<longrightarrow> attached i fx d')"
  using assms established_inbound direct_inbound campaign_inbound
  by (auto simp: apply_inbound_contact_effect_def res_simps split: option.splits if_splits)

text \<open>A contact's organization is out of every campaign.\<close>

lemma contact_not_eligible: "t \<in> set (contacts d) \<Longrightarrow> e_organization e = t_organization t \<Longrightarrow> \<not> el_eligible (enrollment_eligibility e d)"
  by (auto simp: enrollment_eligibility_def not_eligible_def organization_has_contact_def list_ex_iff split: option.split)

end
