(* ===== verification/Desk.thy ===== *)
theory Desk
  imports Tasks
begin

text \<open>
  The work desk of \<open>automation/services.py\<close> as a state machine: its operations in any order, by any user and at any
  time. Two invariants hold in every state it reaches: an open task keeps its conversation suspended, and no fact and
  no workspace has two revisions in force.
\<close>

section \<open>The steps\<close>

inductive desk_step :: "db \<Rightarrow> db \<Rightarrow> bool" where
  opened: "open_human_task env ws contact conversation kind reason summary inbound decision d = Inr (t, d') \<Longrightarrow> desk_step d d'"
| closed: "close_human_task env k actor dismiss note d = Inr d' \<Longrightarrow> desk_step d d'"
| answered: "resolve_reply_review_tasks_for_manual_reply env inbound ws actor d = (n, d') \<Longrightarrow> desk_step d d'"
| mode_set: "set_non_live_mode ws actor mode d = Inr d' \<Longrightarrow> desk_step d d'"
| live_set: "set_live_mode env ws actor reauthenticated d = Inr d' \<Longrightarrow> desk_step d d'"
| fact_written: "create_knowledge_revision env ws actor title category body notes d = Inr (k, d') \<Longrightarrow> desk_step d d'"
| fact_in_force: "approve_knowledge_revision env k actor d = Inr d' \<Longrightarrow> desk_step d d'"
| context_written: "create_global_knowledge_context_revision env ws actor body notes d = Inr (k, d') \<Longrightarrow> desk_step d d'"
| context_in_force: "approve_global_knowledge_context_revision env k actor d = Inr d' \<Longrightarrow> desk_step d d'"

section \<open>What a step leaves alone\<close>

definition same_desk :: "db \<Rightarrow> db \<Rightarrow> bool" where
  "same_desk d d' \<longleftrightarrow> task_rows (automation d') = task_rows (automation d) \<and> contacts d' = contacts d
     \<and> conversations d' = conversations d"

definition same_knowledge :: "db \<Rightarrow> db \<Rightarrow> bool" where
  "same_knowledge d d' \<longleftrightarrow> fact_revisions (automation d') = fact_revisions (automation d)
     \<and> context_revisions (automation d') = context_revisions (automation d) \<and> next_id d \<le> next_id d'"

lemma same_desk_suspension: "same_desk d d' \<Longrightarrow> suspension_ok d \<Longrightarrow> suspension_ok d'"
  by (simp add: same_desk_def suspension_ok_def task_suspends_def cong: option.case_cong)

lemma same_knowledge_trans: "same_knowledge d d1 \<Longrightarrow> same_knowledge d1 d' \<Longrightarrow> same_knowledge d d'"
  by (simp add: same_knowledge_def)

lemma same_knowledge_refl [simp]: "same_knowledge d d"
  by (simp add: same_knowledge_def)

lemmas desk_frames = same_desk_def same_knowledge_def record_event_def fresh_def Let_def

lemma configuration_frames:
  "get_or_create_configuration ws d = (c, d1) \<Longrightarrow> same_desk d d1 \<and> same_knowledge d d1"
  by (auto simp: get_or_create_configuration_def desk_frames split: option.splits)

lemma mode_frames:
  "set_non_live_mode ws actor mode d = Inr d' \<Longrightarrow> same_desk d d' \<and> same_knowledge d d'"
  "set_live_mode env ws actor b d = Inr d' \<Longrightarrow> same_desk d d' \<and> same_knowledge d d'"
  by (auto simp: set_non_live_mode_def set_live_mode_def res_simps save_configuration_def Let_def record_event_def
      same_desk_def same_knowledge_def split: if_splits prod.splits dest: configuration_frames)

lemma fact_frames:
  "get_or_create_fact ws actor title category d = (fk, d1) \<Longrightarrow> same_desk d d1 \<and> same_knowledge d d1"
  by (auto simp: get_or_create_fact_def desk_frames split: option.splits)

lemma knowledge_desk:
  "create_knowledge_revision env ws actor title category body notes d = Inr (k, d') \<Longrightarrow> same_desk d d'"
  "approve_knowledge_revision env k actor d = Inr d' \<Longrightarrow> same_desk d d'"
  "create_global_knowledge_context_revision env ws actor body notes d = Inr (k, d') \<Longrightarrow> same_desk d d'"
  "approve_global_knowledge_context_revision env k actor d = Inr d' \<Longrightarrow> same_desk d d'"
  by (auto simp: create_knowledge_revision_def approve_knowledge_revision_def create_global_knowledge_context_revision_def
      approve_global_knowledge_context_revision_def res_simps Let_def record_event_def fresh_def same_desk_def
      split: if_splits prod.splits dest: fact_frames)

lemma task_knowledge:
  "open_human_task env ws contact conversation kind reason summary inbound decision d = Inr (t, d') \<Longrightarrow> same_knowledge d d'"
  "close_human_task env k actor dismiss note d = Inr d' \<Longrightarrow> same_knowledge d d'"
  "resolve_reply_review_tasks_for_manual_reply env i ws actor d = (n, d') \<Longrightarrow> same_knowledge d d'"
proof -
  have s: "next_id (suspend_conversation b k d) = next_id d" "next_id (suspend_contact b k d) = next_id d" for b k d
    by (simp_all add: suspend_conversation_def suspend_contact_def)
  have r: "same_knowledge d (resume_automation_after_task_close t d)" for t d
    by (simp add: resume_automation_after_task_close_def same_knowledge_def s split: option.split)
  have c: "same_knowledge d (close_task_row env actor status nt k d)" for env actor status nt k d
    by (simp add: close_task_row_def same_knowledge_def)
  have e: "same_knowledge d (record_event a k u d') = same_knowledge d d'" for a k u d d'
    by (simp add: same_knowledge_def record_event_def)
  show "same_knowledge d d'"
    if o: "open_human_task env ws contact conversation kind reason summary inbound decision d = Inr (t, d')"
  proof -
    obtain b d1 where g: "get_or_create_task env ws contact conversation kind reason summary inbound decision d = Inr ((t, b), d1)"
      and d': "automation d' = automation d1" "next_id d' = next_id d1"
      using o
      by (auto simp: open_human_task_def res_simps Let_def record_event_def suspend_automation_def s
          split: if_splits option.splits)
    show ?thesis using get_or_create_task_Inr [OF g] d' by (auto simp: same_knowledge_def add_task_def)
  qed
  show "close_human_task env k actor dismiss note d = Inr d' \<Longrightarrow> same_knowledge d d'"
    using same_knowledge_trans [OF c r]
    by (auto simp: close_human_task_def res_simps Let_def e split: if_splits)
  have "same_knowledge d (fold (resolve_one_review env actor) ts d)" for ts
  proof (induction ts arbitrary: d)
    case (Cons t ts)
    have "same_knowledge d (resolve_one_review env actor t d)"
      unfolding resolve_one_review_def e by (rule same_knowledge_trans [OF c r])
    then show ?case using same_knowledge_trans Cons.IH by fastforce
  qed (simp add: same_knowledge_def)
  then show "resolve_reply_review_tasks_for_manual_reply env i ws actor d = (n, d') \<Longrightarrow> same_knowledge d d'"
    by (auto simp: resolve_reply_review_tasks_for_manual_reply_def Let_def)
qed

section \<open>The invariants\<close>

lemma desk_step_suspension: "desk_step d d' \<Longrightarrow> suspension_ok d \<Longrightarrow> suspension_ok d'"
proof (induction rule: desk_step.induct)
  case opened
  then show ?case using open_task_suspends by blast
next
  case closed
  then show ?case by (auto simp: close_human_task_def res_simps Let_def close_row_suspends split: if_splits)
next
  case answered
  then show ?case by (auto simp: resolve_reply_review_tasks_for_manual_reply_def Let_def reviews_suspend)
qed (blast dest: mode_frames knowledge_desk intro: same_desk_suspension)+

text \<open>Keys are unique and below the next one, and at most one revision of each group is in force.\<close>

definition knowledge_ok :: "db \<Rightarrow> bool" where
  "knowledge_ok d \<longleftrightarrow> knowledge_current (automation d)
     \<and> distinct (map kr_id (fact_revisions (automation d))) \<and> distinct (map kc_id (context_revisions (automation d)))
     \<and> (\<forall>r \<in> set (fact_revisions (automation d)). kr_id r < next_id d)
     \<and> (\<forall>r \<in> set (context_revisions (automation d)). kc_id r < next_id d)"

lemma same_knowledge_ok: "same_knowledge d d' \<Longrightarrow> knowledge_ok d \<Longrightarrow> knowledge_ok d'"
  by (auto simp: same_knowledge_def knowledge_ok_def knowledge_current_def intro: less_le_trans)

lemma approve_keys [simp]:
  "map kr_id (approve_fact_revision now actor k fk rows) = map kr_id rows"
  "map kc_id (approve_context_revision now actor k ws crows) = map kc_id crows"
  by (simp_all add: approve_fact_revision_def approve_context_revision_def map_key_update t_save_def)

lemma same_keys_below: "map key xs = map key ys \<Longrightarrow> (\<forall>r \<in> set xs. key r < (n :: nat)) = (\<forall>r \<in> set ys. key r < n)"
proof -
  have "(\<forall>r \<in> set zs. key r < n) = list_all (\<lambda>x. x < n) (map key zs)" for zs by (simp add: list_all_iff)
  then show "map key xs = map key ys \<Longrightarrow> ?thesis" by simp
qed

lemmas approved_below [simp] = same_keys_below [OF approve_keys(1)] same_keys_below [OF approve_keys(2)]

lemma written_knowledge:
  "create_knowledge_revision env ws actor title category body notes d = Inr (k, d') \<Longrightarrow> knowledge_ok d \<Longrightarrow> knowledge_ok d'"
  "create_global_knowledge_context_revision env ws actor body notes d = Inr (k, d') \<Longrightarrow> knowledge_ok d \<Longrightarrow> knowledge_ok d'"
proof -
  assume k: "knowledge_ok d"
  show "knowledge_ok d'" if a: "create_knowledge_revision env ws actor title category body notes d = Inr (k, d')"
  proof -
    obtain fk d1 where f: "get_or_create_fact ws actor (py_strip title) (py_strip category) d = (fk, d1)"
      by fastforce
    then have "\<exists>r. kr_id r = next_id d1 \<and> kr_approved_at r = None
        \<and> fact_revisions (automation d') = fact_revisions (automation d1) @ [r]
        \<and> context_revisions (automation d') = context_revisions (automation d1) \<and> next_id d' = Suc (next_id d1)"
      using a by (auto simp: create_knowledge_revision_def res_simps Let_def record_event_def fresh_def split: if_splits)
    then obtain r where r: "kr_id r = next_id d1" "kr_approved_at r = None"
      and d': "fact_revisions (automation d') = fact_revisions (automation d1) @ [r]"
        "context_revisions (automation d') = context_revisions (automation d1)" "next_id d' = Suc (next_id d1)"
      by blast
    have "knowledge_ok d1" using same_knowledge_ok fact_frames [OF f] k by blast
    then show ?thesis using r d' by (auto simp: knowledge_ok_def knowledge_current_def unique_on_def less_Suc_eq)
  qed
  show "knowledge_ok d'" if a: "create_global_knowledge_context_revision env ws actor body notes d = Inr (k, d')"
  proof -
    have "\<exists>r. kc_id r = next_id d \<and> kc_approved_at r = None
        \<and> context_revisions (automation d') = context_revisions (automation d) @ [r]
        \<and> fact_revisions (automation d') = fact_revisions (automation d) \<and> next_id d' = Suc (next_id d)"
      using a by (auto simp: create_global_knowledge_context_revision_def res_simps Let_def record_event_def fresh_def
          split: if_splits)
    then show ?thesis using k by (force simp: knowledge_ok_def knowledge_current_def unique_on_def less_Suc_eq)
  qed
qed

lemma approved_knowledge:
  "approve_knowledge_revision env k actor d = Inr d' \<Longrightarrow> knowledge_ok d \<Longrightarrow> knowledge_ok d'"
  "approve_global_knowledge_context_revision env k actor d = Inr d' \<Longrightarrow> knowledge_ok d \<Longrightarrow> knowledge_ok d'"
proof -
  assume k: "knowledge_ok d"
  show "knowledge_ok d'" if a: "approve_knowledge_revision env k actor d = Inr d'"
  proof (cases "d' = d")
    case False
    then obtain r where "t_get kr_id k (fact_revisions (automation d)) = Some r"
      "automation d' = (automation d)\<lparr>fact_revisions :=
         approve_fact_revision (clock env) actor k (kr_fact r) (fact_revisions (automation d))\<rparr>" "next_id d' = next_id d"
      using a by (auto simp: approve_knowledge_revision_def res_simps Let_def record_event_def split: if_splits)
    then show ?thesis using k fact_supersede by (simp add: knowledge_ok_def)
  qed (use k in simp)
  show "knowledge_ok d'" if a: "approve_global_knowledge_context_revision env k actor d = Inr d'"
  proof (cases "d' = d")
    case False
    then obtain r where "t_get kc_id k (context_revisions (automation d)) = Some r"
      "automation d' = (automation d)\<lparr>context_revisions :=
         approve_context_revision (clock env) actor k (kc_workspace r) (context_revisions (automation d))\<rparr>"
      "next_id d' = next_id d"
      using a by (auto simp: approve_global_knowledge_context_revision_def res_simps Let_def record_event_def split: if_splits)
    then show ?thesis using k context_supersede by (simp add: knowledge_ok_def)
  qed (use k in simp)
qed

lemma desk_step_knowledge: "desk_step d d' \<Longrightarrow> knowledge_ok d \<Longrightarrow> knowledge_ok d'"
  by (induction rule: desk_step.induct)
    (blast dest: mode_frames task_knowledge intro: same_knowledge_ok written_knowledge approved_knowledge)+

lemma desk_reaches_suspension:
  assumes "desk_step\<^sup>*\<^sup>* d d'" "suspension_ok d"
  shows "suspension_ok d'"
  using assms by (induction rule: rtranclp_induct) (use desk_step_suspension in blast)+

lemma desk_reaches_knowledge:
  assumes "desk_step\<^sup>*\<^sup>* d d'" "knowledge_ok d"
  shows "knowledge_ok d'"
  using assms by (induction rule: rtranclp_induct) (use desk_step_knowledge in blast)+

end
