(* ===== verification/Classification.thy ===== *)
theory Classification
  imports Regex Db
begin

text \<open>
  \<open>mailbox/classification.py\<close>: what part of a reply is new, the four classifications that no model decides, and
  the call of the model for the rest. A confidence is a number of thousandths.
\<close>

section \<open>The new text of a reply\<close>

text \<open>\<open>str.splitlines()\<close> below U+0100.\<close>

definition line_end :: "char \<Rightarrow> bool" where
  "line_end c \<longleftrightarrow> of_char c \<in> {10::nat, 11, 12, 13, 28, 29, 30, 133}"

fun split_lines :: "str \<Rightarrow> str \<Rightarrow> str list" where
  "split_lines acc [] = (if acc = [] then [] else [rev acc])"
| "split_lines acc [c] = [rev (if line_end c then acc else c # acc)]"
| "split_lines acc (c # c' # cs) =
     (if c = CHR 0x0D \<and> c' = CHR 0x0A then rev acc # split_lines [] cs
      else if line_end c then rev acc # split_lines [] (c' # cs)
      else split_lines (c # acc) (c' # cs))"

definition py_splitlines :: "str \<Rightarrow> str list" where
  "py_splitlines s = split_lines [] s"

definition starts_with :: "str \<Rightarrow> str \<Rightarrow> bool" where
  "starts_with p s \<longleftrightarrow> take (length p) s = p"

definition ends_with :: "str \<Rightarrow> str \<Rightarrow> bool" where
  "ends_with p s \<longleftrightarrow> length p \<le> length s \<and> drop (length s - length p) s = p"

text \<open>The lines after which everything is the message that was answered.\<close>

definition history_starts :: "str \<Rightarrow> bool" where
  "history_starts line \<longleftrightarrow>
     (let lowered = py_casefold (py_strip line)
      in starts_with ''on '' lowered \<and> ends_with '' wrote:'' lowered
         \<or> starts_with ''el '' lowered
             \<and> (contains_text (''escribi'' @ [CHR 0xF3] @ '':'') lowered \<or> contains_text ''escribio:'' lowered)
         \<or> contains_text ''mensaje original'' lowered \<or> contains_text ''original message'' lowered)"

definition quoted_line :: "str \<Rightarrow> bool" where
  "quoted_line line \<longleftrightarrow> starts_with ''>'' (py_strip line)"

fun newest_lines :: "str list \<Rightarrow> str list" where
  "newest_lines [] = []"
| "newest_lines (l # ls) =
     (if quoted_line l then newest_lines ls
      else if history_starts l then []
      else l # newest_lines ls)"

definition newest_reply_text :: "str \<Rightarrow> str" where
  "newest_reply_text body = py_strip (py_join [CHR 0x0A] (newest_lines (py_splitlines body)))"

section \<open>The patterns\<close>

definition BOUNCE_SUBJECT :: rx where
  "BOUNCE_SUBJECT = alt_rx
     [text_rx ''delivery status notification'',
      Seq (text_rx ''undeliver'') (alt_rx [text_rx ''ed'', text_rx ''able'']),
      text_rx ''mail delivery'', text_rx ''mensaje no entregado'']"

definition BOUNCE_BODY :: rx where
  "BOUNCE_BODY = alt_rx
     [text_rx ''recipient address rejected'', text_rx ''user unknown'',
      Seq (text_rx ''mailbox '') (alt_rx [text_rx ''does not exist'', text_rx ''unavailable'', text_rx ''full'']),
      text_rx ''permanent failure'', text_rx ''no se pudo entregar'']"

definition UNSUBSCRIBE_PATTERN :: rx where
  "UNSUBSCRIBE_PATTERN = seq_rx
     [WordBoundary,
      alt_rx
        [text_rx ''baja'', Seq (text_rx ''desuscrib'') (alt_rx [text_rx ''irme'', text_rx ''ite'']),
         text_rx ''darme de baja'',
         seq_rx [text_rx ''no '', opt_rx (text_rx ''me ''), alt_rx [text_rx ''contacten'', text_rx ''escriban'']],
         text_rx ''dejar de recibir''],
      WordBoundary]"

definition AUTO_REPLY_PATTERN :: rx where
  "AUTO_REPLY_PATTERN = alt_rx
     [seq_rx [text_rx ''respuesta autom'', Alt (any_case CHR ''a'') (any_case CHR 0xE1), text_rx ''tica''],
      seq_rx [text_rx ''fuera de '', opt_rx (text_rx ''la ''), text_rx ''oficina''],
      text_rx ''out of office'', text_rx ''automatic reply'', text_rx ''vacation'']"

section \<open>Classifying\<close>

definition header :: "str \<Rightarrow> (str \<times> str) list \<Rightarrow> str" where
  "header k hs = (case map_of hs k of None \<Rightarrow> [] | Some v \<Rightarrow> v)"

definition looks_bounced :: "str \<Rightarrow> str \<Rightarrow> str \<Rightarrow> bool" where
  "looks_bounced sender subject newest \<longleftrightarrow>
     contains_text ''mailer-daemon'' (py_casefold sender) \<or> contains_text ''postmaster@'' (py_casefold sender)
     \<or> rx_search BOUNCE_SUBJECT subject \<or> rx_search BOUNCE_BODY newest"

definition looks_automatic :: "str \<Rightarrow> str \<Rightarrow> (str \<times> str) list \<Rightarrow> bool" where
  "looks_automatic subject newest hs \<longleftrightarrow>
     (let auto_submitted = py_casefold (header ''Auto-Submitted'' hs);
          precedence = py_casefold (header ''Precedence'' hs)
      in auto_submitted \<noteq> [] \<and> auto_submitted \<noteq> ''no''
         \<or> header ''X-Autoreply'' hs \<noteq> [] \<or> header ''X-Auto-Response-Suppress'' hs \<noteq> []
         \<or> precedence \<in> {''auto_reply'', ''bulk'', ''junk''}
         \<or> rx_search AUTO_REPLY_PATTERN subject \<or> rx_search AUTO_REPLY_PATTERN newest)"

definition deterministic_classification ::
    "str \<Rightarrow> str \<Rightarrow> str \<Rightarrow> (str \<times> str) list \<Rightarrow> (classification \<times> int) option" where
  "deterministic_classification sender subject body hs =
     (let newest = newest_reply_text body
      in if looks_bounced sender subject newest then Some (BOUNCE_NOTICE, 1000)
         else if rx_search UNSUBSCRIBE_PATTERN newest then Some (UNSUBSCRIBE_REPLY, 1000)
         else if looks_automatic subject newest hs then Some (AUTO_REPLY, 1000)
         else None)"

text \<open>What the model answered: a label and a confidence, or an error. The label is text until it is recognised.\<close>

definition classification_of_value :: "str \<Rightarrow> classification option" where
  "classification_of_value v =
     map_of [(''INTERESTED'', INTERESTED), (''NOT_INTERESTED'', NOT_INTERESTED), (''UNSUBSCRIBE'', UNSUBSCRIBE_REPLY),
             (''AUTO_REPLY'', AUTO_REPLY), (''BOUNCE'', BOUNCE_NOTICE), (''OTHER'', OTHER_REPLY)] v"

definition txt_unknown_classification :: str where
  "txt_unknown_classification = ''Clasificaci'' @ [CHR 0xF3] @ ''n IA desconocida.''"

definition classify_message ::
    "(str \<Rightarrow> str + str \<times> int) \<Rightarrow> env \<Rightarrow> inbound \<Rightarrow> bool \<Rightarrow> classification \<times> int \<times> str" where
  "classify_message classify_reply env m apply_deterministic =
     (case (if apply_deterministic
            then deterministic_classification (in_sender m) (in_subject m) (in_body_text m) (in_headers m)
            else None) of
        Some (c, k) \<Rightarrow> (c, k, [])
      | None \<Rightarrow>
          (case classify_reply (newest_reply_text (in_body_text m)) of
             Inl err \<Rightarrow> (OTHER_REPLY, 0, redact env err)
           | Inr (label, confidence) \<Rightarrow>
               (case classification_of_value label of
                  None \<Rightarrow> (OTHER_REPLY, 0, txt_unknown_classification)
                | Some c \<Rightarrow> (c, max 0 (min 1000 confidence), []))))"

section \<open>Lemmas\<close>

lemma newest_lines_history:
  "history_starts l \<Longrightarrow> \<not> quoted_line l \<Longrightarrow> newest_lines (ls @ l # rest) = newest_lines ls"
  by (induction ls) auto

lemma newest_lines_quoted: "quoted_line l \<Longrightarrow> newest_lines (ls @ l # rest) = newest_lines (ls @ rest)"
  by (induction ls) auto

text \<open>No line of the new text is a quotation or starts the history.\<close>

lemma newest_lines_authored: "l \<in> set (newest_lines ls) \<Longrightarrow> l \<in> set ls \<and> \<not> quoted_line l \<and> \<not> history_starts l"
  by (induction ls) (auto split: if_splits)

section \<open>Asking to be left alone\<close>

text \<open>\<open>w\<close> is \<open>s\<close> up to the case of its letters; \<open>after b w\<close> is the character before the text that follows \<open>w\<close>.\<close>

definition casing_of :: "str \<Rightarrow> str \<Rightarrow> bool" where
  "casing_of s w = list_all2 (\<lambda>c x. x = c \<or> x = upper_of c) s w"

definition after :: "char option \<Rightarrow> str \<Rightarrow> char option" where
  "after b w = (if w = [] then b else Some (last w))"

text \<open>A pattern that takes every casing of a text.\<close>

definition takes :: "rx \<Rightarrow> str \<Rightarrow> bool" where
  "takes r s \<longleftrightarrow> (\<forall>w b v. casing_of s w \<longrightarrow> matches r (b, w @ v) (after b w, v))"

named_theorems takes_intros

lemma takes_eps: "takes Eps []"
  by (simp add: takes_def casing_of_def after_def)

lemma takes_seq [takes_intros]:
  assumes "takes r s" "takes r' s'"
  shows "takes (Seq r r') (s @ s')"
  unfolding takes_def
proof (intro allI impI)
  fix w b v
  assume "casing_of (s @ s') w"
  then obtain u u' where w: "w = u @ u'" "casing_of s u" "casing_of s' u'"
    by (auto simp: casing_of_def list_all2_append1)
  have "matches r (b, u @ u' @ v) (after b u, u' @ v)" "matches r' (after b u, u' @ v) (after (after b u) u', v)"
    using assms w(2,3) by (auto simp: takes_def)
  moreover have "after (after b u) u' = after b w" by (simp add: w(1) after_def)
  ultimately show "matches (Seq r r') (b, w @ v) (after b w, v)" using w(1) matches.seq by fastforce
qed

lemma takes_alt [takes_intros]: "takes r s \<Longrightarrow> takes (Alt r r') s" "takes r' s \<Longrightarrow> takes (Alt r r') s"
  by (auto simp: takes_def matches.alt_left matches.alt_right simp del: match_simps)

lemma takes_text [takes_intros]: "takes (text_rx s) s"
proof (induction s)
  case Nil
  then show ?case by (simp add: text_rx_def takes_eps)
next
  case (Cons c s)
  have c: "takes (any_case c) [c]"
    by (auto simp: takes_def casing_of_def list_all2_Cons1 any_case_def after_def)
  show ?case
  proof (cases s)
    case Nil
    then show ?thesis using c by (simp add: text_rx_def)
  next
    case (Cons c' s')
    then have "text_rx (c # s) = Seq (any_case c) (text_rx s)" by (simp add: text_rx_def)
    then show ?thesis using takes_seq [OF c Cons.IH] by simp
  qed
qed

definition OPT_OUT_PHRASES :: "str list" where
  "OPT_OUT_PHRASES =
     [''baja'', ''desuscribirme'', ''desuscribite'', ''darme de baja'', ''no contacten'', ''no escriban'',
      ''no me contacten'', ''no me escriban'', ''dejar de recibir'']"

definition isolated :: "str \<Rightarrow> str \<Rightarrow> bool" where
  "isolated u v \<longleftrightarrow> (u = [] \<or> \<not> py_word_char (last u)) \<and> (v = [] \<or> \<not> py_word_char (hd v))"

lemma opt_out_phrases_taken:
  "\<exists>r. UNSUBSCRIBE_PATTERN = seq_rx [WordBoundary, r, WordBoundary] \<and> list_all (takes r) OPT_OUT_PHRASES"
proof -
  define r where "r = alt_rx
        [text_rx ''baja'', Seq (text_rx ''desuscrib'') (alt_rx [text_rx ''irme'', text_rx ''ite'']),
         text_rx ''darme de baja'',
         seq_rx [text_rx ''no '', opt_rx (text_rx ''me ''), alt_rx [text_rx ''contacten'', text_rx ''escriban'']],
         text_rx ''dejar de recibir'']"
  have "takes r (''desuscrib'' @ ''irme'')" "takes r (''desuscrib'' @ ''ite'')"
    "takes r (''no '' @ [] @ ''contacten'')" "takes r (''no '' @ [] @ ''escriban'')"
    "takes r (''no '' @ ''me '' @ ''contacten'')" "takes r (''no '' @ ''me '' @ ''escriban'')"
    "takes r ''baja''" "takes r ''darme de baja''" "takes r ''dejar de recibir''"
    unfolding r_def alt_rx.simps seq_rx.simps opt_rx_def
    by (blast intro: takes_intros takes_eps)+
  then have "list_all (takes r) OPT_OUT_PHRASES" by (simp add: OPT_OUT_PHRASES_def)
  then show ?thesis unfolding UNSUBSCRIBE_PATTERN_def r_def by blast
qed

lemma phrase_ends_are_letters:
  "list_all (\<lambda>s. s \<noteq> [] \<and> list_all (\<lambda>c. py_word_char c \<and> py_word_char (upper_of c)) [hd s, last s]) OPT_OUT_PHRASES"
  by code_simp

text \<open>A text with one of the phrases in it, in any case and as words of their own, is found.\<close>

lemma opt_out_found:
  assumes "s \<in> set OPT_OUT_PHRASES" "casing_of s w" "isolated u v"
  shows "rx_search UNSUBSCRIBE_PATTERN (u @ w @ v)"
proof -
  obtain r where r: "UNSUBSCRIBE_PATTERN = seq_rx [WordBoundary, r, WordBoundary]" "takes r s"
    using opt_out_phrases_taken assms(1) by (auto simp: list_all_iff)
  define b where "b = (if u = [] then None else Some (last u))"
  have len: "length w = length s" "w \<noteq> []" "s \<noteq> []"
    using assms(2) phrase_ends_are_letters assms(1) by (auto simp: casing_of_def list_all_iff dest: list_all2_lengthD)
  have letters: "py_word_char (hd w)" "py_word_char (last w)"
  proof -
    have e: "py_word_char (hd s) \<and> py_word_char (upper_of (hd s)) \<and> py_word_char (last s) \<and> py_word_char (upper_of (last s))"
      using phrase_ends_are_letters assms(1) by (auto simp: list_all_iff)
    have "\<forall>i < length s. w ! i = s ! i \<or> w ! i = upper_of (s ! i)"
      using assms(2) by (simp add: casing_of_def list_all2_conv_all_nth)
    then have "hd w = hd s \<or> hd w = upper_of (hd s)" "last w = last s \<or> last w = upper_of (last s)"
      using len by (auto simp: hd_conv_nth last_conv_nth)
    then show "py_word_char (hd w)" "py_word_char (last w)" using e by auto
  qed
  have "at_word_boundary (b, w @ v)"
    using assms(3) letters(1) len(2) by (cases w) (auto simp: at_word_boundary_def b_def isolated_def)
  moreover have "at_word_boundary (after b w, v)"
    using assms(3) letters(2) len(2) by (cases v) (auto simp: at_word_boundary_def after_def isolated_def)
  moreover have "matches r (b, w @ v) (after b w, v)" using r(2) assms(2) by (simp add: takes_def)
  ultimately have "matches UNSUBSCRIBE_PATTERN (b, w @ v) (after b w, v)"
    unfolding r(1) seq_rx.simps using matches.seq matches.boundary by metis
  moreover have "b = (if length u = 0 then None else Some ((u @ w @ v) ! (length u - 1)))"
    by (simp add: b_def last_conv_nth nth_append)
  ultimately show ?thesis
    unfolding rx_search_def search_from_iff by (intro exI [of _ "length u"] exI [of _ "(after b w, v)"]) simp
qed

lemma opt_out_classified:
  assumes "newest_reply_text body = u @ w @ v" "s \<in> set OPT_OUT_PHRASES" "casing_of s w" "isolated u v"
    "\<not> looks_bounced sender subject (u @ w @ v)"
  shows "deterministic_classification sender subject body hs = Some (UNSUBSCRIBE_REPLY, 1000)"
  using assms opt_out_found by (simp add: deterministic_classification_def Let_def)

text \<open>A confidence is a probability, and an error comes with the neutral answer.\<close>

lemma classification_bounds:
  "case classify_message ask env m det of (c, k, err) \<Rightarrow> 0 \<le> k \<and> k \<le> 1000 \<and> (err = [] \<or> c = OTHER_REPLY \<and> k = 0)"
  by (simp add: classify_message_def deterministic_classification_def Let_def split: option.split sum.split)

end
