(* ===== verification/Sanitizer.thy ===== *)
theory Sanitizer
  imports Prelude "HOL-Library.Sublist"
begin

text \<open>
  \<open>mailbox/sanitizer.py\<close>: the readable text and the harmless HTML kept of an inbound mail. The events are the
  calls \<open>html.parser.HTMLParser\<close> makes of its handlers; the parser is a parameter.
\<close>

type_synonym html_attrs = "(str \<times> str option) list"

datatype html_event = StartTag str html_attrs | StartEndTag str html_attrs | EndTag str | TextData str

definition ALLOWED_TAGS :: "str list" where
  "ALLOWED_TAGS = [''blockquote'', ''br'', ''code'', ''div'', ''em'', ''li'', ''ol'', ''p'', ''pre'', ''span'', ''strong'', ''ul'']"

definition BLOCKED_WITH_CONTENT :: "str list" where
  "BLOCKED_WITH_CONTENT = [''form'', ''iframe'', ''object'', ''script'', ''style'', ''svg'']"

definition BLOCK_TAGS :: "str list" where
  "BLOCK_TAGS = [''blockquote'', ''br'', ''div'', ''li'', ''ol'', ''p'', ''pre'', ''ul'']"

definition MAX_BODY_CHARS :: nat where
  "MAX_BODY_CHARS = 200000"

record sanitizer =
  z_output :: "str list"
  z_text :: "str list"
  z_blocked :: nat

definition put_output :: "str \<Rightarrow> sanitizer \<Rightarrow> sanitizer" where
  "put_output s z = z\<lparr>z_output := z_output z @ [s]\<rparr>"

definition put_text :: "str \<Rightarrow> sanitizer \<Rightarrow> sanitizer" where
  "put_text s z = z\<lparr>z_text := z_text z @ [s]\<rparr>"

definition start_tag :: "str \<Rightarrow> sanitizer \<Rightarrow> sanitizer" where
  "start_tag tag z =
     (let t = py_casefold tag
      in if t \<in> set BLOCKED_WITH_CONTENT then z\<lparr>z_blocked := z_blocked z + 1\<rparr>
         else if z_blocked z \<noteq> 0 then z
         else
           let z1 = (if t \<in> set ALLOWED_TAGS then put_output (''<'' @ t @ ''>'') z else z)
           in if t \<in> set BLOCK_TAGS then put_text [CHR 0x0A] z1 else z1)"

definition end_tag :: "str \<Rightarrow> sanitizer \<Rightarrow> sanitizer" where
  "end_tag tag z =
     (let t = py_casefold tag
      in if t \<in> set BLOCKED_WITH_CONTENT then z\<lparr>z_blocked := z_blocked z - 1\<rparr>
         else if z_blocked z \<noteq> 0 then z
         else
           let z1 = (if t \<in> set ALLOWED_TAGS \<and> t \<noteq> ''br'' then put_output (''</'' @ t @ ''>'') z else z)
           in if t \<in> set BLOCK_TAGS then put_text [CHR 0x0A] z1 else z1)"

text \<open>\<open>html.escape(data, quote=False)\<close>.\<close>

definition escape_char :: "char \<Rightarrow> str" where
  "escape_char c =
     (if c = CHR ''&'' then ''&amp;'' else if c = CHR ''<'' then ''&lt;'' else if c = CHR ''>'' then ''&gt;'' else [c])"

definition html_escape :: "str \<Rightarrow> str" where
  "html_escape s = concat (map escape_char s)"

definition text_data :: "str \<Rightarrow> sanitizer \<Rightarrow> sanitizer" where
  "text_data data z =
     (if z_blocked z \<noteq> 0 then z
      else
        let bounded = take MAX_BODY_CHARS data
        in put_text bounded (put_output (html_escape bounded) z))"

fun handle_event :: "html_event \<Rightarrow> sanitizer \<Rightarrow> sanitizer" where
  "handle_event (StartTag t attrs) z = start_tag t z"
| "handle_event (StartEndTag t attrs) z = end_tag t (start_tag t z)"
| "handle_event (EndTag t) z = end_tag t z"
| "handle_event (TextData s) z = text_data s z"

definition empty_sanitizer :: sanitizer where
  "empty_sanitizer = \<lparr>z_output = [], z_text = [], z_blocked = 0\<rparr>"

section \<open>Readable text\<close>

fun unix_newlines :: "str \<Rightarrow> str" where
  "unix_newlines [] = []"
| "unix_newlines [c] = [if c = CHR 0x0D then CHR 0x0A else c]"
| "unix_newlines (c # c' # cs) =
     (if c = CHR 0x0D then CHR 0x0A # (if c' = CHR 0x0A then unix_newlines cs else unix_newlines (c' # cs))
      else c # unix_newlines (c' # cs))"

text \<open>\<open>re.sub(r"[ \t]+", " ", text)\<close>; the flag says that the previous character was a blank.\<close>

fun collapse_blanks :: "bool \<Rightarrow> str \<Rightarrow> str" where
  "collapse_blanks b [] = []"
| "collapse_blanks b (c # cs) =
     (if c = CHR '' '' \<or> c = CHR 0x09 then (if b then collapse_blanks True cs else CHR '' '' # collapse_blanks True cs)
      else c # collapse_blanks False cs)"

text \<open>\<open>re.sub(r" *\n *", "\n", text)\<close>: \<open>n\<close> spaces are pending, or the last character was a newline.\<close>

fun trim_lines :: "nat option \<Rightarrow> str \<Rightarrow> str" where
  "trim_lines p [] = (case p of None \<Rightarrow> [] | Some n \<Rightarrow> replicate n CHR '' '')"
| "trim_lines p (c # cs) =
     (if c = CHR '' '' then trim_lines (map_option Suc p) cs
      else if c = CHR 0x0A then CHR 0x0A # trim_lines None cs
      else (case p of None \<Rightarrow> [] | Some n \<Rightarrow> replicate n CHR '' '') @ c # trim_lines (Some 0) cs)"

text \<open>\<open>re.sub(r"\n{3,}", "\n\n", text)\<close>; \<open>n\<close> newlines precede.\<close>

fun limit_newlines :: "nat \<Rightarrow> str \<Rightarrow> str" where
  "limit_newlines n [] = []"
| "limit_newlines n (c # cs) =
     (if c = CHR 0x0A then (if 2 \<le> n then limit_newlines n cs else c # limit_newlines (Suc n) cs)
      else c # limit_newlines 0 cs)"

definition readable_text :: "str \<Rightarrow> str" where
  "readable_text value =
     take MAX_BODY_CHARS
       (py_strip (limit_newlines 0 (trim_lines (Some 0) (collapse_blanks False (unix_newlines value)))))"

definition sanitize_email_bodies :: "(str \<Rightarrow> html_event list) \<Rightarrow> str \<Rightarrow> str \<Rightarrow> str \<times> str" where
  "sanitize_email_bodies parse body_text body_html =
     (let z = fold handle_event (parse (take MAX_BODY_CHARS body_html)) empty_sanitizer;
          sanitized = take MAX_BODY_CHARS (concat (z_output z));
          readable = readable_text body_text
      in (if readable = [] then readable_text (concat (z_text z)) else readable, sanitized))"

section \<open>The sanitized HTML is harmless\<close>

definition allowed_markup :: "str set" where
  "allowed_markup = {''<'' @ t @ ''>'' | t. t \<in> set ALLOWED_TAGS} \<union> {''</'' @ t @ ''>'' | t. t \<in> set ALLOWED_TAGS}"

text \<open>Every \<open><\<close> of a text opens one of the allowed tags, without attributes; the last one may be cut off.\<close>

definition harmless :: "str \<Rightarrow> bool" where
  "harmless s \<longleftrightarrow> (\<forall>a b. s = a @ CHR ''<'' # b \<longrightarrow>
     (\<exists>t \<in> allowed_markup. prefix t (CHR ''<'' # b) \<or> prefix (CHR ''<'' # b) t))"

definition piece_ok :: "str \<Rightarrow> bool" where
  "piece_ok p \<longleftrightarrow> CHR ''<'' \<notin> set p \<or> p \<in> allowed_markup"

lemma allowed_tags_plain: "t \<in> set ALLOWED_TAGS \<Longrightarrow> CHR ''<'' \<notin> set t"
  by (auto simp: ALLOWED_TAGS_def)

lemma markup_head: "t \<in> allowed_markup \<Longrightarrow> \<exists>u. t = CHR ''<'' # u \<and> CHR ''<'' \<notin> set u"
  using allowed_tags_plain by (fastforce simp: allowed_markup_def)

lemma escaped_plain: "CHR ''<'' \<notin> set (html_escape s)"
  by (auto simp: html_escape_def escape_char_def)

lemma harmless_take:
  assumes "harmless s"
  shows "harmless (take n s)"
  unfolding harmless_def
proof (intro allI impI)
  fix a b
  assume s: "take n s = a @ CHR ''<'' # b"
  then have "s = a @ CHR ''<'' # (b @ drop n s)" by (metis append.assoc append_Cons append_take_drop_id)
  then obtain t where t: "t \<in> allowed_markup" "prefix t ((CHR ''<'' # b) @ drop n s) \<or> prefix ((CHR ''<'' # b) @ drop n s) t"
    using assms unfolding harmless_def by (metis append_Cons)
  have "prefix (CHR ''<'' # b) ((CHR ''<'' # b) @ drop n s)" by (rule prefixI) simp
  then have "prefix t (CHR ''<'' # b) \<or> prefix (CHR ''<'' # b) t"
    using t(2) prefix_same_cases prefix_order.trans by blast
  then show "\<exists>t \<in> allowed_markup. prefix t (CHR ''<'' # b) \<or> prefix (CHR ''<'' # b) t" using t(1) by blast
qed

lemma harmless_concat:
  assumes "\<forall>p \<in> set ps. piece_ok p"
  shows "harmless (concat ps)"
  unfolding harmless_def
proof (intro allI impI)
  fix a b
  assume "concat ps = a @ CHR ''<'' # b"
  then show "\<exists>t \<in> allowed_markup. prefix t (CHR ''<'' # b) \<or> prefix (CHR ''<'' # b) t"
    using assms
  proof (induction ps arbitrary: a)
    case (Cons p ps)
    then have eq: "p @ concat ps = a @ CHR ''<'' # b" by simp
    then consider u where "p = a @ CHR ''<'' # u" "b = u @ concat ps" | u where "a = p @ u" "concat ps = u @ CHR ''<'' # b"
      by (auto simp: append_eq_append_conv2 append_eq_Cons_conv Cons_eq_append_conv)
    then show ?case
    proof cases
      case 1
      then have "p \<in> allowed_markup" using Cons.prems(2) by (auto simp: piece_ok_def)
      then have "a = []" using markup_head [of p] 1(1) by (cases a) auto
      then have "prefix p (CHR ''<'' # b)" using 1 by (intro prefixI [of _ _ "concat ps"]) simp
      then show ?thesis using \<open>p \<in> allowed_markup\<close> by blast
    next
      case 2
      then show ?thesis using Cons.IH [of u] Cons.prems(2) by simp
    qed
  qed simp
qed

definition pieces_ok :: "sanitizer \<Rightarrow> bool" where
  "pieces_ok z \<longleftrightarrow> (\<forall>p \<in> set (z_output z). piece_ok p)"

lemma pieces_ok_put [simp]:
  "pieces_ok (put_output s z) \<longleftrightarrow> piece_ok s \<and> pieces_ok z"
  "pieces_ok (put_text s z) \<longleftrightarrow> pieces_ok z"
  "pieces_ok (z\<lparr>z_blocked := n\<rparr>) \<longleftrightarrow> pieces_ok z"
  by (auto simp: pieces_ok_def put_output_def put_text_def)

lemma piece_ok_markup:
  "t \<in> set ALLOWED_TAGS \<Longrightarrow> piece_ok (''<'' @ t @ ''>'')" "t \<in> set ALLOWED_TAGS \<Longrightarrow> piece_ok (''</'' @ t @ ''>'')"
  unfolding piece_ok_def allowed_markup_def by blast+

lemma pieces_ok_tags:
  "pieces_ok z \<Longrightarrow> pieces_ok (start_tag t z)" "pieces_ok z \<Longrightarrow> pieces_ok (end_tag t z)"
  using piece_ok_markup [of "py_casefold t"] by (simp_all add: start_tag_def end_tag_def Let_def)

lemma handle_event_pieces: "pieces_ok z \<Longrightarrow> pieces_ok (handle_event e z)"
  using escaped_plain by (cases e) (simp_all add: pieces_ok_tags text_data_def Let_def piece_ok_def)

lemma fold_event_pieces: "pieces_ok z \<Longrightarrow> pieces_ok (fold handle_event es z)"
  by (induction es arbitrary: z) (simp_all add: handle_event_pieces)

lemma sanitized_html_harmless: "harmless (snd (sanitize_email_bodies parse body_text body_html))"
  unfolding sanitize_email_bodies_def Let_def snd_conv
  using fold_event_pieces [of empty_sanitizer]
  by (intro harmless_take harmless_concat) (simp add: pieces_ok_def empty_sanitizer_def)

end
