(* ===== verification/Candidates.thy ===== *)
theory Candidates
  imports Tasks Classification Sanitizer
begin

text \<open>
  \<open>automation/candidates.py\<close>: the email addresses written in a reply, each with the part of the mail it stands in.
  \<open>check\<close> stands for \<open>email_validator.validate_email\<close> (local part, ASCII domain, domain), \<open>parse\<close> for the
  calls \<open>HTMLParser\<close> makes, and \<open>mailto_path\<close> for \<open>unquote(urlsplit(href).path)\<close>.
\<close>

section \<open>The regions of a reply\<close>

definition MAX_CANDIDATES :: nat where
  "MAX_CANDIDATES = 10"

definition any_char :: rx where
  "any_char = Class (\<lambda>_. True)"

definition blanks_to_end :: rx where
  "blanks_to_end = Seq (Star (Class py_isspace)) TextEnd"

definition QUOTE_MARKER :: rx where
  "QUOTE_MARKER = alt_rx
     [Seq (plus_rx (chr_rx CHR ''>'')) (opt_rx (Class py_isspace)),
      seq_rx [text_rx ''on '', plus_rx any_char, text_rx '' wrote:'', blanks_to_end],
      seq_rx [text_rx ''el '', plus_rx any_char, text_rx '' escribi'', Alt (any_case CHR ''o'') (any_case CHR 0xF3),
              text_rx '':'', blanks_to_end],
      Seq (text_rx ''de:'') (Class py_isspace), Seq (text_rx ''from:'') (Class py_isspace)]"

definition closing_rx :: "str \<Rightarrow> rx" where
  "closing_rx s = seq_rx [text_rx s, opt_rx (Class (\<lambda>c. c \<in> set '',.!'')), blanks_to_end]"

definition SIGNATURE_MARKER :: rx where
  "SIGNATURE_MARKER = alt_rx
     [Seq (text_rx ''--'') blanks_to_end, closing_rx ''saludos'', closing_rx ''atentamente'', closing_rx ''cordialmente'']"

text \<open>\<open>text.splitlines(keepends=True)\<close> of a text without carriage returns.\<close>

fun split_keep :: "str \<Rightarrow> str \<Rightarrow> str list" where
  "split_keep acc [] = (if acc = [] then [] else [rev acc])"
| "split_keep acc (c # cs) = (if line_end c then rev (c # acc) # split_keep [] cs else split_keep (c # acc) cs)"

definition rstrip_newlines :: "str \<Rightarrow> str" where
  "rstrip_newlines s = rev (dropWhile (\<lambda>c. c = CHR 0x0A) (rev s))"

text \<open>The offset of the first signature marker before the first quotation, and the offset of that quotation.\<close>

fun scan_regions :: "nat \<Rightarrow> nat option \<Rightarrow> str list \<Rightarrow> nat option \<times> nat option" where
  "scan_regions offset sign [] = (sign, None)"
| "scan_regions offset sign (line # ls) =
     (let content = rstrip_newlines line
      in if rx_match QUOTE_MARKER content then (sign, Some offset)
         else scan_regions (offset + length line)
                (if sign = None \<and> rx_match SIGNATURE_MARKER (py_strip content) then Some offset else sign) ls)"

record regions =
  rg_new_content :: str
  rg_signature :: str
  rg_quoted :: str
  rg_new_end :: nat
  rg_signature_end :: nat

definition region_at :: "regions \<Rightarrow> nat \<Rightarrow> candidate_region" where
  "region_at r offset =
     (if offset < rg_new_end r then NEW_CONTENT else if offset < rg_signature_end r then SIGNATURE else QUOTED)"

definition split_inbound_regions :: "str \<Rightarrow> regions" where
  "split_inbound_regions body =
     (let normalized = unix_newlines body;
          (sign, quote) = scan_regions 0 None (split_keep [] normalized);
          quote_start = (case quote of None \<Rightarrow> length normalized | Some q \<Rightarrow> q);
          signature_start = (case sign of None \<Rightarrow> quote_start | Some s \<Rightarrow> if s > quote_start then quote_start else s)
      in \<lparr>rg_new_content = py_strip (take signature_start normalized),
          rg_signature = py_strip (drop signature_start (take quote_start normalized)),
          rg_quoted = py_strip (drop quote_start normalized),
          rg_new_end = signature_start, rg_signature_end = quote_start\<rparr>)"

section \<open>Literal addresses\<close>

definition domain_char :: "char \<Rightarrow> bool" where
  "domain_char c \<longleftrightarrow> \<not> py_isspace c \<and> c \<notin> set ''<>()[],;:'' \<and> c \<noteq> CHR 0x5C"

definition local_char :: "char \<Rightarrow> bool" where
  "local_char c \<longleftrightarrow> py_word_char c \<or> c \<in> set ''.!#$%&*+/=?^`{|}~-'' \<or> c = CHR 0x27"

definition word_or_at :: "char \<Rightarrow> bool" where
  "word_or_at c \<longleftrightarrow> py_word_char c \<or> c = CHR ''@''"

definition EMAIL_LITERAL :: rx where
  "EMAIL_LITERAL = seq_rx
     [NotBehind word_or_at,
      Seq (Class local_char) (upto_rx 63 (Class local_char)),
      chr_rx CHR ''@'',
      plus_rx (Seq (plus_rx (Class domain_char)) (chr_rx CHR ''.'')),
      seq_rx [Class domain_char, Class domain_char, upto_rx 61 (Class domain_char)],
      NotAhead word_or_at]"

record literal =
  lc_original :: str
  lc_normalized :: str
  lc_region :: candidate_region
  lc_source :: candidate_source
  lc_start :: "nat option"
  lc_end :: "nat option"

definition strip_set :: "str \<Rightarrow> str \<Rightarrow> str" where
  "strip_set cs s = rev (dropWhile (\<lambda>c. c \<in> set cs) (rev (dropWhile (\<lambda>c. c \<in> set cs) s)))"

definition literal_trim :: str where
  "literal_trim = ''.,;:!?()[]{}<>'' @ [CHR 0x22, CHR 0x27]"

definition normalize_literal :: "(str \<Rightarrow> (str \<times> str \<times> str) option) \<Rightarrow> str \<Rightarrow> str option" where
  "normalize_literal check value =
     map_option (\<lambda>(local_part, ascii_domain, domain).
         py_casefold local_part @ ''@'' @ py_casefold (if ascii_domain \<noteq> [] then ascii_domain else domain))
       (check (strip_set literal_trim (py_strip value)))"

text \<open>An address is kept once for each region, and no more than ten are kept.\<close>

definition keep_literal :: "literal \<Rightarrow> literal list \<Rightarrow> literal list" where
  "keep_literal l values =
     (if length values \<ge> MAX_CANDIDATES then values
      else if list_ex (\<lambda>v. lc_normalized v = lc_normalized l \<and> lc_region v = lc_region l) values then values
      else values @ [l])"

definition text_literal ::
    "(str \<Rightarrow> (str \<times> str \<times> str) option) \<Rightarrow> regions \<Rightarrow> nat \<times> str \<Rightarrow> literal option" where
  "text_literal check regions = (\<lambda>(start, found).
     map_option (\<lambda>normalized.
         \<lparr>lc_original = found, lc_normalized = normalized, lc_region = region_at regions start, lc_source = FROM_TEXT,
          lc_start = Some start, lc_end = Some (start + length found)\<rparr>)
       (normalize_literal check found))"

definition mailto_literal ::
    "(str \<Rightarrow> (str \<times> str \<times> str) option) \<Rightarrow> str \<times> candidate_region \<Rightarrow> literal option" where
  "mailto_literal check = (\<lambda>(found, region).
     map_option (\<lambda>normalized.
         \<lparr>lc_original = found, lc_normalized = normalized, lc_region = region, lc_source = FROM_MAILTO,
          lc_start = None, lc_end = None\<rparr>)
       (normalize_literal check found))"

definition extract_literal_candidates ::
    "(str \<Rightarrow> (str \<times> str \<times> str) option) \<Rightarrow> str \<Rightarrow> (str \<times> candidate_region) list \<Rightarrow> literal list" where
  "extract_literal_candidates check body mailtos =
     fold keep_literal (List.map_filter (mailto_literal check) mailtos)
       (fold keep_literal
         (List.map_filter (text_literal check (split_inbound_regions body)) (finditer EMAIL_LITERAL 0 0 None body)) [])"

section \<open>Mail links of the HTML body\<close>

record mailto_parser =
  mp_text :: str
  mp_targets :: "(str \<times> nat) list"
  mp_blocked :: nat

definition mp_append :: "str \<Rightarrow> mailto_parser \<Rightarrow> mailto_parser" where
  "mp_append s p = p\<lparr>mp_text := mp_text p @ s\<rparr>"

text \<open>\<open>path.split(",")\<close>\<close>

fun split_commas :: "str \<Rightarrow> str \<Rightarrow> str list" where
  "split_commas acc [] = [rev acc]"
| "split_commas acc (c # cs) = (if c = CHR '','' then rev acc # split_commas [] cs else split_commas (c # acc) cs)"

definition add_target :: "str \<Rightarrow> mailto_parser \<Rightarrow> mailto_parser" where
  "add_target value p =
     (if length (mp_targets p) \<ge> MAX_CANDIDATES \<or> py_strip value = [] then p
      else p\<lparr>mp_targets := mp_targets p @ [(py_strip value, length (mp_text p))]\<rparr>)"

definition href_of :: "html_attrs \<Rightarrow> str option" where
  "href_of attrs = (case find (\<lambda>a. py_casefold (fst a) = ''href'') attrs of None \<Rightarrow> None | Some a \<Rightarrow> snd a)"

definition link_targets :: "(str \<Rightarrow> str) \<Rightarrow> html_attrs \<Rightarrow> str list" where
  "link_targets mailto_path attrs =
     (case href_of attrs of
        None \<Rightarrow> []
      | Some href \<Rightarrow> if starts_with ''mailto:'' (py_casefold href) then split_commas [] (mailto_path href) else [])"

definition mp_start :: "(str \<Rightarrow> str) \<Rightarrow> str \<Rightarrow> html_attrs \<Rightarrow> mailto_parser \<Rightarrow> mailto_parser" where
  "mp_start mailto_path tag attrs p =
     (let t = py_casefold tag
      in if t \<in> set BLOCKED_WITH_CONTENT then p\<lparr>mp_blocked := mp_blocked p + 1\<rparr>
         else if mp_blocked p \<noteq> 0 then p
         else
           let p1 = (if t = ''blockquote'' then mp_append (CHR 0x0A # ''> '') p
                     else if t \<in> set BLOCK_TAGS then mp_append [CHR 0x0A] p else p)
           in if t \<noteq> ''a'' then p1 else fold add_target (link_targets mailto_path attrs) p1)"

definition mp_end :: "str \<Rightarrow> mailto_parser \<Rightarrow> mailto_parser" where
  "mp_end tag p =
     (let t = py_casefold tag
      in if t \<in> set BLOCKED_WITH_CONTENT then p\<lparr>mp_blocked := mp_blocked p - 1\<rparr>
         else if mp_blocked p = 0 \<and> t \<in> set BLOCK_TAGS then mp_append [CHR 0x0A] p
         else p)"

fun mp_event :: "(str \<Rightarrow> str) \<Rightarrow> html_event \<Rightarrow> mailto_parser \<Rightarrow> mailto_parser" where
  "mp_event path (StartTag t attrs) p = mp_start path t attrs p"
| "mp_event path (StartEndTag t attrs) p = mp_end t (mp_start path t attrs p)"
| "mp_event path (EndTag t) p = mp_end t p"
| "mp_event path (TextData s) p = (if mp_blocked p = 0 then mp_append s p else p)"

text \<open>\<open>parse\<close> answers \<open>None\<close> where feeding the parser raises \<open>AssertionError\<close> or \<open>ValueError\<close>.\<close>

definition extract_mailto_literals ::
    "(str \<Rightarrow> html_event list option) \<Rightarrow> (str \<Rightarrow> str) \<Rightarrow> str \<Rightarrow> (str \<times> candidate_region) list" where
  "extract_mailto_literals parse mailto_path body_html =
     (case parse (take MAX_BODY_CHARS body_html) of
        None \<Rightarrow> []
      | Some events \<Rightarrow>
          let p = fold (mp_event mailto_path) events \<lparr>mp_text = [], mp_targets = [], mp_blocked = 0\<rparr>;
              regions = split_inbound_regions (mp_text p @ [CHR 0x0A, CHR '' ''])
          in map (\<lambda>(found, offset). (found, region_at regions offset)) (mp_targets p))"

section \<open>Storing the candidates\<close>

definition region_value :: "candidate_region \<Rightarrow> str" where
  "region_value r = (case r of NEW_CONTENT \<Rightarrow> ''NEW_CONTENT'' | SIGNATURE \<Rightarrow> ''SIGNATURE'' | QUOTED \<Rightarrow> ''QUOTED'')"

definition source_value :: "candidate_source \<Rightarrow> str" where
  "source_value s = (case s of FROM_TEXT \<Rightarrow> ''TEXT'' | FROM_MAILTO \<Rightarrow> ''MAILTO'')"

definition offset_text :: "nat option \<Rightarrow> str" where
  "offset_text n = (case n of None \<Rightarrow> ''None'' | Some k \<Rightarrow> digits_of k)"

definition literal_evidence :: "id \<Rightarrow> literal \<Rightarrow> str" where
  "literal_evidence inbound l = py_join ''|''
     [str_of_pk inbound, lc_original l, lc_normalized l, region_value (lc_region l), source_value (lc_source l),
      offset_text (lc_start l), offset_text (lc_end l)]"

definition candidates_of_inbound :: "id \<Rightarrow> db \<Rightarrow> email_candidate list" where
  "candidates_of_inbound inbound d = filter (\<lambda>c. ec_inbound c = inbound) (candidate_rows (automation d))"

definition persist_one :: "env \<Rightarrow> id \<Rightarrow> literal \<Rightarrow> id list \<times> db \<Rightarrow> id list \<times> db" where
  "persist_one env inbound l = (\<lambda>(ids, d).
     if length ids \<ge> MAX_CANDIDATES then (ids, d)
     else
       (case find (\<lambda>c. ec_normalized c = lc_normalized l \<and> ec_region c = lc_region l) (candidates_of_inbound inbound d) of
          Some c \<Rightarrow> (if ec_id c \<in> set ids then ids else ids @ [ec_id c], d)
        | None \<Rightarrow>
            let (k, d1) = fresh d;
                c = \<lparr>ec_id = k, ec_inbound = inbound, ec_literal = lc_original l, ec_normalized = lc_normalized l,
                     ec_region = lc_region l, ec_source = lc_source l, ec_start = lc_start l, ec_end = lc_end l,
                     ec_syntax = CK_VALID, ec_mx = CK_PENDING, ec_restriction = CK_PENDING, ec_ownership = CK_PENDING,
                     ec_resolved = None, ec_evidence_hash = sha256_hex env (literal_evidence inbound l)\<rparr>
            in (ids @ [k], with_automation (\<lambda>a. a\<lparr>candidate_rows := candidate_rows a @ [c]\<rparr>) d1)))"

definition persist_email_candidates ::
    "env \<Rightarrow> (str \<Rightarrow> (str \<times> str \<times> str) option) \<Rightarrow> inbound \<Rightarrow> (str \<times> candidate_region) list \<Rightarrow> db \<Rightarrow>
     email_candidate list \<times> db" where
  "persist_email_candidates env check m mailtos d =
     (let (ids, d1) = fold (persist_one env (in_id m)) (extract_literal_candidates check (in_body_text m) mailtos)
            (take MAX_CANDIDATES (map ec_id (candidates_of_inbound (in_id m) d)), d)
      in (List.map_filter (\<lambda>k. t_get ec_id k (candidate_rows (automation d1))) ids, d1))"

section \<open>Confirming the address of a redirection\<close>

text \<open>\<open>_candidate_validation_error\<close> of \<open>automation/execution.py\<close>; the answer is empty when nothing is wrong.\<close>

definition same_literal :: "email_candidate \<Rightarrow> literal \<Rightarrow> bool" where
  "same_literal c l \<longleftrightarrow> lc_original l = ec_literal c \<and> lc_normalized l = ec_normalized c \<and> lc_region l = ec_region c
     \<and> lc_source l = ec_source c \<and> lc_start l = ec_start c \<and> lc_end l = ec_end c"

definition candidate_validation_error ::
    "env \<Rightarrow> (str \<Rightarrow> (str \<times> str \<times> str) option) \<Rightarrow> (str \<Rightarrow> html_event list option) \<Rightarrow> (str \<Rightarrow> str) \<Rightarrow>
     inbound \<Rightarrow> email_candidate \<Rightarrow> db \<Rightarrow> str" where
  "candidate_validation_error env check parse mailto_path m c d =
     (if ec_inbound c \<noteq> in_id m \<or> ec_region c \<noteq> NEW_CONTENT then txt_cand_not_new
      else if length (filter (\<lambda>x. ec_region x = NEW_CONTENT) (candidates_of_inbound (in_id m) d)) \<noteq> 1 then txt_cand_many
      else
        case normalize_email env (ec_normalized c) of
          Inl _ \<Rightarrow> txt_cand_syntax
        | Inr normalized \<Rightarrow>
            if normalized \<noteq> ec_normalized c then txt_cand_unlike
            else
              (case find (same_literal c)
                      (extract_literal_candidates check (in_body_text m)
                        (extract_mailto_literals parse mailto_path (in_body_html m))) of
                 None \<Rightarrow> txt_cand_literal
               | Some l \<Rightarrow>
                   if sha256_hex env (literal_evidence (in_id m) l) \<noteq> ec_evidence_hash c then txt_cand_evidence
                   else if list_ex (\<lambda>s. s \<noteq> CK_VALID) [ec_syntax c, ec_mx c, ec_restriction c, ec_ownership c]
                   then txt_cand_unconfirmed
                   else []))"

section \<open>Lemmas\<close>

definition literals_ok :: "literal list \<Rightarrow> bool" where
  "literals_ok kept \<longleftrightarrow> length kept \<le> MAX_CANDIDATES \<and> distinct (map (\<lambda>v. (lc_normalized v, lc_region v)) kept)"

lemma keep_literal_ok: "literals_ok kept \<Longrightarrow> literals_ok (keep_literal l kept)"
  by (auto simp: literals_ok_def keep_literal_def list_ex_iff MAX_CANDIDATES_def)

lemma fold_keep_ok: "literals_ok kept \<Longrightarrow> literals_ok (fold keep_literal ls kept)"
  by (induction ls arbitrary: kept) (simp_all add: keep_literal_ok)

lemma fold_keep_mem: "v \<in> set (fold keep_literal ls kept) \<Longrightarrow> v \<in> set kept \<or> v \<in> set ls"
proof (induction ls arbitrary: kept)
  case (Cons l ls)
  then have "v \<in> set (keep_literal l kept) \<or> v \<in> set ls" by (simp only: fold_Cons o_apply)
  then show ?case by (auto simp: keep_literal_def split: if_splits)
qed simp

lemma mem_map_filter: "y \<in> set (List.map_filter f xs) \<longleftrightarrow> (\<exists>x \<in> set xs. f x = Some y)"
  by (force simp: List.map_filter_def)

text \<open>At most ten candidates, and none twice in a region.\<close>

lemma extract_literal_bounded:
  "length (extract_literal_candidates check body mailtos) \<le> 10
   \<and> distinct (map (\<lambda>v. (lc_normalized v, lc_region v)) (extract_literal_candidates check body mailtos))"
proof -
  have "literals_ok (extract_literal_candidates check body mailtos)"
    unfolding extract_literal_candidates_def by (intro fold_keep_ok) (simp add: literals_ok_def)
  then show ?thesis by (simp add: literals_ok_def MAX_CANDIDATES_def)
qed

section \<open>The sanitized body keeps no mail link\<close>

text \<open>What is relied on of \<open>HTMLParser\<close>: a start tag it reports is written in the text, after a \<open><\<close>.\<close>

definition tags_are_written :: "(str \<Rightarrow> html_event list option) \<Rightarrow> bool" where
  "tags_are_written parse \<longleftrightarrow>
     (\<forall>s events t attrs. parse s = Some events \<longrightarrow> StartTag t attrs \<in> set events \<or> StartEndTag t attrs \<in> set events \<longrightarrow>
        (\<exists>u v. s = u @ CHR ''<'' # v \<and> py_casefold t = py_casefold (take (length t) v)))"

definition is_link :: "html_event \<Rightarrow> bool" where
  "is_link e = (case e of StartTag t attrs \<Rightarrow> py_casefold t = ''a'' | StartEndTag t attrs \<Rightarrow> py_casefold t = ''a'' | _ \<Rightarrow> False)"

lemma mp_event_targets: "\<not> is_link e \<Longrightarrow> mp_targets (mp_event path e p) = mp_targets p"
  by (cases e) (auto simp: is_link_def mp_start_def mp_end_def mp_append_def Let_def)

lemma fold_mp_targets: "\<forall>e \<in> set es. \<not> is_link e \<Longrightarrow> mp_targets (fold (mp_event path) es p) = mp_targets p"
  by (induction es arbitrary: p) (simp_all add: mp_event_targets)

lemma of_char_bound: "(of_char (c :: char) :: nat) < 256"
  by (cases c) (simp add: of_char_def)

lemma casefold_a: "py_casefold s = ''a'' \<Longrightarrow> s = ''a'' \<or> s = ''A''"
proof -
  assume a: "py_casefold s = ''a''"
  have ne: "fold_char c \<noteq> []" for c by (simp add: fold_char_def Let_def)
  obtain c cs where s: "s = c # cs" using a by (cases s) (auto simp: py_casefold_def)
  have "length (fold_char c) + length (py_casefold cs) = 1"
    using arg_cong [OF a, of length] by (simp add: py_casefold_def s)
  then have "py_casefold cs = []" "fold_char c = ''a''"
    using a ne [of c] by (auto simp: py_casefold_def s) (cases "fold_char c"; simp)+
  then have cs: "cs = []" using ne by (cases cs) (auto simp: py_casefold_def)
  define n where "n = (of_char c :: nat)"
  have n: "n < 256" and c: "c = char_of n" using of_char_bound [of c] by (simp_all add: n_def)
  have code: "of_char (char_of (k :: nat) :: char) = k mod 256" for k by (simp add: of_char_of)
  have "n = 97 \<or> n = 65"
  proof (cases "65 \<le> n \<and> n \<le> 90 \<or> 192 \<le> n \<and> n \<le> 222 \<and> n \<noteq> 215")
    case True
    then have "char_of (n + 32) = CHR ''a''"
      using \<open>fold_char c = ''a''\<close> by (auto simp: fold_char_def n_def Let_def split: if_splits)
    then have "(n + 32) mod 256 = 97" using code [of "n + 32"] by simp
    then show ?thesis using True n by auto
  next
    case False
    then have "c = CHR ''a''"
      using \<open>fold_char c = ''a''\<close> by (auto simp: fold_char_def n_def Let_def split: if_splits)
    then show ?thesis by (simp add: n_def)
  qed
  moreover have "char_of (97 :: nat) = CHR ''a''" "char_of (65 :: nat) = CHR ''A''" by (simp_all add: char_of_def bit_0)
  ultimately have "c = CHR ''a'' \<or> c = CHR ''A''" using c by auto
  then show ?thesis using s cs by auto
qed

lemma harmless_no_link:
  assumes "harmless s"
  shows "s \<noteq> u @ CHR ''<'' # CHR ''a'' # v" "s \<noteq> u @ CHR ''<'' # CHR ''A'' # v"
proof -
  have *: "\<not> (prefix t (CHR ''<'' # c # v) \<or> prefix (CHR ''<'' # c # v) t)"
    if "t \<in> allowed_markup" "c = CHR ''a'' \<or> c = CHR ''A''" for t c
    using that by (auto simp: allowed_markup_def ALLOWED_TAGS_def)
  show "s \<noteq> u @ CHR ''<'' # CHR ''a'' # v" "s \<noteq> u @ CHR ''<'' # CHR ''A'' # v"
    using assms * unfolding harmless_def by blast+
qed

lemma no_mail_links:
  assumes "tags_are_written parse" "harmless s"
  shows "extract_mailto_literals parse path s = []"
proof (cases "parse (take MAX_BODY_CHARS s)")
  case (Some events)
  have "\<not> is_link e" if e: "e \<in> set events" for e
  proof
    assume "is_link e"
    then obtain t attrs where t: "StartTag t attrs \<in> set events \<or> StartEndTag t attrs \<in> set events" "py_casefold t = ''a''"
      using e by (auto simp: is_link_def split: html_event.splits)
    then obtain u v where s: "take MAX_BODY_CHARS s = u @ CHR ''<'' # v" "py_casefold (take (length t) v) = ''a''"
      using assms(1) Some unfolding tags_are_written_def by metis
    have "length t = 1" using casefold_a [OF t(2)] by auto
    then have "take 1 v = ''a'' \<or> take 1 v = ''A''" using casefold_a [OF s(2)] by simp
    then obtain w where "v = CHR ''a'' # w \<or> v = CHR ''A'' # w" by (cases v) auto
    then show False using harmless_no_link [OF harmless_take [OF assms(2)], of MAX_BODY_CHARS u w] s(1) by auto
  qed
  then have "mp_targets (fold (mp_event path) events \<lparr>mp_text = [], mp_targets = [], mp_blocked = 0\<rparr>) = []"
    by (subst fold_mp_targets) auto
  then show ?thesis using Some by (simp add: extract_mailto_literals_def Let_def)
qed (simp add: extract_mailto_literals_def)

text \<open>So a candidate found in a mail link fails the check made before it is used.\<close>

lemma mail_link_rejected:
  assumes "tags_are_written parse" "in_body_html m = snd (sanitize_email_bodies parse' body_text body_html)"
    "ec_source c = FROM_MAILTO"
  shows "candidate_validation_error env check parse path m c d \<noteq> []"
proof -
  have "extract_mailto_literals parse path (in_body_html m) = []"
    unfolding assms(2) by (rule no_mail_links [OF assms(1) sanitized_html_harmless])
  moreover have "lc_source l = FROM_TEXT" if l: "l \<in> set (extract_literal_candidates check body [])" for l body
  proof -
    have "l \<in> set (List.map_filter (text_literal check (split_inbound_regions body)) (finditer EMAIL_LITERAL 0 0 None body))"
      using fold_keep_mem l by (fastforce simp: extract_literal_candidates_def)
    then show ?thesis by (auto simp: mem_map_filter text_literal_def)
  qed
  ultimately have none: "find (same_literal c) (extract_literal_candidates check (in_body_text m)
      (extract_mailto_literals parse path (in_body_html m))) = None"
    using assms(3) by (auto simp: find_None_iff_all same_literal_def)
  show ?thesis
    unfolding candidate_validation_error_def
    by (simp add: none automation_txt_defs split: sum.split)
qed

end
