(* ===== verification/Policy.thy ===== *)
theory Policy
  imports Candidates
begin

text \<open>
  What a proposed reply may do (\<open>automation/services.py\<close>): an explicit request for a meeting always goes to a person,
  a reply is automatic only for the four safe intents, with enough confidence and, for a redirection, one confirmed
  address; and the steps that record the decision. The language model is the parameter \<open>ask\<close>.
\<close>

section \<open>Requests for a meeting\<close>

text \<open>\<open>unicodedata.normalize("NFKD", ...)\<close> without the combining marks, below U+0100 (the micro sign and the three
  fractions decompose outside it and are kept).\<close>

definition nfkd_char :: "char \<Rightarrow> char" where
  "nfkd_char c =
     (let n = (of_char c :: nat)
      in if 224 \<le> n \<and> n \<le> 229 \<or> n = 170 then CHR ''a'' else if n = 231 then CHR ''c''
         else if 232 \<le> n \<and> n \<le> 235 then CHR ''e'' else if 236 \<le> n \<and> n \<le> 239 then CHR ''i''
         else if n = 241 then CHR ''n'' else if 242 \<le> n \<and> n \<le> 246 \<or> n = 186 then CHR ''o''
         else if 249 \<le> n \<and> n \<le> 252 then CHR ''u'' else if n = 253 \<or> n = 255 then CHR ''y''
         else if n = 178 then CHR ''2'' else if n = 179 then CHR ''3'' else if n = 185 then CHR ''1''
         else if n \<in> {160, 168, 175, 180, 184} then CHR '' ''
         else c)"

definition normalized_reply_text :: "str \<Rightarrow> str" where
  "normalized_reply_text value = map nfkd_char (py_casefold value)"

definition o_or_accent :: rx where
  "o_or_accent = Alt (chr_rx CHR ''o'') (chr_rx CHR 0xF3)"

definition word_tail :: rx where
  "word_tail = Star (Class py_word_char)"

definition SCHEDULING_CHANNEL :: rx where
  "SCHEDULING_CHANNEL = seq_rx
     [WordBoundary,
      alt_rx
        [Seq (word_rx ''llamada'') (opt_rx (word_rx ''s'')), Seq (word_rx ''videollamada'') (opt_rx (word_rx ''s'')),
         seq_rx [word_rx ''reuni'', o_or_accent, word_rx ''n'', opt_rx (word_rx ''es'')],
         Seq (word_rx ''reunir'') (opt_rx (word_rx ''nos'')),
         seq_rx [word_rx ''hablar'', spaces_rx, word_rx ''por'', spaces_rx,
                 alt_rx [seq_rx [word_rx ''tel'', Alt (chr_rx CHR ''e'') (chr_rx CHR 0xE9), word_rx ''fono''], word_rx ''tel'']],
         word_rx ''conversar''],
      WordBoundary]"

definition SCHEDULING_REQUEST :: rx where
  "SCHEDULING_REQUEST = seq_rx
     [WordBoundary,
      alt_rx [word_rx ''coordinar'', word_rx ''coordinemos'', word_rx ''agendar'', word_rx ''programar'',
              word_rx ''concertar'', word_rx ''organizar''],
      WordBoundary]"

definition SCHEDULING_AVAILABILITY :: rx where
  "SCHEDULING_AVAILABILITY = seq_rx
     [WordBoundary,
      alt_rx [Seq (word_rx ''disponib'') word_tail, Seq (word_rx ''horario'') word_tail, Seq (word_rx ''hora'') word_tail,
              Seq (word_rx ''fecha'') word_tail,
              seq_rx [word_rx ''d'', Alt (chr_rx CHR ''i'') (chr_rx CHR 0xED), word_rx ''a'', word_tail],
              seq_rx [word_rx ''cu'', Alt (chr_rx CHR ''a'') (chr_rx CHR 0xE1), word_rx ''ndo'']],
      WordBoundary]"

definition explicit_scheduling_request :: "str \<Rightarrow> bool" where
  "explicit_scheduling_request body \<longleftrightarrow>
     (let t = normalized_reply_text body
      in rx_search SCHEDULING_CHANNEL t \<and> (rx_search SCHEDULING_REQUEST t \<or> rx_search SCHEDULING_AVAILABILITY t))"

section \<open>The answer of the model\<close>

text \<open>\<open>ReplyDecisionResult\<close> of \<open>integrations/contracts.py\<close>; the confidence in thousandths.\<close>

record decision_result =
  q_classification :: str
  q_intent :: str
  q_action :: str
  q_confidence :: nat
  q_candidate :: "str option"
  q_facts :: "str list"
  q_body :: "str option"
  q_human_reason :: "str option"

definition AUTO_INTENTS :: "str list" where
  "AUTO_INTENTS = [''APPROVED_PRODUCT_INFORMATION'', ''APPROVED_COMPANY_FACT'', ''GROUNDED_SIMPLE_CLARIFICATION'',
                   ''EXPLICIT_PROPOSAL_REDIRECTION'']"

definition AUTO_ACTIONS :: "str list" where
  "AUTO_ACTIONS = [''REPLY'', ''REDIRECT_PROPOSAL'']"

definition NO_ACTION_INTENTS :: "str list" where
  "NO_ACTION_INTENTS = [''POLITE_ACKNOWLEDGEMENT'', ''NOT_INTERESTED'']"

definition HUMAN_REQUIRED_INTENT_REASONS :: "(str \<times> str) list" where
  "HUMAN_REQUIRED_INTENT_REASONS =
     [(''MEETING_OR_DATE'', ''MEETING_OR_DATE''), (''PRICING_OR_QUOTE'', ''PRICING_OR_QUOTE''),
      (''NEGOTIATION'', ''NEGOTIATION''), (''COMPLAINT'', ''COMPLAINT''), (''LEGAL_OR_PRIVACY'', ''LEGAL_OR_PRIVACY''),
      (''UNSUPPORTED_TECHNICAL_ADVICE'', ''UNSUPPORTED_TECHNICAL_ADVICE''),
      (''MULTIPLE_OR_AMBIGUOUS'', ''MULTIPLE_INTENTS''), (''INSUFFICIENT_CONTEXT'', ''INSUFFICIENT_CONTEXT'')]"

definition MIN_AUTOMATIC_CONFIDENCE :: nat where
  "MIN_AUTOMATIC_CONFIDENCE = 900"

definition or_text :: "str option \<Rightarrow> str \<Rightarrow> str" where
  "or_text t otherwise = (case t of None \<Rightarrow> otherwise | Some x \<Rightarrow> if x = [] then otherwise else x)"

text \<open>What is wrong with the address a redirection chose, if anything.\<close>

definition redirect_problem :: "decision_result \<Rightarrow> email_candidate list \<Rightarrow> str option" where
  "redirect_problem q candidates =
     (case find (\<lambda>c. Some (str_of_pk (ec_id c)) = q_candidate q) candidates of
        None \<Rightarrow> Some ''AMBIGUOUS_CANDIDATE''
      | Some c \<Rightarrow>
          if length (filter (\<lambda>c. ec_region c = NEW_CONTENT) candidates) \<noteq> 1 then Some ''AMBIGUOUS_CANDIDATE''
          else if ec_ownership c = CK_CONFLICT then Some ''OWNERSHIP_CONFLICT''
          else if list_ex (\<lambda>s. s \<noteq> CK_VALID) [ec_syntax c, ec_mx c, ec_restriction c, ec_ownership c]
          then Some ''AMBIGUOUS_CANDIDATE''
          else None)"

definition policy_result :: "decision_result \<Rightarrow> email_candidate list \<Rightarrow> str \<Rightarrow> decision_state \<times> str" where
  "policy_result q candidates inbound_text =
     (if explicit_scheduling_request inbound_text then (RD_HUMAN_REQUIRED, ''MEETING_OR_DATE'')
      else case map_of HUMAN_REQUIRED_INTENT_REASONS (q_intent q) of
        Some reason \<Rightarrow> (RD_HUMAN_REQUIRED, reason)
      | None \<Rightarrow>
          if q_intent q \<in> set NO_ACTION_INTENTS then (RD_NO_ACTION, [])
          else if q_action q = ''HUMAN'' then (RD_HUMAN_REQUIRED, or_text (q_human_reason q) ''INSUFFICIENT_CONTEXT'')
          else if q_action q = ''NO_ACTION'' then (RD_HUMAN_REQUIRED, ''INSUFFICIENT_CONTEXT'')
          else if q_intent q \<notin> set AUTO_INTENTS \<or> q_action q \<notin> set AUTO_ACTIONS
                  \<or> q_confidence q < MIN_AUTOMATIC_CONFIDENCE
          then (RD_HUMAN_REQUIRED, ''INSUFFICIENT_CONTEXT'')
          else if q_action q = ''REDIRECT_PROPOSAL''
          then (case redirect_problem q candidates of
                  Some reason \<Rightarrow> (RD_HUMAN_REQUIRED, reason)
                | None \<Rightarrow> (RD_AUTO_ELIGIBLE, []))
          else (RD_AUTO_ELIGIBLE, []))"

definition validate_result_references ::
    "decision_result \<Rightarrow> email_candidate list \<Rightarrow> str list \<Rightarrow> exn + unit" where
  "validate_result_references q candidates fact_ids =
     (if q_candidate q \<noteq> None \<and> q_candidate q \<notin> (Some \<circ> str_of_pk \<circ> ec_id) ` set candidates
      then Inl (ValueError txt_ref_foreign_email)
      else if q_action q = ''REDIRECT_PROPOSAL'' \<and> q_candidate q = None then Inl (ValueError txt_ref_no_email)
      else if q_action q \<noteq> ''REDIRECT_PROPOSAL'' \<and> q_candidate q \<noteq> None then Inl (ValueError txt_ref_extra_email)
      else if \<not> distinct (q_facts q) then Inl (ValueError txt_ref_repeated)
      else if \<not> set (q_facts q) \<subseteq> set fact_ids then Inl (ValueError txt_ref_foreign_fact)
      else if q_action q = ''REPLY'' \<and> (q_facts q = [] \<or> py_strip (or_text (q_body q) []) = [])
      then Inl (ValueError txt_ref_ungrounded)
      else if q_action q = ''REDIRECT_PROPOSAL'' \<and> q_facts q \<noteq> [] then Inl (ValueError txt_ref_extra_fact)
      else Inr ())"

section \<open>Checking the addresses\<close>

text \<open>\<open>mx\<close> is the answer of the DNS resolver: \<open>VALID\<close>, \<open>INVALID\<close> or \<open>TRANSIENT\<close>.\<close>

definition check_of_mx :: "validity \<Rightarrow> check_state" where
  "check_of_mx v = (case v of VALID \<Rightarrow> CK_VALID | INVALID \<Rightarrow> CK_INVALID | _ \<Rightarrow> CK_TRANSIENT)"

definition domain_of :: "str \<Rightarrow> str" where
  "domain_of s = (case rsplit_at s of None \<Rightarrow> s | Some (_, domain) \<Rightarrow> domain)"

definition assess_candidate :: "(str \<Rightarrow> validity) \<Rightarrow> id \<Rightarrow> id \<Rightarrow> db \<Rightarrow> email_candidate \<Rightarrow> email_candidate" where
  "assess_candidate mx ws organization d c =
     (let email = find (\<lambda>e. ea_workspace e = ws \<and> ea_normalized e = ec_normalized c) (emails d);
          restricted = suppressed (ec_normalized c) d
            \<or> (case email of None \<Rightarrow> False
               | Some e \<Rightarrow> list_ex (\<lambda>r. r_email_address r = Some (ea_id e) \<and> r_revoked_at r = None) (restrictions d))
      in c\<lparr>ec_mx := check_of_mx (mx (domain_of (ec_normalized c))),
           ec_resolved := (case email of None \<Rightarrow> ec_resolved c | Some e \<Rightarrow> Some (ea_id e)),
           ec_ownership := (case email of None \<Rightarrow> CK_VALID
             | Some e \<Rightarrow> if ea_organization e = organization then CK_VALID else CK_CONFLICT),
           ec_restriction := (if restricted then CK_RESTRICTED else CK_VALID)\<rparr>)"

definition assess_one ::
    "(str \<Rightarrow> validity) \<Rightarrow> id \<Rightarrow> id \<Rightarrow> email_candidate \<Rightarrow> email_candidate list \<times> db \<Rightarrow> exn + email_candidate list \<times> db" where
  "assess_one mx ws organization c = (\<lambda>(done, d).
     bindE (of_option DoesNotExist (t_get ec_id (ec_id c) (candidate_rows (automation d)))) (\<lambda>locked.
       let c1 = assess_candidate mx ws organization d locked
       in Inr (done @ [c1],
            with_automation (\<lambda>a. a\<lparr>candidate_rows :=
              t_save ec_id (ec_id c) (assess_candidate mx ws organization d) (candidate_rows a)\<rparr>) d)))"

definition assess_email_candidates ::
    "(str \<Rightarrow> validity) \<Rightarrow> id \<Rightarrow> id \<Rightarrow> email_candidate list \<Rightarrow> db \<Rightarrow> exn + email_candidate list \<times> db" where
  "assess_email_candidates mx ws organization candidates d = foldE (assess_one mx ws organization) candidates ([], d)"

section \<open>Recording a decision\<close>

text \<open>What the model was asked with and answered: the result with the facts, the manifest and the hash of its context, or the name
  of the exception that kept it from answering.\<close>

record answer =
  w_result :: decision_result
  w_fact_ids :: "str list"
  w_context_manifest :: json
  w_context_hash :: str

definition decision_of_inbound :: "id \<Rightarrow> db \<Rightarrow> reply_decision option" where
  "decision_of_inbound k d = find (\<lambda>r. rd_inbound r = k) (decision_rows (automation d))"

definition add_decision :: "reply_decision \<Rightarrow> db \<Rightarrow> db" where
  "add_decision r d = with_automation (\<lambda>a. a\<lparr>decision_rows := decision_rows a @ [r]\<rparr>) (d\<lparr>next_id := Suc (rd_id r)\<rparr>)"

text \<open>The row both ways of recording start from.\<close>

definition blank_decision ::
    "env \<Rightarrow> id \<Rightarrow> inbound \<Rightarrow> contact \<Rightarrow> id \<Rightarrow> reply_configuration \<Rightarrow> str \<times> str \<Rightarrow> reply_decision" where
  "blank_decision env k m c conversation cfg names =
     \<lparr>rd_id = k, rd_workspace = t_workspace c, rd_inbound = in_id m, rd_contact = t_id c, rd_conversation = conversation,
      rd_mode = am_mode cfg, rd_provider = fst names, rd_model = snd names, rd_policy_version = am_policy_version cfg,
      rd_classification = [], rd_intent = [], rd_action = [], rd_confidence = 0, rd_candidate = None,
      rd_proposed_body = [], rd_human_reason = [], rd_context_manifest = JObj [], rd_context_hash = [], rd_selected_facts = [], rd_state = RD_PENDING,
      rd_error = [], rd_created_at = clock env\<rparr>"

definition failure_decision ::
    "env \<Rightarrow> inbound \<Rightarrow> contact \<Rightarrow> id \<Rightarrow> reply_configuration \<Rightarrow> str \<times> str \<Rightarrow> str \<Rightarrow> db \<Rightarrow> exn + reply_decision \<times> db" where
  "failure_decision env m c conversation cfg names error d =
     (let (r, d1) = (case decision_of_inbound (in_id m) d of
            Some r \<Rightarrow> (r, d)
          | None \<Rightarrow>
              let r = (blank_decision env (next_id d) m c conversation cfg names)
                    \<lparr>rd_classification := ''OTHER'', rd_intent := ''INSUFFICIENT_CONTEXT'', rd_action := ''HUMAN'',
                     rd_human_reason := ''PROVIDER_OR_SCHEMA_FAILURE'',
                     rd_context_hash := sha256_hex env (str_of_pk (in_id m)), rd_state := RD_FAILED, rd_error := error\<rparr>
              in (r, add_decision r d))
      in bindE (open_human_task env (t_workspace c) (t_id c) (Some conversation) ''REPLY_REVIEW''
             ''PROVIDER_OR_SCHEMA_FAILURE'' txt_not_analysed (Some (in_id m)) (Some (rd_id r)) d1) (\<lambda>(_, d2).
           Inr (r, d2)))"

definition recorded_state :: "reply_configuration \<Rightarrow> decision_state \<Rightarrow> decision_state" where
  "recorded_state cfg state = (if am_mode cfg = MODE_SHADOW then RD_SHADOW_RECORDED else state)"

definition candidate_of_text :: "str option \<Rightarrow> db \<Rightarrow> id option" where
  "candidate_of_text t d =
     map_option ec_id (Option.bind t (\<lambda>s. find (\<lambda>c. str_of_pk (ec_id c) = s) (candidate_rows (automation d))))"

definition facts_of_texts :: "str list \<Rightarrow> db \<Rightarrow> id list" where
  "facts_of_texts ts d = map kr_id (filter (\<lambda>r. str_of_pk (kr_id r) \<in> set ts) (fact_revisions (automation d)))"

text \<open>The last block: the unique decision of an inbound mail, its task or its execution. A duplicate that appeared
  meanwhile is caught inside the block, and the query that follows fails.\<close>

definition record_decision ::
    "env \<Rightarrow> inbound \<Rightarrow> contact \<Rightarrow> id \<Rightarrow> reply_configuration \<Rightarrow> str \<times> str \<Rightarrow> answer \<Rightarrow> email_candidate list \<Rightarrow> db \<Rightarrow>
     exn + reply_decision \<times> db" where
  "record_decision env m c conversation cfg names w candidates d =
     (if decision_of_inbound (in_id m) d \<noteq> None then Inl TransactionManagementError
      else
        let q = w_result w;
            (policy_state, human_reason) = policy_result q candidates (in_body_text m);
            r = (blank_decision env (next_id d) m c conversation cfg names)
                  \<lparr>rd_classification := q_classification q, rd_intent := q_intent q, rd_action := q_action q,
                   rd_confidence := q_confidence q, rd_candidate := candidate_of_text (q_candidate q) d,
                   rd_proposed_body := or_text (q_body q) [],
                   rd_human_reason := (if human_reason \<noteq> [] then human_reason else or_text (q_human_reason q) []),
                   rd_context_manifest := w_context_manifest w, rd_context_hash := w_context_hash w, rd_selected_facts := facts_of_texts (q_facts q) d,
                   rd_state := recorded_state cfg policy_state\<rparr>;
            d1 = add_decision r d
        in bindE
             (if am_mode cfg = MODE_LIVE \<and> policy_state = RD_HUMAN_REQUIRED
              then bindE (open_human_task env (t_workspace c) (t_id c) (Some conversation) ''REPLY_REVIEW'' human_reason
                     txt_needs_person (Some (in_id m)) (Some (rd_id r)) d1) (\<lambda>(_, d2). Inr d2)
              else if am_mode cfg = MODE_LIVE \<and> policy_state = RD_AUTO_ELIGIBLE
              then Inr (d1\<lparr>dispatched := dispatched d1 @ [(''execute_reply_decision'', rd_id r)]\<rparr>)
              else Inr d1) (\<lambda>d2.
             Inr (r, record_event ''reply_decision.recorded'' (rd_id r) None d2)))"

section \<open>From an inbound mail to its decision\<close>

definition manual_reply_under_way :: "id \<Rightarrow> db \<Rightarrow> bool" where
  "manual_reply_under_way k d =
     list_ex (\<lambda>x. m_parent_inbound x = Some k \<and> m_kind x = MANUAL_REPLY
       \<and> m_state x \<in> {QUEUED, SENDING, RECONCILING, SENT}) (messages d)"

definition provider_names :: "env \<Rightarrow> inbound \<Rightarrow> contact \<Rightarrow> id option \<Rightarrow> db \<Rightarrow> str \<times> str" where
  "provider_names env m c owner d =
     (case Option.bind (Option.bind (in_related_outbound m) (\<lambda>k. t_get m_id k (messages d)))
             (\<lambda>x. Option.bind (m_campaign x) (\<lambda>k. t_get c_id k (campaigns d))) of
        Some campaign \<Rightarrow> (pl_llm_provider (c_plan campaign), pl_llm_model (c_plan campaign))
      | None \<Rightarrow>
          let l = (case owner of None \<Rightarrow> llm_settings env | Some u \<Rightarrow> runtime_llm_choice env u d)
          in (ll_provider l, ll_model l))"

text \<open>
  \<open>ask names m cfg candidates\<close> is the model's answer over the context \<open>automation/context.py\<close> builds, and \<open>owner\<close>
  the owner of the workspace's integration settings.
\<close>

definition process_inbound_decision ::
    "(str \<times> str \<Rightarrow> inbound \<Rightarrow> reply_configuration \<Rightarrow> email_candidate list \<Rightarrow> str + answer) \<Rightarrow>
     (str \<Rightarrow> validity) \<Rightarrow> (str \<Rightarrow> (str \<times> str \<times> str) option) \<Rightarrow> env \<Rightarrow> id option \<Rightarrow> id \<Rightarrow> db \<Rightarrow>
     (exn + reply_decision option) \<times> db" where
  "process_inbound_decision ask mx check env owner k d =
     (case t_get in_id k (inbounds d) of
        None \<Rightarrow> (Inl DoesNotExist, d)
      | Some m \<Rightarrow>
          (case (Option.bind (in_contact m) (\<lambda>c. t_get t_id c (contacts d)), in_conversation m) of
             (Some c, Some conversation) \<Rightarrow>
               if manual_reply_under_way k d then (Inr None, d)
               else
                 let (cfg, d1) = get_or_create_configuration (t_workspace c) d
                 in if am_mode cfg = MODE_OFF then (Inr None, d1)
                    else (case decision_of_inbound k d1 of
                      Some r \<Rightarrow> (Inr (Some r), d1)
                    | None \<Rightarrow>
                        let (stored, d2) = persist_email_candidates env check m [] d1
                        in (case assess_email_candidates mx (t_workspace c) (t_organization c) stored d2 of
                          Inl e \<Rightarrow> (Inl e, d2)
                        | Inr (candidates, d3) \<Rightarrow>
                            let names = provider_names env m c owner d3;
                                checked = (case ask names m cfg candidates of
                                    Inl error \<Rightarrow> Inl error
                                  | Inr w \<Rightarrow>
                                      (case validate_result_references (w_result w) candidates (w_fact_ids w) of
                                         Inl _ \<Rightarrow> Inl ''ValueError'' | Inr _ \<Rightarrow> Inr w))
                            in (case (case checked of
                                   Inl error \<Rightarrow> failure_decision env m c conversation cfg names error d3
                                 | Inr w \<Rightarrow> record_decision env m c conversation cfg names w candidates d3) of
                                 Inl e \<Rightarrow> (Inl e, d3)
                               | Inr (r, d4) \<Rightarrow> (Inr (Some r), d4))))
           | _ \<Rightarrow> (Inr None, d)))"

section \<open>Lemmas\<close>

lemma auto_intents_safe: "i \<in> set AUTO_INTENTS \<Longrightarrow> map_of HUMAN_REQUIRED_INTENT_REASONS i = None \<and> i \<notin> set NO_ACTION_INTENTS"
proof -
  have "list_all (\<lambda>i. map_of HUMAN_REQUIRED_INTENT_REASONS i = None \<and> \<not> list_ex ((=) i) NO_ACTION_INTENTS) AUTO_INTENTS"
    by code_simp
  then show "i \<in> set AUTO_INTENTS \<Longrightarrow> ?thesis" by (auto simp: list_all_iff list_ex_iff)
qed

lemma auto_actions_iff: "a \<in> set AUTO_ACTIONS \<longleftrightarrow> a = ''REPLY'' \<or> a = ''REDIRECT_PROPOSAL''"
  by (simp add: AUTO_ACTIONS_def)

text \<open>When the policy lets a reply out without a person.\<close>

lemma policy_automatic_iff:
  "fst (policy_result q candidates body) = RD_AUTO_ELIGIBLE \<longleftrightarrow>
     \<not> explicit_scheduling_request body \<and> q_intent q \<in> set AUTO_INTENTS \<and> 900 \<le> q_confidence q
     \<and> (q_action q = ''REPLY''
        \<or> q_action q = ''REDIRECT_PROPOSAL''
          \<and> (\<exists>c. find (\<lambda>c. Some (str_of_pk (ec_id c)) = q_candidate q) candidates = Some c
               \<and> length (filter (\<lambda>c. ec_region c = NEW_CONTENT) candidates) = 1
               \<and> ec_syntax c = CK_VALID \<and> ec_mx c = CK_VALID \<and> ec_restriction c = CK_VALID \<and> ec_ownership c = CK_VALID))"
proof -
  have r: "redirect_problem q candidates = None \<longleftrightarrow>
      (\<exists>c. find (\<lambda>c. Some (str_of_pk (ec_id c)) = q_candidate q) candidates = Some c
               \<and> length (filter (\<lambda>c. ec_region c = NEW_CONTENT) candidates) = 1
               \<and> ec_syntax c = CK_VALID \<and> ec_mx c = CK_VALID \<and> ec_restriction c = CK_VALID \<and> ec_ownership c = CK_VALID)"
    by (auto simp: redirect_problem_def split: option.split)
  show ?thesis
  proof (cases "q_intent q \<in> set AUTO_INTENTS")
    case True
    have d: "policy_result q candidates body =
       (if explicit_scheduling_request body then (RD_HUMAN_REQUIRED, ''MEETING_OR_DATE'')
        else if q_action q = ''HUMAN'' then (RD_HUMAN_REQUIRED, or_text (q_human_reason q) ''INSUFFICIENT_CONTEXT'')
        else if q_action q = ''NO_ACTION'' then (RD_HUMAN_REQUIRED, ''INSUFFICIENT_CONTEXT'')
        else if q_action q \<notin> set AUTO_ACTIONS \<or> q_confidence q < 900 then (RD_HUMAN_REQUIRED, ''INSUFFICIENT_CONTEXT'')
        else if q_action q = ''REDIRECT_PROPOSAL''
        then (case redirect_problem q candidates of
                Some reason \<Rightarrow> (RD_HUMAN_REQUIRED, reason) | None \<Rightarrow> (RD_AUTO_ELIGIBLE, []))
        else (RD_AUTO_ELIGIBLE, []))"
      using True auto_intents_safe [OF True] by (simp add: policy_result_def MIN_AUTOMATIC_CONFIDENCE_def)
    show ?thesis unfolding d r [symmetric] auto_actions_iff using True by (simp split: option.split)
  next
    case False
    then have "fst (policy_result q candidates body) \<noteq> RD_AUTO_ELIGIBLE"
      by (simp add: policy_result_def split: option.split)
    then show ?thesis using False by simp
  qed
qed

end
