(* ===== verification/Relationship_Examples.thy ===== *)
theory Relationship_Examples
  imports Examples Inbound_Proofs Desk Policy
begin

text \<open>
  The deployment of \<open>Examples\<close> with a contact: its organization, a follow-up topic with a plan and a due attempt, and
  a mail received from it; and a campaign whose search is over, ready to be prepared and approved.
\<close>

definition ex_organization :: organization where
  "ex_organization = \<lparr>o_id = 40, o_workspace = 7, o_name = ''Kiosco'', o_normalized_name = ''kiosco'', o_address = [],
     o_normalized_address = [], o_website = [], o_business_domain = [], o_phone = [], o_source = FROM_DISCOVERY,
     o_provenance = []\<rparr>"

definition ex_contact :: contact where
  "ex_contact = \<lparr>t_id = 70, t_workspace = 7, t_organization = 40, t_preferred_email = Some 41, t_name = ''Ana'',
     t_status = ACTIVE, t_created_reason = MANUAL_ENTRY, t_source_inbound = None, t_created_by = Some 2,
     t_automation_suspended = False, t_last_interaction_at = None\<rparr>"

definition ex_inbound :: "classification \<Rightarrow> inbound" where
  "ex_inbound c = \<lparr>in_id = 80, in_connection = 50, in_organization = None, in_enrollment = None, in_contact = None,
     in_conversation = None, in_related_outbound = None, in_gmail_message_id = ''gm'', in_gmail_thread_id = [],
     in_message_id = [], in_in_reply_to = [], in_references = [], in_sender = ''a@b.c'', in_recipients = [],
     in_subject = ''Hola'', in_external_at = 5000000, in_received_at = 5000000, in_body_text = ''Quiero la baja'',
     in_body_html = [], in_headers = [], in_classification = c, in_confidence = [], in_classification_error = [],
     in_is_human = True, in_is_read = False, in_created_at = 5000000\<rparr>"

definition ex_topic :: follow_up_topic where
  "ex_topic = \<lparr>ft_id = 71, ft_workspace = 7, ft_name = ''Novedades'', ft_objective = ''Saludar'', ft_instructions = [],
     ft_cadence_days = 30, ft_mode = REVIEW_BEFORE_SEND, ft_next_due_at = None, ft_active = True, ft_created_by = 2,
     ft_updated_by = 2\<rparr>"

definition ex_contact_plan :: communication_plan where
  "ex_contact_plan = \<lparr>cp_id = 72, cp_contact = 70, cp_topic = 71, cp_preferred_email = 41, cp_state = PLAN_ACTIVE,
     cp_snoozed_until = None, cp_next_due_at = Some 1000000, cp_last_interaction_at = None, cp_last_sent_at = None,
     cp_created_by = 2, cp_updated_by = 2\<rparr>"

definition ex_attempt :: scheduled_attempt where
  "ex_attempt = \<lparr>sa_id = 73, sa_plan = 72, sa_due_at = 1000000, sa_outbound = None, sa_state = AT_DUE,
     sa_idempotency_key = ''scheduled-contact:1'', sa_reason = [], sa_provider = [], sa_model = [], sa_context_manifest = JObj [], sa_context_hash = [],
     sa_fact_revision_ids = [], sa_authorized_at = None, sa_sent_at = None\<rparr>"

definition ex_contact_db :: "classification \<Rightarrow> db" where
  "ex_contact_db c = ex_db\<lparr>organizations := [ex_organization], contacts := [ex_contact], inbounds := [ex_inbound c],
     automation := ex_automation\<lparr>topic_rows := [ex_topic], plan_rows := [ex_contact_plan], attempt_rows := [ex_attempt]\<rparr>\<rparr>"

definition ex_draft :: draft_result where
  "ex_draft = \<lparr>dr_status = ''READY'', dr_subject = Some ''Hola'', dr_body = Some ''Como va'', dr_fact_revision_ids = [],
     dr_human_reason = None, dr_context_manifest = JObj [], dr_context_hash = []\<rparr>"

lemma ex_reply: "\<exists>fx d'. apply_inbound_contact_effect ex_env (\<lambda>s. s) 80 (ex_contact_db UNSUBSCRIBE_REPLY) = Inr (fx, d')"
proof -
  have "\<not> isl (apply_inbound_contact_effect ex_env (\<lambda>s. s) 80 (ex_contact_db UNSUBSCRIBE_REPLY))" by code_simp
  then show ?thesis by (auto simp: isl_def) (metis old.sum.exhaust surj_pair)
qed

lemma ex_interaction: "\<exists>d'. record_genuine_contact_interaction ex_env 70 5000000 (ex_contact_db OTHER_REPLY) = Inr d'"
proof -
  have "\<not> isl (record_genuine_contact_interaction ex_env 70 5000000 (ex_contact_db OTHER_REPLY))" by code_simp
  then show ?thesis by (auto simp: isl_def) (metis old.sum.exhaust)
qed

lemma ex_drafted: "\<exists>d'. after_draft ex_env 73 (''p'', ''m'') ex_draft (ex_contact_db OTHER_REPLY) = Inr d'
    \<and> messages d' \<noteq> messages (ex_contact_db OTHER_REPLY)"
proof -
  have "(case after_draft ex_env 73 (''p'', ''m'') ex_draft (ex_contact_db OTHER_REPLY) of
      Inl _ \<Rightarrow> False | Inr d' \<Rightarrow> length (messages d') \<noteq> length (messages (ex_contact_db OTHER_REPLY)))" by code_simp
  then show ?thesis by (auto split: sum.splits)
qed

lemma ex_task: "\<exists>t d'. open_human_task ex_env 7 70 None ''K'' ''R'' [] None None (ex_contact_db OTHER_REPLY) = Inr (t, d')"
proof -
  have "\<not> isl (open_human_task ex_env 7 70 None ''K'' ''R'' [] None None (ex_contact_db OTHER_REPLY))" by code_simp
  then show ?thesis by (auto simp: isl_def) (metis old.sum.exhaust surj_pair)
qed

lemma ex_fact: "\<exists>k d'. create_knowledge_revision ex_env 7 2 ''T'' ''C'' ''X'' [] ex_db = Inr (k, d')"
proof -
  have "\<not> isl (create_knowledge_revision ex_env 7 2 ''T'' ''C'' ''X'' [] ex_db)" by code_simp
  then show ?thesis by (auto simp: isl_def) (metis old.sum.exhaust surj_pair)
qed

text \<open>A campaign that waits for its approval, with whatever hashes it was given.\<close>

definition ex_awaiting :: "str \<Rightarrow> str \<Rightarrow> str \<Rightarrow> str \<Rightarrow> campaign" where
  "ex_awaiting audience pdfs schedule content = ex_campaign\<lparr>c_state := C_AWAITING_APPROVAL, c_approved_at := None,
     c_approved_by := None, c_audience_hash := audience, c_attachment_hash := pdfs, c_schedule_hash := schedule,
     c_content_hash := content\<rparr>"

definition ex_prepared :: message where
  "ex_prepared = ex_message\<lparr>m_approved_at := None, m_approved_by := None, m_catalog := Some 20\<rparr>"

definition ex_awaiting_db :: "campaign \<Rightarrow> db" where
  "ex_awaiting_db c = ex_db\<lparr>campaigns := [c], messages := [ex_prepared],
     selections := \<lparr>category_selections = [], zone_selections = [], coverage_selections = [],
       campaign_attachments = [\<lparr>ca_id = 21, ca_campaign = 10, ca_catalog = 20, ca_position = 0\<rparr>]\<rparr>\<rparr>"

lemma ex_awaiting_fields [simp]:
  "messages (ex_awaiting_db c) = [ex_prepared]" "campaigns (ex_awaiting_db c) = [c]" "enrollments (ex_awaiting_db c) = [ex_enrollment]"
  "emails (ex_awaiting_db c) = [ex_email]" "contacts (ex_awaiting_db c) = []" "prospects (ex_awaiting_db c) = []"
  "restrictions (ex_awaiting_db c) = []" "suppressions (ex_awaiting_db c) = []" "attachments (ex_awaiting_db c) = [ex_attachment]"
  "catalogs (ex_awaiting_db c) = [ex_catalog]" "memberships (ex_awaiting_db c) = memberships ex_db"
  "campaign_attachments (selections (ex_awaiting_db c)) = [\<lparr>ca_id = 21, ca_campaign = 10, ca_catalog = 20, ca_position = 0\<rparr>]"
  "storage (ex_awaiting_db c) = storage ex_db" "reservations (ex_awaiting_db c) = []" "ledgers (ex_awaiting_db c) = []" "next_id (ex_awaiting_db c) = 100"
  by (simp_all add: ex_awaiting_db_def)

lemma ex_verified: "\<exists>atts. verified_campaign_attachments ex_env 10 (ex_awaiting_db c) = Inr atts"
  by (simp add: verified_campaign_attachments_def attachments_of_campaign_def t_get_def verify_catalog_def Let_def
      MAX_CATALOG_BYTES_def MAX_ATTACHMENT_SOURCE_BYTES_def ex_env_def)

lemma ex_prepared_fields [simp]:
  "m_id ex_prepared = 30" "m_campaign ex_prepared = Some 10" "m_kind ex_prepared = INITIAL" "m_state ex_prepared = PREPARED"
  "m_enrollment ex_prepared = Some 42" "m_email_address ex_prepared = Some 41"
  by (simp_all add: ex_prepared_def)

lemma ex_prepared_messages: "prepared_messages 10 (ex_awaiting_db c) = [ex_prepared]"
  by (simp add: prepared_messages_def)

lemma ex_rechecked: "recheck_prepared_message ex_env ex_prepared (ex_awaiting_db c) = Inr ([], ex_awaiting_db c)"
  by (simp add: recheck_prepared_message_def get_enrollment_def t_get_def Let_def enrollment_eligibility_def selected_email_def
      organization_has_contact_def audience_removed_def active_restriction_def suppressed_def
      snapshot_outbound_attachments_def attachments_of_message_def message_attachment_rows_def attachment_rows_def
      attachments_of_campaign_def catalog_of_def map_filter_simps)

text \<open>The campaign whose hashes were taken from this database.\<close>

definition ex_ready :: campaign where
  "ex_ready =
     (let d = ex_awaiting_db (ex_awaiting [] [] [] []); c = refresh_campaign_hashes ex_env (ex_awaiting [] [] [] []) d
      in c\<lparr>c_content_hash := (case freeze_message_content ex_env ''Hola'' ''Texto'' ''Ana'' of
             Inl _ \<Rightarrow> [] | Inr f \<Rightarrow> f_content_hash f)\<rparr>)"

lemma ex_validated: "validate_campaign_approval_snapshot ex_env ex_ready (ex_awaiting_db ex_ready) = Inr ()"
proof -
  have "\<not> isl (freeze_message_content ex_env ''Hola'' ''Texto'' ''Ana'')" by code_simp
  then obtain f where f: "freeze_message_content ex_env ''Hola'' ''Texto'' ''Ana'' = Inr f"
    by (auto simp: isl_def) (metis old.sum.exhaust)
  have r: "audience_rows 10 (ex_awaiting_db c) = audience_rows 10 (ex_awaiting_db c')"
    "attachment_rows 10 (ex_awaiting_db c) = attachment_rows 10 (ex_awaiting_db c')" for c c'
    by (simp_all add: audience_rows_def audience_enrollments_def audience_row_def selected_email_def t_get_def
        attachment_rows_def attachments_of_campaign_def catalog_of_def map_filter_simps)
  let ?c0 = "ex_awaiting [] [] [] []"
  have s: "schedule_payload ex_ready = schedule_payload ?c0"
    by (simp add: schedule_payload_def ex_ready_def ex_awaiting_def refresh_campaign_hashes_def Let_def)
  have h: "c_audience_hash ex_ready = canonical_hash ex_env (audience_rows 10 (ex_awaiting_db ?c0))"
    "c_attachment_hash ex_ready = canonical_hash ex_env (attachment_rows 10 (ex_awaiting_db ?c0))"
    "c_schedule_hash ex_ready = canonical_hash ex_env (schedule_payload ?c0)" "c_content_hash ex_ready = f_content_hash f"
    "c_id ex_ready = 10" "c_initial_subject ex_ready = ''Hola''" "c_initial_body ex_ready = ''Texto''" "c_signature ex_ready = ''Ana''"
    using f by (simp_all add: ex_ready_def refresh_campaign_hashes_def Let_def) (simp_all add: ex_awaiting_def)
  show ?thesis
    by (simp add: validate_campaign_approval_snapshot_def h s f r [of ex_ready ?c0])
qed

lemma ex_approved: "\<exists>c d'. approve_campaign ex_env 10 2 (ex_awaiting_db ex_ready) = Inr (c, d')"
proof -
  have r: "ex_ready = ex_awaiting (c_audience_hash ex_ready) (c_attachment_hash ex_ready) (c_schedule_hash ex_ready)
      (c_content_hash ex_ready)"
    by (simp add: ex_ready_def ex_awaiting_def refresh_campaign_hashes_def Let_def)
  have k: "c_id ex_ready = 10" "c_workspace ex_ready = 7" "c_state ex_ready = C_AWAITING_APPROVAL"
    "c_approval_mode ex_ready = BY_CAMPAIGN"
    by (subst r, simp add: ex_awaiting_def)+
  obtain atts where v: "verified_campaign_attachments ex_env 10 (ex_awaiting_db ex_ready) = Inr atts"
    using ex_verified by metis
  have g: "get_campaign 10 (ex_awaiting_db ex_ready) = Inr ex_ready" by (simp add: get_campaign_def t_get_def k)
  obtain x where u: "require_user_capability (ex_awaiting_db ex_ready) 2 APPROVE_CAMPAIGNS (Some 7) = Inr x"
    by (simp add: require_user_capability_def membership_for_def has_capability_def t_get_def)
  obtain d1 where d1: "foldE (approve_prepared ex_env 2) [ex_prepared] (0, ex_awaiting_db ex_ready) = Inr (1, d1)"
    "t_get c_id 10 (campaigns d1) = Some ex_ready"
    by (simp add: approve_prepared_def ex_rechecked save_message_def t_get_def k)
  have g1: "get_campaign 10 d1 = Inr ex_ready" by (simp add: get_campaign_def d1(2))
  have i: "immutable_part (approved_campaign ex_env 2 (refresh_campaign_hashes ex_env ex_ready d1)) = immutable_part ex_ready"
    by (simp add: immutable_part_def approved_campaign_def refresh_campaign_hashes_def)
  have j: "c_id (approved_campaign ex_env 2 (refresh_campaign_hashes ex_env ex_ready d1)) = 10"
    by (simp add: approved_campaign_def refresh_campaign_hashes_def k)
  show ?thesis
    by (simp add: approve_campaign_def g k u v ex_validated ex_prepared_messages d1(1) Let_def save_campaign_def j g1 i del: foldE.simps)
qed

lemma ex_awaiting_ok: "delivery_ok (ex_awaiting_db ex_ready)"
proof -
  have "c_state ex_ready \<noteq> C_RUNNING" by (simp add: ex_ready_def ex_awaiting_def refresh_campaign_hashes_def Let_def)
  then show ?thesis
    by (simp add: delivery_ok_def message_keys_ok_def campaign_keys_ok_def running_approved_def
      reservations_ok_def ledgers_ok_def unique_on_def)
qed

end
