(* ===== verification/Memory.thy ===== *)
theory Memory
  imports Candidates Scheduled
begin

text \<open>
  \<open>automation/memory.py\<close>: a bounded digest of the older messages of a contact, kept in versions. Every use of it is
  verified against the messages it was made from. A message is named by its kind and its key; \<open>parse_pk\<close> stands for
  \<open>uuid.UUID\<close> on the decimal keys of the model.
\<close>

definition MEMORY_FORMAT :: str where "MEMORY_FORMAT = ''DETERMINISTIC_SOURCE_DIGEST_V1''"
definition MAX_MEMORY_SOURCES :: nat where "MAX_MEMORY_SOURCES = 12"
definition MAX_MEMORY_SERIALIZED_CHARACTERS :: nat where "MAX_MEMORY_SERIALIZED_CHARACTERS = 4000"
definition MAX_MEMORY_EXCERPT_CHARACTERS :: nat where "MAX_MEMORY_EXCERPT_CHARACTERS = 240"
definition RECENT_MESSAGES_KEPT_VERBATIM :: nat where "RECENT_MESSAGES_KEPT_VERBATIM = 6"

record memory_source =
  ms_id :: str
  ms_role :: str
  ms_at :: instant
  ms_text :: str

section \<open>The messages of a contact\<close>

definition inbound_text :: "inbound \<Rightarrow> str" where
  "inbound_text i =
     (let authored = rg_new_content (split_inbound_regions (in_body_text i))
      in if authored = [] then in_body_text i else authored)"

definition inbound_source :: "inbound \<Rightarrow> memory_source" where
  "inbound_source i =
     \<lparr>ms_id = ''inbound:'' @ str_of_pk (in_id i), ms_role = ''CLIENT'', ms_at = in_external_at i, ms_text = inbound_text i\<rparr>"

definition sent_or_created :: "message \<Rightarrow> instant" where
  "sent_or_created m = (case m_sent_at m of Some t \<Rightarrow> t | None \<Rightarrow> m_created_at m)"

definition outbound_source :: "message \<Rightarrow> memory_source" where
  "outbound_source m =
     \<lparr>ms_id = ''outbound:'' @ str_of_pk (m_id m), ms_role = ''WORKSPACE'', ms_at = sent_or_created m, ms_text = m_body_text m\<rparr>"

definition human_inbounds :: "id \<Rightarrow> db \<Rightarrow> inbound list" where
  "human_inbounds contact d =
     filter (\<lambda>i. in_contact i = Some contact \<and> in_is_human i \<and> in_classification i \<notin> {AUTO_REPLY, BOUNCE_NOTICE}) (inbounds d)"

definition sent_messages :: "id \<Rightarrow> db \<Rightarrow> message list" where
  "sent_messages contact d = filter (\<lambda>m. m_contact m = Some contact \<and> m_state m = SENT) (messages d)"

text \<open>The newest first; PostgreSQL sorts a missing time before the others.\<close>

definition newest_inbounds :: "inbound list \<Rightarrow> inbound list" where
  "newest_inbounds is = rev (sort_key (\<lambda>i. (in_external_at i, in_created_at i)) is)"

definition newest_messages :: "message list \<Rightarrow> message list" where
  "newest_messages ms =
     rev (sort_key (\<lambda>m. (case m_sent_at m of None \<Rightarrow> (1 :: int, 0) | Some t \<Rightarrow> (0, t), m_created_at m)) ms)"

definition history_sources :: "id \<Rightarrow> db \<Rightarrow> memory_source list" where
  "history_sources contact d =
     (let limit = RECENT_MESSAGES_KEPT_VERBATIM + MAX_MEMORY_SOURCES;
          rows = map inbound_source (take limit (newest_inbounds (human_inbounds contact d)))
                 @ map outbound_source (take limit (newest_messages (sent_messages contact d)));
          newest = rev (sort_key (\<lambda>s. (ms_at s, ms_id s)) rows)
      in rev (take MAX_MEMORY_SOURCES (drop RECENT_MESSAGES_KEPT_VERBATIM newest)))"

section \<open>The digest\<close>

definition memory_entry :: "memory_source \<Rightarrow> json" where
  "memory_entry s =
     JObj [(''source_id'', JStr (ms_id s)), (''role'', JStr (ms_role s)), (''occurred_at'', JStr (iso_utc (ms_at s))),
           (''excerpt'', JStr (take MAX_MEMORY_EXCERPT_CHARACTERS (py_strip (ms_text s))))]"

definition summary_of :: "json list \<Rightarrow> json" where
  "summary_of entries = JObj [(''format'', JStr MEMORY_FORMAT), (''entries'', JList entries)]"

text \<open>Entries are added until the next one would make the text too long.\<close>

fun digest :: "memory_source list \<Rightarrow> memory_source list \<Rightarrow> memory_source list" where
  "digest kept [] = kept"
| "digest kept (s # ss) =
     (if MAX_MEMORY_SERIALIZED_CHARACTERS < length (json_dumps False (summary_of (map memory_entry (kept @ [s]))))
      then kept else digest (kept @ [s]) ss)"

definition summary_for_sources :: "memory_source list \<Rightarrow> json" where
  "summary_for_sources ss = summary_of (map memory_entry (digest [] ss))"

definition source_hash :: "env \<Rightarrow> json \<Rightarrow> memory_source list \<Rightarrow> str" where
  "source_hash env summary ss =
     sha256_hex env (json_dumps False (JObj
       [(''summary'', summary),
        (''sources'', JList (map (\<lambda>s. JObj [(''source_id'', JStr (ms_id s)),
           (''content_sha256'', JStr (sha256_hex env (ms_text s)))]) ss))]))"

section \<open>Verification\<close>

definition parse_pk :: "str \<Rightarrow> id option" where
  "parse_pk s = (let n = undigits s 0 in if str_of_pk n = s then Some n else None)"

fun split_colon :: "str \<Rightarrow> (str \<times> str) option" where
  "split_colon [] = None"
| "split_colon (c # cs) =
     (if c = CHR '':'' then Some ([], cs) else map_option (\<lambda>(p, r). (c # p, r)) (split_colon cs))"

datatype source_ref = Inbound_Ref id | Outbound_Ref id

definition source_ref_of :: "str \<Rightarrow> source_ref option" where
  "source_ref_of t =
     Option.bind (split_colon t) (\<lambda>(prefix, raw).
     Option.bind (parse_pk raw) (\<lambda>k.
       if prefix = ''inbound'' then Some (Inbound_Ref k) else if prefix = ''outbound'' then Some (Outbound_Ref k) else None))"

definition source_row :: "id \<Rightarrow> db \<Rightarrow> source_ref \<Rightarrow> memory_source option" where
  "source_row contact d r =
     (case r of
        Inbound_Ref k \<Rightarrow> map_option inbound_source (t_get in_id k (human_inbounds contact d))
      | Outbound_Ref k \<Rightarrow> map_option outbound_source (t_get m_id k (sent_messages contact d)))"

fun all_some :: "'a option list \<Rightarrow> 'a list option" where
  "all_some [] = Some []"
| "all_some (x # xs) = Option.bind x (\<lambda>y. map_option ((#) y) (all_some xs))"

definition sources_by_ids :: "id \<Rightarrow> str list \<Rightarrow> db \<Rightarrow> memory_source list option" where
  "sources_by_ids contact ids d =
     (if ids = [] \<or> MAX_MEMORY_SOURCES < length ids \<or> \<not> distinct ids then None
      else all_some (map (\<lambda>t. Option.bind (source_ref_of t) (source_row contact d)) ids))"

text \<open>Equality of two JSON values does not depend on the order of their keys.\<close>

definition same_json :: "json \<Rightarrow> json \<Rightarrow> bool" where
  "same_json a b \<longleftrightarrow> json_dumps False a = json_dumps False b"

definition verified_conversation_memory_text :: "env \<Rightarrow> conversation_memory \<Rightarrow> db \<Rightarrow> str option" where
  "verified_conversation_memory_text env m d =
     (case sources_by_ids (cm_contact m) (cm_source_ids m) d of
        None \<Rightarrow> None
      | Some ss \<Rightarrow>
          let expected = summary_for_sources ss; serialized = json_dumps False (cm_summary m)
          in if \<not> same_json (cm_summary m) expected then None
             else if MAX_MEMORY_SERIALIZED_CHARACTERS < length serialized then None
             else if source_hash env expected ss \<noteq> cm_source_hash m then None
             else Some serialized)"

section \<open>Refreshing it\<close>

definition memories_of_contact :: "id \<Rightarrow> db \<Rightarrow> conversation_memory list" where
  "memories_of_contact contact d =
     rev (sort_key cm_version (filter (\<lambda>m. cm_contact m = contact) (memory_rows (automation d))))"

definition active_memory :: "id \<Rightarrow> db \<Rightarrow> conversation_memory option" where
  "active_memory contact d = find (\<lambda>m. cm_superseded_at m = None) (memories_of_contact contact d)"

definition retire_memory :: "env \<Rightarrow> conversation_memory option \<Rightarrow> db \<Rightarrow> db" where
  "retire_memory env active d =
     (case active of
        None \<Rightarrow> d
      | Some m \<Rightarrow> with_automation (\<lambda>a. a\<lparr>memory_rows :=
          t_save cm_id (cm_id m) (\<lambda>r. r\<lparr>cm_superseded_at := Some (clock env)\<rparr>) (memory_rows a)\<rparr>) d)"

definition new_memory :: "env \<Rightarrow> id \<Rightarrow> json \<Rightarrow> str list \<Rightarrow> str \<Rightarrow> db \<Rightarrow> conversation_memory \<times> db" where
  "new_memory env contact summary ids hash d =
     (let (k, d1) = fresh d;
          version = (case memories_of_contact contact d of [] \<Rightarrow> 0 | m # _ \<Rightarrow> cm_version m);
          m = \<lparr>cm_id = k, cm_contact = contact, cm_version = version + 1, cm_summary = summary,
               cm_source_ids = ids, cm_source_hash = hash,
               cm_superseded_at = None, cm_created_at = clock env\<rparr>
      in (m, with_automation (\<lambda>a. a\<lparr>memory_rows := memory_rows a @ [m]\<rparr>) d1))"

definition unchanged_memory :: "json \<Rightarrow> str list \<Rightarrow> str \<Rightarrow> conversation_memory \<Rightarrow> bool" where
  "unchanged_memory summary ids hash m \<longleftrightarrow>
     same_json (cm_summary m) summary \<and> cm_source_ids m = ids \<and> cm_source_hash m = hash"

definition refresh_contact_memory :: "env \<Rightarrow> id \<Rightarrow> db \<Rightarrow> exn + conversation_memory option \<times> db" where
  "refresh_contact_memory env contact d =
     bindE (of_option DoesNotExist (t_get t_id contact (contacts d))) (\<lambda>c.
       let sources = history_sources contact d; active = active_memory contact d;
           summary = summary_for_sources sources;
           ids = map ms_id (digest [] sources);
           kept = filter (\<lambda>s. ms_id s \<in> set ids) sources;
           hash = source_hash env summary kept
       in if kept = [] then Inr (None, retire_memory env active d)
          else if (case active of None \<Rightarrow> False | Some m \<Rightarrow> unchanged_memory summary ids hash m) then Inr (active, d)
          else
            let (m, d1) = new_memory env contact summary ids hash (retire_memory env active d)
            in Inr (Some m, record_event ''conversation_memory.refreshed'' (cm_id m) None d1))"

section \<open>What was refreshed verifies\<close>

lemma digest_prefix: "\<exists>n. digest kept ss = kept @ take n ss"
proof (induction kept ss rule: digest.induct)
  case (2 kept s ss)
  show ?case
  proof (cases "MAX_MEMORY_SERIALIZED_CHARACTERS < length (json_dumps False (summary_of (map memory_entry (kept @ [s]))))")
    case True
    then show ?thesis by (intro exI [of _ 0]) simp
  next
    case False
    with 2 obtain n where "digest (kept @ [s]) ss = (kept @ [s]) @ take n ss" by blast
    with False show ?thesis by (intro exI [of _ "Suc n"]) simp
  qed
qed simp

lemma digest_bounded:
  "digest kept ss = kept
   \<or> length (json_dumps False (summary_of (map memory_entry (digest kept ss)))) \<le> MAX_MEMORY_SERIALIZED_CHARACTERS"
proof (induction kept ss rule: digest.induct)
  case (2 kept s ss)
  show ?case
  proof (cases "MAX_MEMORY_SERIALIZED_CHARACTERS < length (json_dumps False (summary_of (map memory_entry (kept @ [s]))))")
    case False
    with 2 show ?thesis by (auto simp: not_less)
  qed simp
qed simp

lemma digest_again: "digest kept ss = kept @ us \<Longrightarrow> digest kept us = kept @ us"
proof (induction kept ss arbitrary: us rule: digest.induct)
  case (2 kept s ss)
  show ?case
  proof (cases "MAX_MEMORY_SERIALIZED_CHARACTERS < length (json_dumps False (summary_of (map memory_entry (kept @ [s]))))")
    case True
    with 2(2) show ?thesis by simp
  next
    case False
    obtain n where "digest (kept @ [s]) ss = (kept @ [s]) @ take n ss" using digest_prefix by blast
    with 2(2) False have us: "us = s # take n ss" by simp
    have "digest (kept @ [s]) (take n ss) = (kept @ [s]) @ take n ss"
      using False 2(1) [of "take n ss"] 2(2) us by simp
    then show ?thesis using False us by simp
  qed
qed simp

lemma summary_of_digest: "summary_for_sources (digest [] ss) = summary_for_sources ss"
  using digest_again [of "[]" ss "digest [] ss"] by (simp add: summary_for_sources_def)

lemma parse_pk_str [simp]: "parse_pk (str_of_pk k) = Some k"
  by (simp add: parse_pk_def Let_def) (simp add: str_of_pk_def undigits_digits_of)

lemma source_ref_of_names:
  "source_ref_of (''inbound:'' @ str_of_pk k) = Some (Inbound_Ref k)"
  "source_ref_of (''outbound:'' @ str_of_pk k) = Some (Outbound_Ref k)"
  by (simp_all add: source_ref_of_def)

lemmas named_sources [simp] = source_ref_of_names [unfolded append.simps]

lemma sources_found:
  assumes "distinct (map in_id (inbounds d))" "distinct (map m_id (messages d))" "s \<in> set (history_sources contact d)"
  shows "Option.bind (source_ref_of (ms_id s)) (source_row contact d) = Some s"
proof -
  have "s \<in> inbound_source ` set (human_inbounds contact d) \<or> s \<in> outbound_source ` set (sent_messages contact d)"
    using assms(3) by (auto simp: history_sources_def Let_def newest_inbounds_def newest_messages_def
        dest!: in_set_takeD in_set_dropD)
  moreover have "t_get in_id (in_id i) (human_inbounds contact d) = Some i" if "i \<in> set (human_inbounds contact d)" for i
    using that assms(1) by (intro distinct_key_t_get) (simp_all add: human_inbounds_def distinct_map_filter)
  moreover have "t_get m_id (m_id m) (sent_messages contact d) = Some m" if "m \<in> set (sent_messages contact d)" for m
    using that assms(2) by (intro distinct_key_t_get) (simp_all add: sent_messages_def distinct_map_filter)
  ultimately show ?thesis by (auto simp: inbound_source_def outbound_source_def source_row_def)
qed

lemma history_names_distinct:
  assumes "distinct (map in_id (inbounds d))" "distinct (map m_id (messages d))"
  shows "distinct (map ms_id (history_sources contact d))"
proof -
  define xs where "xs = take (RECENT_MESSAGES_KEPT_VERBATIM + MAX_MEMORY_SOURCES) (newest_inbounds (human_inbounds contact d))"
  define ys where "ys = take (RECENT_MESSAGES_KEPT_VERBATIM + MAX_MEMORY_SOURCES) (newest_messages (sent_messages contact d))"
  have sub: "set xs \<subseteq> set (inbounds d)" "set ys \<subseteq> set (messages d)"
    by (auto simp: xs_def ys_def newest_inbounds_def newest_messages_def human_inbounds_def sent_messages_def dest!: in_set_takeD)
  have "distinct xs" "distinct ys"
    using assms by (auto simp: xs_def ys_def newest_inbounds_def newest_messages_def human_inbounds_def sent_messages_def
        distinct_map)
  moreover have "inj_on (ms_id \<circ> inbound_source) (set xs)" "inj_on (ms_id \<circ> outbound_source) (set ys)"
    using assms sub by (auto simp: inj_on_def distinct_map inbound_source_def outbound_source_def subset_iff)
  ultimately have "distinct (map ms_id (map inbound_source xs @ map outbound_source ys))"
    by (auto simp: distinct_map inbound_source_def outbound_source_def)
  then have "distinct (map ms_id (sort_key (\<lambda>s. (ms_at s, ms_id s)) (map inbound_source xs @ map outbound_source ys)))"
    by (simp only: distinct_map distinct_sort set_sort)
  moreover have "history_sources contact d = rev (take MAX_MEMORY_SOURCES (drop RECENT_MESSAGES_KEPT_VERBATIM
      (rev (sort_key (\<lambda>s. (ms_at s, ms_id s)) (map inbound_source xs @ map outbound_source ys)))))"
    by (simp add: history_sources_def Let_def xs_def ys_def take_map)
  moreover have "distinct (map ms_id (rev (take a (drop b (rev zs)))))" if "distinct (map ms_id zs)" for a b zs
    using that by (metis distinct_drop distinct_rev distinct_take drop_map rev_map take_map)
  ultimately show ?thesis by simp
qed

lemma filter_prefix: "distinct (map f xs) \<Longrightarrow> filter (\<lambda>x. f x \<in> set (map f (take n xs))) xs = take n xs"
proof (induction xs arbitrary: n)
  case (Cons x xs)
  show ?case
  proof (cases n)
    case (Suc k)
    have "filter (\<lambda>y. f y \<in> set (map f (take n (x # xs)))) xs = filter (\<lambda>y. f y \<in> set (map f (take k xs))) xs"
      using Cons.prems Suc by (intro filter_cong) (auto, metis imageI)
    then show ?thesis using Cons Suc by simp
  qed simp
qed simp

text \<open>A memory that was just written, or found unchanged, verifies, and is short enough to be sent.\<close>

lemma refreshed_verifies:
  assumes "refresh_contact_memory env contact d = Inr (Some m, d')"
    and keys: "distinct (map in_id (inbounds d))" "distinct (map m_id (messages d))"
  shows "verified_conversation_memory_text env m d' = Some (json_dumps False (cm_summary m))
    \<and> length (json_dumps False (cm_summary m)) \<le> MAX_MEMORY_SERIALIZED_CHARACTERS"
proof -
  define sources where "sources = history_sources contact d"
  define kept where "kept = digest [] sources"
  have distinct: "distinct (map ms_id sources)" unfolding sources_def by (rule history_names_distinct [OF keys])
  obtain n where n: "kept = take n sources" using digest_prefix [of "[]" sources] by (auto simp: kept_def)
  have f: "filter (\<lambda>s. ms_id s \<in> set (map ms_id kept)) sources = kept"
    using filter_prefix [OF distinct] by (simp add: n)
  have act: "active_memory contact d = Some x \<Longrightarrow> cm_contact x = contact" for x
    by (auto simp: active_memory_def memories_of_contact_def dest!: find_Some_mem)
  have frame: "inbounds (retire_memory env v d) = inbounds d" "messages (retire_memory env v d) = messages d" for v
    by (auto simp: retire_memory_def with_automation_def split: option.split)
  have r: "kept \<noteq> []" "cm_contact m = contact" "same_json (cm_summary m) (summary_for_sources sources)"
    "cm_source_ids m = map ms_id kept" "cm_source_hash m = source_hash env (summary_for_sources sources) kept"
    "inbounds d' = inbounds d" "messages d' = messages d"
    using assms(1) f act frame
    by (auto simp: refresh_contact_memory_def res_simps Let_def sources_def [symmetric] kept_def [symmetric] unchanged_memory_def
        new_memory_def fresh_def with_automation_def record_event_def same_json_def split: if_splits option.splits)
  have "all_some (map (\<lambda>s. Option.bind (source_ref_of (ms_id s)) (source_row contact d')) ss) = Some ss"
    if "set ss \<subseteq> set sources" for ss
    using that
  proof (induction ss)
    case (Cons s ss)
    then have "Option.bind (source_ref_of (ms_id s)) (source_row contact d) = Some s"
      using sources_found [OF keys] by (simp add: sources_def)
    moreover have "source_row contact d' = source_row contact d"
      by (simp add: source_row_def human_inbounds_def sent_messages_def r(6,7) fun_eq_iff split: source_ref.split)
    ultimately show ?case using Cons by simp
  qed simp
  moreover have "set kept \<subseteq> set sources" using n set_take_subset by fastforce
  moreover have "length kept \<le> MAX_MEMORY_SOURCES" by (simp add: n sources_def history_sources_def Let_def)
  moreover have "distinct (map ms_id kept)" using distinct by (simp add: n take_map [symmetric])
  ultimately have s: "sources_by_ids contact (map ms_id kept) d' = Some kept"
    using r(1) by (auto simp: sources_by_ids_def o_def)
  have e: "summary_for_sources kept = summary_for_sources sources" by (simp add: kept_def summary_of_digest)
  have "length (json_dumps False (summary_for_sources sources)) \<le> MAX_MEMORY_SERIALIZED_CHARACTERS"
    using digest_bounded [of "[]" sources] r(1) by (simp add: summary_for_sources_def kept_def)
  then show ?thesis
    using r by (simp add: verified_conversation_memory_text_def s e Let_def same_json_def)
qed

end
