(* ===== verification/Reply_Texts.thy ===== *)
theory Reply_Texts
  imports Automation_Texts
begin

text \<open>
  The literal texts of automation/execution.py and of the code it calls: the reasons of a refusal and the summaries
  stored in rows.
\<close>

definition txt_auto_generated :: str where
  "txt_auto_generated =
     ''El correo indica que fue generado autom'' @ [CHR 0xE1] @ ''ticamente.''"

definition txt_auto_precedence :: str where
  "txt_auto_precedence =
     ''El correo tiene encabezados de env'' @ [CHR 0xED] @ ''o autom'' @ [CHR 0xE1] @ ''tico o masivo.''"

definition txt_auto_headers :: str where
  "txt_auto_headers =
     ''El correo tiene encabezados que no permiten una respuesta autom'' @ [CHR 0xE1] @ ''tica segura.''"

definition txt_manifest_format :: str where
  "txt_manifest_format =
     ''El contexto guardado no tiene un formato v'' @ [CHR 0xE1] @ ''lido.''"

definition txt_manifest_incomplete :: str where
  "txt_manifest_incomplete =
     ''El contexto guardado est'' @ [CHR 0xE1] @ '' incompleto.''"

definition txt_manifest_changed :: str where
  "txt_manifest_changed =
     ''Cambi'' @ [CHR 0xF3] @ '' un mensaje usado para preparar la respuesta.''"

definition txt_manifest_hash :: str where
  "txt_manifest_hash =
     ''El contexto guardado no coincide con su verificaci'' @ [CHR 0xF3] @ ''n de integridad.''"

definition txt_no_facts_cited :: str where
  "txt_no_facts_cited =
     ''La respuesta no cita informaci'' @ [CHR 0xF3] @ ''n aprobada.''"

definition txt_fact_outside :: str where
  "txt_fact_outside =
     ''La respuesta cita informaci'' @ [CHR 0xF3] @ ''n que no estaba en su contexto autorizado.''"

definition txt_fact_foreign :: str where
  "txt_fact_foreign =
     ''La informaci'' @ [CHR 0xF3] @ ''n citada pertenece a otro espacio de trabajo.''"

definition txt_fact_changed :: str where
  "txt_fact_changed =
     ''Una informaci'' @ [CHR 0xF3] @ ''n usada dej'' @ [CHR 0xF3] @ '' de estar aprobada o cambi'' @ [CHR 0xF3] @ ''.''"

definition txt_not_live_mode :: str where
  "txt_not_live_mode =
     ''Las respuestas autom'' @ [CHR 0xE1] @ ''ticas no est'' @ [CHR 0xE1] @ ''n habilitadas en modo activo.''"

definition txt_policy_changed :: str where
  "txt_policy_changed =
     ''La pol'' @ [CHR 0xED] @ ''tica cambi'' @ [CHR 0xF3] @ '' desde que se prepar'' @ [CHR 0xF3] @ '' la respuesta.''"

definition txt_live_off :: str where
  "txt_live_off =
     ''El env'' @ [CHR 0xED] @ ''o en vivo est'' @ [CHR 0xE1] @ '' desactivado por la configuraci'' @ [CHR 0xF3] @ ''n general.''"

definition txt_auto_kill :: str where
  "txt_auto_kill =
     ''El bloqueo independiente de respuestas autom'' @ [CHR 0xE1] @ ''ticas est'' @ [CHR 0xE1] @ '' activado.''"

definition txt_not_human :: str where
  "txt_not_human =
     ''El mensaje ya no est'' @ [CHR 0xE1] @ '' clasificado como una respuesta humana apta.''"

definition txt_low_confidence :: str where
  "txt_low_confidence =
     ''La confianza de la decisi'' @ [CHR 0xF3] @ ''n qued'' @ [CHR 0xF3] @ '' por debajo del m'' @ [CHR 0xED] @ ''nimo seguro.''"

definition txt_bad_reply :: str where
  "txt_bad_reply =
     ''La respuesta propuesta no coincide con una acci'' @ [CHR 0xF3] @ ''n permitida.''"

definition txt_bad_redirect :: str where
  "txt_bad_redirect =
     ''La redirecci'' @ [CHR 0xF3] @ ''n no tiene un '' @ [CHR 0xFA] @ ''nico email autorizado.''"

definition txt_bad_action :: str where
  "txt_bad_action =
     ''La acci'' @ [CHR 0xF3] @ ''n propuesta no est'' @ [CHR 0xE1] @ '' permitida para env'' @ [CHR 0xED] @ ''o autom'' @ [CHR 0xE1] @ ''tico.''"

definition txt_context_overflow :: str where
  "txt_context_overflow =
     ''El contexto actual ya no cabe en el l'' @ [CHR 0xED] @ ''mite seguro.''"

definition txt_context_changed :: str where
  "txt_context_changed =
     ''La conversaci'' @ [CHR 0xF3] @ ''n cambi'' @ [CHR 0xF3] @ '' desde que se prepar'' @ [CHR 0xF3] @ '' la respuesta.''"

definition txt_context_moved :: str where
  "txt_context_moved =
     ''La conversaci'' @ [CHR 0xF3] @ ''n cambi'' @ [CHR 0xF3] @ '' antes de completar el env'' @ [CHR 0xED] @ ''o.''"

definition txt_contact_inactive :: str where
  "txt_contact_inactive =
     ''El contacto no admite comunicaciones autom'' @ [CHR 0xE1] @ ''ticas.''"

definition txt_contact_suspended :: str where
  "txt_contact_suspended =
     ''La automatizaci'' @ [CHR 0xF3] @ ''n del contacto est'' @ [CHR 0xE1] @ '' suspendida.''"

definition txt_email_moved :: str where
  "txt_email_moved =
     ''El email ya no pertenece a este contacto.''"

definition txt_recipient_differs :: str where
  "txt_recipient_differs =
     ''El destinatario ya no coincide con el email validado.''"

definition txt_email_invalid :: str where
  "txt_email_invalid =
     ''El email ya no est'' @ [CHR 0xE1] @ '' validado para enviar.''"

definition txt_channel_restricted :: str where
  "txt_channel_restricted =
     ''El contacto o el email tiene una restricci'' @ [CHR 0xF3] @ ''n activa.''"

definition txt_channel_suppressed :: str where
  "txt_channel_suppressed =
     ''El email est'' @ [CHR 0xE1] @ '' en la lista de direcciones que no se deben contactar.''"

definition txt_conversation_paused :: str where
  "txt_conversation_paused =
     ''La conversaci'' @ [CHR 0xF3] @ ''n est'' @ [CHR 0xE1] @ '' en pausa para revisi'' @ [CHR 0xF3] @ ''n humana.''"

definition txt_task_pending :: str where
  "txt_task_pending =
     ''Hay una revisi'' @ [CHR 0xF3] @ ''n humana pendiente para este contacto.''"

definition txt_conversation_differs :: str where
  "txt_conversation_differs =
     ''La conversaci'' @ [CHR 0xF3] @ ''n ya no coincide con el mensaje recibido.''"

definition txt_manual_conflict :: str where
  "txt_manual_conflict =
     ''Esta respuesta ya tiene una contestaci'' @ [CHR 0xF3] @ ''n manual autorizada o enviada.''"

definition txt_gmail_scopes :: str where
  "txt_gmail_scopes =
     ''La conexi'' @ [CHR 0xF3] @ ''n Gmail no tiene exactamente los permisos esperados.''"

definition txt_reservation_inconsistent :: str where
  "txt_reservation_inconsistent =
     ''La reserva autom'' @ [CHR 0xE1] @ ''tica guardada es inconsistente.''"

definition txt_conversation_limit :: str where
  "txt_conversation_limit =
     ''Se alcanz'' @ [CHR 0xF3] @ '' el m'' @ [CHR 0xE1] @ ''ximo de respuestas autom'' @ [CHR 0xE1] @ ''ticas de esta conversaci'' @ [CHR 0xF3] @ ''n en 24 horas.''"

definition txt_workspace_limit :: str where
  "txt_workspace_limit =
     ''Se alcanz'' @ [CHR 0xF3] @ '' el m'' @ [CHR 0xE1] @ ''ximo diario de respuestas autom'' @ [CHR 0xE1] @ ''ticas del espacio de trabajo.''"

definition txt_lost_workspace :: str where
  "txt_lost_workspace =
     ''El env'' @ [CHR 0xED] @ ''o autom'' @ [CHR 0xE1] @ ''tico perdi'' @ [CHR 0xF3] @ '' su espacio de trabajo.''"

definition txt_no_thread_ids :: str where
  "txt_no_thread_ids =
     ''La conversaci'' @ [CHR 0xF3] @ ''n no conserva los identificadores necesarios para responder.''"

definition txt_not_live_origin :: str where
  "txt_not_live_origin =
     ''La conversaci'' @ [CHR 0xF3] @ ''n no se origin'' @ [CHR 0xF3] @ '' en un env'' @ [CHR 0xED] @ ''o en vivo.''"

definition txt_redirect_needs_campaign :: str where
  "txt_redirect_needs_campaign =
     ''Las redirecciones de propuesta necesitan una campa'' @ [CHR 0xF1] @ ''a aprobada como origen.''"

definition txt_reply_address :: str where
  "txt_reply_address =
     ''No se pudo confirmar el email desde el que respondi'' @ [CHR 0xF3] @ '' el contacto.''"

definition txt_no_selected_email :: str where
  "txt_no_selected_email =
     ''La redirecci'' @ [CHR 0xF3] @ ''n no conserva el email que fue seleccionado.''"

definition txt_email_other_org :: str where
  "txt_email_other_org =
     ''El email indicado ya pertenece a otra organizaci'' @ [CHR 0xF3] @ ''n.''"

definition txt_redirect_suppressed :: str where
  "txt_redirect_suppressed =
     ''El email indicado est'' @ [CHR 0xE1] @ '' en la lista de direcciones que no se deben contactar.''"

definition txt_email_taken_org :: str where
  "txt_email_taken_org =
     ''El email indicado qued'' @ [CHR 0xF3] @ '' asociado a otra organizaci'' @ [CHR 0xF3] @ ''n.''"

definition txt_redirect_label :: str where
  "txt_redirect_label =
     ''Direcci'' @ [CHR 0xF3] @ ''n indicada para propuestas''"

definition txt_origin_not_sent :: str where
  "txt_origin_not_sent =
     ''El mensaje que origin'' @ [CHR 0xF3] @ '' la conversaci'' @ [CHR 0xF3] @ ''n ya no figura como enviado.''"

definition txt_outbound_moved :: str where
  "txt_outbound_moved =
     ''El mensaje autom'' @ [CHR 0xE1] @ ''tico ya no coincide con la conversaci'' @ [CHR 0xF3] @ ''n que lo autoriz'' @ [CHR 0xF3] @ ''.''"

definition txt_outbound_kind :: str where
  "txt_outbound_kind =
     ''El tipo de mensaje autom'' @ [CHR 0xE1] @ ''tico no coincide con la acci'' @ [CHR 0xF3] @ ''n autorizada.''"

definition txt_outbound_identity :: str where
  "txt_outbound_identity =
     ''Cambi'' @ [CHR 0xF3] @ '' la identificaci'' @ [CHR 0xF3] @ ''n segura del env'' @ [CHR 0xED] @ ''o autom'' @ [CHR 0xE1] @ ''tico.''"

definition txt_outbound_recipient :: str where
  "txt_outbound_recipient =
     ''El destinatario del mensaje autom'' @ [CHR 0xE1] @ ''tico ya no es v'' @ [CHR 0xE1] @ ''lido.''"

definition txt_outbound_recipient_changed :: str where
  "txt_outbound_recipient_changed =
     ''El destinatario del mensaje autom'' @ [CHR 0xE1] @ ''tico cambi'' @ [CHR 0xF3] @ '' despu'' @ [CHR 0xE9] @ ''s de autorizarse.''"

definition txt_thread_lost :: str where
  "txt_thread_lost =
     ''La conversaci'' @ [CHR 0xF3] @ ''n perdi'' @ [CHR 0xF3] @ '' los identificadores necesarios para responder.''"

definition txt_thread_changed :: str where
  "txt_thread_changed =
     ''Cambi'' @ [CHR 0xF3] @ '' el hilo o los adjuntos del mensaje autom'' @ [CHR 0xE1] @ ''tico autorizado.''"

definition txt_reply_content :: str where
  "txt_reply_content =
     ''Cambi'' @ [CHR 0xF3] @ '' el contenido de la respuesta autom'' @ [CHR 0xE1] @ ''tica autorizada.''"

definition txt_ack_needs_campaign :: str where
  "txt_ack_needs_campaign =
     ''El aviso de redirecci'' @ [CHR 0xF3] @ ''n necesita una campa'' @ [CHR 0xF1] @ ''a aprobada como origen.''"

definition txt_ack_too_early :: str where
  "txt_ack_too_early =
     ''La propuesta todav'' @ [CHR 0xED] @ ''a no fue confirmada; no se puede agradecer el reenv'' @ [CHR 0xED] @ ''o.''"

definition txt_ack_content :: str where
  "txt_ack_content =
     ''Cambi'' @ [CHR 0xF3] @ '' el texto fijo de confirmaci'' @ [CHR 0xF3] @ ''n del reenv'' @ [CHR 0xED] @ ''o.''"

definition txt_proposal_needs_campaign :: str where
  "txt_proposal_needs_campaign =
     ''La propuesta autom'' @ [CHR 0xE1] @ ''tica necesita una campa'' @ [CHR 0xF1] @ ''a aprobada como origen.''"

definition txt_proposal_unapproved :: str where
  "txt_proposal_unapproved =
     ''La propuesta ya no conserva una campa'' @ [CHR 0xF1] @ ''a aprobada.''"

definition txt_proposal_text :: str where
  "txt_proposal_text =
     ''El texto fijo de la propuesta reenviada ya no es v'' @ [CHR 0xE1] @ ''lido.''"

definition txt_proposal_content :: str where
  "txt_proposal_content =
     ''Cambi'' @ [CHR 0xF3] @ '' el contenido fijo de la propuesta reenviada.''"

definition txt_proposal_pdfs :: str where
  "txt_proposal_pdfs =
     ''Cambi'' @ [CHR 0xF3] @ '' el conjunto completo de PDFs de la propuesta reenviada.''"

definition txt_original_unapproved :: str where
  "txt_original_unapproved =
     ''La propuesta original no conserva una campa'' @ [CHR 0xF1] @ ''a aprobada.''"

definition txt_original_pdfs :: str where
  "txt_original_pdfs =
     ''La propuesta original no conserva todos sus PDFs aprobados.''"

definition txt_ack_address :: str where
  "txt_ack_address =
     ''La propuesta se envi'' @ [CHR 0xF3] @ '', pero no se pudo confirmar d'' @ [CHR 0xF3] @ ''nde responder el aviso.''"

definition txt_pdf_differs :: str where
  "txt_pdf_differs =
     ''Uno de los PDFs ya no coincide con la propuesta aprobada.''"

definition txt_pdf_corrupt :: str where
  "txt_pdf_corrupt =
     ''Uno de los PDFs perdi'' @ [CHR 0xF3] @ '' integridad.''"

definition txt_proposal_needs_pdfs :: str where
  "txt_proposal_needs_pdfs =
     ''La propuesta reenviada necesita todos los PDFs aprobados.''"

definition txt_scheduled_kill :: str where
  "txt_scheduled_kill =
     ''El bloqueo independiente de contactos programados est'' @ [CHR 0xE1] @ '' activado.''"

definition txt_scheduled_not_new :: str where
  "txt_scheduled_not_new =
     ''El contacto programado no es un mensaje nuevo independiente.''"

definition txt_scheduled_lost_contact :: str where
  "txt_scheduled_lost_contact =
     ''El contacto programado no conserva un contacto y email v'' @ [CHR 0xE1] @ ''lidos.''"

definition txt_scheduled_task :: str where
  "txt_scheduled_task =
     ''El contacto tiene una revisi'' @ [CHR 0xF3] @ ''n humana pendiente.''"

definition txt_scheduled_many :: str where
  "txt_scheduled_many =
     ''El mensaje no tiene una '' @ [CHR 0xFA] @ ''nica programaci'' @ [CHR 0xF3] @ ''n que lo autorice.''"

definition txt_scheduled_unauthorized :: str where
  "txt_scheduled_unauthorized =
     ''La programaci'' @ [CHR 0xF3] @ ''n ya no est'' @ [CHR 0xE1] @ '' autorizada para enviar.''"

definition txt_scheduled_moved :: str where
  "txt_scheduled_moved =
     ''La programaci'' @ [CHR 0xF3] @ ''n o el email preferido cambiaron antes del env'' @ [CHR 0xED] @ ''o.''"

definition txt_automation_kill :: str where
  "txt_automation_kill =
     ''El bloqueo independiente de automatizaci'' @ [CHR 0xF3] @ ''n est'' @ [CHR 0xE1] @ '' activado.''"

definition txt_automation_off :: str where
  "txt_automation_off =
     ''La automatizaci'' @ [CHR 0xF3] @ ''n ya no est'' @ [CHR 0xE1] @ '' habilitada en modo activo.''"

definition txt_capacity_missing :: str where
  "txt_capacity_missing =
     ''La capacidad diaria del env'' @ [CHR 0xED] @ ''o autom'' @ [CHR 0xE1] @ ''tico no qued'' @ [CHR 0xF3] @ '' reservada.''"

definition txt_scheduled_context :: str where
  "txt_scheduled_context =
     ''El contexto del contacto cambi'' @ [CHR 0xF3] @ '' antes del env'' @ [CHR 0xED] @ ''o autom'' @ [CHR 0xE1] @ ''tico.''"

definition txt_draft_outside :: str where
  "txt_draft_outside =
     ''El borrador cita informaci'' @ [CHR 0xF3] @ ''n fuera de su contexto autorizado.''"

definition txt_draft_unapproved :: str where
  "txt_draft_unapproved =
     ''El borrador todav'' @ [CHR 0xED] @ ''a no fue aprobado por un administrador.''"

definition txt_scheduled_mode :: str where
  "txt_scheduled_mode =
     ''El modo de la programaci'' @ [CHR 0xF3] @ ''n no es v'' @ [CHR 0xE1] @ ''lido.''"

definition txt_scheduled_recipient :: str where
  "txt_scheduled_recipient =
     ''El destinatario del contacto programado no es v'' @ [CHR 0xE1] @ ''lido.''"

definition txt_capacity_wrong :: str where
  "txt_capacity_wrong =
     ''La capacidad de env'' @ [CHR 0xED] @ ''o autom'' @ [CHR 0xE1] @ ''tico no qued'' @ [CHR 0xF3] @ '' reservada correctamente.''"

definition txt_redirect_differs :: str where
  "txt_redirect_differs =
     ''El destinatario ya no coincide con el email elegido en la respuesta.''"

definition txt_reply_differs :: str where
  "txt_reply_differs =
     ''El destinatario de la respuesta ya no coincide con el remitente validado.''"

definition txt_reply_moved :: str where
  "txt_reply_moved =
     ''El destinatario de la respuesta cambi'' @ [CHR 0xF3] @ '' antes del env'' @ [CHR 0xED] @ ''o.''"

definition txt_scheduled_content :: str where
  "txt_scheduled_content =
     ''El contenido programado cambi'' @ [CHR 0xF3] @ '' despu'' @ [CHR 0xE9] @ ''s de su autorizaci'' @ [CHR 0xF3] @ ''n.''"

definition txt_not_queued :: str where
  "txt_not_queued =
     ''El mensaje autom'' @ [CHR 0xE1] @ ''tico no estaba autorizado y en cola.''"

definition txt_lost_inbound :: str where
  "txt_lost_inbound =
     ''El mensaje perdi'' @ [CHR 0xF3] @ '' la respuesta recibida que lo autorizaba.''"

definition txt_pdf_unreadable :: str where
  "txt_pdf_unreadable =
     ''No se pudo leer uno de los PDFs aprobados desde el almacenamiento privado.''"

definition txt_thread_mismatch :: str where
  "txt_thread_mismatch =
     ''Gmail confirm'' @ [CHR 0xF3] @ '' el env'' @ [CHR 0xED] @ ''o, pero lo ubic'' @ [CHR 0xF3] @ '' en un hilo distinto. Revis'' @ [CHR 0xE1] @ '' la conversaci'' @ [CHR 0xF3] @ ''n.''"

definition txt_thread_ownership :: str where
  "txt_thread_ownership =
     ''La propuesta se envi'' @ [CHR 0xF3] @ '', pero el nuevo hilo no pudo vincularse con seguridad.''"

definition txt_scheduled_thread :: str where
  "txt_scheduled_thread =
     ''El mensaje se envi'' @ [CHR 0xF3] @ '', pero no pudimos ubicarlo con seguridad en el historial. Revis'' @ [CHR 0xE1] @ '' el hilo en Gmail.''"

definition txt_delivery_failed :: str where
  "txt_delivery_failed =
     ''Gmail no pudo completar el env'' @ [CHR 0xED] @ ''o autom'' @ [CHR 0xE1] @ ''tico. Revis'' @ [CHR 0xE1] @ '' la conversaci'' @ [CHR 0xF3] @ ''n.''"

definition txt_storage_unreachable :: str where
  "txt_storage_unreachable =
     ''No se pudo acceder al almacenamiento privado del mensaje.''"

definition txt_no_connection :: str where
  "txt_no_connection =
     ''No se encontr'' @ [CHR 0xF3] @ '' la conexi'' @ [CHR 0xF3] @ ''n Gmail.''"

definition txt_gmail_absent :: str where
  "txt_gmail_absent =
     ''Gmail confirm'' @ [CHR 0xF3] @ '' que el identificador del mensaje autom'' @ [CHR 0xE1] @ ''tico no existe.''"

definition txt_profile_contact :: str where "txt_profile_contact = ''Nombre del contacto: ''"

definition txt_profile_company :: str where "txt_profile_company = ''Empresa: ''"

definition txt_profile_email :: str where "txt_profile_email = ''Email preferido: ''"

definition txt_profile_origin :: str where
  "txt_profile_origin =
     ''Origen: mensaje entrante directo de un contacto existente, sin correo previo enviado por la app.''"

lemmas reply_txt_defs =
  txt_auto_generated_def txt_auto_precedence_def txt_auto_headers_def txt_manifest_format_def
  txt_manifest_incomplete_def txt_manifest_changed_def txt_manifest_hash_def
  txt_no_facts_cited_def txt_fact_outside_def txt_fact_foreign_def txt_fact_changed_def
  txt_not_live_mode_def txt_policy_changed_def txt_live_off_def txt_auto_kill_def
  txt_not_human_def txt_low_confidence_def txt_bad_reply_def txt_bad_redirect_def
  txt_bad_action_def txt_context_overflow_def txt_context_changed_def txt_context_moved_def
  txt_contact_inactive_def txt_contact_suspended_def txt_email_moved_def txt_recipient_differs_def
  txt_email_invalid_def txt_channel_restricted_def txt_channel_suppressed_def
  txt_conversation_paused_def txt_task_pending_def txt_conversation_differs_def
  txt_manual_conflict_def txt_gmail_scopes_def txt_reservation_inconsistent_def
  txt_conversation_limit_def txt_workspace_limit_def txt_lost_workspace_def txt_no_thread_ids_def
  txt_not_live_origin_def txt_redirect_needs_campaign_def txt_reply_address_def
  txt_no_selected_email_def txt_email_other_org_def txt_redirect_suppressed_def
  txt_email_taken_org_def txt_redirect_label_def txt_origin_not_sent_def txt_outbound_moved_def
  txt_outbound_kind_def txt_outbound_identity_def txt_outbound_recipient_def
  txt_outbound_recipient_changed_def txt_thread_lost_def txt_thread_changed_def
  txt_reply_content_def txt_ack_needs_campaign_def txt_ack_too_early_def txt_ack_content_def
  txt_proposal_needs_campaign_def txt_proposal_unapproved_def txt_proposal_text_def
  txt_proposal_content_def txt_proposal_pdfs_def txt_original_unapproved_def txt_original_pdfs_def
  txt_ack_address_def txt_pdf_differs_def txt_pdf_corrupt_def txt_proposal_needs_pdfs_def
  txt_scheduled_kill_def txt_scheduled_not_new_def txt_scheduled_lost_contact_def
  txt_scheduled_task_def txt_scheduled_many_def txt_scheduled_unauthorized_def
  txt_scheduled_moved_def txt_automation_kill_def txt_automation_off_def txt_capacity_missing_def
  txt_scheduled_context_def txt_draft_outside_def txt_draft_unapproved_def txt_scheduled_mode_def
  txt_scheduled_recipient_def txt_capacity_wrong_def txt_redirect_differs_def
  txt_reply_differs_def txt_reply_moved_def txt_scheduled_content_def txt_not_queued_def
  txt_lost_inbound_def txt_pdf_unreadable_def txt_thread_mismatch_def txt_thread_ownership_def
  txt_scheduled_thread_def txt_delivery_failed_def txt_storage_unreachable_def
  txt_no_connection_def txt_gmail_absent_def txt_profile_contact_def txt_profile_company_def
  txt_profile_email_def txt_profile_origin_def

text \<open>None of them is empty, so an empty answer of a check means that the check passed.\<close>

lemma reply_txt_not_empty [simp]:
  "txt_auto_generated \<noteq> []" "txt_auto_precedence \<noteq> []"
  "txt_auto_headers \<noteq> []" "txt_manifest_format \<noteq> []"
  "txt_manifest_incomplete \<noteq> []" "txt_manifest_changed \<noteq> []"
  "txt_manifest_hash \<noteq> []" "txt_no_facts_cited \<noteq> []" "txt_fact_outside \<noteq> []"
  "txt_fact_foreign \<noteq> []" "txt_fact_changed \<noteq> []" "txt_not_live_mode \<noteq> []"
  "txt_policy_changed \<noteq> []" "txt_live_off \<noteq> []" "txt_auto_kill \<noteq> []"
  "txt_not_human \<noteq> []" "txt_low_confidence \<noteq> []" "txt_bad_reply \<noteq> []"
  "txt_bad_redirect \<noteq> []" "txt_bad_action \<noteq> []" "txt_context_overflow \<noteq> []"
  "txt_context_changed \<noteq> []" "txt_context_moved \<noteq> []"
  "txt_contact_inactive \<noteq> []" "txt_contact_suspended \<noteq> []"
  "txt_email_moved \<noteq> []" "txt_recipient_differs \<noteq> []"
  "txt_email_invalid \<noteq> []" "txt_channel_restricted \<noteq> []"
  "txt_channel_suppressed \<noteq> []" "txt_conversation_paused \<noteq> []"
  "txt_task_pending \<noteq> []" "txt_conversation_differs \<noteq> []"
  "txt_manual_conflict \<noteq> []" "txt_gmail_scopes \<noteq> []"
  "txt_reservation_inconsistent \<noteq> []" "txt_conversation_limit \<noteq> []"
  "txt_workspace_limit \<noteq> []" "txt_lost_workspace \<noteq> []"
  "txt_no_thread_ids \<noteq> []" "txt_not_live_origin \<noteq> []"
  "txt_redirect_needs_campaign \<noteq> []" "txt_reply_address \<noteq> []"
  "txt_no_selected_email \<noteq> []" "txt_email_other_org \<noteq> []"
  "txt_redirect_suppressed \<noteq> []" "txt_email_taken_org \<noteq> []"
  "txt_redirect_label \<noteq> []" "txt_origin_not_sent \<noteq> []"
  "txt_outbound_moved \<noteq> []" "txt_outbound_kind \<noteq> []"
  "txt_outbound_identity \<noteq> []" "txt_outbound_recipient \<noteq> []"
  "txt_outbound_recipient_changed \<noteq> []" "txt_thread_lost \<noteq> []"
  "txt_thread_changed \<noteq> []" "txt_reply_content \<noteq> []"
  "txt_ack_needs_campaign \<noteq> []" "txt_ack_too_early \<noteq> []"
  "txt_ack_content \<noteq> []" "txt_proposal_needs_campaign \<noteq> []"
  "txt_proposal_unapproved \<noteq> []" "txt_proposal_text \<noteq> []"
  "txt_proposal_content \<noteq> []" "txt_proposal_pdfs \<noteq> []"
  "txt_original_unapproved \<noteq> []" "txt_original_pdfs \<noteq> []"
  "txt_ack_address \<noteq> []" "txt_pdf_differs \<noteq> []" "txt_pdf_corrupt \<noteq> []"
  "txt_proposal_needs_pdfs \<noteq> []" "txt_scheduled_kill \<noteq> []"
  "txt_scheduled_not_new \<noteq> []" "txt_scheduled_lost_contact \<noteq> []"
  "txt_scheduled_task \<noteq> []" "txt_scheduled_many \<noteq> []"
  "txt_scheduled_unauthorized \<noteq> []" "txt_scheduled_moved \<noteq> []"
  "txt_automation_kill \<noteq> []" "txt_automation_off \<noteq> []"
  "txt_capacity_missing \<noteq> []" "txt_scheduled_context \<noteq> []"
  "txt_draft_outside \<noteq> []" "txt_draft_unapproved \<noteq> []"
  "txt_scheduled_mode \<noteq> []" "txt_scheduled_recipient \<noteq> []"
  "txt_capacity_wrong \<noteq> []" "txt_redirect_differs \<noteq> []"
  "txt_reply_differs \<noteq> []" "txt_reply_moved \<noteq> []"
  "txt_scheduled_content \<noteq> []" "txt_not_queued \<noteq> []" "txt_lost_inbound \<noteq> []"
  "txt_pdf_unreadable \<noteq> []" "txt_thread_mismatch \<noteq> []"
  "txt_thread_ownership \<noteq> []" "txt_scheduled_thread \<noteq> []"
  "txt_delivery_failed \<noteq> []" "txt_storage_unreachable \<noteq> []"
  "txt_no_connection \<noteq> []" "txt_gmail_absent \<noteq> []"
  "txt_profile_contact \<noteq> []" "txt_profile_company \<noteq> []"
  "txt_profile_email \<noteq> []" "txt_profile_origin \<noteq> []"
  by (simp_all add: reply_txt_defs)

end
