(* ===== verification/Reply_Checks.thy ===== *)
theory Reply_Checks
  imports Memory Policy Scheduled_Attempts Inbound Delivery Reply_Texts
begin

text \<open>
  The checks an automatic reply passes before anything is written or sent (the first half of
  \<open>automation/execution.py\<close>): headers, the integrity of the context it was written from, the facts it cites, the policy,
  the channel, the conversation and the rate limits. Each check answers a text, empty when nothing is wrong.
\<close>

text \<open>
  What the checks rely on outside the modelled code: \<open>email.utils.parseaddr\<close>, the validator, parser and URL functions of
  \<open>Candidates\<close>, DNS, the owner of a workspace's integration settings, and the hash of the context that
  \<open>automation/context.py\<close> builds from an inbound mail (with its policy version, writing instructions and the time of the
  decision) or from a plan and its goal.
\<close>

record reply_world =
  rw_addr :: "str \<Rightarrow> str"
  rw_check :: "str \<Rightarrow> (str \<times> str \<times> str) option"
  rw_parse :: "str \<Rightarrow> html_event list option"
  rw_mailto_path :: "str \<Rightarrow> str"
  rw_resolve :: "str \<Rightarrow> validity"
  rw_owner :: "id \<Rightarrow> id option"
  rw_reply_context :: "inbound \<Rightarrow> str \<Rightarrow> str \<Rightarrow> instant \<Rightarrow> db \<Rightarrow> exn + str"
  rw_scheduled_context :: "communication_plan \<Rightarrow> str \<Rightarrow> db \<Rightarrow> exn + str"

definition AUTOMATIC_KINDS :: "message_kind set" where
  "AUTOMATIC_KINDS = {AUTOMATIC_REPLY, REFERRED_PROPOSAL, REDIRECT_ACK}"

definition REPLY_KINDS :: "message_kind set" where
  "REPLY_KINDS = {AUTOMATIC_REPLY, REDIRECT_ACK}"

definition NEW_THREAD_KINDS :: "message_kind set" where
  "NEW_THREAD_KINDS = {REFERRED_PROPOSAL, SCHEDULED_CONTACT}"

definition SAFE_REPLY_INTENTS :: "str list" where
  "SAFE_REPLY_INTENTS = [''APPROVED_PRODUCT_INFORMATION'', ''APPROVED_COMPANY_FACT'', ''GROUNDED_SIMPLE_CLARIFICATION'']"

section \<open>The rows of a decision\<close>

definition get_decision :: "id \<Rightarrow> db \<Rightarrow> exn + reply_decision" where
  "get_decision k d = of_option DoesNotExist (t_get rd_id k (decision_rows (automation d)))"

definition save_decision :: "id \<Rightarrow> (reply_decision \<Rightarrow> reply_decision) \<Rightarrow> db \<Rightarrow> db" where
  "save_decision k f = with_automation (\<lambda>a. a\<lparr>decision_rows := t_save rd_id k f (decision_rows a)\<rparr>)"

definition get_inbound :: "id \<Rightarrow> db \<Rightarrow> exn + inbound" where
  "get_inbound k d = of_option DoesNotExist (t_get in_id k (inbounds d))"

definition get_conversation :: "id \<Rightarrow> db \<Rightarrow> exn + conversation" where
  "get_conversation k d = of_option DoesNotExist (t_get cv_id k (conversations d))"

text \<open>\<open>decision.inbound.related_outbound\<close> and its campaign.\<close>

definition root_of :: "inbound \<Rightarrow> db \<Rightarrow> message option" where
  "root_of i d = Option.bind (in_related_outbound i) (\<lambda>k. t_get m_id k (messages d))"

definition root_campaign :: "inbound \<Rightarrow> db \<Rightarrow> campaign option" where
  "root_campaign i d = Option.bind (root_of i d) (\<lambda>m. campaign_or_none m d)"

section \<open>Headers\<close>

text \<open>Of several headers that differ in case only the last one counts.\<close>

definition header_value :: "str \<Rightarrow> inbound \<Rightarrow> str" where
  "header_value name i =
     (case map_of (rev (map (\<lambda>(k, v). (py_casefold k, py_strip v)) (in_headers i))) name of None \<Rightarrow> [] | Some v \<Rightarrow> v)"

definition automatic_header_error :: "inbound \<Rightarrow> str" where
  "automatic_header_error i =
     (let auto_submitted = py_casefold (header_value ''auto-submitted'' i);
          precedence = py_casefold (header_value ''precedence'' i)
      in if auto_submitted \<noteq> [] \<and> auto_submitted \<noteq> ''no'' then txt_auto_generated
         else if list_ex ((=) precedence) [''auto_reply'', ''bulk'', ''junk'', ''list''] then txt_auto_precedence
         else if list_ex (\<lambda>n. header_value n i \<noteq> [])
                  [''x-autoreply'', ''x-auto-response-suppress'', ''list-id'', ''list-unsubscribe'', ''feedback-type'']
         then txt_auto_headers
         else [])"

section \<open>The integrity of the context\<close>

definition json_text :: "json \<Rightarrow> str" where
  "json_text j = (case j of JStr s \<Rightarrow> s | _ \<Rightarrow> [])"

definition field_text :: "str \<Rightarrow> (str \<times> json) list \<Rightarrow> str" where
  "field_text k kvs = (case map_of kvs k of None \<Rightarrow> [] | Some j \<Rightarrow> json_text j)"

text \<open>\<open>direct_contact_profile_context_text\<close> of \<open>automation/context.py\<close>.\<close>

definition direct_contact_profile_context_text :: "contact \<Rightarrow> db \<Rightarrow> str" where
  "direct_contact_profile_context_text c d =
     py_join [CHR 0x0A]
       ((if t_name c = [] then [] else [txt_profile_contact @ t_name c])
        @ (case t_get o_id (t_organization c) (organizations d) of
             None \<Rightarrow> [] | Some og \<Rightarrow> if o_name og = [] then [] else [txt_profile_company @ o_name og])
        @ (case Option.bind (t_preferred_email c) (\<lambda>k. t_get ea_id k (emails d)) of
             None \<Rightarrow> [] | Some e \<Rightarrow> [txt_profile_email @ ea_normalized e])
        @ [txt_profile_origin])"

text \<open>The text a block of the manifest was made from, as it is now; the keys of a manifest are those of rows.\<close>

definition row_named :: "('r \<Rightarrow> id) \<Rightarrow> str \<Rightarrow> 'r list \<Rightarrow> 'r option" where
  "row_named key s rows = find (\<lambda>r. str_of_pk (key r) = s) rows"

definition manifest_block_text :: "env \<Rightarrow> (str \<times> json) list \<Rightarrow> db \<Rightarrow> str option" where
  "manifest_block_text env block d =
     (let s = field_text ''source_id'' block; provenance = field_text ''provenance'' block
      in if s = [] then None
         else if provenance = ''SOURCE_LINKED_MEMORY''
         then Option.bind (find (\<lambda>m. str_of_pk (cm_id m) = s \<and> cm_superseded_at m = None) (memory_rows (automation d)))
                (\<lambda>m. verified_conversation_memory_text env m d)
         else if provenance = ''CONTACT_RECORD''
         then map_option (\<lambda>c. direct_contact_profile_context_text c d) (row_named t_id s (contacts d))
         else if provenance = ''GLOBAL_APPROVED_CONTEXT''
         then map_option kc_text (row_named kc_id s (context_revisions (automation d)))
         else if field_text ''role'' block = ''CLIENT'' then map_option inbound_text (row_named in_id s (inbounds d))
         else map_option m_body_text (row_named m_id s (messages d)))"

fun blocks_error :: "env \<Rightarrow> json list \<Rightarrow> db \<Rightarrow> str" where
  "blocks_error env [] d = []"
| "blocks_error env (b # bs) d =
     (case b of
        JObj block \<Rightarrow>
          (case manifest_block_text env block d of
             None \<Rightarrow> txt_manifest_changed
           | Some t \<Rightarrow>
               if map_of block ''characters'' \<noteq> Some (JInt (int (length t)))
                  \<or> map_of block ''sha256'' \<noteq> Some (JStr (sha256_hex env t))
               then txt_manifest_changed else blocks_error env bs d)
      | _ \<Rightarrow> txt_manifest_incomplete)"

definition manifest_integrity_error :: "env \<Rightarrow> reply_decision \<Rightarrow> db \<Rightarrow> str" where
  "manifest_integrity_error env r d =
     (case rd_context_manifest r of
        JObj kvs \<Rightarrow>
          (case (map_of kvs ''blocks'', map_of kvs ''facts'') of
             (Some (JList blocks), Some (JList facts)) \<Rightarrow>
               or_error (blocks_error env blocks d)
                 (if sha256_hex env (json_dumps True (JObj kvs)) \<noteq> rd_context_hash r then txt_manifest_hash else [])
           | _ \<Rightarrow> txt_manifest_incomplete)
      | _ \<Rightarrow> txt_manifest_format)"

text \<open>The facts of the manifest by revision; iterating anything but a list of objects finds none of them, and a value
  that cannot be iterated raises.\<close>

definition manifest_facts :: "json \<Rightarrow> exn + (str \<times> (str \<times> json) list) list" where
  "manifest_facts manifest =
     (case manifest of
        JObj kvs \<Rightarrow>
          (case map_of kvs ''facts'' of
             Some (JList items) \<Rightarrow>
               Inr (rev (List.map_filter (\<lambda>j. case j of JObj f \<Rightarrow> Some (field_text ''revision_id'' f, f) | _ \<Rightarrow> None) items))
           | None \<Rightarrow> Inr [] | Some (JStr _) \<Rightarrow> Inr [] | Some (JObj _) \<Rightarrow> Inr []
           | _ \<Rightarrow> Inl (RuntimeFailure ''TypeError''))
      | _ \<Rightarrow> Inl (RuntimeFailure ''AttributeError''))"

definition fact_error :: "env \<Rightarrow> reply_decision \<Rightarrow> (str \<times> (str \<times> json) list) list \<Rightarrow> fact_revision \<Rightarrow> db \<Rightarrow> str" where
  "fact_error env r facts v d =
     (case map_of facts (str_of_pk (kr_id v)) of
        None \<Rightarrow> txt_fact_outside
      | Some expected \<Rightarrow>
          (case t_get kf_id (kr_fact v) (fact_rows (automation d)) of
             None \<Rightarrow> txt_fact_changed
           | Some f \<Rightarrow>
               if kf_workspace f \<noteq> rd_workspace r then txt_fact_foreign
               else if \<not> kf_active f \<or> kr_approved_at v = None \<or> kr_superseded_at v \<noteq> None
                       \<or> map_of expected ''version'' \<noteq> Some (JInt (int (kr_version v)))
                       \<or> map_of expected ''sha256'' \<noteq> Some (JStr (sha256_hex env (kr_text v)))
               then txt_fact_changed else []))"

definition selected_facts :: "reply_decision \<Rightarrow> db \<Rightarrow> fact_revision list" where
  "selected_facts r d = filter (\<lambda>v. kr_id v \<in> set (rd_selected_facts r)) (fact_revisions (automation d))"

text \<open>The first complaint of a list of rows.\<close>

fun first_error :: "('r \<Rightarrow> str) \<Rightarrow> 'r list \<Rightarrow> str" where
  "first_error f [] = []"
| "first_error f (x # xs) = (if f x \<noteq> [] then f x else first_error f xs)"

definition selected_facts_error :: "env \<Rightarrow> reply_decision \<Rightarrow> db \<Rightarrow> exn + str" where
  "selected_facts_error env r d =
     bindE (manifest_facts (rd_context_manifest r)) (\<lambda>facts.
       Inr (if rd_action r = ''REPLY'' \<and> rd_intent r \<in> set SAFE_REPLY_INTENTS \<and> selected_facts r d = []
            then txt_no_facts_cited
            else first_error (\<lambda>v. fact_error env r facts v d) (selected_facts r d)))"

section \<open>The policy\<close>

definition proposed_reply_body :: "reply_decision \<Rightarrow> str" where
  "proposed_reply_body r = py_strip (rd_proposed_body r)"

definition new_context_since_decision :: "reply_decision \<Rightarrow> id list \<Rightarrow> db \<Rightarrow> bool" where
  "new_context_since_decision r allowed d \<longleftrightarrow>
     list_ex (\<lambda>i. in_contact i = Some (rd_contact r) \<and> rd_created_at r < in_created_at i \<and> in_id i \<noteq> rd_inbound r) (inbounds d)
     \<or> list_ex (\<lambda>m. m_contact m = Some (rd_contact r) \<and> rd_created_at r < m_created_at m \<and> m_id m \<notin> set allowed
         \<and> \<not> (m_kind m \<in> AUTOMATIC_KINDS \<and> m_conversation m \<noteq> Some (rd_conversation r))) (messages d)"

definition live_mode_error :: "reply_decision \<Rightarrow> db \<Rightarrow> str" where
  "live_mode_error r d =
     (case reply_configuration_of (rd_workspace r) d of
        None \<Rightarrow> txt_not_live_mode
      | Some cfg \<Rightarrow>
          if rd_mode r \<noteq> MODE_LIVE \<or> am_mode cfg \<noteq> MODE_LIVE \<or> am_live_enabled_at cfg = None \<or> am_live_enabled_by cfg = None
          then txt_not_live_mode
          else if am_policy_version cfg \<noteq> rd_policy_version r then txt_policy_changed
          else [])"

definition runtime_prompts_of :: "id option \<Rightarrow> db \<Rightarrow> exn + runtime_prompts" where
  "runtime_prompts_of owner d =
     (case owner of
        Some u \<Rightarrow> runtime_prompt_configuration u d
      | None \<Rightarrow> Inr \<lparr>rp_reply_prompt = DEFAULT_AUTOMATIC_REPLY_PROMPT, rp_mode = FILTER_LENIENT,
                    rp_criteria = DEFAULT_RELEVANCE_CRITERIA, rp_revision = 0\<rparr>)"

definition had_writing_instructions :: "json \<Rightarrow> bool" where
  "had_writing_instructions manifest =
     (case manifest of
        JObj kvs \<Rightarrow>
          (case map_of kvs ''request'' of
             Some (JObj q) \<Rightarrow> (case map_of q ''writing_instructions_sha256'' of None \<Rightarrow> False | Some j \<Rightarrow> json_truthy j)
           | _ \<Rightarrow> False)
      | _ \<Rightarrow> False)"

definition writing_instructions_for_decision :: "reply_world \<Rightarrow> reply_decision \<Rightarrow> inbound \<Rightarrow> db \<Rightarrow> exn + str" where
  "writing_instructions_for_decision W r i d =
     (if \<not> had_writing_instructions (rd_context_manifest r) then Inr []
      else
        let owner = (case root_campaign i d of Some c \<Rightarrow> Some (c_created_by c) | None \<Rightarrow> rw_owner W (rd_workspace r))
        in bindE (runtime_prompts_of owner d) (\<lambda>p. Inr (rp_reply_prompt p)))"

definition action_error :: "reply_decision \<Rightarrow> str" where
  "action_error r =
     (if rd_action r = ''REPLY'' then
        (if rd_intent r \<notin> set SAFE_REPLY_INTENTS \<or> py_strip (rd_proposed_body r) = [] then txt_bad_reply else [])
      else if rd_action r = ''REDIRECT_PROPOSAL'' then
        (if rd_intent r \<noteq> ''EXPLICIT_PROPOSAL_REDIRECTION'' \<or> rd_candidate r = None then txt_bad_redirect else [])
      else txt_bad_action)"

text \<open>The context is built again before the decision is authorized; afterwards nothing new may have appeared.\<close>

definition context_error :: "reply_world \<Rightarrow> reply_decision \<Rightarrow> inbound \<Rightarrow> bool \<Rightarrow> id list \<Rightarrow> db \<Rightarrow> exn + str" where
  "context_error W r i current allowed d =
     (if current then
        (case bindE (writing_instructions_for_decision W r i d) (\<lambda>w.
                rw_reply_context W i (rd_policy_version r) w (rd_created_at r) d) of
           Inl e \<Rightarrow> if is_validation_error e then Inr txt_context_overflow else Inl e
         | Inr h \<Rightarrow> Inr (if h \<noteq> rd_context_hash r then txt_context_changed else []))
      else Inr (if new_context_since_decision r allowed d then txt_context_moved else []))"

definition early_policy_error :: "env \<Rightarrow> reply_decision \<Rightarrow> inbound \<Rightarrow> db \<Rightarrow> str" where
  "early_policy_error env r i d =
     (if \<not> live_sending_allowed env d then txt_live_off
      else if auto_reply_kill_switch env then txt_auto_kill
      else if live_mode_error r d \<noteq> [] then live_mode_error r d
      else if \<not> in_is_human i \<or> in_classification i \<in> {AUTO_REPLY, BOUNCE_NOTICE, UNSUBSCRIBE_REPLY} then txt_not_human
      else if automatic_header_error i \<noteq> [] then automatic_header_error i
      else if rd_confidence r < 900 then txt_low_confidence
      else action_error r)"

definition decision_policy_error ::
    "env \<Rightarrow> reply_world \<Rightarrow> reply_decision \<Rightarrow> inbound \<Rightarrow> bool \<Rightarrow> id list \<Rightarrow> db \<Rightarrow> exn + str" where
  "decision_policy_error env W r i current allowed d =
     (if early_policy_error env r i d \<noteq> [] then Inr (early_policy_error env r i d)
      else
        bindE (selected_facts_error env r d) (\<lambda>err.
          if err \<noteq> [] then Inr err
          else if manifest_integrity_error env r d \<noteq> [] then Inr (manifest_integrity_error env r d)
          else context_error W r i current allowed d))"

section \<open>The channel and the conversation\<close>

definition contact_or_channel_error :: "contact \<Rightarrow> email_address \<Rightarrow> str \<Rightarrow> db \<Rightarrow> str" where
  "contact_or_channel_error c e normalized d =
     (if t_status c \<noteq> ACTIVE then txt_contact_inactive
      else if t_automation_suspended c then txt_contact_suspended
      else if ea_workspace e \<noteq> t_workspace c \<or> ea_organization e \<noteq> t_organization c then txt_email_moved
      else if ea_normalized e \<noteq> normalized then txt_recipient_differs
      else if ea_validity e \<noteq> VALID \<or> ea_invalid_reason e \<noteq> [] then txt_email_invalid
      else if plan_restricted c e d then txt_channel_restricted
      else if suppressed normalized d then txt_channel_suppressed
      else [])"

definition reply_email :: "env \<Rightarrow> reply_world \<Rightarrow> reply_decision \<Rightarrow> inbound \<Rightarrow> contact \<Rightarrow> db \<Rightarrow> exn + email_address option \<times> str" where
  "reply_email env W r i c d =
     (if rw_addr W (in_sender i) = [] then Inr (None, [])
      else
        case normalize_email env (rw_addr W (in_sender i)) of
          Inl e \<Rightarrow> if is_validation_error e then Inr (None, []) else Inl e
        | Inr n \<Rightarrow>
            Inr (find (\<lambda>e. ea_workspace e = rd_workspace r \<and> ea_organization e = t_organization c \<and> ea_normalized e = n)
                   (emails d), n))"

definition conversation_error :: "reply_decision \<Rightarrow> inbound \<Rightarrow> contact \<Rightarrow> conversation \<Rightarrow> db \<Rightarrow> str" where
  "conversation_error r i c v d =
     (if cv_automation_suspended v \<or> t_automation_suspended c then txt_conversation_paused
      else if list_ex (\<lambda>t. (ht_conversation t = Some (cv_id v) \<or> ht_contact t = rd_contact r) \<and> task_open t)
                (task_rows (automation d))
      then txt_task_pending
      else if cv_contact v \<noteq> rd_contact r \<or> cv_workspace v \<noteq> rd_workspace r \<or> cv_connection v \<noteq> in_connection i
      then txt_conversation_differs
      else [])"

definition manual_reply_conflict_error :: "reply_decision \<Rightarrow> db \<Rightarrow> str" where
  "manual_reply_conflict_error r d = (if manual_reply_under_way (rd_inbound r) d then txt_manual_conflict else [])"

definition gmail_connection_error :: "gmail_connection option \<Rightarrow> str" where
  "gmail_connection_error g =
     (case g of
        None \<Rightarrow> txt_gmail_not_ready
      | Some x \<Rightarrow> if \<not> connection_is_ready x then txt_gmail_not_ready
                  else if set (g_scopes x) \<noteq> set GMAIL_SCOPES then txt_gmail_scopes else [])"

section \<open>Rejecting a decision\<close>

definition open_decision_task :: "env \<Rightarrow> reply_decision \<Rightarrow> str \<Rightarrow> str \<Rightarrow> db \<Rightarrow> exn + db" where
  "open_decision_task env r reason summary d =
     map_sum id snd (open_human_task env (rd_workspace r) (rd_contact r) (Some (rd_conversation r)) ''REPLY_REVIEW'' reason
       summary (Some (rd_inbound r)) (Some (rd_id r)) d)"

text \<open>A message given with the decision fails with it, unless it has been sent.\<close>

definition fail_message :: "env \<Rightarrow> str \<Rightarrow> message option \<Rightarrow> db \<Rightarrow> db" where
  "fail_message env summary mo d =
     (case mo of
        None \<Rightarrow> d
      | Some m \<Rightarrow>
          if m_state m = SENT then d
          else save_message env (m_id m)
                 (\<lambda>x. x\<lparr>m_state := SEND_FAILED, m_next_attempt_at := None, m_error := take 500 summary\<rparr>) d)"

definition rejected_state :: "bool \<Rightarrow> decision_state" where
  "rejected_state failed = (if failed then RD_HUMAN_REQUIRED else RD_REJECTED_POLICY)"

definition reject_decision ::
    "env \<Rightarrow> reply_decision \<Rightarrow> str \<Rightarrow> str \<Rightarrow> message option \<Rightarrow> bool \<Rightarrow> db \<Rightarrow> exn + decision_state \<times> db" where
  "reject_decision env r reason summary mo failed d =
     (let d1 = save_decision (rd_id r) (\<lambda>x. x\<lparr>rd_state := rejected_state failed, rd_human_reason := reason,
                 rd_error := take 500 summary\<rparr>) d;
          d2 = fail_message env summary mo d1
      in bindE (open_decision_task env r reason summary d2) (\<lambda>d3.
           Inr (rejected_state failed,
             record_event (if failed then ''automation.reply_needs_attention'' else ''automation.reply_rejected'')
               (rd_id r) None d3)))"

section \<open>Rate limits\<close>

definition conversation_slots :: "id \<Rightarrow> instant \<Rightarrow> db \<Rightarrow> nat" where
  "conversation_slots conversation since d =
     sum_list (map ar_slots (filter (\<lambda>r. ar_conversation r = Some conversation \<and> since \<le> ar_reserved_at r)
       (action_reservations (automation d))))"

definition reservation_of_decision :: "id \<Rightarrow> db \<Rightarrow> action_reservation option" where
  "reservation_of_decision k d = find (\<lambda>r. ar_decision r = Some k) (action_reservations (automation d))"

definition business_date :: "env \<Rightarrow> instant \<Rightarrow> day" where
  "business_date env now = date_of (to_wall env BUSINESS_TIMEZONE now)"

definition reserve_rate_capacity :: "env \<Rightarrow> reply_decision \<Rightarrow> nat \<Rightarrow> instant \<Rightarrow> db \<Rightarrow> str \<times> db" where
  "reserve_rate_capacity env r slots now d =
     (case reservation_of_decision (rd_id r) d of
        Some x \<Rightarrow> (if ar_slots x = slots then [] else txt_reservation_inconsistent, d)
      | None \<Rightarrow>
          let date = business_date env now
          in if auto_conversation_limit env < conversation_slots (rd_conversation r) (now - day_length) d + slots
             then (txt_conversation_limit, d)
             else if auto_workspace_limit env < slots_used (rd_workspace r) date d + slots then (txt_workspace_limit, d)
             else
               let (k, d1) = fresh d;
                   x = \<lparr>ar_id = k, ar_workspace = rd_workspace r, ar_conversation = Some (rd_conversation r),
                        ar_decision = Some (rd_id r), ar_attempt = None, ar_reserved_at = now, ar_local_date = date,
                        ar_slots = slots\<rparr>
               in ([], with_automation (\<lambda>a. a\<lparr>action_reservations := action_reservations a @ [x]\<rparr>) d1))"

text \<open>Messages that were sent since then, or may be on their way.\<close>

definition sent_between :: "instant \<Rightarrow> instant option \<Rightarrow> message \<Rightarrow> bool" where
  "sent_between since until m \<longleftrightarrow>
     m_state m \<in> {SENDING, RECONCILING}
     \<or> m_state m = SENT \<and> (case m_sent_at m of
          None \<Rightarrow> False | Some t \<Rightarrow> since \<le> t \<and> (case until of None \<Rightarrow> True | Some u \<Rightarrow> t < u))"

definition answers_conversation :: "id \<Rightarrow> db \<Rightarrow> message \<Rightarrow> bool" where
  "answers_conversation conversation d m =
     (case Option.bind (m_parent_inbound m) (\<lambda>k. t_get in_id k (inbounds d)) of
        None \<Rightarrow> False | Some i \<Rightarrow> in_conversation i = Some conversation)"

definition conversation_used :: "reply_decision \<Rightarrow> id \<Rightarrow> instant \<Rightarrow> db \<Rightarrow> nat" where
  "conversation_used r self since d =
     length (filter (\<lambda>m. answers_conversation (rd_conversation r) d m \<and> m_kind m \<in> AUTOMATIC_KINDS \<and> m_id m \<noteq> self
       \<and> sent_between since None m) (messages d))"

text \<open>A scheduled message counts when the topic of one of its attempts is automatic.\<close>

definition automatic_attempt :: "db \<Rightarrow> id \<Rightarrow> bool" where
  "automatic_attempt d k =
     list_ex (\<lambda>a. sa_outbound a = Some k
       \<and> (case Option.bind (t_get cp_id (sa_plan a) (plan_rows (automation d)))
                 (\<lambda>p. t_get ft_id (cp_topic p) (topic_rows (automation d))) of
            None \<Rightarrow> False | Some t \<Rightarrow> ft_mode t = AUTOMATIC)) (attempt_rows (automation d))"

definition workspace_of_message :: "message \<Rightarrow> db \<Rightarrow> id option" where
  "workspace_of_message m d = Option.bind (m_contact m) (\<lambda>k. map_option t_workspace (t_get t_id k (contacts d)))"

definition counts_as_automatic :: "db \<Rightarrow> message \<Rightarrow> bool" where
  "counts_as_automatic d m \<longleftrightarrow>
     m_kind m \<in> AUTOMATIC_KINDS \<or> m_kind m = SCHEDULED_CONTACT \<and> automatic_attempt d (m_id m)"

definition workspace_used :: "env \<Rightarrow> id \<Rightarrow> id \<Rightarrow> instant \<Rightarrow> db \<Rightarrow> nat" where
  "workspace_used env ws self now d =
     (let date = business_date env now;
          start = to_utc env BUSINESS_TIMEZONE (combine date 0);
          finish = to_utc env BUSINESS_TIMEZONE (combine (date + 1) 0)
      in length (filter (\<lambda>m. workspace_of_message m d = Some ws \<and> counts_as_automatic d m \<and> m_id m \<noteq> self
           \<and> sent_between start (Some finish) m) (messages d)))"

definition final_delivery_rate_error :: "env \<Rightarrow> message \<Rightarrow> reply_decision option \<Rightarrow> instant \<Rightarrow> db \<Rightarrow> str" where
  "final_delivery_rate_error env m ro now d =
     (case (case ro of Some r \<Rightarrow> Some (rd_workspace r) | None \<Rightarrow> workspace_of_message m d) of
        None \<Rightarrow> txt_lost_workspace
      | Some ws \<Rightarrow>
          if (case ro of None \<Rightarrow> False
              | Some r \<Rightarrow> auto_conversation_limit env < conversation_used r (m_id m) (now - day_length) d + 1)
          then txt_conversation_limit
          else if auto_workspace_limit env < workspace_used env ws (m_id m) now d + 1 then txt_workspace_limit
          else [])"

section \<open>The thread of a reply\<close>

text \<open>\<open>normalize_message_id\<close> and \<open>normalize_references\<close> of \<open>mailbox/sync.py\<close>.\<close>

definition RFC_MESSAGE_ID :: rx where
  "RFC_MESSAGE_ID = seq_rx [chr_rx CHR ''<'', plus_rx (Class (\<lambda>c. c \<notin> set ''<>'' \<and> \<not> py_isspace c)), chr_rx CHR ''>'']"

definition MAX_RFC_MESSAGE_ID_LENGTH :: nat where "MAX_RFC_MESSAGE_ID_LENGTH = 255"
definition MAX_REFERENCES :: nat where "MAX_REFERENCES = 100"

definition rfc_ids :: "str \<Rightarrow> str list" where
  "rfc_ids s = map snd (finditer RFC_MESSAGE_ID 0 0 None s)"

definition normalize_message_id :: "str \<Rightarrow> str" where
  "normalize_message_id value =
     (let s = py_strip value;
          normalized = (case rfc_ids s of i # _ \<Rightarrow> i | [] \<Rightarrow> (case py_split s of w # _ \<Rightarrow> w | [] \<Rightarrow> []))
      in if length normalized \<le> MAX_RFC_MESSAGE_ID_LENGTH then normalized else [])"

fun add_references :: "str list \<Rightarrow> str list \<Rightarrow> str list" where
  "add_references kept [] = kept"
| "add_references kept (c # cs) =
     (let i = normalize_message_id c
      in if i = [] \<or> i \<in> set kept then add_references kept cs
         else if MAX_REFERENCES \<le> length kept + 1 then kept @ [i]
         else add_references (kept @ [i]) cs)"

definition normalize_references :: "str list \<Rightarrow> str list" where
  "normalize_references values =
     add_references [] (concat (map (\<lambda>v. if rfc_ids v \<noteq> [] then rfc_ids v else py_split v) values))"

definition reply_thread_fields :: "inbound \<Rightarrow> db \<Rightarrow> exn + str \<times> str list \<times> str" where
  "reply_thread_fields i d =
     (let in_reply_to = normalize_message_id (in_message_id i);
          root = (case root_of i d of None \<Rightarrow> [] | Some m \<Rightarrow> if m_message_id m = [] then [] else [m_message_id m])
      in if in_gmail_thread_id i = [] \<or> in_reply_to = [] then Inl (ValidationError txt_no_thread_ids)
         else Inr (in_reply_to, normalize_references (root @ in_references i @ [in_message_id i]), in_gmail_thread_id i))"

definition reply_signature :: "id \<Rightarrow> db \<Rightarrow> str" where
  "reply_signature ws d = (case workspace_profile ws d of None \<Rightarrow> [] | Some p \<Rightarrow> py_strip (bp_signature p))"

end
