(* ===== verification/Reply_Authorization.thy ===== *)
theory Reply_Authorization
  imports Reply_Checks
begin

text \<open>
  From a decision to the messages it authorizes (the middle of \<open>automation/execution.py\<close>): the reply in the thread, or the
  proposal forwarded to the one address the mail gave and, once that was sent, the thanks for it. Each operation is
  one transaction; a refusal is a committed answer, not an exception.
\<close>

section \<open>Creating a message once\<close>

definition REDIRECT_ACK_BODY :: str where
  "REDIRECT_ACK_BODY =
     ''Perfecto, muchas gracias. La propuesta fue enviada a la direcci'' @ [CHR 0xF3] @ ''n indicada.''"

definition automatic_outbound ::
    "env \<Rightarrow> id \<Rightarrow> reply_decision \<Rightarrow> inbound \<Rightarrow> contact \<Rightarrow> message_kind \<Rightarrow> email_address \<Rightarrow> str \<Rightarrow> str \<Rightarrow> str \<Rightarrow> db \<Rightarrow> message" where
  "automatic_outbound env k r i c kind e subject body key d =
     (let origin_m = root_of i d
      in (blank_message env k kind key)
           \<lparr>m_campaign := Option.bind origin_m m_campaign, m_organization := Some (t_organization c),
            m_enrollment := Option.bind origin_m m_enrollment, m_contact := Some (t_id c),
            m_prospect := Option.bind origin_m m_prospect, m_prospect_email := Option.bind origin_m m_prospect_email,
            m_email_address := Some (ea_id e), m_parent_inbound := Some (in_id i), m_recipient := ea_original e,
            m_recipient_normalized := ea_normalized e, m_subject := subject, m_body_text := body, m_state := QUEUED,
            m_delivery_mode := LIVE, m_semantic_key := key, m_message_id := deterministic_message_id env key,
            m_next_attempt_at := Some (clock env)\<rparr>)"

text \<open>A second creation finds the message of the same semantic key; another conflict leaves none to find.\<close>

definition create_semantic_outbound :: "message \<Rightarrow> db \<Rightarrow> exn + (message \<times> bool) \<times> db" where
  "create_semantic_outbound m d =
     (if message_key_taken m d
      then bindE (of_option DoesNotExist (find (\<lambda>x. m_semantic_key x = m_semantic_key m) (messages d))) (\<lambda>x.
             Inr ((x, False), d))
      else Inr ((m, True), d\<lparr>next_id := Suc (next_id d), messages := messages d @ [m]\<rparr>))"

section \<open>The address of a redirection\<close>

definition update_candidate :: "id \<Rightarrow> (email_candidate \<Rightarrow> email_candidate) \<Rightarrow> db \<Rightarrow> db" where
  "update_candidate k f = with_automation (\<lambda>a. a\<lparr>candidate_rows := t_save ec_id k f (candidate_rows a)\<rparr>)"

definition get_candidate :: "id \<Rightarrow> db \<Rightarrow> exn + email_candidate" where
  "get_candidate k d = of_option DoesNotExist (t_get ec_id k (candidate_rows (automation d)))"

definition proposal_of :: "id \<Rightarrow> db \<Rightarrow> message option" where
  "proposal_of inbound d = find (\<lambda>m. m_parent_inbound m = Some inbound \<and> m_kind m = REFERRED_PROPOSAL) (messages d)"

text \<open>DNS is asked outside the transaction; the candidate is written only if it is still the decision's.\<close>

definition mx_of_candidate :: "env \<Rightarrow> reply_world \<Rightarrow> email_candidate \<Rightarrow> exn + check_state" where
  "mx_of_candidate env W c =
     (case normalize_email env (ec_normalized c) of
        Inl e \<Rightarrow> if is_validation_error e then Inr CK_INVALID else Inl e
      | Inr n \<Rightarrow> Inr (check_of_mx (rw_resolve W (domain_of n))))"

definition write_candidate_mx :: "id \<Rightarrow> email_candidate \<Rightarrow> check_state \<Rightarrow> db \<Rightarrow> exn + db" where
  "write_candidate_mx decision c state d =
     bindE (get_decision decision d) (\<lambda>r.
     bindE (get_inbound (rd_inbound r) d) (\<lambda>_.
     bindE (get_candidate (ec_id c) d) (\<lambda>locked.
       Inr (if rd_candidate r = Some (ec_id locked) \<and> ec_normalized locked = ec_normalized c
            then update_candidate (ec_id c) (\<lambda>x. x\<lparr>ec_mx := state\<rparr>) d else d))))"

definition wants_mx :: "reply_decision \<Rightarrow> db \<Rightarrow> id option" where
  "wants_mx r d =
     (if rd_action r \<noteq> ''REDIRECT_PROPOSAL'' \<or> rd_state r \<notin> {RD_AUTO_ELIGIBLE, RD_AUTHORIZED, RD_EXECUTING} then None
      else case proposal_of (rd_inbound r) d of
             Some m \<Rightarrow> if m_state m \<noteq> QUEUED then None else rd_candidate r
           | None \<Rightarrow> rd_candidate r)"

definition refresh_redirect_candidate_mx :: "env \<Rightarrow> reply_world \<Rightarrow> id \<Rightarrow> db \<Rightarrow> exn + db" where
  "refresh_redirect_candidate_mx env W k d =
     (case t_get rd_id k (decision_rows (automation d)) of
        None \<Rightarrow> Inr d
      | Some r \<Rightarrow>
          (case wants_mx r d of
             None \<Rightarrow> Inr d
           | Some ck \<Rightarrow>
               bindE (get_candidate ck d) (\<lambda>c.
               bindE (mx_of_candidate env W c) (\<lambda>state. write_candidate_mx k c state d))))"

definition next_provider_order :: "id \<Rightarrow> db \<Rightarrow> nat" where
  "next_provider_order org d =
     Suc (fold max (map ea_provider_order (filter (\<lambda>e. ea_organization e = org) (emails d))) 0)"

definition redirect_address :: "env \<Rightarrow> id \<Rightarrow> reply_decision \<Rightarrow> contact \<Rightarrow> email_candidate \<Rightarrow> db \<Rightarrow> email_address" where
  "redirect_address env k r c cand d =
     \<lparr>ea_id = k, ea_workspace = rd_workspace r, ea_organization = t_organization c, ea_original = ec_normalized cand,
      ea_normalized = ec_normalized cand, ea_domain = domain_of (ec_normalized cand), ea_label = txt_redirect_label,
      ea_preferred = False, ea_provenance = ''INBOUND_REDIRECT'', ea_source_url = [],
      ea_source_content_hash = ec_evidence_hash cand, ea_provider_order = next_provider_order (t_organization c) d,
      ea_validity = VALID, ea_validated_at = Some (clock env), ea_invalid_reason = [], ea_invalidated_at = None,
      ea_legacy = None\<rparr>"

definition labelled_redirect :: "email_address \<Rightarrow> email_address" where
  "labelled_redirect e =
     e\<lparr>ea_label := if ea_label e = [] then txt_redirect_label else ea_label e,
       ea_provenance := if ea_provenance e = [] then ''INBOUND_REDIRECT'' else ea_provenance e\<rparr>"

text \<open>The address exists already, for this contact and free to be written to, or is created; or a text says why not.\<close>

definition existing_or_new_address ::
    "env \<Rightarrow> reply_decision \<Rightarrow> contact \<Rightarrow> email_candidate \<Rightarrow> db \<Rightarrow> str + email_address \<times> db" where
  "existing_or_new_address env r c cand d =
     (case find (\<lambda>e. ea_workspace e = rd_workspace r \<and> ea_normalized e = ec_normalized cand) (emails d) of
        Some e \<Rightarrow>
          if ea_organization e \<noteq> t_organization c then Inl txt_email_other_org
          else if contact_or_channel_error c e (ec_normalized cand) d \<noteq> []
          then Inl (contact_or_channel_error c e (ec_normalized cand) d)
          else Inr (labelled_redirect e, d\<lparr>emails := t_save ea_id (ea_id e) labelled_redirect (emails d)\<rparr>)
      | None \<Rightarrow>
          if suppressed (ec_normalized cand) d then Inl txt_redirect_suppressed
          else
            let (k, d1) = fresh d; e = redirect_address env k r c cand d
            in Inr (e, d1\<lparr>emails := emails d1 @ [e]\<rparr>))"

definition redirect_email ::
    "env \<Rightarrow> reply_world \<Rightarrow> reply_decision \<Rightarrow> inbound \<Rightarrow> contact \<Rightarrow> db \<Rightarrow> exn + (str + email_address \<times> db)" where
  "redirect_email env W r i c d =
     (case rd_candidate r of
        None \<Rightarrow> Inr (Inl txt_no_selected_email)
      | Some ck \<Rightarrow>
          bindE (get_candidate ck d) (\<lambda>cand.
            let err = candidate_validation_error env (rw_check W) (rw_parse W) (rw_mailto_path W) i cand d
            in Inr (if err \<noteq> [] then Inl err
                    else case existing_or_new_address env r c cand d of
                           Inl t \<Rightarrow> Inl t
                         | Inr (e, d1) \<Rightarrow>
                             Inr (e, update_candidate ck (\<lambda>x. x\<lparr>ec_resolved := Some (ea_id e)\<rparr>) d1))))"

section \<open>The attachments of the original proposal\<close>

definition first_proposal :: "id \<Rightarrow> db \<Rightarrow> message option" where
  "first_proposal enrollment d =
     (case sort_key (\<lambda>m. (case m_sent_at m of None \<Rightarrow> (1 :: int, 0) | Some t \<Rightarrow> (0, t), m_created_at m))
             (filter (\<lambda>m. m_enrollment m = Some enrollment \<and> m_kind m \<in> {FIRST_CONTACT, INITIAL} \<and> m_state m = SENT)
               (messages d)) of
        [] \<Rightarrow> None | m # _ \<Rightarrow> Some m)"

definition origin_attachments :: "inbound \<Rightarrow> db \<Rightarrow> attachment list" where
  "origin_attachments i d =
     (case root_of i d of
        None \<Rightarrow> []
      | Some origin_m \<Rightarrow>
          let source = (case Option.bind (m_enrollment origin_m) (\<lambda>k. first_proposal k d) of None \<Rightarrow> origin_m | Some m \<Rightarrow> m)
          in attachments_of_message (m_id source) d)"

definition copied_attachment :: "id \<Rightarrow> attachment \<Rightarrow> attachment" where
  "copied_attachment k a = a\<lparr>a_message := k\<rparr>"

section \<open>Authorizing the forwarded proposal\<close>

definition approved_root_campaign :: "inbound \<Rightarrow> db \<Rightarrow> campaign option" where
  "approved_root_campaign i d =
     (case root_campaign i d of
        None \<Rightarrow> None
      | Some c \<Rightarrow> if c_approved_at c = None \<or> c_approved_by c = None then None else Some c)"

text \<open>A refusal inside a longer operation: the state it leaves, or what goes on.\<close>

type_synonym 'a refusable = "(decision_state + 'a) \<times> db"

definition refuse :: "env \<Rightarrow> reply_decision \<Rightarrow> str \<Rightarrow> str \<Rightarrow> bool \<Rightarrow> db \<Rightarrow> exn + 'a refusable" where
  "refuse env r reason summary failed d =
     bindE (reject_decision env r reason summary None failed d) (\<lambda>(s, d1). Inr (Inl s, d1))"

definition create_proposal ::
    "env \<Rightarrow> reply_decision \<Rightarrow> inbound \<Rightarrow> contact \<Rightarrow> campaign \<Rightarrow> email_address \<Rightarrow> attachment list \<Rightarrow> db \<Rightarrow> exn + message refusable" where
  "create_proposal env r i c camp e source d =
     bindE (freeze_message_content env (pl_referred_subject (c_plan camp)) (pl_referred_body (c_plan camp)) (c_signature camp))
       (\<lambda>frozen.
          let m = (automatic_outbound env (next_id d) r i c REFERRED_PROPOSAL e (f_subject frozen) (f_rendered_body frozen)
                     (''redirect-proposal:'' @ in_gmail_message_id i) d)
                  \<lparr>m_signature := f_signature frozen, m_content_hash := f_content_hash frozen,
                   m_catalog := Some (a_catalog (hd source)), m_catalog_version := Some (a_catalog_version (hd source))\<rparr>
          in bindE (create_semantic_outbound m d) (\<lambda>((x, created), d1).
               Inr (Inr x, if created then d1\<lparr>attachments := attachments d1 @ map (copied_attachment (m_id x)) source\<rparr>
                           else d1)))"

definition authorize_redirect_proposal ::
    "env \<Rightarrow> reply_world \<Rightarrow> reply_decision \<Rightarrow> inbound \<Rightarrow> contact \<Rightarrow> db \<Rightarrow> exn + message refusable" where
  "authorize_redirect_proposal env W r i c d =
     (if root_of i d = None then refuse env r ''MISSING_APPROVED_CAMPAIGN'' txt_redirect_needs_campaign False d
      else case approved_root_campaign i d of
        None \<Rightarrow> refuse env r ''MISSING_APPROVED_CAMPAIGN'' txt_original_unapproved False d
      | Some camp \<Rightarrow>
          bindE (redirect_email env W r i c d) (\<lambda>res.
            case res of
              Inl t \<Rightarrow> refuse env r ''REDIRECT_ADDRESS_UNSAFE'' t False d
            | Inr (e, d1) \<Rightarrow>
                let source = origin_attachments i d1
                in if source = [] then refuse env r ''MISSING_APPROVED_ATTACHMENTS'' txt_original_pdfs False d1
                   else create_proposal env r i c camp e source d1))"

section \<open>Authorizing a reply\<close>

definition create_reply ::
    "env \<Rightarrow> reply_world \<Rightarrow> reply_decision \<Rightarrow> inbound \<Rightarrow> contact \<Rightarrow> db \<Rightarrow> exn + message refusable" where
  "create_reply env W r i c d =
     bindE (reply_email env W r i c d) (\<lambda>(eo, normalized).
       case eo of
         None \<Rightarrow> refuse env r ''INVALID_REPLY_ADDRESS'' txt_reply_address False d
       | Some e \<Rightarrow>
           if contact_or_channel_error c e normalized d \<noteq> []
           then refuse env r ''CONTACT_RESTRICTED'' (contact_or_channel_error c e normalized d) False d
           else case reply_thread_fields i d of
             Inl x \<Rightarrow> if is_validation_error x then refuse env r ''MISSING_THREAD_CONTEXT'' (exn_text x) False d else Inl x
           | Inr (in_reply_to, references, thread) \<Rightarrow>
               let subject = (case root_of i d of Some origin_m \<Rightarrow> m_subject origin_m | None \<Rightarrow> in_subject i);
                   m = (automatic_outbound env (next_id d) r i c AUTOMATIC_REPLY e subject (proposed_reply_body r)
                          (''automatic-reply:'' @ in_gmail_message_id i) d)
                       \<lparr>m_signature := reply_signature (rd_workspace r) d, m_conversation := Some (rd_conversation r),
                        m_in_reply_to := in_reply_to, m_references := references, m_gmail_thread_id := thread\<rparr>
               in bindE (create_semantic_outbound m d) (\<lambda>((x, created), d1). Inr (Inr x, d1)))"

definition settled_decision_states :: "decision_state set" where
  "settled_decision_states =
     {RD_COMPLETED, RD_HUMAN_REQUIRED, RD_REJECTED_POLICY, RD_FAILED, RD_NO_ACTION, RD_SHADOW_RECORDED,
      RD_MANUAL_REPLY_RECORDED}"

text \<open>The oldest automatic message that answers the mail.\<close>

definition existing_answer :: "id \<Rightarrow> db \<Rightarrow> message option" where
  "existing_answer inbound d =
     (case sort_key m_created_at
             (filter (\<lambda>m. m_parent_inbound m = Some inbound \<and> m_kind m \<in> AUTOMATIC_KINDS) (messages d)) of
        [] \<Rightarrow> None | m # _ \<Rightarrow> Some m)"

definition origin_error :: "reply_decision \<Rightarrow> inbound \<Rightarrow> db \<Rightarrow> (str \<times> str) option" where
  "origin_error r i d =
     (case root_of i d of
        Some origin_m \<Rightarrow>
          if m_delivery_mode origin_m \<noteq> LIVE \<or> (case root_campaign i d of None \<Rightarrow> False | Some c \<Rightarrow> c_delivery_mode c \<noteq> LIVE)
          then Some (''NOT_LIVE_ORIGIN'', txt_not_live_origin) else None
      | None \<Rightarrow>
          if rd_action r = ''REDIRECT_PROPOSAL'' then Some (''MISSING_APPROVED_CAMPAIGN'', txt_redirect_needs_campaign)
          else None)"

definition decision_connection :: "reply_decision \<Rightarrow> inbound \<Rightarrow> db \<Rightarrow> gmail_connection option" where
  "decision_connection r i d = find (\<lambda>g. g_id g = in_connection i \<and> g_workspace g = rd_workspace r) (connections d)"

definition slots_of :: "reply_decision \<Rightarrow> nat" where
  "slots_of r = (if rd_action r = ''REDIRECT_PROPOSAL'' then 2 else 1)"

text \<open>The rows a decision refers to.\<close>

definition decision_context :: "reply_decision \<Rightarrow> db \<Rightarrow> exn + inbound \<times> contact \<times> conversation" where
  "decision_context r d =
     bindE (get_inbound (rd_inbound r) d) (\<lambda>i.
     bindE (get_contact (rd_contact r) d) (\<lambda>c.
     bindE (get_conversation (rd_conversation r) d) (\<lambda>v. Inr (i, c, v))))"

text \<open>The checks before anything is created, with the reason of a refusal.\<close>

definition authorization_error ::
    "env \<Rightarrow> reply_world \<Rightarrow> reply_decision \<Rightarrow> inbound \<Rightarrow> contact \<Rightarrow> conversation \<Rightarrow> db \<Rightarrow> exn + (str \<times> str \<times> bool) option" where
  "authorization_error env W r i c v d =
     (if manual_reply_conflict_error r d \<noteq> []
      then Inr (Some (''MANUAL_REPLY_ALREADY_AUTHORIZED'', manual_reply_conflict_error r d, True))
      else if conversation_error r i c v d \<noteq> [] then Inr (Some (''HUMAN_TASK_OPEN'', conversation_error r i c v d, False))
      else
        bindE (decision_policy_error env W r i True [] d) (\<lambda>err.
          Inr (if err \<noteq> [] then Some (''POLICY_RECHECK_FAILED'', err, False)
               else case origin_error r i d of
                 Some (reason, t) \<Rightarrow> Some (reason, t, False)
               | None \<Rightarrow>
                   if gmail_connection_error (decision_connection r i d) \<noteq> []
                   then Some (''GMAIL_NOT_READY'', gmail_connection_error (decision_connection r i d), False)
                   else None)))"

definition mark_authorized :: "reply_decision \<Rightarrow> message \<Rightarrow> db \<Rightarrow> db" where
  "mark_authorized r m d =
     record_event ''automation.reply_authorized'' (rd_id r) None
       (save_decision (rd_id r) (\<lambda>x. x\<lparr>rd_state := RD_AUTHORIZED, rd_error := []\<rparr>) d)"

definition reserve_and_create ::
    "env \<Rightarrow> reply_world \<Rightarrow> reply_decision \<Rightarrow> inbound \<Rightarrow> contact \<Rightarrow> db \<Rightarrow> exn + message refusable" where
  "reserve_and_create env W r i c d =
     (case reserve_rate_capacity env r (slots_of r) (clock env) d of
        (err, d1) \<Rightarrow>
          if err \<noteq> [] then refuse env r ''AUTOMATIC_RATE_LIMIT'' err False d1
          else
            bindE (if rd_action r = ''REPLY'' then create_reply env W r i c d1 else authorize_redirect_proposal env W r i c d1)
              (\<lambda>(res, d2). Inr (res, case res of Inl s \<Rightarrow> d2 | Inr m \<Rightarrow> mark_authorized r m d2)))"

definition authorize_reply_decision :: "env \<Rightarrow> reply_world \<Rightarrow> id \<Rightarrow> db \<Rightarrow> exn + message refusable" where
  "authorize_reply_decision env W k d =
     bindE (get_decision k d) (\<lambda>r.
     bindE (decision_context r d) (\<lambda>(i, c, v).
       if rd_state r \<in> settled_decision_states then Inr (Inl (rd_state r), d)
       else case existing_answer (rd_inbound r) d of
         Some m \<Rightarrow> Inr (Inr m, d)
       | None \<Rightarrow>
           if rd_state r \<noteq> RD_AUTO_ELIGIBLE then Inr (Inl (rd_state r), d)
           else
             bindE (authorization_error env W r i c v d) (\<lambda>err.
               case err of
                 Some (reason, summary, failed) \<Rightarrow> refuse env r reason summary failed d
               | None \<Rightarrow> reserve_and_create env W r i c d)))"

section \<open>Authorizing the thanks for a redirection\<close>

definition ack_of :: "id \<Rightarrow> db \<Rightarrow> message option" where
  "ack_of inbound d = find (\<lambda>m. m_parent_inbound m = Some inbound \<and> m_kind m = REDIRECT_ACK) (messages d)"

definition create_ack ::
    "env \<Rightarrow> reply_world \<Rightarrow> reply_decision \<Rightarrow> inbound \<Rightarrow> contact \<Rightarrow> db \<Rightarrow> exn + message refusable" where
  "create_ack env W r i c d =
     bindE (reply_email env W r i c d) (\<lambda>(eo, normalized).
       case eo of
         None \<Rightarrow> refuse env r ''INVALID_REPLY_ADDRESS'' txt_ack_address True d
       | Some e \<Rightarrow>
           if contact_or_channel_error c e normalized d \<noteq> []
           then refuse env r ''CONTACT_RESTRICTED'' (contact_or_channel_error c e normalized d) True d
           else case reply_thread_fields i d of
             Inl x \<Rightarrow> if is_validation_error x then refuse env r ''MISSING_THREAD_CONTEXT'' (exn_text x) True d else Inl x
           | Inr (in_reply_to, references, thread) \<Rightarrow>
               (case root_of i d of
                  None \<Rightarrow> refuse env r ''MISSING_APPROVED_CAMPAIGN'' txt_ack_needs_campaign True d
                | Some origin_m \<Rightarrow>
                    let m = (automatic_outbound env (next_id d) r i c REDIRECT_ACK e (m_subject origin_m) REDIRECT_ACK_BODY
                               (''redirect-ack:'' @ in_gmail_message_id i) d)
                            \<lparr>m_conversation := Some (rd_conversation r), m_in_reply_to := in_reply_to,
                             m_references := references, m_gmail_thread_id := thread\<rparr>
                    in bindE (create_semantic_outbound m d) (\<lambda>((x, created), d1). Inr (Inr x, d1))))"

definition authorize_redirect_ack :: "env \<Rightarrow> reply_world \<Rightarrow> id \<Rightarrow> db \<Rightarrow> exn + message refusable" where
  "authorize_redirect_ack env W k d =
     bindE (get_decision k d) (\<lambda>r.
     bindE (decision_context r d) (\<lambda>(i, c, v).
       case ack_of (rd_inbound r) d of
         Some m \<Rightarrow> Inr (Inr m, d)
       | None \<Rightarrow>
           (case proposal_of (rd_inbound r) d of
              None \<Rightarrow> Inr (Inl (rd_state r), d)
            | Some proposal \<Rightarrow>
                if m_state proposal \<noteq> SENT then Inr (Inl (rd_state r), d)
                else if rd_state r \<notin> {RD_AUTHORIZED, RD_EXECUTING} then Inr (Inl (rd_state r), d)
                else if conversation_error r i c v d \<noteq> []
                then refuse env r ''HUMAN_TASK_OPEN'' (conversation_error r i c v d) True d
                else
                  bindE (decision_policy_error env W r i False [m_id proposal] d) (\<lambda>err.
                    if err \<noteq> [] then refuse env r ''POLICY_RECHECK_FAILED'' err True d
                    else create_ack env W r i c d))))"

end
