(* ===== verification/Reply_Delivery.thy ===== *)
theory Reply_Delivery
  imports Reply_Authorization
begin

text \<open>
  The delivery of an authorized automatic message (the second half of \<open>automation/execution.py\<close>): everything is checked
  again inside the transaction that marks it as being sent, Gmail is called outside it, and the answer is written by
  another. An operation that commits several transactions answers the last committed database beside its result.
\<close>

section \<open>Is it still the message that was authorized?\<close>

definition attachment_signature :: "attachment \<Rightarrow> id \<times> nat \<times> nat \<times> str \<times> str \<times> nat \<times> str" where
  "attachment_signature a =
     (a_catalog a, a_position a, a_catalog_version a, a_storage_key a, a_filename a, a_byte_size a, a_sha256 a)"

definition expected_kinds :: "str \<Rightarrow> message_kind set" where
  "expected_kinds action =
     (if action = ''REPLY'' then {AUTOMATIC_REPLY}
      else if action = ''REDIRECT_PROPOSAL'' then {REFERRED_PROPOSAL, REDIRECT_ACK} else {})"

definition semantic_prefix :: "message_kind \<Rightarrow> str" where
  "semantic_prefix kind =
     (if kind = AUTOMATIC_REPLY then ''automatic-reply:'' else if kind = REFERRED_PROPOSAL then ''redirect-proposal:''
      else ''redirect-ack:'')"

definition origin_unsent :: "inbound \<Rightarrow> db \<Rightarrow> bool" where
  "origin_unsent i d =
     (case root_of i d of None \<Rightarrow> False | Some m \<Rightarrow> m_state m \<noteq> SENT \<or> m_sent_at m = None)"

definition outbound_moved :: "message \<Rightarrow> reply_decision \<Rightarrow> inbound \<Rightarrow> contact \<Rightarrow> db \<Rightarrow> bool" where
  "outbound_moved m r i c d \<longleftrightarrow>
     m_parent_inbound m \<noteq> Some (rd_inbound r) \<or> m_contact m \<noteq> Some (rd_contact r)
     \<or> m_organization m \<noteq> Some (t_organization c) \<or> m_campaign m \<noteq> Option.bind (root_of i d) m_campaign
     \<or> m_enrollment m \<noteq> Option.bind (root_of i d) m_enrollment \<or> m_delivery_mode m \<noteq> LIVE"

definition identity_changed :: "env \<Rightarrow> message \<Rightarrow> inbound \<Rightarrow> bool" where
  "identity_changed env m i \<longleftrightarrow>
     (let key = semantic_prefix (m_kind m) @ in_gmail_message_id i
      in m_semantic_key m \<noteq> key \<or> m_idempotency_key m \<noteq> key \<or> m_message_id m \<noteq> deterministic_message_id env key)"

definition thread_error :: "message \<Rightarrow> reply_decision \<Rightarrow> inbound \<Rightarrow> db \<Rightarrow> exn + str" where
  "thread_error m r i d =
     (if m_kind m \<notin> REPLY_KINDS then Inr []
      else case reply_thread_fields i d of
        Inl e \<Rightarrow> if is_validation_error e then Inr txt_thread_lost else Inl e
      | Inr (in_reply_to, references, thread) \<Rightarrow>
          Inr (if m_conversation m \<noteq> Some (rd_conversation r) \<or> m_gmail_thread_id m \<noteq> thread
                  \<or> m_in_reply_to m \<noteq> in_reply_to \<or> m_references m \<noteq> references
                  \<or> attachments_of_message (m_id m) d \<noteq> []
               then txt_thread_changed else []))"

definition reply_content_error :: "message \<Rightarrow> reply_decision \<Rightarrow> inbound \<Rightarrow> db \<Rightarrow> str" where
  "reply_content_error m r i d =
     (if m_subject m \<noteq> (case root_of i d of Some x \<Rightarrow> m_subject x | None \<Rightarrow> in_subject i)
         \<or> m_body_text m \<noteq> proposed_reply_body r \<or> m_signature m \<noteq> reply_signature (rd_workspace r) d
         \<or> m_content_hash m \<noteq> []
      then txt_reply_content else [])"

definition ack_content_error :: "message \<Rightarrow> reply_decision \<Rightarrow> inbound \<Rightarrow> db \<Rightarrow> str" where
  "ack_content_error m r i d =
     (case root_of i d of
        None \<Rightarrow> txt_ack_needs_campaign
      | Some x \<Rightarrow>
          if \<not> list_ex (\<lambda>y. m_parent_inbound y = Some (rd_inbound r) \<and> m_kind y = REFERRED_PROPOSAL \<and> m_state y = SENT
                   \<and> m_sent_at y \<noteq> None) (messages d)
          then txt_ack_too_early
          else if m_subject m \<noteq> m_subject x \<or> m_body_text m \<noteq> REDIRECT_ACK_BODY \<or> m_signature m \<noteq> []
                  \<or> m_content_hash m \<noteq> []
          then txt_ack_content else [])"

definition proposal_differs :: "message \<Rightarrow> frozen_content \<Rightarrow> bool" where
  "proposal_differs m f \<longleftrightarrow>
     m_conversation m \<noteq> None \<or> m_gmail_thread_id m \<noteq> [] \<or> m_in_reply_to m \<noteq> [] \<or> m_references m \<noteq> []
     \<or> m_subject m \<noteq> f_subject f \<or> m_body_text m \<noteq> f_rendered_body f \<or> m_signature m \<noteq> f_signature f
     \<or> m_content_hash m \<noteq> f_content_hash f"

definition proposal_content_error :: "env \<Rightarrow> message \<Rightarrow> inbound \<Rightarrow> db \<Rightarrow> exn + str" where
  "proposal_content_error env m i d =
     (if root_of i d = None then Inr txt_proposal_needs_campaign
      else case approved_root_campaign i d of
        None \<Rightarrow> Inr txt_proposal_unapproved
      | Some c \<Rightarrow>
          (case freeze_message_content env (pl_referred_subject (c_plan c)) (pl_referred_body (c_plan c)) (c_signature c) of
             Inl (ValueError t) \<Rightarrow> Inr txt_proposal_text
           | Inl e \<Rightarrow> Inl e
           | Inr f \<Rightarrow>
               Inr (if proposal_differs m f then txt_proposal_content
                    else
                      let expected = map attachment_signature (origin_attachments i d);
                          actual = map attachment_signature (attachments_of_message (m_id m) d)
                      in if expected = [] \<or> actual \<noteq> expected then txt_proposal_pdfs else [])))"

definition content_error :: "env \<Rightarrow> message \<Rightarrow> reply_decision \<Rightarrow> inbound \<Rightarrow> db \<Rightarrow> exn + str" where
  "content_error env m r i d =
     (if m_kind m = AUTOMATIC_REPLY then Inr (reply_content_error m r i d)
      else if m_kind m = REDIRECT_ACK then Inr (ack_content_error m r i d)
      else proposal_content_error env m i d)"

definition recipient_error :: "env \<Rightarrow> message \<Rightarrow> exn + str" where
  "recipient_error env m =
     (case normalize_email env (m_recipient m) of
        Inl e \<Rightarrow> if is_validation_error e then Inr txt_outbound_recipient else Inl e
      | Inr n \<Rightarrow> Inr (if n \<noteq> m_recipient_normalized m then txt_outbound_recipient_changed else []))"

text \<open>The first answer that is not empty.\<close>

definition or_next :: "exn + str \<Rightarrow> exn + str \<Rightarrow> exn + str" where
  "or_next first next_check = bindE first (\<lambda>err. if err \<noteq> [] then Inr err else next_check)"

definition automatic_outbound_integrity_error ::
    "env \<Rightarrow> message \<Rightarrow> reply_decision \<Rightarrow> inbound \<Rightarrow> contact \<Rightarrow> db \<Rightarrow> exn + str" where
  "automatic_outbound_integrity_error env m r i c d =
     (if origin_unsent i d then Inr txt_origin_not_sent
      else if outbound_moved m r i c d then Inr txt_outbound_moved
      else if m_kind m \<notin> expected_kinds (rd_action r) then Inr txt_outbound_kind
      else if identity_changed env m i then Inr txt_outbound_identity
      else or_next (recipient_error env m) (or_next (thread_error m r i d) (content_error env m r i d)))"

section \<open>The final check of an automatic message\<close>

definition answers_of :: "id \<Rightarrow> db \<Rightarrow> id list" where
  "answers_of inbound d =
     map m_id (filter (\<lambda>m. m_parent_inbound m = Some inbound \<and> m_kind m \<in> AUTOMATIC_KINDS) (messages d))"

definition recipient_of_decision_error ::
    "env \<Rightarrow> reply_world \<Rightarrow> message \<Rightarrow> reply_decision \<Rightarrow> inbound \<Rightarrow> contact \<Rightarrow> db \<Rightarrow> exn + str" where
  "recipient_of_decision_error env W m r i c d =
     (if m_kind m = REFERRED_PROPOSAL then
        (case rd_candidate r of
           None \<Rightarrow> Inr txt_no_selected_email
         | Some ck \<Rightarrow>
             bindE (get_candidate ck d) (\<lambda>cand.
               let err = candidate_validation_error env (rw_check W) (rw_parse W) (rw_mailto_path W) i cand d
               in Inr (if err \<noteq> [] then err
                       else if m_email_address m = None \<or> m_email_address m \<noteq> ec_resolved cand
                       then txt_redirect_differs else [])))
      else
        bindE (reply_email env W r i c d) (\<lambda>(eo, normalized).
          Inr (case eo of
                 None \<Rightarrow> txt_reply_differs
               | Some e \<Rightarrow> if m_email_address m \<noteq> Some (ea_id e) then txt_reply_differs
                           else if m_recipient_normalized m \<noteq> normalized then txt_reply_moved else [])))"

definition email_of_message :: "message \<Rightarrow> db \<Rightarrow> email_address option" where
  "email_of_message m d = Option.bind (m_email_address m) (\<lambda>k. t_get ea_id k (emails d))"

definition reservation_error :: "reply_decision \<Rightarrow> db \<Rightarrow> str" where
  "reservation_error r d =
     (case reservation_of_decision (rd_id r) d of
        None \<Rightarrow> txt_capacity_wrong | Some x \<Rightarrow> if ar_slots x \<noteq> slots_of r then txt_capacity_wrong else [])"

definition channel_of_message_error :: "message \<Rightarrow> contact \<Rightarrow> db \<Rightarrow> exn + str" where
  "channel_of_message_error m c d =
     bindE (of_option AssertionFailed (email_of_message m d)) (\<lambda>e.
       Inr (contact_or_channel_error c e (m_recipient_normalized m) d))"

definition automatic_message_error ::
    "env \<Rightarrow> reply_world \<Rightarrow> message \<Rightarrow> reply_decision \<Rightarrow> inbound \<Rightarrow> contact \<Rightarrow> conversation \<Rightarrow> db \<Rightarrow> exn + str" where
  "automatic_message_error env W m r i c v d =
     (if conversation_error r i c v d \<noteq> [] then Inr (conversation_error r i c v d)
      else if manual_reply_conflict_error r d \<noteq> [] then Inr (manual_reply_conflict_error r d)
      else
        or_next (decision_policy_error env W r i False (answers_of (rd_inbound r) d) d)
          (or_next (Inr (reservation_error r d))
            (or_next (automatic_outbound_integrity_error env m r i c d)
              (or_next (recipient_of_decision_error env W m r i c d) (channel_of_message_error m c d)))))"

section \<open>The final check of a scheduled message\<close>

definition automation_off :: "id \<Rightarrow> db \<Rightarrow> bool" where
  "automation_off ws d =
     (case reply_configuration_of ws d of
        None \<Rightarrow> True
      | Some cfg \<Rightarrow> am_mode cfg \<noteq> MODE_LIVE \<or> am_live_enabled_at cfg = None \<or> am_live_enabled_by cfg = None)"

definition attempt_reserved :: "scheduled_attempt \<Rightarrow> id \<Rightarrow> db \<Rightarrow> bool" where
  "attempt_reserved a ws d =
     list_ex (\<lambda>x. ar_attempt x = Some (sa_id a) \<and> ar_workspace x = ws \<and> ar_slots x = 1) (action_reservations (automation d))"

definition scheduled_automatic_error ::
    "env \<Rightarrow> reply_world \<Rightarrow> scheduled_attempt \<Rightarrow> communication_plan \<Rightarrow> follow_up_topic \<Rightarrow> contact \<Rightarrow> db \<Rightarrow> exn + str" where
  "scheduled_automatic_error env W a p t c d =
     (if auto_reply_kill_switch env then Inr txt_automation_kill
      else if automation_off (t_workspace c) d then Inr txt_automation_off
      else if \<not> attempt_reserved a (t_workspace c) d then Inr txt_capacity_missing
      else case rw_scheduled_context W p (follow_up_topic_goal t) d of
        Inl e \<Rightarrow> if is_validation_error e then Inr txt_context_overflow else Inl e
      | Inr h \<Rightarrow>
          if h \<noteq> sa_context_hash a then Inr txt_scheduled_context
          else
            bindE (manifest_facts (sa_context_manifest a)) (\<lambda>fs.
              Inr (if set (sa_fact_revision_ids a) \<subseteq> set (map fst fs) then [] else txt_draft_outside)))"

definition scheduled_mode_error ::
    "env \<Rightarrow> reply_world \<Rightarrow> message \<Rightarrow> scheduled_attempt \<Rightarrow> communication_plan \<Rightarrow> follow_up_topic \<Rightarrow> contact \<Rightarrow> db \<Rightarrow> exn + str"
  where
  "scheduled_mode_error env W m a p t c d =
     (case ft_mode t of
        AUTOMATIC \<Rightarrow> scheduled_automatic_error env W a p t c d
      | REVIEW_BEFORE_SEND \<Rightarrow>
          Inr (if m_approved_at m = None \<or> m_approved_by m = None then txt_draft_unapproved else []))"

definition scheduled_channel_error :: "env \<Rightarrow> message \<Rightarrow> contact \<Rightarrow> email_address \<Rightarrow> db \<Rightarrow> exn + str" where
  "scheduled_channel_error env m c e d =
     (case normalize_email env (m_recipient m) of
        Inl x \<Rightarrow> if is_validation_error x then Inr txt_scheduled_recipient else Inl x
      | Inr n \<Rightarrow> Inr (contact_or_channel_error c e n d))"

definition plan_moved :: "message \<Rightarrow> scheduled_attempt \<Rightarrow> communication_plan \<Rightarrow> contact \<Rightarrow> email_address \<Rightarrow> bool" where
  "plan_moved m a p c e \<longleftrightarrow>
     cp_state p \<noteq> PLAN_ACTIVE \<or> cp_contact p \<noteq> t_id c \<or> cp_preferred_email p \<noteq> ea_id e
     \<or> cp_next_due_at p \<noteq> Some (sa_due_at a) \<or> m_scheduled_for m \<noteq> Some (sa_due_at a)"

definition attempt_error ::
    "env \<Rightarrow> reply_world \<Rightarrow> message \<Rightarrow> scheduled_attempt \<Rightarrow> contact \<Rightarrow> email_address \<Rightarrow> db \<Rightarrow> exn + str" where
  "attempt_error env W m a c e d =
     bindE (get_plan (sa_plan a) d) (\<lambda>p.
       if sa_state a \<noteq> AT_AUTHORIZED then Inr txt_scheduled_unauthorized
       else if plan_moved m a p c e then Inr txt_scheduled_moved
       else
         bindE (plan_context p d) (\<lambda>(pc, t, pe).
           let el = scheduled_contact_eligibility env p pc t pe (clock env) True d
           in if \<not> el_eligible el then Inr (el_message el)
              else or_next (scheduled_mode_error env W m a p t c d) (scheduled_channel_error env m c e d)))"

definition scheduled_message_error :: "env \<Rightarrow> reply_world \<Rightarrow> message \<Rightarrow> db \<Rightarrow> exn + str" where
  "scheduled_message_error env W m d =
     (if \<not> live_sending_allowed env d then Inr txt_live_off
      else if relationship_kill_switch env then Inr txt_scheduled_kill
      else if m_campaign m \<noteq> None \<or> m_parent_inbound m \<noteq> None then Inr txt_scheduled_not_new
      else case (Option.bind (m_contact m) (\<lambda>k. t_get t_id k (contacts d)), email_of_message m d) of
        (Some c, Some e) \<Rightarrow>
          if t_automation_suspended c \<or> contact_has_open_task c d then Inr txt_scheduled_task
          else (case filter (\<lambda>a. sa_outbound a = Some (m_id m)) (attempt_rows (automation d)) of
                  [a] \<Rightarrow> attempt_error env W m a c e d
                | _ \<Rightarrow> Inr txt_scheduled_many)
      | _ \<Rightarrow> Inr txt_scheduled_lost_contact)"

section \<open>The bytes\<close>

definition reply_attachment_payload :: "env \<Rightarrow> db \<Rightarrow> attachment \<Rightarrow> exn + pdf_attachment" where
  "reply_attachment_payload env d a =
     bindE (of_option DoesNotExist (t_get k_id (a_catalog a) (catalogs d))) (\<lambda>k.
       if snapshot_differs a k then Inl (ValidationError txt_pdf_differs)
       else
         bindE (verify_catalog env k d) (\<lambda>_.
         bindE (read_storage (k_file_name k) d) (\<lambda>content.
           if length content \<noteq> a_byte_size a \<or> sha256_hex env content \<noteq> a_sha256 a
           then Inl (ValidationError txt_pdf_corrupt)
           else Inr \<lparr>pdf_filename = a_filename a, pdf_content = content\<rparr>)))"

definition attachment_payloads :: "env \<Rightarrow> message \<Rightarrow> db \<Rightarrow> exn + pdf_attachment list" where
  "attachment_payloads env m d =
     bindE (mapE (reply_attachment_payload env d) (attachments_of_message (m_id m) d)) (\<lambda>payloads.
       if m_kind m = REFERRED_PROPOSAL \<and> payloads = [] then Inl (ValidationError txt_proposal_needs_pdfs)
       else Inr payloads)"

record outbound_effect =
  oe_message :: id
  oe_connection :: id
  oe_raw :: str
  oe_rfc_id :: str
  oe_recipient :: str
  oe_thread :: str
  oe_idempotency_key :: str
  oe_reply :: bool

definition scheduled_content_changed :: "env \<Rightarrow> message \<Rightarrow> bool" where
  "scheduled_content_changed env m \<longleftrightarrow>
     m_kind m = SCHEDULED_CONTACT
     \<and> scheduled_content_hash env (m_subject m) (m_body_text m) (m_signature m) \<noteq> m_content_hash m"

definition effect_body :: "message \<Rightarrow> str" where
  "effect_body m =
     (if m_kind m \<in> {SCHEDULED_CONTACT, AUTOMATIC_REPLY} \<and> py_strip (m_signature m) \<noteq> []
      then py_strip (m_body_text m) @ [CHR 0x0A, CHR 0x0A] @ py_strip (m_signature m) else m_body_text m)"

definition campaign_header_of :: "str \<Rightarrow> message \<Rightarrow> str" where
  "campaign_header_of otherwise m = (case m_campaign m of None \<Rightarrow> otherwise | Some k \<Rightarrow> str_of_pk k)"

definition built_effect :: "env \<Rightarrow> message \<Rightarrow> gmail_connection \<Rightarrow> db \<Rightarrow> exn + built_message" where
  "built_effect env m g d =
     (if m_kind m \<in> REPLY_KINDS
      then build_reply_message env (g_email g) (m_recipient m) (m_subject m) (effect_body m) (m_message_id m)
             (m_created_at m) (m_references m) (m_in_reply_to m) (campaign_header_of ''conversation'' m)
             (str_of_pk (m_id m))
      else
        bindE (attachment_payloads env m d) (\<lambda>pdfs.
          build_message env (g_email g) (m_recipient m) (m_subject m) (effect_body m) (m_message_id m) (m_created_at m)
            (campaign_header_of ''relationship'' m) (str_of_pk (m_id m)) pdfs))"

definition build_effect :: "env \<Rightarrow> message \<Rightarrow> gmail_connection \<Rightarrow> db \<Rightarrow> exn + built_message \<times> outbound_effect" where
  "build_effect env m g d =
     (if scheduled_content_changed env m then Inl (ValidationError txt_scheduled_content)
      else
        bindE (built_effect env m g d) (\<lambda>b.
          Inr (b, \<lparr>oe_message = m_id m, oe_connection = g_id g, oe_raw = b_raw b, oe_rfc_id = m_message_id m,
                   oe_recipient = m_recipient m, oe_thread = m_gmail_thread_id m,
                   oe_idempotency_key = m_idempotency_key m, oe_reply = (m_kind m \<in> REPLY_KINDS)\<rparr>)))"

section \<open>Marking a message as being sent\<close>

text \<open>What the operations answer: the state of a message or that of a decision.\<close>

datatype answer = In_State message_state | Decided decision_state

type_synonym prepared = "(answer + outbound_effect) \<times> db"

definition stop_decision :: "env \<Rightarrow> message \<Rightarrow> reply_decision \<Rightarrow> str \<Rightarrow> str \<Rightarrow> db \<Rightarrow> exn + prepared" where
  "stop_decision env m r reason summary d =
     bindE (reject_decision env r reason summary (Some m) True d) (\<lambda>(s, d1). Inr (Inl (Decided s), d1))"

definition stop_scheduled :: "env \<Rightarrow> message \<Rightarrow> message_state \<Rightarrow> str \<Rightarrow> db \<Rightarrow> exn + prepared" where
  "stop_scheduled env m state err d =
     Inr (Inl (In_State state),
          save_message env (m_id m) (\<lambda>x. x\<lparr>m_state := state, m_error := err, m_next_attempt_at := None\<rparr>) d)"

text \<open>A message of a decision takes the decision with it; a scheduled one stops alone.\<close>

definition stop_outbound ::
    "env \<Rightarrow> message \<Rightarrow> reply_decision option \<Rightarrow> str \<Rightarrow> str \<Rightarrow> message_state \<Rightarrow> str \<Rightarrow> db \<Rightarrow> exn + prepared" where
  "stop_outbound env m ro reason summary state err d =
     (case ro of Some r \<Rightarrow> stop_decision env m r reason summary d | None \<Rightarrow> stop_scheduled env m state err d)"

definition begin_sending ::
    "env \<Rightarrow> message \<Rightarrow> reply_decision option \<Rightarrow> built_message \<Rightarrow> db \<Rightarrow> db" where
  "begin_sending env m ro b d =
     (let d1 = save_message env (m_id m)
            (\<lambda>x. x\<lparr>m_state := SENDING, m_attempts := m_attempts m + 1, m_sending_started_at := Some (clock env),
                    m_last_attempt_at := Some (clock env), m_next_attempt_at := None, m_mime_sha256 := b_sha256 b,
                    m_mime_size := Some (b_size b), m_error := []\<rparr>) d
      in case ro of
           Some r \<Rightarrow> if rd_state r = RD_EXECUTING then d1 else save_decision (rd_id r) (\<lambda>x. x\<lparr>rd_state := RD_EXECUTING\<rparr>) d1
         | None \<Rightarrow> d1)"

definition is_os_error :: "exn \<Rightarrow> bool" where
  "is_os_error e \<longleftrightarrow> e = RuntimeFailure ''FileNotFoundError''"

definition build_error_text :: "exn \<Rightarrow> str" where
  "build_error_text e = (if is_validation_error e then exn_text e else txt_pdf_unreadable)"

definition counted_against_limits :: "message \<Rightarrow> reply_decision option \<Rightarrow> db \<Rightarrow> bool" where
  "counted_against_limits m ro d \<longleftrightarrow>
     ro \<noteq> None \<or> m_kind m = SCHEDULED_CONTACT \<and> automatic_attempt d (m_id m)"

text \<open>After the checks of the message itself: the connection, the bytes and the limits.\<close>

definition prepare_checked ::
    "env \<Rightarrow> message \<Rightarrow> reply_decision option \<Rightarrow> gmail_connection option \<Rightarrow> db \<Rightarrow> exn + prepared" where
  "prepare_checked env m ro go d =
     (if gmail_connection_error go \<noteq> []
      then stop_outbound env m ro ''GMAIL_NOT_READY'' (gmail_connection_error go) SEND_FAILED (gmail_connection_error go) d
      else case go of
        None \<Rightarrow> Inl AssertionFailed
      | Some g \<Rightarrow>
          (case build_effect env m g d of
             Inl e \<Rightarrow>
               if is_validation_error e \<or> is_os_error e
               then stop_outbound env m ro ''MIME_OR_ATTACHMENT_FAILURE'' (build_error_text e) SEND_FAILED
                      (take 500 (build_error_text e)) d
               else Inl e
           | Inr (b, x) \<Rightarrow>
               let err = (if counted_against_limits m ro d then final_delivery_rate_error env m ro (clock env) d else [])
               in if err \<noteq> [] then stop_outbound env m ro ''FINAL_AUTOMATIC_RATE_LIMIT'' err INELIGIBLE err d
                  else Inr (Inr x, begin_sending env m ro b d)))"

definition decision_of_inbound :: "id \<Rightarrow> db \<Rightarrow> reply_decision option" where
  "decision_of_inbound k d = find (\<lambda>r. rd_inbound r = k) (decision_rows (automation d))"

definition prepare_automatic :: "env \<Rightarrow> reply_world \<Rightarrow> message \<Rightarrow> db \<Rightarrow> exn + prepared" where
  "prepare_automatic env W m d =
     (case m_parent_inbound m of
        None \<Rightarrow>
          Inr (Inl (In_State SEND_FAILED),
               save_message env (m_id m) (\<lambda>x. x\<lparr>m_state := SEND_FAILED, m_error := txt_lost_inbound\<rparr>) d)
      | Some k \<Rightarrow>
          bindE (of_option DoesNotExist (decision_of_inbound k d)) (\<lambda>r.
          bindE (decision_context r d) (\<lambda>(i, c, v).
          bindE (automatic_message_error env W m r i c v d) (\<lambda>err.
            if err \<noteq> [] then stop_decision env m r ''FINAL_SEND_RECHECK_FAILED'' err d
            else prepare_checked env m (Some r) (decision_connection r i d) d))))"

definition connection_of_contact :: "message \<Rightarrow> db \<Rightarrow> gmail_connection option" where
  "connection_of_contact m d =
     Option.bind (workspace_of_message m d) (\<lambda>ws. find (\<lambda>g. g_workspace g = ws) (connections d))"

definition prepare_scheduled :: "env \<Rightarrow> reply_world \<Rightarrow> message \<Rightarrow> db \<Rightarrow> exn + prepared" where
  "prepare_scheduled env W m d =
     bindE (scheduled_message_error env W m d) (\<lambda>err.
       if err \<noteq> [] then stop_scheduled env m INELIGIBLE err d
       else prepare_checked env m None (connection_of_contact m d) d)"

definition WORKER_KINDS :: "message_kind set" where
  "WORKER_KINDS = insert SCHEDULED_CONTACT AUTOMATIC_KINDS"

definition untouched_states :: "message_state set" where
  "untouched_states = {SENT, SEND_FAILED, CANCELLED, INELIGIBLE, RECONCILING, SENDING}"

definition worker_message :: "id \<Rightarrow> db \<Rightarrow> exn + message" where
  "worker_message k d =
     bindE (get_message k d) (\<lambda>m. if m_kind m \<in> WORKER_KINDS then Inr m else Inl DoesNotExist)"

definition prepare_outbound_effect :: "env \<Rightarrow> reply_world \<Rightarrow> id \<Rightarrow> db \<Rightarrow> exn + prepared" where
  "prepare_outbound_effect env W k d =
     bindE (worker_message k d) (\<lambda>m.
       if m_state m \<in> untouched_states then Inr (Inl (In_State (m_state m)), d)
       else if m_state m \<noteq> QUEUED
       then Inr (Inl (In_State SEND_FAILED),
                 save_message env k (\<lambda>x. x\<lparr>m_state := SEND_FAILED, m_error := txt_not_queued\<rparr>) d)
       else if m_kind m \<in> AUTOMATIC_KINDS then prepare_automatic env W m d
       else prepare_scheduled env W m d)"

section \<open>What Gmail answered\<close>

definition outbound_request :: "outbound_effect \<Rightarrow> send_request" where
  "outbound_request x =
     \<lparr>q_recipient = oe_recipient x, q_raw = oe_raw x, q_message_id = oe_rfc_id x,
      q_thread_id = (if oe_reply x then oe_thread x else []), q_correlation_id = str_of_pk (oe_message x),
      q_idempotency_key = oe_idempotency_key x\<rparr>"

definition send_outbound_effect ::
    "'p gmail \<Rightarrow> outbound_effect \<Rightarrow> 'p \<Rightarrow> (provider_failure + send_result) \<times> 'p" where
  "send_outbound_effect G x p = (if oe_reply x then pv_reply G (outbound_request x) p else pv_send G (outbound_request x) p)"

text \<open>A conversation for the thread of a new mail, unless the thread is another contact's.\<close>

definition new_conversation_for_result ::
    "message \<Rightarrow> gmail_connection \<Rightarrow> send_result \<Rightarrow> instant \<Rightarrow> db \<Rightarrow> conversation option \<times> db" where
  "new_conversation_for_result m g res now d =
     (case Option.bind (m_contact m) (\<lambda>k. t_get t_id k (contacts d)) of
        None \<Rightarrow> (None, d)
      | Some c \<Rightarrow>
          let (v, d1) = get_or_create_conversation (g_id g) (gr_thread_id res) (t_workspace c) (t_id c) (m_subject m) now d
          in (if cv_contact v = t_id c then Some v else None, d1))"

definition connection_for_outbound :: "message \<Rightarrow> db \<Rightarrow> gmail_connection option" where
  "connection_for_outbound m d =
     (case m_parent_inbound m of
        Some k \<Rightarrow> Option.bind (t_get in_id k (inbounds d)) (\<lambda>i. t_get g_id (in_connection i) (connections d))
      | None \<Rightarrow> connection_of_contact m d)"

definition proposal_thread_conflict :: "message \<Rightarrow> send_result \<Rightarrow> db \<Rightarrow> bool" where
  "proposal_thread_conflict m res d \<longleftrightarrow>
     m_kind m = REFERRED_PROPOSAL
     \<and> (case Option.bind (m_parent_inbound m) (\<lambda>k. t_get in_id k (inbounds d)) of
          None \<Rightarrow> False
        | Some i \<Rightarrow> gr_thread_id res = [] \<or> gr_thread_id res = in_gmail_thread_id i)"

definition reply_thread_conflict :: "message \<Rightarrow> send_result \<Rightarrow> bool" where
  "reply_thread_conflict m res \<longleftrightarrow> m_kind m \<in> REPLY_KINDS \<and> gr_thread_id res \<noteq> m_gmail_thread_id m"

definition conversation_of_result ::
    "message \<Rightarrow> send_result \<Rightarrow> instant \<Rightarrow> db \<Rightarrow> conversation option \<times> db" where
  "conversation_of_result m res now d =
     (case connection_for_outbound m d of
        None \<Rightarrow> (None, d)
      | Some g \<Rightarrow>
          if m_kind m \<in> NEW_THREAD_KINDS \<and> \<not> proposal_thread_conflict m res d
          then new_conversation_for_result m g res now d else (None, d))"

definition confirmed_fields :: "send_result \<Rightarrow> instant \<Rightarrow> conversation option \<Rightarrow> message \<Rightarrow> message" where
  "confirmed_fields res now vo m =
     (sent_fields res now m)\<lparr>m_conversation := (case vo of None \<Rightarrow> m_conversation m | Some v \<Rightarrow> Some (cv_id v))\<rparr>"

definition touch_contact :: "id option \<Rightarrow> instant \<Rightarrow> db \<Rightarrow> db" where
  "touch_contact k now d =
     d\<lparr>contacts := t_update (\<lambda>c. Some (t_id c) = k \<and> (case t_last_interaction_at c of None \<Rightarrow> True | Some x \<Rightarrow> x < now))
          (\<lambda>c. c\<lparr>t_last_interaction_at := Some now\<rparr>) (contacts d)\<rparr>"

definition stamp_conversation :: "id option \<Rightarrow> instant \<Rightarrow> db \<Rightarrow> db" where
  "stamp_conversation k now d =
     d\<lparr>conversations := t_update (\<lambda>v. Some (cv_id v) = k) (\<lambda>v. v\<lparr>cv_last_message_at := Some now\<rparr>) (conversations d)\<rparr>"

text \<open>What the confirmation means for the decision, or for the person who scheduled the contact.\<close>

definition settle_decision ::
    "env \<Rightarrow> message \<Rightarrow> reply_decision \<Rightarrow> conversation option \<Rightarrow> bool \<Rightarrow> db \<Rightarrow> exn + db" where
  "settle_decision env m r vo conflict d =
     (if m_kind m \<in> REPLY_KINDS
      then if conflict
           then map_sum id snd (reject_decision env r ''GMAIL_REPLY_THREAD_MISMATCH'' txt_thread_mismatch (Some m) True d)
           else Inr (save_decision (rd_id r) (\<lambda>x. x\<lparr>rd_state := RD_COMPLETED, rd_error := []\<rparr>) d)
      else
        let d1 = save_decision (rd_id r) (\<lambda>x. x\<lparr>rd_state := RD_EXECUTING\<rparr>) d
        in if vo \<noteq> None then Inr d1
           else map_sum id snd (reject_decision env r ''GMAIL_THREAD_OWNERSHIP_CONFLICT'' txt_thread_ownership None True d1))"

definition settle_scheduled :: "env \<Rightarrow> message \<Rightarrow> conversation option \<Rightarrow> db \<Rightarrow> exn + db" where
  "settle_scheduled env m vo d =
     (case Option.bind (m_contact m) (\<lambda>k. t_get t_id k (contacts d)) of
        None \<Rightarrow> Inr d
      | Some c \<Rightarrow>
          if m_kind m \<noteq> SCHEDULED_CONTACT \<or> vo \<noteq> None then Inr d
          else map_sum id snd (open_human_task env (t_workspace c) (t_id c) None ''SCHEDULED_CONTACT''
                 ''GMAIL_THREAD_OWNERSHIP_CONFLICT'' txt_scheduled_thread None None d))"

definition decision_of_message :: "message \<Rightarrow> db \<Rightarrow> reply_decision option" where
  "decision_of_message m d =
     (if m_kind m \<in> AUTOMATIC_KINDS then Option.bind (m_parent_inbound m) (\<lambda>k. decision_of_inbound k d) else None)"

definition settle_confirmation ::
    "env \<Rightarrow> message \<Rightarrow> conversation option \<Rightarrow> bool \<Rightarrow> db \<Rightarrow> exn + db" where
  "settle_confirmation env m vo conflict d =
     (case decision_of_message m d of
        Some r \<Rightarrow> settle_decision env m r vo conflict d
      | None \<Rightarrow> settle_scheduled env m vo d)"

definition confirmation_action :: "message_kind \<Rightarrow> str" where
  "confirmation_action kind =
     (if kind \<in> AUTOMATIC_KINDS then ''gmail.automatic_message_sent'' else ''gmail.scheduled_contact_sent'')"

text \<open>The answer tells, too, whether the attempt is to be completed once the transaction has been committed.\<close>

definition confirm_outbound_sent ::
    "env \<Rightarrow> id \<Rightarrow> send_result \<Rightarrow> instant \<Rightarrow> db \<Rightarrow> exn + (message_state \<times> bool) \<times> db" where
  "confirm_outbound_sent env k res now d =
     bindE (get_message k d) (\<lambda>m.
       if m_state m \<notin> {SENDING, RECONCILING} then Inr ((m_state m, False), d)
       else if gmail_id_taken m (gr_message_id res) d then Inl IntegrityError
       else
         let (vo, d1) = conversation_of_result m res now d;
             m' = confirmed_fields res now vo m;
             d2 = save_message env k (confirmed_fields res now vo) d1;
             d3 = stamp_conversation (m_conversation m') now (touch_contact (m_contact m') now d2)
         in bindE (settle_confirmation env m' vo (reply_thread_conflict m res) d3) (\<lambda>d4.
              Inr ((SENT, m_kind m = SCHEDULED_CONTACT), record_event (confirmation_action (m_kind m)) k None d4)))"

definition RECONCILE_AFTER :: int where "RECONCILE_AFTER = minute"

definition fail_decision_of :: "env \<Rightarrow> message \<Rightarrow> db \<Rightarrow> exn + db" where
  "fail_decision_of env m d =
     (case m_parent_inbound m of
        None \<Rightarrow> Inr d
      | Some k \<Rightarrow>
          if m_kind m \<notin> AUTOMATIC_KINDS then Inr d
          else
            bindE (of_option DoesNotExist (decision_of_inbound k d)) (\<lambda>r.
              map_sum id snd (reject_decision env r ''GMAIL_DELIVERY_FAILED'' txt_delivery_failed (Some m) True d)))"

text \<open>The state of the message is overwritten whatever it was.\<close>

definition record_outbound_error :: "env \<Rightarrow> id \<Rightarrow> str \<Rightarrow> bool \<Rightarrow> db \<Rightarrow> exn + message_state \<times> db" where
  "record_outbound_error env k err ambiguous d =
     bindE (get_message k d) (\<lambda>m.
       let summary = take 500 (redact env err)
       in if ambiguous
          then Inr (RECONCILING, save_message env k
                 (\<lambda>x. x\<lparr>m_state := RECONCILING, m_next_attempt_at := Some (clock env + RECONCILE_AFTER), m_error := summary\<rparr>) d)
          else
            bindE (fail_decision_of env (m\<lparr>m_state := SEND_FAILED, m_next_attempt_at := None, m_error := summary\<rparr>)
                     (save_message env k
                        (\<lambda>x. x\<lparr>m_state := SEND_FAILED, m_next_attempt_at := None, m_error := summary\<rparr>) d)) (\<lambda>d1.
              Inr (SEND_FAILED, d1)))"

section \<open>One delivery\<close>

text \<open>A step that is committed before the scheduled attempt is completed by another transaction.\<close>

definition and_complete :: "env \<Rightarrow> id \<Rightarrow> bool \<Rightarrow> exn + 'a \<times> db \<Rightarrow> db \<Rightarrow> 'p \<Rightarrow> ('a, 'p) outcome" where
  "and_complete env k wanted r d p =
     (case r of
        Inl e \<Rightarrow> (Inl e, d, p)
      | Inr (a, d1) \<Rightarrow>
          if \<not> wanted then (Inr a, d1, p)
          else case complete_scheduled_contact_attempt env k d1 of
                 Inl e \<Rightarrow> (Inl e, d1, p)
               | Inr d2 \<Rightarrow> (Inr a, d2, p))"

definition in_state :: "exn + message_state \<times> db \<Rightarrow> exn + answer \<times> db" where
  "in_state = map_sum id (map_prod In_State id)"

definition fail_outbound :: "env \<Rightarrow> id \<Rightarrow> bool \<Rightarrow> str \<Rightarrow> db \<Rightarrow> 'p \<Rightarrow> (answer, 'p) outcome" where
  "fail_outbound env k scheduled err d p =
     and_complete env k scheduled (in_state (record_outbound_error env k err False d)) d p"

definition doubt_outbound :: "env \<Rightarrow> id \<Rightarrow> str \<Rightarrow> db \<Rightarrow> 'p \<Rightarrow> (answer, 'p) outcome" where
  "doubt_outbound env k err d p = commit (in_state (record_outbound_error env k err True d)) d p"

definition confirm_outbound :: "env \<Rightarrow> id \<Rightarrow> send_result \<Rightarrow> db \<Rightarrow> 'p \<Rightarrow> (answer, 'p) outcome" where
  "confirm_outbound env k res d p =
     (case confirm_outbound_sent env k res (clock env) d of
        Inl e \<Rightarrow> (Inl e, d, p)
      | Inr ((s, wanted), d1) \<Rightarrow> and_complete env k wanted (Inr (In_State s, d1)) d p)"

fun definite_failure :: "provider_error \<Rightarrow> bool" where
  "definite_failure (AuthenticationError t) = True"
| "definite_failure (PermanentProviderError t) = True"
| "definite_failure (ValidationProviderError t) = True"
| "definite_failure _ = False"

definition is_misconfigured :: "exn \<Rightarrow> bool" where
  "is_misconfigured e \<longleftrightarrow> is_validation_error e \<or> (\<exists>t. e = ImproperlyConfigured t)"

lemma is_misconfigured_code [code]:
  "is_misconfigured e = (is_validation_error e \<or> (case e of ImproperlyConfigured t \<Rightarrow> True | _ \<Rightarrow> False))"
  by (cases e) (auto simp: is_misconfigured_def)

definition call_gmail ::
    "env \<Rightarrow> 'p gmail \<Rightarrow> bool \<Rightarrow> outbound_effect \<Rightarrow> db \<Rightarrow> 'p \<Rightarrow> (answer, 'p) outcome" where
  "call_gmail env G scheduled x d p =
     (case send_outbound_effect G x p of
        (Inr res, p') \<Rightarrow> confirm_outbound env (oe_message x) res d p'
      | (Inl (Crashed e), p') \<Rightarrow>
          if is_misconfigured e then fail_outbound env (oe_message x) scheduled (exn_str e) d p' else (Inl e, d, p')
      | (Inl (Failed err), p') \<Rightarrow>
          if definite_failure err then fail_outbound env (oe_message x) scheduled (provider_text err) d p'
          else doubt_outbound env (oe_message x) (provider_text err) d p')"

definition concluded_states :: "message_state set" where
  "concluded_states = {SENT, SEND_FAILED, INELIGIBLE, CANCELLED}"

definition is_scheduled :: "id \<Rightarrow> db \<Rightarrow> bool" where
  "is_scheduled k d = (map_option m_kind (t_get m_id k (messages d)) = Some SCHEDULED_CONTACT)"

definition unprepared_text :: "exn \<Rightarrow> str" where
  "unprepared_text e = (if is_validation_error e then exn_text e else txt_storage_unreachable)"

definition deliver_authorized_outbound ::
    "env \<Rightarrow> reply_world \<Rightarrow> 'p gmail \<Rightarrow> id \<Rightarrow> db \<Rightarrow> 'p \<Rightarrow> (answer, 'p) outcome" where
  "deliver_authorized_outbound env W G k d p =
     (case prepare_outbound_effect env W k d of
        Inl e \<Rightarrow>
          if is_validation_error e \<or> is_os_error e then fail_outbound env k (is_scheduled k d) (unprepared_text e) d p
          else (Inl e, d, p)
      | Inr (Inl a, d1) \<Rightarrow>
          and_complete env k (is_scheduled k d \<and> (\<exists>s \<in> concluded_states. a = In_State s)) (Inr (a, d1)) d p
      | Inr (Inr x, d1) \<Rightarrow>
          if t_get g_id (oe_connection x) (connections d1) = None then (Inl DoesNotExist, d1, p)
          else call_gmail env G (is_scheduled k d) x d1 p)"

section \<open>One decision\<close>

definition decision_answer :: "id \<Rightarrow> db \<Rightarrow> 'p \<Rightarrow> (answer, 'p) outcome" where
  "decision_answer k d p = (case get_decision k d of Inl e \<Rightarrow> (Inl e, d, p) | Inr r \<Rightarrow> (Inr (Decided (rd_state r)), d, p))"

definition answer_message :: "id \<Rightarrow> message_kind \<Rightarrow> db \<Rightarrow> exn + message" where
  "answer_message inbound kind d = get_one (filter (\<lambda>m. m_parent_inbound m = Some inbound \<and> m_kind m = kind) (messages d))"

text \<open>A step, and what follows it in the database it committed.\<close>

definition after :: "('a, 'p) outcome \<Rightarrow> ('a \<Rightarrow> db \<Rightarrow> 'p \<Rightarrow> ('b, 'p) outcome) \<Rightarrow> ('b, 'p) outcome" where
  "after r f = (case r of (Inl e, d, p) \<Rightarrow> (Inl e, d, p) | (Inr a, d, p) \<Rightarrow> f a d p)"

definition execute_reply ::
    "env \<Rightarrow> reply_world \<Rightarrow> 'p gmail \<Rightarrow> reply_decision \<Rightarrow> db \<Rightarrow> 'p \<Rightarrow> (answer, 'p) outcome" where
  "execute_reply env W G r d p =
     (case answer_message (rd_inbound r) AUTOMATIC_REPLY d of
        Inl e \<Rightarrow> (Inl e, d, p)
      | Inr m \<Rightarrow> after (deliver_authorized_outbound env W G (m_id m) d p) (\<lambda>_. decision_answer (rd_id r)))"

definition execute_ack ::
    "env \<Rightarrow> reply_world \<Rightarrow> 'p gmail \<Rightarrow> reply_decision \<Rightarrow> db \<Rightarrow> 'p \<Rightarrow> (answer, 'p) outcome" where
  "execute_ack env W G r d p =
     (case authorize_redirect_ack env W (rd_id r) d of
        Inl e \<Rightarrow> (Inl e, d, p)
      | Inr (Inl s, d1) \<Rightarrow> (Inr (Decided s), d1, p)
      | Inr (Inr m, d1) \<Rightarrow> after (deliver_authorized_outbound env W G (m_id m) d1 p) (\<lambda>_. decision_answer (rd_id r)))"

definition execute_redirect ::
    "env \<Rightarrow> reply_world \<Rightarrow> 'p gmail \<Rightarrow> reply_decision \<Rightarrow> db \<Rightarrow> 'p \<Rightarrow> (answer, 'p) outcome" where
  "execute_redirect env W G r d p =
     (case answer_message (rd_inbound r) REFERRED_PROPOSAL d of
        Inl e \<Rightarrow> (Inl e, d, p)
      | Inr m \<Rightarrow>
          if m_state m = SENT then execute_ack env W G r d p
          else after (deliver_authorized_outbound env W G (m_id m) d p) (\<lambda>a.
                 if a = In_State SENT then execute_ack env W G r else decision_answer (rd_id r)))"

definition execute_authorized ::
    "env \<Rightarrow> reply_world \<Rightarrow> 'p gmail \<Rightarrow> id \<Rightarrow> decision_state + message \<Rightarrow> db \<Rightarrow> 'p \<Rightarrow> (answer, 'p) outcome" where
  "execute_authorized env W G k authorized d p =
     (case get_decision k d of
        Inl e \<Rightarrow> (Inl e, d, p)
      | Inr r \<Rightarrow>
          (case (authorized, rd_action r = ''REDIRECT_PROPOSAL'' \<and> rd_state r \<in> {RD_AUTHORIZED, RD_EXECUTING}) of
             (Inl s, False) \<Rightarrow> (Inr (Decided s), d, p)
           | _ \<Rightarrow> if rd_action r = ''REPLY'' then execute_reply env W G r d p else execute_redirect env W G r d p))"

definition execute_reply_decision ::
    "env \<Rightarrow> reply_world \<Rightarrow> 'p gmail \<Rightarrow> id \<Rightarrow> db \<Rightarrow> 'p \<Rightarrow> (answer, 'p) outcome" where
  "execute_reply_decision env W G k d p =
     (case refresh_redirect_candidate_mx env W k d of
        Inl e \<Rightarrow> (Inl e, d, p)
      | Inr d1 \<Rightarrow>
          (case authorize_reply_decision env W k d1 of
             Inl e \<Rightarrow> (Inl e, d1, p)
           | Inr (authorized, d2) \<Rightarrow> execute_authorized env W G k authorized d2 p))"

section \<open>Reconciliation\<close>

fun is_retryable :: "provider_error \<Rightarrow> bool" where
  "is_retryable (RateLimitError t r) = True"
| "is_retryable (AmbiguousProviderError t) = True"
| "is_retryable (RetryableProviderError t) = True"
| "is_retryable _ = False"

text \<open>A proposal that turns out to have been sent is followed by its thanks; the answer is the proposal's.\<close>

definition confirm_found ::
    "env \<Rightarrow> reply_world \<Rightarrow> 'p gmail \<Rightarrow> message \<Rightarrow> send_result \<Rightarrow> db \<Rightarrow> 'p \<Rightarrow> (answer, 'p) outcome" where
  "confirm_found env W G m res d p =
     after (confirm_outbound env (m_id m) res d p) (\<lambda>a d1 p1.
       if m_kind m \<noteq> REFERRED_PROPOSAL then (Inr a, d1, p1)
       else case Option.bind (m_parent_inbound m) (\<lambda>k. decision_of_inbound k d1) of
              None \<Rightarrow> (Inl DoesNotExist, d1, p1)
            | Some r \<Rightarrow> after (execute_reply_decision env W G (rd_id r) d1 p1) (\<lambda>_ d2 p2. (Inr a, d2, p2)))"

definition find_and_settle ::
    "env \<Rightarrow> reply_world \<Rightarrow> 'p gmail \<Rightarrow> message \<Rightarrow> db \<Rightarrow> 'p \<Rightarrow> (answer, 'p) outcome" where
  "find_and_settle env W G m d p =
     (let scheduled = (m_kind m = SCHEDULED_CONTACT)
      in case pv_find G (m_message_id m) p of
           (Inr (Some res), p') \<Rightarrow> confirm_found env W G m res d p'
         | (Inr None, p') \<Rightarrow> fail_outbound env (m_id m) scheduled txt_gmail_absent d p'
         | (Inl (Crashed e), p') \<Rightarrow>
             if is_misconfigured e then fail_outbound env (m_id m) scheduled (exn_str e) d p' else (Inl e, d, p')
         | (Inl (Failed err), p') \<Rightarrow>
             if is_retryable err then doubt_outbound env (m_id m) (provider_text err) d p'
             else fail_outbound env (m_id m) scheduled (provider_text err) d p')"

definition reconcile_authorized_outbound ::
    "env \<Rightarrow> reply_world \<Rightarrow> 'p gmail \<Rightarrow> id \<Rightarrow> db \<Rightarrow> 'p \<Rightarrow> (answer, 'p) outcome" where
  "reconcile_authorized_outbound env W G k d p =
     (case get_message k d of
        Inl e \<Rightarrow> (Inl e, d, p)
      | Inr m \<Rightarrow>
          if m_state m \<notin> {SENDING, RECONCILING} then (Inr (In_State (m_state m)), d, p)
          else if connection_for_outbound m d = None
          then fail_outbound env k (m_kind m = SCHEDULED_CONTACT) txt_no_connection d p
          else find_and_settle env W G m d p)"

section \<open>The queues\<close>

definition pending_reply_decision_ids :: "db \<Rightarrow> id list" where
  "pending_reply_decision_ids d =
     map rd_id (filter (\<lambda>r. rd_mode r = MODE_LIVE \<and> rd_state r \<in> {RD_AUTO_ELIGIBLE, RD_AUTHORIZED, RD_EXECUTING})
       (decision_rows (automation d)))"

definition worker_live :: "message \<Rightarrow> bool" where
  "worker_live m \<longleftrightarrow> m_kind m \<in> WORKER_KINDS \<and> m_delivery_mode m = LIVE"

definition no_later :: "instant option \<Rightarrow> instant \<Rightarrow> bool" where
  "no_later t limit = (case t of None \<Rightarrow> False | Some x \<Rightarrow> x \<le> limit)"

definition recoverable_outbound_ids :: "instant \<Rightarrow> db \<Rightarrow> id list" where
  "recoverable_outbound_ids now d =
     (let rows = filter worker_live (messages d)
      in map m_id (filter (\<lambda>m. m_state m = QUEUED \<and> is_due now m) rows)
         @ map m_id (filter (\<lambda>m. m_state m = SENDING \<and> no_later (m_sending_started_at m) (now - STALE_SENDING_AFTER)) rows)
         @ map m_id (filter (\<lambda>m. m_state m = RECONCILING \<and> no_later (m_next_attempt_at m) now) rows))"

end
