(* ===== verification/Reply_Proofs.thy ===== *)
theory Reply_Proofs
  imports Reply_Delivery Scheduled_Proofs
begin

text \<open>
  What the automatic replies promise: a message that was handed to Gmail never returns to the queue, whatever happens
  afterwards; it was handed over only after every check was made again; and what is authorized stays within the limits.
\<close>

section \<open>A message that left the queue does not return to it\<close>

definition never_back :: "db \<Rightarrow> db \<Rightarrow> bool" where
  "never_back d d' \<longleftrightarrow>
     (\<forall>k m. t_get m_id k (messages d) = Some m \<and> m_state m \<in> untouched_states \<longrightarrow>
        (\<exists>m'. t_get m_id k (messages d') = Some m' \<and> m_state m' \<in> untouched_states))"

lemma never_back_refl [simp, intro]: "never_back d d"
  by (simp add: never_back_def)

lemma never_back_trans: "never_back d d1 \<Longrightarrow> never_back d1 d2 \<Longrightarrow> never_back d d2"
  by (fastforce simp: never_back_def)

lemma never_back_same: "messages d' = messages d \<Longrightarrow> never_back d d'"
  by (simp add: never_back_def)

lemma t_get_appended: "t_get key k xs = Some r \<Longrightarrow> t_get key k (xs @ ys) = Some r"
  unfolding t_get_def by (induction xs) auto

lemma never_back_append: "messages d' = messages d @ ms \<Longrightarrow> never_back d d'"
  by (auto simp: never_back_def t_get_appended)

lemma never_back_cong:
  "messages d1 = messages d \<Longrightarrow> messages d2 = messages d' \<Longrightarrow> never_back d1 d2 = never_back d d'"
  by (simp add: never_back_def)

lemma never_back_update:
  assumes "messages d' = t_update P f (messages d)" "\<And>m. m_id (f m) = m_id m"
    "\<And>m. P m \<Longrightarrow> m_state m \<in> untouched_states \<Longrightarrow> m_state (f m) \<in> untouched_states"
  shows "never_back d d'"
  using assms by (auto simp: never_back_def t_get_update)

lemma never_back_save:
  assumes "\<And>m. m_id (f m) = m_id m" "\<And>m. m_state m \<in> untouched_states \<Longrightarrow> m_state (f m) \<in> untouched_states"
  shows "never_back d (save_message env k f d)"
  by (rule never_back_update [where P = "\<lambda>m. m_id m = k" and f = "\<lambda>m. (f m)\<lparr>m_updated_at := clock env\<rparr>"])
    (simp_all add: save_message_def t_save_def assms)

lemma never_back_to_save:
  assumes "never_back d d1" "\<And>m. m_id (f m) = m_id m"
    "\<And>m. m_state m \<in> untouched_states \<Longrightarrow> m_state (f m) \<in> untouched_states"
  shows "never_back d (save_message env k f d1)"
  using never_back_trans [OF assms(1) never_back_save] assms(2,3) by blast

lemma untouched_simps [simp]:
  "SENT \<in> untouched_states" "SEND_FAILED \<in> untouched_states" "CANCELLED \<in> untouched_states"
  "INELIGIBLE \<in> untouched_states" "RECONCILING \<in> untouched_states" "SENDING \<in> untouched_states"
  "QUEUED \<notin> untouched_states"
  by (simp_all add: untouched_states_def)

lemma save_decision_frame [simp]:
  "messages (save_decision k f d) = messages d" "contacts (save_decision k f d) = contacts d"
  "action_reservations (automation (save_decision k f d)) = action_reservations (automation d)"
  by (simp_all add: save_decision_def)

lemma save_message_automation [simp]: "automation (save_message env k f d) = automation d"
  by (simp add: save_message_def)

lemma open_human_task_reservations:
  "open_human_task env ws contact conversation kind reason summary inbound decision d = Inr (t, d') \<Longrightarrow>
   action_reservations (automation d') = action_reservations (automation d)"
  using get_or_create_task_Inr
  by (fastforce simp: open_human_task_def res_simps Let_def suspend_automation_def add_task_def split: if_splits option.splits)

lemma decision_task_frame:
  assumes "open_decision_task env r reason summary d = Inr d'"
  shows "messages d' = messages d" "action_reservations (automation d') = action_reservations (automation d)"
  using assms open_human_task_messages open_human_task_reservations
  by (fastforce simp: open_decision_task_def map_sum_def split: sum.splits)+

lemma fail_message_never_back: "never_back d (fail_message env summary mo d)"
  by (auto simp: fail_message_def split: option.split intro: never_back_save)

lemma fail_message_reservations [simp]: "automation (fail_message env summary mo d) = automation d"
  by (simp add: fail_message_def split: option.split)

lemma reject_never_back:
  assumes "reject_decision env r reason summary mo failed d = Inr (s, d')"
  shows "never_back d d'" "action_reservations (automation d') = action_reservations (automation d)"
    "s = rejected_state failed"
proof -
  define d1 where "d1 = save_decision (rd_id r) (\<lambda>x. x\<lparr>rd_state := rejected_state failed, rd_human_reason := reason,
      rd_error := take 500 summary\<rparr>) d"
  obtain d3 where d3: "open_decision_task env r reason summary (fail_message env summary mo d1) = Inr d3"
    and d': "d' = record_event (if failed then ''automation.reply_needs_attention'' else ''automation.reply_rejected'')
      (rd_id r) None d3" and s: "s = rejected_state failed"
    using assms by (auto simp: reject_decision_def Let_def res_simps d1_def)
  have "never_back d d1" by (rule never_back_same) (simp add: d1_def)
  then have "never_back d (fail_message env summary mo d1)" using fail_message_never_back never_back_trans by blast
  then show "never_back d d'"
    using decision_task_frame(1) [OF d3] d' by (simp add: never_back_def)
  show "action_reservations (automation d') = action_reservations (automation d)"
    using decision_task_frame(2) [OF d3] d' by (simp add: d1_def)
  show "s = rejected_state failed" by (rule s)
qed

lemma rejected_never_back:
  "map_sum id snd (reject_decision env r reason summary mo failed d) = Inr d' \<Longrightarrow> never_back d d'"
  using reject_never_back(1) by (fastforce simp: map_sum_def split: sum.splits)

section \<open>Preparing\<close>

lemma stop_decision_never_back: "stop_decision env m r reason summary d = Inr (Inl a, d') \<Longrightarrow> never_back d d'"
  using reject_never_back(1) by (fastforce simp: stop_decision_def res_simps)

lemma stop_outbound_never_back:
  assumes "stop_outbound env m ro reason summary state err d = Inr (a, d')" "state \<in> untouched_states"
  shows "never_back d d' \<and> (\<exists>y. a = Inl y)"
  using assms reject_never_back(1)
  by (auto simp: stop_outbound_def stop_decision_def stop_scheduled_def res_simps split: option.splits intro: never_back_save)

lemma begin_sending_messages:
  "messages (begin_sending env m ro b d) =
     t_save m_id (m_id m) (\<lambda>x. x\<lparr>m_state := SENDING, m_attempts := m_attempts m + 1, m_sending_started_at := Some (clock env),
        m_last_attempt_at := Some (clock env), m_next_attempt_at := None, m_mime_sha256 := b_sha256 b,
        m_mime_size := Some (b_size b), m_error := [], m_updated_at := clock env\<rparr>) (messages d)"
  by (simp add: begin_sending_def Let_def split: option.split)

lemma begin_sending_never_back: "never_back d (begin_sending env m ro b d)"
  by (rule never_back_update [OF begin_sending_messages [unfolded t_save_def]]) simp_all

lemma prepare_checked_cases:
  assumes "prepare_checked env m ro go d = Inr (a, d')"
  shows "never_back d d' \<and>
    (case a of Inl y \<Rightarrow> True
     | Inr x \<Rightarrow> \<exists>g b. go = Some g \<and> gmail_connection_error go = [] \<and> build_effect env m g d = Inr (b, x)
         \<and> d' = begin_sending env m ro b d
         \<and> (counted_against_limits m ro d \<longrightarrow> final_delivery_rate_error env m ro (clock env) d = []))"
  using assms stop_outbound_never_back begin_sending_never_back
  by (fastforce simp: prepare_checked_def Let_def split: if_splits option.splits sum.splits)

lemma worker_message_Inr: "worker_message k d = Inr m \<Longrightarrow> t_get m_id k (messages d) = Some m \<and> m_kind m \<in> WORKER_KINDS"
  by (auto simp: worker_message_def get_message_def res_simps split: if_splits)

text \<open>What is known when a message may be handed to Gmail: the checks of \<open>prepare_outbound_effect\<close> on its path.\<close>

definition rechecked :: "env \<Rightarrow> reply_world \<Rightarrow> message \<Rightarrow> reply_decision option \<Rightarrow> db \<Rightarrow> bool" where
  "rechecked env W m ro d \<longleftrightarrow>
     (case ro of
        Some r \<Rightarrow> m_kind m \<in> AUTOMATIC_KINDS \<and> decision_of_message m d = Some r
          \<and> (\<exists>i c v. decision_context r d = Inr (i, c, v) \<and> automatic_message_error env W m r i c v d = Inr [])
      | None \<Rightarrow> m_kind m = SCHEDULED_CONTACT \<and> scheduled_message_error env W m d = Inr [])"

definition checked :: "env \<Rightarrow> reply_world \<Rightarrow> message \<Rightarrow> reply_decision option \<Rightarrow> db \<Rightarrow> bool" where
  "checked env W m ro d \<longleftrightarrow>
     rechecked env W m ro d
     \<and> (counted_against_limits m ro d \<longrightarrow> final_delivery_rate_error env m ro (clock env) d = [])"

definition handed_over :: "env \<Rightarrow> reply_world \<Rightarrow> id \<Rightarrow> outbound_effect \<Rightarrow> db \<Rightarrow> db \<Rightarrow> bool" where
  "handed_over env W k x d d' \<longleftrightarrow>
     (\<exists>m ro g b. t_get m_id k (messages d) = Some m \<and> m_state m = QUEUED \<and> checked env W m ro d
        \<and> gmail_connection_error (Some g) = [] \<and> build_effect env m g d = Inr (b, x) \<and> d' = begin_sending env m ro b d)"

lemma prepare_checked_hands_over:
  assumes "prepare_checked env m ro go d = Inr (a, d')" "t_get m_id k (messages d) = Some m" "m_state m = QUEUED"
    "rechecked env W m ro d"
  shows "never_back d d' \<and> (\<forall>x. a = Inr x \<longrightarrow> handed_over env W k x d d')"
  using prepare_checked_cases [OF assms(1)] assms(2-)
  by (auto simp: handed_over_def checked_def split: sum.splits)

lemma prepare_cases:
  assumes "prepare_outbound_effect env W k d = Inr (a, d')"
  shows "never_back d d' \<and> (\<forall>x. a = Inr x \<longrightarrow> handed_over env W k x d d')"
proof -
  obtain m where w: "worker_message k d = Inr m" using assms by (auto simp: prepare_outbound_effect_def res_simps)
  have m: "t_get m_id k (messages d) = Some m" "m_kind m \<in> WORKER_KINDS" using worker_message_Inr [OF w] by auto
  have k: "m_id m = k" using m(1) by (rule t_get_key)
  consider (kept) "d' = d" "\<exists>y. a = Inl y" | (unqueued) "\<exists>t. d' = save_message env k (\<lambda>x. x\<lparr>m_state := SEND_FAILED, m_error := t\<rparr>) d" "\<exists>y. a = Inl y"
    | (automatic) i r where "m_state m = QUEUED" "m_kind m \<in> AUTOMATIC_KINDS" "m_parent_inbound m = Some i"
        "decision_of_inbound i d = Some r"
    | (scheduled) "m_state m = QUEUED" "m_kind m \<notin> AUTOMATIC_KINDS" "prepare_scheduled env W m d = Inr (a, d')"
    using assms w k
    by (auto simp: prepare_outbound_effect_def prepare_automatic_def res_simps split: if_splits option.splits)
  then show ?thesis
  proof cases
    case kept
    then show ?thesis by auto
  next
    case unqueued
    then show ?thesis by (auto intro: never_back_save)
  next
    case automatic
    then obtain i1 c v err where c: "decision_context r d = Inr (i1, c, v)" "automatic_message_error env W m r i1 c v d = Inr err"
      "(if err \<noteq> [] then stop_decision env m r ''FINAL_SEND_RECHECK_FAILED'' err d
        else prepare_checked env m (Some r) (decision_connection r i1 d) d) = Inr (a, d')"
      using assms w by (auto simp: prepare_outbound_effect_def prepare_automatic_def res_simps)
    show ?thesis
    proof (cases "err = []")
      case True
      then have p: "prepare_checked env m (Some r) (decision_connection r i1 d) d = Inr (a, d')" using c(3) by simp
      have "decision_of_message m d = Some r" using automatic by (simp add: decision_of_message_def)
      then have "rechecked env W m (Some r) d" using c(1,2) True automatic(2) by (auto simp: rechecked_def)
      then show ?thesis using prepare_checked_hands_over [OF p m(1) automatic(1)] by blast
    next
      case False
      then show ?thesis
        using c(3) stop_decision_never_back by (fastforce simp: stop_decision_def res_simps split: sum.splits)
    qed
  next
    case scheduled
    have kind: "m_kind m = SCHEDULED_CONTACT" using m(2) scheduled(2) by (simp add: WORKER_KINDS_def)
    obtain err where c: "scheduled_message_error env W m d = Inr err"
      "(if err \<noteq> [] then stop_scheduled env m INELIGIBLE err d
        else prepare_checked env m None (connection_of_contact m d) d) = Inr (a, d')"
      using scheduled(3) by (auto simp: prepare_scheduled_def res_simps)
    show ?thesis
    proof (cases "err = []")
      case True
      then have p: "prepare_checked env m None (connection_of_contact m d) d = Inr (a, d')" using c(2) by simp
      show ?thesis
        using prepare_checked_hands_over [OF p m(1) scheduled(1)] c(1) True kind by (simp add: rechecked_def)
    next
      case False
      then show ?thesis using c(2) by (auto simp: stop_scheduled_def intro: never_back_save)
    qed
  qed
qed

section \<open>Answering\<close>

lemma conversation_messages [simp]:
  "messages (snd (get_or_create_conversation g th ws c s t d)) = messages d"
  "messages (touch_conversation v t d) = messages d" "messages (stamp_conversation k t d) = messages d"
  "messages (touch_contact k t d) = messages d"
  by (simp_all add: get_or_create_conversation_def touch_conversation_def stamp_conversation_def touch_contact_def fresh_def
      Let_def split: option.split)

lemma conversation_of_result_messages:
  assumes "conversation_of_result m res now d = (vo, d')"
  shows "messages d' = messages d"
proof -
  have "messages (snd (new_conversation_for_result m g res now d)) = messages d" for g
    using conversation_messages(1) by (simp add: new_conversation_for_result_def split_beta Let_def split: option.split)
  then show ?thesis
    using assms by (auto simp: conversation_of_result_def split: option.splits if_splits) (metis snd_conv)
qed

lemma settle_never_back: "settle_confirmation env m vo conflict d = Inr d' \<Longrightarrow> never_back d d'"
proof -
  have task: "map_sum id snd (open_human_task env ws c v kind reason t i r d) = Inr d' \<Longrightarrow> never_back d d'"
    for ws c v kind reason t i r
    using open_human_task_messages by (fastforce simp: map_sum_def intro: never_back_same split: sum.splits)
  have later: "never_back d d'"
    if "map_sum id snd (reject_decision env r reason t mo b (save_decision k f d)) = Inr d'" for r reason t mo b k f
    using rejected_never_back [OF that] by (simp add: never_back_def)
  assume "settle_confirmation env m vo conflict d = Inr d'"
  then show ?thesis
    using task later rejected_never_back
    by (auto simp: settle_confirmation_def settle_decision_def settle_scheduled_def Let_def
        intro: never_back_same split: option.splits if_splits)
qed

lemma confirm_never_back:
  assumes "confirm_outbound_sent env k res now d = Inr (x, d')"
  shows "never_back d d'"
proof -
  obtain m where m: "get_message k d = Inr m" using assms by (auto simp: confirm_outbound_sent_def res_simps)
  show ?thesis
  proof (cases "m_state m \<in> {SENDING, RECONCILING}")
    case True
    obtain vo d1 where c: "conversation_of_result m res now d = (vo, d1)" by (cases "conversation_of_result m res now d")
    define d2 where "d2 = save_message env k (confirmed_fields res now vo) d1"
    define d3 where "d3 = stamp_conversation (m_conversation (confirmed_fields res now vo m)) now
        (touch_contact (m_contact (confirmed_fields res now vo m)) now d2)"
    obtain d4 a where s: "settle_confirmation env (confirmed_fields res now vo m) vo (reply_thread_conflict m res) d3 = Inr d4"
      and d': "d' = record_event a k None d4"
      using assms m True c
      by (auto simp: confirm_outbound_sent_def res_simps Let_def d2_def d3_def split: if_splits)
    have "never_back d d2"
      unfolding d2_def using never_back_same [OF conversation_of_result_messages [OF c]]
      by (rule never_back_to_save) (simp_all add: confirmed_fields_def sent_fields_def)
    moreover have "never_back d2 d3" by (rule never_back_same) (simp add: d3_def)
    moreover have "never_back d4 d'" by (rule never_back_same) (simp add: d')
    ultimately show ?thesis using settle_never_back [OF s] never_back_trans by blast
  next
    case False
    then show ?thesis using assms m by (auto simp: confirm_outbound_sent_def)
  qed
qed

lemma record_error_never_back:
  assumes "record_outbound_error env k err ambiguous d = Inr (s, d')"
  shows "never_back d d'"
proof -
  define t where "t = take 500 (redact env err)"
  obtain m where m: "get_message k d = Inr m" using assms by (auto simp: record_outbound_error_def res_simps)
  show ?thesis
  proof (cases ambiguous)
    case True
    then show ?thesis
      using assms m by (auto simp: record_outbound_error_def Let_def intro: never_back_save)
  next
    case False
    define d1 where "d1 = save_message env k (\<lambda>x. x\<lparr>m_state := SEND_FAILED, m_next_attempt_at := None, m_error := t\<rparr>) d"
    obtain m1 where f: "fail_decision_of env m1 d1 = Inr d'"
      using assms m False by (auto simp: record_outbound_error_def Let_def res_simps t_def d1_def)
    have "never_back d1 d'"
      using f rejected_never_back by (auto simp: fail_decision_of_def res_simps split: option.splits if_splits)
    moreover have "never_back d d1" unfolding d1_def by (rule never_back_save) simp_all
    ultimately show ?thesis using never_back_trans by blast
  qed
qed

lemma link_sent_never_back: "never_back d (link_sent_conversation env c m t d)"
proof -
  have "never_back d (touch_conversation v t (snd (get_or_create_conversation g th ws ck s t d)))"
    "never_back d (snd (get_or_create_conversation g th ws ck s t d))" for v g th ws ck s
    by (simp_all add: never_back_def)
  then show ?thesis
    by (auto simp: link_sent_conversation_def split_beta Let_def split: option.split intro!: never_back_to_save)
qed

lemma complete_never_back:
  assumes "complete_scheduled_contact_attempt env k d = Inr d'"
  shows "never_back d d'"
proof -
  have sent: "never_back d (record_event a e u (save_plan p f (save_attempt x g (link_sent_conversation env c m t d))))"
    for a e u p f x g c m t
    using link_sent_never_back [of d env c m t] by (simp add: never_back_def)
  have failed: "never_back d (save_attempt x g d1)" if "open_scheduled_task env c reason t d = Inr d1" for c reason t d1 x g
    using scheduled_task_messages [OF that] by (simp add: never_back_def)
  show ?thesis
    using assms by (auto simp: complete_scheduled_contact_attempt_def res_simps Let_def sent failed split: option.splits if_splits)
qed

section \<open>Whole operations\<close>

definition outcome_db :: "('a, 'p) outcome \<Rightarrow> db" where
  "outcome_db r = fst (snd r)"

lemma outcome_is: "f = (r, d', p') \<Longrightarrow> outcome_db f = d'"
  by (simp add: outcome_db_def)

lemma and_complete_never_back:
  assumes "\<And>a d1. r = Inr (a, d1) \<Longrightarrow> never_back d d1"
  shows "never_back d (outcome_db (and_complete env k wanted r d p))"
  using assms complete_never_back never_back_trans
  by (fastforce simp: and_complete_def outcome_db_def split: sum.splits)

lemma in_state_never_back:
  "in_state (record_outbound_error env k err b d) = Inr (a, d1) \<Longrightarrow> never_back d d1"
  using record_error_never_back by (fastforce simp: in_state_def map_sum_def split: sum.splits)

lemma fail_never_back: "never_back d (outcome_db (fail_outbound env k b err d p))"
  unfolding fail_outbound_def by (rule and_complete_never_back) (rule in_state_never_back)

lemma doubt_never_back: "never_back d (outcome_db (doubt_outbound env k err d p))"
  using in_state_never_back by (fastforce simp: doubt_outbound_def commit_def outcome_db_def split: sum.splits)

lemma confirm_outcome_never_back: "never_back d (outcome_db (confirm_outbound env k res d p))"
proof (cases "confirm_outbound_sent env k res (clock env) d")
  case (Inr y)
  obtain s w d1 where y: "y = ((s, w), d1)" by (cases y) auto
  show ?thesis using confirm_never_back [of env k res "clock env" d] Inr y
    by (auto simp: confirm_outbound_def intro: and_complete_never_back)
qed (simp add: confirm_outbound_def outcome_db_def)

lemma call_never_back: "never_back d (outcome_db (call_gmail env G b x d p))"
  using fail_never_back doubt_never_back confirm_outcome_never_back
  by (auto simp: call_gmail_def outcome_db_def split: prod.split sum.split provider_failure.split)

lemma deliver_never_back: "never_back d (outcome_db (deliver_authorized_outbound env W G k d p))"
proof (cases "prepare_outbound_effect env W k d")
  case (Inl e)
  then show ?thesis using fail_never_back [of d env k "is_scheduled k d" "unprepared_text e" p]
    by (auto simp: deliver_authorized_outbound_def outcome_db_def)
next
  case (Inr y)
  obtain a d1 where y: "y = (a, d1)" by (cases y)
  have d1: "never_back d d1" using prepare_cases Inr y by blast
  show ?thesis
  proof (cases a)
    case (Inl s)
    have "never_back d (outcome_db (and_complete env k w (Inr (s, d1)) d p))" for w
      by (rule and_complete_never_back) (use d1 in simp)
    then show ?thesis using Inr y Inl by (simp add: deliver_authorized_outbound_def)
  next
    case (Inr x)
    have "never_back d (outcome_db (call_gmail env G (is_scheduled k d) x d1 p))"
      using d1 call_never_back by (rule never_back_trans)
    then show ?thesis
      using \<open>prepare_outbound_effect env W k d = Inr y\<close> y Inr d1
      by (auto simp: deliver_authorized_outbound_def) (simp_all add: outcome_db_def)
  qed
qed

text \<open>Nothing but the messages it adds, and no reservation: the steps of an authorization.\<close>

definition calm :: "db \<Rightarrow> db \<Rightarrow> bool" where
  "calm d d' \<longleftrightarrow> never_back d d' \<and> action_reservations (automation d') = action_reservations (automation d)"

lemma calm_trans: "calm d d1 \<Longrightarrow> calm d1 d2 \<Longrightarrow> calm d d2"
  using never_back_trans by (auto simp: calm_def)

lemma calm_same:
  "messages d' = messages d \<Longrightarrow> action_reservations (automation d') = action_reservations (automation d) \<Longrightarrow> calm d d'"
  by (simp add: calm_def never_back_same)

lemma calm_refl [simp, intro]: "calm d d"
  by (simp add: calm_def)

lemma refuse_calm:
  assumes "refuse env r reason summary failed d = Inr (x, d')"
  shows "calm d d' \<and> x = Inl (rejected_state failed)"
  using assms reject_never_back by (fastforce simp: refuse_def res_simps calm_def)

lemma create_message_calm:
  assumes "create_semantic_outbound m d = Inr (x, d')"
  shows "calm d d'"
proof -
  have "d' = d \<or> messages d' = messages d @ [m] \<and> automation d' = automation d"
    using assms by (auto simp: create_semantic_outbound_def res_simps split: if_splits)
  then show ?thesis using never_back_append by (auto simp: calm_def)
qed

lemma update_candidate_calm [simp]: "calm d (update_candidate k f d)"
  by (rule calm_same) (simp_all add: update_candidate_def)

lemma address_calm:
  assumes "existing_or_new_address env r c cand d = Inr (e, d')"
  shows "calm d d'"
  using assms by (auto simp: existing_or_new_address_def fresh_def Let_def intro!: calm_same split: option.splits if_splits)

lemma redirect_email_calm:
  assumes "redirect_email env W r i c d = Inr (Inr (e, d'))"
  shows "calm d d'"
  using assms address_calm calm_trans [OF _ update_candidate_calm]
  by (auto simp: redirect_email_def res_simps Let_def split: option.splits if_splits sum.splits)

lemma create_proposal_calm:
  assumes "create_proposal env r i c camp e source d = Inr (x, d')"
  shows "calm d d'"
proof -
  have more: "calm d (d1\<lparr>attachments := as\<rparr>) = calm d d1" for d1 as by (simp add: calm_def never_back_def)
  show ?thesis
    using assms by (auto simp: create_proposal_def res_simps Let_def more dest!: create_message_calm split: if_splits)
qed

definition calmly :: "db \<Rightarrow> exn + 'a \<times> db \<Rightarrow> bool" where
  "calmly d r \<longleftrightarrow> (\<forall>x d'. r = Inr (x, d') \<longrightarrow> calm d d')"

lemma calmly_read: "(\<And>x. calmly d (k x)) \<Longrightarrow> calmly d (bindE r k)"
  by (cases r) (simp_all add: calmly_def)

lemma calmly_simps [simp]:
  "calmly d (Inl e)" "calmly d (Inr (x, d))" "calmly d (refuse env r reason summary failed d)"
  "calmly d (bindE (create_semantic_outbound m d) (\<lambda>((x, created), d1). Inr (h x, d1)))"
  using refuse_calm create_message_calm by (fastforce simp: calmly_def res_simps)+

lemma proposal_calm:
  assumes "authorize_redirect_proposal env W r i c d = Inr (x, d')"
  shows "calm d d'"
proof -
  have "calmly d (case res of
          Inl t \<Rightarrow> refuse env r ''REDIRECT_ADDRESS_UNSAFE'' t False d
        | Inr (e, d1) \<Rightarrow>
            let source = origin_attachments i d1
            in if source = [] then refuse env r ''MISSING_APPROVED_ATTACHMENTS'' txt_original_pdfs False d1
               else create_proposal env r i c camp e source d1)"
    if "redirect_email env W r i c d = Inr res" for res camp
  proof (cases res)
    case (Inr y)
    then have d1: "calm d (snd y)" using that redirect_email_calm [of env W r i c d "fst y" "snd y"] by simp
    have "calmly (snd y) (create_proposal env r i c camp e source (snd y))" for e source
      using create_proposal_calm by (auto simp: calmly_def)
    moreover have "calmly (snd y) (refuse env r k t b (snd y) :: exn + message refusable)" for k t b by simp
    ultimately show ?thesis using Inr calm_trans [OF d1] by (auto simp: calmly_def Let_def split_beta)
  qed simp
  then have "calmly d (authorize_redirect_proposal env W r i c d)"
    by (cases "redirect_email env W r i c d") (auto simp: authorize_redirect_proposal_def split: option.split)
  then show ?thesis using assms by (simp add: calmly_def)
qed

lemma create_reply_calm:
  assumes "create_reply env W r i c d = Inr (x, d')"
  shows "calm d d'"
proof -
  have "calmly d (create_reply env W r i c d)"
    by (auto simp: create_reply_def Let_def intro!: calmly_read split: option.split sum.split)
  then show ?thesis using assms by (simp add: calmly_def)
qed

lemma create_ack_calm: "calmly d (create_ack env W r i c d)"
  by (auto simp: create_ack_def Let_def intro!: calmly_read split: option.split sum.split)

lemma authorize_ack_calm:
  assumes "authorize_redirect_ack env W k d = Inr (x, d')"
  shows "calm d d'"
proof -
  have "calmly d (authorize_redirect_ack env W k d)"
    by (auto simp: authorize_redirect_ack_def Let_def create_ack_calm intro!: calmly_read split: option.split)
  then show ?thesis using assms by (simp add: calmly_def)
qed

lemma mark_authorized_calm [simp]: "calm d (mark_authorized r m d)"
  by (rule calm_same) (simp_all add: mark_authorized_def)

lemma reserve_never_back:
  assumes "reserve_rate_capacity env r slots now d = (err, d')"
  shows "messages d' = messages d"
  using assms by (auto simp: reserve_rate_capacity_def Let_def fresh_def split: option.splits if_splits)

text \<open>What an authorization does to the tables: it is calm, except for one reservation within the limits.\<close>

lemma reserve_and_create_steps:
  assumes "reserve_and_create env W r i c d = Inr (x, d')"
  shows "calm (snd (reserve_rate_capacity env r (slots_of r) (clock env) d)) d'"
proof -
  obtain err d1 where r: "reserve_rate_capacity env r (slots_of r) (clock env) d = (err, d1)" by (rule prod.exhaust)
  show ?thesis
  proof (cases "err = []")
    case True
    obtain res d2 where c: "(if rd_action r = ''REPLY'' then create_reply env W r i c d1
        else authorize_redirect_proposal env W r i c d1) = Inr (res, d2)"
      and d': "d' = (case res of Inl s \<Rightarrow> d2 | Inr m \<Rightarrow> mark_authorized r m d2)"
      using assms r True by (auto simp: reserve_and_create_def res_simps)
    have "calm d1 d2" using c create_reply_calm proposal_calm by (auto split: if_splits)
    then have "calm d1 d'" unfolding d' using calm_trans [OF _ mark_authorized_calm] by (auto split: sum.split)
    then show ?thesis using r by simp
  next
    case False
    then show ?thesis using assms r refuse_calm by (fastforce simp: reserve_and_create_def)
  qed
qed

lemma authorize_steps:
  assumes "authorize_reply_decision env W k d = Inr (x, d')"
  shows "calm d d' \<or> (\<exists>r. get_decision k d = Inr r \<and> calm (snd (reserve_rate_capacity env r (slots_of r) (clock env) d)) d')"
  using assms reserve_and_create_steps refuse_calm
  by (fastforce simp: authorize_reply_decision_def res_simps split: option.splits if_splits)

lemma authorize_never_back:
  assumes "authorize_reply_decision env W k d = Inr (x, d')"
  shows "never_back d d'"
proof -
  have "never_back d (snd (reserve_rate_capacity env r s t d))" for r s t
    by (rule never_back_same) (rule reserve_never_back, rule prod.collapse [symmetric])
  from authorize_steps [OF assms] this never_back_trans [OF this] show ?thesis by (auto simp: calm_def)
qed

lemma refresh_mx_messages:
  assumes "refresh_redirect_candidate_mx env W k d = Inr d'"
  shows "messages d' = messages d"
  using assms
  by (auto simp: refresh_redirect_candidate_mx_def write_candidate_mx_def update_candidate_def res_simps
      split: option.splits if_splits)

lemma after_never_back:
  assumes "never_back d (outcome_db r)" "\<And>a d1 p1. never_back d1 (outcome_db (f a d1 p1))"
  shows "never_back d (outcome_db (after r f))"
proof -
  obtain a d1 p1 where r: "r = (a, d1, p1)" by (rule prod_cases3)
  then have "never_back d d1" using assms(1) by (simp add: outcome_db_def)
  then show ?thesis
    using r never_back_trans [OF _ assms(2)] by (auto simp: after_def outcome_db_def split: sum.split)
qed

lemma answer_never_back [simp]: "never_back d (outcome_db (decision_answer k d p))"
  by (simp add: decision_answer_def outcome_db_def split: sum.split)

lemma unmoved [simp]: "never_back d (outcome_db (a, d, p))"
  by (simp add: outcome_db_def)

lemma then_never_back: "never_back d d1 \<Longrightarrow> (\<And>p. never_back d1 (outcome_db (f p))) \<Longrightarrow> never_back d (outcome_db (f p))"
  using never_back_trans by blast

lemma execute_reply_never_back: "never_back d (outcome_db (execute_reply env W G r d p))"
  by (auto simp: execute_reply_def split: sum.split intro!: after_never_back deliver_never_back)

lemma execute_ack_never_back: "never_back d (outcome_db (execute_ack env W G r d p))"
proof (cases "authorize_redirect_ack env W (rd_id r) d")
  case (Inr y)
  obtain x d1 where y: "y = (x, d1)" by (cases y)
  have d1: "never_back d d1" using authorize_ack_calm Inr y by (auto simp: calm_def)
  have "never_back d1 (outcome_db (after (deliver_authorized_outbound env W G k d1 p) (\<lambda>_. decision_answer (rd_id r))))" for k
    by (rule after_never_back) (simp_all add: deliver_never_back)
  then show ?thesis
    using Inr y d1 never_back_trans [OF d1] by (auto simp: execute_ack_def outcome_db_def split: sum.split)
qed (simp add: execute_ack_def)

lemma execute_redirect_never_back: "never_back d (outcome_db (execute_redirect env W G r d p))"
  by (auto simp: execute_redirect_def execute_ack_never_back split: sum.split
      intro!: after_never_back deliver_never_back)

lemma execute_never_back: "never_back d (outcome_db (execute_reply_decision env W G k d p))"
proof (cases "refresh_redirect_candidate_mx env W k d")
  case (Inr d1)
  have d1: "never_back d d1" using refresh_mx_messages [OF Inr] by (rule never_back_same)
  show ?thesis
  proof (cases "authorize_reply_decision env W k d1")
    case (Inl e)
    then show ?thesis using Inr d1 by (simp add: execute_reply_decision_def outcome_db_def)
  next
    case (Inr y)
    obtain a d2 where y: "y = (a, d2)" by (cases y)
    have d2: "never_back d d2" using d1 authorize_never_back Inr y never_back_trans by blast
    have "never_back d2 (outcome_db (execute_authorized env W G k a d2 p))"
      by (auto simp: execute_authorized_def execute_reply_never_back execute_redirect_never_back split: sum.split bool.split)
    then show ?thesis
      using \<open>refresh_redirect_candidate_mx env W k d = Inr d1\<close> Inr y never_back_trans [OF d2]
      by (simp add: execute_reply_decision_def)
  qed
qed (simp add: execute_reply_decision_def)

lemma reconcile_never_back: "never_back d (outcome_db (reconcile_authorized_outbound env W G k d p))"
proof -
  have found: "never_back d (outcome_db (confirm_found env W G m res d q))" for m res q
    unfolding confirm_found_def
  proof (rule after_never_back [OF confirm_outcome_never_back])
    fix a d1 p1
    have "never_back d1 (outcome_db (after (execute_reply_decision env W G i d1 p1) (\<lambda>_ d2 p2. (Inr a, d2, p2))))" for i
      by (rule after_never_back [OF execute_never_back]) simp
    then show "never_back d1 (outcome_db (if m_kind m \<noteq> REFERRED_PROPOSAL then (Inr a, d1, p1)
        else case Option.bind (m_parent_inbound m) (\<lambda>k. decision_of_inbound k d1) of
               None \<Rightarrow> (Inl DoesNotExist, d1, p1)
             | Some r \<Rightarrow> after (execute_reply_decision env W G (rd_id r) d1 p1) (\<lambda>_ d2 p2. (Inr a, d2, p2))))"
      by (auto split: option.split)
  qed
  have "never_back d (outcome_db (find_and_settle env W G m d p))" for m
    using found fail_never_back doubt_never_back
    by (auto simp: find_and_settle_def Let_def split: prod.split sum.split option.split provider_failure.split)
  then show ?thesis
    using fail_never_back by (auto simp: reconcile_authorized_outbound_def split: sum.split)
qed

section \<open>Handed to Gmail at most once\<close>

text \<open>
  The operations of the workers, with any settings and in any order, and whatever the rest of the application does as long
  as it puts no message back.
\<close>

inductive reply_step :: "'p gmail \<Rightarrow> db \<times> 'p \<Rightarrow> db \<times> 'p \<Rightarrow> bool" for G where
  delivered: "deliver_authorized_outbound env W G k d p = (r, d', p') \<Longrightarrow> reply_step G (d, p) (d', p')"
| executed: "execute_reply_decision env W G k d p = (r, d', p') \<Longrightarrow> reply_step G (d, p) (d', p')"
| reconciled: "reconcile_authorized_outbound env W G k d p = (r, d', p') \<Longrightarrow> reply_step G (d, p) (d', p')"
| elsewhere: "never_back d d' \<Longrightarrow> reply_step G (d, p) (d', p)"

lemma reply_step_never_back:
  assumes "reply_step G s s'"
  shows "never_back (fst s) (fst s')"
  using assms
proof cases
  case (delivered env W k d p r d' p')
  then show ?thesis using deliver_never_back [of d env W G k p] outcome_is [OF delivered(3)] by simp
next
  case (executed env W k d p r d' p')
  then show ?thesis using execute_never_back [of d env W G k p] outcome_is [OF executed(3)] by simp
next
  case (reconciled env W k d p r d' p')
  then show ?thesis using reconcile_never_back [of d env W G k p] outcome_is [OF reconciled(3)] by simp
qed simp

lemma reply_steps_never_back: "(reply_step G)\<^sup>*\<^sup>* s s' \<Longrightarrow> never_back (fst s) (fst s')"
  by (induction rule: rtranclp_induct) (auto intro: never_back_trans reply_step_never_back)

lemma and_complete_provider: "and_complete env k w y d p = (r, d', p') \<Longrightarrow> p' = p"
  by (auto simp: and_complete_def split: sum.splits if_splits)

lemma provider_unasked:
  assumes "deliver_authorized_outbound env W G k d p = (r, d', p')" "p' \<noteq> p"
  shows "\<exists>x d1. prepare_outbound_effect env W k d = Inr (Inr x, d1) \<and> never_back d1 d'"
proof -
  consider (refused) e where "prepare_outbound_effect env W k d = Inl e"
    | (stopped) a d1 where "prepare_outbound_effect env W k d = Inr (Inl a, d1)"
    | (ready) x d1 where "prepare_outbound_effect env W k d = Inr (Inr x, d1)"
    by (cases "prepare_outbound_effect env W k d") (auto, metis sum.exhaust)
  then show ?thesis
  proof cases
    case refused
    then show ?thesis
      using assms by (auto simp: deliver_authorized_outbound_def fail_outbound_def dest: and_complete_provider split: if_splits)
  next
    case stopped
    then show ?thesis using assms by (auto simp: deliver_authorized_outbound_def dest: and_complete_provider)
  next
    case ready
    then have "call_gmail env G (is_scheduled k d) x d1 p = (r, d', p')"
      using assms by (simp add: deliver_authorized_outbound_def split: if_splits)
    from outcome_is [OF this] show ?thesis
      using ready call_never_back [of d1 env G "is_scheduled k d" x p] by auto
  qed
qed

lemma handed_over_leaves:
  assumes "handed_over env W k x d d'"
  shows "\<exists>m'. t_get m_id k (messages d') = Some m' \<and> m_state m' = SENDING"
proof -
  obtain m ro g b where m: "t_get m_id k (messages d) = Some m" and d': "d' = begin_sending env m ro b d"
    using assms by (auto simp: handed_over_def)
  have k: "m_id m = k" using m by (rule t_get_key)
  show ?thesis by (simp add: d' begin_sending_messages k t_get_save_same m)
qed

lemma settled_not_called:
  assumes "t_get m_id k (messages d) = Some m" "m_state m \<in> untouched_states"
  shows "snd (snd (deliver_authorized_outbound env W G k d p)) = p"
proof (rule ccontr)
  obtain r d' p' where r: "deliver_authorized_outbound env W G k d p = (r, d', p')" by (rule prod_cases3)
  assume "snd (snd (deliver_authorized_outbound env W G k d p)) \<noteq> p"
  then obtain x d1 where "prepare_outbound_effect env W k d = Inr (Inr x, d1)" using provider_unasked [OF r] r by auto
  then have "handed_over env W k x d d1" using prepare_cases by blast
  then show False using assms by (auto simp: handed_over_def)
qed

lemma called_once:
  assumes "deliver_authorized_outbound env W G k d p = (r, d1, p1)" "p1 \<noteq> p" "(reply_step G)\<^sup>*\<^sup>* (d1, p1) (d2, p2)"
  shows "snd (snd (deliver_authorized_outbound env' W' G k d2 p2)) = p2"
proof -
  obtain x d0 where "prepare_outbound_effect env W k d = Inr (Inr x, d0)" "never_back d0 d1"
    using provider_unasked [OF assms(1,2)] by blast
  then have "\<exists>m. t_get m_id k (messages d0) = Some m \<and> m_state m \<in> untouched_states"
    using prepare_cases handed_over_leaves by (metis untouched_simps(6))
  moreover have "never_back d0 d2"
    using \<open>never_back d0 d1\<close> reply_steps_never_back [OF assms(3)] never_back_trans by simp
  ultimately obtain m where "t_get m_id k (messages d2) = Some m" "m_state m \<in> untouched_states"
    by (auto simp: never_back_def)
  then show ?thesis by (rule settled_not_called)
qed

section \<open>When a message may be handed to Gmail\<close>

text \<open>The conditions themselves, without the texts and the order of the checks.\<close>

definition reachable :: "env \<Rightarrow> message \<Rightarrow> db \<Rightarrow> bool" where
  "reachable env m d \<longleftrightarrow>
     (\<exists>c e. Option.bind (m_contact m) (\<lambda>k. t_get t_id k (contacts d)) = Some c \<and> email_of_message m d = Some e
        \<and> t_status c = ACTIVE \<and> \<not> t_automation_suspended c \<and> \<not> contact_has_open_task c d
        \<and> ea_workspace e = t_workspace c \<and> ea_organization e = t_organization c \<and> ea_validity e = VALID
        \<and> \<not> plan_restricted c e d \<and> normalize_email env (m_recipient m) = Inr (ea_normalized e)
        \<and> \<not> suppressed (ea_normalized e) d)"

definition answer_granted :: "env \<Rightarrow> message \<Rightarrow> reply_decision \<Rightarrow> db \<Rightarrow> bool" where
  "answer_granted env m r d \<longleftrightarrow>
     rd_mode r = MODE_LIVE \<and> \<not> auto_reply_kill_switch env \<and> 900 \<le> rd_confidence r
     \<and> m_kind m \<in> expected_kinds (rd_action r) \<and> \<not> manual_reply_under_way (rd_inbound r) d
     \<and> (\<exists>i. get_inbound (rd_inbound r) d = Inr i \<and> in_is_human i
          \<and> in_classification i \<notin> {AUTO_REPLY, BOUNCE_NOTICE, UNSUBSCRIBE_REPLY}
          \<and> m_semantic_key m = semantic_prefix (m_kind m) @ in_gmail_message_id i)
     \<and> (\<exists>x. reservation_of_decision (rd_id r) d = Some x \<and> ar_slots x = slots_of r)
     \<and> (m_kind m = AUTOMATIC_REPLY \<longrightarrow> m_body_text m = proposed_reply_body r)
     \<and> (m_kind m = REDIRECT_ACK \<longrightarrow>
          (\<exists>y \<in> set (messages d). m_parent_inbound y = Some (rd_inbound r) \<and> m_kind y = REFERRED_PROPOSAL \<and> m_state y = SENT))
     \<and> conversation_used r (m_id m) (clock env - day_length) d < auto_conversation_limit env
     \<and> workspace_used env (rd_workspace r) (m_id m) (clock env) d < auto_workspace_limit env"

definition contact_granted :: "env \<Rightarrow> message \<Rightarrow> db \<Rightarrow> bool" where
  "contact_granted env m d \<longleftrightarrow>
     \<not> relationship_kill_switch env
     \<and> (\<exists>a p t. filter (\<lambda>a. sa_outbound a = Some (m_id m)) (attempt_rows (automation d)) = [a]
          \<and> get_plan (sa_plan a) d = Inr p \<and> get_topic (cp_topic p) d = Inr t
          \<and> sa_state a = AT_AUTHORIZED \<and> cp_state p = PLAN_ACTIVE \<and> cp_next_due_at p = Some (sa_due_at a)
          \<and> (case ft_mode t of
                REVIEW_BEFORE_SEND \<Rightarrow> m_approved_at m \<noteq> None \<and> m_approved_by m \<noteq> None
              | AUTOMATIC \<Rightarrow> \<not> auto_reply_kill_switch env
                  \<and> list_ex (\<lambda>x. ar_attempt x = Some (sa_id a) \<and> ar_slots x = 1) (action_reservations (automation d))))"

definition dispatchable :: "env \<Rightarrow> message \<Rightarrow> db \<Rightarrow> bool" where
  "dispatchable env m d \<longleftrightarrow>
     m_state m = QUEUED \<and> live_sending_allowed env d \<and> reachable env m d
     \<and> (case decision_of_message m d of
          Some r \<Rightarrow> answer_granted env m r d | None \<Rightarrow> m_kind m = SCHEDULED_CONTACT \<and> contact_granted env m d)"

lemma or_next_Nil [simp]: "or_next a b = Inr [] \<longleftrightarrow> a = Inr [] \<and> b = Inr []"
  by (cases a) (simp_all add: or_next_def)

lemma early_policy_Nil:
  assumes "early_policy_error env r i d = []"
  shows "live_sending_allowed env d \<and> \<not> auto_reply_kill_switch env \<and> rd_mode r = MODE_LIVE \<and> in_is_human i
    \<and> in_classification i \<notin> {AUTO_REPLY, BOUNCE_NOTICE, UNSUBSCRIBE_REPLY} \<and> 900 \<le> rd_confidence r"
  using assms by (auto simp: early_policy_error_def live_mode_error_def split: if_splits option.splits)

lemma policy_Nil: "decision_policy_error env W r i b ids d = Inr [] \<Longrightarrow> early_policy_error env r i d = []"
  by (auto simp: decision_policy_error_def split: if_splits)

lemma channel_Nil:
  assumes "contact_or_channel_error c e n d = []"
  shows "t_status c = ACTIVE \<and> \<not> t_automation_suspended c \<and> ea_workspace e = t_workspace c
    \<and> ea_organization e = t_organization c \<and> ea_normalized e = n \<and> ea_validity e = VALID \<and> \<not> plan_restricted c e d
    \<and> \<not> suppressed n d"
  using assms by (auto simp: contact_or_channel_error_def split: if_splits)

lemma conversation_Nil:
  assumes "conversation_error r i c v d = []" "t_id c = rd_contact r"
  shows "\<not> t_automation_suspended c \<and> \<not> contact_has_open_task c d"
  using assms by (auto simp: conversation_error_def contact_has_open_task_def list_ex_iff split: if_splits)

lemma rate_Nil:
  assumes "final_delivery_rate_error env m (Some r) now d = []"
  shows "conversation_used r (m_id m) (now - day_length) d < auto_conversation_limit env"
    "workspace_used env (rd_workspace r) (m_id m) now d < auto_workspace_limit env"
  using assms by (auto simp: final_delivery_rate_error_def split: if_splits)

lemma integrity_Nil:
  assumes "automatic_outbound_integrity_error env m r i c d = Inr []"
  shows "m_contact m = Some (rd_contact r)" "m_kind m \<in> expected_kinds (rd_action r)"
    "m_semantic_key m = semantic_prefix (m_kind m) @ in_gmail_message_id i"
    "normalize_email env (m_recipient m) = Inr (m_recipient_normalized m)" "content_error env m r i d = Inr []"
proof -
  have f: "\<not> origin_unsent i d" "\<not> outbound_moved m r i c d" "m_kind m \<in> expected_kinds (rd_action r)"
    "\<not> identity_changed env m i" "recipient_error env m = Inr []" "content_error env m r i d = Inr []"
    using assms by (auto simp: automatic_outbound_integrity_error_def split: if_splits)
  then show "m_contact m = Some (rd_contact r)" "m_kind m \<in> expected_kinds (rd_action r)" "content_error env m r i d = Inr []"
    "m_semantic_key m = semantic_prefix (m_kind m) @ in_gmail_message_id i"
    by (simp_all add: outbound_moved_def identity_changed_def Let_def)
  show "normalize_email env (m_recipient m) = Inr (m_recipient_normalized m)"
    using f(5) by (auto simp: recipient_error_def split: sum.splits if_splits)
qed

lemma answer_dispatchable:
  assumes "checked env W m (Some r) d" "m_state m = QUEUED"
  shows "dispatchable env m d"
proof -
  obtain i c v where x: "decision_of_message m d = Some r" "decision_context r d = Inr (i, c, v)"
    "automatic_message_error env W m r i c v d = Inr []" "m_kind m \<in> AUTOMATIC_KINDS"
    "final_delivery_rate_error env m (Some r) (clock env) d = []"
    using assms(1) by (auto simp: checked_def rechecked_def counted_against_limits_def)
  have ctx: "get_inbound (rd_inbound r) d = Inr i" "t_get t_id (rd_contact r) (contacts d) = Some c"
    using x(2) by (auto simp: decision_context_def get_contact_def res_simps)
  have k: "t_id c = rd_contact r" using ctx(2) by (rule t_get_key)
  have f: "conversation_error r i c v d = []" "\<not> manual_reply_under_way (rd_inbound r) d"
    "decision_policy_error env W r i False (answers_of (rd_inbound r) d) d = Inr []" "reservation_error r d = []"
    "automatic_outbound_integrity_error env m r i c d = Inr []" "channel_of_message_error m c d = Inr []"
    using x(3) by (auto simp: automatic_message_error_def manual_reply_conflict_error_def split: if_splits)
  obtain e where e: "email_of_message m d = Some e" "contact_or_channel_error c e (m_recipient_normalized m) d = []"
    using f(6) by (auto simp: channel_of_message_error_def res_simps)
  note early = early_policy_Nil [OF policy_Nil [OF f(3)]] and int = integrity_Nil [OF f(5)]
  have "reachable env m d"
    using channel_Nil [OF e(2)] conversation_Nil [OF f(1) k] ctx(2) e(1) int(1,4) by (auto simp: reachable_def)
  moreover have "\<exists>x. reservation_of_decision (rd_id r) d = Some x \<and> ar_slots x = slots_of r"
    using f(4) by (auto simp: reservation_error_def split: option.splits if_splits)
  moreover have "m_kind m = AUTOMATIC_REPLY \<longrightarrow> m_body_text m = proposed_reply_body r"
    using int(5) by (auto simp: content_error_def reply_content_error_def split: if_splits)
  moreover have "m_kind m = REDIRECT_ACK \<longrightarrow>
      (\<exists>y \<in> set (messages d). m_parent_inbound y = Some (rd_inbound r) \<and> m_kind y = REFERRED_PROPOSAL \<and> m_state y = SENT)"
    using int(5) by (auto simp: content_error_def ack_content_error_def list_ex_iff split: if_splits option.splits)
  ultimately have "answer_granted env m r d"
    using early int(2,3) ctx(1) f(2) rate_Nil [OF x(5)] by (auto simp: answer_granted_def)
  then show ?thesis
    using \<open>reachable env m d\<close> early x(1) assms(2) by (simp add: dispatchable_def)
qed

lemma ineligible_says_why:
  "\<not> el_eligible (scheduled_contact_eligibility env p c t e now b d) \<Longrightarrow>
   el_message (scheduled_contact_eligibility env p c t e now b d) \<noteq> []"
  by (auto simp: scheduled_contact_eligibility_def not_eligible_def eligible_result_def automation_txt_defs txt_defs
      split: option.splits if_splits)

lemma contact_dispatchable:
  assumes "checked env W m None d" "m_state m = QUEUED"
  shows "dispatchable env m d"
proof -
  have s: "m_kind m = SCHEDULED_CONTACT" "scheduled_message_error env W m d = Inr []"
    using assms(1) by (auto simp: checked_def rechecked_def)
  obtain c e a where x: "live_sending_allowed env d" "\<not> relationship_kill_switch env"
    "Option.bind (m_contact m) (\<lambda>k. t_get t_id k (contacts d)) = Some c" "email_of_message m d = Some e"
    "\<not> t_automation_suspended c" "\<not> contact_has_open_task c d"
    "filter (\<lambda>a. sa_outbound a = Some (m_id m)) (attempt_rows (automation d)) = [a]" "attempt_error env W m a c e d = Inr []"
    using s(2) by (auto simp: scheduled_message_error_def split: if_splits option.splits list.splits)
  obtain p where p: "get_plan (sa_plan a) d = Inr p" using x(8) by (auto simp: attempt_error_def res_simps)
  have y: "sa_state a = AT_AUTHORIZED" "\<not> plan_moved m a p c e" using x(8) p by (auto simp: attempt_error_def split: if_splits)
  obtain pc t pe where z: "plan_context p d = Inr (pc, t, pe)" using x(8) p y by (auto simp: attempt_error_def res_simps)
  then have w: "scheduled_mode_error env W m a p t c d = Inr []" "scheduled_channel_error env m c e d = Inr []"
    using x(8) p y ineligible_says_why by (auto simp: attempt_error_def Let_def split: if_splits)
  have t: "get_topic (cp_topic p) d = Inr t" using z by (auto simp: plan_context_def res_simps)
  obtain n where n: "normalize_email env (m_recipient m) = Inr n" "contact_or_channel_error c e n d = []"
    using w(2) by (auto simp: scheduled_channel_error_def split: sum.splits if_splits)
  have "reachable env m d" using channel_Nil [OF n(2)] n(1) x by (auto simp: reachable_def)
  moreover have "contact_granted env m d"
    using w(1) x p t y
    by (auto simp: contact_granted_def plan_moved_def scheduled_mode_error_def scheduled_automatic_error_def attempt_reserved_def
        list_ex_iff split: topic_mode.splits if_splits)
  moreover have "decision_of_message m d = None" using s(1) by (simp add: decision_of_message_def AUTOMATIC_KINDS_def)
  ultimately show ?thesis using assms(2) x(1) s(1) by (simp add: dispatchable_def)
qed

lemma called_only_when_dispatchable:
  assumes "deliver_authorized_outbound env W G k d p = (r, d', p')" "p' \<noteq> p"
  shows "\<exists>m. t_get m_id k (messages d) = Some m \<and> dispatchable env m d"
proof -
  obtain x d1 where "prepare_outbound_effect env W k d = Inr (Inr x, d1)" using provider_unasked [OF assms] by blast
  then have "handed_over env W k x d d1" using prepare_cases by blast
  then obtain m ro where "t_get m_id k (messages d) = Some m" "m_state m = QUEUED" "checked env W m ro d"
    by (auto simp: handed_over_def)
  then show ?thesis using answer_dispatchable contact_dispatchable by (cases ro) blast+
qed

section \<open>The limits of the automatic messages\<close>

definition within_limits :: "env \<Rightarrow> instant \<Rightarrow> db \<Rightarrow> bool" where
  "within_limits env now d \<longleftrightarrow>
     (\<forall>ws. slots_used ws (business_date env now) d \<le> auto_workspace_limit env)
     \<and> (\<forall>v. conversation_slots v (now - day_length) d \<le> auto_conversation_limit env)"

lemma within_limits_same:
  "action_reservations (automation d') = action_reservations (automation d) \<Longrightarrow> within_limits env now d' = within_limits env now d"
  by (simp add: within_limits_def slots_used_def conversation_slots_def)

lemma reserve_within_limits:
  assumes "within_limits env now d"
  shows "within_limits env now (snd (reserve_rate_capacity env r slots now d))"
  using assms
  by (auto simp: reserve_rate_capacity_def within_limits_def slots_used_def conversation_slots_def fresh_def Let_def
      split: option.split)

lemma authorize_within_limits:
  assumes "authorize_reply_decision env W k d = Inr (x, d')" "within_limits env (clock env) d"
  shows "within_limits env (clock env) d'"
  using authorize_steps [OF assms(1)]
proof (elim disjE exE conjE)
  assume "calm d d'"
  then show ?thesis using assms(2) within_limits_same [of d' d] by (simp add: calm_def)
next
  fix r
  assume "calm (snd (reserve_rate_capacity env r (slots_of r) (clock env) d)) d'"
  then show ?thesis
    using reserve_within_limits [OF assms(2)] within_limits_same [of d' "snd (reserve_rate_capacity env r (slots_of r) (clock env) d)"]
    by (simp add: calm_def)
qed

section \<open>What is authorized is what the worker expects\<close>

lemma reply_row_accepted:
  assumes m: "m = (automatic_outbound env k r i c AUTOMATIC_REPLY e
        (case root_of i d of Some x \<Rightarrow> m_subject x | None \<Rightarrow> in_subject i) (proposed_reply_body r)
        (''automatic-reply:'' @ in_gmail_message_id i) d)
      \<lparr>m_signature := reply_signature (rd_workspace r) d, m_conversation := Some (rd_conversation r),
       m_in_reply_to := irt, m_references := refs, m_gmail_thread_id := th\<rparr>"
    and "reply_thread_fields i d = Inr (irt, refs, th)" "normalize_email env (ea_original e) = Inr (ea_normalized e)"
    and "rd_action r = ''REPLY''" "in_id i = rd_inbound r" "t_id c = rd_contact r" "\<not> origin_unsent i d"
    and same: "root_of i d' = root_of i d" "config d' = config d" "attachments_of_message k d' = []"
  shows "automatic_outbound_integrity_error env m r i c d' = Inr []"
proof -
  have t: "reply_thread_fields i d' = Inr (irt, refs, th)" using assms(2) same(1) by (simp add: reply_thread_fields_def)
  have s: "reply_signature (rd_workspace r) d' = reply_signature (rd_workspace r) d"
    by (simp add: reply_signature_def workspace_profile_def same(2))
  have key: "m_kind m = AUTOMATIC_REPLY" "m_id m = k" "m_semantic_key m = ''automatic-reply:'' @ in_gmail_message_id i"
    "m_idempotency_key m = ''automatic-reply:'' @ in_gmail_message_id i"
    "m_message_id m = deterministic_message_id env (''automatic-reply:'' @ in_gmail_message_id i)"
    "m_recipient m = ea_original e" "m_recipient_normalized m = ea_normalized e"
    by (simp_all add: m automatic_outbound_def blank_message_def Let_def)
  have "\<not> outbound_moved m r i c d'"
    by (simp add: outbound_moved_def m automatic_outbound_def blank_message_def Let_def same(1) assms(5,6))
  moreover have "\<not> origin_unsent i d'" using assms(7) by (simp add: origin_unsent_def same(1))
  moreover have "m_kind m \<in> expected_kinds (rd_action r)" by (simp add: expected_kinds_def key assms(4))
  moreover have "\<not> identity_changed env m i" by (simp add: identity_changed_def semantic_prefix_def key Let_def)
  moreover have "recipient_error env m = Inr []" by (simp add: recipient_error_def key assms(3))
  moreover have "thread_error m r i d' = Inr []"
    by (simp add: thread_error_def t key(1,2) same(3)) (simp add: m)
  moreover have "content_error env m r i d' = Inr []"
    by (simp add: content_error_def key(1) reply_content_error_def s same(1)) (simp add: m automatic_outbound_def blank_message_def Let_def)
  ultimately show ?thesis by (simp add: automatic_outbound_integrity_error_def)
qed

lemma created_message:
  assumes "create_semantic_outbound m d = Inr ((x, created), d')" "x \<notin> set (messages d)"
  shows "x = m \<and> d' = d\<lparr>next_id := Suc (next_id d), messages := messages d @ [m]\<rparr>"
  using assms find_Some_mem
  by (fastforce simp: create_semantic_outbound_def res_simps split: if_splits)

lemma create_reply_Inr:
  assumes "create_reply env W r i c d = Inr (Inr m, d')" "m \<notin> set (messages d)"
  obtains e n irt refs th where "reply_email env W r i c d = Inr (Some e, n)" "reply_thread_fields i d = Inr (irt, refs, th)"
    "m = (automatic_outbound env (next_id d) r i c AUTOMATIC_REPLY e
        (case root_of i d of Some x \<Rightarrow> m_subject x | None \<Rightarrow> in_subject i) (proposed_reply_body r)
        (''automatic-reply:'' @ in_gmail_message_id i) d)
      \<lparr>m_signature := reply_signature (rd_workspace r) d, m_conversation := Some (rd_conversation r),
       m_in_reply_to := irt, m_references := refs, m_gmail_thread_id := th\<rparr>"
    "d' = d\<lparr>next_id := Suc (next_id d), messages := messages d @ [m]\<rparr>"
proof -
  obtain eo n where e: "reply_email env W r i c d = Inr (eo, n)" using assms(1) by (auto simp: create_reply_def res_simps)
  have no: "refuse env r a b f d \<noteq> Inr (Inr m, d')" for a b f
    using refuse_calm [of env r a b f d "Inr m" d'] by auto
  obtain y where y: "eo = Some y" using assms(1) e no by (cases eo) (auto simp: create_reply_def)
  have ok: "contact_or_channel_error c y n d = []"
    using assms(1) e y no by (auto simp: create_reply_def split: if_splits)
  obtain irt refs th where t: "reply_thread_fields i d = Inr (irt, refs, th)"
    using assms(1) e y ok no by (cases "reply_thread_fields i d") (auto simp: create_reply_def split: if_splits)
  show ?thesis
  proof (rule that [OF _ t])
    show "reply_email env W r i c d = Inr (Some y, n)" using e y by simp
    show "m = (automatic_outbound env (next_id d) r i c AUTOMATIC_REPLY y
        (case root_of i d of Some x \<Rightarrow> m_subject x | None \<Rightarrow> in_subject i) (proposed_reply_body r)
        (''automatic-reply:'' @ in_gmail_message_id i) d)
      \<lparr>m_signature := reply_signature (rd_workspace r) d, m_conversation := Some (rd_conversation r),
       m_in_reply_to := irt, m_references := refs, m_gmail_thread_id := th\<rparr>"
      "d' = d\<lparr>next_id := Suc (next_id d), messages := messages d @ [m]\<rparr>"
      using assms e y ok t created_message
      by (fastforce simp: create_reply_def res_simps Let_def)+
  qed
qed

lemma reserve_frame:
  "messages (snd (reserve_rate_capacity env r s t d)) = messages d" "config (snd (reserve_rate_capacity env r s t d)) = config d"
  "emails (snd (reserve_rate_capacity env r s t d)) = emails d" "attachments (snd (reserve_rate_capacity env r s t d)) = attachments d"
  "next_id d \<le> next_id (snd (reserve_rate_capacity env r s t d))"
  by (auto simp: reserve_rate_capacity_def Let_def fresh_def with_automation_def split: option.split)

lemma mark_authorized_frame [simp]:
  "messages (mark_authorized r m d) = messages d" "config (mark_authorized r m d) = config d"
  "attachments (mark_authorized r m d) = attachments d"
  by (simp_all add: mark_authorized_def save_decision_def record_event_def with_automation_def)

lemma reply_email_known:
  assumes "reply_email env W r i c d = Inr (Some e, n)"
  shows "e \<in> set (emails d)"
  using assms find_Some_mem by (fastforce simp: reply_email_def split: if_splits sum.splits)

lemma authorized_reply_accepted:
  assumes "authorize_reply_decision env W k d = Inr (Inr m, d')" "m \<notin> set (messages d)"
    and r: "get_decision k d = Inr r" "rd_action r = ''REPLY''" "decision_context r d = Inr (i, c, v)"
    and "\<not> origin_unsent i d" "in_related_outbound i = None \<or> root_of i d \<noteq> None"
    and "\<And>e. e \<in> set (emails d) \<Longrightarrow> normalize_email env (ea_original e) = Inr (ea_normalized e)"
    and "\<And>a. a \<in> set (attachments d) \<Longrightarrow> a_message a < next_id d"
  shows "automatic_outbound_integrity_error env m r i c d' = Inr []"
proof -
  define d1 where "d1 = snd (reserve_rate_capacity env r (slots_of r) (clock env) d)"
  have no: "refuse env r a b f x \<noteq> Inr (Inr m, d')" for a b f x
    using refuse_calm [of env r a b f x "Inr m" d'] by auto
  have "existing_answer (rd_inbound r) d \<noteq> Some m"
  proof
    assume "existing_answer (rd_inbound r) d = Some m"
    then have "m \<in> set (messages d)"
      by (auto simp: existing_answer_def split: list.splits) (metis filter_is_subset list.set_intros(1) set_sort subsetD)
    then show False using assms(2) by simp
  qed
  then have "reserve_and_create env W r i c d = Inr (Inr m, d')"
    using assms(1) r(1,3) no
    by (auto simp: authorize_reply_decision_def res_simps split: if_splits option.splits)
  then obtain d2 where c: "create_reply env W r i c d1 = Inr (Inr m, d2)" and d': "d' = mark_authorized r m d2"
    using r(2) no
    by (auto simp: reserve_and_create_def d1_def res_simps split: prod.splits if_splits sum.splits)
  have f: "messages d1 = messages d" "config d1 = config d" "emails d1 = emails d" "attachments d1 = attachments d"
    "next_id d \<le> next_id d1"
    unfolding d1_def by (rule reserve_frame)+
  obtain e n irt refs th where x: "reply_email env W r i c d1 = Inr (Some e, n)" "reply_thread_fields i d1 = Inr (irt, refs, th)"
    and m: "m = (automatic_outbound env (next_id d1) r i c AUTOMATIC_REPLY e
        (case root_of i d1 of Some x \<Rightarrow> m_subject x | None \<Rightarrow> in_subject i) (proposed_reply_body r)
        (''automatic-reply:'' @ in_gmail_message_id i) d1)
      \<lparr>m_signature := reply_signature (rd_workspace r) d1, m_conversation := Some (rd_conversation r),
       m_in_reply_to := irt, m_references := refs, m_gmail_thread_id := th\<rparr>"
    and d2: "d2 = d1\<lparr>next_id := Suc (next_id d1), messages := messages d1 @ [m]\<rparr>"
    using create_reply_Inr [OF c] assms(2) f(1) by metis
  have e: "normalize_email env (ea_original e) = Inr (ea_normalized e)"
    using reply_email_known [OF x(1)] assms(8) by (simp add: f(3))
  have ids: "in_id i = rd_inbound r" "t_id c = rd_contact r"
    using r(3) by (auto simp: decision_context_def get_inbound_def get_contact_def res_simps dest: t_get_key)
  have root: "root_of i d1 = root_of i d" by (simp add: root_of_def f(1))
  have "root_of i d' = root_of i d1"
    using assms(7) t_get_appended
    by (auto simp: root_of_def d' d2 f(1) split: Option.bind_splits)
  moreover have "\<not> origin_unsent i d1" using assms(6) by (simp add: origin_unsent_def root)
  moreover have "config d' = config d1" by (simp add: d' d2)
  moreover have "filter (\<lambda>a. a_message a = next_id d1) (attachments d) = []"
    using assms(9) f(5) by (fastforce simp: filter_empty_conv)
  then have "attachments_of_message (next_id d1) d' = []"
    by (simp add: attachments_of_message_def d' d2 f(4))
  ultimately show ?thesis using reply_row_accepted [OF m x(2) e r(2) ids] by simp
qed

end
