(* ===== verification/Reply_Examples.thy ===== *)
theory Reply_Examples
  imports Relationship_Examples Reply_Proofs
begin

text \<open>
  The deployment of \<open>Relationship_Examples\<close> with a draft that a person approved and that waits to be sent, and with a
  decision to answer a mail, ready to be authorized.
\<close>

definition ex_world :: "str \<Rightarrow> reply_world" where
  "ex_world h = \<lparr>rw_addr = (\<lambda>s. s), rw_check = (\<lambda>s. None), rw_parse = (\<lambda>s. None), rw_mailto_path = (\<lambda>s. s),
     rw_resolve = (\<lambda>s. VALID), rw_owner = (\<lambda>k. None), rw_reply_context = (\<lambda>i p w t d. Inr h),
     rw_scheduled_context = (\<lambda>p g d. Inr h)\<rparr>"

lemma ex_limits [simp]:
  "relationship_kill_switch ex_env = False" "auto_reply_kill_switch ex_env = False" "auto_conversation_limit ex_env = 3"
  "auto_workspace_limit ex_env = 20"
  by (simp_all add: ex_env_def)

section \<open>A draft that a person approved\<close>

definition ex_draft_message :: message where
  "ex_draft_message = (scheduled_message ex_env 31 ex_attempt ex_contact ex_email REVIEW_BEFORE_SEND ''Hola'' ''Texto'' [])
     \<lparr>m_state := QUEUED, m_approved_at := Some 0, m_approved_by := Some 2\<rparr>"

definition ex_approved_attempt :: scheduled_attempt where
  "ex_approved_attempt = ex_attempt\<lparr>sa_outbound := Some 31, sa_state := AT_AUTHORIZED\<rparr>"

definition ex_scheduled_db :: db where
  "ex_scheduled_db = ex_db\<lparr>organizations := [ex_organization], contacts := [ex_contact], messages := [ex_draft_message],
     automation := ex_automation\<lparr>topic_rows := [ex_topic], plan_rows := [ex_contact_plan], attempt_rows := [ex_approved_attempt]\<rparr>\<rparr>"

lemma ex_scheduled_fields [simp]:
  "messages ex_scheduled_db = [ex_draft_message]" "contacts ex_scheduled_db = [ex_contact]" "emails ex_scheduled_db = [ex_email]"
  "connections ex_scheduled_db = [ex_connection]" "restrictions ex_scheduled_db = []" "suppressions ex_scheduled_db = []"
  "attachments ex_scheduled_db = [ex_attachment]" "conversations ex_scheduled_db = []"
  "send_mode_settings ex_scheduled_db = send_mode_settings ex_db" "workspace_pk ex_scheduled_db = 7"
  "automation ex_scheduled_db = ex_automation\<lparr>topic_rows := [ex_topic], plan_rows := [ex_contact_plan],
     attempt_rows := [ex_approved_attempt]\<rparr>"
  by (simp_all add: ex_scheduled_db_def)

lemma ex_draft_fields [simp]:
  "m_id ex_draft_message = 31" "m_kind ex_draft_message = SCHEDULED_CONTACT" "m_state ex_draft_message = QUEUED"
  "m_campaign ex_draft_message = None" "m_parent_inbound ex_draft_message = None" "m_contact ex_draft_message = Some 70"
  "m_email_address ex_draft_message = Some 41" "m_recipient ex_draft_message = ''a@b.c''" "m_subject ex_draft_message = ''Hola''"
  "m_body_text ex_draft_message = ''Texto''" "m_signature ex_draft_message = []"
  "m_content_hash ex_draft_message = scheduled_content_hash ex_env ''Hola'' ''Texto'' []"
  "m_scheduled_for ex_draft_message = Some 1000000" "m_approved_at ex_draft_message = Some 0"
  "m_approved_by ex_draft_message = Some 2"
  by (simp_all add: ex_draft_message_def scheduled_message_def blank_message_def Let_def ex_contact_def ex_attempt_def)

lemma ex_live: "live_sending_allowed ex_env ex_scheduled_db"
  by (simp add: live_sending_allowed_iff app_enabled_live_def send_setting_def)

lemma ex_draft_checked: "scheduled_message_error ex_env (ex_world h) ex_draft_message ex_scheduled_db = Inr []"
proof -
  have n: "normalize_email ex_env ''a@b.c'' = Inr ''a@b.c''" by (simp add: normalize_email_def ev_strings)
  have e: "email_of_message ex_draft_message ex_scheduled_db = Some ex_email" by (simp add: email_of_message_def t_get_def)
  have c: "t_id ex_contact = 70" "t_automation_suspended ex_contact = False" "t_status ex_contact = ACTIVE"
    "t_workspace ex_contact = 7" "t_organization ex_contact = 40" "t_preferred_email ex_contact = Some 41"
    by (simp_all add: ex_contact_def)
  have channel: "scheduled_channel_error ex_env ex_draft_message ex_contact ex_email ex_scheduled_db = Inr []"
    by (simp add: scheduled_channel_error_def n contact_or_channel_error_def c plan_restricted_def suppressed_def)
  have open_task: "\<not> contact_has_open_task ex_contact ex_scheduled_db"
    by (simp add: contact_has_open_task_def ex_automation_def)
  have el: "el_eligible (scheduled_contact_eligibility ex_env ex_contact_plan ex_contact ex_topic ex_email (clock ex_env) True
      ex_scheduled_db)"
    by (simp add: scheduled_contact_eligibility_def c open_task contact_suspended_def plan_restricted_def suppressed_def ex_live
        connection_is_ready_def eligible_result_def) (simp add: ex_contact_plan_def ex_topic_def)
  have ctx: "plan_context ex_contact_plan ex_scheduled_db = Inr (ex_contact, ex_topic, ex_email)"
    by (simp add: plan_context_def get_contact_def get_topic_def get_email_def t_get_def c)
      (simp add: ex_contact_plan_def ex_topic_def)
  have "attempt_error ex_env (ex_world h) ex_draft_message ex_approved_attempt ex_contact ex_email ex_scheduled_db = Inr []"
  proof -
    have "get_plan (sa_plan ex_approved_attempt) ex_scheduled_db = Inr ex_contact_plan"
      by (simp add: get_plan_def t_get_def) (simp add: ex_contact_plan_def ex_approved_attempt_def ex_attempt_def)
    moreover have "\<not> plan_moved ex_draft_message ex_approved_attempt ex_contact_plan ex_contact ex_email"
      by (simp add: plan_moved_def c) (simp add: ex_contact_plan_def ex_approved_attempt_def ex_attempt_def)
    moreover have "sa_state ex_approved_attempt = AT_AUTHORIZED" by (simp add: ex_approved_attempt_def)
    moreover have "scheduled_mode_error ex_env (ex_world h) ex_draft_message ex_approved_attempt ex_contact_plan ex_topic
        ex_contact ex_scheduled_db = Inr []"
      by (simp add: scheduled_mode_error_def) (simp add: ex_topic_def)
    ultimately show ?thesis using el by (simp add: attempt_error_def ctx channel)
  qed
  then show ?thesis
    by (simp add: scheduled_message_error_def ex_live e open_task c t_get_def) (simp add: ex_approved_attempt_def)
qed

lemma ex_draft_prepared: "\<exists>x d1. prepare_outbound_effect ex_env (ex_world h) 31 ex_scheduled_db = Inr (Inr x, d1)
   \<and> oe_connection x = 50 \<and> \<not> oe_reply x \<and> connections d1 = connections ex_scheduled_db"
proof -
  have g: "connection_of_contact ex_draft_message ex_scheduled_db = Some ex_connection"
    by (simp add: connection_of_contact_def workspace_of_message_def t_get_def) (simp add: ex_contact_def)
  have ready: "gmail_connection_error (Some ex_connection) = []"
    by (simp add: gmail_connection_error_def connection_is_ready_def)
  have pk: "str_of_pk 31 = ''31''" by code_simp
  have "attachment_payloads ex_env ex_draft_message ex_scheduled_db = Inr []"
    by (simp add: attachment_payloads_def attachments_of_message_def)
  then obtain b where "built_effect ex_env ex_draft_message ex_connection ex_scheduled_db = Inr b"
    by (simp add: built_effect_def REPLY_KINDS_def effect_body_def build_message_def bad_sender_def single_plain_address_def
        check_headers_def validated_pdf_attachments_def finish_message_def MAX_SOURCE_PDF_BYTES_def MAX_SERIALIZED_MIME_BYTES_def
        Let_def)
  then obtain x where x: "build_effect ex_env ex_draft_message ex_connection ex_scheduled_db = Inr (b, x)" "oe_connection x = 50"
    "\<not> oe_reply x"
    by (simp add: build_effect_def scheduled_content_changed_def REPLY_KINDS_def)
  have a: "\<not> counted_against_limits ex_draft_message None ex_scheduled_db"
    by (simp add: counted_against_limits_def automatic_attempt_def t_get_def)
      (simp add: ex_approved_attempt_def ex_attempt_def ex_contact_plan_def ex_topic_def)
  have "prepare_checked ex_env ex_draft_message None (Some ex_connection) ex_scheduled_db
      = Inr (Inr x, begin_sending ex_env ex_draft_message None b ex_scheduled_db)"
    by (simp add: prepare_checked_def ready x(1) a)
  moreover have "worker_message 31 ex_scheduled_db = Inr ex_draft_message"
    by (simp add: worker_message_def get_message_def t_get_def WORKER_KINDS_def)
  ultimately show ?thesis
    using x(2,3)
    by (simp add: prepare_outbound_effect_def prepare_scheduled_def ex_draft_checked g AUTOMATIC_KINDS_def begin_sending_def
        save_message_def)
qed

lemma call_provider_state: "snd (snd (call_gmail env G b x d p)) = snd (send_outbound_effect G x p)"
  by (auto simp: call_gmail_def fail_outbound_def doubt_outbound_def confirm_outbound_def commit_def and_complete_def
      split: prod.split sum.split provider_failure.split)

lemma ex_draft_called: "snd (snd (deliver_authorized_outbound ex_env (ex_world h) naive_gmail 31 ex_scheduled_db [])) \<noteq> []"
proof -
  obtain x d1 where x: "prepare_outbound_effect ex_env (ex_world h) 31 ex_scheduled_db = Inr (Inr x, d1)"
    "oe_connection x = 50" "\<not> oe_reply x" "connections d1 = connections ex_scheduled_db"
    using ex_draft_prepared by blast
  then show ?thesis
    by (simp add: deliver_authorized_outbound_def t_get_def call_provider_state send_outbound_effect_def naive_gmail_def naive_send_def)
qed

section \<open>A decision to answer\<close>

definition ex_origin :: message where
  "ex_origin = ex_message\<lparr>m_state := SENT, m_sent_at := Some 1\<rparr>"

definition ex_answered :: inbound where
  "ex_answered = (ex_inbound OTHER_REPLY)\<lparr>in_contact := Some 70, in_conversation := Some 75, in_related_outbound := Some 30,
     in_gmail_thread_id := ''t'', in_message_id := ''<x@y>''\<rparr>"

definition ex_conversation :: conversation where
  "ex_conversation = \<lparr>cv_id = 75, cv_workspace = 7, cv_contact = 70, cv_connection = 50, cv_gmail_thread_id = ''t'',
     cv_subject = ''Hola'', cv_automation_suspended = False, cv_last_message_at = None\<rparr>"

definition ex_manifest :: "(str \<times> json) list" where
  "ex_manifest = [(''blocks'', JList []),
     (''facts'', JList [JObj [(''revision_id'', JStr ''95''), (''version'', JInt 1), (''sha256'', JStr ''Dato'')]])]"

definition ex_hash :: str where
  "ex_hash = sha256_hex ex_env (json_dumps True (JObj ex_manifest))"

definition ex_decision :: reply_decision where
  "ex_decision = \<lparr>rd_id = 90, rd_workspace = 7, rd_inbound = 80, rd_contact = 70, rd_conversation = 75, rd_mode = MODE_LIVE,
     rd_provider = [], rd_model = [], rd_policy_version = ''p'', rd_classification = [], rd_intent = ''APPROVED_COMPANY_FACT'',
     rd_action = ''REPLY'', rd_confidence = 950, rd_candidate = None, rd_proposed_body = ''Gracias'', rd_human_reason = [],
     rd_context_manifest = JObj ex_manifest, rd_context_hash = ex_hash, rd_selected_facts = [95], rd_state = RD_AUTO_ELIGIBLE,
     rd_error = [], rd_created_at = 6000000\<rparr>"

definition ex_fact_row :: knowledge_fact where
  "ex_fact_row = \<lparr>kf_id = 94, kf_workspace = 7, kf_title = [], kf_category = [], kf_active = True, kf_created_by = 2\<rparr>"

definition ex_revision :: fact_revision where
  "ex_revision = \<lparr>kr_id = 95, kr_fact = 94, kr_version = 1, kr_text = ''Dato'', kr_source_notes = [],
     kr_content_hash = [], kr_approved_at = Some 0, kr_approved_by = Some 2, kr_superseded_at = None\<rparr>"

lemma ex_knowledge_fields [simp]:
  "kf_id ex_fact_row = 94" "kf_workspace ex_fact_row = 7" "kf_active ex_fact_row" "kr_id ex_revision = 95" "kr_fact ex_revision = 94"
  "kr_version ex_revision = 1" "kr_text ex_revision = ''Dato''" "kr_approved_at ex_revision = Some 0" "kr_superseded_at ex_revision = None"
  by (simp_all add: ex_fact_row_def ex_revision_def)

definition ex_reply_db :: db where
  "ex_reply_db = ex_db\<lparr>organizations := [ex_organization], contacts := [ex_contact], messages := [ex_origin],
     inbounds := [ex_answered], conversations := [ex_conversation],
     automation := ex_automation\<lparr>decision_rows := [ex_decision],
       reply_configurations := [\<lparr>am_id = 91, am_workspace = 7, am_mode = MODE_LIVE, am_policy_version = ''p'',
         am_live_enabled_at = Some 0, am_live_enabled_by = Some 2\<rparr>],
       fact_rows := [ex_fact_row], fact_revisions := [ex_revision]\<rparr>\<rparr>"

lemma ex_reply_fields [simp]:
  "messages ex_reply_db = [ex_origin]" "contacts ex_reply_db = [ex_contact]" "emails ex_reply_db = [ex_email]"
  "connections ex_reply_db = [ex_connection]" "restrictions ex_reply_db = []" "suppressions ex_reply_db = []"
  "attachments ex_reply_db = [ex_attachment]" "conversations ex_reply_db = [ex_conversation]" "inbounds ex_reply_db = [ex_answered]"
  "send_mode_settings ex_reply_db = send_mode_settings ex_db" "workspace_pk ex_reply_db = 7" "campaigns ex_reply_db = [ex_campaign]"
  "config ex_reply_db = ex_config" "next_id ex_reply_db = 100"
  "decision_rows (automation ex_reply_db) = [ex_decision]" "task_rows (automation ex_reply_db) = []"
  "action_reservations (automation ex_reply_db) = []" "fact_rows (automation ex_reply_db) = [ex_fact_row]"
  "fact_revisions (automation ex_reply_db) = [ex_revision]"
  by (simp_all add: ex_reply_db_def ex_automation_def)

lemma ex_decision_fields [simp]:
  "rd_id ex_decision = 90" "rd_workspace ex_decision = 7" "rd_inbound ex_decision = 80" "rd_contact ex_decision = 70"
  "rd_conversation ex_decision = 75" "rd_action ex_decision = ''REPLY''" "rd_state ex_decision = RD_AUTO_ELIGIBLE"
  by (simp_all add: ex_decision_def)

lemma ex_answered_fields [simp]:
  "in_id ex_answered = 80" "in_connection ex_answered = 50" "in_related_outbound ex_answered = Some 30" "in_sender ex_answered = ''a@b.c''"
  by (simp_all add: ex_answered_def ex_inbound_def)

lemma ex_contact_fields [simp]:
  "t_id ex_contact = 70" "t_automation_suspended ex_contact = False" "t_status ex_contact = ACTIVE"
  "t_workspace ex_contact = 7" "t_organization ex_contact = 40"
  by (simp_all add: ex_contact_def)

lemma ex_conversation_fields [simp]:
  "cv_id ex_conversation = 75" "cv_workspace ex_conversation = 7" "cv_contact ex_conversation = 70"
  "cv_connection ex_conversation = 50" "cv_automation_suspended ex_conversation = False"
  by (simp_all add: ex_conversation_def)

lemma ex_origin_fields [simp]:
  "m_id ex_origin = 30" "m_kind ex_origin = INITIAL" "m_campaign ex_origin = Some 10" "m_delivery_mode ex_origin = LIVE"
  "m_subject ex_origin = ''Hola''" "m_state ex_origin = SENT" "m_sent_at ex_origin = Some 1" "m_message_id ex_origin = []"
  by (simp_all add: ex_origin_def)

lemma ex_context: "get_decision 90 ex_reply_db = Inr ex_decision"
  "decision_context ex_decision ex_reply_db = Inr (ex_answered, ex_contact, ex_conversation)"
  "root_of ex_answered ex_reply_db = Some ex_origin" "root_campaign ex_answered ex_reply_db = Some ex_campaign"
  by (simp_all add: get_decision_def decision_context_def get_inbound_def get_contact_def get_conversation_def root_of_def
      root_campaign_def campaign_or_none_def t_get_def)

lemma ex_policy: "decision_policy_error ex_env (ex_world ex_hash) ex_decision ex_answered True [] ex_reply_db = Inr []"
proof -
  have live: "live_sending_allowed ex_env ex_reply_db"
    by (simp add: live_sending_allowed_iff app_enabled_live_def send_setting_def)
  have mode: "live_mode_error ex_decision ex_reply_db = []"
    by (simp add: live_mode_error_def reply_configuration_of_def) (simp add: ex_decision_def ex_reply_db_def)
  have mail: "in_is_human ex_answered" "in_classification ex_answered = OTHER_REPLY" "automatic_header_error ex_answered = []"
    by (simp_all add: ex_answered_def ex_inbound_def automatic_header_error_def header_value_def py_casefold_def Let_def)
  have action: "action_error ex_decision = []" "900 \<le> rd_confidence ex_decision"
    by (simp_all add: action_error_def) (simp_all add: ex_decision_def SAFE_REPLY_INTENTS_def ev_strings)
  have early: "early_policy_error ex_env ex_decision ex_answered ex_reply_db = []"
    using live mode mail action by (simp add: early_policy_error_def)
  have pk: "str_of_pk 95 = ''95''" by code_simp
  have mf: "manifest_facts (rd_context_manifest ex_decision)
      = Inr [(''95'', [(''revision_id'', JStr ''95''), (''version'', JInt 1), (''sha256'', JStr ''Dato'')])]"
    by (simp add: ex_decision_def manifest_facts_def ex_manifest_def map_filter_simps field_text_def json_text_def)
  have fe: "fact_error ex_env ex_decision [(''95'', [(''revision_id'', JStr ''95''), (''version'', JInt 1), (''sha256'', JStr ''Dato'')])]
      ex_revision ex_reply_db = []"
    by (simp add: fact_error_def pk t_get_def)
  have "rd_selected_facts ex_decision = [95]" by (simp add: ex_decision_def)
  then have facts: "selected_facts_error ex_env ex_decision ex_reply_db = Inr []"
    by (simp add: selected_facts_error_def mf fe selected_facts_def)
  have integrity: "manifest_integrity_error ex_env ex_decision ex_reply_db = []"
    by (simp add: manifest_integrity_error_def or_error_def)
      (simp add: ex_decision_def ex_hash_def, simp add: ex_manifest_def or_error_def)
  have built: "context_error (ex_world ex_hash) ex_decision ex_answered True [] ex_reply_db = Inr []"
    by (simp add: context_error_def writing_instructions_for_decision_def ex_world_def)
      (simp add: ex_decision_def had_writing_instructions_def ex_manifest_def)
  show ?thesis by (simp add: decision_policy_error_def early facts integrity built)
qed

lemma ex_reply_authorized: "\<exists>m d'. authorize_reply_decision ex_env (ex_world ex_hash) 90 ex_reply_db = Inr (Inr m, d')
   \<and> m \<notin> set (messages ex_reply_db)"
proof -
  have n: "normalize_email ex_env ''a@b.c'' = Inr ''a@b.c''" by (simp add: normalize_email_def ev_strings)
  have checks: "authorization_error ex_env (ex_world ex_hash) ex_decision ex_answered ex_contact ex_conversation ex_reply_db = Inr None"
    by (simp add: authorization_error_def manual_reply_conflict_error_def manual_reply_under_way_def conversation_error_def
        ex_policy origin_error_def ex_context decision_connection_def gmail_connection_error_def connection_is_ready_def)
  obtain d1 where r: "reserve_rate_capacity ex_env ex_decision 1 (clock ex_env) ex_reply_db = ([], d1)"
    "messages d1 = [ex_origin]" "emails d1 = [ex_email]" "restrictions d1 = []" "suppressions d1 = []" "config d1 = ex_config"
    by (simp add: reserve_rate_capacity_def reservation_of_decision_def conversation_slots_def slots_used_def fresh_def
        with_automation_def Let_def)
  have root: "root_of ex_answered d1 = Some ex_origin" by (simp add: root_of_def r(2) t_get_def)
  have e: "reply_email ex_env (ex_world ex_hash) ex_decision ex_answered ex_contact d1 = Inr (Some ex_email, ''a@b.c'')"
    by (simp add: reply_email_def ex_world_def n r(3))
  have channel: "contact_or_channel_error ex_contact ex_email ''a@b.c'' d1 = []"
    by (simp add: contact_or_channel_error_def plan_restricted_def suppressed_def r(4,5))
  have "normalize_message_id ''<x@y>'' = ''<x@y>''" by code_simp
  then obtain refs where t: "reply_thread_fields ex_answered d1 = Inr (''<x@y>'', refs, ''t'')"
    by (simp add: reply_thread_fields_def Let_def) (simp add: ex_answered_def)
  have "\<exists>m d2. create_reply ex_env (ex_world ex_hash) ex_decision ex_answered ex_contact d1 = Inr (Inr m, d2) \<and> m \<noteq> ex_origin"
    by (simp add: create_reply_def e channel t create_semantic_outbound_def message_key_taken_def r(2) Let_def
        automatic_outbound_def blank_message_def deterministic_message_id_def) (simp add: ex_origin_def ex_message_def)
  then obtain m d2 where c: "create_reply ex_env (ex_world ex_hash) ex_decision ex_answered ex_contact d1 = Inr (Inr m, d2)"
    "m \<noteq> ex_origin" by blast
  have "reserve_and_create ex_env (ex_world ex_hash) ex_decision ex_answered ex_contact ex_reply_db
      = Inr (Inr m, mark_authorized ex_decision m d2)"
    using r(1) by (simp add: reserve_and_create_def slots_of_def c(1))
  then show ?thesis
    using c(2)
    by (simp add: authorize_reply_decision_def ex_context checks existing_answer_def AUTOMATIC_KINDS_def settled_decision_states_def)
qed

section \<open>A conversation long enough to be remembered\<close>

definition ex_history_db :: db where
  "ex_history_db = ex_db\<lparr>organizations := [ex_organization], contacts := [ex_contact], messages := [],
     inbounds := map (\<lambda>k. (ex_inbound OTHER_REPLY)\<lparr>in_id := k, in_contact := Some 70, in_external_at := int k\<rparr>)
       [80, 81, 82, 83, 84, 85, 86]\<rparr>"

definition ex_source :: memory_source where
  "ex_source = \<lparr>ms_id = ''inbound:80'', ms_role = ''CLIENT'', ms_at = 80, ms_text = ''Quiero la baja''\<rparr>"

lemma ex_remembered: "\<exists>m d'. refresh_contact_memory ex_env 70 ex_history_db = Inr (Some m, d')"
proof -
  have h: "history_sources 70 ex_history_db = [ex_source]" unfolding ex_source_def by code_simp
  have "length (json_dumps False (summary_of (map memory_entry [ex_source]))) < 300" by code_simp
  then have "\<not> MAX_MEMORY_SERIALIZED_CHARACTERS < length (json_dumps False (summary_of (map memory_entry [ex_source])))"
    unfolding MAX_MEMORY_SERIALIZED_CHARACTERS_def by linarith
  then have g: "digest [] [ex_source] = [ex_source]" by (simp only: digest.simps append_Nil if_False)
  have a: "active_memory 70 ex_history_db = None"
    by (simp add: active_memory_def memories_of_contact_def ex_history_db_def ex_db_def ex_automation_def)
  have c: "t_get t_id 70 (contacts ex_history_db) = Some ex_contact" by (simp add: ex_history_db_def t_get_def)
  show ?thesis by (simp add: refresh_contact_memory_def c h g a Let_def split_beta del: digest.simps)
qed

end
