(* ===== verification/Contacts.thy ===== *)
theory Contacts
  imports Inbound_Proofs
begin

text \<open>
  What a person does with the contacts (the end of \<open>contacts/services.py\<close>): adding a contact or an address, choosing
  the preferred one, validating it against the DNS, and forbidding or allowing communication. A manual restriction is
  mirrored in the suppression list; the entry is marked with the restriction and removed with it.
\<close>

section \<open>Adding contacts and addresses\<close>

definition needs_validation :: "email_address \<Rightarrow> bool" where
  "needs_validation e \<longleftrightarrow> ea_validity e = UNKNOWN \<or> ea_validity e = TRANSIENT"

definition dispatch_contact_email_validation :: "id \<Rightarrow> db \<Rightarrow> db" where
  "dispatch_contact_email_validation k d = d\<lparr>dispatched := dispatched d @ [(''validate_contact_email'', k)]\<rparr>"

definition validate_if_needed :: "email_address \<Rightarrow> db \<Rightarrow> db" where
  "validate_if_needed e d = (if needs_validation e then dispatch_contact_email_validation (ea_id e) d else d)"

definition manual_contact_args :: "id \<Rightarrow> str \<Rightarrow> str \<Rightarrow> resolve_args" where
  "manual_contact_args actor email organization_name =
     resolve_defaults\<lparr>ra_email := email, ra_name := organization_name, ra_source := FROM_MANUAL,
       ra_provenance := [(''created_by_id'', str_of_pk actor)], ra_validity := UNKNOWN,
       ra_label := txt_main_email, ra_email_provenance := ''MANUAL'', ra_prefer := True\<rparr>"

definition create_manual_contact :: "env \<Rightarrow> id \<Rightarrow> str \<Rightarrow> str \<Rightarrow> str \<Rightarrow> db \<Rightarrow> exn + contact \<times> db" where
  "create_manual_contact env actor email organization_name contact_name d =
     bindE (require_user_capability d actor MANAGE_CONTACTS None) (\<lambda>u.
     bindE (resolve_organization env (u_workspace u) (manual_contact_args actor email organization_name) d)
       (\<lambda>((org, k), d1).
     bindE (of_option AssertionFailed (Option.bind k (\<lambda>k. t_get ea_id k (emails d1)))) (\<lambda>e.
     bindE (contact_for_organization org (Some (ea_id e)) MANUAL_ENTRY None (Some actor) contact_name d1)
       (\<lambda>((t, created), d2).
          let (cancelled, d3) = cancel_pending_campaign_work env org txt_added_manually None None d2;
              d4 = record_event (if created then ''contact.created_manually'' else ''contact.manual_entry_reused'')
                     (t_id t) (Some actor) d3
          in Inr (t, validate_if_needed e d4)))))"

definition clear_preferred :: "id \<Rightarrow> id \<Rightarrow> db \<Rightarrow> db" where
  "clear_preferred org k d =
     d\<lparr>emails := t_update (\<lambda>e. ea_organization e = org \<and> ea_preferred e \<and> ea_id e \<noteq> k)
        (\<lambda>e. e\<lparr>ea_preferred := False\<rparr>) (emails d)\<rparr>"

definition save_email :: "id \<Rightarrow> (email_address \<Rightarrow> email_address) \<Rightarrow> db \<Rightarrow> db" where
  "save_email k f d = d\<lparr>emails := t_save ea_id k f (emails d)\<rparr>"

definition save_contact :: "id \<Rightarrow> (contact \<Rightarrow> contact) \<Rightarrow> db \<Rightarrow> db" where
  "save_contact k f d = d\<lparr>contacts := t_save t_id k f (contacts d)\<rparr>"

text \<open>The preferred address of a contact: the same steps in \<open>add_contact_email_address\<close> and \<open>set_contact_preferred_email\<close>.\<close>

definition prefer_email :: "contact \<Rightarrow> id \<Rightarrow> db \<Rightarrow> db" where
  "prefer_email t k d =
     save_contact (t_id t) (\<lambda>r. r\<lparr>t_preferred_email := Some k\<rparr>)
       (save_email k (\<lambda>e. e\<lparr>ea_preferred := True\<rparr>) (clear_preferred (t_organization t) k d))"

definition contact_for_actor :: "id \<Rightarrow> id \<Rightarrow> db \<Rightarrow> exn + contact \<times> membership" where
  "contact_for_actor actor k d =
     bindE (require_user_capability d actor MANAGE_CONTACTS None) (\<lambda>u.
     bindE (get_contact k d) (\<lambda>t.
       if t_workspace t \<noteq> u_workspace u then Inl PermissionDenied else Inr (t, u)))"

definition added_email_args :: "id \<Rightarrow> contact \<Rightarrow> organization \<Rightarrow> str \<Rightarrow> str \<Rightarrow> db \<Rightarrow> resolve_args" where
  "added_email_args actor t og email label d =
     resolve_defaults\<lparr>ra_identities := claims_of_organization (o_id og) d, ra_email := email, ra_name := o_name og,
       ra_source := FROM_MANUAL,
       ra_provenance := [(''added_to_contact_id'', str_of_pk (t_id t)), (''created_by_id'', str_of_pk actor)],
       ra_validity := UNKNOWN, ra_label := (if label = [] then txt_manual_email else label),
       ra_email_provenance := ''MANUAL''\<rparr>"

definition write_added_email :: "contact \<Rightarrow> email_address \<Rightarrow> str \<Rightarrow> bool \<Rightarrow> db \<Rightarrow> exn + db" where
  "write_added_email t e label make_preferred d =
     (let clean = take 120 (py_strip label);
          relabel = (\<lambda>d. if clean \<noteq> [] \<and> ea_label e \<noteq> clean
                         then save_email (ea_id e) (\<lambda>x. x\<lparr>ea_label := clean\<rparr>) d else d)
      in if make_preferred \<or> t_preferred_email t = None
         then if ea_validity e = INVALID then Inl (ValidationError txt_invalid_preferred)
              else Inr (relabel (prefer_email t (ea_id e) d))
         else Inr (relabel d))"

definition add_contact_email_address ::
    "env \<Rightarrow> id \<Rightarrow> id \<Rightarrow> str \<Rightarrow> str \<Rightarrow> bool \<Rightarrow> db \<Rightarrow> exn + id \<times> db" where
  "add_contact_email_address env actor ck email label make_preferred d =
     bindE (contact_for_actor actor ck d) (\<lambda>(t, u).
     bindE (get_organization (t_organization t) d) (\<lambda>og.
     bindE (resolve_organization env (u_workspace u) (added_email_args actor t og email label d) d)
       (\<lambda>((org, k), d1).
          case k of
            None \<Rightarrow> Inl (OrganizationResolutionConflict txt_other_organization)
          | Some ek \<Rightarrow>
              if org \<noteq> o_id og then Inl (OrganizationResolutionConflict txt_other_organization)
              else
                bindE (get_email ek d1) (\<lambda>e.
                bindE (write_added_email t e label make_preferred d1) (\<lambda>d2.
                  Inr (ek, validate_if_needed e (record_event ''contact.email_added'' ek (Some actor) d2)))))))"

definition queue_contact_email_validation :: "id \<Rightarrow> id \<Rightarrow> db \<Rightarrow> exn + db" where
  "queue_contact_email_validation actor k d =
     bindE (require_user_capability d actor MANAGE_CONTACTS None) (\<lambda>u.
     bindE (get_email k d) (\<lambda>e.
       if ea_workspace e \<noteq> u_workspace u then Inl DoesNotExist
       else if \<not> needs_validation e then Inl (ValidationError txt_already_validated)
       else Inr (dispatch_contact_email_validation k d)))"

text \<open>The answer of the resolver is one of \<open>VALID\<close>, \<open>INVALID\<close> and \<open>TRANSIENT\<close>.\<close>

definition validated_email :: "instant \<Rightarrow> validity \<Rightarrow> email_address \<Rightarrow> email_address" where
  "validated_email now mx e =
     (if mx = VALID
      then e\<lparr>ea_validity := VALID, ea_validated_at := Some now, ea_invalid_reason := [], ea_invalidated_at := None\<rparr>
      else if mx = INVALID
      then e\<lparr>ea_validity := INVALID, ea_validated_at := Some now, ea_invalid_reason := txt_no_mail_domain,
             ea_invalidated_at := Some now\<rparr>
      else e\<lparr>ea_validity := TRANSIENT, ea_validated_at := None, ea_invalid_reason := [], ea_invalidated_at := None\<rparr>)"

definition settle_validation :: "env \<Rightarrow> id \<Rightarrow> validity \<Rightarrow> db \<Rightarrow> exn + validity \<times> db" where
  "settle_validation env k mx d =
     bindE (get_email k d) (\<lambda>e.
       if ea_validity e = VALID \<or> ea_validity e = INVALID then Inr (ea_validity e, d)
       else Inr (ea_validity (validated_email (clock env) mx e),
              record_event ''contact.email_validation_completed'' k None
                (save_email k (validated_email (clock env) mx) d)))"

definition validate_contact_email_address :: "env \<Rightarrow> (str \<Rightarrow> validity) \<Rightarrow> id \<Rightarrow> db \<Rightarrow> exn + validity \<times> db" where
  "validate_contact_email_address env resolve k d =
     bindE (get_email k d) (\<lambda>e.
       if ea_validity e = VALID \<or> ea_validity e = INVALID then Inr (ea_validity e, d)
       else settle_validation env k (resolve (ea_domain e)) d)"

definition rename_contact :: "id \<Rightarrow> id \<Rightarrow> str \<Rightarrow> db \<Rightarrow> exn + db" where
  "rename_contact actor ck name d =
     bindE (contact_for_actor actor ck d) (\<lambda>(t, u).
       if py_strip name = t_name t then Inr d
       else Inr (record_event ''contact.renamed'' ck (Some actor) (save_contact ck (\<lambda>r. r\<lparr>t_name := py_strip name\<rparr>) d)))"

definition set_contact_preferred_email :: "id \<Rightarrow> id \<Rightarrow> id \<Rightarrow> db \<Rightarrow> exn + db" where
  "set_contact_preferred_email actor ck ek d =
     bindE (contact_for_actor actor ck d) (\<lambda>(t, u).
     bindE (get_email ek d) (\<lambda>e.
       if ea_workspace e \<noteq> u_workspace u \<or> ea_organization e \<noteq> t_organization t then Inl PermissionDenied
       else if ea_validity e = INVALID then Inl (ValidationError txt_invalid_preferred)
       else Inr (record_event ''contact.preferred_email_changed'' ck (Some actor) (prefer_email t ek d))))"

section \<open>Forbidding communication\<close>

definition manual_target :: "contact + email_address \<Rightarrow> restriction \<Rightarrow> bool" where
  "manual_target target r =
     (case target of Inl t \<Rightarrow> r_contact r = Some (t_id t) | Inr e \<Rightarrow> r_email_address r = Some (ea_id e))"

definition active_manual :: "contact + email_address \<Rightarrow> restriction \<Rightarrow> bool" where
  "active_manual target r \<longleftrightarrow> r_kind r = R_MANUAL \<and> r_revoked_at r = None \<and> manual_target target r"

definition manual_restriction :: "id \<Rightarrow> id \<Rightarrow> id \<Rightarrow> str \<Rightarrow> contact + email_address \<Rightarrow> restriction" where
  "manual_restriction k ws actor reason target =
     \<lparr>r_id = k, r_workspace = ws, r_scope = (if isl target then SCOPE_CONTACT else SCOPE_EMAIL), r_kind = R_MANUAL,
      r_contact = (case target of Inl t \<Rightarrow> Some (t_id t) | Inr e \<Rightarrow> None),
      r_email_address = (case target of Inl t \<Rightarrow> None | Inr e \<Rightarrow> Some (ea_id e)),
      r_source = ''contacts_dashboard'', r_evidence = py_strip reason, r_source_inbound = None,
      r_created_by = Some actor, r_revoked_at = None, r_revoked_by = None, r_revocation_reason = []\<rparr>"

definition get_or_create_manual ::
    "id \<Rightarrow> id \<Rightarrow> str \<Rightarrow> contact + email_address \<Rightarrow> db \<Rightarrow> restriction \<times> db" where
  "get_or_create_manual ws actor reason target d =
     (case find (active_manual target) (rev (restrictions d)) of
        Some r \<Rightarrow> (r, d)
      | None \<Rightarrow>
          let (k, d1) = fresh d; r = manual_restriction k ws actor reason target
          in (r, d1\<lparr>restrictions := restrictions d1 @ [r]\<rparr>))"

definition bridge_evidence :: "id \<Rightarrow> str" where
  "bridge_evidence k = ''CommunicationRestriction:'' @ str_of_pk k"

definition bridge_address :: "env \<Rightarrow> id \<Rightarrow> id \<Rightarrow> email_address \<Rightarrow> db \<Rightarrow> exn + db" where
  "bridge_address env actor k e d =
     map_sum id snd (suppress_email env (ea_original e) (suppression_value S_MANUAL) (Some actor)
       ''contacts_dashboard'' (bridge_evidence k) d)"

definition mark_do_not_contact :: "contact \<Rightarrow> db \<Rightarrow> db" where
  "mark_do_not_contact t d =
     (if t_status t = ACTIVE then save_contact (t_id t) (\<lambda>r. r\<lparr>t_status := DO_NOT_CONTACT\<rparr>) d else d)"

definition restricted_addresses :: "contact + email_address \<Rightarrow> db \<Rightarrow> email_address list" where
  "restricted_addresses target d =
     sort_key ea_normalized
       (filter (\<lambda>e. case target of Inl t \<Rightarrow> ea_organization e = t_organization t | Inr x \<Rightarrow> ea_id e = ea_id x) (emails d))"

definition restricted_organization :: "contact + email_address \<Rightarrow> id" where
  "restricted_organization target = (case target of Inl t \<Rightarrow> t_organization t | Inr e \<Rightarrow> ea_organization e)"

definition restrict_target ::
    "env \<Rightarrow> id \<Rightarrow> id \<Rightarrow> str \<Rightarrow> contact + email_address \<Rightarrow> db \<Rightarrow> exn + restriction \<times> db" where
  "restrict_target env ws actor reason target d =
     (let (r, d1) = get_or_create_manual ws actor reason target d;
          d2 = (case target of Inl t \<Rightarrow> mark_do_not_contact t d1 | Inr e \<Rightarrow> d1)
      in bindE (foldE (bridge_address env actor (r_id r)) (restricted_addresses target d2) d2) (\<lambda>d3.
           let (cancelled, d4) = cancel_pending_campaign_work env (restricted_organization target)
                 txt_manual_restriction None None d3
           in Inr (r, record_event ''contact.restriction_created'' (r_id r) (Some actor) d4)))"

text \<open>The scope is CONTACT with a contact, EMAIL with an address, or another text.\<close>

definition create_manual_restriction ::
    "env \<Rightarrow> id \<Rightarrow> str \<Rightarrow> str \<Rightarrow> id option \<Rightarrow> id option \<Rightarrow> db \<Rightarrow> exn + restriction \<times> db" where
  "create_manual_restriction env actor scope reason contact email d =
     (if py_strip reason = [] then Inl (ValidationError txt_restriction_reason)
      else
        bindE (require_user_capability d actor MANAGE_CONTACTS None) (\<lambda>u.
          if scope = ''CONTACT'' then
            (case (contact, email) of
               (Some ck, None) \<Rightarrow>
                 bindE (get_contact ck d) (\<lambda>t.
                   if t_workspace t \<noteq> u_workspace u then Inl PermissionDenied
                   else restrict_target env (u_workspace u) actor reason (Inl t) d)
             | _ \<Rightarrow> Inl (ValidationError txt_choose_contact))
          else if scope = ''EMAIL'' then
            (case (email, contact) of
               (Some ek, None) \<Rightarrow>
                 bindE (get_email ek d) (\<lambda>e.
                   if ea_workspace e \<noteq> u_workspace u then Inl PermissionDenied
                   else
                     bindE (contact_for_organization (ea_organization e) (Some ek) MANUAL_RESTRICTION None (Some actor) [] d)
                       (\<lambda>((t, created), d1). restrict_target env (u_workspace u) actor reason (Inr e) d1))
             | _ \<Rightarrow> Inl (ValidationError txt_choose_email))
          else Inl (ValidationError txt_bad_scope)))"

section \<open>Allowing it again\<close>

definition bridge_entry :: "id \<Rightarrow> suppression \<Rightarrow> bool" where
  "bridge_entry k s \<longleftrightarrow> s_reason s = S_MANUAL \<and> s_source s = ''contacts_dashboard'' \<and> s_evidence s = bridge_evidence k"

definition remove_entry :: "id \<Rightarrow> suppression \<Rightarrow> db \<Rightarrow> db" where
  "remove_entry actor s d =
     (let d1 = record_event ''suppression.bridge_removed'' (s_id s) (Some actor) d
      in d1\<lparr>suppressions := filter (\<lambda>x. s_id x \<noteq> s_id s) (suppressions d1)\<rparr>)"

definition reactivate_contact :: "restriction \<Rightarrow> db \<Rightarrow> exn + db" where
  "reactivate_contact r d =
     (case r_contact r of
        None \<Rightarrow> Inr d
      | Some ck \<Rightarrow>
          bindE (get_contact ck d) (\<lambda>t.
            if t_status t = DO_NOT_CONTACT
               \<and> \<not> list_ex (\<lambda>x. r_contact x = Some ck \<and> r_revoked_at x = None \<and> r_id x \<noteq> r_id r) (restrictions d)
            then Inr (save_contact ck (\<lambda>x. x\<lparr>t_status := ACTIVE\<rparr>) d) else Inr d))"

definition revoke_manual_restriction :: "env \<Rightarrow> id \<Rightarrow> id \<Rightarrow> str \<Rightarrow> db \<Rightarrow> exn + db" where
  "revoke_manual_restriction env actor k reason d =
     (if py_strip reason = [] then Inl (ValidationError txt_revoke_reason)
      else
        bindE (require_user_capability d actor MANAGE_CONTACTS None) (\<lambda>u.
        bindE (of_option DoesNotExist (t_get r_id k (restrictions d))) (\<lambda>r.
          if r_workspace r \<noteq> u_workspace u then Inl PermissionDenied
          else if r_kind r \<noteq> R_MANUAL then Inl (ValidationError txt_only_manual)
          else if r_revoked_at r \<noteq> None then Inr d
          else
            let d1 = d\<lparr>restrictions := t_save r_id k
                        (\<lambda>x. x\<lparr>r_revoked_at := Some (clock env), r_revoked_by := Some actor,
                                r_revocation_reason := py_strip reason\<rparr>) (restrictions d)\<rparr>;
                d2 = fold (remove_entry actor) (filter (bridge_entry k) (suppressions d1)) d1
            in bindE (reactivate_contact r d2) (\<lambda>d3.
                 Inr (record_event ''contact.restriction_revoked'' k (Some actor) d3)))))"

definition contact_wide :: "id \<Rightarrow> id \<Rightarrow> db \<Rightarrow> restriction list" where
  "contact_wide ws ck d =
     rev (filter (\<lambda>r. r_workspace r = ws \<and> r_contact r = Some ck \<and> r_scope r = SCOPE_CONTACT \<and> r_revoked_at r = None)
       (restrictions d))"

definition set_contact_no_contact :: "env \<Rightarrow> id \<Rightarrow> id \<Rightarrow> bool \<Rightarrow> db \<Rightarrow> exn + db" where
  "set_contact_no_contact env actor ck blocked d =
     bindE (contact_for_actor actor ck d) (\<lambda>(t, u).
       let active = contact_wide (u_workspace u) ck d
       in if blocked then
            if list_ex (\<lambda>r. r_kind r = R_MANUAL) active then Inr d
            else map_sum id snd (create_manual_restriction env actor ''CONTACT'' txt_marked_from_list (Some ck) None d)
          else if list_ex (\<lambda>r. r_kind r \<noteq> R_MANUAL) active then Inl (ValidationError txt_permanent_restriction)
          else foldE (\<lambda>r. revoke_manual_restriction env actor (r_id r) txt_enabled_from_list) active d)"

definition communication_is_restricted :: "contact \<Rightarrow> email_address option \<Rightarrow> db \<Rightarrow> bool" where
  "communication_is_restricted t email d \<longleftrightarrow>
     (case email of
        Some e \<Rightarrow> if ea_organization e \<noteq> t_organization t then True
                  else list_ex (\<lambda>r. r_workspace r = t_workspace t \<and> r_revoked_at r = None
                         \<and> (r_contact r = Some (t_id t) \<or> r_email_address r = Some (ea_id e))) (restrictions d)
      | None \<Rightarrow> list_ex (\<lambda>r. r_workspace r = t_workspace t \<and> r_revoked_at r = None \<and> r_contact r = Some (t_id t))
                  (restrictions d))"

section \<open>A manual restriction takes effect\<close>

lemma bridge_loop:
  assumes "foldE (bridge_address env actor k) es d = Inr d'"
  shows "restrictions d' = restrictions d \<and> contacts d' = contacts d \<and> suppressions_grow d d'
    \<and> (\<forall>e \<in> set es. \<forall>n. normalize_email env (ea_original e) = Inr n \<longrightarrow> suppressed n d')"
  using assms
proof (induction es arbitrary: d)
  case (Cons e es)
  from Cons.prems obtain d1 where b: "bridge_address env actor k e d = Inr d1" and l: "foldE (bridge_address env actor k) es d1 = Inr d'"
    by (auto simp: res_simps)
  from b obtain entry where s: "suppress_email env (ea_original e) (suppression_value S_MANUAL) (Some actor)
       ''contacts_dashboard'' (bridge_evidence k) d = Inr (entry, d1)"
    by (auto simp: bridge_address_def map_sum_def split: sum.splits)
  show ?case
    using Cons.IH [OF l] suppress_email_frame [OF s] suppressions_grow_trans [OF suppress_email_grow [OF s], of d']
      suppress_email_suppressed [OF s] suppressions_grow_suppressed [of d1 d'] by simp
qed simp

lemma restrict_contact:
  assumes "restrict_target env ws actor reason (Inl t) d = Inr (r, d')" "t_get t_id (t_id t) (contacts d) = Some t"
  shows "r \<in> set (restrictions d') \<and> active_manual (Inl t) r
    \<and> (\<exists>t'. t_get t_id (t_id t) (contacts d') = Some t' \<and> t_status t' \<noteq> ACTIVE) \<and> suppressions_grow d d'
    \<and> list_all (\<lambda>e. ea_organization e = t_organization t \<longrightarrow>
        (\<forall>n. normalize_email env (ea_original e) = Inr n \<longrightarrow> suppressed n d')) (emails d)"
proof -
  obtain d1 where m: "get_or_create_manual ws actor reason (Inl t) d = (r, d1)"
    using assms(1) by (cases "get_or_create_manual ws actor reason (Inl t) d")
      (auto simp: restrict_target_def res_simps Let_def split_beta)
  define d2 where "d2 = mark_do_not_contact t d1"
  obtain d3 where f: "foldE (bridge_address env actor (r_id r)) (restricted_addresses (Inl t) d2) d2 = Inr d3"
    and d': "d' = record_event ''contact.restriction_created'' (r_id r) (Some actor)
       (snd (cancel_pending_campaign_work env (t_organization t) txt_manual_restriction None None d3))"
    using assms(1) m by (auto simp: restrict_target_def d2_def restricted_organization_def res_simps Let_def split_beta)
  have "r \<in> set (restrictions d1) \<and> active_manual (Inl t) r \<and> contacts d1 = contacts d \<and> emails d1 = emails d
      \<and> suppressions d1 = suppressions d"
    using m by (auto simp: get_or_create_manual_def fresh_def active_manual_def manual_target_def manual_restriction_def Let_def
        dest: find_Some_mem split: option.splits)
  then have two: "r \<in> set (restrictions d2)" "active_manual (Inl t) r" "emails d2 = emails d" "suppressions d2 = suppressions d"
    "\<exists>t'. t_get t_id (t_id t) (contacts d2) = Some t' \<and> t_status t' \<noteq> ACTIVE"
    using assms(2) by (auto simp: d2_def mark_do_not_contact_def save_contact_def t_get_save_same)
  note loop = bridge_loop [OF f]
  have w: "restrictions d' = restrictions d3" "contacts d' = contacts d3" "suppressions d' = suppressions d3"
    using withdrawal_frame by (simp_all add: d' record_event_def)
  show ?thesis
    using two loop by (auto simp: w list_all_iff restricted_addresses_def suppressed_def suppressions_grow_def)
qed

end
