(* ===== verification/Automation_Properties.thy ===== *)
theory Automation_Properties
  imports Reply_Examples Contacts Candidates Classification Sanitizer
begin

text \<open>
  The properties of the replies, the contacts, the approvals and the automation, each with its witness on the
  deployments of \<open>Relationship_Examples\<close> and \<open>Reply_Examples\<close>. The component theories hold the lemmas they rest on.
\<close>

section \<open>Replies\<close>

text \<open>C29: a reply takes effect whatever path it came by (an established contact, a direct mail, a campaign): no
  suppression, restriction or contact is lost and no contact is unsubscribed back into service; an organization that
  answered is out of every campaign; one that asked to be unsubscribed is never due a scheduled message either.\<close>

theorem reply_takes_effect:
  assumes "apply_inbound_contact_effect env addr k d = Inr (fx, d')" "t_get in_id k (inbounds d) = Some i"
  shows "stricter d d'
    \<and> (in_classification i \<notin> {AUTO_REPLY, BOUNCE_NOTICE} \<longrightarrow>
        (\<exists>t \<in> set (contacts d'). fx_contact fx = Some (t_id t)
          \<and> (\<forall>e. e_organization e = t_organization t \<longrightarrow> \<not> el_eligible (enrollment_eligibility e d'))
          \<and> (in_classification i = UNSUBSCRIBE_REPLY \<longrightarrow> t_status t = UNSUBSCRIBED
               \<and> (\<forall>p topic e now b. \<not> el_eligible (scheduled_contact_eligibility env p t topic e now b d')))))"
  using inbound_effect [OF assms] contact_not_eligible eligible_plan by (fastforce simp: attached_def)

theorem reply_takes_effect_witness:
  "\<exists>fx d'. apply_inbound_contact_effect ex_env (\<lambda>s. s) 80 (ex_contact_db UNSUBSCRIBE_REPLY) = Inr (fx, d')
     \<and> (\<exists>t \<in> set (contacts d'). fx_contact fx = Some (t_id t) \<and> t_status t = UNSUBSCRIBED)"
proof -
  obtain fx d' where r: "apply_inbound_contact_effect ex_env (\<lambda>s. s) 80 (ex_contact_db UNSUBSCRIBE_REPLY) = Inr (fx, d')"
    using ex_reply by blast
  have g: "t_get in_id 80 (inbounds (ex_contact_db UNSUBSCRIBE_REPLY)) = Some (ex_inbound UNSUBSCRIBE_REPLY)"
    by (simp add: ex_contact_db_def ex_inbound_def t_get_def)
  show ?thesis using reply_takes_effect [OF r g] r by (auto simp: ex_inbound_def)
qed

text \<open>C30: an opt-out phrase standing alone in the new text of a mail, in any casing and between any other words, is
  recognised with certainty before the language model is asked, unless the mail is a bounce.\<close>

theorem opt_out_is_recognised:
  assumes "newest_reply_text body = u @ w @ v" "s \<in> set OPT_OUT_PHRASES" "casing_of s w" "isolated u v"
    "\<not> looks_bounced sender subject (u @ w @ v)"
  shows "deterministic_classification sender subject body hs = Some (UNSUBSCRIBE_REPLY, 1000)"
  using assms by (rule opt_out_classified)

theorem opt_out_is_recognised_witness:
  "deterministic_classification ''a@b.c'' ''Hola'' ''Quiero la BAJA ya'' [] = Some (UNSUBSCRIBE_REPLY, 1000)"
proof (rule opt_out_is_recognised [where u = "''Quiero la ''" and w = "''BAJA''" and v = "'' ya''" and s = "''baja''"])
  show "newest_reply_text ''Quiero la BAJA ya'' = ''Quiero la '' @ ''BAJA'' @ '' ya''" by code_simp
  show "''baja'' \<in> set OPT_OUT_PHRASES" by code_simp
  show "casing_of ''baja'' ''BAJA''" by code_simp
  show "isolated ''Quiero la '' '' ya''" by code_simp
  show "\<not> looks_bounced ''a@b.c'' ''Hola'' (''Quiero la '' @ ''BAJA'' @ '' ya'')" by code_simp
qed

section \<open>Approvals\<close>

text \<open>C31: an approval of a whole campaign authorizes exactly what was reviewed: the actor holds the capability, the
  campaign runs with the hashes of the audience and the attachments it now has, every prepared message was rechecked
  and is either queued in the actor's name or withdrawn, at least one is queued, and no other message is touched.\<close>

theorem approval_authorizes:
  assumes "approve_campaign env camp actor d = Inr (c', d')" "delivery_ok d"
  shows "(\<exists>row. t_get c_id camp (campaigns d') = Some row \<and> c_state row = C_RUNNING \<and> c_approved_by row = Some actor
          \<and> c_approved_at row = Some (clock env) \<and> c_audience_hash row = canonical_hash env (audience_rows camp d')
          \<and> c_attachment_hash row = canonical_hash env (attachment_rows camp d'))
    \<and> has_capability d actor APPROVE_CAMPAIGNS
    \<and> (\<forall>m \<in> set (prepared_messages camp d). \<exists>m'. t_get m_id (m_id m) (messages d') = Some m'
          \<and> approval_outcome env actor camp m m m' d')
    \<and> (\<exists>m \<in> set (prepared_messages camp d). t_get m_id (m_id m) (messages d') = Some (approved_row env actor m))
    \<and> (\<forall>k. k \<notin> m_id ` set (prepared_messages camp d) \<longrightarrow> t_get m_id k (messages d') = t_get m_id k (messages d))"
  using assms by (rule approve_campaign_outcome)

theorem approval_authorizes_witness:
  "\<exists>c d'. approve_campaign ex_env 10 2 (ex_awaiting_db ex_ready) = Inr (c, d')
     \<and> t_get m_id 30 (messages d') = Some (approved_row ex_env 2 ex_prepared)"
proof -
  obtain c d' where r: "approve_campaign ex_env 10 2 (ex_awaiting_db ex_ready) = Inr (c, d')" using ex_approved by blast
  show ?thesis using approval_authorizes [OF r ex_awaiting_ok] r by (auto simp: ex_prepared_messages)
qed

section \<open>Contacts\<close>

text \<open>C32: forbidding a contact takes effect at once: the restriction is active, the contact is no longer active, the
  suppression list only grows, and every address of the contact's organization is on it.\<close>

theorem manual_restriction_takes_effect:
  assumes "create_manual_restriction env actor ''CONTACT'' reason (Some ck) None d = Inr (r, d')"
    "t_get t_id ck (contacts d) = Some t"
  shows "r \<in> set (restrictions d') \<and> r_contact r = Some ck \<and> r_kind r = R_MANUAL \<and> r_revoked_at r = None
    \<and> (\<exists>t'. t_get t_id ck (contacts d') = Some t' \<and> t_status t' \<noteq> ACTIVE) \<and> suppressions_grow d d'
    \<and> list_all (\<lambda>e. ea_organization e = t_organization t \<longrightarrow>
        (\<forall>n. normalize_email env (ea_original e) = Inr n \<longrightarrow> suppressed n d')) (emails d)"
proof -
  have k: "t_id t = ck" using assms(2) by (rule t_get_key)
  obtain ws where "restrict_target env ws actor reason (Inl t) d = Inr (r, d')"
    using assms by (auto simp: create_manual_restriction_def res_simps get_contact_def split: if_splits)
  then show ?thesis using restrict_contact [of env ws actor reason t d r d'] assms(2) k
    by (simp add: active_manual_def manual_target_def)
qed

theorem manual_restriction_takes_effect_witness:
  "\<exists>r d'. create_manual_restriction ex_env 2 ''CONTACT'' ''No'' (Some 70) None (ex_contact_db OTHER_REPLY) = Inr (r, d')
     \<and> suppressed ''a@b.c'' d'"
proof -
  have "\<not> isl (create_manual_restriction ex_env 2 ''CONTACT'' ''No'' (Some 70) None (ex_contact_db OTHER_REPLY))" by code_simp
  then obtain r d' where r: "create_manual_restriction ex_env 2 ''CONTACT'' ''No'' (Some 70) None (ex_contact_db OTHER_REPLY)
      = Inr (r, d')" by (auto simp: isl_def) (metis old.sum.exhaust surj_pair)
  have g: "t_get t_id 70 (contacts (ex_contact_db OTHER_REPLY)) = Some ex_contact"
    by (simp add: ex_contact_db_def ex_contact_def t_get_def)
  have n: "normalize_email ex_env (ea_original ex_email) = Inr ''a@b.c''" by code_simp
  have "ea_organization ex_email = t_organization ex_contact" "ex_email \<in> set (emails (ex_contact_db OTHER_REPLY))"
    by (simp_all add: ex_contact_db_def ex_contact_def ex_email_def ex_db_def)
  then have "suppressed ''a@b.c'' d'" using manual_restriction_takes_effect [OF r g] n by (auto simp: list_all_iff)
  then show ?thesis using r by blast
qed

section \<open>Scheduled messages\<close>

text \<open>C33: the transaction that ends a draft writes at most one message, and only for a plan that is still eligible and
  still due at the attempt's date: to the preferred address of its contact, unapproved, with a text, and queued without
  a review only under an automatic topic that passes the checks of a send and holds a reserved capacity.\<close>

theorem scheduled_message_is_granted:
  assumes "after_draft env k names w d = Inr d'" "messages d' \<noteq> messages d"
  shows "\<exists>m. messages d' = messages d @ [m] \<and> scheduled_grant env k m d d'"
  using assms by (rule draft_granted)

theorem scheduled_message_is_granted_witness:
  "\<exists>d' m. after_draft ex_env 73 (''p'', ''m'') ex_draft (ex_contact_db OTHER_REPLY) = Inr d'
     \<and> messages d' = messages (ex_contact_db OTHER_REPLY) @ [m]
     \<and> scheduled_grant ex_env 73 m (ex_contact_db OTHER_REPLY) d'"
  using ex_drafted scheduled_message_is_granted by blast

text \<open>C34: a genuine interaction postpones every follow-up plan of the contact by at least its whole cadence, and
  withdraws what was to be written before: no attempt of the plan due earlier stays open, and no message of an attempt
  it cancels can still be reviewed or queued.\<close>

theorem interaction_postpones_contacts:
  assumes "record_genuine_contact_interaction env contact at_time d = Inr d'" "distinct (map cp_id (plan_rows (automation d)))"
  shows "list_all (\<lambda>p. \<exists>r t x. t_get cp_id (cp_id p) (plan_rows (automation d')) = Some r
       \<and> t_get ft_id (cp_topic r) (topic_rows (automation d')) = Some t
       \<and> cp_next_due_at r = Some x \<and> at_time + days (ft_cadence_days t) \<le> x \<and> withdrawn (cp_id p) x d d')
     (plans_of_contact contact d)"
  using assms by (rule interaction_postpones)

theorem interaction_postpones_contacts_witness:
  "\<exists>d' r x. record_genuine_contact_interaction ex_env 70 5000000 (ex_contact_db OTHER_REPLY) = Inr d'
     \<and> t_get cp_id 72 (plan_rows (automation d')) = Some r \<and> cp_next_due_at r = Some x
     \<and> withdrawn 72 x (ex_contact_db OTHER_REPLY) d'"
proof -
  obtain d' where r: "record_genuine_contact_interaction ex_env 70 5000000 (ex_contact_db OTHER_REPLY) = Inr d'"
    using ex_interaction by blast
  have p: "plan_rows (automation (ex_contact_db OTHER_REPLY)) = [ex_contact_plan]"
    by (simp add: ex_contact_db_def)
  have l: "ex_contact_plan \<in> set (plans_of_contact 70 (ex_contact_db OTHER_REPLY))" "cp_id ex_contact_plan = 72"
    by (simp_all add: plans_of_contact_def p) (simp_all add: ex_contact_plan_def)
  have "distinct (map cp_id (plan_rows (automation (ex_contact_db OTHER_REPLY))))" by (simp add: p)
  from interaction_postpones_contacts [OF r this] l show ?thesis using r by (fastforce simp: list_all_iff)
qed

section \<open>Automatic replies\<close>

text \<open>C35: a reply may be sent without a person exactly when the mail asks for no meeting or date, the model's intent is
  one of the routine ones with confidence at least 0.9, and its action is to reply, or to redirect the proposal to the
  one address the mail offers, every check of which has passed.\<close>

theorem automatic_reply_iff:
  "fst (policy_result q candidates body) = RD_AUTO_ELIGIBLE \<longleftrightarrow>
     \<not> explicit_scheduling_request body \<and> q_intent q \<in> set AUTO_INTENTS \<and> 900 \<le> q_confidence q
     \<and> (q_action q = ''REPLY''
        \<or> q_action q = ''REDIRECT_PROPOSAL''
          \<and> (\<exists>c. find (\<lambda>c. Some (str_of_pk (ec_id c)) = q_candidate q) candidates = Some c
               \<and> length (filter (\<lambda>c. ec_region c = NEW_CONTENT) candidates) = 1
               \<and> ec_syntax c = CK_VALID \<and> ec_mx c = CK_VALID \<and> ec_restriction c = CK_VALID \<and> ec_ownership c = CK_VALID))"
  by (rule policy_automatic_iff)

text \<open>C1: Gmail is asked to send an automatic or scheduled message only after everything has been checked again: the
  message is queued, live sending is allowed, its contact is active, not suspended and without an open human task, its
  address is the contact's, valid, unrestricted and not suppressed; an answer rests on a live decision about a human mail
  that nobody answered by hand, with reserved capacity and the text that was decided, within the limits of the
  conversation and of the day; a scheduled message on the one authorized attempt of an active plan that is due, approved
  by a person or with reserved capacity.\<close>

theorem automatic_message_rechecked:
  assumes "deliver_authorized_outbound env W G k d p = (r, d', p')" "p' \<noteq> p"
  shows "\<exists>m. t_get m_id k (messages d) = Some m \<and> dispatchable env m d"
  using assms by (rule called_only_when_dispatchable)

theorem automatic_message_rechecked_witness:
  "\<exists>m. t_get m_id 31 (messages ex_scheduled_db) = Some m \<and> dispatchable ex_env m ex_scheduled_db"
proof -
  obtain r d' p' where r: "deliver_authorized_outbound ex_env (ex_world []) naive_gmail 31 ex_scheduled_db [] = (r, d', p')"
    by (rule prod_cases3)
  then show ?thesis using automatic_message_rechecked [OF r] ex_draft_called [of "[]"] by simp
qed

text \<open>C2: an automatic or scheduled message is handed to Gmail at most once. Once a delivery has called the provider for
  it, no later delivery does, after any sequence of deliveries, executions of decisions and reconciliations, whatever
  they answer and under whatever settings, and whatever else happens as long as nothing puts the message back into the
  queue.\<close>

theorem automatic_message_sent_once:
  assumes "deliver_authorized_outbound env W G k d p = (r, d1, p1)" "p1 \<noteq> p" "(reply_step G)\<^sup>*\<^sup>* (d1, p1) (d2, p2)"
  shows "snd (snd (deliver_authorized_outbound env' W' G k d2 p2)) = p2"
  using assms by (rule called_once)

theorem automatic_message_sent_once_witness:
  "\<exists>r d1 p1. deliver_authorized_outbound ex_env (ex_world []) naive_gmail 31 ex_scheduled_db [] = (r, d1, p1) \<and> p1 \<noteq> []
     \<and> snd (snd (deliver_authorized_outbound ex_env (ex_world []) naive_gmail 31 d1 p1)) = p1"
proof -
  obtain r d' p' where r: "deliver_authorized_outbound ex_env (ex_world []) naive_gmail 31 ex_scheduled_db [] = (r, d', p')"
    by (rule prod_cases3)
  then have "p' \<noteq> []" using ex_draft_called [of "[]"] by simp
  then show ?thesis using automatic_message_sent_once [OF r _ rtranclp.rtrancl_refl] r by blast
qed

text \<open>C3: the authorization of a decision never exceeds the limits: when the capacity reserved today by each workspace and
  in the last day by each conversation is within them before, it is within them after, whatever the decision was.\<close>

theorem authorization_within_limits:
  assumes "authorize_reply_decision env W k d = Inr (x, d')" "within_limits env (clock env) d"
  shows "within_limits env (clock env) d'"
  using assms by (rule authorize_within_limits)

theorem authorization_within_limits_witness:
  "\<exists>x d'. authorize_reply_decision ex_env (ex_world ex_hash) 90 ex_reply_db = Inr (x, d') \<and> within_limits ex_env (clock ex_env) d'"
proof -
  obtain m d' where r: "authorize_reply_decision ex_env (ex_world ex_hash) 90 ex_reply_db = Inr (Inr m, d')"
    using ex_reply_authorized by blast
  have "within_limits ex_env (clock ex_env) ex_reply_db" by (simp add: within_limits_def slots_used_def conversation_slots_def)
  from authorization_within_limits [OF r this] show ?thesis using r by blast
qed

text \<open>C4: what is authorized is what the worker expects: the answer that an authorization writes passes the integrity check
  its delivery makes (the conversation, the key, the recipient, the thread and the text), when the addresses are stored
  normalized and the mail that began the conversation was sent.\<close>

theorem authorized_reply_is_intact:
  assumes "authorize_reply_decision env W k d = Inr (Inr m, d')" "m \<notin> set (messages d)"
    and "get_decision k d = Inr r" "rd_action r = ''REPLY''" "decision_context r d = Inr (i, c, v)"
    and "\<not> origin_unsent i d" "in_related_outbound i = None \<or> root_of i d \<noteq> None"
    and "list_all (\<lambda>e. normalize_email env (ea_original e) = Inr (ea_normalized e)) (emails d)"
    and "list_all (\<lambda>a. a_message a < next_id d) (attachments d)"
  shows "automatic_outbound_integrity_error env m r i c d' = Inr []"
  using assms(8,9) by (intro authorized_reply_accepted [OF assms(1-7)]) (simp_all add: list_all_iff)

theorem authorized_reply_is_intact_witness:
  "\<exists>m d'. authorize_reply_decision ex_env (ex_world ex_hash) 90 ex_reply_db = Inr (Inr m, d')
     \<and> automatic_outbound_integrity_error ex_env m ex_decision ex_answered ex_contact d' = Inr []"
proof -
  obtain m d' where r: "authorize_reply_decision ex_env (ex_world ex_hash) 90 ex_reply_db = Inr (Inr m, d')"
    "m \<notin> set (messages ex_reply_db)" using ex_reply_authorized by blast
  have n: "normalize_email ex_env ''a@b.c'' = Inr ''a@b.c''" by (simp add: normalize_email_def ev_strings)
  have "automatic_outbound_integrity_error ex_env m ex_decision ex_answered ex_contact d' = Inr []"
    using r by (rule authorized_reply_is_intact) (simp_all add: ex_context origin_unsent_def n)
  then show ?thesis using r(1) by blast
qed

section \<open>The memory of a conversation\<close>

text \<open>C5: a memory survives its round trip: the digest a refresh stores, or finds unchanged, verifies against the messages
  it was made from, and is short enough to be sent to the model.\<close>

theorem refreshed_memory_verifies:
  assumes "refresh_contact_memory env contact d = Inr (Some m, d')"
    "distinct (map in_id (inbounds d))" "distinct (map m_id (messages d))"
  shows "verified_conversation_memory_text env m d' = Some (json_dumps False (cm_summary m))
    \<and> length (json_dumps False (cm_summary m)) \<le> 4000"
  using refreshed_verifies [OF assms] by (simp add: MAX_MEMORY_SERIALIZED_CHARACTERS_def)

theorem refreshed_memory_verifies_witness:
  "\<exists>m d'. refresh_contact_memory ex_env 70 ex_history_db = Inr (Some m, d')
     \<and> verified_conversation_memory_text ex_env m d' = Some (json_dumps False (cm_summary m))"
proof -
  obtain m d' where r: "refresh_contact_memory ex_env 70 ex_history_db = Inr (Some m, d')" using ex_remembered by blast
  have "distinct (map in_id (inbounds ex_history_db))" "distinct (map m_id (messages ex_history_db))"
    by (simp_all add: ex_history_db_def)
  from refreshed_memory_verifies [OF r this] show ?thesis using r by blast
qed

section \<open>The work desk\<close>

text \<open>C36: whatever operations of the desk run, in any order, an open human task keeps its conversation suspended, or
  its contact when it has no conversation: closing one task never resumes what another one holds.\<close>

theorem open_tasks_suspend:
  assumes "desk_step\<^sup>*\<^sup>* d d'" "suspension_ok d"
  shows "suspension_ok d'"
  using assms by (rule desk_reaches_suspension)

theorem open_tasks_suspend_witness:
  "\<exists>t d'. open_human_task ex_env 7 70 None ''K'' ''R'' [] None None (ex_contact_db OTHER_REPLY) = Inr (t, d') \<and> suspension_ok d'"
proof -
  obtain t d' where r: "open_human_task ex_env 7 70 None ''K'' ''R'' [] None None (ex_contact_db OTHER_REPLY) = Inr (t, d')"
    using ex_task by blast
  have s: "desk_step\<^sup>*\<^sup>* (ex_contact_db OTHER_REPLY) d'" using desk_step.opened [OF r] by blast
  have "suspension_ok (ex_contact_db OTHER_REPLY)" by (simp add: suspension_ok_def ex_contact_db_def ex_automation_def)
  from open_tasks_suspend [OF s this] show ?thesis using r by blast
qed

text \<open>C37: no fact and no workspace ever has two revisions in force, whatever operations of the desk run.\<close>

theorem one_current_revision:
  assumes "desk_step\<^sup>*\<^sup>* d d'" "knowledge_ok d"
  shows "knowledge_ok d'"
  using assms by (rule desk_reaches_knowledge)

theorem one_current_revision_witness:
  "\<exists>k d'. create_knowledge_revision ex_env 7 2 ''T'' ''C'' ''X'' [] ex_db = Inr (k, d') \<and> knowledge_ok d'"
proof -
  obtain k d' where r: "create_knowledge_revision ex_env 7 2 ''T'' ''C'' ''X'' [] ex_db = Inr (k, d')" using ex_fact by blast
  have s: "desk_step\<^sup>*\<^sup>* ex_db d'" using desk_step.fact_written [OF r] by blast
  have "knowledge_ok ex_db"
    by (simp add: knowledge_ok_def knowledge_current_def unique_on_def ex_db_def ex_automation_def)
  from one_current_revision [OF s this] show ?thesis using r by blast
qed

section \<open>Received mails\<close>

text \<open>C38: the HTML kept of a received mail is harmless whatever the mail contained and however the parser reads it:
  every \<open><\<close> of it opens one of the allowed tags, without attributes.\<close>

theorem sanitized_html_is_harmless: "harmless (snd (sanitize_email_bodies parse body_text body_html))"
  by (rule sanitized_html_harmless)

text \<open>C39: at most ten literal addresses are kept of a mail, no two with the same address and region.\<close>

theorem literal_candidates_bounded:
  "length (extract_literal_candidates check body mailtos) \<le> 10
   \<and> distinct (map (\<lambda>v. (lc_normalized v, lc_region v)) (extract_literal_candidates check body mailtos))"
  by (rule extract_literal_bounded)

text \<open>C40: a candidate address found in a mail link is always refused when the message to it is about to be queued:
  the check extracts the links again, from the sanitized HTML, which has none left.\<close>

theorem mail_link_never_confirmed:
  assumes "tags_are_written parse" "in_body_html m = snd (sanitize_email_bodies parse' body_text body_html)"
    "ec_source c = FROM_MAILTO"
  shows "candidate_validation_error env check parse path m c d \<noteq> []"
  using assms by (rule mail_link_rejected)

definition ex_parse :: "str \<Rightarrow> html_event list option" where
  "ex_parse s = (if take 1 s = ''<'' then Some [StartTag (take 1 (drop 1 s)) []] else Some [TextData s])"

theorem mail_link_never_confirmed_witness:
  "candidate_validation_error ex_env (\<lambda>s. None) ex_parse (\<lambda>s. s)
     ((ex_inbound OTHER_REPLY)\<lparr>in_body_html := snd (sanitize_email_bodies (\<lambda>s. [TextData s]) [] ''a'')\<rparr>)
     \<lparr>ec_id = 90, ec_inbound = 80, ec_literal = ''a@b.c'', ec_normalized = ''a@b.c'', ec_region = NEW_CONTENT,
      ec_source = FROM_MAILTO, ec_start = None, ec_end = None, ec_syntax = CK_VALID, ec_mx = CK_VALID,
      ec_restriction = CK_VALID, ec_ownership = CK_VALID, ec_resolved = None, ec_evidence_hash = []\<rparr> ex_db \<noteq> []"
proof (rule mail_link_never_confirmed)
  show "tags_are_written ex_parse"
    unfolding tags_are_written_def
  proof (intro allI impI)
    fix s events t attrs
    assume "ex_parse s = Some events" "StartTag t attrs \<in> set events \<or> StartEndTag t attrs \<in> set events"
    then have s: "take 1 s = ''<''" "t = take 1 (drop 1 s)" by (auto simp: ex_parse_def split: if_splits)
    then obtain v where v: "s = CHR ''<'' # v" by (cases s) auto
    then have "py_casefold t = py_casefold (take (length t) v)" using s(2) by (cases v) auto
    then show "\<exists>u v. s = u @ CHR ''<'' # v \<and> py_casefold t = py_casefold (take (length t) v)"
      using v by (intro exI [of _ "[]"] exI [of _ v]) simp
  qed
qed simp_all

end
