(* ===== verification/Spec2Isabelle.thy ===== *)
theory Spec2Isabelle
  imports Examples Calendar Gmail_Fake Automation_Properties
begin

text \<open>
  Contact Outreach is a Django application that finds organizations, prepares one commercial proposal for each,
  and delivers the mails through Gmail under limits the operator approved. This development models the part
  that decides which mail leaves, when, and what is remembered about it. Paths are those under
  src/backend/src/apps.

  How the program is put together, and the theory that models each part:

  \<^item> Prelude holds the result type (\<open>exn + 'a\<close> with \<open>bindE\<close>), the string operations of Python
    the code uses, and tables as lists of rows with \<open>t_get\<close>, \<open>t_save\<close> and \<open>t_update\<close> for the
    queries by key, \<open>save()\<close> and \<open>update()\<close> of the ORM. Json is the JSON printer. Texts holds the literal messages.
  \<^item> Db is the database: one record for each model class, with the fields the modelled code reads or writes,
    the enumerations as datatypes, \<open>db\<close> as the record of all tables, \<open>env\<close> as what the code reads from outside
    (settings, clock, time zones, hashing, the email and GeoJSON validators), and \<open>exn\<close> as the exceptions.
  \<^item> Access: capabilities (accounts/permissions.py), the two keys of live sending (configuration/send_mode.py)
    and the audit log. Calendar: local days, windows and delays of campaigns/delivery.py.
  \<^item> Compliance (compliance/services.py), Organizations, Eligibility and Enrollments (contacts/services.py): the
    suppression list, the directory of organizations, and who may receive a campaign.
  \<^item> Mail (mailbox/mime.py, campaigns/content.py, catalogs/services.py), Campaign_Content (campaigns/approval.py,
    configuration/message_templates.py), Campaign_Start and Lifecycle (campaigns/services.py): what a campaign
    freezes when it starts, and its state machine.
  \<^item> Guards, Preparation, Confirmation and Delivery (campaigns/delivery.py): the reservation of a recipient's day,
    the three transactions of a delivery (\<open>_prepare_live_effect\<close>, \<open>_execute_external_effect\<close>, \<open>_confirm_sent\<close> or
    \<open>_record_send_error\<close>), reconciliation, the queue scans, retries and completion.
  \<^item> Progress, Worker and Sending hold the proofs about them: a relation between the databases before and after
    each operation, the invariant \<open>delivery_ok\<close>, and the specification \<open>sendable\<close> of when a mail may leave.
    Examples evaluates a whole delivery on a small database, for the witnesses.
  \<^item> At_Most_Once states what the delivery relies on of the provider as the locale \<open>gmail_contract\<close> and, under it,
    that no interleaving of worker operations has a mail accepted twice. Gmail_Fake models the provider of
    integrations/fakes.py and interprets the contract on it.
  \<^item> Approval (campaigns/approval.py) rechecks and approves what a campaign prepared; Approval_Proofs shows what an
    approval authorizes. Control lists the changes the rest of the application makes between worker operations.
  \<^item> Regex is a backtracking matcher in the order of Python's \<open>re\<close>; Classification (mailbox/classification.py) and
    Candidates (automation/candidates.py, and the last check of automation/execution.py) are written with it.
    Sanitizer (mailbox/sanitizer.py) is the fold of the HTML parser's events.
  \<^item> Tasks and Policy (automation/services.py): human tasks, suspension, knowledge revisions, modes, and which decision
    of the model may be carried out without a person. Desk puts the operations of the desk in any order, as a step
    relation, and proves two invariants of all reachable states.
  \<^item> Scheduled and Scheduled_Attempts (automation/scheduled.py): topics, plans and attempts of follow-up contacts;
    Scheduled_Proofs shows what a written message was granted by, and that a reply postpones the contacts.
  \<^item> Inbound (contacts/services.py, from \<open>_contact_for_organization\<close> to \<open>apply_inbound_contact_effect\<close>): what a received mail
    does to contacts, restrictions and pending work; Inbound_Proofs shows that it only makes the directory stricter.
    Contacts (the rest of the file): the operations of the operator on contacts, addresses and restrictions.
  \<^item> Relationship_Examples extends the example database with a contact; Automation_Properties holds the properties of
    the replies, approvals, contacts and the automation.

  How the code is rendered. A function under \<open>@transaction.atomic\<close> is a function \<open>db \<Rightarrow> exn + 'a \<times> db\<close>: an exception
  rolls the database back, so the error carries no state. A function of several transactions returns
  \<open>(exn + 'a) \<times> db \<times> 'p\<close>, with the database left by the transactions that committed and the state \<open>'p\<close> of the mail
  provider, which is a parameter with the operations send, reply and find. Primary keys are natural numbers drawn
  from \<open>next_id\<close>; unique constraints are checked where the code can violate them and give \<open>IntegrityError\<close>.
  Row locks and advisory locks have no counterpart: operations run one after the other, at the granularity of a whole
  operation. Instants are microseconds as integers; a time zone is an offset function; strings are lists of
  characters; Python's integers are unbounded and stay so.

  What the lemmas show. Guards states the two reservations (ledger and day) as interpretations of one locale
  \<open>delivery_guard\<close>. Progress and Worker show for every operation that \<open>delivery_ok\<close> is kept, that only the
  message at hand changes state, that a sent message is frozen and that the tables which restrict sending are not
  written. Sending shows that a preparation implies \<open>sendable\<close> and that the provider is called only after it. The
  properties below follow from these.

  Loops. The search for a business day runs over the seven days the code tries; the scans and batches are structural
  recursions over lists. No fuel is used.

  Not modelled: the HTTP layer, authentication and sessions, the clients of network services (Gmail, the language
  models, websites), the byte serialisation of mails by the standard library, file uploads, the import of
  Overture data, discovery runs (driven by the Overture client and the language models), the synchronisation of the
  mailbox and the manual replies, and the execution of an automatic reply around the policy that is modelled.
\<close>

section \<open>When a mail leaves\<close>

text \<open>C1: a worker that runs \<open>deliver_message\<close> touches the mail provider only for a message that
  is sendable at that instant: its campaign is live and running, the message is approved, not yet settled and
  due, live sending is enabled, the local time is inside the sending window, the daily limit and the interval
  leave room, Gmail is ready, and its recipient is not suppressed.\<close>

theorem provider_called_only_for_sendable:
  assumes "deliver_message env G k now d p = (res, d', p')" "p' \<noteq> p" "delivery_ok d"
    "invalid_email_text env \<noteq> []"
  shows "\<exists>m c. t_get m_id k (messages d) = Some m \<and> sendable env m c now d"
proof -
  from assms(1,2) obtain x d1 where x: "prepare_live_effect env k now d = Inr (Some x, d1)"
    by (rule deliver_called)
  from x assms(3,4) obtain m c where "t_get m_id k (messages d) = Some m" "sendable env m c now d"
    by (rule prepare_live_Some)
  then show ?thesis by blast
qed

theorem provider_called_only_for_sendable_witness:
  "\<exists>m c. t_get m_id 30 (messages ex_db) = Some m \<and> sendable ex_env m c ex_now ex_db"
proof -
  obtain res d' p' where r: "deliver_message ex_env naive_gmail 30 ex_now ex_db [] = (res, d', p')"
    by (cases "deliver_message ex_env naive_gmail 30 ex_now ex_db []")
  have "p' = [ex_rfc]" using ex_deliver_called r by simp
  then show ?thesis
    using provider_called_only_for_sendable [OF r _ ex_delivery_ok(1)] by (simp add: ex_env_def)
qed

text \<open>C2: a recipient on the suppression list is never written to: \<open>deliver_message\<close> leaves the
  provider untouched, whatever the state of the message and of its campaign.\<close>

theorem suppressed_never_contacted:
  assumes "t_get m_id k (messages d) = Some m" "normalize_email env (recipient_of m) = Inr n" "suppressed n d"
    "delivery_ok d" "invalid_email_text env \<noteq> []"
  shows "snd (snd (deliver_message env G k now d p)) = p"
proof (rule ccontr)
  obtain res d' p' where r: "deliver_message env G k now d p = (res, d', p')"
    by (cases "deliver_message env G k now d p")
  assume "snd (snd (deliver_message env G k now d p)) \<noteq> p"
  then have "p' \<noteq> p" using r by simp
  with r obtain x d1 where x: "prepare_live_effect env k now d = Inr (Some x, d1)"
    by (rule deliver_called)
  from x assms(4,5) obtain m' c where "t_get m_id k (messages d) = Some m'" "sendable env m' c now d"
    by (rule prepare_live_Some)
  then show False using assms(1-3) by (auto simp: sendable_def)
qed

theorem suppressed_never_contacted_witness:
  "snd (snd (deliver_message ex_env naive_gmail 30 ex_now ex_blocked_db [])) = []"
proof (rule suppressed_never_contacted)
  show "t_get m_id 30 (messages ex_blocked_db) = Some ex_message" by (simp add: ex_blocked_db_def t_get_def)
  show "normalize_email ex_env (recipient_of ex_message) = Inr ''a@b.c''"
    by (simp add: normalize_email_def recipient_of_def ev_strings)
  show "suppressed ''a@b.c'' ex_blocked_db" by (simp add: ex_blocked_db_def suppressed_def)
qed (simp_all add: ex_blocked_ok ex_env_def)

text \<open>C4: a preparation that lets a mail out has reserved it first: the row is \<open>SENDING\<close> with one
  more attempt and the instant of the reservation, the guard of its recipient and day (or its ledger) is held by
  this message, the campaign stays within its daily limit, and the effect carries the row's own data.\<close>

theorem preparation_reserves:
  assumes "prepare_live_effect env k now d = Inr (Some x, d')" "delivery_ok d" "invalid_email_text env \<noteq> []"
  shows "\<exists>m c r. t_get m_id k (messages d) = Some m \<and> sendable env m c now d
    \<and> t_get m_id k (messages d') = Some r \<and> m_state r = SENDING \<and> m_attempts r = m_attempts m + 1
    \<and> m_delivery_reserved_at r = Some now \<and> same_identity m r \<and> m_message_id r = x_rfc_id x
    \<and> guard_held env m c now d' \<and> sent_today env c now d' \<le> c_daily_limit c
    \<and> x_message x = k \<and> x_idempotency_key x = m_idempotency_key m \<and> x_recipient x = m_recipient m"
  using assms by (rule prepare_reserves) blast

theorem preparation_reserves_witness:
  "\<exists>r. t_get m_id 30 (messages ex_sending_db) = Some r \<and> m_state r = SENDING"
  using preparation_reserves [OF ex_prepare ex_delivery_ok(1)] by (auto simp: ex_env_def)



section \<open>What the operations keep\<close>

text \<open>C6: a run of \<open>deliver_message\<close>, whatever it returns and whatever the provider does, keeps
  the unique constraints and the approval invariant; it changes no message but its own, rewrites no sent
  message, adds only reminders, at most pauses or completes campaigns, and writes none of the tables that
  restrict sending.\<close>

theorem deliver_keeps:
  assumes "deliver_message env G k now d p = (res, d', p')" "delivery_ok d"
  shows "delivery_ok d' \<and> messages_grow {k} (messages d) (messages d')
    \<and> list_all2 campaign_settles (campaigns d) (campaigns d') \<and> static_tables d' = static_tables d"
  using deliver_message_progress [OF assms(1), where K = "{k}"] assms(2) by (simp add: progress_def)

theorem deliver_keeps_witness:
  "delivery_ok (fst (snd (deliver_message ex_env naive_gmail 30 ex_now ex_db [])))"
proof -
  obtain res d' p' where r: "deliver_message ex_env naive_gmail 30 ex_now ex_db [] = (res, d', p')"
    by (cases "deliver_message ex_env naive_gmail 30 ex_now ex_db []")
  then show ?thesis using deliver_keeps [OF r ex_delivery_ok(1)] by simp
qed

text \<open>C7: \<open>reconcile_message\<close> keeps the same.\<close>

theorem reconcile_keeps:
  assumes "reconcile_message env G k now d p = (res, d', p')" "delivery_ok d"
  shows "delivery_ok d' \<and> messages_grow {k} (messages d) (messages d')
    \<and> list_all2 campaign_settles (campaigns d) (campaigns d') \<and> static_tables d' = static_tables d"
  using reconcile_progress [OF assms(1), where K = "{k}"] assms(2) by (simp add: progress_def)

theorem reconcile_keeps_witness:
  "delivery_ok (fst (snd (reconcile_message ex_env naive_gmail 30 ex_now ex_sending_db [])))"
proof -
  obtain res d' p' where r: "reconcile_message ex_env naive_gmail 30 ex_now ex_sending_db [] = (res, d', p')"
    by (cases "reconcile_message ex_env naive_gmail 30 ex_now ex_sending_db []")
  then show ?thesis using reconcile_keeps [OF r ex_delivery_ok(2)] by simp
qed

section \<open>Reservations and times\<close>

text \<open>C8: reserving the day of a recipient fails exactly when the message has already consumed a day, or
  another reservation that was not released holds that workspace, address and local date; a failed reservation
  changes nothing.\<close>

theorem reservation_fails_iff:
  "\<not> fst (reserve_campaign_delivery_day env m c now d) \<longleftrightarrow>
     (\<exists>v. reservation_of (m_id m) d = Some v \<and> v_status v = CONSUMED)
     \<or> (\<exists>v \<in> set (reservations d). v_slot v = day_slot env c m now \<and> v_status v \<noteq> RELEASED
          \<and> map_option v_id (reservation_of (m_id m) d) \<noteq> Some (v_id v))"
  by (rule reserve_day_fails_iff)

text \<open>C9: of two messages of the same workspace to the same address on the same local day, only the first
  can reserve it: the other's reservation fails until the first one is released.\<close>

theorem one_mail_per_day:
  assumes "reserve_campaign_delivery_day env m c now d = (True, d')" "reservations_ok d"
    "day_slot env c' m' now' = day_slot env c m now" "m_id m' \<noteq> m_id m"
  shows "fst (reserve_campaign_delivery_day env m' c' now' d') = False"
proof -
  have "reservations_ok d' \<and> day_holds d' (day_slot env c m now) (m_id m)"
    using assms(2,1) by (rule reserve_day_ok)
  then obtain v where v: "v \<in> set (reservations d')" "v_slot v = day_slot env c m now" "v_status v \<noteq> RELEASED"
      "v_message v = m_id m" and ok: "reservations_ok d'"
    by (auto simp: day_holds_def)
  have "map_option v_id (reservation_of (m_id m') d') \<noteq> Some (v_id v)"
  proof
    assume "map_option v_id (reservation_of (m_id m') d') = Some (v_id v)"
    then obtain w where w: "reservation_of (m_id m') d' = Some w" "v_id w = v_id v" by auto
    have "w = v" using reservation_of_Some [OF w(1)] v(1) w(2) ok
      by (auto simp: reservations_ok_def distinct_map inj_on_def)
    then show False using reservation_of_Some [OF w(1)] v(4) assms(4) by simp
  qed
  then show ?thesis using reserve_day_fails_iff [of env m' c' now' d'] v assms(3) by auto
qed

theorem one_mail_per_day_witness:
  "fst (reserve_campaign_delivery_day ex_env (ex_message\<lparr>m_id := 31\<rparr>) ex_campaign ex_now
      (ex_db\<lparr>next_id := 101, reservations := [ex_reservation RESERVED None]\<rparr>)) = False"
proof (rule one_mail_per_day)
  show "reserve_campaign_delivery_day ex_env ex_message ex_campaign ex_now ex_db
      = (True, ex_db\<lparr>next_id := 101, reservations := [ex_reservation RESERVED None]\<rparr>)"
    by (simp add: reserve_campaign_delivery_day_def reservation_of_def day_taken_def
        fresh_def ex_reservation_def ev_schedule Let_def)
  show "reservations_ok ex_db" using ex_delivery_ok(1) by (simp add: delivery_ok_def)
qed (simp_all add: day_slot_def)

text \<open>C10: for every campaign whose schedule passes validation, the shift into the business window finds an
  instant, and it is the first one at or after the candidate whose local weekday and time are allowed.\<close>

theorem business_window_is_least:
  assumes "valid_schedule c"
  shows "\<exists>w. shift_to_business_window env c l = Inr (to_utc env (c_timezone c) w)
    \<and> l \<le> w \<and> in_window c w \<and> (\<forall>x. l \<le> x \<and> x < w \<longrightarrow> \<not> in_window c x)"
proof -
  obtain w where w: "business_wall c l = Inr w" using business_wall_total [OF assms] by blast
  then show ?thesis using business_wall_least [OF assms w] by (auto simp: shift_to_business_window_def)
qed

theorem business_window_is_least_witness:
  "\<exists>w. shift_to_business_window ex_env ex_campaign 0 = Inr w \<and> 0 \<le> w"
proof -
  have "valid_schedule ex_campaign" by (simp add: valid_schedule_def time_units)
  then show ?thesis using business_window_is_least [of ex_campaign ex_env 0] by (auto simp: to_utc_def ex_env_def)
qed

text \<open>C11: the delay before the next attempt doubles from thirty seconds and stays between thirty seconds and
  fifteen minutes; a delay asked for by the provider is cut to between one second and fifteen minutes.\<close>

theorem backoff_bounds:
  "30 * second \<le> backoff n None \<and> backoff n None \<le> 900 * second \<and> backoff n None \<le> backoff (Suc n) None
   \<and> second \<le> backoff n (Some s) \<and> backoff n (Some s) \<le> 900 * second"
proof -
  define x y :: int where "x = 2 ^ (n - 1)" and "y = 2 ^ n"
  have "x \<le> y" unfolding x_def y_def by (rule power_increasing) simp_all
  moreover have "1 \<le> x" by (simp add: x_def)
  moreover have "backoff n None = min 900 (30 * x) * second" "backoff (Suc n) None = min 900 (30 * y) * second"
    "backoff n (Some s) = max 1 (min 900 (truncate_rat s)) * second"
    by (simp_all add: backoff_def MAX_BACKOFF_SECONDS_def x_def y_def)
  ultimately show ?thesis by (auto simp: second_def min_def max_def)
qed

section \<open>Failures\<close>


lemma t_get_save_const:
  "t_get key k t = Some r \<Longrightarrow> key x = k \<Longrightarrow> t_get key k (t_save key k (\<lambda>_. x) t) = Some x"
  unfolding t_get_def t_save_def t_update_def by (induction t) auto

text \<open>C13: pausing a running campaign cannot fail: it leaves the campaign paused, with the given reason.\<close>

theorem pause_succeeds:
  assumes "t_get c_id camp (campaigns d) = Some c" "c_state c = C_RUNNING"
  shows "\<exists>d'. pause_campaign env camp reason d = Inr d'
     \<and> t_get c_id camp (campaigns d') =
         Some (c\<lparr>c_status_reason := or_default reason txt_paused_by_user, c_state := C_PAUSED\<rparr>)"
proof -
  have "c_id c = camp" using assms(1) by (rule t_get_key)
  then show ?thesis
    using assms by (auto simp: pause_campaign_def pause_running Let_def t_get_save_const)
qed

theorem pause_succeeds_witness:
  "\<exists>d'. pause_campaign ex_env 10 ''Gmail'' ex_db = Inr d'"
  using pause_succeeds [of 10 ex_db ex_campaign ex_env "''Gmail''"] by (auto simp: t_get_def)

section \<open>Simulations, retries and completion\<close>







section \<open>The life of a campaign\<close>

text \<open>C17: every transition of the code follows an edge of the campaign state machine, whose second component
  says whether the campaign is approved: only \<open>ALLOWED_TRANSITIONS\<close>, and \<open>RUNNING\<close> only when approved.\<close>

theorem transition_refines_machine:
  assumes "transition_campaign env camp target actor reason d = Inr (c', d')"
  shows "\<exists>c. t_get c_id camp (campaigns d) = Some c
    \<and> campaign_edge (c_state c, c_approved_at c \<noteq> None) (c_state c', c_approved_at c' \<noteq> None)"
  using assms by (rule transition_refines_edge) blast

theorem transition_refines_machine_witness:
  "campaign_edge (C_RUNNING, True) (C_PAUSED, True)"
proof -
  have g: "t_get c_id 10 (campaigns ex_db) = Some ex_campaign" by (simp add: t_get_def)
  obtain c' d' where "transition_campaign ex_env 10 C_PAUSED None [] ex_db = Inr (c', d')" "c_state c' = C_PAUSED"
    "c_approved_at c' = Some 0"
    using pause_running [OF g, of ex_env "[]"] by (simp add: Let_def)
  then show ?thesis using transition_refines_machine [of ex_env 10 C_PAUSED None "[]" ex_db c' d'] g by simp
qed

text \<open>C18: a campaign that was cancelled, completed or stopped by an error never changes state again: every
  transition of it is refused.\<close>

theorem terminal_campaigns_stay:
  assumes "t_get c_id camp (campaigns d) = Some c" "c_state c \<in> TERMINAL_STATES"
  shows "transition_campaign env camp target actor reason d = Inl (ForbiddenTransition (c_state c) target)"
  using assms by (auto simp: transition_campaign_def get_campaign_def TERMINAL_STATES_def)

theorem terminal_campaigns_stay_witness:
  "transition_campaign ex_env 10 C_RUNNING None [] (ex_db\<lparr>campaigns := [ex_campaign\<lparr>c_state := C_COMPLETED\<rparr>]\<rparr>)
     = Inl (ForbiddenTransition C_COMPLETED C_RUNNING)"
  using terminal_campaigns_stay [of 10 "ex_db\<lparr>campaigns := [ex_campaign\<lparr>c_state := C_COMPLETED\<rparr>]\<rparr>"
      "ex_campaign\<lparr>c_state := C_COMPLETED\<rparr>" ex_env C_RUNNING None "[]"]
  by (simp add: t_get_def TERMINAL_STATES_def)

section \<open>Recipients and organizations\<close>




text \<open>C21: resolving an organization never moves an identity or an address to another owner, keeps both unique in
  the workspace with at most one preferred address for each organization, and the organization it returns owns
  every identity claimed and the address given.\<close>

theorem resolution_keeps_owners:
  assumes "resolve_organization env ws a d = Inr ((org, e), d')" "directory_ok d"
  shows "directory_ok d' \<and> keeps_owners d d'
    \<and> (\<exists>n given. (if ra_email a \<noteq> [] then normalize_email env (ra_email a) else Inr []) = Inr n
         \<and> prepared_claims env (ra_identities a) = Inr given
         \<and> list_all (\<lambda>c. claim_owned ws org c d') (with_email_claim env n (ra_provenance a) given)
         \<and> (case e of None \<Rightarrow> n = [] | Some k \<Rightarrow> n \<noteq> [] \<and> email_owned ws org n k d'))"
  using resolve_organization_Inr [OF assms] by (simp add: list_all_iff)

theorem resolution_keeps_owners_witness:
  "\<exists>org k d'. resolve_organization ex_env 7 (resolve_defaults\<lparr>ra_email := ''A@b.c''\<rparr>) ex_directory = Inr ((org, Some k), d')
     \<and> directory_ok d' \<and> email_owned 7 org ''a@b.c'' k d'"
proof -
  obtain org k d' where r: "resolve_organization ex_env 7 (resolve_defaults\<lparr>ra_email := ''A@b.c''\<rparr>) ex_directory
      = Inr ((org, Some k), d')"
    using ex_resolved by blast
  have "normalize_email ex_env ''A@b.c'' = Inr ''a@b.c''" by (simp add: normalize_email_def ev_strings)
  then show ?thesis
    using resolution_keeps_owners [OF r ex_directory_ok] r by (auto simp: resolve_defaults_def)
qed

text \<open>C22: an address that has been suppressed is suppressed afterwards, no earlier entry is lost, and an
  unsubscription is never downgraded to a bounce or a manual entry.\<close>

theorem suppression_is_permanent:
  assumes "suppress_email env email reason actor source evidence d = Inr (entry, d')"
    "normalize_email env email = Inr n"
  shows "suppressed n d' \<and> suppressions_grow d d'"
  using suppress_email_suppressed [OF assms] suppress_email_grow [OF assms(1)] by simp

theorem suppression_is_permanent_witness:
  "\<exists>entry d'. suppress_email ex_env ''A@b.c'' ''BOUNCE'' None ''GMAIL'' [] ex_blocked_db = Inr (entry, d')
     \<and> suppressed ''a@b.c'' d'"
proof -
  have n: "normalize_email ex_env ''A@b.c'' = Inr ''a@b.c''" by (simp add: normalize_email_def ev_strings)
  obtain entry d' where r: "suppress_email ex_env ''A@b.c'' ''BOUNCE'' None ''GMAIL'' [] ex_blocked_db = Inr (entry, d')"
    using ex_suppress by blast
  show ?thesis using suppression_is_permanent [OF r n] r by blast
qed

text \<open>C23: when an organization turns into a contact, its pending campaign work is withdrawn: no message of a
  campaign to it can still be prepared, reviewed or queued, and no enrollment of it stays open.\<close>

theorem pending_work_withdrawn:
  "list_all (\<lambda>m. \<not> (m_organization m = Some org \<and> m_kind m \<in> campaign_kinds \<and> m_state m \<in> cancellable))
      (messages (snd (cancel_pending_campaign_work env org reason replied at_time d)))
   \<and> list_all (\<lambda>e. \<not> (e_organization e = org \<and> e_state e \<notin> insert E_INELIGIBLE eligibility_terminal \<and> replied \<noteq> Some (e_id e)))
      (enrollments (snd (cancel_pending_campaign_work env org reason replied at_time d)))"
  using cancel_work_messages [of _ env org reason replied at_time d]
    cancel_work_enrollments [of _ env org reason replied at_time d]
  by (auto simp: list_all_iff)

section \<open>Access and content\<close>



text \<open>C26: attachments that pass validation are PDFs of one byte to fifteen mebibytes each and seventeen mebibytes
  together.\<close>

theorem attachments_within_limits:
  assumes "validated_pdf_attachments atts content name = Inr as"
  shows "list_all (\<lambda>a. 0 < length (pdf_content a) \<and> length (pdf_content a) \<le> 15728640
            \<and> take 5 (pdf_content a) = ''%PDF-'') as
    \<and> sum_list (map (length \<circ> pdf_content) as) \<le> 17825792"
  using assms check_pdfs_Inr
  by (auto simp: validated_pdf_attachments_def Let_def bindE_eq_Inr list_all_iff MAX_PDF_BYTES_def
      MAX_SOURCE_PDF_BYTES_def split: if_splits dest!: check_pdfs_Inr)

theorem attachments_within_limits_witness:
  "sum_list (map (length \<circ> pdf_content) [\<lparr>pdf_filename = ''c.pdf'', pdf_content = ''%PDF-1''\<rparr>]) \<le> 17825792"
  using attachments_within_limits [of "[\<lparr>pdf_filename = ''c.pdf'', pdf_content = ''%PDF-1''\<rparr>]" None "''x''"]
  by (simp add: validated_pdf_attachments_def MAX_PDF_BYTES_def MAX_SOURCE_PDF_BYTES_def)




section \<open>At most one mail\<close>

text \<open>A provider that answers truthfully, whatever it answers, keeps the contract.\<close>

interpretation naive: gmail_contract naive_gmail "\<lambda>p. p"
  by unfold_locales (auto simp: naive_gmail_def naive_send_def naive_find_def)

text \<open>C3: at most one mail is sent for each message. Take any provider that keeps the contract and any interleaving
  of whole worker operations (deliveries, reconciliations, scans, retries, completions) and changes the rest of the
  application makes in between. The provider never accepts the same Message-ID twice, and each Message-ID it has
  accepted is that of an approved live message that is sending, reconciling or sent.\<close>

theorem at_most_once:
  assumes "gmail_contract G accepted" "(worker_step G)\<^sup>*\<^sup>* (d0, p0) (d, p)" "delivery_ok d0" "accepted p0 = []"
  shows "distinct (accepted p)
    \<and> list_all (\<lambda>i. \<exists>m \<in> set (messages d). m_message_id m = i \<and> m_state m \<in> in_flight
          \<and> m_delivery_mode m = LIVE \<and> approved m) (accepted p)"
proof -
  have "once_ok (accepted p0) d0" using assms(3,4) by (simp add: once_ok_def)
  then have "once_ok (accepted p) d" using gmail_contract.steps_once [OF assms(1,2)] by simp
  then show ?thesis by (auto simp: once_ok_def in_transit_def list_all_iff)
qed

theorem at_most_once_witness:
  "list_all (\<lambda>i. \<exists>m \<in> set (messages (fst (snd (deliver_message ex_env naive_gmail 30 ex_now ex_db [])))).
      m_message_id m = i \<and> m_state m \<in> in_flight \<and> m_delivery_mode m = LIVE \<and> approved m) [ex_rfc]"
proof -
  obtain res d p where r: "deliver_message ex_env naive_gmail 30 ex_now ex_db [] = (res, d, p)" by (rule prod_cases3)
  then have "worker_step naive_gmail (ex_db, []) (d, p)" by (rule worker_step.deliver) (simp add: ex_env_def)
  then have "(worker_step naive_gmail)\<^sup>*\<^sup>* (ex_db, []) (d, p)" by blast
  then show ?thesis
    using at_most_once [OF naive.gmail_contract_axioms, of ex_db "[]" d p] ex_delivery_ok(1) ex_deliver_called r by simp
qed

end
